(* ===== verification/Prelude.thy ===== *)
theory Prelude
  imports Main "HOL-Library.Word" "HOL-Library.Sublist"
begin

text \<open>
  Shared vocabulary of the development: machine integers of the Rust source with their
  saturating and wrapping operations, the byte-string operations of the standard library the
  source uses (prefix and suffix tests, split, trim, case mapping, decimal printing), and the
  generic facts on lists, options and maps that the component theories share.

  A Rust \<^verbatim>\<open>u64\<close> is a \<^typ>\<open>nat\<close> below \<open>2 ^ 64\<close>; every operation that can leave that range is
  written with \<open>sat_add\<close>, \<open>sat_sub\<close> or \<open>wrap_add\<close>.  A \<^verbatim>\<open>u32\<close> whose wrap-around matters is a
  32-bit word.  A Rust \<^verbatim>\<open>String\<close> is the list of its UTF-8 bytes, one \<^typ>\<open>char\<close> per byte.
\<close>

section \<open>Collections of facts\<close>

named_theorems u64_simps \<open>arithmetic facts of the 64-bit operations\<close>
named_theorems invariant_intros \<open>introduction rules for component invariants\<close>

section \<open>Machine integers\<close>

type_synonym u8 = "8 word"
type_synonym u32 = "32 word"
type_synonym u64 = nat
type_synonym bytes = "u8 list"

text \<open>What the code reads of time: the wall clock in seconds and in milliseconds, and the monotonic instant in milliseconds.\<close>

record clock =
  unix_now :: u64
  unix_now_ms :: u64
  instant_now :: nat

definition U64_MAX :: nat where
  "U64_MAX = 2 ^ 64 - 1"

definition I64_MAX :: nat where
  "I64_MAX = 2 ^ 63 - 1"

definition sat_add :: "nat \<Rightarrow> nat \<Rightarrow> nat" where
  "sat_add a b = (if a + b \<le> U64_MAX then a + b else U64_MAX)"

definition sat_sub :: "nat \<Rightarrow> nat \<Rightarrow> nat" where
  "sat_sub a b = (if b \<le> a then a - b else 0)"

definition wrap_add :: "nat \<Rightarrow> nat \<Rightarrow> nat" where
  "wrap_add a b = (a + b) mod (U64_MAX + 1)"

section \<open>Results\<close>

text \<open>\<^verbatim>\<open>Result<T, E>\<close> is \<open>E + T\<close>: \<open>Inl\<close> is \<^verbatim>\<open>Err\<close>, \<open>Inr\<close> is \<^verbatim>\<open>Ok\<close>.\<close>

abbreviation Err :: "'e \<Rightarrow> 'e + 'a" where "Err \<equiv> Inl"
abbreviation Ok :: "'a \<Rightarrow> 'e + 'a" where "Ok \<equiv> Inr"

fun is_ok :: "'e + 'a \<Rightarrow> bool" where
  "is_ok (Inl _) = False"
| "is_ok (Inr _) = True"

section \<open>Byte strings\<close>

definition starts_with :: "string \<Rightarrow> string \<Rightarrow> bool" where
  "starts_with s p = (take (length p) s = p)"

definition ends_with :: "string \<Rightarrow> string \<Rightarrow> bool" where
  "ends_with s p = (length p \<le> length s \<and> drop (length s - length p) s = p)"

fun contains_str :: "string \<Rightarrow> string \<Rightarrow> bool" where
  "contains_str [] p = (p = [])"
| "contains_str (c # s) p = (starts_with (c # s) p \<or> contains_str s p)"

fun split_on :: "char \<Rightarrow> string \<Rightarrow> string list" where
  "split_on d [] = [[]]"
| "split_on d (c # s) =
     (if c = d then [] # split_on d s
      else (case split_on d s of [] \<Rightarrow> [[c]] | w # ws \<Rightarrow> (c # w) # ws))"

definition replace_char :: "char \<Rightarrow> char \<Rightarrow> string \<Rightarrow> string" where
  "replace_char a b s = map (\<lambda>c. if c = a then b else c) s"

fun join_with :: "string \<Rightarrow> string list \<Rightarrow> string" where
  "join_with d [] = []"
| "join_with d [w] = w"
| "join_with d (w # ws) = w @ d @ join_with d ws"

definition ascii_lower :: "char \<Rightarrow> char" where
  "ascii_lower c = (let n = (of_char c :: nat) in
     if 65 \<le> n \<and> n \<le> 90 then char_of (n + 32) else c)"

definition ascii_upper :: "char \<Rightarrow> char" where
  "ascii_upper c = (let n = (of_char c :: nat) in
     if 97 \<le> n \<and> n \<le> 122 then char_of (n - 32) else c)"

definition to_ascii_lowercase :: "string \<Rightarrow> string" where
  "to_ascii_lowercase s = map ascii_lower s"

definition to_ascii_uppercase :: "string \<Rightarrow> string" where
  "to_ascii_uppercase s = map ascii_upper s"

text \<open>
  \<^verbatim>\<open>str::trim\<close> removes the code points with the Unicode property White\_Space.  \<open>ws_front\<close>
  gives the number of bytes of the whitespace code point a byte sequence starts with, 0 when
  it starts with none; \<open>ws_back\<close> reads the reversed bytes, so it looks at the end.
\<close>

definition byte_at :: "nat list \<Rightarrow> nat \<Rightarrow> nat" where
  "byte_at bs i = (if i < length bs then bs ! i else 256)"

definition ws_front :: "nat list \<Rightarrow> nat" where
  "ws_front bs =
     (let b = byte_at bs 0; c = byte_at bs 1; d = byte_at bs 2 in
      if (9 \<le> b \<and> b \<le> 13) \<or> b = 32 then 1
      else if b = 194 \<and> (c = 133 \<or> c = 160) then 2
      else if b = 225 \<and> c = 154 \<and> d = 128 then 3
      else if b = 226 \<and> c = 128 \<and> ((128 \<le> d \<and> d \<le> 138) \<or> d = 168 \<or> d = 169 \<or> d = 175) then 3
      else if b = 226 \<and> c = 129 \<and> d = 159 then 3
      else if b = 227 \<and> c = 128 \<and> d = 128 then 3
      else 0)"

definition ws_back :: "nat list \<Rightarrow> nat" where
  "ws_back r =
     (if r \<noteq> [] \<and> ws_front (rev (take 1 r)) = 1 then 1
      else if length r \<ge> 2 \<and> ws_front (rev (take 2 r)) = 2 then 2
      else if length r \<ge> 3 \<and> ws_front (rev (take 3 r)) = 3 then 3
      else 0)"

definition byte_vals :: "string \<Rightarrow> nat list" where
  "byte_vals s = map of_char s"

function trim_start :: "string \<Rightarrow> string" where
  "trim_start s =
     (let n = ws_front (byte_vals s) in
      if n = 0 \<or> s = [] then s else trim_start (drop n s))"
  by pat_completeness auto
termination
  by (relation "measure length") auto

function trim_end_rev :: "string \<Rightarrow> string" where
  "trim_end_rev r =
     (let n = ws_back (byte_vals r) in
      if n = 0 \<or> r = [] then r else trim_end_rev (drop n r))"
  by pat_completeness auto
termination
  by (relation "measure length") auto

definition trim :: "string \<Rightarrow> string" where
  "trim s = rev (trim_end_rev (rev (trim_start s)))"

declare trim_start.simps [simp del]
declare trim_end_rev.simps [simp del]

text \<open>Decimal printing, as \<^verbatim>\<open>format!("{n}")\<close> prints an unsigned integer.\<close>

definition digit_char :: "nat \<Rightarrow> char" where
  "digit_char d = char_of (48 + d)"

fun show_nat :: "nat \<Rightarrow> string" where
  "show_nat n = (if n < 10 then [digit_char n]
                 else show_nat (n div 10) @ [digit_char (n mod 10)])"

declare show_nat.simps [simp del]

section \<open>Association by first match and stable ordering\<close>

text \<open>\<^verbatim>\<open>Iterator::min\<close> over an iterator of integers; \<^verbatim>\<open>MIN\<close> and \<^verbatim>\<open>MAX\<close> of SQL on a column.\<close>

fun list_min :: "nat list \<Rightarrow> nat option" where
  "list_min [] = None"
| "list_min (x # xs) = (case list_min xs of None \<Rightarrow> Some x | Some m \<Rightarrow> Some (min x m))"

fun list_max :: "nat list \<Rightarrow> nat option" where
  "list_max [] = None"
| "list_max (x # xs) = (case list_max xs of None \<Rightarrow> Some x | Some m \<Rightarrow> Some (max x m))"

section \<open>Facts: integers\<close>

lemma sat_add_le_max [u64_simps]: "sat_add a b \<le> U64_MAX"
  by (simp add: sat_add_def)

lemma sat_add_exact [u64_simps]: "a + b \<le> U64_MAX \<Longrightarrow> sat_add a b = a + b"
  by (simp add: sat_add_def)

lemma sat_add_mono: "a \<le> a' \<Longrightarrow> sat_add a b \<le> sat_add a' b"
  by (simp add: sat_add_def)

lemma sat_add_ge: "a \<le> U64_MAX \<Longrightarrow> a \<le> sat_add a b"
  by (simp add: sat_add_def)

lemma sat_sub_eq [u64_simps]: "sat_sub a b = a - b"
  by (simp add: sat_sub_def)

lemma wrap_add_exact [u64_simps]: "a + b \<le> U64_MAX \<Longrightarrow> wrap_add a b = a + b"
  by (simp add: wrap_add_def)

lemma wrap_add_le_max: "wrap_add a b \<le> U64_MAX"
proof -
  have "(a + b) mod (U64_MAX + 1) < U64_MAX + 1"
    by (rule mod_less_divisor) simp
  then show ?thesis by (simp add: wrap_add_def)
qed

lemma U64_MAX_pos [simp]: "0 < U64_MAX"
  by (simp add: U64_MAX_def)

section \<open>Facts: strings\<close>

lemma starts_with_prefix: "starts_with s p \<longleftrightarrow> prefix p s"
  by (metis append_eq_conv_conj append_take_drop_id prefixE prefixI starts_with_def)

lemma ends_with_suffix: "ends_with s p \<longleftrightarrow> suffix p s"
  by (metis append_take_drop_id diff_diff_cancel diff_le_self ends_with_def length_drop
      suffixE suffixI suffix_length_le append_eq_conv_conj length_append add_diff_cancel_right')

lemma split_on_nonempty [simp]: "split_on d s \<noteq> []"
  by (induction d s rule: split_on.induct) (auto split: list.splits)

lemma split_on_no_sep: "w \<in> set (split_on d s) \<Longrightarrow> d \<notin> set w"
  by (induction d s arbitrary: w rule: split_on.induct) (auto split: list.splits if_splits)

lemma split_on_chars: "w \<in> set (split_on d s) \<Longrightarrow> set w \<subseteq> set s"
proof (induction d s arbitrary: w rule: split_on.induct)
  case (2 d c s)
  obtain v vs where "split_on d s = v # vs" using split_on_nonempty by (cases "split_on d s") auto
  then show ?case using 2(1,2) [of v] 2(1,2) [of w] 2(3) by (auto split: if_splits)
qed simp

lemma split_on_join: "join_with [d] (split_on d s) = s"
proof (induction d s rule: split_on.induct)
  case (1 d)
  then show ?case by simp
next
  case (2 d c s)
  obtain w ws where ws: "split_on d s = w # ws"
    using split_on_nonempty by (cases "split_on d s") auto
  show ?case
    using 2 ws by (cases ws) auto
qed

lemma split_on_append_sep: "split_on d (a @ d # b) = split_on d a @ split_on d b"
  by (induction a) (auto split: list.splits)

lemma split_on_single: "d \<notin> set s \<Longrightarrow> split_on d s = [s]"
  by (induction s) auto

lemma split_join_fields: "fs \<noteq> [] \<Longrightarrow> \<forall>f \<in> set fs. d \<notin> set f \<Longrightarrow> split_on d (join_with [d] fs) = fs"
  by (induction "[d]" fs rule: join_with.induct) (simp_all add: split_on_single split_on_append_sep)

lemma join_with_chars: "c \<in> set (join_with [d] fs) \<Longrightarrow> c = d \<or> (\<exists>f \<in> set fs. c \<in> set f)"
  by (induction "[d]" fs rule: join_with.induct) auto

lemma replace_char_id: "a \<notin> set s \<Longrightarrow> replace_char a b s = s"
  by (induction s) (auto simp: replace_char_def)

lemma replace_char_notin: "a \<noteq> b \<Longrightarrow> a \<notin> set (replace_char a b s)"
  by (auto simp: replace_char_def)

section \<open>Facts: lists\<close>

lemma list_min_None [simp]: "list_min xs = None \<longleftrightarrow> xs = []"
  by (cases xs) (auto split: option.splits)

lemma list_min_mem: "list_min xs = Some m \<Longrightarrow> m \<in> set xs"
  by (induction xs arbitrary: m) (auto split: option.splits if_splits simp: min_def)

lemma list_min_le: "list_min xs = Some m \<Longrightarrow> x \<in> set xs \<Longrightarrow> m \<le> x"
proof (induction xs arbitrary: m)
  case Nil
  then show ?case by simp
next
  case (Cons y ys)
  then show ?case
    by (cases "list_min ys") (auto simp: min.coboundedI2)
qed

lemma list_min_eqI:
  assumes "m \<in> set xs" and "\<And>x. x \<in> set xs \<Longrightarrow> m \<le> x"
  shows "list_min xs = Some m"
proof (cases "list_min xs")
  case None
  with assms(1) show ?thesis by simp
next
  case (Some k)
  have "m \<le> k" using assms(2) list_min_mem [OF Some] by blast
  moreover have "k \<le> m" using list_min_le [OF Some assms(1)] .
  ultimately show ?thesis using Some by simp
qed

lemma list_max_None [simp]: "list_max xs = None \<longleftrightarrow> xs = []"
  by (cases xs) (auto split: option.splits)

lemma list_max_mem: "list_max xs = Some m \<Longrightarrow> m \<in> set xs"
  by (induction xs arbitrary: m) (auto split: option.splits if_splits simp: max_def)

lemma list_max_ge: "list_max xs = Some m \<Longrightarrow> x \<in> set xs \<Longrightarrow> x \<le> m"
proof (induction xs arbitrary: m)
  case Nil
  then show ?case by simp
next
  case (Cons y ys)
  then show ?case
    by (cases "list_max ys") (auto simp: max.coboundedI2)
qed

section \<open>Facts: decimal printing\<close>

definition digit_value :: "char \<Rightarrow> nat" where
  "digit_value c = of_char c - 48"

definition read_nat :: "string \<Rightarrow> nat" where
  "read_nat s = foldl (\<lambda>n c. 10 * n + digit_value c) 0 s"

lemma digit_value_char: "d < 10 \<Longrightarrow> digit_value (digit_char d) = d"
  by (simp add: digit_value_def digit_char_def)

lemma read_show_nat: "read_nat (show_nat n) = n"
proof (induction n rule: show_nat.induct)
  case (1 n)
  show ?case
  proof (cases "n < 10")
    case True
    then show ?thesis
      by (simp add: show_nat.simps [of n] read_nat_def digit_value_char)
  next
    case False
    then have "read_nat (show_nat (n div 10)) = n div 10" using 1 by simp
    with False show ?thesis
      by (simp add: show_nat.simps [of n] read_nat_def digit_value_char)
  qed
qed

lemma show_nat_inj: "show_nat a = show_nat b \<longleftrightarrow> a = b"
  by (metis read_show_nat)

end
