(* ===== verification/Trust.thy ===== *)
theory Trust
  imports Prelude "HOL-Library.AList"
begin

text \<open>
  Trusted peers of \<^verbatim>\<open>state.rs\<close>: trust levels with their order, the rule that applies a new
  verification to a level, and the operations of \<^verbatim>\<open>AppState\<close> on the table of trusted peers.  The
  \<^verbatim>\<open>HashMap\<close> is an association list; \<open>now\<close> is the wall clock in seconds.
\<close>

section \<open>Data\<close>

datatype trust_level = LegacyPaired | SignedLinkVerified | MutualConfirmed | Frozen

datatype trust_verification_method = ManualPairing | LegacyUnsignedLink | SignedPairingLink | MutualReceipt

record trusted_peer =
  fingerprint :: string
  tp_name :: string
  paired_at :: u64
  trust_level :: trust_level
  last_verification_method :: trust_verification_method
  alias_name :: "string option"
  last_used_at :: "u64 option"
  remote_confirmation_material_seen_at :: "u64 option"
  local_confirmation_at :: "u64 option"
  mutual_confirmed_at :: "u64 option"
  frozen_at :: "u64 option"
  freeze_reason :: "string option"

type_synonym trust_table = "(string \<times> trusted_peer) list"

text \<open>The derived \<^verbatim>\<open>Ord\<close>: the order of the constructors.\<close>

fun trust_rank :: "trust_level \<Rightarrow> nat" where
  "trust_rank LegacyPaired = 0"
| "trust_rank SignedLinkVerified = 1"
| "trust_rank MutualConfirmed = 2"
| "trust_rank Frozen = 3"

instantiation trust_level :: linorder
begin

definition less_eq_trust_level :: "trust_level \<Rightarrow> trust_level \<Rightarrow> bool" where
  "less_eq_trust_level a b = (trust_rank a \<le> trust_rank b)"

definition less_trust_level :: "trust_level \<Rightarrow> trust_level \<Rightarrow> bool" where
  "less_trust_level a b = (trust_rank a < trust_rank b)"

instance
proof
  fix a b :: trust_level
  show "a \<le> b \<Longrightarrow> b \<le> a \<Longrightarrow> a = b"
    by (cases a; cases b) (simp_all add: less_eq_trust_level_def)
qed (auto simp: less_eq_trust_level_def less_trust_level_def)

end

section \<open>Operations\<close>

definition max_level :: "trust_level \<Rightarrow> trust_level \<Rightarrow> trust_level" where
  "max_level a b = (if a \<ge> b then a else b)"

definition apply_verification :: "trust_level \<Rightarrow> trust_level \<Rightarrow> trust_level" where
  "apply_verification current requested =
     (if current = Frozen \<and> requested \<noteq> Frozen then requested else max_level current requested)"

definition allows_sensitive_send :: "trust_level \<Rightarrow> bool" where
  "allows_sensitive_send l = (l \<noteq> Frozen)"

definition is_trusted :: "trust_table \<Rightarrow> string \<Rightarrow> bool" where
  "is_trusted tbl fp = (map_of tbl fp \<noteq> None)"

definition is_active_trust :: "trust_table \<Rightarrow> string \<Rightarrow> bool" where
  "is_active_trust tbl fp =
     (case map_of tbl fp of Some p \<Rightarrow> allows_sensitive_send (trust_level p) | None \<Rightarrow> False)"

definition add_trust :: "u64 \<Rightarrow> string \<Rightarrow> string \<Rightarrow> trust_table \<Rightarrow> trust_table" where
  "add_trust now fp nm tbl =
     (case map_of tbl fp of
        Some p \<Rightarrow> AList.update fp
          (p\<lparr>tp_name := nm,
             paired_at := (if paired_at p = 0 then now else paired_at p),
             local_confirmation_at :=
               (case local_confirmation_at p of None \<Rightarrow> Some now | Some t \<Rightarrow> Some t)\<rparr>) tbl
      | None \<Rightarrow> AList.update fp
          \<lparr>fingerprint = fp, tp_name = nm, paired_at = now, trust_level = LegacyPaired,
           last_verification_method = ManualPairing, alias_name = None, last_used_at = None,
           remote_confirmation_material_seen_at = None, local_confirmation_at = Some now,
           mutual_confirmed_at = None, frozen_at = None, freeze_reason = None\<rparr> tbl)"

definition trust_level_for :: "trust_table \<Rightarrow> string \<Rightarrow> trust_level option" where
  "trust_level_for tbl fp = map_option trust_level (map_of tbl fp)"

definition freeze_trusted_peer ::
    "string \<Rightarrow> string \<Rightarrow> u64 \<Rightarrow> trust_table \<Rightarrow> trust_table \<times> trusted_peer option" where
  "freeze_trusted_peer fp reason at tbl =
     (case map_of tbl fp of
        None \<Rightarrow> (tbl, None)
      | Some p \<Rightarrow>
          (let p' = p\<lparr>trust_level := Frozen, frozen_at := Some at, freeze_reason := Some reason\<rparr>
           in (AList.update fp p' tbl, Some p')))"

definition mark_peer_used :: "u64 \<Rightarrow> string \<Rightarrow> trust_table \<Rightarrow> trust_table" where
  "mark_peer_used now fp tbl =
     (case map_of tbl fp of
        Some p \<Rightarrow> AList.update fp (p\<lparr>last_used_at := Some now\<rparr>) tbl
      | None \<Rightarrow> tbl)"

text \<open>The operations the application performs on the table outside of pairing.\<close>

datatype trust_op = AddTrust u64 string string | FreezePeer string string u64 | MarkUsed u64 string

fun trust_step :: "trust_table \<Rightarrow> trust_op \<Rightarrow> trust_table" where
  "trust_step tbl (AddTrust now fp nm) = add_trust now fp nm tbl"
| "trust_step tbl (FreezePeer fp reason at) = fst (freeze_trusted_peer fp reason at tbl)"
| "trust_step tbl (MarkUsed now fp) = mark_peer_used now fp tbl"

section \<open>Facts\<close>

lemma trust_level_for_step:
  "trust_level_for (trust_step tbl op) fp =
     (case op of
        AddTrust now f nm \<Rightarrow>
          if f = fp \<and> trust_level_for tbl fp = None then Some LegacyPaired else trust_level_for tbl fp
      | FreezePeer f reason at \<Rightarrow>
          if f = fp \<and> trust_level_for tbl fp \<noteq> None then Some Frozen else trust_level_for tbl fp
      | MarkUsed now f \<Rightarrow> trust_level_for tbl fp)"
  by (cases op)
     (auto simp: trust_level_for_def add_trust_def freeze_trusted_peer_def mark_peer_used_def update_conv'
       Let_def split: option.splits)

lemma trust_steps_frozen:
  "trust_level_for tbl fp = Some Frozen \<Longrightarrow> trust_level_for (foldl trust_step tbl ops) fp = Some Frozen"
proof (induction ops arbitrary: tbl)
  case (Cons op ops)
  have "trust_level_for (trust_step tbl op) fp = Some Frozen"
    using Cons.prems by (simp add: trust_level_for_step split: trust_op.split)
  then show ?case using Cons.IH by simp
qed simp

lemma is_active_trust_iff:
  "is_active_trust tbl fp \<longleftrightarrow> (\<exists>l. trust_level_for tbl fp = Some l \<and> l \<noteq> Frozen)"
  by (auto simp: is_active_trust_def trust_level_for_def allows_sensitive_send_def split: option.split)

section \<open>Properties\<close>

text \<open>
  A frozen peer stays frozen.  Once a trusted peer has been frozen, no sequence of adding trust
  by hand, freezing and use makes it active again: only a new verification can.
\<close>

theorem frozen_peer_stays_inactive:
  assumes "is_trusted tbl fp"
  shows "is_trusted (foldl trust_step (fst (freeze_trusted_peer fp reason at tbl)) ops) fp \<and>
    \<not> is_active_trust (foldl trust_step (fst (freeze_trusted_peer fp reason at tbl)) ops) fp"
proof -
  have "trust_level_for (fst (freeze_trusted_peer fp reason at tbl)) fp = Some Frozen"
    using assms by (auto simp: is_trusted_def trust_level_for_def freeze_trusted_peer_def update_conv' Let_def)
  from trust_steps_frozen [OF this, of ops] show ?thesis
    by (auto simp: is_active_trust_iff is_trusted_def trust_level_for_def)
qed

theorem frozen_peer_stays_inactive_witness:
  "\<not> is_active_trust (foldl trust_step
       (fst (freeze_trusted_peer ''fp'' ''mismatch'' 9 (add_trust 1 ''fp'' ''laptop'' []))) [AddTrust 10 ''fp'' ''laptop'']) ''fp''"
proof -
  have "is_trusted (add_trust 1 ''fp'' ''laptop'' []) ''fp''"
    by (simp add: is_trusted_def add_trust_def)
  from frozen_peer_stays_inactive [OF this] show ?thesis by blast
qed

text \<open>
  A verification never lowers trust and is the only way out of the frozen state: the resulting
  level is at least the requested one, at least the current one unless that was frozen, and frozen
  exactly when the request is.
\<close>

theorem apply_verification_monotone:
  "requested \<le> apply_verification current requested
   \<and> (current = Frozen \<or> current \<le> apply_verification current requested)
   \<and> (apply_verification current requested = Frozen \<longleftrightarrow> requested = Frozen)"
  by (cases current; cases requested)
     (simp_all add: apply_verification_def max_level_def less_eq_trust_level_def)

end
