(* ===== verification/Discovery.thy ===== *)
theory Discovery
  imports Trust
begin

text \<open>
  Device discovery: the device table of \<^verbatim>\<open>state.rs\<close>, the mDNS browser (\<^verbatim>\<open>discovery/browser.rs\<close>) and the
  reception of UDP beacons (\<^verbatim>\<open>discovery/beacon.rs\<close>).  Each handler is a function on \<open>discovery_state\<close>;
  the tasks the code spawns (deferred removals, probes) are operations of their own, so that a sequence
  of operations describes any order of them.  A handler is one step: the code updates the devices and the
  session index under two locks, one after the other, and what another task could see or do between the two is
  not modelled.  Hash maps are association lists.  Where the code
  stores an address as text, the model stores the address.
\<close>

section \<open>Addresses\<close>

datatype ip_addr = IPv4 "32 word" | IPv6 "128 word"

datatype socket_addr = SockV4 "32 word" nat | SockV6 "128 word" nat nat

fun addr_ip :: "socket_addr \<Rightarrow> ip_addr" where
  "addr_ip (SockV4 a p) = IPv4 a"
| "addr_ip (SockV6 a p s) = IPv6 a"

fun socket_addr_new :: "ip_addr \<Rightarrow> nat \<Rightarrow> socket_addr" where
  "socket_addr_new (IPv4 a) p = SockV4 a p"
| "socket_addr_new (IPv6 a) p = SockV6 a p 0"

fun is_loopback :: "ip_addr \<Rightarrow> bool" where
  "is_loopback (IPv4 a) = (drop_bit 24 a = 127)"
| "is_loopback (IPv6 a) = (a = 1)"

fun is_unspecified :: "ip_addr \<Rightarrow> bool" where
  "is_unspecified (IPv4 a) = (a = 0)"
| "is_unspecified (IPv6 a) = (a = 0)"

fun is_multicast :: "ip_addr \<Rightarrow> bool" where
  "is_multicast (IPv4 a) = (drop_bit 28 a = 14)"
| "is_multicast (IPv6 a) = (drop_bit 120 a = 255)"

definition is_unicast_link_local :: "128 word \<Rightarrow> bool" where
  "is_unicast_link_local a = (drop_bit 118 a = 1018)"

definition is_usable_peer_addr :: "socket_addr \<Rightarrow> bool" where
  "is_usable_peer_addr a = (\<not> (is_loopback (addr_ip a) \<or> is_unspecified (addr_ip a) \<or> is_multicast (addr_ip a)))"

fun is_ipv4 :: "socket_addr \<Rightarrow> bool" where
  "is_ipv4 (SockV4 a p) = True"
| "is_ipv4 (SockV6 a p s) = False"

fun is_connectable_addr :: "socket_addr \<Rightarrow> bool" where
  "is_connectable_addr (SockV4 a p) = True"
| "is_connectable_addr (SockV6 a p s) = (\<not> (is_unicast_link_local a \<and> s = 0))"

text \<open>\<^verbatim>\<open>retain(|a| seen.insert(*a))\<close>: the first occurrence of each element stays.\<close>

fun retain_unseen :: "'a list \<Rightarrow> 'a list \<Rightarrow> 'a list" where
  "retain_unseen seen [] = []"
| "retain_unseen seen (x # xs) =
     (if x \<in> set seen then retain_unseen seen xs else x # retain_unseen (x # seen) xs)"

definition sort_dedupe_addrs :: "socket_addr list \<Rightarrow> socket_addr list" where
  "sort_dedupe_addrs addrs = retain_unseen [] (sort_key (\<lambda>a. if is_ipv4 a then 0 else 1 :: nat) addrs)"

definition prefer_connectable :: "socket_addr list \<Rightarrow> socket_addr list" where
  "prefer_connectable addrs = (let good = filter is_connectable_addr addrs in if good = [] then addrs else good)"

definition select_probe_addrs :: "socket_addr list \<Rightarrow> socket_addr list" where
  "select_probe_addrs addrs = prefer_connectable (sort_dedupe_addrs addrs)"

section \<open>Devices\<close>

datatype platform = Mac | Windows | Linux | Android | Ios | UnknownPlatform

definition platform_from :: "string \<Rightarrow> platform" where
  "platform_from s =
     (let l = to_ascii_lowercase s in
      if l = ''mac'' \<or> l = ''macos'' then Mac
      else if l = ''win'' \<or> l = ''windows'' then Windows
      else if l = ''linux'' then Linux
      else if l = ''android'' then Android
      else if l = ''ios'' then Ios
      else UnknownPlatform)"

datatype reachability = Discovered | Reachable | OfflineCandidate | Offline

record session_info =
  ss_id :: string
  ss_addrs :: "socket_addr list"
  ss_last_seen_unix :: u64
  ss_last_seen_instant :: nat

record device_info =
  dv_fingerprint :: string
  dv_name :: string
  dv_platform :: platform
  dv_trusted :: bool
  dv_sessions :: "(string \<times> session_info) list"
  dv_last_seen :: u64
  dv_reachability :: reachability
  dv_probe_fail_count :: nat
  dv_last_probe_at :: "u64 option"
  dv_last_probe_result :: "string option"
  dv_last_probe_error :: "string option"
  dv_last_probe_error_detail :: "string option"
  dv_last_probe_addr :: "socket_addr option"
  dv_last_probe_attempted_addrs :: "socket_addr list"
  dv_last_resolve_raw_addr_count :: nat
  dv_last_resolve_usable_addr_count :: nat
  dv_last_resolve_hostname :: "string option"
  dv_last_resolve_port :: "nat option"
  dv_last_resolve_at :: "u64 option"

record index_entry =
  ix_fingerprint :: string
  ix_session_id :: string

record session_view =
  sv_session_id :: string
  sv_addrs :: "socket_addr list"
  sv_last_seen_unix :: u64

record device_view =
  vw_fingerprint :: string
  vw_name :: string
  vw_platform :: platform
  vw_trusted :: bool
  vw_sessions :: "(string \<times> session_view) list"
  vw_last_seen :: u64
  vw_reachability :: reachability
  vw_probe_fail_count :: nat
  vw_last_probe_at :: "u64 option"

definition session_view_of :: "session_info \<Rightarrow> session_view" where
  "session_view_of s = \<lparr>sv_session_id = ss_id s, sv_addrs = ss_addrs s, sv_last_seen_unix = ss_last_seen_unix s\<rparr>"

definition device_view_of :: "device_info \<Rightarrow> device_view" where
  "device_view_of d =
     \<lparr>vw_fingerprint = dv_fingerprint d, vw_name = dv_name d, vw_platform = dv_platform d, vw_trusted = dv_trusted d,
      vw_sessions = map (\<lambda>(k, s). (k, session_view_of s)) (dv_sessions d), vw_last_seen = dv_last_seen d,
      vw_reachability = dv_reachability d, vw_probe_fail_count = dv_probe_fail_count d,
      vw_last_probe_at = dv_last_probe_at d\<rparr>"

text \<open>Address candidates over all sessions, the newest sessions first.\<close>

definition best_addrs :: "device_info \<Rightarrow> socket_addr list option" where
  "best_addrs d =
     (let ordered = sort_key (\<lambda>s. - int (ss_last_seen_unix s)) (map snd (dv_sessions d));
          addrs = retain_unseen [] (concat (map ss_addrs ordered))
      in if addrs = [] then None else Some (prefer_connectable addrs))"

section \<open>State\<close>

datatype device_event = DeviceDiscovered device_view | DeviceUpdated device_view | DeviceLost string

record discovery_state =
  devices :: "(string \<times> device_info) list"
  session_index :: "(string \<times> index_entry) list"
  pending_removed :: "string list"
  event_counts :: "(string \<times> u64) list"
  failure_counts :: "(string \<times> u64) list"
  slo_devices :: "(string \<times> u64 option \<times> u64 option) list"
  device_log :: "device_event list"

definition bump_counter :: "string \<Rightarrow> (string \<times> u64) list \<Rightarrow> (string \<times> u64) list" where
  "bump_counter key counts =
     AList.update key (sat_add (case map_of counts key of Some n \<Rightarrow> n | None \<Rightarrow> 0) 1) counts"

definition bump_discovery_event :: "string \<Rightarrow> discovery_state \<Rightarrow> discovery_state" where
  "bump_discovery_event key ds = ds\<lparr>event_counts := bump_counter key (event_counts ds)\<rparr>"

definition bump_discovery_failure :: "string \<Rightarrow> discovery_state \<Rightarrow> discovery_state" where
  "bump_discovery_failure key ds = ds\<lparr>failure_counts := bump_counter key (failure_counts ds)\<rparr>"

definition emit_device :: "device_event \<Rightarrow> discovery_state \<Rightarrow> discovery_state" where
  "emit_device e ds = ds\<lparr>device_log := device_log ds @ [e]\<rparr>"

definition record_device_visibility :: "clock \<Rightarrow> string \<Rightarrow> discovery_state \<Rightarrow> discovery_state" where
  "record_device_visibility clk fp ds =
     (let (online, seen) = (case map_of (slo_devices ds) fp of Some e \<Rightarrow> e | None \<Rightarrow> (None, None));
          first = (\<lambda>slot. case slot of None \<Rightarrow> Some (unix_now_ms clk) | Some t \<Rightarrow> Some t)
      in ds\<lparr>slo_devices := AList.update fp (first online, first seen) (slo_devices ds)\<rparr>)"

section \<open>Timing rules\<close>

definition OFFLINE_GRACE_SECS :: u64 where "OFFLINE_GRACE_SECS = 15"
definition DEVICE_LOST_RETENTION_SECS :: u64 where "DEVICE_LOST_RETENTION_SECS = 45"
definition SESSION_STALE_SECS :: u64 where "SESSION_STALE_SECS = 90"

definition should_apply_deferred_remove :: "u64 \<Rightarrow> u64 \<Rightarrow> u64 \<Rightarrow> bool" where
  "should_apply_deferred_remove current_last_seen observed_last_seen now =
     (current_last_seen \<le> observed_last_seen \<and> sat_sub now current_last_seen \<ge> OFFLINE_GRACE_SECS)"

text \<open>Instants and elapsed times are in milliseconds.\<close>

definition is_session_stale :: "nat \<Rightarrow> bool" where
  "is_session_stale elapsed = (elapsed \<ge> SESSION_STALE_SECS * 1000)"

definition pending_remove_key :: "string \<Rightarrow> string \<Rightarrow> string" where
  "pending_remove_key fp session_id = fp @ ''|'' @ session_id"

definition should_mark_offline :: "device_info \<Rightarrow> u64 \<Rightarrow> bool" where
  "should_mark_offline d now =
     (dv_sessions d = [] \<and> dv_reachability d = OfflineCandidate \<and> sat_sub now (dv_last_seen d) \<ge> OFFLINE_GRACE_SECS)"

definition should_emit_device_lost :: "device_info \<Rightarrow> u64 \<Rightarrow> bool" where
  "should_emit_device_lost d now =
     (dv_sessions d = [] \<and> dv_reachability d = Offline \<and> sat_sub now (dv_last_seen d) \<ge> DEVICE_LOST_RETENTION_SECS)"

definition classify_probe_error :: "string \<Rightarrow> string \<times> string" where
  "classify_probe_error detail =
     (let s = to_ascii_lowercase detail in
      if contains_str s ''timeout'' \<or> contains_str s ''timed out'' then (''probe_timeout'', ''timeout'')
      else if contains_str s ''handshake'' then (''probe_handshake'', ''handshake'')
      else if contains_str s ''refused'' \<or> contains_str s ''unreachable'' \<or> contains_str s ''invalid remote address''
      then (''probe_connect'', ''connect'')
      else (''probe_other'', ''other''))"

section \<open>Sessions and their index\<close>

text \<open>
  A device was seen: it is created if unknown, its session is replaced, and it is no longer offline.
  The browser and the beacon contain the same code.
\<close>

definition new_device :: "string \<Rightarrow> string \<Rightarrow> platform \<Rightarrow> bool \<Rightarrow> device_info" where
  "new_device fp nm plat trusted =
     \<lparr>dv_fingerprint = fp, dv_name = nm, dv_platform = plat, dv_trusted = trusted, dv_sessions = [], dv_last_seen = 0,
      dv_reachability = Discovered, dv_probe_fail_count = 0, dv_last_probe_at = None, dv_last_probe_result = None,
      dv_last_probe_error = None, dv_last_probe_error_detail = None, dv_last_probe_addr = None,
      dv_last_probe_attempted_addrs = [], dv_last_resolve_raw_addr_count = 0, dv_last_resolve_usable_addr_count = 0,
      dv_last_resolve_hostname = None, dv_last_resolve_port = None, dv_last_resolve_at = None\<rparr>"

definition see_device ::
    "clock \<Rightarrow> bool \<Rightarrow> string \<Rightarrow> socket_addr list \<Rightarrow> nat \<Rightarrow> nat \<Rightarrow> string \<Rightarrow> nat \<Rightarrow> device_info \<Rightarrow> device_info" where
  "see_device clk trusted sid addrs raw usable hostname port d =
     (let d1 = d\<lparr>dv_sessions := AList.update sid
                   \<lparr>ss_id = sid, ss_addrs = addrs, ss_last_seen_unix = unix_now clk, ss_last_seen_instant = instant_now clk\<rparr>
                   (dv_sessions d),
                 dv_trusted := trusted, dv_last_seen := unix_now clk,
                 dv_last_resolve_raw_addr_count := raw, dv_last_resolve_usable_addr_count := usable,
                 dv_last_resolve_hostname := Some hostname, dv_last_resolve_port := Some port,
                 dv_last_resolve_at := Some (unix_now clk)\<rparr>
      in if dv_sessions d1 \<noteq> [] \<and> (dv_reachability d1 = Offline \<or> dv_reachability d1 = OfflineCandidate)
         then d1\<lparr>dv_reachability := Discovered\<rparr> else d1)"

text \<open>Storing a sighting: device table, index under the given keys, visibility and the event.\<close>

definition upsert_device ::
    "clock \<Rightarrow> trust_table \<Rightarrow> string \<Rightarrow> string \<Rightarrow> platform \<Rightarrow> string \<Rightarrow> string list \<Rightarrow> socket_addr list \<Rightarrow>
     nat \<Rightarrow> nat \<Rightarrow> string \<Rightarrow> nat \<Rightarrow> discovery_state \<Rightarrow> discovery_state" where
  "upsert_device clk tbl fp nm plat sid keys addrs raw usable hostname port ds =
     (let trusted = is_trusted tbl fp;
          is_new = (map_of (devices ds) fp = None);
          d = see_device clk trusted sid addrs raw usable hostname port
                (case map_of (devices ds) fp of Some d0 \<Rightarrow> d0 | None \<Rightarrow> new_device fp nm plat trusted);
          entry = \<lparr>ix_fingerprint = fp, ix_session_id = sid\<rparr>;
          ds1 = ds\<lparr>devices := AList.update fp d (devices ds),
                   session_index := fold (\<lambda>k. AList.update k entry) keys (session_index ds)\<rparr>;
          view = device_view_of d
      in emit_device (if is_new then DeviceDiscovered view else DeviceUpdated view)
           (record_device_visibility clk fp ds1))"

text \<open>Looking up a session by a removal key, and taking the session out.\<close>

definition find_index_entry :: "string \<Rightarrow> (string \<times> index_entry) list \<Rightarrow> index_entry option" where
  "find_index_entry key index =
     (case map_of index key of
        Some e \<Rightarrow> Some e
      | None \<Rightarrow> find (\<lambda>e. ix_session_id e = key) (map snd index))"

definition drop_session :: "string \<Rightarrow> device_info \<Rightarrow> device_info" where
  "drop_session sid d =
     (let d1 = d\<lparr>dv_sessions := AList.delete sid (dv_sessions d)\<rparr>
      in if dv_sessions d1 = [] then d1\<lparr>dv_reachability := OfflineCandidate\<rparr> else d1)"

definition remove_session_from_state ::
    "string \<Rightarrow> discovery_state \<Rightarrow> (discovery_state \<times> string \<times> bool \<times> device_info option) option" where
  "remove_session_from_state key ds =
     (case find_index_entry key (session_index ds) of
        None \<Rightarrow> None
      | Some e \<Rightarrow>
          (let fp = ix_fingerprint e; sid = ix_session_id e;
               ds1 = ds\<lparr>session_index := filter (\<lambda>(k, v). ix_session_id v \<noteq> sid) (session_index ds)\<rparr>
           in case map_of (devices ds) fp of
                None \<Rightarrow> Some (ds1, fp, False, None)
              | Some d \<Rightarrow>
                  (let d1 = drop_session sid d
                   in Some (ds1\<lparr>devices := AList.update fp d1 (devices ds)\<rparr>, fp, False, Some d1))))"

section \<open>The mDNS browser\<close>

record service_info =
  si_properties :: "(string \<times> string) list"
  si_fullname :: string
  si_hostname :: string
  si_port :: nat
  si_addresses :: "ip_addr list"

datatype hostname_event = AddressesFound "ip_addr list" | SearchEnded | OtherHostnameEvent | RecvFailed | JoinFailed

datatype hostname_lookup = NoDaemon | LookupFailed | LookupEvents "hostname_event list"

text \<open>The events of a hostname lookup until its deadline.\<close>

fun collect_hostname :: "nat \<Rightarrow> hostname_event list \<Rightarrow> discovery_state \<Rightarrow> discovery_state \<times> socket_addr list" where
  "collect_hostname port [] ds = (ds, [])"
| "collect_hostname port (AddressesFound found # evs) ds =
     (let addrs = filter is_usable_peer_addr (map (\<lambda>ip. socket_addr_new ip port) found)
      in if addrs \<noteq> [] then (ds, addrs) else collect_hostname port evs ds)"
| "collect_hostname port (SearchEnded # evs) ds = (ds, [])"
| "collect_hostname port (OtherHostnameEvent # evs) ds = collect_hostname port evs ds"
| "collect_hostname port (RecvFailed # evs) ds = (ds, [])"
| "collect_hostname port (JoinFailed # evs) ds = (bump_discovery_failure ''hostname_mdns_resolve_join_error'' ds, [])"

fun resolve_hostname_with_mdns ::
    "nat \<Rightarrow> hostname_lookup \<Rightarrow> discovery_state \<Rightarrow> discovery_state \<times> socket_addr list" where
  "resolve_hostname_with_mdns port NoDaemon ds = (ds, [])"
| "resolve_hostname_with_mdns port LookupFailed ds =
     (bump_discovery_failure ''hostname_mdns_resolve_start_failed'' ds, [])"
| "resolve_hostname_with_mdns port (LookupEvents evs) ds =
     (let (ds1, found) = collect_hostname port evs ds; addrs = sort_dedupe_addrs found
      in if addrs = [] then (bump_discovery_failure ''hostname_mdns_resolve_no_usable_addr'' ds1, [])
         else (ds1, addrs))"

definition resolve_hostname_with_system_dns :: "socket_addr list option \<Rightarrow> socket_addr list" where
  "resolve_hostname_with_system_dns answer =
     sort_dedupe_addrs (case answer of Some extra \<Rightarrow> filter is_usable_peer_addr extra | None \<Rightarrow> [])"

definition nonempty_property :: "string \<Rightarrow> service_info \<Rightarrow> string \<Rightarrow> string" where
  "nonempty_property key info fallback =
     (case map_of (si_properties info) key of
        Some v \<Rightarrow> (if v = '''' then fallback else v)
      | None \<Rightarrow> fallback)"

text \<open>
  The addresses of a resolved service: those advertised, or those of its hostname.
\<close>

definition resolve_addrs ::
    "service_info \<Rightarrow> hostname_lookup \<Rightarrow> socket_addr list option \<Rightarrow> discovery_state \<Rightarrow> discovery_state \<times> socket_addr list" where
  "resolve_addrs info lookup dns ds =
     (let port = si_port info;
          raw = map (\<lambda>ip. socket_addr_new ip port) (si_addresses info);
          direct = filter is_usable_peer_addr raw;
          (ds1, a1) = (if direct = []
             then resolve_hostname_with_mdns port lookup (bump_discovery_event ''resolved_empty_addr_set'' ds)
             else (ds, direct));
          a2 = (if a1 = [] then resolve_hostname_with_system_dns dns else a1);
          ds2 = (if a1 \<noteq> [] then ds1
                 else if a2 \<noteq> [] then bump_discovery_event ''resolved_addr_via_system_dns'' ds1
                 else bump_discovery_failure ''resolved_no_usable_addrs'' ds1);
          addrs = sort_dedupe_addrs a2
      in (if addrs = [] then bump_discovery_event ''resolved_kept_without_addrs'' ds2 else ds2, addrs))"

text \<open>
  \<open>handle_resolved\<close> returns the probe it starts, the fingerprint with its addresses.
\<close>

definition handle_resolved ::
    "clock \<Rightarrow> trust_table \<Rightarrow> string \<Rightarrow> service_info \<Rightarrow> hostname_lookup \<Rightarrow> socket_addr list option \<Rightarrow>
     discovery_state \<Rightarrow> discovery_state \<times> (string \<times> socket_addr list) option" where
  "handle_resolved clk tbl own_fp info lookup dns ds =
     (case map_of (si_properties info) ''fp'' of
        None \<Rightarrow> (bump_discovery_failure ''resolved_missing_fp_txt'' ds, None)
      | Some fp \<Rightarrow>
          (if fp = '''' then (bump_discovery_failure ''resolved_empty_fp_txt'' ds, None)
           else if fp = own_fp then (bump_discovery_event ''resolved_self_filtered'' ds, None)
           else
             (let sid = nonempty_property ''id'' info (si_fullname info);
                  nm = nonempty_property ''name'' info (si_hostname info);
                  plat = (case map_of (si_properties info) ''platform'' of Some v \<Rightarrow> platform_from v | None \<Rightarrow> UnknownPlatform);
                  (ds1, addrs) = resolve_addrs info lookup dns ds;
                  ds2 = upsert_device clk tbl fp nm plat sid [sid, si_fullname info] addrs
                          (length (si_addresses info)) (length addrs) (si_hostname info) (si_port info) ds1
              in (ds2, if addrs = [] then None else Some (fp, addrs)))))"


text \<open>
  A service went away: the removal is deferred by \<open>OFFLINE_GRACE_SECS\<close>.  The result names the deferred
  task: fingerprint, session and the time the session had last been seen.
\<close>

definition handle_removed ::
    "string \<Rightarrow> discovery_state \<Rightarrow> discovery_state \<times> (string \<times> string \<times> u64) option" where
  "handle_removed key ds =
     (case find_index_entry key (session_index ds) of
        None \<Rightarrow> (bump_discovery_failure ''service_removed_without_index_entry'' ds, None)
      | Some e \<Rightarrow>
          (let fp = ix_fingerprint e; sid = ix_session_id e in
           case Option.bind (map_of (devices ds) fp) (\<lambda>d. map_of (dv_sessions d) sid) of
             None \<Rightarrow> (bump_discovery_failure ''service_removed_without_session'' ds, None)
           | Some s \<Rightarrow>
               (let pk = pending_remove_key fp sid in
                if pk \<in> set (pending_removed ds)
                then (bump_discovery_event ''service_removed_deferred_duplicate'' ds, None)
                else (bump_discovery_event ''service_removed_deferred'' (ds\<lparr>pending_removed := pk # pending_removed ds\<rparr>),
                      Some (fp, sid, ss_last_seen_unix s)))))"

text \<open>The deferred task after the grace period.\<close>

definition apply_deferred_remove :: "clock \<Rightarrow> string \<Rightarrow> string \<Rightarrow> u64 \<Rightarrow> discovery_state \<Rightarrow> discovery_state" where
  "apply_deferred_remove clk fp sid observed ds =
     (let current = Option.bind (map_of (devices ds) fp) (\<lambda>d. map_of (dv_sessions d) sid);
          should_remove = (case current of
             Some s \<Rightarrow> should_apply_deferred_remove (ss_last_seen_unix s) observed (unix_now clk) | None \<Rightarrow> False);
          refreshed = (case current of Some s \<Rightarrow> \<not> should_remove \<and> ss_last_seen_unix s > observed | None \<Rightarrow> False);
          removed = (if should_remove then remove_session_from_state sid ds else None);
          ds1 = (case removed of
                   Some (ds', rfp, gone, upd) \<Rightarrow>
                     (let ds'' = bump_discovery_event ''service_removed_applied'' ds'
                      in if gone then emit_device (DeviceLost rfp) ds''
                         else (case upd of Some d \<Rightarrow> emit_device (DeviceUpdated (device_view_of d)) ds'' | None \<Rightarrow> ds''))
                 | None \<Rightarrow>
                     bump_discovery_event
                       (if refreshed then ''service_removed_skipped_refreshed'' else ''service_removed_skipped_stale'') ds)
      in ds1\<lparr>pending_removed := removeAll (pending_remove_key fp sid) (pending_removed ds1)\<rparr>)"

subsection \<open>The offline loop\<close>

definition stale_sessions :: "clock \<Rightarrow> device_info \<Rightarrow> string list" where
  "stale_sessions clk d =
     map fst (filter (\<lambda>(sid, s). is_session_stale (instant_now clk - ss_last_seen_instant s)) (dv_sessions d))"

definition prune_sessions :: "clock \<Rightarrow> device_info \<Rightarrow> device_info" where
  "prune_sessions clk d =
     (let stale = stale_sessions clk d in
      if stale = [] then d
      else
        (let d1 = d\<lparr>dv_sessions := filter (\<lambda>(sid, s). sid \<notin> set stale) (dv_sessions d)\<rparr>
         in if dv_sessions d1 = [] then d1\<lparr>dv_reachability := OfflineCandidate\<rparr> else d1))"

definition mark_offline :: "clock \<Rightarrow> device_info \<Rightarrow> device_info" where
  "mark_offline clk d = (if should_mark_offline d (unix_now clk) then d\<lparr>dv_reachability := Offline\<rparr> else d)"

definition tick_updates :: "clock \<Rightarrow> device_info \<Rightarrow> device_event list" where
  "tick_updates clk d =
     (let d1 = prune_sessions clk d in
      (if stale_sessions clk d \<noteq> [] then [DeviceUpdated (device_view_of d1)] else []) @
      (if should_mark_offline d1 (unix_now clk) then [DeviceUpdated (device_view_of (mark_offline clk d1))] else []))"

definition pruned_pairs :: "clock \<Rightarrow> discovery_state \<Rightarrow> (string \<times> string) list" where
  "pruned_pairs clk ds = concat (map (\<lambda>(fp, d). map (\<lambda>sid. (dv_fingerprint d, sid)) (stale_sessions clk d)) (devices ds))"

definition swept_devices :: "clock \<Rightarrow> discovery_state \<Rightarrow> (string \<times> device_info) list" where
  "swept_devices clk ds = map (\<lambda>(fp, d). (fp, mark_offline clk (prune_sessions clk d))) (devices ds)"

definition lost_devices :: "clock \<Rightarrow> discovery_state \<Rightarrow> string list" where
  "lost_devices clk ds = map fst (filter (\<lambda>(fp, d). should_emit_device_lost d (unix_now clk)) (swept_devices clk ds))"

definition offline_tick :: "clock \<Rightarrow> discovery_state \<Rightarrow> discovery_state" where
  "offline_tick clk ds =
     (let updates = concat (map (\<lambda>(fp, d). tick_updates clk d) (devices ds));
          pruned = pruned_pairs clk ds;
          lost = lost_devices clk ds;
          ds1 = ds\<lparr>devices := filter (\<lambda>(fp, d). fp \<notin> set lost) (swept_devices clk ds),
                   session_index := (if pruned = [] \<and> lost = [] then session_index ds
                     else filter (\<lambda>(k, e). ix_fingerprint e \<notin> set lost \<and>
                            (ix_fingerprint e, ix_session_id e) \<notin> set pruned) (session_index ds)),
                   device_log := device_log ds @ updates @ map DeviceLost lost\<rparr>
      in if pruned \<noteq> [] then bump_discovery_event ''stale_session_pruned'' ds1 else ds1)"

section \<open>Probes\<close>

text \<open>The addresses in turn until one answers; \<open>probe\<close> gives the result for each.\<close>

fun probe_each ::
    "(socket_addr \<Rightarrow> string + unit) \<Rightarrow> socket_addr list \<Rightarrow> (string \<times> string \<times> socket_addr) option \<Rightarrow> discovery_state \<Rightarrow>
     discovery_state \<times> socket_addr option \<times> (string \<times> string \<times> socket_addr) option" where
  "probe_each probe [] last_error ds = (ds, None, last_error)"
| "probe_each probe (a # as) last_error ds =
     (case probe a of
        Inr _ \<Rightarrow> (ds, Some a, last_error)
      | Inl detail \<Rightarrow>
          (case classify_probe_error detail of (counter_key, reason) \<Rightarrow>
             probe_each probe as (Some (reason, detail, a)) (bump_discovery_failure counter_key ds)))"

definition U32_MAX_COUNT :: nat where "U32_MAX_COUNT = 2 ^ 32 - 1"

definition probe_outcome ::
    "u64 \<Rightarrow> socket_addr list \<Rightarrow> socket_addr option \<Rightarrow> (string \<times> string \<times> socket_addr) option \<Rightarrow> device_info \<Rightarrow> device_info" where
  "probe_outcome now attempted success last_error d =
     (let d1 = d\<lparr>dv_last_probe_at := Some now, dv_last_probe_attempted_addrs := attempted\<rparr> in
      case success of
        Some a \<Rightarrow>
          d1\<lparr>dv_reachability := Reachable, dv_probe_fail_count := 0, dv_last_probe_result := Some ''ok'',
             dv_last_probe_error := None, dv_last_probe_error_detail := None, dv_last_probe_addr := Some a\<rparr>
      | None \<Rightarrow>
          (let fails = min U32_MAX_COUNT (dv_probe_fail_count d + 1);
               reach = (if fails \<ge> 3 then OfflineCandidate
                        else if dv_reachability d = Offline \<or> dv_reachability d = OfflineCandidate then Discovered
                        else dv_reachability d)
           in d1\<lparr>dv_probe_fail_count := fails, dv_reachability := reach, dv_last_probe_result := Some ''failed'',
                 dv_last_probe_error := map_option fst last_error,
                 dv_last_probe_error_detail := map_option (fst \<circ> snd) last_error,
                 dv_last_probe_addr := map_option (snd \<circ> snd) last_error\<rparr>))"

definition run_probe_update ::
    "u64 \<Rightarrow> (socket_addr \<Rightarrow> string + unit) \<Rightarrow> string \<Rightarrow> socket_addr list \<Rightarrow> discovery_state \<Rightarrow> discovery_state" where
  "run_probe_update now probe fp addrs ds =
     (let attempted = select_probe_addrs addrs;
          (ds1, success, last_error) = probe_each probe attempted None ds
      in case map_of (devices ds1) fp of
           None \<Rightarrow> ds1
         | Some d \<Rightarrow>
             (let d1 = probe_outcome now attempted success last_error d;
                  ds2 = ds1\<lparr>devices := AList.update fp d1 (devices ds1)\<rparr>;
                  ds3 = (if success = None then bump_discovery_failure ''probe_failed'' ds2 else ds2)
              in emit_device (DeviceUpdated (device_view_of d1)) ds3))"

section \<open>Beacons\<close>

definition BEACON_KIND :: string where "BEACON_KIND = ''dashdrop_beacon_v1''"

record beacon_packet =
  bp_kind :: string
  bp_fp :: string
  bp_name :: string
  bp_platform :: string
  bp_port :: nat
  bp_instance_id :: string
  bp_ts :: u64

definition upsert_from_beacon ::
    "clock \<Rightarrow> trust_table \<Rightarrow> beacon_packet \<Rightarrow> string \<Rightarrow> socket_addr \<Rightarrow> discovery_state \<Rightarrow>
     discovery_state \<times> (string \<times> socket_addr list)" where
  "upsert_from_beacon clk tbl pkt source_ip candidate ds =
     (let sid = ''beacon:'' @ bp_instance_id pkt
      in (upsert_device clk tbl (bp_fp pkt) (bp_name pkt) (platform_from (bp_platform pkt)) sid [sid] [candidate] 1 1
            source_ip (bp_port pkt) ds,
          (bp_fp pkt, [candidate])))"

text \<open>
  One received datagram: its parsed packet if it parses, its source address and that address as text.
\<close>

definition receive_beacon ::
    "clock \<Rightarrow> trust_table \<Rightarrow> string \<Rightarrow> beacon_packet option \<Rightarrow> ip_addr \<Rightarrow> string \<Rightarrow> discovery_state \<Rightarrow>
     discovery_state \<times> (string \<times> socket_addr list) option" where
  "receive_beacon clk tbl own_fp parsed src src_text ds =
     (case parsed of
        None \<Rightarrow> (bump_discovery_failure ''beacon_parse_failed'' ds, None)
      | Some pkt \<Rightarrow>
          (if bp_kind pkt \<noteq> BEACON_KIND then (ds, None)
           else if bp_fp pkt = own_fp then (bump_discovery_event ''beacon_self_filtered'' ds, None)
           else
             (let candidate = socket_addr_new src (bp_port pkt) in
              if \<not> is_usable_peer_addr candidate then (bump_discovery_failure ''beacon_unusable_addr'' ds, None)
              else (case upsert_from_beacon clk tbl pkt src_text candidate (bump_discovery_event ''beacon_received'' ds) of
                      (ds1, probe) \<Rightarrow> (ds1, Some probe)))))"

section \<open>All operations\<close>

text \<open>
  Everything that happens to the discovery state, the spawned tasks included; a sequence of operations
  is an interleaving of the browser, the beacon listener, the offline loop, removals and probes.
\<close>

datatype discovery_op =
    ServiceResolved clock trust_table string service_info hostname_lookup "socket_addr list option"
  | ServiceRemoved string
  | DeferredRemove clock string string u64
  | OfflineTick clock
  | ProbeDone u64 "socket_addr \<Rightarrow> string + unit" string "socket_addr list"
  | BeaconReceived clock trust_table string "beacon_packet option" ip_addr string

fun discovery_step :: "discovery_op \<Rightarrow> discovery_state \<Rightarrow> discovery_state" where
  "discovery_step (ServiceResolved clk tbl own info lookup dns) ds = fst (handle_resolved clk tbl own info lookup dns ds)"
| "discovery_step (ServiceRemoved key) ds = fst (handle_removed key ds)"
| "discovery_step (DeferredRemove clk fp sid observed) ds = apply_deferred_remove clk fp sid observed ds"
| "discovery_step (OfflineTick clk) ds = offline_tick clk ds"
| "discovery_step (ProbeDone now probe fp addrs) ds = run_probe_update now probe fp addrs ds"
| "discovery_step (BeaconReceived clk tbl own parsed src src_text) ds = fst (receive_beacon clk tbl own parsed src src_text ds)"

definition empty_discovery :: discovery_state where
  "empty_discovery = \<lparr>devices = [], session_index = [], pending_removed = [], event_counts = [], failure_counts = [],
     slo_devices = [], device_log = []\<rparr>"


section \<open>Invariant\<close>

text \<open>
  A device is stored under its fingerprint, an offline device has no sessions, keys are unique, and
  every entry of the session index points to an existing session.
\<close>

definition device_ok :: "string \<Rightarrow> device_info \<Rightarrow> bool" where
  "device_ok fp d \<longleftrightarrow> dv_fingerprint d = fp \<and> distinct (map fst (dv_sessions d)) \<and>
     (dv_reachability d = Offline \<longrightarrow> dv_sessions d = [])"

definition entry_ok :: "(string \<times> device_info) list \<Rightarrow> index_entry \<Rightarrow> bool" where
  "entry_ok dvs e \<longleftrightarrow> (case map_of dvs (ix_fingerprint e) of
     Some d \<Rightarrow> map_of (dv_sessions d) (ix_session_id e) \<noteq> None | None \<Rightarrow> False)"

definition discovery_ok :: "discovery_state \<Rightarrow> bool" where
  "discovery_ok ds \<longleftrightarrow> distinct (map fst (devices ds)) \<and> list_all (\<lambda>(fp, d). device_ok fp d) (devices ds) \<and>
     list_all (\<lambda>(k, e). entry_ok (devices ds) e) (session_index ds)"

text \<open>Concrete inputs: one sighting of a device at 192.168.1.2.\<close>

definition sample_time :: "nat \<Rightarrow> clock" where
  "sample_time t = \<lparr>unix_now = t, unix_now_ms = t * 1000, instant_now = t * 1000\<rparr>"

definition sample_addr :: socket_addr where "sample_addr = SockV4 3232235778 53319"

definition sample_service :: service_info where
  "sample_service = \<lparr>si_properties = [(''fp'', ''f''), (''id'', ''s''), (''name'', ''n'')],
     si_fullname = ''x._dashdrop._udp.local.'', si_hostname = ''x.local.'', si_port = 53319, si_addresses = [IPv4 3232235778]\<rparr>"

definition sighting :: "discovery_op list" where
  "sighting = [ServiceResolved (sample_time 10) [] ''me'' sample_service NoDaemon None]"

definition sighted_device :: device_info where
  "sighted_device = see_device (sample_time 10) False ''s'' [sample_addr] 1 1 ''x.local.'' 53319
     (new_device ''f'' ''n'' UnknownPlatform False)"

section \<open>Facts\<close>

subsection \<open>Addresses\<close>

lemma set_retain_unseen: "set (retain_unseen seen xs) = set xs - set seen"
  by (induction seen xs rule: retain_unseen.induct) auto

lemma distinct_retain_unseen: "distinct (retain_unseen seen xs)"
  by (induction seen xs rule: retain_unseen.induct) (auto simp: set_retain_unseen)

lemma sorted_retain_unseen: "sorted (map f xs) \<Longrightarrow> sorted (map f (retain_unseen seen xs))"
  by (induction seen xs rule: retain_unseen.induct) (auto simp: set_retain_unseen)

lemma set_sort_dedupe [simp]: "set (sort_dedupe_addrs addrs) = set addrs"
  by (simp add: sort_dedupe_addrs_def set_retain_unseen)

lemma set_prefer_connectable:
  "set (prefer_connectable addrs) =
     (if \<exists>a\<in>set addrs. is_connectable_addr a then {a \<in> set addrs. is_connectable_addr a} else set addrs)"
  by (auto simp: prefer_connectable_def Let_def filter_empty_conv)

lemma sorted_filter_key: "sorted (map f xs) \<Longrightarrow> sorted (map f (filter P xs))"
  by (rule sorted_filter)

subsection \<open>Preservation of the invariant\<close>

lemma counters_keep [simp]:
  "devices (bump_discovery_event k ds) = devices ds" "session_index (bump_discovery_event k ds) = session_index ds"
  "devices (bump_discovery_failure k ds) = devices ds" "session_index (bump_discovery_failure k ds) = session_index ds"
  "devices (emit_device e ds) = devices ds" "session_index (emit_device e ds) = session_index ds"
  "devices (record_device_visibility clk fp ds) = devices ds"
  "session_index (record_device_visibility clk fp ds) = session_index ds"
  by (simp_all add: bump_discovery_event_def bump_discovery_failure_def emit_device_def record_device_visibility_def
      Let_def case_prod_beta)

lemma discovery_ok_counters [simp]:
  "discovery_ok (bump_discovery_event k ds) = discovery_ok ds" "discovery_ok (bump_discovery_failure k ds) = discovery_ok ds"
  "discovery_ok (emit_device e ds) = discovery_ok ds" "discovery_ok (ds\<lparr>pending_removed := p\<rparr>) = discovery_ok ds"
  by (simp_all add: discovery_ok_def)

lemma discovery_okD:
  assumes "discovery_ok ds" "map_of (devices ds) fp = Some d"
  shows "device_ok fp d"
  using assms by (auto simp: discovery_ok_def list_all_iff dest!: map_of_SomeD)

lemma entry_okD:
  assumes "discovery_ok ds" "(k, e) \<in> set (session_index ds)"
  shows "\<exists>d s. map_of (devices ds) (ix_fingerprint e) = Some d \<and> map_of (dv_sessions d) (ix_session_id e) = Some s"
proof -
  have "entry_ok (devices ds) e" using assms by (auto simp: discovery_ok_def list_all_iff)
  then show ?thesis by (auto simp: entry_ok_def split: option.splits)
qed

lemma entry_ok_update:
  assumes "entry_ok dvs e" and "ix_fingerprint e = fp \<Longrightarrow> map_of (dv_sessions d) (ix_session_id e) \<noteq> None"
  shows "entry_ok (AList.update fp d dvs) e"
  using assms by (auto simp: entry_ok_def update_conv' split: option.splits)

lemma list_all_update: "list_all (\<lambda>(k, v). P k v) xs \<Longrightarrow> P k v \<Longrightarrow> list_all (\<lambda>(k, v). P k v) (AList.update k v xs)"
  by (induction xs) auto

lemma list_all_fold_update:
  "list_all (\<lambda>(k, v). P v) xs \<Longrightarrow> P e \<Longrightarrow> list_all (\<lambda>(k, v). P v) (fold (\<lambda>k. AList.update k e) keys xs)"
  by (induction keys arbitrary: xs) (simp_all add: list_all_update)

lemma discovery_ok_update:
  assumes "discovery_ok ds" "device_ok fp d" "devices ds' = AList.update fp d (devices ds)"
    and "list_all (\<lambda>(k, e). entry_ok (AList.update fp d (devices ds)) e) (session_index ds')"
  shows "discovery_ok ds'"
  using assms by (simp add: discovery_ok_def distinct_update list_all_update)

lemma see_device_ok:
  "device_ok fp d \<Longrightarrow> device_ok fp (see_device clk t sid addrs raw usable h p d)"
  by (auto simp: see_device_def device_ok_def Let_def distinct_update)

lemma see_device_sessions:
  "dv_sessions (see_device clk t sid addrs raw usable h p d) = AList.update sid
     \<lparr>ss_id = sid, ss_addrs = addrs, ss_last_seen_unix = unix_now clk, ss_last_seen_instant = instant_now clk\<rparr> (dv_sessions d)"
  by (simp add: see_device_def Let_def)

lemma new_device_ok: "device_ok fp (new_device fp nm plat t)"
  by (simp add: device_ok_def new_device_def)

lemma upsert_device_ok:
  assumes ok: "discovery_ok ds"
  shows "discovery_ok (upsert_device clk tbl fp nm plat sid keys addrs raw usable h p ds)"
proof -
  let ?t = "is_trusted tbl fp"
  let ?d0 = "case map_of (devices ds) fp of Some d0 \<Rightarrow> d0 | None \<Rightarrow> new_device fp nm plat ?t"
  let ?d = "see_device clk ?t sid addrs raw usable h p ?d0"
  let ?e = "\<lparr>ix_fingerprint = fp, ix_session_id = sid\<rparr>"
  have d: "device_ok fp ?d"
    by (rule see_device_ok) (auto split: option.split intro: discovery_okD [OF ok] new_device_ok)
  have old: "entry_ok (AList.update fp ?d (devices ds)) e" if "entry_ok (devices ds) e" for e
    using that by (intro entry_ok_update) (auto simp: see_device_sessions update_conv' entry_ok_def split: option.splits)
  have new: "entry_ok (AList.update fp ?d (devices ds)) ?e"
    by (simp add: entry_ok_def update_conv' see_device_sessions)
  have "list_all (\<lambda>(k, e). entry_ok (AList.update fp ?d (devices ds)) e) (session_index ds)"
    using ok old by (auto simp: discovery_ok_def list_all_iff)
  from list_all_fold_update [OF this new] show ?thesis
    by (intro discovery_ok_update [OF ok d]) (simp_all add: upsert_device_def Let_def)
qed

lemma drop_session_sessions: "dv_sessions (drop_session sid d) = AList.delete sid (dv_sessions d)"
  by (simp add: drop_session_def Let_def)

lemma remove_session_ok:
  assumes ok: "discovery_ok ds" and rem: "remove_session_from_state key ds = Some (ds', rest)"
  shows "discovery_ok ds'"
proof -
  obtain e where e: "find_index_entry key (session_index ds) = Some e"
    using rem by (auto simp: remove_session_from_state_def split: option.splits)
  let ?sid = "ix_session_id e" and ?fp = "ix_fingerprint e"
  have idx: "session_index ds' = filter (\<lambda>(k, v). ix_session_id v \<noteq> ?sid) (session_index ds)"
    using rem e by (auto simp: remove_session_from_state_def Let_def split: option.splits)
  show ?thesis
  proof (cases "map_of (devices ds) ?fp")
    case None
    then have "devices ds' = devices ds" using rem e by (auto simp: remove_session_from_state_def Let_def)
    then show ?thesis using ok idx by (auto simp: discovery_ok_def list_all_iff)
  next
    case (Some d)
    let ?d = "drop_session ?sid d"
    have dvs: "devices ds' = AList.update ?fp ?d (devices ds)"
      using rem e Some by (auto simp: remove_session_from_state_def Let_def)
    have "device_ok ?fp ?d"
      using discovery_okD [OF ok Some] by (auto simp: drop_session_def device_ok_def Let_def distinct_delete)
    moreover have "entry_ok (AList.update ?fp ?d (devices ds)) v" if "entry_ok (devices ds) v" "ix_session_id v \<noteq> ?sid" for v
      using that Some by (intro entry_ok_update) (auto simp: entry_ok_def drop_session_sessions delete_conv')
    ultimately show ?thesis using ok idx
      by (intro discovery_ok_update [OF ok _ dvs]) (auto simp: discovery_ok_def list_all_iff)
  qed
qed

lemma apply_deferred_remove_ok:
  assumes ok: "discovery_ok ds"
  shows "discovery_ok (apply_deferred_remove clk fp sid observed ds)"
  using remove_session_ok [OF ok] ok by (auto simp: apply_deferred_remove_def Let_def split: option.split)

lemma prune_sessions_facts:
  "dv_fingerprint (prune_sessions clk d) = dv_fingerprint d"
  "dv_last_seen (prune_sessions clk d) = dv_last_seen d"
  "dv_sessions (prune_sessions clk d) = filter (\<lambda>(sid, s). sid \<notin> set (stale_sessions clk d)) (dv_sessions d)"
  by (auto simp: prune_sessions_def Let_def filter_id_conv)

lemma mark_offline_facts:
  "dv_fingerprint (mark_offline clk d) = dv_fingerprint d" "dv_sessions (mark_offline clk d) = dv_sessions d"
  "dv_last_seen (mark_offline clk d) = dv_last_seen d"
  by (simp_all add: mark_offline_def)

lemma sweep_ok: "device_ok fp d \<Longrightarrow> device_ok fp (mark_offline clk (prune_sessions clk d))"
  by (auto simp: device_ok_def mark_offline_def prune_sessions_facts should_mark_offline_def distinct_map_filter)
    (auto simp: prune_sessions_def Let_def split: if_splits)

lemma map_of_map_snd: "map_of (map (\<lambda>(k, v). (k, f v)) xs) k = map_option f (map_of xs k)"
  by (induction xs) auto

lemma map_of_filter_keys: "map_of (filter (\<lambda>(k, v). k \<notin> S) xs) k = (if k \<in> S then None else map_of xs k)"
  by (induction xs) auto

text \<open>The swept table and the devices it loses.\<close>

lemma offline_tick_devices:
  assumes "distinct (map fst (devices ds))"
  shows "map_of (devices (offline_tick clk ds)) fp =
    (case map_of (devices ds) fp of
       None \<Rightarrow> None
     | Some d \<Rightarrow> (let d' = mark_offline clk (prune_sessions clk d)
                  in if should_emit_device_lost d' (unix_now clk) then None else Some d'))"
  and "DeviceLost fp \<in> set (device_log (offline_tick clk ds)) \<longleftrightarrow> DeviceLost fp \<in> set (device_log ds) \<or>
    (\<exists>d. map_of (devices ds) fp = Some d \<and>
       should_emit_device_lost (mark_offline clk (prune_sessions clk d)) (unix_now clk))"
proof -
  have lost: "fp \<in> set (lost_devices clk ds) \<longleftrightarrow> (\<exists>d. map_of (devices ds) fp = Some d \<and>
      should_emit_device_lost (mark_offline clk (prune_sessions clk d)) (unix_now clk))" for fp
    using assms by (force simp: lost_devices_def swept_devices_def map_of_eq_Some_iff)
  have "devices (offline_tick clk ds) = filter (\<lambda>(fp, d). fp \<notin> set (lost_devices clk ds)) (swept_devices clk ds)"
    by (simp add: offline_tick_def Let_def)
  then have dvs: "map_of (devices (offline_tick clk ds)) fp =
      (if fp \<in> set (lost_devices clk ds) then None else map_of (swept_devices clk ds) fp)"
    by (simp only: map_of_filter_keys)
  show "map_of (devices (offline_tick clk ds)) fp =
    (case map_of (devices ds) fp of
       None \<Rightarrow> None
     | Some d \<Rightarrow> (let d' = mark_offline clk (prune_sessions clk d)
                  in if should_emit_device_lost d' (unix_now clk) then None else Some d'))"
    unfolding dvs lost by (auto simp: swept_devices_def map_of_map_snd Let_def split: option.split)
  have "device_log (offline_tick clk ds) =
      device_log ds @ concat (map (\<lambda>(fp, d). tick_updates clk d) (devices ds)) @ map DeviceLost (lost_devices clk ds)"
    by (simp add: offline_tick_def Let_def bump_discovery_event_def)
  moreover have "DeviceLost fp \<notin> set (tick_updates clk d)" for d by (simp add: tick_updates_def Let_def)
  ultimately show "DeviceLost fp \<in> set (device_log (offline_tick clk ds)) \<longleftrightarrow> DeviceLost fp \<in> set (device_log ds) \<or>
    (\<exists>d. map_of (devices ds) fp = Some d \<and>
       should_emit_device_lost (mark_offline clk (prune_sessions clk d)) (unix_now clk))"
    using lost [of fp] by auto
qed

lemma offline_tick_index:
  assumes "(k, e) \<in> set (session_index (offline_tick clk ds))"
  shows "(k, e) \<in> set (session_index ds) \<and> (ix_fingerprint e, ix_session_id e) \<notin> set (pruned_pairs clk ds)"
  using assms by (auto simp: offline_tick_def Let_def split: if_splits)

lemma offline_tick_ok:
  assumes ok: "discovery_ok ds"
  shows "discovery_ok (offline_tick clk ds)"
proof -
  have dist: "distinct (map fst (devices ds))" using ok by (simp add: discovery_ok_def)
  have "distinct (map fst (devices (offline_tick clk ds)))"
    using dist by (simp add: offline_tick_def swept_devices_def Let_def distinct_map_filter comp_def case_prod_beta)
  moreover have "list_all (\<lambda>(fp, d). device_ok fp d) (devices (offline_tick clk ds))"
    using ok sweep_ok by (fastforce simp: discovery_ok_def list_all_iff offline_tick_def swept_devices_def Let_def)
  moreover have "entry_ok (devices (offline_tick clk ds)) e" if ke: "(k, e) \<in> set (session_index (offline_tick clk ds))" for k e
  proof -
    obtain d s where d: "map_of (devices ds) (ix_fingerprint e) = Some d"
      and s: "map_of (dv_sessions d) (ix_session_id e) = Some s"
      using entry_okD [OF ok] offline_tick_index [OF ke] by blast
    have "dv_fingerprint d = ix_fingerprint e" using discovery_okD [OF ok d] by (simp add: device_ok_def)
    then have "ix_session_id e \<notin> set (stale_sessions clk d)"
      using offline_tick_index [OF ke] map_of_SomeD [OF d] by (force simp: pruned_pairs_def)
    then have "map_of (dv_sessions (prune_sessions clk d)) (ix_session_id e) = Some s"
      using s by (simp add: prune_sessions_facts map_of_filter_keys)
    then show ?thesis
      using d by (auto simp: entry_ok_def offline_tick_devices [OF dist] mark_offline_facts should_emit_device_lost_def Let_def)
  qed
  ultimately show ?thesis by (auto simp: discovery_ok_def list_all_iff)
qed

lemma probe_each_keeps:
  "devices (fst (probe_each probe as le ds)) = devices ds" "session_index (fst (probe_each probe as le ds)) = session_index ds"
  by (induction probe as le ds rule: probe_each.induct) (auto split: sum.split prod.split)

lemma probe_outcome_facts:
  "dv_fingerprint (probe_outcome now at su le d) = dv_fingerprint d"
  "dv_sessions (probe_outcome now at su le d) = dv_sessions d"
  "dv_last_seen (probe_outcome now at su le d) = dv_last_seen d"
  "dv_reachability (probe_outcome now at su le d) \<noteq> Offline"
  by (auto simp: probe_outcome_def Let_def split: option.split)

lemma run_probe_update_ok:
  assumes ok: "discovery_ok ds"
  shows "discovery_ok (run_probe_update now probe fp addrs ds)"
proof (cases "map_of (devices ds) fp")
  case None
  then show ?thesis using ok
    by (simp add: run_probe_update_def Let_def case_prod_beta probe_each_keeps discovery_ok_def)
next
  case (Some d)
  obtain ds1 su le where p: "probe_each probe (select_probe_addrs addrs) None ds = (ds1, su, le)" by (cases rule: prod_cases3)
  have keeps: "devices ds1 = devices ds" "session_index ds1 = session_index ds"
    using probe_each_keeps [of probe "select_probe_addrs addrs" None ds] p by auto
  let ?d = "probe_outcome now (select_probe_addrs addrs) su le d"
  have "device_ok fp ?d" using discovery_okD [OF ok Some] by (simp add: device_ok_def probe_outcome_facts)
  moreover have "entry_ok (AList.update fp ?d (devices ds)) e" if "entry_ok (devices ds) e" for e
    using that Some by (intro entry_ok_update) (auto simp: entry_ok_def probe_outcome_facts)
  ultimately show ?thesis
    using ok Some p keeps
    by (intro discovery_ok_update [OF ok, of fp ?d])
      (auto simp: run_probe_update_def Let_def discovery_ok_def list_all_iff)
qed

lemma resolve_keeps:
  "devices (fst (resolve_addrs info lookup dns ds)) = devices ds"
  "session_index (fst (resolve_addrs info lookup dns ds)) = session_index ds"
proof -
  have c: "devices (fst (collect_hostname port evs ds)) = devices ds \<and>
      session_index (fst (collect_hostname port evs ds)) = session_index ds" for port evs ds
    by (induction port evs ds rule: collect_hostname.induct) (simp_all add: Let_def)
  have "devices (fst (resolve_hostname_with_mdns port lookup ds)) = devices ds \<and>
      session_index (fst (resolve_hostname_with_mdns port lookup ds)) = session_index ds" for port ds
    using c by (cases lookup) (auto simp: Let_def case_prod_beta)
  then show "devices (fst (resolve_addrs info lookup dns ds)) = devices ds"
    "session_index (fst (resolve_addrs info lookup dns ds)) = session_index ds"
    by (auto simp: resolve_addrs_def Let_def case_prod_beta)
qed

lemma discovery_step_ok: "discovery_ok ds \<Longrightarrow> discovery_ok (discovery_step op ds)"
proof (cases op)
  case (ServiceResolved clk tbl own info lookup dns)
  assume ok: "discovery_ok ds"
  then have "discovery_ok (fst (resolve_addrs info lookup dns ds))"
    by (simp add: discovery_ok_def resolve_keeps)
  then show ?thesis using ok ServiceResolved
    by (auto simp: handle_resolved_def Let_def case_prod_beta upsert_device_ok split: option.split)
next
  case (ServiceRemoved key)
  assume "discovery_ok ds"
  then show ?thesis using ServiceRemoved
    by (auto simp: handle_removed_def Let_def split: option.split)
next
  case (BeaconReceived clk tbl own parsed src src_text)
  assume "discovery_ok ds"
  then show ?thesis using BeaconReceived upsert_device_ok
    by (auto simp: receive_beacon_def upsert_from_beacon_def Let_def split: option.split)
qed (simp_all add: apply_deferred_remove_ok offline_tick_ok run_probe_update_ok)

lemma stale_all_pruned:
  assumes "dv_sessions d \<noteq> []" "length (stale_sessions clk d) = length (dv_sessions d)"
  shows "dv_sessions (prune_sessions clk d) = [] \<and> dv_reachability (prune_sessions clk d) = OfflineCandidate"
proof -
  have "filter (\<lambda>(sid, s). is_session_stale (instant_now clk - ss_last_seen_instant s)) (dv_sessions d) = dv_sessions d"
    using assms(2) unfolding stale_sessions_def length_map by (metis filter_True length_filter_less less_irrefl)
  then have all: "stale_sessions clk d = map fst (dv_sessions d)" by (simp add: stale_sessions_def)
  then have "filter (\<lambda>(sid, s). sid \<notin> set (stale_sessions clk d)) (dv_sessions d) = []"
    by (force simp: filter_empty_conv)
  then show ?thesis using assms(1) all by (simp add: prune_sessions_def Let_def)
qed

lemma stale_some_kept:
  assumes "distinct (map fst (dv_sessions d))" "length (stale_sessions clk d) < length (dv_sessions d)"
  shows "dv_sessions (prune_sessions clk d) \<noteq> []"
proof
  let ?stale = "\<lambda>(sid :: string, s). is_session_stale (instant_now clk - ss_last_seen_instant s)"
  assume "dv_sessions (prune_sessions clk d) = []"
  then have "set (map fst (dv_sessions d)) \<subseteq> set (stale_sessions clk d)"
    by (fastforce simp: prune_sessions_facts filter_empty_conv)
  then have "card (set (map fst (dv_sessions d))) \<le> card (set (stale_sessions clk d))" by (intro card_mono) auto
  also have "\<dots> \<le> length (stale_sessions clk d)" by (rule card_length)
  finally show False using assms distinct_card [OF assms(1)] by simp
qed

lemma reachable_ok: "discovery_ok (fold discovery_step ops empty_discovery)"
proof -
  have "discovery_ok ds \<Longrightarrow> discovery_ok (fold discovery_step ops ds)" for ds
    by (induction ops arbitrary: ds) (simp_all add: discovery_step_ok)
  then show ?thesis by (simp add: discovery_ok_def empty_discovery_def)
qed

text \<open>A device with no sessions that is not a candidate for going offline survives every tick.\<close>

lemma ghost_survives:
  assumes "discovery_ok ds" "map_of (devices ds) fp = Some d" "dv_sessions d = []"
    and "dv_reachability d = Reachable \<or> dv_reachability d = Discovered"
  shows "map_of (devices (fold offline_tick clks ds)) fp = Some d \<and>
    (DeviceLost fp \<in> set (device_log (fold offline_tick clks ds)) \<longrightarrow> DeviceLost fp \<in> set (device_log ds))"
  using assms
proof (induction clks arbitrary: ds)
  case (Cons clk clks)
  have dist: "distinct (map fst (devices ds))" using Cons.prems(1) by (simp add: discovery_ok_def)
  have "mark_offline clk (prune_sessions clk d) = d" "\<not> should_emit_device_lost d (unix_now clk)"
    using Cons.prems by (auto simp: prune_sessions_def stale_sessions_def mark_offline_def should_mark_offline_def
        should_emit_device_lost_def)
  then have "map_of (devices (offline_tick clk ds)) fp = Some d"
      "DeviceLost fp \<in> set (device_log (offline_tick clk ds)) \<longrightarrow> DeviceLost fp \<in> set (device_log ds)"
    using Cons.prems(2) by (simp_all add: offline_tick_devices [OF dist] Let_def)
  then show ?case using Cons.IH [of "offline_tick clk ds"] Cons.prems offline_tick_ok by auto
qed simp

lemma probe_each_success:
  assumes "a \<in> set as" "probe a = Ok ()"
  shows "fst (snd (probe_each probe as le ds)) \<noteq> None \<and> device_log (fst (probe_each probe as le ds)) = device_log ds"
  using assms
proof (induction probe as le ds rule: probe_each.induct)
  case (2 probe b as le ds)
  then show ?case by (cases "probe b") (auto simp: bump_discovery_failure_def split: prod.split)
qed simp

lemma sighted:
  "map_of (devices (fold discovery_step sighting empty_discovery)) ''f'' = Some sighted_device"
  by (simp add: sighting_def handle_resolved_def sample_service_def empty_discovery_def resolve_addrs_def is_usable_peer_addr_def
      sample_addr_def upsert_device_def sighted_device_def sort_dedupe_addrs_def nonempty_property_def platform_from_def
      to_ascii_lowercase_def ascii_lower_def is_trusted_def Let_def)

lemma sighted_index:
  "map_of (session_index (fold discovery_step sighting empty_discovery)) ''s'' = Some \<lparr>ix_fingerprint = ''f'', ix_session_id = ''s''\<rparr>"
  by (simp add: sighting_def handle_resolved_def sample_service_def empty_discovery_def resolve_addrs_def is_usable_peer_addr_def
      upsert_device_def nonempty_property_def update_conv' Let_def)

section \<open>Properties\<close>

text \<open>
  The invariant of discovery.  In every interleaving of the browser, the beacon listener, deferred
  removals, probes and the offline loop, started with an empty table, each device is stored under its
  own fingerprint, a device marked offline has no sessions, and every entry of the session index points
  to a session that exists.
\<close>

theorem discovery_invariant: "discovery_ok (fold discovery_step ops empty_discovery)"
  by (rule reachable_ok)

text \<open>
  C28: Silent devices are lost and live ones kept.  In every reachable state, if a device has sessions, all
  of them stale, and was last seen at least 45 seconds ago, the next tick of the offline loop removes it
  and reports it lost; a device with a session that is not stale stays in the table with its
  reachability, only its stale sessions are dropped.
\<close>

theorem silent_device_lost:
  assumes ds: "ds = fold discovery_step ops empty_discovery" and d: "map_of (devices ds) fp = Some d"
  shows "(dv_sessions d \<noteq> [] \<and> length (stale_sessions clk d) = length (dv_sessions d) \<and> unix_now clk \<ge> dv_last_seen d + 45 \<longrightarrow>
      map_of (devices (offline_tick clk ds)) fp = None \<and> DeviceLost fp \<in> set (device_log (offline_tick clk ds))) \<and>
    (length (stale_sessions clk d) < length (dv_sessions d) \<longrightarrow>
      map_of (devices (offline_tick clk ds)) fp =
        Some (d\<lparr>dv_sessions := filter (\<lambda>(sid, s). sid \<notin> set (stale_sessions clk d)) (dv_sessions d)\<rparr>))"
proof (intro conjI impI)
  have ok: "discovery_ok ds" using reachable_ok ds by simp
  have dist: "distinct (map fst (devices ds))" using ok by (simp add: discovery_ok_def)
  let ?d = "mark_offline clk (prune_sessions clk d)"
  {
    assume a: "dv_sessions d \<noteq> [] \<and> length (stale_sessions clk d) = length (dv_sessions d) \<and> unix_now clk \<ge> dv_last_seen d + 45"
    then have "dv_sessions (prune_sessions clk d) = []" "dv_reachability (prune_sessions clk d) = OfflineCandidate"
      using stale_all_pruned by blast+
    then have "should_emit_device_lost ?d (unix_now clk)"
      using a by (auto simp: mark_offline_def should_mark_offline_def should_emit_device_lost_def prune_sessions_facts(2)
          OFFLINE_GRACE_SECS_def DEVICE_LOST_RETENTION_SECS_def u64_simps)
    then show "map_of (devices (offline_tick clk ds)) fp = None" "DeviceLost fp \<in> set (device_log (offline_tick clk ds))"
      using d by (simp_all add: offline_tick_devices [OF dist] Let_def)
  next
    assume a: "length (stale_sessions clk d) < length (dv_sessions d)"
    have "distinct (map fst (dv_sessions d))" using discovery_okD [OF ok d] by (simp add: device_ok_def)
    then have kept: "dv_sessions (prune_sessions clk d) \<noteq> []" using stale_some_kept a by blast
    then have "?d = prune_sessions clk d" "\<not> should_emit_device_lost ?d (unix_now clk)"
      by (simp_all add: mark_offline_def should_mark_offline_def should_emit_device_lost_def)
    moreover have "prune_sessions clk d =
        d\<lparr>dv_sessions := filter (\<lambda>(sid, s). sid \<notin> set (stale_sessions clk d)) (dv_sessions d)\<rparr>"
      using kept by (auto simp: prune_sessions_def Let_def filter_id_conv)
    ultimately show "map_of (devices (offline_tick clk ds)) fp =
        Some (d\<lparr>dv_sessions := filter (\<lambda>(sid, s). sid \<notin> set (stale_sessions clk d)) (dv_sessions d)\<rparr>)"
      using d by (simp add: offline_tick_devices [OF dist] Let_def)
  }
qed

theorem silent_device_lost_witness:
  "map_of (devices (offline_tick (sample_time 200) (fold discovery_step sighting empty_discovery))) ''f'' = None \<and>
   DeviceLost ''f'' \<in> set (device_log (offline_tick (sample_time 200) (fold discovery_step sighting empty_discovery))) \<and>
   map_of (devices (offline_tick (sample_time 12) (fold discovery_step sighting empty_discovery))) ''f'' = Some sighted_device"
proof -
  have "length (stale_sessions (sample_time 200) sighted_device) = length (dv_sessions sighted_device)"
      "length (stale_sessions (sample_time 12) sighted_device) < length (dv_sessions sighted_device)"
      "filter (\<lambda>(sid, s). sid \<notin> set (stale_sessions (sample_time 12) sighted_device)) (dv_sessions sighted_device) = dv_sessions sighted_device"
      "dv_sessions sighted_device \<noteq> []" "dv_last_seen sighted_device = 10"
    by (simp_all add: sighted_device_def see_device_def stale_sessions_def is_session_stale_def SESSION_STALE_SECS_def
        sample_time_def new_device_def)
  then show ?thesis
    using silent_device_lost [OF refl sighted, of "sample_time 200"] silent_device_lost [OF refl sighted, of "sample_time 12"]
    by (simp add: sample_time_def)
qed

text \<open>
  A ghost device.  When the probe of a device succeeds after its last session has been removed, the
  device stays in the table as reachable through any number of ticks of the offline loop and is never
  reported lost, although nothing has been heard of it since.
\<close>

theorem probed_ghost_never_lost:
  assumes "ds = fold discovery_step ops empty_discovery" and d: "map_of (devices ds) fp = Some d" and "dv_sessions d = []"
    and a: "a \<in> set (select_probe_addrs addrs)" "probe a = Ok ()"
  shows "\<exists>d'. map_of (devices (fold offline_tick clks (run_probe_update now probe fp addrs ds))) fp = Some d' \<and>
      dv_sessions d' = [] \<and> dv_reachability d' = Reachable \<and>
      (DeviceLost fp \<in> set (device_log (fold offline_tick clks (run_probe_update now probe fp addrs ds))) \<longrightarrow>
       DeviceLost fp \<in> set (device_log ds))"
proof -
  obtain ds1 su le where p: "probe_each probe (select_probe_addrs addrs) None ds = (ds1, su, le)" by (cases rule: prod_cases3)
  have su: "su \<noteq> None" and log: "device_log ds1 = device_log ds" and dvs: "devices ds1 = devices ds"
    using probe_each_success [of a "select_probe_addrs addrs" probe None ds] a probe_each_keeps [of probe "select_probe_addrs addrs" None ds] p by auto
  let ?d = "probe_outcome now (select_probe_addrs addrs) su le d"
  have "map_of (devices (run_probe_update now probe fp addrs ds)) fp = Some ?d"
    using p d dvs su by (auto simp: run_probe_update_def update_conv' Let_def)
  moreover have "device_log (run_probe_update now probe fp addrs ds) = device_log ds @ [DeviceUpdated (device_view_of ?d)]"
    using p d dvs su log by (auto simp: run_probe_update_def emit_device_def Let_def)
  moreover have "dv_sessions ?d = []" "dv_reachability ?d = Reachable"
    using su assms(3) by (auto simp: probe_outcome_def Let_def)
  moreover have "discovery_ok (run_probe_update now probe fp addrs ds)"
    using run_probe_update_ok reachable_ok assms(1) by blast
  ultimately show ?thesis using ghost_survives [of "run_probe_update now probe fp addrs ds" fp ?d clks] by auto
qed

theorem probed_ghost_never_lost_witness:
  "\<exists>d'. map_of (devices (fold offline_tick [sample_time 200, sample_time 100000] (run_probe_update 40 (\<lambda>_. Ok ()) ''f'' [sample_addr]
     (fold discovery_step (sighting @ [DeferredRemove (sample_time 30) ''f'' ''s'' 10]) empty_discovery)))) ''f'' = Some d' \<and>
     dv_reachability d' = Reachable"
proof -
  have "map_of (devices (fold discovery_step (sighting @ [DeferredRemove (sample_time 30) ''f'' ''s'' 10]) empty_discovery)) ''f'' =
      Some (drop_session ''s'' sighted_device)"
    using sighted sighted_index
    by (simp add: apply_deferred_remove_def remove_session_from_state_def find_index_entry_def should_apply_deferred_remove_def
        sighted_device_def see_device_def sample_time_def new_device_def OFFLINE_GRACE_SECS_def u64_simps update_conv' Let_def)
  moreover have "dv_sessions (drop_session ''s'' sighted_device) = []"
    by (simp add: drop_session_sessions sighted_device_def see_device_def new_device_def Let_def)
  moreover have "sample_addr \<in> set (select_probe_addrs [sample_addr])"
    by (simp add: select_probe_addrs_def set_prefer_connectable)
  ultimately show ?thesis using probed_ghost_never_lost [OF refl, where probe = "\<lambda>_. Ok ()"] by blast
qed

text \<open>
  The addresses of a probe.  They are free of duplicates, IPv4 before IPv6, and exactly the known
  addresses that can be connected to, or all known addresses if there is none.
\<close>

theorem probe_addrs_selected:
  "distinct (select_probe_addrs addrs) \<and> sorted (map (\<lambda>a. if is_ipv4 a then 0 else 1 :: nat) (select_probe_addrs addrs)) \<and>
   set (select_probe_addrs addrs) =
     (if \<exists>a\<in>set addrs. is_connectable_addr a then {a \<in> set addrs. is_connectable_addr a} else set addrs)"
proof -
  let ?k = "\<lambda>a. if is_ipv4 a then 0 else 1 :: nat"
  have "distinct (sort_dedupe_addrs addrs)" "sorted (map ?k (sort_dedupe_addrs addrs))"
    by (simp_all add: sort_dedupe_addrs_def distinct_retain_unseen sorted_retain_unseen)
  then have "distinct (select_probe_addrs addrs)" "sorted (map ?k (select_probe_addrs addrs))"
    by (auto simp: select_probe_addrs_def prefer_connectable_def Let_def intro: sorted_filter)
  then show ?thesis by (simp add: select_probe_addrs_def set_prefer_connectable)
qed

end
