(* ===== verification/Protocol.thy ===== *)
theory Protocol
  imports Prelude
begin

text \<open>
  \<^verbatim>\<open>transport/protocol.rs\<close>: the wire vocabulary (error codes, file items, message payloads, the
  message enum, transfer outcomes) and the length-prefixed framing of \<^verbatim>\<open>write_message\<close> and
  \<^verbatim>\<open>read_message\<close>.  CBOR is code outside the repository: the encoder and decoder are arguments of
  the framing functions.  A QUIC stream is a byte list together with the number of bytes the peer
  still takes before it closes the stream.
\<close>

section \<open>Constants\<close>

definition WIRE_VERSION :: nat where "WIRE_VERSION = 0"

definition SUPPORTED_VERSIONS :: "nat list" where "SUPPORTED_VERSIONS = [1]"

definition MAX_MESSAGE_SIZE :: nat where "MAX_MESSAGE_SIZE = 16 * 1024 * 1024"

definition CHUNK_SIZE :: nat where "CHUNK_SIZE = 1024 * 1024"

section \<open>Error codes\<close>

datatype error_code =
    Rejected | DiskFull | HashMismatch | VersionMismatch | RateLimited | Timeout | Cancelled
  | PermissionDenied | IdentityMismatch | SizePolicy | InvalidPath | PathConflict
  | UnsupportedFileType | ProtocolError string

fun reason_code :: "error_code \<Rightarrow> string" where
  "reason_code Rejected = ''E_REJECTED_BY_PEER''"
| "reason_code DiskFull = ''E_DISK_FULL''"
| "reason_code HashMismatch = ''E_HASH_MISMATCH''"
| "reason_code VersionMismatch = ''E_VERSION_MISMATCH''"
| "reason_code RateLimited = ''E_RATE_LIMITED''"
| "reason_code Timeout = ''E_TIMEOUT''"
| "reason_code Cancelled = ''E_CANCELLED''"
| "reason_code PermissionDenied = ''E_PERMISSION_DENIED''"
| "reason_code IdentityMismatch = ''E_IDENTITY_MISMATCH''"
| "reason_code SizePolicy = ''E_SIZE_POLICY''"
| "reason_code InvalidPath = ''E_INVALID_PATH''"
| "reason_code PathConflict = ''E_PATH_CONFLICT''"
| "reason_code UnsupportedFileType = ''E_UNSUPPORTED_FILE_TYPE''"
| "reason_code (ProtocolError _) = ''E_PROTOCOL''"

fun error_display :: "error_code \<Rightarrow> string" where
  "error_display Rejected = ''Rejected by receiver''"
| "error_display DiskFull = ''Receiver disk full''"
| "error_display HashMismatch = ''File hash mismatch''"
| "error_display VersionMismatch = ''Protocol version mismatch''"
| "error_display RateLimited = ''Rate limited''"
| "error_display Timeout = ''Connection timeout''"
| "error_display Cancelled = ''Cancelled''"
| "error_display PermissionDenied = ''Permission denied''"
| "error_display IdentityMismatch = ''Identity mismatch''"
| "error_display SizePolicy = ''Size policy requires manual review''"
| "error_display InvalidPath = ''Invalid path''"
| "error_display PathConflict = ''Path conflict''"
| "error_display UnsupportedFileType = ''Unsupported file type''"
| "error_display (ProtocolError s) = ''Protocol error: '' @ s"

section \<open>Items, payloads and messages\<close>

datatype file_type = RegularFile | Directory

datatype risk_class = High | NormalRisk

type_synonym hash = bytes

record source_snapshot =
  snap_size :: u64
  mtime_unix_ms :: u64
  head_hash :: hash

record file_item =
  file_id :: nat
  name :: string
  rel_path :: string
  size_bytes :: u64
  file_type :: file_type
  modified :: u64
  risk_class :: "risk_class option"
  source_snapshot :: "source_snapshot option"

record hello_payload =
  wire_version :: nat
  supported_versions :: "nat list"

record offer_payload =
  transfer_id :: string
  items :: "file_item list"
  total_size :: u64
  sender_name :: string
  sender_fingerprint :: string

record accept_payload =
  chosen_version :: nat
  resume_offsets :: "(nat \<rightharpoonup> u64) option"

record chunk_payload =
  chunk_file_id :: nat
  chunk_id :: nat
  offset :: u64
  data :: bytes

record complete_payload =
  complete_file_id :: nat
  file_hash :: hash

record ack_payload =
  ack_file_id :: nat
  ack_ok :: bool
  ack_reason :: "error_code option"

datatype cancel_reason = UserCancelled | CancelError error_code

record p2p_response_payload =
  p2p_method :: string
  ssid :: string
  password :: "string option"
  target_address :: "string option"

datatype dash_message =
    Hello hello_payload
  | Offer offer_payload
  | Accept accept_payload
  | Reject error_code
  | Chunk chunk_payload
  | Complete complete_payload
  | Ack ack_payload
  | Cancel cancel_reason
  | P2pRequest "string list"
  | P2pResponse p2p_response_payload

section \<open>Transfer outcome\<close>

record failed_file =
  failed_file_id :: nat
  failed_name :: string
  failed_reason :: error_code

datatype transfer_outcome =
    Success
  | PartialSuccess "failed_file list"
  | OutcomeFailed error_code
  | OutcomeCancelledBySender
  | OutcomeCancelledByReceiver

section \<open>Framing\<close>

datatype codec_error =
    CborSerialize | TooLargeToSend nat | WriteLen | WriteBody
  | ReadLen | TooLarge nat | ReadBody | CborDeserialize

record send_stream =
  sent :: bytes
  peer_takes :: "nat option"

definition u32_to_be_bytes :: "u32 \<Rightarrow> bytes" where
  "u32_to_be_bytes w =
     map (\<lambda>d. of_nat (unat w div d mod 256)) [16777216, 65536, 256, 1]"

definition u32_from_be_bytes :: "bytes \<Rightarrow> nat" where
  "u32_from_be_bytes bs = foldl (\<lambda>n b. 256 * n + unat b) 0 bs"

definition write_all :: "send_stream \<Rightarrow> bytes \<Rightarrow> send_stream option" where
  "write_all s bs =
     (case peer_takes s of
        None \<Rightarrow> Some (s\<lparr>sent := sent s @ bs\<rparr>)
      | Some k \<Rightarrow> (if length bs \<le> k
                   then Some (s\<lparr>sent := sent s @ bs, peer_takes := Some (k - length bs)\<rparr>)
                   else None))"

definition write_message ::
    "('m \<Rightarrow> bytes option) \<Rightarrow> send_stream \<Rightarrow> 'm \<Rightarrow> codec_error + send_stream" where
  "write_message enc send msg =
     (case enc msg of
        None \<Rightarrow> Err CborSerialize
      | Some buf \<Rightarrow>
          (let len = (of_nat (length buf) :: u32) in
           if unat len > MAX_MESSAGE_SIZE then Err (TooLargeToSend (unat len))
           else case write_all send (u32_to_be_bytes len) of
               None \<Rightarrow> Err WriteLen
             | Some send1 \<Rightarrow>
                 (case write_all send1 buf of None \<Rightarrow> Err WriteBody | Some send2 \<Rightarrow> Ok send2)))"

definition read_exact :: "bytes \<Rightarrow> nat \<Rightarrow> (bytes \<times> bytes) option" where
  "read_exact recv n = (if n \<le> length recv then Some (take n recv, drop n recv) else None)"

definition read_message ::
    "(bytes \<Rightarrow> 'm option) \<Rightarrow> bytes \<Rightarrow> codec_error + ('m \<times> bytes)" where
  "read_message dec recv =
     (case read_exact recv 4 of
        None \<Rightarrow> Err ReadLen
      | Some (len_buf, recv1) \<Rightarrow>
          (let len = u32_from_be_bytes len_buf in
           if len > MAX_MESSAGE_SIZE then Err (TooLarge len)
           else case read_exact recv1 len of
               None \<Rightarrow> Err ReadBody
             | Some (buf, recv2) \<Rightarrow>
                 (case dec buf of None \<Rightarrow> Err CborDeserialize | Some m \<Rightarrow> Ok (m, recv2))))"

section \<open>Facts\<close>

lemma length_be_bytes [simp]: "length (u32_to_be_bytes w) = 4"
  by (simp add: u32_to_be_bytes_def)

lemma unat_digit [simp]: "unat (of_nat (n mod 256) :: u8) = n mod 256"
  by (simp add: unat_of_nat)

lemma be_digits:
  fixes n :: nat
  assumes "n < 4294967296"
  shows "256 * (256 * (256 * (n div 16777216 mod 256) + n div 65536 mod 256) + n div 256 mod 256)
           + n mod 256 = n"
proof -
  define a b c where "a = n div 256" and "b = a div 256" and "c = b div 256"
  have d: "n div 65536 = b" "n div 16777216 = c"
    by (simp_all add: a_def b_def c_def div_mult2_eq [symmetric])
  have "c < 256"
    using assms by (simp add: d(2) [symmetric] less_mult_imp_div_less)
  moreover have "256 * c + b mod 256 = b" "256 * b + a mod 256 = a" "256 * a + n mod 256 = n"
    by (simp_all add: a_def b_def c_def)
  ultimately show ?thesis
    by (simp add: d a_def [symmetric])
qed

lemma be_bytes_roundtrip: "u32_from_be_bytes (u32_to_be_bytes w) = unat w"
proof -
  have "unat w < 4294967296" using unsigned_less [of w] by simp
  from be_digits [OF this] show ?thesis
    by (simp only: u32_to_be_bytes_def u32_from_be_bytes_def list.map foldl.simps unat_digit
        mult_0_right add_0 div_by_1)
qed

lemma write_message_ok:
  assumes "write_message enc s m = Ok s'"
  obtains buf where "enc m = Some buf"
    and "unat (of_nat (length buf) :: u32) \<le> MAX_MESSAGE_SIZE"
    and "sent s' = sent s @ u32_to_be_bytes (of_nat (length buf)) @ buf"
  using assms
  by (auto simp: write_message_def write_all_def Let_def split: option.splits if_splits)

lemma read_message_frame:
  assumes "len \<le> MAX_MESSAGE_SIZE" and "length lenbuf = 4" and "u32_from_be_bytes lenbuf = len"
    and "length buf = len"
  shows "read_message dec (lenbuf @ buf @ rest) =
           (case dec buf of None \<Rightarrow> Err CborDeserialize | Some m \<Rightarrow> Ok (m, rest))"
  using assms by (simp add: read_message_def read_exact_def Let_def)

lemma unat_u32_small: "n < 2 ^ 32 \<Longrightarrow> unat (of_nat n :: u32) = n"
  by (simp add: unat_of_nat)

section \<open>Properties\<close>

text \<open>
  Framing round trip.  If the decoder inverts the encoder on a message whose encoding is
  shorter than \<open>2 ^ 32\<close> bytes, what \<^verbatim>\<open>write_message\<close> put on an empty stream is read back by
  \<^verbatim>\<open>read_message\<close> as that message, leaving exactly the bytes that followed the frame.
\<close>

theorem frame_roundtrip:
  assumes "enc m = Some buf" and "dec buf = Some m" and "length buf < 2 ^ 32"
    and "sent s = []" and "write_message enc s m = Ok s'"
  shows "read_message dec (sent s' @ rest) = Ok (m, rest)"
proof -
  have len: "unat (of_nat (length buf) :: u32) = length buf"
    using assms(3) by (rule unat_u32_small)
  obtain b where b: "enc m = Some b" "unat (of_nat (length b) :: u32) \<le> MAX_MESSAGE_SIZE"
      "sent s' = sent s @ u32_to_be_bytes (of_nat (length b)) @ b"
    using write_message_ok [OF assms(5)] by blast
  show ?thesis
    using b assms(1,2,4) len
      read_message_frame [of "length buf" "u32_to_be_bytes (of_nat (length buf))" buf dec rest]
    by (simp add: be_bytes_roundtrip)
qed

theorem frame_roundtrip_witness:
  "read_message Some (sent (\<lparr>sent = u32_to_be_bytes 2 @ [7, 9], peer_takes = None\<rparr>) @ [1])
     = Ok ([7, 9 :: u8], [1])"
proof -
  have w: "write_message Some \<lparr>sent = [], peer_takes = None\<rparr> [7, 9 :: u8] =
      Ok \<lparr>sent = u32_to_be_bytes 2 @ [7, 9], peer_takes = None\<rparr>"
    by (simp add: write_message_def write_all_def MAX_MESSAGE_SIZE_def Let_def)
  show ?thesis
    by (rule frame_roundtrip [where enc = Some and buf = "[7, 9]" and s = "\<lparr>sent = [], peer_takes = None\<rparr>", OF _ _ _ _ w])
       simp_all
qed

text \<open>
  A successful read consumed one frame whose body is at most \<^verbatim>\<open>MAX_MESSAGE_SIZE\<close> bytes long,
  whatever the peer wrote into the length prefix.
\<close>

theorem read_message_bounded:
  assumes "read_message dec recv = Ok (m, rest)"
  shows "\<exists>buf. recv = take 4 recv @ buf @ rest \<and> length buf \<le> MAX_MESSAGE_SIZE \<and> dec buf = Some m"
proof -
  let ?len = "u32_from_be_bytes (take 4 recv)"
  have "?len \<le> MAX_MESSAGE_SIZE" "?len \<le> length (drop 4 recv)"
      "dec (take ?len (drop 4 recv)) = Some m" "rest = drop ?len (drop 4 recv)"
    using assms
    by (auto simp: read_message_def read_exact_def Let_def split: option.splits if_splits)
  then show ?thesis
    by (intro exI [of _ "take ?len (drop 4 recv)"])
       (metis append_take_drop_id length_take min.absorb2)
qed

theorem read_message_bounded_witness:
  "\<exists>buf. [0, 0, 0, 1, 42, 5] = take 4 [0, 0, 0, 1, 42, 5 :: u8] @ buf @ [5]
     \<and> length buf \<le> MAX_MESSAGE_SIZE \<and> Some buf = Some [42]"
proof -
  have "read_message Some [0, 0, 0, 1, 42, 5 :: u8] = Ok ([42], [5])"
    by (simp add: read_message_def read_exact_def u32_from_be_bytes_def MAX_MESSAGE_SIZE_def Let_def)
  from read_message_bounded [OF this] show ?thesis .
qed

text \<open>
  The size check of \<^verbatim>\<open>write_message\<close> looks at the length after its truncation to 32 bits: an
  encoding of \<open>2 ^ 32\<close> bytes or more passes it whenever the truncated length is small, and the
  frame then announces a body shorter than the one written.
\<close>

theorem write_message_length_check_wraps:
  assumes "enc m = Some buf" and "length buf = 2 ^ 32 + k" and "k \<le> MAX_MESSAGE_SIZE"
    and "peer_takes s = None"
  shows "\<exists>s'. write_message enc s m = Ok s' \<and>
           sent s' = sent s @ u32_to_be_bytes (of_nat k) @ buf \<and> k < length buf"
proof -
  have k: "unat (of_nat (length buf) :: u32) = k"
    using assms(3) by (simp only: assms(2) unat_of_nat) (simp add: MAX_MESSAGE_SIZE_def)
  have lt: "k < length buf" using assms(2) by simp
  have w: "(of_nat (length buf) :: u32) = of_nat k"
    using assms(3) by (simp only: word_unat_eq_iff k) (simp add: unat_of_nat MAX_MESSAGE_SIZE_def)
  show ?thesis
    using assms(1,3,4) k lt by (simp add: write_message_def write_all_def Let_def w)
qed

theorem write_message_length_check_wraps_witness:
  "\<exists>s'. write_message (\<lambda>_ :: unit. Some (replicate (2 ^ 32 + 1) 0)) \<lparr>sent = [], peer_takes = None\<rparr> () = Ok s'
     \<and> sent s' = [] @ u32_to_be_bytes (of_nat 1) @ replicate (2 ^ 32 + 1) 0
     \<and> 1 < length (replicate (2 ^ 32 + 1) (0 :: u8))"
proof -
  have *: "(1 :: nat) \<le> MAX_MESSAGE_SIZE" by (simp add: MAX_MESSAGE_SIZE_def)
  show ?thesis
    using write_message_length_check_wraps
      [where enc = "\<lambda>_ :: unit. Some (replicate (2 ^ 32 + 1) 0)" and m = "()"
         and buf = "replicate (2 ^ 32 + 1) 0" and k = 1 and s = "\<lparr>sent = [], peer_takes = None\<rparr>",
       OF refl length_replicate * send_stream.select_convs(2)]
    by (simp only: send_stream.select_convs)
qed

end
