(* ===== verification/AuditLog.thy ===== *)
theory AuditLog
  imports Protocol "HOL-Library.AList"
begin

text \<open>
  Two small tables of \<^verbatim>\<open>db.rs\<close>: the security events, an append-only log read page by page from the
  newest entry on, and the source snapshots a transfer is resumed against.  A snapshot map is stored as
  the association list it is read back as; its JSON text is not modelled.
\<close>

section \<open>Definitions\<close>

record security_event =
  ev_id :: nat
  ev_type :: string
  occurred_at_unix :: u64
  ev_phase :: string
  ev_peer_fingerprint :: "string option"
  ev_reason :: string

type_synonym security_log = "security_event list"

text \<open>\<^verbatim>\<open>AUTOINCREMENT\<close>: rows are never deleted, so the next id is the number of rows plus one.\<close>

definition log_security_event ::
    "u64 \<Rightarrow> string \<Rightarrow> string \<Rightarrow> string option \<Rightarrow> string \<Rightarrow> security_log \<Rightarrow> security_log" where
  "log_security_event now ty phase fp reason log =
     log @ [\<lparr>ev_id = length log + 1, ev_type = ty, occurred_at_unix = now, ev_phase = phase,
             ev_peer_fingerprint = fp, ev_reason = reason\<rparr>]"

text \<open>\<^verbatim>\<open>ORDER BY occurred_at DESC, id DESC\<close>: the time is the first key.\<close>

definition newest_first :: "security_log \<Rightarrow> security_log" where
  "newest_first log = rev (sort_key occurred_at_unix (sort_key ev_id log))"

definition get_security_events :: "security_log \<Rightarrow> nat \<Rightarrow> nat \<Rightarrow> security_log" where
  "get_security_events log limit skip = take limit (drop skip (newest_first log))"

type_synonym snapshot_map = "(nat \<times> source_snapshot) list"
type_synonym snapshot_table = "(string \<times> snapshot_map) list"

definition save_transfer_source_snapshots :: "string \<Rightarrow> snapshot_map \<Rightarrow> snapshot_table \<Rightarrow> snapshot_table" where
  "save_transfer_source_snapshots tid snaps tbl = AList.update tid snaps tbl"

definition load_transfer_source_snapshots :: "string \<Rightarrow> snapshot_table \<Rightarrow> snapshot_map option" where
  "load_transfer_source_snapshots tid tbl = map_of tbl tid"

text \<open>A log as the application writes it: one entry per call, with the clock readings of the calls.\<close>

fun log_all :: "(u64 \<times> string \<times> string \<times> string option \<times> string) list \<Rightarrow> security_log \<Rightarrow> security_log" where
  "log_all [] log = log"
| "log_all ((now, ty, phase, fp, reason) # calls) log =
     log_all calls (log_security_event now ty phase fp reason log)"

section \<open>Facts\<close>

lemma log_all_ids: "map ev_id log = [1..<length log + 1] \<Longrightarrow>
    map ev_id (log_all calls log) = [1..<length log + length calls + 1]"
  by (induction calls log rule: log_all.induct) (simp_all add: log_security_event_def)

lemma log_all_times: "map occurred_at_unix (log_all calls log) = map occurred_at_unix log @ map fst calls"
  by (induction calls log rule: log_all.induct) (simp_all add: log_security_event_def)

lemma log_all_length: "length (log_all calls log) = length log + length calls"
  by (induction calls log rule: log_all.induct) (simp_all add: log_security_event_def)

lemma sort_key_id: "sorted (map f xs) \<Longrightarrow> sort_key f xs = xs"
  by (simp add: sort_key_id_if_sorted)

section \<open>Properties\<close>

text \<open>
  Paging through the security log is complete and newest first.  When the clock does not run
  backwards between the calls, the pages are cut from the log in reverse order of writing: no page
  misses or repeats an entry.
\<close>

theorem security_pages_newest_first:
  assumes "sorted (map fst calls)"
  shows "get_security_events (log_all calls []) limit skip = take limit (drop skip (rev (log_all calls [])))"
proof -
  have "sorted (map ev_id (log_all calls []))" using log_all_ids [of "[]" calls] by (simp del: upt_Suc)
  moreover have "sorted (map occurred_at_unix (log_all calls []))" using assms log_all_times [of calls "[]"] by simp
  ultimately show ?thesis by (simp add: get_security_events_def newest_first_def sort_key_id)
qed

theorem security_pages_newest_first_witness:
  "map ev_id (get_security_events (log_all [(5, ''a'', ''p'', None, ''r''), (7, ''b'', ''p'', None, ''r'')] []) 1 0) = [2]"
  using security_pages_newest_first [of "[(5, ''a'', ''p'', None, ''r''), (7, ''b'', ''p'', None, ''r'')]" 1 0]
  by (simp add: log_security_event_def)

end
