(* ===== verification/TrustStore.thy ===== *)
theory TrustStore
  imports Trust AuditLog "HOL-Library.Multiset"
begin

text \<open>
  The table \<^verbatim>\<open>trusted_peers_store\<close> of \<^verbatim>\<open>db.rs\<close>: levels and methods are stored as text, numbers in
  SQLite's signed 64-bit integers, and rows are keyed by fingerprint.  A statement that fails leaves
  what the statements before it have done.
\<close>

section \<open>Definitions\<close>

record trusted_row =
  tr_fingerprint :: string
  tr_name :: string
  tr_paired_at :: nat
  tr_trust_level :: string
  tr_method :: string
  tr_alias :: "string option"
  tr_last_used_at :: "nat option"
  tr_remote_seen_at :: "nat option"
  tr_local_at :: "nat option"
  tr_mutual_at :: "nat option"
  tr_frozen_at :: "nat option"
  tr_freeze_reason :: "string option"

type_synonym trusted_store = "trusted_row list"

datatype store_error = ValueOutOfRange | DuplicateFingerprint | OldFingerprintNotFound

fun level_str :: "trust_level \<Rightarrow> string" where
  "level_str LegacyPaired = ''legacy_paired''"
| "level_str SignedLinkVerified = ''signed_link_verified''"
| "level_str MutualConfirmed = ''mutual_confirmed''"
| "level_str Frozen = ''frozen''"

fun method_str :: "trust_verification_method \<Rightarrow> string" where
  "method_str ManualPairing = ''manual_pairing''"
| "method_str LegacyUnsignedLink = ''legacy_unsigned_link''"
| "method_str SignedPairingLink = ''signed_pairing_link''"
| "method_str MutualReceipt = ''mutual_receipt''"

definition parse_level :: "string \<Rightarrow> trust_level" where
  "parse_level s =
     (if s = ''signed_link_verified'' then SignedLinkVerified
      else if s = ''mutual_confirmed'' then MutualConfirmed
      else if s = ''frozen'' then Frozen
      else LegacyPaired)"

definition parse_method :: "string \<Rightarrow> trust_verification_method" where
  "parse_method s =
     (if s = ''legacy_unsigned_link'' then LegacyUnsignedLink
      else if s = ''signed_pairing_link'' then SignedPairingLink
      else if s = ''mutual_receipt'' then MutualReceipt
      else ManualPairing)"

text \<open>The migration also knows two older spellings.\<close>

definition parse_method_migrate :: "string \<Rightarrow> trust_verification_method" where
  "parse_method_migrate s =
     (if s = ''mutual_receipt'' \<or> s = ''mutual_shared_code'' then MutualReceipt
      else if s = ''signed_pairing_link'' \<or> s = ''signed_link'' then SignedPairingLink
      else if s = ''legacy_unsigned_link'' then LegacyUnsignedLink
      else ManualPairing)"

definition row_of_peer :: "trusted_peer \<Rightarrow> trusted_row" where
  "row_of_peer p =
     \<lparr>tr_fingerprint = fingerprint p, tr_name = tp_name p, tr_paired_at = paired_at p,
      tr_trust_level = level_str (trust_level p), tr_method = method_str (last_verification_method p),
      tr_alias = alias_name p, tr_last_used_at = last_used_at p,
      tr_remote_seen_at = remote_confirmation_material_seen_at p, tr_local_at = local_confirmation_at p,
      tr_mutual_at = mutual_confirmed_at p, tr_frozen_at = frozen_at p, tr_freeze_reason = freeze_reason p\<rparr>"

definition peer_of_row :: "trusted_row \<Rightarrow> trusted_peer" where
  "peer_of_row r =
     \<lparr>fingerprint = tr_fingerprint r, tp_name = tr_name r, paired_at = tr_paired_at r,
      trust_level = parse_level (tr_trust_level r), last_verification_method = parse_method (tr_method r),
      alias_name = tr_alias r, last_used_at = tr_last_used_at r,
      remote_confirmation_material_seen_at = tr_remote_seen_at r, local_confirmation_at = tr_local_at r,
      mutual_confirmed_at = tr_mutual_at r, frozen_at = tr_frozen_at r, freeze_reason = tr_freeze_reason r\<rparr>"

definition peer_fits :: "trusted_peer \<Rightarrow> bool" where
  "peer_fits p =
     (paired_at p \<le> I64_MAX \<and>
      list_all (\<lambda>v. case v of Some n \<Rightarrow> n \<le> I64_MAX | None \<Rightarrow> True)
        [last_used_at p, remote_confirmation_material_seen_at p, local_confirmation_at p, mutual_confirmed_at p,
         frozen_at p])"

definition load_trusted_peers :: "trusted_store \<Rightarrow> trusted_peer list" where
  "load_trusted_peers tbl = map peer_of_row (sort_key tr_paired_at tbl)"

definition insert_peer :: "trusted_peer \<Rightarrow> trusted_store \<Rightarrow> store_error + trusted_store" where
  "insert_peer p tbl =
     (if \<not> peer_fits p then Err ValueOutOfRange
      else if fingerprint p \<in> set (map tr_fingerprint tbl) then Err DuplicateFingerprint
      else Ok (tbl @ [row_of_peer p]))"

fun insert_peers :: "trusted_peer list \<Rightarrow> trusted_store \<Rightarrow> trusted_store \<times> (store_error + unit)" where
  "insert_peers [] tbl = (tbl, Ok ())"
| "insert_peers (p # ps) tbl =
     (case insert_peer p tbl of Inl e \<Rightarrow> (tbl, Err e) | Inr tbl1 \<Rightarrow> insert_peers ps tbl1)"

definition replace_trusted_peers :: "trust_table \<Rightarrow> trusted_store \<Rightarrow> trusted_store \<times> (store_error + unit)" where
  "replace_trusted_peers trusted tbl = insert_peers (map snd trusted) []"

fun upsert_row_tp :: "trusted_row \<Rightarrow> trusted_store \<Rightarrow> trusted_store" where
  "upsert_row_tp r [] = [r]"
| "upsert_row_tp r (x # xs) = (if tr_fingerprint x = tr_fingerprint r then r # xs else x # upsert_row_tp r xs)"

definition save_trusted_peer :: "trusted_peer \<Rightarrow> trusted_store \<Rightarrow> store_error + trusted_store" where
  "save_trusted_peer p tbl =
     (if \<not> peer_fits p then Err ValueOutOfRange else Ok (upsert_row_tp (row_of_peer p) tbl))"

definition migrate_trusted_peer_identity ::
    "u64 \<Rightarrow> string \<Rightarrow> string \<Rightarrow> string \<Rightarrow> trusted_store \<Rightarrow> security_log \<Rightarrow>
     trusted_store \<times> security_log \<times> (store_error + unit)" where
  "migrate_trusted_peer_identity now old_fp new_fp new_name tbl log =
     (case find (\<lambda>r. tr_fingerprint r = old_fp) tbl of
        None \<Rightarrow> (tbl, log, Err OldFingerprintNotFound)
      | Some r \<Rightarrow>
          (let p = (peer_of_row r)\<lparr>last_verification_method := parse_method_migrate (tr_method r),
                      frozen_at := None, freeze_reason := None, fingerprint := new_fp, tp_name := new_name\<rparr>;
               tbl1 = filter (\<lambda>x. tr_fingerprint x \<noteq> old_fp) tbl
           in case save_trusted_peer p tbl1 of
                Inl e \<Rightarrow> (tbl1, log, Err e)
              | Inr tbl2 \<Rightarrow>
                  (tbl2, log_security_event now ''identity_migrated'' ''pairing'' (Some new_fp)
                     (''Successfully migrated identity from old fingerprint: '' @ old_fp) log, Ok ())))"

definition sample_peer :: trusted_peer where
  "sample_peer = \<lparr>fingerprint = ''f'', tp_name = ''n'', paired_at = 7, trust_level = MutualConfirmed,
     last_verification_method = MutualReceipt, alias_name = None, last_used_at = Some 9,
     remote_confirmation_material_seen_at = None, local_confirmation_at = Some 7, mutual_confirmed_at = Some 8,
     frozen_at = None, freeze_reason = None\<rparr>"

section \<open>Facts\<close>

lemma parse_level_str [simp]: "parse_level (level_str l) = l"
  by (cases l) (simp_all add: parse_level_def)

lemma parse_method_str [simp]: "parse_method (method_str m) = m"
  by (cases m) (simp_all add: parse_method_def)

lemma peer_of_row_of_peer [simp]: "peer_of_row (row_of_peer p) = p"
  by (simp add: peer_of_row_def row_of_peer_def)

lemma row_of_peer_simps [simp]:
  "tr_fingerprint (row_of_peer p) = fingerprint p" "tr_paired_at (row_of_peer p) = paired_at p"
  by (simp_all add: row_of_peer_def)

lemma insert_peers_ok:
  "list_all peer_fits ps \<Longrightarrow> distinct (map tr_fingerprint tbl @ map fingerprint ps) \<Longrightarrow>
   insert_peers ps tbl = (tbl @ map row_of_peer ps, Ok ())"
  by (induction ps arbitrary: tbl) (auto simp: insert_peer_def)

text \<open>What a store of distinct, storable peers gives back.\<close>

lemma load_replaced:
  assumes "list_all (peer_fits \<circ> snd) trusted" and "distinct (map (fingerprint \<circ> snd) trusted)"
    and "replace_trusted_peers trusted tbl = (tbl', r)"
  shows "r = Ok () \<and> load_trusted_peers tbl' = sort_key paired_at (map snd trusted)"
proof -
  have "insert_peers (map snd trusted) [] = (map row_of_peer (map snd trusted), Ok ())"
    using insert_peers_ok [of "map snd trusted" "[]"] assms(1,2) by (simp add: list_all_iff)
  then have "tbl' = map row_of_peer (map snd trusted)" "r = Ok ()"
    using assms(3) by (simp_all add: replace_trusted_peers_def)
  moreover have "sort_key tr_paired_at (map row_of_peer ps) = map row_of_peer (sort_key paired_at ps)" for ps
  proof -
    have "insort_key tr_paired_at (row_of_peer p) (map row_of_peer qs) = map row_of_peer (insort_key paired_at p qs)" for p qs
      by (induction qs) auto
    then show ?thesis by (induction ps) auto
  qed
  ultimately have "load_trusted_peers tbl' = map peer_of_row (map row_of_peer (sort_key paired_at (map snd trusted)))"
    by (simp only: load_trusted_peers_def)
  then show ?thesis using \<open>r = Ok ()\<close> by (simp add: comp_def)
qed

section \<open>Properties\<close>

text \<open>
  Trust survives a restart.  Writing the trust table, whatever was stored before, and loading it
  again gives every peer back with its level, verification kind and all marks, exactly once, in the order of
  pairing, if the numbers fit SQLite's integers and no two entries share a fingerprint.
\<close>

theorem trusted_peers_roundtrip:
  assumes "list_all (peer_fits \<circ> snd) trusted" and "distinct (map (fingerprint \<circ> snd) trusted)"
  shows "snd (replace_trusted_peers trusted tbl) = Ok () \<and>
    mset (load_trusted_peers (fst (replace_trusted_peers trusted tbl))) = mset (map snd trusted) \<and>
    sorted (map paired_at (load_trusted_peers (fst (replace_trusted_peers trusted tbl))))"
  using load_replaced [OF assms, of tbl "fst (replace_trusted_peers trusted tbl)" "snd (replace_trusted_peers trusted tbl)"]
  by simp

theorem trusted_peers_roundtrip_witness:
  "mset (load_trusted_peers (fst (replace_trusted_peers [(''f'', sample_peer)] []))) = {#sample_peer#}"
  using trusted_peers_roundtrip [of "[(''f'', sample_peer)]" "[]"]
  by (simp add: peer_fits_def sample_peer_def I64_MAX_def)

end
