(* ===== verification/AccessTokens.thy ===== *)
theory AccessTokens
  imports Prelude "HOL-Library.AList"
begin

text \<open>
  The local IPC access tokens of \<^verbatim>\<open>AppState\<close> (\<^verbatim>\<open>state.rs\<close>): issuing with rotation, validation,
  revocation and counting.  The token table is an association list.  A fresh random token is an
  argument of \<open>issue_local_ipc_access_grant\<close>; that it differs from the tokens in use is a hypothesis
  where it matters.
\<close>

section \<open>Definitions\<close>

record access_token =
  expires_at_unix_ms :: u64
  refresh_after_unix_ms :: u64

record access_grant = access_token +
  grant_token :: string

type_synonym token_table = "(string \<times> access_token) list"

datatype token_error = MissingToken | ExpiredToken | UnknownToken

definition TOKEN_TTL_MS :: u64 where
  "TOKEN_TTL_MS = 5 * 60 * 1000"

definition TOKEN_REFRESH_AFTER_MS :: u64 where
  "TOKEN_REFRESH_AFTER_MS = 2 * 60 * 1000"

definition retain_live :: "u64 \<Rightarrow> token_table \<Rightarrow> token_table" where
  "retain_live now toks = filter (\<lambda>(k, r). expires_at_unix_ms r > now) toks"

definition non_blank :: "string option \<Rightarrow> string option" where
  "non_blank tok = (case tok of Some v \<Rightarrow> if trim v \<noteq> [] then Some v else None | None \<Rightarrow> None)"

definition issue_local_ipc_access_grant ::
    "u64 \<Rightarrow> string \<Rightarrow> string option \<Rightarrow> token_table \<Rightarrow> token_table \<times> access_grant" where
  "issue_local_ipc_access_grant now fresh previous toks =
     (let expires = sat_add now TOKEN_TTL_MS;
          refresh = sat_add now TOKEN_REFRESH_AFTER_MS;
          toks1 = retain_live now toks;
          toks2 = (case non_blank previous of Some p \<Rightarrow> AList.delete p toks1 | None \<Rightarrow> toks1);
          toks3 = AList.update fresh \<lparr>expires_at_unix_ms = expires, refresh_after_unix_ms = refresh\<rparr> toks2
      in (toks3, \<lparr>expires_at_unix_ms = expires, refresh_after_unix_ms = refresh, grant_token = fresh\<rparr>))"

definition token_status :: "u64 \<Rightarrow> token_table \<Rightarrow> string \<Rightarrow> token_error + unit" where
  "token_status now toks tok =
     (case map_of toks tok of
        Some r \<Rightarrow> if expires_at_unix_ms r > now then Ok () else Err ExpiredToken
      | None \<Rightarrow> Err UnknownToken)"

definition validate_local_ipc_access_token ::
    "u64 \<Rightarrow> string option \<Rightarrow> token_table \<Rightarrow> token_table \<times> (token_error + unit)" where
  "validate_local_ipc_access_token now token toks =
     (case non_blank token of
        None \<Rightarrow> (toks, Err MissingToken)
      | Some tok \<Rightarrow> (retain_live now toks, token_status now toks tok))"

definition revoke_local_ipc_access_token ::
    "u64 \<Rightarrow> string option \<Rightarrow> token_table \<Rightarrow> token_table \<times> (token_error + unit)" where
  "revoke_local_ipc_access_token now token toks =
     (case non_blank token of
        None \<Rightarrow> (toks, Err MissingToken)
      | Some tok \<Rightarrow>
          (case token_status now toks tok of
             Inl e \<Rightarrow> (retain_live now toks, Err e)
           | Inr _ \<Rightarrow> (AList.delete tok (retain_live now toks), Ok ())))"

definition active_local_ipc_access_grant_count :: "u64 \<Rightarrow> token_table \<Rightarrow> token_table \<times> nat" where
  "active_local_ipc_access_grant_count now toks = (retain_live now toks, length (retain_live now toks))"

text \<open>The requests of a running daemon on the table.\<close>

datatype token_op =
    Issue u64 string "string option" | Validate u64 "string option" | Revoke u64 "string option" | Count u64

fun token_step :: "token_table \<Rightarrow> token_op \<Rightarrow> token_table" where
  "token_step toks (Issue now fresh previous) = fst (issue_local_ipc_access_grant now fresh previous toks)"
| "token_step toks (Validate now token) = fst (validate_local_ipc_access_token now token toks)"
| "token_step toks (Revoke now token) = fst (revoke_local_ipc_access_token now token toks)"
| "token_step toks (Count now) = fst (active_local_ipc_access_grant_count now toks)"

fun issued_by :: "token_op \<Rightarrow> string option" where
  "issued_by (Issue now fresh previous) = Some fresh"
| "issued_by _ = None"

fun touches :: "string \<Rightarrow> token_op \<Rightarrow> bool" where
  "touches tok (Issue now fresh previous) = (fresh = tok \<or> non_blank previous = Some tok)"
| "touches tok (Revoke now token) = (non_blank token = Some tok)"
| "touches tok _ = False"

fun token_op_time :: "token_op \<Rightarrow> u64" where
  "token_op_time (Issue now _ _) = now"
| "token_op_time (Validate now _) = now"
| "token_op_time (Revoke now _) = now"
| "token_op_time (Count now) = now"

definition table_distinct :: "token_table \<Rightarrow> bool" where
  "table_distinct toks = distinct (map fst toks)"

section \<open>Facts\<close>

lemma map_of_retain_live:
  assumes "table_distinct toks"
  shows "map_of (retain_live now toks) tok =
    (case map_of toks tok of Some r \<Rightarrow> if expires_at_unix_ms r > now then Some r else None | None \<Rightarrow> None)"
  using assms
  by (induction toks) (auto simp: retain_live_def table_distinct_def map_of_eq_None_iff image_iff
      split: option.splits)

lemma retain_live_distinct [invariant_intros]: "table_distinct toks \<Longrightarrow> table_distinct (retain_live now toks)"
  by (simp add: table_distinct_def retain_live_def distinct_map_filter)

lemma token_step_distinct [invariant_intros]:
  assumes "table_distinct toks" shows "table_distinct (token_step toks op)"
  using retain_live_distinct [OF assms]
  by (cases op) (auto simp: issue_local_ipc_access_grant_def validate_local_ipc_access_token_def
      revoke_local_ipc_access_token_def active_local_ipc_access_grant_count_def Let_def table_distinct_def
      distinct_update distinct_delete assms [unfolded table_distinct_def] split: option.splits sum.splits)

lemma token_steps_distinct: "table_distinct toks \<Longrightarrow> table_distinct (foldl token_step toks ops)"
  by (induction ops arbitrary: toks) (simp_all add: token_step_distinct)

lemma token_step_untouched:
  assumes "table_distinct toks" and "\<not> touches tok op"
  shows "map_of (token_step toks op) tok = map_of toks tok \<or>
    map_of (token_step toks op) tok = map_of (retain_live (token_op_time op) toks) tok"
  using assms
  by (cases op) (auto simp: issue_local_ipc_access_grant_def validate_local_ipc_access_token_def
      revoke_local_ipc_access_token_def active_local_ipc_access_grant_count_def Let_def update_conv'
      delete_conv' split: option.splits sum.splits)

lemma token_steps_live:
  assumes "table_distinct toks" and "map_of toks tok = Some r"
    and "list_all (\<lambda>op. \<not> touches tok op \<and> token_op_time op < expires_at_unix_ms r) ops"
  shows "map_of (foldl token_step toks ops) tok = Some r"
  using assms
proof (induction ops arbitrary: toks)
  case (Cons op ops)
  have "map_of (token_step toks op) tok = Some r"
    using token_step_untouched [of toks tok op] Cons.prems by (auto simp: map_of_retain_live)
  then show ?case using Cons token_step_distinct by simp
qed simp

lemma token_steps_absent:
  assumes "table_distinct toks" and "map_of toks tok = None"
    and "list_all (\<lambda>op. issued_by op \<noteq> Some tok) ops"
  shows "map_of (foldl token_step toks ops) tok = None"
  using assms
proof (induction ops arbitrary: toks)
  case (Cons op ops)
  have "map_of (token_step toks op) tok = None"
    using Cons.prems
    by (cases op) (auto simp: issue_local_ipc_access_grant_def validate_local_ipc_access_token_def
        revoke_local_ipc_access_token_def active_local_ipc_access_grant_count_def Let_def update_conv'
        delete_conv' map_of_retain_live split: option.splits sum.splits)
  then show ?case using Cons token_step_distinct by simp
qed simp

lemma issue_lookup: "map_of (fst (issue_local_ipc_access_grant now tok previous toks)) tok =
    Some \<lparr>expires_at_unix_ms = sat_add now TOKEN_TTL_MS, refresh_after_unix_ms = sat_add now TOKEN_REFRESH_AFTER_MS\<rparr>"
  by (simp add: issue_local_ipc_access_grant_def Let_def update_conv')

lemma issue_distinct:
  "table_distinct toks \<Longrightarrow> table_distinct (fst (issue_local_ipc_access_grant now tok previous toks))"
  using token_step_distinct [of toks "Issue now tok previous"] by simp

section \<open>Properties\<close>

text \<open>
  C5: A granted token works for its five minutes and no longer.  Take a grant of a token that is not blank, by a
  clock that is not within five minutes of the end of its range, and any requests on the table of tokens
  that are served before the token expires, none of which revokes it, rotates it out or issues it again.
  Then the token validates at every moment before its expiry and is refused as expired from then on.
\<close>

theorem token_valid_until_expiry:
  assumes "table_distinct toks" and "trim tok \<noteq> []" and "now + TOKEN_TTL_MS \<le> U64_MAX"
    and "list_all (\<lambda>op. \<not> touches tok op \<and> token_op_time op < now + TOKEN_TTL_MS) ops"
  shows "snd (validate_local_ipc_access_token t (Some tok)
           (foldl token_step (fst (issue_local_ipc_access_grant now tok previous toks)) ops)) =
         (if t < now + TOKEN_TTL_MS then Ok () else Err ExpiredToken)"
proof -
  have "map_of (foldl token_step (fst (issue_local_ipc_access_grant now tok previous toks)) ops) tok =
    Some \<lparr>expires_at_unix_ms = now + TOKEN_TTL_MS, refresh_after_unix_ms = sat_add now TOKEN_REFRESH_AFTER_MS\<rparr>"
    using token_steps_live [OF issue_distinct [OF assms(1)] issue_lookup] assms(3,4) by (simp add: sat_add_def)
  then show ?thesis
    using assms(2) by (simp add: validate_local_ipc_access_token_def non_blank_def token_status_def)
qed

theorem token_valid_until_expiry_witness:
  "snd (validate_local_ipc_access_token 200000 (Some ''tok'')
     (foldl token_step (fst (issue_local_ipc_access_grant 1000 ''tok'' None [])) [Count 5000])) = Ok ()"
proof -
  have "trim ''tok'' \<noteq> []" by code_simp
  then show ?thesis
    using token_valid_until_expiry [of "[]" "''tok''" 1000 "[Count 5000]" 200000 None]
    by (simp add: table_distinct_def TOKEN_TTL_MS_def U64_MAX_def)
qed

text \<open>
  C18: A revoked or rotated token is dead: after a successful revocation, or after the grant of another token
  that names it as the previous one, it is unknown at every later validation, whatever requests on the table of
  tokens are served and whatever the clock says, unless it is issued again.
\<close>

theorem token_revoked_for_ever:
  assumes "table_distinct toks" and "trim tok \<noteq> []" and "fresh \<noteq> tok"
    and "list_all (\<lambda>op. issued_by op \<noteq> Some tok) ops"
    and "toks' = fst (issue_local_ipc_access_grant now fresh (Some tok) toks) \<or>
         revoke_local_ipc_access_token now (Some tok) toks = (toks', Ok ())"
  shows "snd (validate_local_ipc_access_token t (Some tok) (foldl token_step toks' ops)) = Err UnknownToken"
proof -
  have absent: "map_of toks' tok = None"
    using assms(2,3,5)
    by (auto simp: issue_local_ipc_access_grant_def revoke_local_ipc_access_token_def non_blank_def Let_def
        update_conv' delete_conv' split: sum.splits)
  have "table_distinct toks'"
    using assms(5) issue_distinct [OF assms(1)] token_step_distinct [OF assms(1), of "Revoke now (Some tok)"]
    by auto
  from token_steps_absent [OF this absent assms(4)] show ?thesis
    using assms(2) by (simp add: validate_local_ipc_access_token_def non_blank_def token_status_def)
qed

theorem token_revoked_for_ever_witness:
  "snd (validate_local_ipc_access_token 2000 (Some ''tok'')
     (foldl token_step (fst (issue_local_ipc_access_grant 1000 ''new'' (Some ''tok'')
        [(''tok'', \<lparr>expires_at_unix_ms = 9000, refresh_after_unix_ms = 5000\<rparr>)])) [Count 5000])) = Err UnknownToken"
proof -
  have "trim ''tok'' \<noteq> []" by code_simp
  then show ?thesis
    by (intro token_revoked_for_ever [where fresh = "''new''" and now = 1000 and
          toks = "[(''tok'', \<lparr>expires_at_unix_ms = 9000, refresh_after_unix_ms = 5000\<rparr>)]"])
       (simp_all add: table_distinct_def)
qed

end
