(* ===== verification/Transfers.thy ===== *)
theory Transfers
  imports Protocol
begin

text \<open>
  The transfer records of \<^verbatim>\<open>state.rs\<close> (\<^verbatim>\<open>FileItemMeta\<close>, \<^verbatim>\<open>TransferTask\<close>, its direction and status,
  \<^verbatim>\<open>TransferMetrics\<close>) and the operations on a single task that several components share: the
  terminal-status test that \<^verbatim>\<open>db.rs\<close>, \<^verbatim>\<open>persistence_progress.rs\<close> and the transport layer each
  write out, the progress snapshot, and the in-memory terminal counters.  A QUIC connection handle
  and an \<^verbatim>\<open>Instant\<close> are kept as opaque numbers.
\<close>

section \<open>Data\<close>

datatype transfer_direction = Send | Receive

datatype transfer_status =
    Draft | PendingAccept | Transferring | Completed | PartialCompleted | StRejected
  | CancelledBySender | CancelledByReceiver | StFailed

record file_item_meta =
  meta_file_id :: nat
  meta_name :: string
  meta_rel_path :: string
  meta_size :: u64
  meta_hash :: "string option"
  meta_risk_class :: "risk_class option"

record transfer_task =
  task_id :: string
  batch_id :: "string option"
  direction :: transfer_direction
  peer_fingerprint :: string
  peer_name :: string
  task_items :: "file_item_meta list"
  status :: transfer_status
  bytes_transferred :: u64
  total_bytes :: u64
  revision :: u64
  started_at_unix :: u64
  ended_at_unix :: "u64 option"
  terminal_reason_code :: "string option"
  task_error :: "string option"
  source_paths :: "string list option"
  source_path_by_file_id :: "(nat \<rightharpoonup> string) option"
  failed_file_ids :: "nat list option"
  conn :: "nat option"
  ended_at :: "nat option"

record transfer_metrics =
  completed :: u64
  partial :: u64
  failed :: u64
  cancelled_by_sender :: u64
  cancelled_by_receiver :: u64
  rejected :: u64
  bytes_sent :: u64
  bytes_received :: u64
  average_duration_ms :: u64
  failure_distribution :: "string \<rightharpoonup> u64"

section \<open>Operations\<close>

text \<open>\<^verbatim>\<open>is_terminal\<close> of \<^verbatim>\<open>persistence_progress.rs\<close>, \<^verbatim>\<open>is_terminal_status\<close> of \<^verbatim>\<open>db.rs\<close>.\<close>

fun is_terminal :: "transfer_status \<Rightarrow> bool" where
  "is_terminal Completed = True"
| "is_terminal PartialCompleted = True"
| "is_terminal StRejected = True"
| "is_terminal CancelledBySender = True"
| "is_terminal CancelledByReceiver = True"
| "is_terminal StFailed = True"
| "is_terminal _ = False"

definition item_meta :: "file_item \<Rightarrow> file_item_meta" where
  "item_meta f =
     \<lparr>meta_file_id = file_id f, meta_name = name f, meta_rel_path = rel_path f,
      meta_size = size_bytes f, meta_hash = None, meta_risk_class = risk_class f\<rparr>"

definition progress_snapshot :: "transfer_task \<Rightarrow> transfer_task" where
  "progress_snapshot t =
     t\<lparr>source_paths := None, source_path_by_file_id := None, conn := None, ended_at := None\<rparr>"

definition default_metrics :: transfer_metrics where
  "default_metrics =
     \<lparr>completed = 0, partial = 0, failed = 0, cancelled_by_sender = 0, cancelled_by_receiver = 0,
      rejected = 0, bytes_sent = 0, bytes_received = 0, average_duration_ms = 0,
      failure_distribution = Map.empty\<rparr>"

definition record_status_count :: "transfer_status \<Rightarrow> transfer_metrics \<Rightarrow> transfer_metrics" where
  "record_status_count st m =
     (case st of
        Completed \<Rightarrow> m\<lparr>completed := sat_add (completed m) 1\<rparr>
      | PartialCompleted \<Rightarrow> m\<lparr>partial := sat_add (partial m) 1\<rparr>
      | StRejected \<Rightarrow> m\<lparr>rejected := sat_add (rejected m) 1\<rparr>
      | CancelledBySender \<Rightarrow> m\<lparr>cancelled_by_sender := sat_add (cancelled_by_sender m) 1\<rparr>
      | CancelledByReceiver \<Rightarrow> m\<lparr>cancelled_by_receiver := sat_add (cancelled_by_receiver m) 1\<rparr>
      | StFailed \<Rightarrow> m\<lparr>failed := sat_add (failed m) 1\<rparr>
      | _ \<Rightarrow> m)"

definition record_transfer_terminal ::
    "transfer_direction \<Rightarrow> transfer_status \<Rightarrow> u64 \<Rightarrow> transfer_metrics \<Rightarrow> transfer_metrics" where
  "record_transfer_terminal dir st n m =
     (let m1 = record_status_count st m in
      case dir of
        Send \<Rightarrow> m1\<lparr>bytes_sent := sat_add (bytes_sent m1) n\<rparr>
      | Receive \<Rightarrow> m1\<lparr>bytes_received := sat_add (bytes_received m1) n\<rparr>)"

text \<open>The number of transfers the counters account for.\<close>

definition terminal_total :: "transfer_metrics \<Rightarrow> nat" where
  "terminal_total m =
     completed m + partial m + failed m + cancelled_by_sender m + cancelled_by_receiver m + rejected m"

text \<open>A task in progress, the concrete input of several witnesses.\<close>

definition sample_task :: transfer_task where
  "sample_task =
     \<lparr>task_id = ''t1'', batch_id = None, direction = Send, peer_fingerprint = ''fp'', peer_name = ''peer'',
      task_items = [], status = Transferring, bytes_transferred = 10, total_bytes = 20, revision = 1,
      started_at_unix = 5, ended_at_unix = None, terminal_reason_code = None, task_error = None,
      source_paths = None, source_path_by_file_id = None, failed_file_ids = None, conn = None,
      ended_at = None\<rparr>"

section \<open>Facts\<close>

lemma progress_snapshot_simps [simp]:
  "task_id (progress_snapshot t) = task_id t"
  "status (progress_snapshot t) = status t"
  "revision (progress_snapshot t) = revision t"
  "bytes_transferred (progress_snapshot t) = bytes_transferred t"
  by (simp_all add: progress_snapshot_def)

lemma record_status_count_total:
  assumes "terminal_total m < U64_MAX"
  shows "terminal_total (record_status_count st m) =
           terminal_total m + (if is_terminal st then 1 else 0)"
  using assms by (cases st) (simp_all add: record_status_count_def terminal_total_def sat_add_def)

end
