(* ===== verification/History.thy ===== *)
theory History
  imports Transfers
begin

text \<open>
  The \<^verbatim>\<open>transfers_history\<close> table of \<^verbatim>\<open>db.rs\<close>: \<^verbatim>\<open>save_transfer\<close> with its stale-write guard
  \<^verbatim>\<open>should_persist_transfer\<close>, \<^verbatim>\<open>get_history\<close> and \<^verbatim>\<open>get_transfer_metrics\<close>.  The table is the list of
  its rows; \<^verbatim>\<open>id\<close> is the primary key, so an upsert replaces the row with the same id or appends one.
  The items column holds the items themselves in place of their JSON text, and the floating-point
  average of \<^verbatim>\<open>AVG\<close> is an argument of \<open>get_transfer_metrics\<close>.  Rows with equal \<^verbatim>\<open>ended_at\<close> keep
  their table order under \<^verbatim>\<open>ORDER BY\<close>.
\<close>

section \<open>Definitions\<close>

record history_row =
  h_id :: string
  h_direction :: string
  h_peer_fingerprint :: string
  h_peer_name :: string
  h_items :: "file_item_meta list"
  h_status :: string
  h_bytes_transferred :: u64
  h_total_bytes :: u64
  h_revision :: u64
  h_started_at :: u64
  h_ended_at :: u64
  h_reason_code :: "string option"
  h_error :: "string option"

type_synonym history_table = "history_row list"

datatype history_error = InvalidDirection string | InvalidStatus string
  | IntegerOutOfRange | IntegerOverflow

fun direction_str :: "transfer_direction \<Rightarrow> string" where
  "direction_str Send = ''Send''"
| "direction_str Receive = ''Receive''"

definition parse_direction :: "string \<Rightarrow> history_error + transfer_direction" where
  "parse_direction raw =
     (if raw = ''Send'' then Ok Send
      else if raw = ''Receive'' then Ok Receive
      else Err (InvalidDirection raw))"

fun status_str :: "transfer_status \<Rightarrow> string" where
  "status_str Draft = ''Draft''"
| "status_str PendingAccept = ''PendingAccept''"
| "status_str Transferring = ''Transferring''"
| "status_str Completed = ''Completed''"
| "status_str PartialCompleted = ''PartialCompleted''"
| "status_str StRejected = ''Rejected''"
| "status_str CancelledBySender = ''CancelledBySender''"
| "status_str CancelledByReceiver = ''CancelledByReceiver''"
| "status_str StFailed = ''Failed''"

definition all_statuses :: "transfer_status list" where
  "all_statuses = [Draft, PendingAccept, Transferring, Completed, PartialCompleted, StRejected,
     CancelledBySender, CancelledByReceiver, StFailed]"

definition parse_status :: "string \<Rightarrow> history_error + transfer_status" where
  "parse_status s =
     (case find (\<lambda>st. status_str st = s) all_statuses of
        Some st \<Rightarrow> Ok st | None \<Rightarrow> Err (InvalidStatus s))"

definition is_terminal_status_str :: "string \<Rightarrow> bool" where
  "is_terminal_status_str s =
     (s \<in> set [''Completed'', ''PartialCompleted'', ''Rejected'', ''CancelledBySender'',
               ''CancelledByReceiver'', ''Failed''])"

definition find_row :: "history_table \<Rightarrow> string \<Rightarrow> history_row option" where
  "find_row tbl i = find (\<lambda>r. h_id r = i) tbl"

text \<open>
  \<open>answered\<close> tells whether the query for the stored row is answered; the source takes every failure of it for a missing row.
\<close>

definition should_persist_transfer :: "bool \<Rightarrow> history_table \<Rightarrow> transfer_task \<Rightarrow> bool" where
  "should_persist_transfer answered tbl t =
     (case (if answered then find_row tbl (task_id t) else None) of
        None \<Rightarrow> True
      | Some r \<Rightarrow>
          (if revision t > h_revision r then True
           else if revision t < h_revision r then False
           else if is_terminal_status_str (h_status r) \<and> \<not> is_terminal (status t) then False
           else bytes_transferred t \<ge> h_bytes_transferred r))"

definition row_of_task :: "u64 \<Rightarrow> transfer_task \<Rightarrow> history_row" where
  "row_of_task now t =
     \<lparr>h_id = task_id t, h_direction = direction_str (direction t),
      h_peer_fingerprint = peer_fingerprint t, h_peer_name = peer_name t, h_items = task_items t,
      h_status = status_str (status t), h_bytes_transferred = bytes_transferred t,
      h_total_bytes = total_bytes t, h_revision = revision t, h_started_at = started_at_unix t,
      h_ended_at = (case ended_at_unix t of Some e \<Rightarrow> e | None \<Rightarrow> now),
      h_reason_code = terminal_reason_code t, h_error = task_error t\<rparr>"

definition upsert_row :: "history_table \<Rightarrow> history_row \<Rightarrow> history_table" where
  "upsert_row tbl r =
     (if list_ex (\<lambda>q. h_id q = h_id r) tbl
      then map (\<lambda>q. if h_id q = h_id r then r else q) tbl
      else tbl @ [r])"

text \<open>
  SQLite integers are signed: \<^verbatim>\<open>rusqlite\<close> refuses to bind a \<^verbatim>\<open>u64\<close> above \<^verbatim>\<open>i64::MAX\<close>, and the statement
  fails before the table is touched.
\<close>

definition row_fits :: "history_row \<Rightarrow> bool" where
  "row_fits r =
     (h_bytes_transferred r \<le> I64_MAX \<and> h_total_bytes r \<le> I64_MAX \<and> h_revision r \<le> I64_MAX
      \<and> h_started_at r \<le> I64_MAX \<and> h_ended_at r \<le> I64_MAX)"

definition save_transfer_with :: "bool \<Rightarrow> u64 \<Rightarrow> history_table \<Rightarrow> transfer_task \<Rightarrow> history_error + history_table" where
  "save_transfer_with answered now tbl t =
     (if \<not> should_persist_transfer answered tbl t then Ok tbl
      else if \<not> row_fits (row_of_task now t) then Err IntegerOutOfRange
      else Ok (upsert_row tbl (row_of_task now t)))"

text \<open>The write as the other components use it, with a query that is answered.\<close>

definition save_transfer :: "u64 \<Rightarrow> history_table \<Rightarrow> transfer_task \<Rightarrow> history_error + history_table" where
  "save_transfer = save_transfer_with True"

text \<open>The table after a write, whether it succeeded or not.\<close>

definition table_after :: "history_table \<Rightarrow> history_error + history_table \<Rightarrow> history_table" where
  "table_after tbl res = (case res of Inr tbl' \<Rightarrow> tbl' | Inl _ \<Rightarrow> tbl)"

definition save_step :: "u64 \<Rightarrow> history_table \<Rightarrow> transfer_task \<Rightarrow> history_table" where
  "save_step now tbl t = table_after tbl (save_transfer now tbl t)"

text \<open>A sequence of writes, each with the fate of its query.\<close>

fun save_attempts :: "u64 \<Rightarrow> history_table \<Rightarrow> (bool \<times> transfer_task) list \<Rightarrow> history_table" where
  "save_attempts now tbl [] = tbl"
| "save_attempts now tbl ((answered, t) # ws) = save_attempts now (table_after tbl (save_transfer_with answered now tbl t)) ws"

definition task_of_row :: "history_row \<Rightarrow> history_error + transfer_task" where
  "task_of_row r =
     (case parse_status (h_status r) of
        Inl e \<Rightarrow> Err e
      | Inr st \<Rightarrow>
          (case parse_direction (h_direction r) of
             Inl e \<Rightarrow> Err e
           | Inr d \<Rightarrow> Ok
               \<lparr>task_id = h_id r, batch_id = None, direction = d,
                peer_fingerprint = h_peer_fingerprint r, peer_name = h_peer_name r,
                task_items = h_items r, status = st, bytes_transferred = h_bytes_transferred r,
                total_bytes = h_total_bytes r, revision = h_revision r,
                started_at_unix = h_started_at r, ended_at_unix = Some (h_ended_at r),
                terminal_reason_code = h_reason_code r, task_error = h_error r,
                source_paths = None, source_path_by_file_id = None, failed_file_ids = None,
                conn = None, ended_at = None\<rparr>))"

fun collect_tasks :: "history_row list \<Rightarrow> history_error + transfer_task list" where
  "collect_tasks [] = Ok []"
| "collect_tasks (r # rs) =
     (case task_of_row r of
        Inl e \<Rightarrow> Err e
      | Inr t \<Rightarrow> (case collect_tasks rs of Inl e \<Rightarrow> Err e | Inr ts \<Rightarrow> Ok (t # ts)))"

definition order_by_ended_desc :: "history_table \<Rightarrow> history_table" where
  "order_by_ended_desc tbl = sort_key (\<lambda>r. - int (h_ended_at r)) tbl"

definition get_history :: "history_table \<Rightarrow> nat \<Rightarrow> nat \<Rightarrow> history_error + transfer_task list" where
  "get_history tbl limit skip = collect_tasks (take limit (drop skip (order_by_ended_desc tbl)))"

definition count_status :: "history_table \<Rightarrow> string \<Rightarrow> nat" where
  "count_status tbl s = length (filter (\<lambda>r. h_status r = s) tbl)"

definition sum_bytes :: "history_table \<Rightarrow> string \<Rightarrow> nat" where
  "sum_bytes tbl d = sum_list (map h_bytes_transferred (filter (\<lambda>r. h_direction r = d) tbl))"

definition failure_statuses :: "string list" where
  "failure_statuses =
     [''Failed'', ''Rejected'', ''CancelledBySender'', ''CancelledByReceiver'', ''PartialCompleted'']"

definition row_failure_code :: "history_row \<Rightarrow> string" where
  "row_failure_code r = (case h_reason_code r of Some c \<Rightarrow> c | None \<Rightarrow> ''UNKNOWN'')"

definition failure_counts :: "history_table \<Rightarrow> (string \<rightharpoonup> u64)" where
  "failure_counts tbl = (\<lambda>code.
     let n = length (filter (\<lambda>r. h_status r \<in> set failure_statuses \<and> row_failure_code r = code) tbl)
     in if n = 0 then None else Some n)"

text \<open>
  \<open>avg\<close> stands for \<^verbatim>\<open>AVG((ended_at - started_at) * 1000.0)\<close> followed by \<^verbatim>\<open>round() as u64\<close>, applied
  to the rows that pass the \<^verbatim>\<open>WHERE\<close> clause; it is 0 on no rows, as \<^verbatim>\<open>unwrap_or(0.0)\<close> makes it.
  SQLite's \<^verbatim>\<open>SUM\<close> over integers fails when the sum leaves the signed range.
\<close>

definition get_transfer_metrics :: "((u64 \<times> u64) list \<Rightarrow> u64) \<Rightarrow> history_table \<Rightarrow> history_error + transfer_metrics" where
  "get_transfer_metrics avg tbl =
     (if sum_bytes tbl ''Send'' > I64_MAX \<or> sum_bytes tbl ''Receive'' > I64_MAX
      then Err IntegerOverflow else
      let timed = filter (\<lambda>r. h_started_at r > 0 \<and> h_ended_at r \<ge> h_started_at r) tbl in
      Ok (default_metrics\<lparr>
        completed := count_status tbl ''Completed'',
        partial := count_status tbl ''PartialCompleted'',
        failed := count_status tbl ''Failed'',
        cancelled_by_sender := count_status tbl ''CancelledBySender'',
        cancelled_by_receiver := count_status tbl ''CancelledByReceiver'',
        rejected := count_status tbl ''Rejected'',
        bytes_sent := sum_bytes tbl ''Send'',
        bytes_received := sum_bytes tbl ''Receive'',
        average_duration_ms :=
          (if timed = [] then 0 else avg (map (\<lambda>r. (h_started_at r, h_ended_at r)) timed)),
        failure_distribution := failure_counts tbl\<rparr>))"

text \<open>The primary-key constraint of the table.\<close>

definition table_ok :: "history_table \<Rightarrow> bool" where
  "table_ok tbl = distinct (map h_id tbl)"

text \<open>
  The order in which a stored row may be replaced: a higher revision, or the same revision without
  falling back from a terminal status and without losing bytes.
\<close>

definition row_leq :: "history_row \<Rightarrow> history_row \<Rightarrow> bool" where
  "row_leq r r' =
     (h_revision r < h_revision r' \<or>
      (h_revision r = h_revision r' \<and>
       (is_terminal_status_str (h_status r) \<longrightarrow> is_terminal_status_str (h_status r')) \<and>
       h_bytes_transferred r \<le> h_bytes_transferred r'))"

definition row_covers :: "history_row \<Rightarrow> transfer_task \<Rightarrow> bool" where
  "row_covers r t =
     (revision t < h_revision r \<or>
      (revision t = h_revision r \<and>
       (bytes_transferred t \<le> h_bytes_transferred r \<or>
        is_terminal_status_str (h_status r) \<and> \<not> is_terminal (status t))))"

fun save_all :: "u64 \<Rightarrow> history_table \<Rightarrow> transfer_task list \<Rightarrow> history_table" where
  "save_all now tbl [] = tbl"
| "save_all now tbl (t # ts) = save_all now (save_step now tbl t) ts"

section \<open>Facts\<close>

lemma parse_status_str [simp]: "parse_status (status_str st) = Ok st"
  by (cases st) (simp_all add: parse_status_def all_statuses_def)

lemma parse_direction_str [simp]: "parse_direction (direction_str d) = Ok d"
  by (cases d) (simp_all add: parse_direction_def)

lemma is_terminal_str [simp]: "is_terminal_status_str (status_str st) = is_terminal st"
  by (cases st) (simp_all add: is_terminal_status_str_def)

lemma find_row_id: "find_row tbl i = Some r \<Longrightarrow> h_id r = i \<and> r \<in> set tbl"
  by (auto simp: find_row_def find_Some_iff)

lemma find_row_None: "find_row tbl i = None \<longleftrightarrow> (\<forall>r \<in> set tbl. h_id r \<noteq> i)"
  by (auto simp: find_row_def find_None_iff)

lemma find_row_map_other:
  "i \<noteq> h_id r \<Longrightarrow> find_row (map (\<lambda>q. if h_id q = h_id r then r else q) tbl) i = find_row tbl i"
  by (induction tbl) (auto simp: find_row_def)

lemma find_row_map_same:
  "list_ex (\<lambda>q. h_id q = h_id r) tbl \<Longrightarrow>
   find_row (map (\<lambda>q. if h_id q = h_id r then r else q) tbl) (h_id r) = Some r"
  by (induction tbl) (auto simp: find_row_def)

lemma find_row_append: "find_row (tbl @ [r]) i =
    (case find_row tbl i of Some q \<Rightarrow> Some q | None \<Rightarrow> if h_id r = i then Some r else None)"
  by (induction tbl) (auto simp: find_row_def)

lemma find_row_upsert:
  "find_row (upsert_row tbl r) i = (if i = h_id r then Some r else find_row tbl i)"
proof (cases "list_ex (\<lambda>q. h_id q = h_id r) tbl")
  case True
  then show ?thesis
    by (simp add: upsert_row_def find_row_map_same find_row_map_other)
next
  case False
  then have "find_row tbl (h_id r) = None"
    by (auto simp: find_row_None list_ex_iff)
  with False show ?thesis
    by (auto simp: upsert_row_def find_row_append split: option.splits)
qed

lemma h_id_row_of_task [simp]: "h_id (row_of_task now t) = task_id t"
  by (simp add: row_of_task_def)

lemma find_row_save:
  "find_row (save_step now tbl t) i =
     (if i = task_id t \<and> should_persist_transfer True tbl t \<and> row_fits (row_of_task now t)
      then Some (row_of_task now t) else find_row tbl i)"
  by (auto simp: save_step_def table_after_def save_transfer_def save_transfer_with_def find_row_upsert)

lemma map_h_id_upsert:
  "map h_id (upsert_row tbl r) =
     (if h_id r \<in> set (map h_id tbl) then map h_id tbl else map h_id tbl @ [h_id r])"
proof (cases "h_id r \<in> set (map h_id tbl)")
  case True
  then have "list_ex (\<lambda>q. h_id q = h_id r) tbl" by (force simp: list_ex_iff)
  with True show ?thesis by (simp add: upsert_row_def)
next
  case False
  then have "\<not> list_ex (\<lambda>q. h_id q = h_id r) tbl" by (auto simp: list_ex_iff image_iff dest: sym)
  with False show ?thesis by (simp add: upsert_row_def)
qed

lemma save_step_table_ok [invariant_intros]:
  "table_ok tbl \<Longrightarrow> table_ok (save_step now tbl t)"
  by (auto simp: table_ok_def save_step_def table_after_def save_transfer_def save_transfer_with_def map_h_id_upsert)

section \<open>The interface a writer of the store relies on\<close>

text \<open>
  A store of versioned rows: a write touches only its own key, never replaces a row by an older
  one, and leaves a row that covers what was written.
\<close>

locale versioned_store =
  fixes save :: "'s \<Rightarrow> 'v \<Rightarrow> 's"
    and lookup :: "'s \<Rightarrow> 'k \<Rightarrow> 'r option"
    and key :: "'v \<Rightarrow> 'k"
    and leq :: "'r \<Rightarrow> 'r \<Rightarrow> bool"
    and covers :: "'r \<Rightarrow> 'v \<Rightarrow> bool"
    and row :: "'v \<Rightarrow> 'r"
    and storable :: "'v \<Rightarrow> bool"
  assumes leq_refl: "leq r r"
    and leq_trans: "leq a b \<Longrightarrow> leq b c \<Longrightarrow> leq a c"
    and save_other: "k \<noteq> key v \<Longrightarrow> lookup (save s v) k = lookup s k"
    and save_mono: "lookup s k = Some r \<Longrightarrow> \<exists>r'. lookup (save s v) k = Some r' \<and> leq r r'"
    and save_covers: "storable v \<Longrightarrow> \<exists>r. lookup (save s v) (key v) = Some r \<and> covers r v"
    and save_origin: "lookup (save s v) k = Some r \<Longrightarrow>
           lookup s k = Some r \<or> r = row v \<and> k = key v"
    and leq_covers: "covers r v \<Longrightarrow> leq r r' \<Longrightarrow> covers r' v"
begin

lemma saves_mono:
  "lookup s k = Some r \<Longrightarrow> \<exists>r'. lookup (foldl save s vs) k = Some r' \<and> leq r r'"
proof (induction vs arbitrary: s r)
  case Nil
  then show ?case by (simp add: leq_refl)
next
  case (Cons v vs)
  obtain r1 where r1: "lookup (save s v) k = Some r1" "leq r r1"
    using save_mono [OF Cons.prems] by blast
  obtain r2 where "lookup (foldl save (save s v) vs) k = Some r2" "leq r1 r2"
    using Cons.IH [OF r1(1)] by blast
  then show ?case using leq_trans [OF r1(2)] by auto
qed

lemma saves_cover:
  "v \<in> set vs \<Longrightarrow> storable v \<Longrightarrow> \<exists>r. lookup (foldl save s vs) (key v) = Some r \<and> covers r v"
proof (induction vs arbitrary: s)
  case Nil
  then show ?case by simp
next
  case (Cons w ws)
  show ?case
  proof (cases "v = w")
    case True
    obtain r where r: "lookup (save s v) (key v) = Some r" "covers r v"
      using save_covers Cons.prems(2) by blast
    obtain r' where "lookup (foldl save (save s v) ws) (key v) = Some r'" "leq r r'"
      using saves_mono [OF r(1)] by blast
    then show ?thesis using leq_covers [OF r(2)] True by auto
  next
    case False
    with Cons show ?thesis by auto
  qed
qed

lemma saves_origin:
  "lookup (foldl save s vs) k = Some r \<Longrightarrow>
   lookup s k = Some r \<or> (\<exists>v \<in> set vs. r = row v \<and> k = key v)"
proof (induction vs arbitrary: s)
  case Nil
  then show ?case by simp
next
  case (Cons v vs)
  then have "lookup (save s v) k = Some r \<or> (\<exists>w \<in> set vs. r = row w \<and> k = key w)"
    by simp
  then show ?case using save_origin [of s v k r] by auto
qed

end

lemma row_leq_refl: "row_leq r r"
  by (simp add: row_leq_def)

lemma row_leq_trans: "row_leq a b \<Longrightarrow> row_leq b c \<Longrightarrow> row_leq a c"
  by (auto simp: row_leq_def)

lemma should_persist_leq:
  assumes "find_row tbl (task_id t) = Some r" and "should_persist_transfer True tbl t"
  shows "row_leq r (row_of_task now t)"
  using assms
  by (auto simp: should_persist_transfer_def row_leq_def row_of_task_def split: if_splits)

lemma not_persist_covers:
  assumes "\<not> should_persist_transfer True tbl t"
  shows "\<exists>r. find_row tbl (task_id t) = Some r \<and> row_covers r t"
  using assms
  by (auto simp: should_persist_transfer_def row_covers_def split: option.splits if_splits)

interpretation history: versioned_store "save_step now" find_row task_id row_leq row_covers
    "row_of_task now" "\<lambda>t. row_fits (row_of_task now t)" for now
proof
  fix tbl :: history_table and k :: string and r v
  show "row_leq r r" by (rule row_leq_refl)
  show "k \<noteq> task_id v \<Longrightarrow> find_row (save_step now tbl v) k = find_row tbl k"
    by (simp add: find_row_save)
  show "find_row tbl k = Some r \<Longrightarrow> \<exists>r'. find_row (save_step now tbl v) k = Some r' \<and> row_leq r r'"
    using should_persist_leq by (auto simp: find_row_save row_leq_def)
  show "row_fits (row_of_task now v) \<Longrightarrow>
      \<exists>r. find_row (save_step now tbl v) (task_id v) = Some r \<and> row_covers r v"
    using not_persist_covers [of tbl v]
    by (cases "should_persist_transfer True tbl v")
       (auto simp: find_row_save row_covers_def row_of_task_def)
  show "find_row (save_step now tbl v) k = Some r \<Longrightarrow>
      find_row tbl k = Some r \<or> r = row_of_task now v \<and> k = task_id v"
    by (auto simp: find_row_save split: if_splits)
qed (auto simp: row_covers_def row_leq_def)

lemma attempt_find:
  "find_row (table_after tbl (save_transfer_with a now tbl t)) i =
     (if i = task_id t \<and> should_persist_transfer a tbl t \<and> row_fits (row_of_task now t) then Some (row_of_task now t) else find_row tbl i)"
  by (auto simp: table_after_def save_transfer_with_def find_row_upsert)

lemma attempts_mono:
  assumes "find_row tbl i = Some r" and "\<forall>(answered, t) \<in> set ws. task_id t = i \<longrightarrow> answered"
  shows "\<exists>r'. find_row (save_attempts now tbl ws) i = Some r' \<and> row_leq r r'"
  using assms
proof (induction ws arbitrary: tbl r)
  case Nil
  then show ?case by (simp add: row_leq_def)
next
  case (Cons w ws)
  obtain a t where w: "w = (a, t)" by (cases w)
  have "\<exists>r1. find_row (table_after tbl (save_transfer_with a now tbl t)) i = Some r1 \<and> row_leq r r1"
    using Cons.prems should_persist_leq row_leq_refl by (auto simp: attempt_find w)
  then show ?case using Cons row_leq_trans by (fastforce simp: w)
qed

lemma save_all_foldl: "save_all now tbl ts = foldl (save_step now) tbl ts"
  by (induction ts arbitrary: tbl) simp_all

lemma save_all_table_ok: "table_ok tbl \<Longrightarrow> table_ok (save_all now tbl ts)"
  by (induction ts arbitrary: tbl) (simp_all add: save_step_table_ok)

lemma table_ok_find: "table_ok tbl \<Longrightarrow> r \<in> set tbl \<Longrightarrow> find_row tbl (h_id r) = Some r"
  by (induction tbl) (auto simp: find_row_def table_ok_def image_iff)

lemma task_of_row_of_task: "\<exists>t'. task_of_row (row_of_task now t) = Ok t'"
  by (simp add: task_of_row_def row_of_task_def)

lemma collect_tasks_ok:
  "(\<And>r. r \<in> set rs \<Longrightarrow> \<exists>t. task_of_row r = Ok t) \<Longrightarrow>
   \<exists>ts. collect_tasks rs = Ok ts \<and> length ts = length rs \<and> map Inr ts = map task_of_row rs"
proof (induction rs)
  case (Cons r rs)
  obtain t where "task_of_row r = Ok t" using Cons.prems by force
  moreover obtain ts where "collect_tasks rs = Ok ts" "length ts = length rs"
      "map Inr ts = map task_of_row rs"
    using Cons by auto
  ultimately show ?case by auto
qed simp

lemma save_all_rows:
  assumes "r \<in> set (save_all now [] ts)"
  shows "\<exists>t \<in> set ts. r = row_of_task now t"
proof -
  have "table_ok (save_all now [] ts)"
    by (rule save_all_table_ok) (simp add: table_ok_def)
  then have "find_row (foldl (save_step now) [] ts) (h_id r) = Some r"
    using table_ok_find [OF _ assms] by (simp add: save_all_foldl)
  from history.saves_origin [OF this] show ?thesis by (auto simp: find_row_def)
qed

lemma count_terminal:
  "count_status tbl ''Completed'' + count_status tbl ''PartialCompleted'' + count_status tbl ''Failed''
     + count_status tbl ''CancelledBySender'' + count_status tbl ''CancelledByReceiver''
     + count_status tbl ''Rejected''
   = length (filter (\<lambda>r. is_terminal_status_str (h_status r)) tbl)"
  by (induction tbl) (auto simp: count_status_def is_terminal_status_str_def)

lemma failure_counts_sum:
  "sum (\<lambda>c. case failure_counts tbl c of None \<Rightarrow> 0 | Some n \<Rightarrow> n) (row_failure_code ` set tbl)
     = length (filter (\<lambda>r. h_status r \<in> set failure_statuses) tbl)"
proof -
  let ?n = "\<lambda>rs c. length (filter (\<lambda>r. h_status r \<in> set failure_statuses \<and> row_failure_code r = c) rs)"
  have eq: "(case failure_counts tbl c of None \<Rightarrow> 0 | Some n \<Rightarrow> n) = ?n tbl c" for c
    by (simp add: failure_counts_def Let_def)
  have "sum (?n rs) A = length (filter (\<lambda>r. h_status r \<in> set failure_statuses) rs)"
    if "finite A" and "row_failure_code ` set rs \<subseteq> A" for A rs
    using that
  proof (induction rs)
    case (Cons r rs)
    have "sum (?n (r # rs)) A =
        sum (\<lambda>c. ?n rs c + (if h_status r \<in> set failure_statuses \<and> c = row_failure_code r then 1 else 0)) A"
      by (rule sum.cong) auto
    also have "\<dots> = sum (?n rs) A + (if h_status r \<in> set failure_statuses then 1 else 0)"
      using Cons.prems by (simp add: sum.distrib sum.delta)
    finally show ?case using Cons by simp
  qed simp
  then show ?thesis by (simp add: eq)
qed

section \<open>Properties\<close>

text \<open>
  C10: Persisted history does not roll back while its queries are answered.  Take any sequence of writes, in whatever order the
  snapshots come, in which the query for the row of one transfer is answered in every write of that transfer (queries of the
  others may fail): then the row of that transfer is only replaced by one of a higher revision, or of the same revision
  without losing bytes and without leaving a terminal status.
\<close>

theorem history_never_rolls_back:
  assumes "find_row tbl i = Some r" and "\<forall>(answered, t) \<in> set ws. task_id t = i \<longrightarrow> answered"
  shows "\<exists>r'. find_row (save_attempts now tbl ws) i = Some r' \<and>
           (h_revision r < h_revision r' \<or>
            (h_revision r = h_revision r' \<and> h_bytes_transferred r \<le> h_bytes_transferred r' \<and>
             (is_terminal_status_str (h_status r) \<longrightarrow> is_terminal_status_str (h_status r'))))"
  using attempts_mono [OF assms] by (auto simp: row_leq_def)

theorem history_never_rolls_back_witness:
  "\<exists>r'. find_row (save_attempts 9 [row_of_task 7 (sample_task\<lparr>status := Completed\<rparr>)]
           [(True, sample_task), (False, sample_task\<lparr>task_id := ''t2''\<rparr>)]) ''t1'' = Some r' \<and>
       (1 < h_revision r' \<or> (1 = h_revision r' \<and> 10 \<le> h_bytes_transferred r' \<and>
         (True \<longrightarrow> is_terminal_status_str (h_status r'))))"
proof -
  have "find_row [row_of_task 7 (sample_task\<lparr>status := Completed\<rparr>)] ''t1'' =
      Some (row_of_task 7 (sample_task\<lparr>status := Completed\<rparr>))"
    by (simp add: find_row_def row_of_task_def sample_task_def)
  from history_never_rolls_back [OF this, of "[(True, sample_task), (False, sample_task\<lparr>task_id := ''t2''\<rparr>)]" 9] show ?thesis
    by (simp add: row_of_task_def sample_task_def is_terminal_status_str_def)
qed

text \<open>
  A query that fails lets an older snapshot through: the row is replaced by the row of any snapshot in the integer range, whatever
  was stored.
\<close>

theorem failed_query_rolls_back:
  assumes "find_row tbl (task_id t) = Some r" and "row_fits (row_of_task now t)"
  shows "find_row (save_attempts now tbl [(False, t)]) (task_id t) = Some (row_of_task now t)"
  using assms by (simp add: save_transfer_with_def should_persist_transfer_def table_after_def find_row_upsert row_of_task_def)

theorem failed_query_rolls_back_witness:
  "h_revision (row_of_task 7 (sample_task\<lparr>revision := 3\<rparr>)) = 3 \<and>
   find_row (save_attempts 9 [row_of_task 7 (sample_task\<lparr>revision := 3\<rparr>)] [(False, sample_task)]) ''t1'' = Some (row_of_task 9 sample_task)"
  using failed_query_rolls_back [of "[row_of_task 7 (sample_task\<lparr>revision := 3\<rparr>)]" sample_task _ 9]
  by (simp add: find_row_def row_of_task_def sample_task_def row_fits_def I64_MAX_def)

text \<open>
  Writes converge on the newest snapshot.  After any sequence of writes to an empty table, the
  row of each transfer with a snapshot in SQLite's integer range is the row of one of the written
  snapshots of that transfer, and that snapshot has no such written snapshot with a higher revision.
\<close>

theorem history_keeps_newest:
  assumes "t \<in> set ts" and "row_fits (row_of_task now t)"
  shows "\<exists>t' \<in> set ts. task_id t' = task_id t \<and> revision t \<le> revision t' \<and>
           find_row (save_all now [] ts) (task_id t) = Some (row_of_task now t')"
proof -
  obtain r where r: "find_row (foldl (save_step now) [] ts) (task_id t) = Some r" "row_covers r t"
    using history.saves_cover [OF assms] by blast
  have "\<exists>t' \<in> set ts. r = row_of_task now t' \<and> task_id t = task_id t'"
    using history.saves_origin [OF r(1)] by (auto simp: find_row_def)
  then show ?thesis
    using r by (force simp: save_all_foldl row_covers_def row_of_task_def)
qed

theorem history_keeps_newest_witness:
  "\<exists>t' \<in> set [sample_task\<lparr>revision := 3\<rparr>, sample_task]. task_id t' = ''t1'' \<and> 1 \<le> revision t' \<and>
     find_row (save_all 9 [] [sample_task\<lparr>revision := 3\<rparr>, sample_task]) ''t1'' = Some (row_of_task 9 t')"
  using history_keeps_newest [of sample_task "[sample_task\<lparr>revision := 3\<rparr>, sample_task]" 9]
  by (simp add: sample_task_def row_fits_def row_of_task_def I64_MAX_def)

text \<open>
  Reading back.  On every table that \<^verbatim>\<open>save_transfer\<close> can produce, \<^verbatim>\<open>get_history\<close> succeeds for
  every limit and offset, returns one task per selected row, and each returned task carries the id,
  direction, status, revision and byte count of a snapshot that was written.
\<close>

theorem get_history_total:
  "\<exists>out. get_history (save_all now [] ts) limit skip = Ok out \<and>
     length out = min limit (length (save_all now [] ts) - skip) \<and>
     list_all (\<lambda>h. list_ex (\<lambda>t. task_id t = task_id h \<and> direction t = direction h \<and> status t = status h
        \<and> revision t = revision h \<and> bytes_transferred t = bytes_transferred h) ts) out"
proof -
  let ?rows = "take limit (drop skip (order_by_ended_desc (save_all now [] ts)))"
  have sub: "set ?rows \<subseteq> set (save_all now [] ts)"
    by (metis order_by_ended_desc_def set_drop_subset set_sort set_take_subset subset_trans)
  have rows: "\<exists>t \<in> set ts. r = row_of_task now t" if "r \<in> set ?rows" for r
    using save_all_rows sub that by blast
  obtain out where out: "collect_tasks ?rows = Ok out" "length out = length ?rows"
      "map Inr out = map task_of_row ?rows"
    using collect_tasks_ok [of ?rows] rows task_of_row_of_task by metis
  have "list_ex (\<lambda>t. task_id t = task_id h \<and> direction t = direction h \<and> status t = status h
        \<and> revision t = revision h \<and> bytes_transferred t = bytes_transferred h) ts" if "h \<in> set out" for h
  proof -
    have "(Inr h :: history_error + transfer_task) \<in> set (map task_of_row ?rows)"
      using that out(3) by (metis image_eqI list.set_map)
    then obtain r where r: "r \<in> set ?rows" "task_of_row r = Ok h" by auto
    then obtain t where "t \<in> set ts" "r = row_of_task now t" using rows by blast
    then show ?thesis
      using r(2) by (auto simp: list_ex_iff task_of_row_def row_of_task_def intro!: bexI [of _ t])
  qed
  then show ?thesis
    using out by (simp add: get_history_def list_all_iff order_by_ended_desc_def)
qed

text \<open>
  The metrics account for the table.  Unless a byte sum leaves SQLite's integer range, they are
  computed, the six terminal counters add up to the number of rows with a terminal status, and the
  failure distribution adds up to the number of rows whose status is in the failure list.
\<close>

theorem metrics_account_for_history:
  assumes "sum_bytes tbl ''Send'' \<le> I64_MAX" and "sum_bytes tbl ''Receive'' \<le> I64_MAX"
  shows "\<exists>m. get_transfer_metrics avg tbl = Ok m
   \<and> terminal_total m = length (filter (\<lambda>r. is_terminal_status_str (h_status r)) tbl)
   \<and> sum (\<lambda>c. case failure_distribution m c of None \<Rightarrow> 0 | Some n \<Rightarrow> n) (row_failure_code ` set tbl) =
     length (filter (\<lambda>r. h_status r \<in> set failure_statuses) tbl)"
  using count_terminal [of tbl] failure_counts_sum [of tbl] assms
  by (simp add: terminal_total_def get_transfer_metrics_def Let_def)

theorem metrics_account_for_history_witness:
  "\<exists>m. get_transfer_metrics (\<lambda>_. 0) [row_of_task 7 (sample_task\<lparr>status := StFailed\<rparr>)] = Ok m
   \<and> terminal_total m = 1"
  using metrics_account_for_history
    [of "[row_of_task 7 (sample_task\<lparr>status := StFailed\<rparr>)]" "\<lambda>_. 0"]
  by (simp add: sum_bytes_def row_of_task_def sample_task_def I64_MAX_def is_terminal_status_str_def)
     blast

end
