(* ===== verification/ProgressPersistence.thy ===== *)
theory ProgressPersistence
  imports History "HOL-Library.AList"
begin

text \<open>
  The progress-persistence worker of \<^verbatim>\<open>persistence_progress.rs\<close>: it coalesces the progress snapshots
  of running transfers in memory and writes them to the history table on a threshold, on a
  deadline, on a terminal status, on request and at shutdown.  The pending \<^verbatim>\<open>HashMap\<close> is an
  association list with distinct keys; instants and wall-clock times are inputs of each event, and so
  is \<open>db_ok\<close>, which says whether SQLite accepts a write for a given transfer at that moment.
\<close>

section \<open>Definitions\<close>

definition DEFAULT_PROGRESS_FLUSH_INTERVAL :: nat where
  "DEFAULT_PROGRESS_FLUSH_INTERVAL = 3000"

definition DEFAULT_PROGRESS_FLUSH_THRESHOLD_BYTES :: u64 where
  "DEFAULT_PROGRESS_FLUSH_THRESHOLD_BYTES = 32 * 1024 * 1024"

record progress_diagnostics =
  flush_interval_ms :: u64
  flush_threshold_bytes :: u64
  pending_transfer_count :: u64
  schedule_requests :: u64
  coalesced_updates :: u64
  interval_flushes :: u64
  threshold_flushes :: u64
  force_flushes :: u64
  terminal_flushes :: u64
  successful_writes :: u64
  failed_writes :: u64
  last_flush_at_unix_ms :: "u64 option"
  last_force_flush_at_unix_ms :: "u64 option"

datatype command = Schedule transfer_task | FlushNow transfer_task

record pending_transfer =
  latest :: transfer_task
  last_persisted_bytes :: u64
  deadline :: "nat option"

datatype persist_reason = Interval | Threshold | Force | Terminal

record worker =
  pending :: "(string \<times> pending_transfer) list"
  table :: history_table
  diag :: progress_diagnostics

record moment =
  instant :: nat
  unix_secs :: u64
  unix_millis :: u64
  db_ok :: "string \<Rightarrow> bool"

datatype persist_error = DbUnavailable | DbError history_error

definition with_policy :: "nat \<Rightarrow> u64 \<Rightarrow> history_table \<Rightarrow> worker" where
  "with_policy interval threshold tbl =
     \<lparr>pending = [], table = tbl, diag =
        \<lparr>flush_interval_ms = min interval U64_MAX, flush_threshold_bytes = threshold,
         pending_transfer_count = 0, schedule_requests = 0, coalesced_updates = 0,
         interval_flushes = 0, threshold_flushes = 0, force_flushes = 0, terminal_flushes = 0,
         successful_writes = 0, failed_writes = 0, last_flush_at_unix_ms = None,
         last_force_flush_at_unix_ms = None\<rparr>\<rparr>"

definition new_worker :: "history_table \<Rightarrow> worker" where
  "new_worker = with_policy DEFAULT_PROGRESS_FLUSH_INTERVAL DEFAULT_PROGRESS_FLUSH_THRESHOLD_BYTES"

definition schedule :: "transfer_task \<Rightarrow> command" where
  "schedule t = Schedule (progress_snapshot t)"

definition flush_now :: "transfer_task \<Rightarrow> command" where
  "flush_now t = FlushNow (progress_snapshot t)"

definition is_newer_than :: "transfer_task \<Rightarrow> transfer_task \<Rightarrow> bool" where
  "is_newer_than current candidate =
     (revision candidate > revision current \<or>
      (revision candidate = revision current \<and>
       bytes_transferred candidate \<ge> bytes_transferred current))"

definition sync_pending_transfer_count :: "worker \<Rightarrow> worker" where
  "sync_pending_transfer_count w =
     w\<lparr>diag := (diag w)\<lparr>pending_transfer_count := length (pending w)\<rparr>\<rparr>"

definition persist_task_result ::
    "moment \<Rightarrow> history_table \<Rightarrow> transfer_task \<Rightarrow> persist_error + history_table" where
  "persist_task_result m tbl t =
     (if \<not> db_ok m (task_id t) then Err DbUnavailable
      else case save_transfer (unix_secs m) tbl t of Inl e \<Rightarrow> Err (DbError e) | Inr tbl' \<Rightarrow> Ok tbl')"

definition record_persist_result ::
    "moment \<Rightarrow> bool \<Rightarrow> persist_reason \<Rightarrow> progress_diagnostics \<Rightarrow> progress_diagnostics" where
  "record_persist_result m ok reason d =
     (let d1 = (case reason of
          Interval \<Rightarrow> d\<lparr>interval_flushes := sat_add (interval_flushes d) 1\<rparr>
        | Threshold \<Rightarrow> d\<lparr>threshold_flushes := sat_add (threshold_flushes d) 1\<rparr>
        | Force \<Rightarrow> d\<lparr>force_flushes := sat_add (force_flushes d) 1,
                    last_force_flush_at_unix_ms := Some (unix_millis m)\<rparr>
        | Terminal \<Rightarrow> d\<lparr>terminal_flushes := sat_add (terminal_flushes d) 1\<rparr>)
      in if ok
         then d1\<lparr>successful_writes := sat_add (successful_writes d1) 1,
                 last_flush_at_unix_ms := Some (unix_millis m)\<rparr>
         else d1\<lparr>failed_writes := sat_add (failed_writes d1) 1\<rparr>)"

definition persist_task :: "moment \<Rightarrow> persist_reason \<Rightarrow> transfer_task \<Rightarrow> worker \<Rightarrow> worker" where
  "persist_task m reason t w =
     (case persist_task_result m (table w) t of
        Inr tbl \<Rightarrow> w\<lparr>table := tbl, diag := record_persist_result m True reason (diag w)\<rparr>
      | Inl _ \<Rightarrow> w\<lparr>diag := record_persist_result m False reason (diag w)\<rparr>)"

definition flush_transfer_by_id :: "moment \<Rightarrow> persist_reason \<Rightarrow> string \<Rightarrow> worker \<Rightarrow> worker" where
  "flush_transfer_by_id m reason i w =
     (case map_of (pending w) i of
        None \<Rightarrow> w
      | Some e \<Rightarrow>
          (let w1 = persist_task m reason (latest e) (w\<lparr>pending := AList.delete i (pending w)\<rparr>);
               e1 = e\<lparr>last_persisted_bytes := bytes_transferred (latest e), deadline := None\<rparr>;
               w2 = (if \<not> is_terminal (status (latest e))
                     then w1\<lparr>pending := AList.update i e1 (pending w1)\<rparr> else w1)
           in sync_pending_transfer_count w2))"

fun flush_ids :: "moment \<Rightarrow> string list \<Rightarrow> worker \<Rightarrow> worker" where
  "flush_ids m [] w = w"
| "flush_ids m (i # is) w = flush_ids m is (flush_transfer_by_id m Interval i w)"

definition due :: "nat \<Rightarrow> pending_transfer \<Rightarrow> bool" where
  "due now e = (case deadline e of None \<Rightarrow> False | Some d \<Rightarrow> d \<le> now)"

definition flush_due_entries :: "moment \<Rightarrow> worker \<Rightarrow> worker" where
  "flush_due_entries m w =
     flush_ids m (map fst (filter (\<lambda>(i, e). due (instant m) e) (pending w))) w"

definition flush_all_entries :: "moment \<Rightarrow> worker \<Rightarrow> worker" where
  "flush_all_entries m w = flush_ids m (map fst (pending w)) w"

text \<open>\<open>handle_command\<close> returns the worker and the reply that \<^verbatim>\<open>FlushNow\<close> sends.\<close>

definition schedule_pending :: "nat \<Rightarrow> moment \<Rightarrow> transfer_task \<Rightarrow> worker \<Rightarrow> worker option" where
  "schedule_pending interval m t w =
     (case map_of (pending w) (task_id t) of
        Some e \<Rightarrow>
          (if \<not> is_newer_than (latest e) t then None
           else Some (w\<lparr>pending := AList.update (task_id t) (e\<lparr>latest := t\<rparr>) (pending w),
                        diag := (diag w)\<lparr>coalesced_updates := sat_add (coalesced_updates (diag w)) 1\<rparr>\<rparr>))
      | None \<Rightarrow>
          Some (sync_pending_transfer_count
            (w\<lparr>pending := AList.update (task_id t)
                 \<lparr>latest = t, last_persisted_bytes = 0, deadline = Some (instant m + interval)\<rparr>
                 (pending w)\<rparr>)))"

definition arm_deadline :: "nat \<Rightarrow> moment \<Rightarrow> string \<Rightarrow> worker \<Rightarrow> worker" where
  "arm_deadline interval m i w =
     (case map_of (pending w) i of
        Some e \<Rightarrow>
          (if bytes_transferred (latest e) > last_persisted_bytes e
           then w\<lparr>pending := AList.update i (e\<lparr>deadline := Some (instant m + interval)\<rparr>) (pending w)\<rparr>
           else w)
      | None \<Rightarrow> w)"

definition should_flush :: "u64 \<Rightarrow> string \<Rightarrow> worker \<Rightarrow> bool" where
  "should_flush threshold i w =
     (case map_of (pending w) i of
        Some e \<Rightarrow> sat_sub (bytes_transferred (latest e)) (last_persisted_bytes e) \<ge> threshold
      | None \<Rightarrow> False)"

fun handle_command ::
    "nat \<Rightarrow> u64 \<Rightarrow> moment \<Rightarrow> command \<Rightarrow> worker \<Rightarrow> worker \<times> (persist_error + unit) option" where
  "handle_command interval threshold m (Schedule t) w =
     (let w = w\<lparr>diag := (diag w)\<lparr>schedule_requests := sat_add (schedule_requests (diag w)) 1\<rparr>\<rparr> in
      if is_terminal (status t) then
        (let w1 = sync_pending_transfer_count (w\<lparr>pending := AList.delete (task_id t) (pending w)\<rparr>);
             w2 = persist_task m Terminal t w1
         in (w2\<lparr>pending := AList.delete (task_id t) (pending w2)\<rparr>, None))
      else case schedule_pending interval m t w of
        None \<Rightarrow> (w, None)
      | Some w1 \<Rightarrow>
          (let w2 = arm_deadline interval m (task_id t) w1 in
           if should_flush threshold (task_id t) w2
           then (flush_transfer_by_id m Threshold (task_id t) w2, None)
           else (w2, None)))"
| "handle_command interval threshold m (FlushNow t) w =
     (let w1 = sync_pending_transfer_count (w\<lparr>pending := AList.delete (task_id t) (pending w)\<rparr>);
          result = persist_task_result m (table w1) t
      in (persist_task m Force t w1,
          Some (case result of Inl e \<Rightarrow> Err e | Inr _ \<Rightarrow> Ok ())))"

text \<open>
  The loop of \<^verbatim>\<open>run_worker\<close>: a received command, or the timer, which fires only when the earliest
  deadline has passed.  When the channel closes (the end of the list) the loop is left and every
  entry is flushed.
\<close>

datatype worker_event = Recv moment command | Timer moment

definition next_deadline :: "worker \<Rightarrow> nat option" where
  "next_deadline w = list_min (List.map_filter (\<lambda>(i, e). deadline e) (pending w))"

fun worker_step :: "nat \<Rightarrow> u64 \<Rightarrow> worker \<Rightarrow> worker_event \<Rightarrow> worker" where
  "worker_step interval threshold w (Recv m c) = fst (handle_command interval threshold m c w)"
| "worker_step interval threshold w (Timer m) =
     (case next_deadline w of
        Some d \<Rightarrow> if d \<le> instant m then flush_due_entries m w else w
      | None \<Rightarrow> w)"

definition run_loop :: "nat \<Rightarrow> u64 \<Rightarrow> worker_event list \<Rightarrow> worker \<Rightarrow> worker" where
  "run_loop interval threshold evs w = foldl (worker_step interval threshold) w evs"

definition run_worker :: "nat \<Rightarrow> u64 \<Rightarrow> moment \<Rightarrow> worker_event list \<Rightarrow> worker \<Rightarrow> worker" where
  "run_worker interval threshold m_end evs w =
     flush_all_entries m_end (run_loop interval threshold evs w)"

text \<open>
  What every reachable worker state satisfies: the pending map has one entry per transfer, keyed by
  its id and not terminal; fewer than \<open>threshold\<close> bytes of an entry have not been offered to the
  database; an entry with unwritten bytes has a deadline; and the diagnostics count is exact.
\<close>

definition entry_ok :: "u64 \<Rightarrow> string \<Rightarrow> pending_transfer \<Rightarrow> bool" where
  "entry_ok threshold i e =
     (task_id (latest e) = i \<and> \<not> is_terminal (status (latest e)) \<and>
      bytes_transferred (latest e) < last_persisted_bytes e + threshold \<and>
      (deadline e = None \<longrightarrow> bytes_transferred (latest e) \<le> last_persisted_bytes e))"

definition worker_ok :: "u64 \<Rightarrow> worker \<Rightarrow> bool" where
  "worker_ok threshold w =
     (distinct (map fst (pending w)) \<and>
      list_all (\<lambda>(i, e). entry_ok threshold i e) (pending w) \<and>
      pending_transfer_count (diag w) = length (pending w))"

fun cmd_task :: "command \<Rightarrow> transfer_task" where
  "cmd_task (Schedule t) = t"
| "cmd_task (FlushNow t) = t"

fun event_tasks :: "worker_event \<Rightarrow> transfer_task list" where
  "event_tasks (Recv m c) = [cmd_task c]"
| "event_tasks (Timer m) = []"

definition sent_tasks :: "worker_event list \<Rightarrow> transfer_task list" where
  "sent_tasks evs = concat (map event_tasks evs)"

text \<open>A write at \<open>m\<close> for \<open>t\<close> goes through.\<close>

definition write_ok :: "moment \<Rightarrow> transfer_task \<Rightarrow> bool" where
  "write_ok m t = (db_ok m (task_id t) \<and> row_fits (row_of_task (unix_secs m) t))"

text \<open>The writes that are not retried later: those of \<^verbatim>\<open>FlushNow\<close> and of a terminal snapshot.\<close>

fun final_writes_ok :: "worker_event \<Rightarrow> bool" where
  "final_writes_ok (Recv m (Schedule t)) = (is_terminal (status t) \<longrightarrow> write_ok m t)"
| "final_writes_ok (Recv m (FlushNow t)) = write_ok m t"
| "final_writes_ok (Timer m) = True"

text \<open>The snapshots of each transfer are sent in the order in which the transfer produced them.\<close>

definition in_order :: "transfer_task list \<Rightarrow> bool" where
  "in_order = sorted_wrt (\<lambda>t t'. task_id t = task_id t' \<longrightarrow> is_newer_than t t')"

definition stored :: "history_table \<Rightarrow> transfer_task \<Rightarrow> bool" where
  "stored tbl t = (case find_row tbl (task_id t) of Some r \<Rightarrow> row_covers r t | None \<Rightarrow> False)"

definition held :: "worker \<Rightarrow> transfer_task \<Rightarrow> bool" where
  "held w t = (\<not> is_terminal (status t) \<and>
     (case map_of (pending w) (task_id t) of Some e \<Rightarrow> is_newer_than t (latest e) | None \<Rightarrow> False))"

definition sample_moment :: moment where
  "sample_moment = \<lparr>instant = 0, unix_secs = 100, unix_millis = 100000, db_ok = (\<lambda>_. True)\<rparr>"

section \<open>Facts\<close>

lemma is_newer_than_trans:
  "is_newer_than a b \<Longrightarrow> is_newer_than b c \<Longrightarrow> is_newer_than a c"
  by (auto simp: is_newer_than_def)

lemma is_newer_than_refl [simp]: "is_newer_than a a"
  by (simp add: is_newer_than_def)

lemma pending_persist [simp]: "pending (persist_task m reason t w) = pending w"
  by (simp add: persist_task_def split: sum.split)

lemma pending_sync [simp]: "pending (sync_pending_transfer_count w) = pending w"
  by (simp add: sync_pending_transfer_count_def)

lemma table_sync [simp]: "table (sync_pending_transfer_count w) = table w"
  by (simp add: sync_pending_transfer_count_def)

lemma count_sync [simp]:
  "pending_transfer_count (diag (sync_pending_transfer_count w)) = length (pending w)"
  by (simp add: sync_pending_transfer_count_def)

lemma count_record [simp]:
  "pending_transfer_count (record_persist_result m ok reason d) = pending_transfer_count d"
  by (cases reason) (simp_all add: record_persist_result_def Let_def)

lemma count_persist [simp]:
  "pending_transfer_count (diag (persist_task m reason t w)) = pending_transfer_count (diag w)"
  by (simp add: persist_task_def split: sum.split)

lemma table_persist:
  "table (persist_task m reason t w) =
     (if db_ok m (task_id t) then save_step (unix_secs m) (table w) t else table w)"
  by (simp add: persist_task_def persist_task_result_def save_step_def table_after_def
      split: sum.split)

lemma stored_save_same: "row_fits (row_of_task now t) \<Longrightarrow> stored (save_step now tbl t) t"
  using history.save_covers [of now t tbl] by (auto simp: stored_def)

lemma stored_save: "stored tbl s \<Longrightarrow> stored (save_step now tbl t) s"
  using history.save_mono [of tbl "task_id s" _ now t] history.leq_covers
  by (fastforce simp: stored_def split: option.splits)

lemma stored_persist: "stored (table w) s \<Longrightarrow> stored (table (persist_task m reason t w)) s"
  by (simp add: table_persist stored_save)

lemma stored_persist_same: "write_ok m t \<Longrightarrow> stored (table (persist_task m reason t w)) t"
  by (simp add: table_persist write_ok_def stored_save_same)

lemma stored_older:
  assumes "stored tbl t'" and "is_newer_than t t'" and "task_id t' = task_id t"
    and "\<not> is_terminal (status t)"
  shows "stored tbl t"
  using assms by (auto simp: stored_def is_newer_than_def row_covers_def split: option.splits)

lemmas pending_simps = AList.update_conv' AList.delete_conv' AList.distinct_update AList.distinct_delete

lemma worker_ok_entry:
  "worker_ok threshold w \<Longrightarrow> map_of (pending w) i = Some e \<Longrightarrow> entry_ok threshold i e"
  by (auto simp: worker_ok_def list_all_iff dest: map_of_SomeD)

lemma worker_okI:
  assumes "distinct (map fst (pending w))"
    and "\<And>i e. map_of (pending w) i = Some e \<Longrightarrow> entry_ok threshold i e"
    and "pending_transfer_count (diag w) = length (pending w)"
  shows "worker_ok threshold w"
  using assms by (auto simp: worker_ok_def list_all_iff)

lemma length_update_present:
  "map_of al k = Some v \<Longrightarrow> length (AList.update k u al) = length al"
  by (induction al) auto

lemma table_persist_pending [simp]:
  "table (persist_task m reason t (w\<lparr>pending := P\<rparr>)) = table (persist_task m reason t w)"
  by (simp add: table_persist)

lemma flush_absent: "map_of (pending w) i = None \<Longrightarrow> flush_transfer_by_id m reason i w = w"
  by (simp add: flush_transfer_by_id_def)

lemma flush_present:
  assumes "map_of (pending w) i = Some e" and "\<not> is_terminal (status (latest e))"
  shows "map_of (pending (flush_transfer_by_id m reason i w)) =
           (map_of (pending w))(i \<mapsto>
              e\<lparr>last_persisted_bytes := bytes_transferred (latest e), deadline := None\<rparr>)"
    and "table (flush_transfer_by_id m reason i w) = table (persist_task m reason (latest e) w)"
  using assms
  by (auto simp: flush_transfer_by_id_def Let_def pending_simps)

lemma flush_distinct:
  "distinct (map fst (pending w)) \<Longrightarrow> distinct (map fst (pending (flush_transfer_by_id m reason i w)))"
  by (simp add: flush_transfer_by_id_def Let_def pending_simps split: option.split)

lemma flush_count:
  "map_of (pending w) i \<noteq> None \<or> pending_transfer_count (diag w) = length (pending w) \<Longrightarrow>
   pending_transfer_count (diag (flush_transfer_by_id m reason i w)) =
     length (pending (flush_transfer_by_id m reason i w))"
  by (auto simp: flush_transfer_by_id_def Let_def split: option.split)

lemma flushed_entry_ok:
  "entry_ok threshold i e \<Longrightarrow> 0 < threshold \<Longrightarrow>
   entry_ok threshold i (e\<lparr>last_persisted_bytes := bytes_transferred (latest e), deadline := None\<rparr>)"
  by (simp add: entry_ok_def)

lemma flush_worker_ok [invariant_intros]:
  assumes ok: "worker_ok threshold w" and pos: "0 < threshold"
  shows "worker_ok threshold (flush_transfer_by_id m reason i w)"
proof (cases "map_of (pending w) i")
  case None
  then show ?thesis using ok by (simp add: flush_absent)
next
  case (Some e)
  have e: "entry_ok threshold i e" using worker_ok_entry [OF ok Some] .
  then have nt: "\<not> is_terminal (status (latest e))" by (simp add: entry_ok_def)
  show ?thesis
  proof (rule worker_okI)
    show "distinct (map fst (pending (flush_transfer_by_id m reason i w)))"
      using ok by (simp add: flush_distinct worker_ok_def)
    show "entry_ok threshold j f"
      if "map_of (pending (flush_transfer_by_id m reason i w)) j = Some f" for j f
      using that flushed_entry_ok [OF e pos] worker_ok_entry [OF ok, of j f]
      by (auto simp: flush_present [OF Some nt] split: if_splits)
    show "pending_transfer_count (diag (flush_transfer_by_id m reason i w)) =
        length (pending (flush_transfer_by_id m reason i w))"
      using Some by (simp add: flush_count)
  qed
qed

lemma flush_ids_worker_ok [invariant_intros]:
  "worker_ok threshold w \<Longrightarrow> 0 < threshold \<Longrightarrow> worker_ok threshold (flush_ids m is w)"
  by (induction "is" arbitrary: w) (simp_all add: flush_worker_ok)

text \<open>A flush keeps what is stored and what is held, and leaves the latest snapshots alone.\<close>

lemma flush_stored: "stored (table w) s \<Longrightarrow> stored (table (flush_transfer_by_id m reason i w)) s"
  by (simp add: flush_transfer_by_id_def Let_def stored_persist split: option.split)

lemma flush_latest:
  assumes ok: "worker_ok threshold w"
  shows "map_option latest (map_of (pending (flush_transfer_by_id m reason i w)) j) =
           map_option latest (map_of (pending w) j)"
proof (cases "map_of (pending w) i")
  case (Some e)
  then have "\<not> is_terminal (status (latest e))"
    using worker_ok_entry [OF ok Some] by (simp add: entry_ok_def)
  with Some show ?thesis by (simp add: flush_present)
qed (simp add: flush_absent)

lemma flush_ids_stored: "stored (table w) s \<Longrightarrow> stored (table (flush_ids m is w)) s"
  by (induction "is" arbitrary: w) (simp_all add: flush_stored)

lemma flush_ids_latest:
  assumes "worker_ok threshold w" and "0 < threshold"
  shows "map_option latest (map_of (pending (flush_ids m is w)) j) =
           map_option latest (map_of (pending w) j)"
  using assms by (induction "is" arbitrary: w) (simp_all add: flush_latest flush_worker_ok)

lemma flush_ids_writes:
  assumes "worker_ok threshold w" and "0 < threshold" and "i \<in> set is"
    and "map_option latest (map_of (pending w) i) = Some t" and "write_ok m t"
  shows "stored (table (flush_ids m is w)) t"
  using assms
proof (induction "is" arbitrary: w)
  case (Cons j js)
  let ?w = "flush_transfer_by_id m Interval j w"
  show ?case
  proof (cases "i = j")
    case True
    obtain e where e: "map_of (pending w) j = Some e" "latest e = t"
      using Cons.prems(4) True by auto
    then have "\<not> is_terminal (status (latest e))"
      using worker_ok_entry [OF Cons.prems(1) e(1)] by (simp add: entry_ok_def)
    then have "stored (table ?w) t"
      using e Cons.prems(5) by (simp add: flush_present stored_persist_same)
    then show ?thesis by (simp add: flush_ids_stored)
  next
    case False
    have "map_option latest (map_of (pending ?w) i) = Some t"
      using Cons.prems(4) by (simp add: flush_latest [OF Cons.prems(1)])
    then show ?thesis
      using Cons.IH [of ?w] Cons.prems False by (simp add: flush_worker_ok)
  qed
qed simp

lemma held_latest:
  "map_option latest (map_of (pending w') (task_id t)) = map_option latest (map_of (pending w) (task_id t))
   \<Longrightarrow> held w t \<Longrightarrow> held w' t"
  by (auto simp: held_def split: option.splits)

text \<open>Between coalescing and the threshold test only the byte bound may fail, for one entry.\<close>

definition nearly_ok :: "u64 \<Rightarrow> transfer_task \<Rightarrow> worker \<Rightarrow> worker \<Rightarrow> bool" where
  "nearly_ok threshold t w w2 =
     (distinct (map fst (pending w2)) \<and> table w2 = table w \<and>
      pending_transfer_count (diag w2) = length (pending w2) \<and>
      (\<forall>j. j \<noteq> task_id t \<longrightarrow> map_of (pending w2) j = map_of (pending w) j) \<and>
      (case map_of (pending w2) (task_id t) of
         Some e \<Rightarrow> latest e = t \<and> (deadline e = None \<longrightarrow> bytes_transferred t \<le> last_persisted_bytes e)
       | None \<Rightarrow> False))"

lemma schedule_pending_nearly_ok:
  assumes ok: "worker_ok threshold w" and sched: "schedule_pending interval m t w = Some w1"
  shows "nearly_ok threshold t w (arm_deadline interval m (task_id t) w1)"
proof -
  have d: "distinct (map fst (pending w))" and c: "pending_transfer_count (diag w) = length (pending w)"
    using ok by (auto simp: worker_ok_def)
  show ?thesis
  proof (cases "map_of (pending w) (task_id t)")
    case None
    with sched show ?thesis
      by (auto simp: schedule_pending_def arm_deadline_def nearly_ok_def pending_simps d
          length_update_present)
  next
    case (Some e)
    with sched show ?thesis
      by (auto simp: schedule_pending_def arm_deadline_def nearly_ok_def pending_simps d c
          length_update_present split: if_splits)
  qed
qed

lemma threshold_flush_ok:
  fixes m :: moment
  assumes ok: "worker_ok threshold w" and pos: "0 < threshold" and nt: "\<not> is_terminal (status t)"
    and near: "nearly_ok threshold t w w2"
  defines "w3 \<equiv> (if should_flush threshold (task_id t) w2
                  then flush_transfer_by_id m Threshold (task_id t) w2 else w2)"
  shows "worker_ok threshold w3"
    and "map_option latest (map_of (pending w3) j) =
           (if j = task_id t then Some t else map_option latest (map_of (pending w) j))"
    and "stored (table w) s \<Longrightarrow> stored (table w3) s"
proof -
  obtain e where e: "map_of (pending w2) = (map_of (pending w))(task_id t \<mapsto> e)" "latest e = t"
      "deadline e = None \<longrightarrow> bytes_transferred t \<le> last_persisted_bytes e"
    and d: "distinct (map fst (pending w2))" and tb: "table w2 = table w"
    and c: "pending_transfer_count (diag w2) = length (pending w2)"
    using near by (fastforce simp: nearly_ok_def split: option.splits)
  have i: "map_of (pending w2) (task_id t) = Some e" by (simp add: e(1))
  have nt': "\<not> is_terminal (status (latest e))" using nt e(2) by simp
  have "worker_ok threshold w3 \<and> map_option latest (map_of (pending w3) j) =
           (if j = task_id t then Some t else map_option latest (map_of (pending w) j))"
  proof (cases "should_flush threshold (task_id t) w2")
    case True
    have "worker_ok threshold w3"
    proof (rule worker_okI)
      show "distinct (map fst (pending w3))" using True d by (simp add: w3_def flush_distinct)
      show "entry_ok threshold k f" if "map_of (pending w3) k = Some f" for k f
        using that True e nt pos worker_ok_entry [OF ok, of k f]
        by (auto simp: w3_def flush_present [OF i nt'] entry_ok_def split: if_splits)
      show "pending_transfer_count (diag w3) = length (pending w3)"
        using True i by (simp add: w3_def flush_count)
    qed
    with True e show ?thesis by (simp add: w3_def flush_present [OF i nt'])
  next
    case False
    then have b: "bytes_transferred t < last_persisted_bytes e + threshold"
      using e(2) by (simp add: should_flush_def i sat_sub_def split: if_splits)
    have "worker_ok threshold w2"
    proof (rule worker_okI)
      show "entry_ok threshold k f" if "map_of (pending w2) k = Some f" for k f
        using that e b nt worker_ok_entry [OF ok, of k f]
        by (auto simp: entry_ok_def split: if_splits)
    qed (use d c in simp_all)
    with False e show ?thesis by (simp add: w3_def)
  qed
  then show "worker_ok threshold w3" "map_option latest (map_of (pending w3) j) =
           (if j = task_id t then Some t else map_option latest (map_of (pending w) j))" by auto
  show "stored (table w3) s" if "stored (table w) s"
    using that by (simp add: w3_def tb flush_stored)
qed

lemma handle_schedule_live:
  fixes m :: moment and interval :: nat
  assumes ok: "worker_ok threshold w" and pos: "0 < threshold" and nt: "\<not> is_terminal (status t)"
  defines "w' \<equiv> fst (handle_command interval threshold m (Schedule t) w)"
  shows "worker_ok threshold w'"
    and "stored (table w) s \<Longrightarrow> stored (table w') s"
    and "map_option latest (map_of (pending w') j) =
           (if j = task_id t then
              Some (case map_of (pending w) j of
                 Some e \<Rightarrow> if is_newer_than (latest e) t then t else latest e | None \<Rightarrow> t)
            else map_option latest (map_of (pending w) j))"
proof -
  let ?w = "w\<lparr>diag := (diag w)\<lparr>schedule_requests := sat_add (schedule_requests (diag w)) 1\<rparr>\<rparr>"
  have ok': "worker_ok threshold ?w" using ok by (simp add: worker_ok_def)
  have "worker_ok threshold w' \<and> (stored (table w) s \<longrightarrow> stored (table w') s) \<and>
      map_option latest (map_of (pending w') j) =
           (if j = task_id t then
              Some (case map_of (pending w) j of
                 Some e \<Rightarrow> if is_newer_than (latest e) t then t else latest e | None \<Rightarrow> t)
            else map_option latest (map_of (pending w) j))"
  proof (cases "schedule_pending interval m t ?w")
    case None
    then show ?thesis
      using nt ok' by (auto simp: w'_def schedule_pending_def Let_def split: option.splits if_splits)
  next
    case (Some w1)
    have w': "w' = (if should_flush threshold (task_id t) (arm_deadline interval m (task_id t) w1)
        then flush_transfer_by_id m Threshold (task_id t) (arm_deadline interval m (task_id t) w1)
        else arm_deadline interval m (task_id t) w1)"
      using Some nt by (simp add: w'_def Let_def)
    have fresh: "(case map_of (pending w) (task_id t) of
                 Some e \<Rightarrow> if is_newer_than (latest e) t then t else latest e | None \<Rightarrow> t) = t"
      using Some by (auto simp: schedule_pending_def split: option.splits if_splits)
    note near = schedule_pending_nearly_ok [OF ok' Some]
    note flushed = threshold_flush_ok [OF ok' pos nt near, where m = m]
    from flushed(1) flushed(2) [of j] flushed(3) [of s] fresh show ?thesis
      by (simp add: w')
  qed
  then show "worker_ok threshold w'" "stored (table w) s \<Longrightarrow> stored (table w') s"
    "map_option latest (map_of (pending w') j) =
           (if j = task_id t then
              Some (case map_of (pending w) j of
                 Some e \<Rightarrow> if is_newer_than (latest e) t then t else latest e | None \<Rightarrow> t)
            else map_option latest (map_of (pending w) j))" by auto
qed

text \<open>A terminal snapshot and a forced flush are written at once and drop the pending entry.\<close>

definition writes_through :: "command \<Rightarrow> bool" where
  "writes_through c = (case c of Schedule t \<Rightarrow> is_terminal (status t) | FlushNow t \<Rightarrow> True)"

lemma worker_ok_delete:
  assumes "worker_ok threshold w"
    and "map_of P = (map_of (pending w))(i := None)" and "distinct (map fst P)"
    and "pending_transfer_count (diag w') = length P" and "pending w' = P"
  shows "worker_ok threshold w'"
  using assms worker_ok_entry [OF assms(1)] by (auto intro!: worker_okI split: if_splits)

lemma handle_write_through:
  fixes m :: moment and interval :: nat
  assumes ok: "worker_ok threshold w" and wt: "writes_through c"
  defines "w' \<equiv> fst (handle_command interval threshold m c w)" and "t \<equiv> cmd_task c"
  shows "worker_ok threshold w'"
    and "map_of (pending w') = (map_of (pending w))(task_id t := None)"
    and "table w' = (if db_ok m (task_id t) then save_step (unix_secs m) (table w) t else table w)"
proof -
  have d: "distinct (map fst (pending w))" using ok by (simp add: worker_ok_def)
  have idem: "AList.delete (task_id t) (AList.delete (task_id t) (pending w)) =
      AList.delete (task_id t) (pending w)"
    by (simp add: AList.delete_idem)
  show *: "map_of (pending w') = (map_of (pending w))(task_id t := None)"
    using wt by (cases c) (auto simp: w'_def t_def writes_through_def Let_def pending_simps)
  show "table w' = (if db_ok m (task_id t) then save_step (unix_secs m) (table w) t else table w)"
    using wt by (cases c) (auto simp: w'_def t_def writes_through_def Let_def table_persist)
  show "worker_ok threshold w'"
  proof (rule worker_ok_delete [OF ok *])
    show "distinct (map fst (pending w'))"
      using wt d by (cases c) (auto simp: w'_def t_def writes_through_def Let_def pending_simps)
    show "pending_transfer_count (diag w') = length (pending w')"
      using wt idem by (cases c) (auto simp: w'_def t_def writes_through_def Let_def)
  qed simp
qed

lemma handle_command_worker_ok:
  assumes "worker_ok threshold w" and "0 < threshold"
  shows "worker_ok threshold (fst (handle_command interval threshold m c w))"
proof (cases "writes_through c")
  case True
  then show ?thesis using handle_write_through(1) [OF assms(1)] by blast
next
  case False
  then obtain t where "c = Schedule t" "\<not> is_terminal (status t)"
    by (auto simp: writes_through_def split: command.splits)
  then show ?thesis using handle_schedule_live(1) [OF assms] by blast
qed

lemma worker_step_ok [invariant_intros]:
  "worker_ok threshold w \<Longrightarrow> 0 < threshold \<Longrightarrow> worker_ok threshold (worker_step interval threshold w ev)"
  by (cases ev)
     (auto simp: handle_command_worker_ok flush_due_entries_def flush_ids_worker_ok split: option.split)

lemma run_loop_ok:
  "worker_ok threshold w \<Longrightarrow> 0 < threshold \<Longrightarrow> worker_ok threshold (run_loop interval threshold evs w)"
  unfolding run_loop_def by (induction evs arbitrary: w) (simp_all add: worker_step_ok)

lemma with_policy_ok: "worker_ok threshold (with_policy interval threshold' tbl)"
  by (simp add: worker_ok_def with_policy_def)

text \<open>Every snapshot sent so far is in the table or in an entry that supersedes it.\<close>

definition tracked :: "transfer_task list \<Rightarrow> worker \<Rightarrow> bool" where
  "tracked ts w =
     ((\<forall>t \<in> set ts. stored (table w) t \<or> held w t) \<and>
      (\<forall>i l. map_option latest (map_of (pending w) i) = Some l \<longrightarrow> l \<in> set ts))"

lemma tracked_latest:
  assumes "tracked ts w" and "\<And>s. stored (table w) s \<Longrightarrow> stored (table w') s"
    and same: "\<And>i. map_option latest (map_of (pending w') i) = map_option latest (map_of (pending w) i)"
  shows "tracked ts w'"
  using assms(1,2) held_latest [OF same] by (auto simp: tracked_def same simp del: map_option_eq_Some)

lemma tracked_write_through:
  assumes ok: "worker_ok threshold w" and tr: "tracked ts w" and wt: "writes_through c"
    and wr: "write_ok m (cmd_task c)"
    and ord: "\<forall>t \<in> set ts. task_id t = task_id (cmd_task c) \<longrightarrow> is_newer_than t (cmd_task c)"
  shows "tracked (ts @ [cmd_task c]) (fst (handle_command interval threshold m c w))"
proof -
  define t' where "t' = cmd_task c"
  define w' where "w' = fst (handle_command interval threshold m c w)"
  note eff = handle_write_through [OF ok wt, where m = m and interval = interval,
      folded w'_def t'_def]
  have tb: "table w' = save_step (unix_secs m) (table w) t'"
    using wr eff(3) by (simp add: write_ok_def t'_def)
  have new: "stored (table w') t'"
    using wr by (simp add: tb write_ok_def stored_save_same t'_def)
  have "stored (table w') t \<or> held w' t" if t: "t \<in> set ts" for t
  proof (cases "stored (table w) t")
    case True
    then show ?thesis by (simp add: tb stored_save)
  next
    case False
    then have h: "held w t" using tr t by (auto simp: tracked_def)
    show ?thesis
    proof (cases "task_id t = task_id t'")
      case True
      then have "stored (table w') t"
        using stored_older [OF new] ord t h by (simp add: t'_def held_def)
      then show ?thesis ..
    next
      case False
      then show ?thesis using eff(2) h by (simp add: held_def)
    qed
  qed
  then have "tracked (ts @ [t']) w'"
    using new tr eff(2) by (auto simp: tracked_def split: if_splits)
  then show ?thesis by (simp add: w'_def t'_def del: handle_command.simps)
qed

lemma tracked_schedule_live:
  assumes ok: "worker_ok threshold w" and pos: "0 < threshold" and tr: "tracked ts w"
    and nt: "\<not> is_terminal (status t)"
    and ord: "\<forall>s \<in> set ts. task_id s = task_id t \<longrightarrow> is_newer_than s t"
  shows "tracked (ts @ [t]) (fst (handle_command interval threshold m (Schedule t) w))"
proof -
  define w' where "w' = fst (handle_command interval threshold m (Schedule t) w)"
  note eff = handle_schedule_live [OF ok pos nt, where m = m and interval = interval, folded w'_def]
  have newer: "is_newer_than (latest e) t" if "map_of (pending w) (task_id t) = Some e" for e
    using tr that ord worker_ok_entry [OF ok that] by (fastforce simp: tracked_def entry_ok_def)
  have eq: "map_option latest (map_of (pending w') j) =
      (if j = task_id t then Some t else map_option latest (map_of (pending w) j))" for j
    using eff(3) [of j] newer by (auto split: option.splits)
  have "held w' s" if "held w s" "s \<in> set ts" for s
    using that eq [of "task_id s"] ord by (auto simp: held_def split: option.splits if_splits)
  moreover have "held w' t" using nt eq [of "task_id t"] by (auto simp: held_def)
  ultimately have "tracked (ts @ [t]) w'"
    using tr eff(2) by (auto simp: tracked_def eq simp del: map_option_eq_Some split: if_splits)
  then show ?thesis by (simp add: w'_def del: handle_command.simps)
qed

lemma tracked_step:
  assumes "worker_ok threshold w" and "0 < threshold" and "tracked ts w" and "final_writes_ok ev"
    and "\<forall>t \<in> set ts. \<forall>t' \<in> set (event_tasks ev). task_id t = task_id t' \<longrightarrow> is_newer_than t t'"
  shows "tracked (ts @ event_tasks ev) (worker_step interval threshold w ev)"
proof (cases ev)
  case (Timer m)
  have "tracked ts (flush_ids m is w)" for "is"
    using tracked_latest [OF assms(3)] flush_ids_stored flush_ids_latest [OF assms(1,2)] by blast
  then show ?thesis using Timer assms(3) by (auto simp: flush_due_entries_def split: option.split)
next
  case (Recv m c)
  show ?thesis
  proof (cases "writes_through c")
    case True
    then have "write_ok m (cmd_task c)"
      using assms(4) Recv by (cases c) (auto simp: writes_through_def)
    then show ?thesis
      using tracked_write_through [OF assms(1,3) True] assms(5) Recv by simp
  next
    case False
    then show ?thesis
      using tracked_schedule_live [OF assms(1-3)] assms(5) Recv
      by (cases c) (auto simp: writes_through_def)
  qed
qed

lemma sent_tasks_snoc [simp]: "sent_tasks (evs @ [ev]) = sent_tasks evs @ event_tasks ev"
  by (simp add: sent_tasks_def)

lemma run_loop_tracked:
  assumes "0 < threshold" and "list_all final_writes_ok evs" and "in_order (sent_tasks evs)"
  shows "tracked (sent_tasks evs) (run_loop interval threshold evs (with_policy interval threshold tbl))"
  using assms(2,3)
proof (induction evs rule: rev_induct)
  case Nil
  then show ?case by (simp add: tracked_def sent_tasks_def run_loop_def with_policy_def)
next
  case (snoc ev evs)
  let ?w = "run_loop interval threshold evs (with_policy interval threshold tbl)"
  have tr: "tracked (sent_tasks evs) ?w"
    using snoc by (simp add: in_order_def sorted_wrt_append)
  have ok: "worker_ok threshold ?w" by (rule run_loop_ok [OF with_policy_ok assms(1)])
  show ?case
    using tracked_step [OF ok assms(1) tr, of ev interval] snoc.prems
    by (simp add: run_loop_def in_order_def sorted_wrt_append)
qed

section \<open>Properties\<close>

text \<open>
  C11: Nothing is lost at shutdown.  When the snapshots of each transfer are sent in order, the
  writes of terminal and forced snapshots go through and the writes at shutdown go through, then
  every snapshot ever sent is in the history table after the worker has ended, or superseded there by
  a newer one; interval and threshold writes before shutdown may fail.
\<close>

theorem run_worker_durable:
  assumes "0 < threshold" and "list_all final_writes_ok evs" and "in_order (sent_tasks evs)"
    and "list_all (write_ok m_end) (sent_tasks evs)" and "t \<in> set (sent_tasks evs)"
  shows "\<exists>r. find_row (table (run_worker interval threshold m_end evs
                  (with_policy interval threshold tbl))) (task_id t) = Some r \<and> row_covers r t"
proof -
  let ?w = "run_loop interval threshold evs (with_policy interval threshold tbl)"
  have tr: "tracked (sent_tasks evs) ?w" using run_loop_tracked assms(1-3) by blast
  have ok: "worker_ok threshold ?w" by (rule run_loop_ok [OF with_policy_ok assms(1)])
  have "stored (table (flush_all_entries m_end ?w)) t"
  proof (cases "stored (table ?w) t")
    case True
    then show ?thesis by (simp add: flush_all_entries_def flush_ids_stored)
  next
    case False
    then have "held ?w t" using tr assms(5) by (auto simp: tracked_def)
    then obtain e where nt: "\<not> is_terminal (status t)" and newer: "is_newer_than t (latest e)"
      and e: "map_of (pending ?w) (task_id t) = Some e"
      by (auto simp: held_def split: option.splits)
    have l: "latest e \<in> set (sent_tasks evs)"
      using tr e by (auto simp: tracked_def)
    have "task_id t \<in> set (map fst (pending ?w))" using map_of_SomeD [OF e] by force
    then have "stored (table (flush_all_entries m_end ?w)) (latest e)"
      unfolding flush_all_entries_def
      using flush_ids_writes [OF ok assms(1), of "task_id t" _ "latest e"] e l assms(4)
      by (simp add: list_all_iff)
    then show ?thesis
      using stored_older newer nt worker_ok_entry [OF ok e] by (auto simp: entry_ok_def)
  qed
  then show ?thesis
    by (auto simp: run_worker_def stored_def split: option.splits)
qed

theorem run_worker_durable_witness:
  "\<exists>r. find_row (table (run_worker 3000 100 sample_moment
         [Recv sample_moment (schedule sample_task), Timer sample_moment]
         (with_policy 3000 100 []))) ''t1'' = Some r \<and> row_covers r sample_task"
proof -
  let ?evs = "[Recv sample_moment (schedule sample_task), Timer sample_moment]"
  let ?t = "progress_snapshot sample_task"
  have sent: "sent_tasks ?evs = [?t]" by (simp add: sent_tasks_def schedule_def)
  have wr: "write_ok sample_moment ?t"
    by (simp add: write_ok_def sample_moment_def row_fits_def row_of_task_def progress_snapshot_def
        sample_task_def I64_MAX_def)
  have "list_all final_writes_ok ?evs" using wr by (simp add: schedule_def)
  moreover have "in_order (sent_tasks ?evs)" by (simp add: sent in_order_def)
  moreover have "list_all (write_ok sample_moment) (sent_tasks ?evs)" using wr by (simp add: sent)
  moreover have "?t \<in> set (sent_tasks ?evs)" by (simp add: sent)
  ultimately have "\<exists>r. find_row (table (run_worker 3000 100 sample_moment ?evs
      (with_policy 3000 100 []))) (task_id ?t) = Some r \<and> row_covers r ?t"
    by (intro run_worker_durable) simp_all
  then show ?thesis by (simp add: row_covers_def sample_task_def)
qed

text \<open>
  The worker is bounded and never forgets progress.  In every state of the loop, whatever
  writes fail: there is at most one pending entry per transfer and none is terminal, fewer than
  \<open>threshold\<close> bytes of an entry have not been offered to the database, an entry with such bytes has a
  deadline, and the reported pending count is the number of entries.
\<close>

theorem run_loop_invariant:
  assumes "0 < threshold"
    and "w = run_loop interval threshold evs (with_policy interval threshold tbl)"
  shows "distinct (map fst (pending w)) \<and> pending_transfer_count (diag w) = length (pending w) \<and>
    list_all (\<lambda>(i, e). task_id (latest e) = i \<and> \<not> is_terminal (status (latest e)) \<and>
      bytes_transferred (latest e) < last_persisted_bytes e + threshold \<and>
      (bytes_transferred (latest e) > last_persisted_bytes e \<longrightarrow> deadline e \<noteq> None)) (pending w)"
proof -
  have "worker_ok threshold w" using run_loop_ok [OF with_policy_ok assms(1)] assms(2) by simp
  then show ?thesis by (auto simp: worker_ok_def list_all_iff entry_ok_def)
qed

theorem run_loop_invariant_witness:
  "pending_transfer_count (diag (run_loop 3000 100 [Recv sample_moment (schedule sample_task)]
     (with_policy 3000 100 []))) = 1"
proof -
  let ?w = "run_loop 3000 100 [Recv sample_moment (schedule sample_task)] (with_policy 3000 100 [])"
  have "pending_transfer_count (diag ?w) = length (pending ?w)"
    using run_loop_invariant [of 100 ?w 3000 "[Recv sample_moment (schedule sample_task)]" "[]"] by simp
  also have "length (pending ?w) = 1"
    by (simp add: run_loop_def with_policy_def schedule_def schedule_pending_def arm_deadline_def
        should_flush_def sample_task_def progress_snapshot_def sample_moment_def Let_def sat_sub_def
        sync_pending_transfer_count_def)
  finally show ?thesis .
qed

end
