(* ===== verification/AppState.thy ===== *)
theory AppState
  imports Discovery TrustStore AccessTokens ProgressPersistence
begin

text \<open>
  The part of \<^verbatim>\<open>AppState\<close> (\<^verbatim>\<open>state.rs\<close>) that the transport layer updates: the transfer table, the
  trusted peers, the configuration, incoming-request notifications, the SLO timestamps, the terminal
  counters, the local IPC access tokens, and the history table behind the database handle.  Commands
  to the progress-persistence worker and events for the user interface are kept as logs in the order
  in which they are issued.  \<^verbatim>\<open>HashMap\<close>s are association lists; the clock and fresh UUIDs are
  arguments.  \<open>update_transfer_status\<close> is the function of that name of \<^verbatim>\<open>receiver.rs\<close>.
\<close>

section \<open>Data\<close>

datatype file_conflict_strategy = Overwrite | Rename | Skip

record app_config =
  device_name :: string
  auto_accept_trusted_only :: bool
  download_dir :: "string option"
  conflict_strategy :: file_conflict_strategy
  max_parallel_streams :: u32
  launch_at_login :: bool

record notification =
  notification_id :: string
  nt_transfer_id :: string
  nt_active :: bool
  nt_reason_code :: "string option"
  nt_updated_at_unix :: u64

record transfer_slo =
  slo_peer_fingerprint :: "string option"
  sender_dispatch_at :: "u64 option"
  receiver_prompted_at :: "u64 option"
  receiver_fallback_prompted_at :: "u64 option"

text \<open>
  The calls of \<^verbatim>\<open>transport/events.rs\<close> that the transport layer makes, with their arguments, and the other
  events sent to the host, by name and arguments.
\<close>

datatype ui_event =
    EvIncoming string string bool u64 u64
  | EvStarted string string string u64 u64
  | EvAccepted string u64
  | EvProgress string u64 u64 u64
  | EvComplete string u64
  | EvPartial string nat "failed_file list" u64
  | EvTerminal string transfer_status string string u64 string
  | EvError string string string string u64 string
  | EvHost string "string list"

record app_state =
  transfers :: "(string \<times> transfer_task) list"
  pending_accepts :: "string list"
  trusted_peers :: trust_table
  config :: app_config
  notifications :: "(string \<times> notification) list"
  slo_transfers :: "(string \<times> transfer_slo) list"
  metrics :: transfer_metrics
  access_tokens :: "(string \<times> access_token) list"
  history_db :: history_table
  security_db :: security_log
  snapshot_db :: snapshot_table
  trusted_db :: trusted_store
  config_db :: "app_config option"
  discovery :: discovery_state
  persist_log :: "command list"
  ui_log :: "ui_event list"

section \<open>Small updates\<close>

definition emit :: "ui_event \<Rightarrow> app_state \<Rightarrow> app_state" where
  "emit ev st = st\<lparr>ui_log := ui_log st @ [ev]\<rparr>"

definition schedule_progress_persist :: "transfer_task \<Rightarrow> app_state \<Rightarrow> app_state" where
  "schedule_progress_persist t st = st\<lparr>persist_log := persist_log st @ [schedule t]\<rparr>"

definition flush_progress_persist_now :: "transfer_task \<Rightarrow> app_state \<Rightarrow> app_state" where
  "flush_progress_persist_now t st = st\<lparr>persist_log := persist_log st @ [flush_now t]\<rparr>"

definition set_task :: "transfer_task \<Rightarrow> app_state \<Rightarrow> app_state" where
  "set_task t st = st\<lparr>transfers := AList.update (task_id t) t (transfers st)\<rparr>"

definition transfer_revision :: "app_state \<Rightarrow> string \<Rightarrow> u64" where
  "transfer_revision st i = (case map_of (transfers st) i of Some t \<Rightarrow> revision t | None \<Rightarrow> 0)"

text \<open>The progress update of one chunk; nothing happens when the transfer is no longer registered.\<close>

definition add_progress :: "string \<Rightarrow> nat \<Rightarrow> app_state \<Rightarrow> app_state" where
  "add_progress tid n st =
     (case map_of (transfers st) tid of
        None \<Rightarrow> st
      | Some t \<Rightarrow>
          (let t1 = t\<lparr>bytes_transferred := bytes_transferred t + n\<rparr>;
               st1 = st\<lparr>transfers := AList.update tid t1 (transfers st)\<rparr>;
               st2 = schedule_progress_persist (progress_snapshot t1) st1
           in emit (EvProgress tid (bytes_transferred t1) (total_bytes t1) (revision t1)) st2))"

definition record_first :: "u64 option \<Rightarrow> u64 \<Rightarrow> u64 option" where
  "record_first slot v = (case slot of None \<Rightarrow> Some v | Some x \<Rightarrow> Some x)"

definition default_slo :: transfer_slo where
  "default_slo = \<lparr>slo_peer_fingerprint = None, sender_dispatch_at = None, receiver_prompted_at = None,
     receiver_fallback_prompted_at = None\<rparr>"

definition upd_slo :: "string \<Rightarrow> (transfer_slo \<Rightarrow> transfer_slo) \<Rightarrow> app_state \<Rightarrow> app_state" where
  "upd_slo i f st = st\<lparr>slo_transfers := AList.update i
     (f (case map_of (slo_transfers st) i of Some e \<Rightarrow> e | None \<Rightarrow> default_slo)) (slo_transfers st)\<rparr>"

definition peer_if_missing :: "string option \<Rightarrow> transfer_slo \<Rightarrow> transfer_slo" where
  "peer_if_missing fp e =
     (case slo_peer_fingerprint e of None \<Rightarrow> e\<lparr>slo_peer_fingerprint := fp\<rparr> | Some _ \<Rightarrow> e)"

definition set_transfer_slo_peer_if_missing :: "string \<Rightarrow> string option \<Rightarrow> app_state \<Rightarrow> app_state" where
  "set_transfer_slo_peer_if_missing i fp st =
     (case fp of None \<Rightarrow> st | Some p \<Rightarrow> upd_slo i (peer_if_missing (Some p)) st)"

definition record_sender_dispatch :: "clock \<Rightarrow> string \<Rightarrow> string \<Rightarrow> app_state \<Rightarrow> app_state" where
  "record_sender_dispatch clk i fp =
     upd_slo i (\<lambda>e. let e1 = peer_if_missing (Some fp) e in
       e1\<lparr>sender_dispatch_at := record_first (sender_dispatch_at e1) (unix_now_ms clk)\<rparr>)"

definition record_receiver_prompted :: "clock \<Rightarrow> string \<Rightarrow> string option \<Rightarrow> app_state \<Rightarrow> app_state" where
  "record_receiver_prompted clk i fp =
     upd_slo i (\<lambda>e. let e1 = peer_if_missing fp e in
       e1\<lparr>receiver_prompted_at := record_first (receiver_prompted_at e1) (unix_now_ms clk)\<rparr>)"

definition record_receiver_fallback_prompted :: "clock \<Rightarrow> string \<Rightarrow> string \<Rightarrow> app_state \<Rightarrow> app_state" where
  "record_receiver_fallback_prompted clk i fp =
     upd_slo i (\<lambda>e. let e1 = peer_if_missing (Some fp) e in
       e1\<lparr>receiver_fallback_prompted_at := record_first (receiver_fallback_prompted_at e1) (unix_now_ms clk)\<rparr>)"

section \<open>Notifications\<close>

definition ensure_incoming_request_notification ::
    "clock \<Rightarrow> string \<Rightarrow> string \<Rightarrow> app_state \<Rightarrow> app_state \<times> string" where
  "ensure_incoming_request_notification clk uuid i st =
     (let (n, nid) = (case map_of (notifications st) i of
            Some old \<Rightarrow> (old\<lparr>nt_active := True, nt_updated_at_unix := unix_now clk\<rparr>, notification_id old)
          | None \<Rightarrow> (\<lparr>notification_id = uuid, nt_transfer_id = i, nt_active = True, nt_reason_code = None,
                      nt_updated_at_unix = unix_now clk\<rparr>, uuid));
          st1 = st\<lparr>notifications := AList.update i n (notifications st)\<rparr>;
          fp = map_option peer_fingerprint (map_of (transfers st1) i)
      in (record_receiver_prompted clk i fp (set_transfer_slo_peer_if_missing i fp st1), nid))"

definition mark_incoming_request_notification_inactive ::
    "clock \<Rightarrow> string \<Rightarrow> string option \<Rightarrow> app_state \<Rightarrow> app_state \<times> string option" where
  "mark_incoming_request_notification_inactive clk i reason st =
     (case map_of (notifications st) i of
        None \<Rightarrow> (st, None)
      | Some n \<Rightarrow>
          (let n1 = n\<lparr>nt_active := False, nt_updated_at_unix := unix_now clk\<rparr>;
               n2 = (case reason of Some c \<Rightarrow> n1\<lparr>nt_reason_code := Some c\<rparr> | None \<Rightarrow> n1)
           in (st\<lparr>notifications := AList.update i n2 (notifications st)\<rparr>, Some (notification_id n2))))"

section \<open>Transfer status\<close>

text \<open>
  \<open>update_transfer_status\<close>: \<open>lock_ok\<close> says whether the database lock is available.  A failed
  \<^verbatim>\<open>save_transfer\<close> is ignored by the code, so the table stays as it was.
\<close>

definition update_transfer_status ::
    "clock \<Rightarrow> bool \<Rightarrow> string \<Rightarrow> transfer_status \<Rightarrow> string option \<Rightarrow> app_state \<Rightarrow> app_state \<times> u64 option" where
  "update_transfer_status clk lock_ok i st_new reason st =
     (case map_of (transfers st) i of
        None \<Rightarrow> (st, None)
      | Some t \<Rightarrow>
          (let t1 = (if status t \<noteq> st_new then t\<lparr>status := st_new, revision := revision t + 1\<rparr> else t);
               t2 = (case reason of Some c \<Rightarrow> t1\<lparr>terminal_reason_code := Some c\<rparr> | None \<Rightarrow> t1)
           in if is_terminal (status t2)
              then
                (let t3 = t2\<lparr>ended_at := Some (instant_now clk), ended_at_unix := Some (unix_now clk)\<rparr>;
                     st1 = st\<lparr>transfers := AList.update i t3 (transfers st),
                              history_db := (if lock_ok then save_step (unix_now clk) (history_db st) t3
                                             else history_db st)\<rparr>;
                     st2 = fst (mark_incoming_request_notification_inactive clk i (terminal_reason_code t3) st1);
                     st3 = (if \<not> is_terminal (status t)
                            then st2\<lparr>metrics := record_transfer_terminal (direction t3) (status t3)
                                       (bytes_transferred t3) (metrics st2)\<rparr>
                            else st2)
                 in (flush_progress_persist_now (progress_snapshot t3) st3, Some (revision t3)))
              else (st\<lparr>transfers := AList.update i t2 (transfers st)\<rparr>, Some (revision t2))))"

section \<open>Idle shutdown\<close>

definition count_with :: "transfer_status \<Rightarrow> app_state \<Rightarrow> nat" where
  "count_with s st = length (filter (\<lambda>(i, t). status t = s) (transfers st))"

definition blocker :: "string \<Rightarrow> nat \<Rightarrow> string list" where
  "blocker label n = (if n > 0 then [label @ '':'' @ show_nat n] else [])"

definition headless_idle_blockers :: "u64 \<Rightarrow> app_state \<Rightarrow> app_state \<times> string list" where
  "headless_idle_blockers now_ms st =
     (let (toks, active) = active_local_ipc_access_grant_count now_ms (access_tokens st);
          st1 = st\<lparr>access_tokens := toks\<rparr>
      in (st1, blocker ''local_ipc_access_grants'' active @ blocker ''draft_transfers'' (count_with Draft st1)
            @ blocker ''pending_accept_transfers'' (count_with PendingAccept st1)
            @ blocker ''active_transfers'' (count_with Transferring st1)))"

text \<open>The task after \<open>update_transfer_status\<close>.\<close>

definition status_task :: "clock \<Rightarrow> transfer_status \<Rightarrow> string option \<Rightarrow> transfer_task \<Rightarrow> transfer_task" where
  "status_task clk st_new reason t =
     (let t1 = (if status t \<noteq> st_new then t\<lparr>status := st_new, revision := revision t + 1\<rparr> else t);
          t2 = (case reason of Some c \<Rightarrow> t1\<lparr>terminal_reason_code := Some c\<rparr> | None \<Rightarrow> t1)
      in if is_terminal (status t2)
         then t2\<lparr>ended_at := Some (instant_now clk), ended_at_unix := Some (unix_now clk)\<rparr> else t2)"

text \<open>Concrete inputs of the witnesses.\<close>

definition sample_clock :: clock where
  "sample_clock = \<lparr>unix_now = 100, unix_now_ms = 100000, instant_now = 7\<rparr>"

definition sample_config :: app_config where
  "sample_config = \<lparr>device_name = ''DashDrop Device'', auto_accept_trusted_only = False, download_dir = None,
     conflict_strategy = Rename, max_parallel_streams = 4, launch_at_login = False\<rparr>"

definition sample_app :: app_state where
  "sample_app = \<lparr>transfers = [], pending_accepts = [], trusted_peers = [], config = sample_config, notifications = [],
     slo_transfers = [], metrics = default_metrics, access_tokens = [], history_db = [], security_db = [], snapshot_db = [], trusted_db = [], config_db = None,
     discovery = empty_discovery, persist_log = [],
     ui_log = []\<rparr>"

section \<open>Facts\<close>

lemma map_of_transfers_set_task [simp]:
  "map_of (transfers (set_task t st)) i = (if i = task_id t then Some t else map_of (transfers st) i)"
  by (simp add: set_task_def update_conv')

lemma mark_inactive_keeps [simp]:
  "transfers (fst (mark_incoming_request_notification_inactive clk i r st)) = transfers st"
  "metrics (fst (mark_incoming_request_notification_inactive clk i r st)) = metrics st"
  "history_db (fst (mark_incoming_request_notification_inactive clk i r st)) = history_db st"
  "persist_log (fst (mark_incoming_request_notification_inactive clk i r st)) = persist_log st"
  by (simp_all add: mark_incoming_request_notification_inactive_def Let_def split: option.split)

lemma status_status_task [simp]: "status (status_task clk s r t) = s"
  by (simp add: status_task_def Let_def split: option.split)

lemma revision_status_task [simp]:
  "revision (status_task clk s r t) = (if status t = s then revision t else revision t + 1)"
  by (simp add: status_task_def Let_def split: option.split)

lemma task_id_status_task [simp]: "task_id (status_task clk s r t) = task_id t"
  by (simp add: status_task_def Let_def split: option.split)

lemma update_transfer_status_effect:
  fixes lock_ok :: bool and r :: "string option" and clk :: clock and s :: transfer_status
  assumes "map_of (transfers st) i = Some t"
  defines "st' \<equiv> fst (update_transfer_status clk lock_ok i s r st)" and "t' \<equiv> status_task clk s r t"
  shows "map_of (transfers st') = (map_of (transfers st))(i \<mapsto> t')"
    and "snd (update_transfer_status clk lock_ok i s r st) = Some (revision t')"
    and "metrics st' = (if is_terminal s \<and> \<not> is_terminal (status t)
           then record_transfer_terminal (direction t') s (bytes_transferred t') (metrics st) else metrics st)"
    and "history_db st' = (if is_terminal s \<and> lock_ok then save_step (unix_now clk) (history_db st) t'
           else history_db st)"
    and "persist_log st' = (if is_terminal s then persist_log st @ [flush_now t'] else persist_log st)"
proof -
  let ?t1 = "if status t \<noteq> s then t\<lparr>status := s, revision := revision t + 1\<rparr> else t"
  let ?t2 = "case r of Some c \<Rightarrow> ?t1\<lparr>terminal_reason_code := Some c\<rparr> | None \<Rightarrow> ?t1"
  have s2: "status ?t2 = s" by (simp split: option.split)
  show "map_of (transfers st') = (map_of (transfers st))(i \<mapsto> t')"
    and "snd (update_transfer_status clk lock_ok i s r st) = Some (revision t')"
    and "metrics st' = (if is_terminal s \<and> \<not> is_terminal (status t)
           then record_transfer_terminal (direction t') s (bytes_transferred t') (metrics st) else metrics st)"
    and "history_db st' = (if is_terminal s \<and> lock_ok then save_step (unix_now clk) (history_db st) t'
           else history_db st)"
    and "persist_log st' = (if is_terminal s then persist_log st @ [flush_now t'] else persist_log st)"
    unfolding st'_def t'_def update_transfer_status_def status_task_def assms(1) option.case Let_def
    by (simp_all add: s2 update_conv' flush_progress_persist_now_def flush_now_def progress_snapshot_def)
qed

lemma record_terminal_total:
  "is_terminal s \<Longrightarrow> terminal_total m < U64_MAX \<Longrightarrow>
   terminal_total (record_transfer_terminal d s n m) = terminal_total m + 1"
  using record_status_count_total [of m s]
  by (cases d) (simp_all add: record_transfer_terminal_def Let_def terminal_total_def)

section \<open>Properties\<close>

text \<open>
  A terminal status is recorded once and durably.  Setting a terminal status on a registered
  transfer counts it in the metrics exactly when the transfer was not terminal before, raises the
  revision exactly when the status changes, leaves a history row that covers the task, and hands the
  same task to the persistence worker; setting it again counts nothing.
\<close>

theorem terminal_status_recorded_once:
  assumes "map_of (transfers st) i = Some t" and "task_id t = i" and "is_terminal s"
    and "row_fits (row_of_task (unix_now clk) (status_task clk s r t))"
    and "terminal_total (metrics st) < U64_MAX"
    and "st' = fst (update_transfer_status clk True i s r st)"
  shows "terminal_total (metrics st') = terminal_total (metrics st) + (if is_terminal (status t) then 0 else 1)
    \<and> (\<exists>t'. map_of (transfers st') i = Some t' \<and> status t' = s \<and>
         revision t' = revision t + (if status t = s then 0 else 1) \<and>
         persist_log st' = persist_log st @ [flush_now t'] \<and>
         (\<exists>row. find_row (history_db st') i = Some row \<and> row_covers row t'))
    \<and> metrics (fst (update_transfer_status clk True i s r st')) = metrics st'"
proof -
  let ?t = "status_task clk s r t"
  note eff = update_transfer_status_effect [OF assms(1), where lock_ok = True and clk = clk and s = s and r = r,
      folded assms(6)]
  have lk: "map_of (transfers st') i = Some ?t" using eff(1) by simp
  have row: "\<exists>row. find_row (history_db st') i = Some row \<and> row_covers row ?t"
    using history.save_covers [OF assms(4), of "history_db st"] eff(4) assms(2,3) by simp
  have "terminal_total (metrics st') = terminal_total (metrics st) + (if is_terminal (status t) then 0 else 1)"
    using eff(3) assms(3,5) by (simp add: record_terminal_total)
  moreover have "metrics (fst (update_transfer_status clk True i s r st')) = metrics st'"
    using update_transfer_status_effect(3) [OF lk, where lock_ok = True and clk = clk and s = s and r = r]
      assms(3) by simp
  ultimately show ?thesis using lk row eff(5) assms(3) by simp
qed

theorem terminal_status_recorded_once_witness:
  "terminal_total (metrics (fst (update_transfer_status sample_clock True ''t1'' Completed None
     (sample_app\<lparr>transfers := [(''t1'', sample_task)]\<rparr>)))) = 1"
proof -
  let ?st = "sample_app\<lparr>transfers := [(''t1'', sample_task)]\<rparr>"
  have "terminal_total (metrics (fst (update_transfer_status sample_clock True ''t1'' Completed None ?st))) =
      terminal_total (metrics ?st) + (if is_terminal (status sample_task) then 0 else 1)"
    by (rule terminal_status_recorded_once [THEN conjunct1, of ?st "''t1''" sample_task Completed sample_clock None,
          OF _ _ _ _ _ refl])
       (simp_all add: sample_task_def sample_app_def row_fits_def row_of_task_def status_task_def Let_def
         sample_clock_def I64_MAX_def U64_MAX_def terminal_total_def default_metrics_def)
  then show ?thesis by (simp add: sample_app_def sample_task_def terminal_total_def default_metrics_def)
qed

text \<open>
  The daemon does not go idle under work: it reports no blocker exactly when no access token is live
  and no transfer is a draft, waiting for acceptance or running.
\<close>

theorem idle_iff_no_work:
  "snd (headless_idle_blockers now st) = [] \<longleftrightarrow>
     list_all (\<lambda>(k, r). expires_at_unix_ms r \<le> now) (access_tokens st) \<and>
     list_all (\<lambda>(i, t). is_terminal (status t)) (transfers st)"
proof -
  have "is_terminal s \<longleftrightarrow> s \<noteq> Draft \<and> s \<noteq> PendingAccept \<and> s \<noteq> Transferring" for s
    by (cases s) simp_all
  moreover have "blocker l n = [] \<longleftrightarrow> n = 0" for l n by (simp add: blocker_def)
  ultimately show ?thesis
    by (simp add: headless_idle_blockers_def active_local_ipc_access_grant_count_def retain_live_def
        count_with_def Let_def filter_empty_conv list_all_iff case_prod_beta not_less) blast
qed

end
