(* ===== verification/Paths.thy ===== *)
theory Paths
  imports Prelude
begin

text \<open>
  The part of \<^verbatim>\<open>std::path\<close> (Unix flavour) that the transport layer uses: parsing a path string
  into components, joining, the parent, the file name with its stem and extension, and replacing
  the file name.  A \<^verbatim>\<open>PathBuf\<close> that was built component by component is kept as the list of its
  components.
\<close>

section \<open>Components\<close>

datatype component = RootDir | CurDir | ParentDir | Normal string

type_synonym path = "component list"

abbreviation slash :: char where "slash \<equiv> CHR ''/''"
abbreviation backslash :: char where "backslash \<equiv> CHR 0x5C"

definition seg_component :: "string \<Rightarrow> component option" where
  "seg_component s =
     (if s = '''' \<or> s = ''.'' then None
      else if s = ''..'' then Some ParentDir
      else Some (Normal s))"

definition components :: "string \<Rightarrow> path" where
  "components s =
     (if starts_with s [slash] then RootDir # List.map_filter seg_component (split_on slash s)
      else (if hd (split_on slash s) = ''.'' then [CurDir] else []) @
           List.map_filter seg_component (split_on slash s))"

definition path_join :: "string \<Rightarrow> string \<Rightarrow> string" where
  "path_join a b =
     (if starts_with b [slash] then b
      else if a = [] then b
      else if ends_with a [slash] then a @ b
      else a @ slash # b)"

section \<open>Operations on component lists\<close>

definition path_parent :: "path \<Rightarrow> path option" where
  "path_parent p = (if p = [] \<or> last p = RootDir then None else Some (butlast p))"

definition path_pop :: "path \<Rightarrow> path" where
  "path_pop p = (case path_parent p of None \<Rightarrow> p | Some q \<Rightarrow> q)"

definition file_name :: "path \<Rightarrow> string option" where
  "file_name p = (if p = [] then None else case last p of Normal n \<Rightarrow> Some n | _ \<Rightarrow> None)"

definition with_file_name :: "path \<Rightarrow> string \<Rightarrow> path" where
  "with_file_name p n =
     (case file_name p of Some _ \<Rightarrow> path_pop p @ [Normal n] | None \<Rightarrow> p @ [Normal n])"

text \<open>
  \<^verbatim>\<open>rsplit_file_at_dot\<close>: the name is split at its last dot; a name that is \<open>..\<close>, has no dot, or
  has its only dot in front has no extension.
\<close>

definition rsplit_at_dot :: "string \<Rightarrow> string \<times> string option" where
  "rsplit_at_dot n =
     (let r = rev n; e = takeWhile (\<lambda>c. c \<noteq> CHR ''.'') r; b = drop (length e) r in
      if n = ''..'' then (n, None)
      else case b of
        [] \<Rightarrow> (n, None)
      | _ # stem_rev \<Rightarrow> (if stem_rev = [] then (n, None) else (rev stem_rev, Some (rev e))))"

definition file_stem :: "path \<Rightarrow> string option" where
  "file_stem p = map_option (\<lambda>n. fst (rsplit_at_dot n)) (file_name p)"

definition path_extension :: "path \<Rightarrow> string option" where
  "path_extension p = Option.bind (file_name p) (\<lambda>n. snd (rsplit_at_dot n))"

section \<open>Facts\<close>

lemma map_filter_append: "List.map_filter f (xs @ ys) = List.map_filter f xs @ List.map_filter f ys"
  by (simp add: List.map_filter_def)

lemma seg_component_simps [simp]:
  "seg_component '''' = None" "seg_component ''.'' = None"
  by (simp_all add: seg_component_def)

lemma split_on_path_join:
  assumes "a \<noteq> []" and "\<not> starts_with b [slash]"
  obtains a' where "path_join a b = a' @ slash # b" and "split_on slash a = split_on slash a'"
    | a' where "path_join a b = a' @ slash # b" and "split_on slash a = split_on slash a' @ [[]]"
proof (cases "ends_with a [slash]")
  case True
  then obtain a' where a': "a = a' @ [slash]"
    by (metis ends_with_suffix suffixE)
  have "path_join a b = a' @ slash # b"
    using assms True a' by (simp add: path_join_def)
  moreover have "split_on slash a = split_on slash a' @ [[]]"
    using a' split_on_append_sep [of slash a' "[]"] by simp
  ultimately show ?thesis using that(2) by blast
next
  case False
  then show ?thesis using assms that(1) [of a] by (simp add: path_join_def)
qed

lemma split_join_nonempty:
  assumes "a \<noteq> []" and "\<not> starts_with b [slash]"
  shows "List.map_filter seg_component (split_on slash (path_join a b)) =
           List.map_filter seg_component (split_on slash a) @
           List.map_filter seg_component (split_on slash b)"
    and "hd (split_on slash (path_join a b)) = hd (split_on slash a)"
  by (rule split_on_path_join [OF assms];
      simp add: split_on_append_sep map_filter_append List.map_filter_def)+

lemma starts_with_join:
  assumes "a \<noteq> []" and "\<not> starts_with b [slash]"
  shows "starts_with (path_join a b) [slash] = starts_with a [slash]"
  using assms by (cases a) (auto simp: path_join_def starts_with_def)

lemma components_join_nonempty:
  assumes "a \<noteq> []" and "\<not> starts_with b [slash]"
  shows "components (path_join a b) =
           components a @ List.map_filter seg_component (split_on slash b)"
  using split_join_nonempty [OF assms] starts_with_join [OF assms] by (simp add: components_def)

lemma file_name_snoc [simp]: "file_name (p @ [Normal n]) = Some n"
  by (simp add: file_name_def)

lemma file_name_SomeD: "file_name p = Some n \<Longrightarrow> p = butlast p @ [Normal n]"
  by (auto simp: file_name_def split: if_splits component.splits)
     (metis append_butlast_last_id)

lemma path_parent_snoc [simp]: "path_parent (p @ [Normal n]) = Some p"
  by (simp add: path_parent_def)

lemma with_file_name_snoc [simp]: "with_file_name (p @ [Normal m]) n = p @ [Normal n]"
  by (simp add: with_file_name_def path_pop_def)

end
