(* ===== verification/Sender.thy ===== *)
theory Sender
  imports AppState Paths
begin

text \<open>
  \<^verbatim>\<open>transport/sender.rs\<close>: collecting the items of an offer from the chosen paths, the snapshots a
  resumed transfer is checked against, sending one file or directory, dispatching acknowledgements and
  the whole of \<open>send_files\<close>.  Parameters stand for what lies outside the repository: \<open>h\<close> is BLAKE3 (a
  hasher is the list of bytes fed to it), a source file says for every position how many bytes a read
  returns there and whether it fails, and a \<open>link\<close> says which operations on a QUIC stream fail.  Source
  paths are given by their components.  The tasks of one transfer are run in the order of the items.
\<close>

section \<open>Source files\<close>

record src_file =
  src_mtime_ms :: "u64 option"
  src_mode :: nat
  src_openable :: bool
  src_content :: bytes
  src_piece :: "nat \<Rightarrow> nat"
  src_read_err :: "nat \<Rightarrow> bool"

datatype src_node =
    SrcFile src_file
  | SrcDir "u64 option" bool "(string \<times> src_node) list"
  | SrcOther
  | SrcMissing

datatype send_error =
    StatPath | ReadDir | OpenSource | ReadSource | OpenUniStream | WriteFailed | FinishStream
  | NoSendableFiles | HelloFailed string | OfferWriteFailed | UnexpectedReply | ReplyReadFailed
  | DifferentVersion

definition SOURCE_SNAPSHOT_HEAD_BYTES :: nat where
  "SOURCE_SNAPSHOT_HEAD_BYTES = 1024 * 1024"

definition SHEBANG_PROBE_BYTES :: nat where
  "SHEBANG_PROBE_BYTES = 256"

definition SEND_HIGH_RISK_SUFFIXES :: "string list" where
  "SEND_HIGH_RISK_SUFFIXES = [''.app'', ''.bat'', ''.bash'', ''.cmd'', ''.deb'', ''.exe'', ''.msi'', ''.pkg'',
     ''.ps1'', ''.rpm'', ''.sh'', ''.zsh'']"

text \<open>One \<^verbatim>\<open>read\<close> into a buffer: at least one byte unless the end of the file is reached.\<close>

definition read_some :: "src_file \<Rightarrow> nat \<Rightarrow> nat \<Rightarrow> bytes" where
  "read_some f cap off = take (min cap (max 1 (src_piece f off))) (drop off (src_content f))"

text \<open>
  Reading up to \<open>left\<close> bytes with a buffer of \<open>cap\<close> bytes: the bytes read, the position and the number
  of reads.
\<close>

function read_upto :: "src_file \<Rightarrow> nat \<Rightarrow> nat \<Rightarrow> nat \<Rightarrow> bytes \<Rightarrow> nat \<Rightarrow> send_error + (bytes \<times> nat \<times> nat)" where
  "read_upto f cap left off acc cnt =
     (if left = 0 then Ok (acc, off, cnt)
      else if src_read_err f off then Err ReadSource
      else
        (let got = read_some f (min left cap) off in
         if got = [] then Ok (acc, off, cnt)
         else read_upto f cap (left - length got) (off + length got) (acc @ got) (cnt + 1)))"
  by pat_completeness auto
termination
  by (relation "measure (\<lambda>(f, cap, left, off, acc, cnt). left)") (auto simp: read_some_def)

declare read_upto.simps [simp del]

section \<open>Risk classes\<close>

definition infer_risk_class_from_name :: "string \<Rightarrow> file_type \<Rightarrow> risk_class" where
  "infer_risk_class_from_name nm ty =
     (let lowered = to_ascii_lowercase nm in
      if list_ex (\<lambda>suffix. ends_with lowered suffix) SEND_HIGH_RISK_SUFFIXES then High else NormalRisk)"

text \<open>The mode has one of the bits \<^verbatim>\<open>0o111\<close>.\<close>

definition has_executable_bit :: "nat \<Rightarrow> bool" where
  "has_executable_bit mode = (odd mode \<or> odd (mode div 8) \<or> odd (mode div 64))"

definition has_shebang :: "src_file \<Rightarrow> send_error + bool" where
  "has_shebang f =
     (if \<not> src_openable f then Err OpenSource
      else if src_read_err f 0 then Err ReadSource
      else
        (let got = read_some f SHEBANG_PROBE_BYTES 0
         in Ok (length got \<ge> 2 \<and> take 2 got = [0x23, 0x21])))"

definition detect_risk_class :: "path \<Rightarrow> src_file \<Rightarrow> send_error + risk_class" where
  "detect_risk_class p f =
     (let inferred = infer_risk_class_from_name (case file_name p of Some n \<Rightarrow> n | None \<Rightarrow> []) RegularFile in
      if inferred = High then Ok High
      else if has_executable_bit (src_mode f) then Ok High
      else case has_shebang f of
        Inl e \<Rightarrow> Err e
      | Inr b \<Rightarrow> Ok (if b then High else NormalRisk))"

section \<open>Collecting the items\<close>

definition build_source_snapshot :: "(bytes \<Rightarrow> hash) \<Rightarrow> src_file \<Rightarrow> send_error + source_snapshot" where
  "build_source_snapshot h f =
     (if \<not> src_openable f then Err OpenSource
      else
        (let n = length (src_content f) in
         case read_upto f (64 * 1024) (min SOURCE_SNAPSHOT_HEAD_BYTES n) 0 [] 0 of
           Inl e \<Rightarrow> Err e
         | Inr (hd_bytes, _, _) \<Rightarrow>
             Ok \<lparr>snap_size = n, mtime_unix_ms = (case src_mtime_ms f of Some t \<Rightarrow> t | None \<Rightarrow> 0),
                 head_hash = h hd_bytes\<rparr>))"

fun component_string :: "component \<Rightarrow> string" where
  "component_string RootDir = []"
| "component_string CurDir = ''.''"
| "component_string ParentDir = ''..''"
| "component_string (Normal n) = n"

definition path_string :: "path \<Rightarrow> string" where
  "path_string p =
     (case p of
        RootDir # q \<Rightarrow> slash # join_with [slash] (map component_string q)
      | _ \<Rightarrow> join_with [slash] (map component_string p))"

definition strip_prefix :: "path \<Rightarrow> path \<Rightarrow> path" where
  "strip_prefix d p = (if prefix d p then drop (length d) p else p)"

definition item_rel_path :: "path \<Rightarrow> path \<Rightarrow> string" where
  "item_rel_path base p =
     (let stripped = (case path_parent base of Some d \<Rightarrow> strip_prefix d p | None \<Rightarrow> strip_prefix base p);
          rel = dropWhile (\<lambda>c. c = slash) (replace_char backslash slash (path_string stripped))
      in if rel = [] then (case file_name p of Some n \<Rightarrow> n | None \<Rightarrow> []) else rel)"

definition item_name :: "path \<Rightarrow> path \<Rightarrow> string" where
  "item_name base p = (case file_name p of Some n \<Rightarrow> n | None \<Rightarrow> item_rel_path base p)"

definition mtime_secs :: "u64 option \<Rightarrow> u64" where
  "mtime_secs t = (case t of Some ms \<Rightarrow> ms div 1000 | None \<Rightarrow> 0)"

fun collect_items ::
      "(bytes \<Rightarrow> hash) \<Rightarrow> path \<Rightarrow> path \<Rightarrow> src_node \<Rightarrow> nat \<Rightarrow> send_error + ((file_item \<times> path) list \<times> nat)"
and collect_entries ::
      "(bytes \<Rightarrow> hash) \<Rightarrow> path \<Rightarrow> path \<Rightarrow> (string \<times> src_node) list \<Rightarrow> nat \<Rightarrow> send_error + ((file_item \<times> path) list \<times> nat)"
where
  "collect_items h base p SrcMissing next_id = Err StatPath"
| "collect_items h base p SrcOther next_id = Ok ([], next_id)"
| "collect_items h base p (SrcDir mtime readable entries) next_id =
     (let nm = item_name base p;
          it = \<lparr>file_id = next_id, name = nm, rel_path = item_rel_path base p, size_bytes = 0,
                file_type = Directory, modified = mtime_secs mtime,
                risk_class = Some (infer_risk_class_from_name nm Directory), source_snapshot = None\<rparr>
      in if \<not> readable then Err ReadDir
         else case collect_entries h base p entries (next_id + 1) of
           Inl e \<Rightarrow> Err e
         | Inr (its, n) \<Rightarrow> Ok ((it, p) # its, n))"
| "collect_items h base p (SrcFile f) next_id =
     (case build_source_snapshot h f of
        Inl e \<Rightarrow> Err e
      | Inr snap \<Rightarrow>
          (case detect_risk_class p f of
             Inl e \<Rightarrow> Err e
           | Inr rc \<Rightarrow>
               Ok ([(\<lparr>file_id = next_id, name = item_name base p, rel_path = item_rel_path base p,
                      size_bytes = length (src_content f), file_type = RegularFile,
                      modified = mtime_secs (src_mtime_ms f), risk_class = Some rc,
                      source_snapshot = Some snap\<rparr>, p)], next_id + 1)))"
| "collect_entries h base p [] next_id = Ok ([], next_id)"
| "collect_entries h base p ((nm, c) # entries) next_id =
     (case collect_items h base (p @ [Normal nm]) c next_id of
        Inl e \<Rightarrow> Err e
      | Inr (its, n) \<Rightarrow>
          (case collect_entries h base p entries n of
             Inl e \<Rightarrow> Err e
           | Inr (its', n') \<Rightarrow> Ok (its @ its', n')))"

fun build_file_items :: "(bytes \<Rightarrow> hash) \<Rightarrow> (path \<times> src_node) list \<Rightarrow> nat \<Rightarrow> send_error + (file_item \<times> path) list" where
  "build_file_items h [] next_id = Ok []"
| "build_file_items h ((p, c) # paths) next_id =
     (case collect_items h p p c next_id of
        Inl e \<Rightarrow> Err e
      | Inr (its, n) \<Rightarrow>
          (case build_file_items h paths n of Inl e \<Rightarrow> Err e | Inr its' \<Rightarrow> Ok (its @ its')))"

section \<open>Resuming\<close>

datatype resume_source_policy = ReuseExistingProgress | RestartFull string

definition changed_fields :: "source_snapshot \<Rightarrow> source_snapshot \<Rightarrow> string list" where
  "changed_fields prev now =
     (if snap_size prev \<noteq> snap_size now then [''size''] else []) @
     (if mtime_unix_ms prev \<noteq> mtime_unix_ms now then [''mtime''] else []) @
     (if head_hash prev \<noteq> head_hash now then [''head_hash''] else [])"

definition current_snapshots :: "file_item list \<Rightarrow> (nat \<times> string \<times> source_snapshot) list" where
  "current_snapshots its =
     List.map_filter (\<lambda>it. map_option (\<lambda>s. (file_id it, rel_path it, s)) (source_snapshot it)) its"

definition snapshot_change :: "(nat \<times> string \<times> source_snapshot) list \<Rightarrow> snapshot_map \<Rightarrow> nat \<Rightarrow> string list" where
  "snapshot_change current prev fid =
     (case (map_of prev fid, map_of current fid) of
        (Some s, Some (rel, s')) \<Rightarrow>
          (let fields = changed_fields s s' in
           if fields \<noteq> []
           then [rel @ ''(file_id='' @ show_nat fid @ ''):'' @ join_with '','' fields] else [])
      | (Some s, None) \<Rightarrow> [''file_id='' @ show_nat fid @ '':missing'']
      | (None, Some (rel, s')) \<Rightarrow> [rel @ ''(file_id='' @ show_nat fid @ ''):added'']
      | (None, None) \<Rightarrow> [])"

definition validate_resume_source_snapshots :: "snapshot_map option \<Rightarrow> file_item list \<Rightarrow> resume_source_policy" where
  "validate_resume_source_snapshots previous its =
     (case previous of
        None \<Rightarrow> ReuseExistingProgress
      | Some prev \<Rightarrow>
          (let current = current_snapshots its;
               previous_ids = sort (remdups (map fst prev));
               current_only_ids = sort (filter (\<lambda>i. i \<notin> set (map fst prev)) (remdups (map fst current)));
               chg = concat (map (snapshot_change current prev) previous_ids) @
                     concat (map (snapshot_change current prev) current_only_ids)
           in if chg = [] then ReuseExistingProgress
              else RestartFull (''source snapshot mismatch: '' @ join_with ''; '' chg)))"

section \<open>Sending one item\<close>

record link =
  open_uni_ok :: bool
  write_ok_at :: "nat \<Rightarrow> bool"
  finish_ok :: bool

datatype ack_reply = AckReply bool "error_code option" | AckClosed | AckTimeout

type_synonym ack_result = "nat \<times> bool \<times> error_code option"

definition await_ack :: "nat \<Rightarrow> ack_reply \<Rightarrow> ack_result" where
  "await_ack fid r =
     (case r of
        AckReply ok reason \<Rightarrow> (fid, ok, reason)
      | AckClosed \<Rightarrow> (fid, False, Some (ProtocolError ''ack channel closed''))
      | AckTimeout \<Rightarrow> (fid, False, Some (ProtocolError ''ack timeout'')))"

text \<open>The progress of a skipped prefix; unlike for a chunk, an event is emitted in any case.\<close>

definition skip_progress :: "string \<Rightarrow> nat \<Rightarrow> app_state \<Rightarrow> app_state" where
  "skip_progress tid n st =
     (if map_of (transfers st) tid = None then emit (EvProgress tid 0 0 0) st else add_progress tid n st)"

function send_chunks ::
    "src_file \<Rightarrow> link \<Rightarrow> string \<Rightarrow> nat \<Rightarrow> nat \<Rightarrow> nat \<Rightarrow> bytes \<Rightarrow> dash_message list \<Rightarrow> app_state \<Rightarrow>
     app_state \<times> dash_message list \<times> (send_error + bytes)" where
  "send_chunks f lk tid fid off cid hashed out st =
     (if src_read_err f off then (st, out, Err ReadSource)
      else
        (let got = read_some f CHUNK_SIZE off in
         if got = [] then (st, out, Ok hashed)
         else if \<not> write_ok_at lk (length out) then (st, out, Err WriteFailed)
         else send_chunks f lk tid fid (off + length got) (cid + 1) (hashed @ got)
                (out @ [Chunk \<lparr>chunk_file_id = fid, chunk_id = cid, offset = off, data = got\<rparr>])
                (add_progress tid (length got) st)))"
  by pat_completeness auto
termination
  by (relation "measure (\<lambda>(f, lk, tid, fid, off, cid, hashed, out, st). length (src_content f) - off)")
     (auto simp: read_some_def)

declare send_chunks.simps [simp del]

definition send_one_file ::
    "(bytes \<Rightarrow> hash) \<Rightarrow> src_file \<Rightarrow> link \<Rightarrow> string \<Rightarrow> file_item \<Rightarrow> nat \<Rightarrow> ack_reply \<Rightarrow> app_state \<Rightarrow>
     app_state \<times> dash_message list \<times> (send_error + ack_result)" where
  "send_one_file h f lk tid it resume_from ack st =
     (let fid = file_id it in
      if \<not> open_uni_ok lk then (st, [], Err OpenUniStream)
      else if \<not> src_openable f then (st, [], Err OpenSource)
      else case (if resume_from > 0 then read_upto f CHUNK_SIZE resume_from 0 [] 0 else Ok ([], 0, 0)) of
        Inl e \<Rightarrow> (st, [], Err e)
      | Inr (skipped, off, cid) \<Rightarrow>
          (case send_chunks f lk tid fid off cid skipped []
                  (if resume_from > 0 then skip_progress tid off st else st) of
             (st1, out, Inl e) \<Rightarrow> (st1, out, Err e)
           | (st1, out, Inr hashed) \<Rightarrow>
               (if \<not> write_ok_at lk (length out) then (st1, out, Err WriteFailed)
                else
                  (let out1 = out @ [Complete \<lparr>complete_file_id = fid, file_hash = h hashed\<rparr>] in
                   if \<not> finish_ok lk then (st1, out1, Err FinishStream)
                   else (st1, out1, Ok (await_ack fid ack))))))"

definition send_one_directory ::
    "(bytes \<Rightarrow> hash) \<Rightarrow> link \<Rightarrow> file_item \<Rightarrow> ack_reply \<Rightarrow> dash_message list \<times> (send_error + ack_result)" where
  "send_one_directory h lk it ack =
     (let fid = file_id it in
      if \<not> open_uni_ok lk then ([], Err OpenUniStream)
      else if \<not> write_ok_at lk 0 then ([], Err WriteFailed)
      else
        (let out = [Complete \<lparr>complete_file_id = fid, file_hash = h []\<rparr>] in
         if \<not> finish_ok lk then (out, Err FinishStream) else (out, Ok (await_ack fid ack))))"

section \<open>Acknowledgements and the outcome\<close>

datatype inbound = InMessage dash_message | InReadError string | InAcceptError string

record ack_board =
  answered :: "(nat \<times> ack_reply) list"
  cancelled_by_peer :: bool
  dispatch_error :: "error_code option"

definition drain :: "nat list \<Rightarrow> error_code \<Rightarrow> ack_board \<Rightarrow> ack_board" where
  "drain waiting reason b =
     b\<lparr>answered := map (\<lambda>i. (i, AckReply False (Some reason))) waiting @ answered b\<rparr>"

text \<open>
  The dispatcher of incoming streams: the waiting file ids, the board so far and the streams still to
  come.  It stops at the first cancellation or error, answering everybody who still waits.
\<close>

fun ack_dispatch :: "nat list \<Rightarrow> ack_board \<Rightarrow> inbound list \<Rightarrow> ack_board" where
  "ack_dispatch waiting b [] = b"
| "ack_dispatch waiting b (InAcceptError e # ins) =
     (let reason = ProtocolError (''ack dispatcher accept failed: '' @ e)
      in drain waiting reason (b\<lparr>dispatch_error := Some reason\<rparr>))"
| "ack_dispatch waiting b (InReadError e # ins) =
     (let reason = ProtocolError (''ack dispatcher read failed: '' @ e)
      in drain waiting reason (b\<lparr>dispatch_error := Some reason\<rparr>))"
| "ack_dispatch waiting b (InMessage (Ack a) # ins) =
     (if ack_file_id a \<in> set waiting
      then ack_dispatch (removeAll (ack_file_id a) waiting)
             (b\<lparr>answered := (ack_file_id a, AckReply (ack_ok a) (ack_reason a)) # answered b\<rparr>) ins
      else ack_dispatch waiting b ins)"
| "ack_dispatch waiting b (InMessage (Cancel UserCancelled) # ins) =
     drain waiting Cancelled (b\<lparr>cancelled_by_peer := True\<rparr>)"
| "ack_dispatch waiting b (InMessage (Cancel (CancelError e)) # ins) =
     drain waiting e (b\<lparr>cancelled_by_peer := True, dispatch_error := Some e\<rparr>)"
| "ack_dispatch waiting b (InMessage _ # ins) = ack_dispatch waiting b ins"

definition ack_failures :: "file_item list \<Rightarrow> ack_result list \<Rightarrow> failed_file list" where
  "ack_failures its rs =
     map (\<lambda>(i, ok, reason).
        \<lparr>failed_file_id = i,
         failed_name = (case find (\<lambda>it. file_id it = i) its of Some it \<Rightarrow> name it | None \<Rightarrow> []),
         failed_reason = (case reason of Some e \<Rightarrow> e | None \<Rightarrow> ProtocolError ''unknown'')\<rparr>)
       (filter (\<lambda>(i, ok, reason). \<not> ok) rs)"

definition determine_outcome ::
    "bool \<Rightarrow> ack_result list \<Rightarrow> file_item list \<Rightarrow> error_code option \<Rightarrow> transfer_outcome" where
  "determine_outcome cancelled rs its err =
     (case err of
        Some e \<Rightarrow> OutcomeFailed e
      | None \<Rightarrow>
          (let bad = ack_failures its rs in
           if cancelled then OutcomeCancelledByReceiver
           else if bad = [] then Success
           else if list_ex (\<lambda>(i, ok, reason). ok) rs then PartialSuccess bad
           else OutcomeFailed (ProtocolError ''all files failed'')))"


section \<open>Sending a transfer\<close>

datatype offer_reply = ReplyMessage dash_message | ReplyReadError | ReplyTimeout

record send_env =
  se_clock :: clock
  se_lock_ok :: bool
  se_peer_name :: "string option"
  se_fingerprint :: string
  se_conn :: nat
  se_hello :: "string + nat"
  se_offer_ok :: bool
  se_reply :: offer_reply
  se_source :: "path \<Rightarrow> src_file"
  se_link :: "nat \<Rightarrow> link"
  se_inbound :: "inbound list"

record send_result =
  sr_app :: app_state
  sr_offer :: "offer_payload option"
  sr_streams :: "(nat \<times> dash_message list) list"
  sr_outcome :: "send_error + transfer_outcome"

definition snapshots_of :: "file_item list \<Rightarrow> snapshot_map" where
  "snapshots_of its = List.map_filter (\<lambda>it. map_option (\<lambda>s. (file_id it, s)) (source_snapshot it)) its"

definition resume_policy :: "send_env \<Rightarrow> string \<Rightarrow> file_item list \<Rightarrow> app_state \<Rightarrow> resume_source_policy" where
  "resume_policy env tid its st =
     validate_resume_source_snapshots
       (if se_lock_ok env then load_transfer_source_snapshots tid (snapshot_db st) else None) its"

definition register_send ::
    "send_env \<Rightarrow> string \<Rightarrow> string \<Rightarrow> path list \<Rightarrow> (file_item \<times> path) list \<Rightarrow> app_state \<Rightarrow> app_state" where
  "register_send env tid fp paths pairs st =
     set_task
       \<lparr>task_id = tid, batch_id = None, direction = Send, peer_fingerprint = fp,
        peer_name = (case se_peer_name env of Some n \<Rightarrow> n | None \<Rightarrow> ''Unknown''),
        task_items = map (item_meta \<circ> fst) pairs, status = PendingAccept, bytes_transferred = 0,
        total_bytes = sum_list (map (size_bytes \<circ> fst) pairs), revision = 0,
        started_at_unix = unix_now (se_clock env), ended_at_unix = None, terminal_reason_code = None,
        task_error = None, source_paths = Some (map path_string paths),
        source_path_by_file_id = Some (map_of (map (\<lambda>(it, p). (file_id it, path_string p)) pairs)),
        failed_file_ids = None, conn = Some (se_conn env), ended_at = None\<rparr> st"

definition note_sources :: "send_env \<Rightarrow> string \<Rightarrow> string \<Rightarrow> file_item list \<Rightarrow> resume_source_policy \<Rightarrow> app_state \<Rightarrow> app_state" where
  "note_sources env tid fp its policy st =
     (if \<not> se_lock_ok env then st
      else
        (let st1 = (case policy of
               RestartFull reason \<Rightarrow>
                 st\<lparr>security_db := log_security_event (unix_now (se_clock env)) ''resume_source_changed''
                      ''send_prepare'' (Some fp) reason (security_db st)\<rparr>
             | ReuseExistingProgress \<Rightarrow> st)
         in st1\<lparr>snapshot_db := save_transfer_source_snapshots tid (snapshots_of its) (snapshot_db st1)\<rparr>))"

text \<open>Ending a registered task: the task, the history row and the counters.\<close>

definition all_file_ids :: "transfer_task \<Rightarrow> nat list" where
  "all_file_ids t = map meta_file_id (task_items t)"

definition close_task :: "send_env \<Rightarrow> string \<Rightarrow> (transfer_task \<Rightarrow> transfer_task) \<Rightarrow> (transfer_task \<Rightarrow> ui_event list) \<Rightarrow>
    app_state \<Rightarrow> app_state" where
  "close_task env tid upd evs st =
     (case map_of (transfers st) tid of
        None \<Rightarrow> st
      | Some t \<Rightarrow>
          (let t1 = (upd t)\<lparr>revision := revision t + 1, ended_at := Some (instant_now (se_clock env)),
                            ended_at_unix := Some (unix_now (se_clock env))\<rparr>;
               st1 = st\<lparr>transfers := AList.update tid t1 (transfers st),
                        history_db := (if se_lock_ok env then save_step (unix_now (se_clock env)) (history_db st) t1
                                       else history_db st)\<rparr>;
               st2 = fold emit (evs t1) st1
           in st2\<lparr>metrics := record_transfer_terminal (direction t1) (status t1) (bytes_transferred t1) (metrics st2)\<rparr>))"

definition use_peer :: "send_env \<Rightarrow> string \<Rightarrow> app_state \<Rightarrow> app_state" where
  "use_peer env fp st = st\<lparr>trusted_peers := mark_peer_used (unix_now (se_clock env)) fp (trusted_peers st)\<rparr>"

definition offer_rejected :: "send_env \<Rightarrow> string \<Rightarrow> string \<Rightarrow> error_code \<Rightarrow> app_state \<Rightarrow> app_state" where
  "offer_rejected env tid fp reason st =
     use_peer env fp
       (close_task env tid
          (\<lambda>t. t\<lparr>status := StRejected, terminal_reason_code := Some (reason_code reason),
                 failed_file_ids := Some (all_file_ids t)\<rparr>)
          (\<lambda>t. [EvTerminal tid (status t) (reason_code reason) ''RejectedByReceiver'' (revision t) ''offer'']) st)"

definition offer_timed_out :: "send_env \<Rightarrow> string \<Rightarrow> app_state \<Rightarrow> app_state" where
  "offer_timed_out env tid st =
     close_task env tid
       (\<lambda>t. t\<lparr>status := StFailed, terminal_reason_code := Some (reason_code Timeout),
              failed_file_ids := Some (all_file_ids t), task_error := Some ''Offer response timeout''\<rparr>)
       (\<lambda>t. [EvTerminal tid (status t) (reason_code Timeout) ''Timeout'' (revision t) ''offer'',
             EvError tid (reason_code Timeout) ''Timeout'' ''offer'' (revision t) []]) st"

definition start_transferring :: "send_env \<Rightarrow> string \<Rightarrow> string \<Rightarrow> app_state \<Rightarrow> app_state" where
  "start_transferring env tid fp st =
     use_peer env fp
       (case map_of (transfers st) tid of
          Some t \<Rightarrow>
            (let t1 = t\<lparr>status := Transferring, revision := revision t + 1\<rparr>
             in emit (EvAccepted tid (revision t1)) (st\<lparr>transfers := AList.update tid t1 (transfers st)\<rparr>))
        | None \<Rightarrow> emit (EvAccepted tid 0) st)"

definition send_task ::
    "(bytes \<Rightarrow> hash) \<Rightarrow> send_env \<Rightarrow> string \<Rightarrow> (nat \<rightharpoonup> u64) \<Rightarrow> resume_source_policy \<Rightarrow> ack_board \<Rightarrow> file_item \<times> path \<Rightarrow>
     app_state \<Rightarrow> app_state \<times> dash_message list \<times> (send_error + ack_result)" where
  "send_task h env tid offsets policy board pair st =
     (let it = fst pair; fid = file_id it;
          ack = (case map_of (answered board) fid of Some r \<Rightarrow> r | None \<Rightarrow> AckTimeout)
      in case file_type it of
           Directory \<Rightarrow> (st, send_one_directory h (se_link env fid) it ack)
         | RegularFile \<Rightarrow>
             send_one_file h (se_source env (snd pair)) (se_link env fid) tid it
               (if policy = ReuseExistingProgress then (case offsets fid of Some o1 \<Rightarrow> o1 | None \<Rightarrow> 0) else 0)
               ack st)"

fun send_tasks ::
    "(bytes \<Rightarrow> hash) \<Rightarrow> send_env \<Rightarrow> string \<Rightarrow> (nat \<rightharpoonup> u64) \<Rightarrow> resume_source_policy \<Rightarrow> ack_board \<Rightarrow> (file_item \<times> path) list \<Rightarrow>
     app_state \<Rightarrow> app_state \<times> (nat \<times> dash_message list) list \<times> ack_result list" where
  "send_tasks h env tid offsets policy board [] st = (st, [], [])"
| "send_tasks h env tid offsets policy board (pair # pairs) st =
     (let (st1, out, r) = send_task h env tid offsets policy board pair st;
          (st2, outs, rs) = send_tasks h env tid offsets policy board pairs st1
      in (st2, (file_id (fst pair), out) # outs, (case r of Inr a \<Rightarrow> a # rs | Inl _ \<Rightarrow> rs)))"

definition outcome_status :: "transfer_outcome \<Rightarrow> transfer_status" where
  "outcome_status oc =
     (case oc of
        Success \<Rightarrow> Completed
      | PartialSuccess _ \<Rightarrow> PartialCompleted
      | OutcomeFailed _ \<Rightarrow> StFailed
      | OutcomeCancelledBySender \<Rightarrow> CancelledBySender
      | OutcomeCancelledByReceiver \<Rightarrow> CancelledByReceiver)"

definition outcome_failed_ids :: "transfer_outcome \<Rightarrow> transfer_task \<Rightarrow> nat list option" where
  "outcome_failed_ids oc t =
     (case oc of
        Success \<Rightarrow> None
      | PartialSuccess bad \<Rightarrow> Some (map failed_file_id bad)
      | _ \<Rightarrow> Some (all_file_ids t))"

definition outcome_reason :: "transfer_outcome \<Rightarrow> string option" where
  "outcome_reason oc =
     (case oc of
        Success \<Rightarrow> None
      | PartialSuccess bad \<Rightarrow> (case bad of [] \<Rightarrow> None | b # _ \<Rightarrow> Some (reason_code (failed_reason b)))
      | OutcomeFailed code \<Rightarrow> Some (reason_code code)
      | OutcomeCancelledByReceiver \<Rightarrow> Some ''E_CANCELLED_BY_RECEIVER''
      | OutcomeCancelledBySender \<Rightarrow> Some ''E_CANCELLED_BY_SENDER'')"

definition outcome_events :: "string \<Rightarrow> nat \<Rightarrow> transfer_outcome \<Rightarrow> transfer_task \<Rightarrow> ui_event list" where
  "outcome_events tid n oc t =
     (case oc of
        Success \<Rightarrow> [EvComplete tid (revision t)]
      | PartialSuccess bad \<Rightarrow> [EvPartial tid (sat_sub n (length bad)) bad (revision t)]
      | OutcomeFailed code \<Rightarrow>
          [EvTerminal tid (status t) (reason_code code) ''TransferFailed'' (revision t) ''send'',
           EvError tid (reason_code code) ''TransferFailed'' ''send'' (revision t) []]
      | OutcomeCancelledByReceiver \<Rightarrow>
          [EvTerminal tid (status t) ''E_CANCELLED_BY_RECEIVER'' ''CancelledByReceiver'' (revision t) ''send'']
      | OutcomeCancelledBySender \<Rightarrow>
          [EvTerminal tid (status t) ''E_CANCELLED_BY_SENDER'' ''CancelledBySender'' (revision t) ''send''])"

definition finish_send :: "send_env \<Rightarrow> string \<Rightarrow> nat \<Rightarrow> transfer_outcome \<Rightarrow> app_state \<Rightarrow> app_state" where
  "finish_send env tid n oc st =
     (let st1 = close_task env tid
            (\<lambda>t. t\<lparr>status := outcome_status oc, failed_file_ids := outcome_failed_ids oc t,
                   terminal_reason_code := outcome_reason oc\<rparr>)
            (outcome_events tid n oc) st
      in case map_of (transfers st1) tid of
           Some t \<Rightarrow> flush_progress_persist_now (progress_snapshot t) st1
         | None \<Rightarrow> st1)"

definition transfer_accepted ::
    "(bytes \<Rightarrow> hash) \<Rightarrow> send_env \<Rightarrow> string \<Rightarrow> string \<Rightarrow> (file_item \<times> path) list \<Rightarrow> resume_source_policy \<Rightarrow> (nat \<rightharpoonup> u64) \<Rightarrow>
     app_state \<Rightarrow> app_state \<times> (nat \<times> dash_message list) list \<times> transfer_outcome" where
  "transfer_accepted h env tid fp pairs policy offsets st =
     (let st1 = start_transferring env tid fp st;
          board = ack_dispatch (map (file_id \<circ> fst) pairs)
                    \<lparr>answered = [], cancelled_by_peer = False, dispatch_error = None\<rparr> (se_inbound env);
          (st2, outs, rs) = send_tasks h env tid offsets policy board pairs st1;
          oc = determine_outcome (cancelled_by_peer board) rs (map fst pairs) (dispatch_error board)
      in (finish_send env tid (length pairs) oc st2, outs, oc))"

definition send_files ::
    "(bytes \<Rightarrow> hash) \<Rightarrow> send_env \<Rightarrow> string \<Rightarrow> string \<Rightarrow> (path \<times> src_node) list \<Rightarrow> app_state \<Rightarrow> send_result" where
  "send_files h env tid fp sources st =
     (case build_file_items h sources 0 of
        Inl e \<Rightarrow> \<lparr>sr_app = st, sr_offer = None, sr_streams = [], sr_outcome = Err e\<rparr>
      | Inr pairs \<Rightarrow>
          (if pairs = [] then \<lparr>sr_app = st, sr_offer = None, sr_streams = [], sr_outcome = Err NoSendableFiles\<rparr>
           else
             (let its = map fst pairs;
                  policy = resume_policy env tid its st;
                  st1 = note_sources env tid fp its policy (register_send env tid fp (map fst sources) pairs st)
              in case se_hello env of
                   Inl e \<Rightarrow> \<lparr>sr_app = st1, sr_offer = None, sr_streams = [], sr_outcome = Err (HelloFailed e)\<rparr>
                 | Inr version \<Rightarrow>
                     (let off = \<lparr>transfer_id = tid, items = its, total_size = sum_list (map size_bytes its),
                                 sender_name = device_name (config st1), sender_fingerprint = se_fingerprint env\<rparr>;
                          st2 = emit (EvStarted tid fp (case se_peer_name env of Some n \<Rightarrow> n | None \<Rightarrow> ''Unknown'')
                                        (total_size off) 0) st1;
                          stop = (\<lambda>s r. \<lparr>sr_app = s, sr_offer = Some off, sr_streams = [], sr_outcome = r\<rparr>)
                      in if \<not> se_offer_ok env
                         then \<lparr>sr_app = st1, sr_offer = None, sr_streams = [], sr_outcome = Err OfferWriteFailed\<rparr>
                         else case se_reply env of
                           ReplyTimeout \<Rightarrow> stop (offer_timed_out env tid st2) (Ok (OutcomeFailed Timeout))
                         | ReplyReadError \<Rightarrow> stop st2 (Err ReplyReadFailed)
                         | ReplyMessage (Reject r) \<Rightarrow> stop (offer_rejected env tid fp r st2) (Ok (OutcomeFailed r))
                         | ReplyMessage (Accept a) \<Rightarrow>
                             (if chosen_version a \<noteq> version then stop st2 (Err DifferentVersion)
                              else
                                (let (st3, outs, oc) = transfer_accepted h env tid fp pairs policy
                                       (case resume_offsets a of Some m \<Rightarrow> m | None \<Rightarrow> Map.empty) st2
                                 in \<lparr>sr_app = st3, sr_offer = Some off, sr_streams = outs, sr_outcome = Ok oc\<rparr>))
                         | ReplyMessage _ \<Rightarrow> stop st2 (Err UnexpectedReply)))))"


text \<open>The chunks cover the file from a position on, without gap or overlap.\<close>

fun covers :: "nat \<Rightarrow> nat \<Rightarrow> chunk_payload list \<Rightarrow> bool" where
  "covers fid off [] = True"
| "covers fid off (c # cs) = (chunk_file_id c = fid \<and> offset c = off \<and> data c \<noteq> [] \<and> length (data c) \<le> CHUNK_SIZE \<and>
     covers fid (off + length (data c)) cs)"

text \<open>Nothing fails on this side of the connection.\<close>

definition link_ok :: "link \<Rightarrow> bool" where
  "link_ok lk = (open_uni_ok lk \<and> finish_ok lk \<and> (\<forall>i. write_ok_at lk i))"

definition source_ok :: "src_file \<Rightarrow> bool" where
  "source_ok f = (src_openable f \<and> (\<forall>i. \<not> src_read_err f i))"

definition sample_src :: src_file where
  "sample_src = \<lparr>src_mtime_ms = Some 5, src_mode = 420, src_openable = True, src_content = [1, 2, 3],
     src_piece = (\<lambda>_. 2), src_read_err = (\<lambda>_. False)\<rparr>"

definition sample_link :: link where
  "sample_link = \<lparr>open_uni_ok = True, write_ok_at = (\<lambda>_. True), finish_ok = True\<rparr>"

definition sample_send_item :: file_item where
  "sample_send_item = \<lparr>file_id = 0, name = ''a'', rel_path = ''a'', size_bytes = 3, file_type = RegularFile, modified = 0,
     risk_class = None, source_snapshot = None\<rparr>"

definition sample_send_env :: send_env where
  "sample_send_env = \<lparr>se_clock = sample_clock, se_lock_ok = True, se_peer_name = None, se_fingerprint = ''me'', se_conn = 1,
     se_hello = Ok 1, se_offer_ok = True, se_reply = ReplyTimeout, se_source = (\<lambda>_. sample_src),
     se_link = (\<lambda>_. sample_link), se_inbound = [InMessage (Ack \<lparr>ack_file_id = 0, ack_ok = True, ack_reason = None\<rparr>)]\<rparr>"

section \<open>Facts\<close>

subsection \<open>Reading and sending a file\<close>

lemma read_some_prefix: "prefix (read_some f cap off) (drop off (src_content f))"
  by (simp add: read_some_def take_is_prefix)

lemma read_some_empty: "0 < cap \<Longrightarrow> read_some f cap off = [] \<longleftrightarrow> length (src_content f) \<le> off"
  by (auto simp: read_some_def)

lemma read_some_length: "length (read_some f cap off) \<le> cap"
  by (simp add: read_some_def)

lemma read_some_rest:
  "drop off (src_content f) = read_some f cap off @ drop (off + length (read_some f cap off)) (src_content f)"
proof -
  have "drop off (src_content f) = read_some f cap off @ drop (length (read_some f cap off)) (drop off (src_content f))"
    using read_some_prefix by (metis append_eq_conv_conj prefixE)
  then show ?thesis by (simp add: add.commute)
qed

lemma read_upto_spec:
  assumes "read_upto f cap left off acc cnt = Ok (acc', off', cnt')" and "0 < cap"
  shows "acc' = acc @ take left (drop off (src_content f)) \<and> off' = off + length (take left (drop off (src_content f)))"
  using assms
proof (induction f cap left off acc cnt rule: read_upto.induct)
  case (1 f cap left off acc cnt)
  let ?got = "read_some f (min left cap) off"
  show ?case
  proof (cases "left = 0 \<or> ?got = []")
    case True
    have "drop off (src_content f) = []" if "left \<noteq> 0"
      using True that "1.prems"(2) read_some_empty [of "min left cap" f off] by simp
    then show ?thesis using True "1.prems"(1) by (subst (asm) read_upto.simps) (auto simp: Let_def split: if_splits)
  next
    case False
    have le: "length ?got \<le> left" using read_some_length [of f "min left cap" off] by simp
    have "read_upto f cap (left - length ?got) (off + length ?got) (acc @ ?got) (cnt + 1) = Ok (acc', off', cnt')"
      and ok: "\<not> src_read_err f off"
      using False "1.prems"(1) by (subst (asm) read_upto.simps, simp add: Let_def split: if_splits)+
    from "1.IH" [OF _ ok refl _ this(1)] False "1.prems"(2)
    have "acc' = (acc @ ?got) @ take (left - length ?got) (drop (off + length ?got) (src_content f)) \<and>
        off' = off + length ?got + length (take (left - length ?got) (drop (off + length ?got) (src_content f)))"
      by simp
    moreover have "take left (drop off (src_content f)) =
        ?got @ take (left - length ?got) (drop (off + length ?got) (src_content f))"
      using le by (subst read_some_rest [of off f "min left cap"]) simp
    ultimately show ?thesis by simp
  qed
qed

lemma send_chunks_spec:
  assumes "send_chunks f lk tid fid off cid hashed out st = (st', out', r)"
  shows "\<exists>cs. out' = out @ map Chunk cs \<and> covers fid off cs \<and>
     prefix (concat (map data cs)) (drop off (src_content f)) \<and>
     (case r of Inl e \<Rightarrow> True
      | Inr hs \<Rightarrow> concat (map data cs) = drop off (src_content f) \<and> hs = hashed @ drop off (src_content f))"
  using assms
proof (induction f lk tid fid off cid hashed out st rule: send_chunks.induct)
  case (1 f lk tid fid off cid hashed out st)
  let ?got = "read_some f CHUNK_SIZE off"
  let ?c = "\<lparr>chunk_file_id = fid, chunk_id = cid, offset = off, data = ?got\<rparr>"
  have pos: "0 < CHUNK_SIZE" by (simp add: CHUNK_SIZE_def)
  show ?case
  proof (cases "src_read_err f off \<or> ?got = [] \<or> \<not> write_ok_at lk (length out)")
    case True
    then show ?thesis using "1.prems" read_some_empty [OF pos, of f off]
      by (subst (asm) send_chunks.simps) (auto simp: Let_def intro!: exI [of _ "[]"] split: if_splits)
  next
    case False
    then have ok: "\<not> src_read_err f off" "?got \<noteq> []" "\<not> \<not> write_ok_at lk (length out)" by blast+
    have "send_chunks f lk tid fid (off + length ?got) (cid + 1) (hashed @ ?got) (out @ [Chunk ?c])
        (add_progress tid (length ?got) st) = (st', out', r)"
      using ok "1.prems" by (subst (asm) send_chunks.simps) (simp add: Let_def)
    from "1.IH" [OF ok(1) refl ok(2,3) this] obtain cs where cs: "out' = (out @ [Chunk ?c]) @ map Chunk cs"
      "covers fid (off + length ?got) cs" "prefix (concat (map data cs)) (drop (off + length ?got) (src_content f))"
      "case r of Inl e \<Rightarrow> True | Inr hs \<Rightarrow> concat (map data cs) = drop (off + length ?got) (src_content f) \<and>
         hs = (hashed @ ?got) @ drop (off + length ?got) (src_content f)"
      by blast
    have rest: "drop off (src_content f) = ?got @ drop (off + length ?got) (src_content f)" by (rule read_some_rest)
    have "covers fid off (?c # cs)" using ok(2) cs(2) read_some_length [of f CHUNK_SIZE off] by simp
    moreover have "prefix (concat (map data (?c # cs))) (drop off (src_content f))"
      using cs(3) by (subst rest) simp
    moreover have "case r of Inl e \<Rightarrow> True | Inr hs \<Rightarrow> concat (map data (?c # cs)) = drop off (src_content f) \<and>
         hs = hashed @ drop off (src_content f)"
      using cs(4) rest by (auto split: sum.splits)
    ultimately show ?thesis using cs(1) by (intro exI [of _ "?c # cs"]) simp
  qed
qed


lemma send_one_file_spec:
  assumes "send_one_file h f lk tid it resume_from ack st = (st', out, Ok r)"
  shows "r = await_ack (file_id it) ack \<and>
    (\<exists>cs. out = map Chunk cs @ [Complete \<lparr>complete_file_id = file_id it, file_hash = h (src_content f)\<rparr>] \<and>
       covers (file_id it) (min resume_from (length (src_content f))) cs \<and>
       concat (map data cs) = drop resume_from (src_content f))"
proof -
  let ?skip = "if resume_from > 0 then read_upto f CHUNK_SIZE resume_from 0 [] 0 else Ok ([], 0, 0)"
  obtain skipped off cid where skip: "?skip = Ok (skipped, off, cid)"
    using assms by (auto simp: send_one_file_def Let_def split: if_splits sum.splits)
  have s: "skipped = take resume_from (src_content f)" "off = min resume_from (length (src_content f))"
    using skip read_upto_spec [of f CHUNK_SIZE resume_from 0 "[]" 0 skipped off cid]
    by (auto simp: CHUNK_SIZE_def min.commute split: if_splits)
  let ?st = "if resume_from > 0 then skip_progress tid off st else st"
  obtain st1 out1 r1 where chunks: "send_chunks f lk tid (file_id it) off cid skipped [] ?st = (st1, out1, r1)"
    by (cases "send_chunks f lk tid (file_id it) off cid skipped [] ?st")
  from send_chunks_spec [OF this] obtain cs where cs: "out1 = map Chunk cs" "covers (file_id it) off cs"
      "case r1 of Inl e \<Rightarrow> True | Inr hs \<Rightarrow> concat (map data cs) = drop off (src_content f) \<and>
         hs = skipped @ drop off (src_content f)"
    by auto
  obtain hs where hs: "r1 = Ok hs" "out = out1 @ [Complete \<lparr>complete_file_id = file_id it, file_hash = h hs\<rparr>]"
      "r = await_ack (file_id it) ack"
    using assms by (auto simp: send_one_file_def Let_def skip chunks split: if_splits sum.splits)
  have "skipped @ drop off (src_content f) = src_content f" "drop off (src_content f) = drop resume_from (src_content f)"
    by (auto simp: s min_def)
  then show ?thesis using cs hs s(2) by auto
qed

lemma read_upto_delivers: "(\<And>i. \<not> src_read_err f i) \<Longrightarrow> \<exists>r. read_upto f cap left off acc cnt = Ok r"
proof (induction f cap left off acc cnt rule: read_upto.induct)
  case (1 f cap left off acc cnt)
  then show ?case by (subst read_upto.simps) (simp add: Let_def)
qed

lemma send_chunks_delivers:
  "(\<And>i. \<not> src_read_err f i) \<Longrightarrow> (\<And>i. write_ok_at lk i) \<Longrightarrow>
   \<exists>st' out' hs. send_chunks f lk tid fid off cid hashed out st = (st', out', Ok hs)"
proof (induction f lk tid fid off cid hashed out st rule: send_chunks.induct)
  case (1 f lk tid fid off cid hashed out st)
  then show ?case by (subst send_chunks.simps) (simp add: Let_def)
qed

lemma send_one_file_delivers:
  assumes "link_ok lk" and "source_ok f"
  shows "\<exists>st' out. send_one_file h f lk tid it resume_from ack st = (st', out, Ok (await_ack (file_id it) ack))"
proof -
  have ok: "open_uni_ok lk" "finish_ok lk" "\<And>i. write_ok_at lk i" "src_openable f" "\<And>i. \<not> src_read_err f i"
    using assms by (auto simp: link_ok_def source_ok_def)
  obtain skipped off cid where skip:
      "(if resume_from > 0 then read_upto f CHUNK_SIZE resume_from 0 [] 0 else Ok ([], 0, 0)) = Ok (skipped, off, cid)"
    using read_upto_delivers [OF ok(5), of CHUNK_SIZE resume_from 0 "[]" 0] by (metis prod_cases3)
  obtain st1 out1 hs where "send_chunks f lk tid (file_id it) off cid skipped []
      (if resume_from > 0 then skip_progress tid off st else st) = (st1, out1, Ok hs)"
    using send_chunks_delivers [OF ok(5,3)] by blast
  then show ?thesis unfolding send_one_file_def Let_def skip using ok by simp
qed

lemma send_task_delivers:
  assumes "link_ok (se_link env (file_id it))" and "file_type it = RegularFile \<Longrightarrow> source_ok (se_source env p)"
  shows "\<exists>st' out. send_task h env tid offsets policy board (it, p) st = (st', out, Ok (await_ack (file_id it)
     (case map_of (answered board) (file_id it) of Some r \<Rightarrow> r | None \<Rightarrow> AckTimeout)))"
proof (cases "file_type it")
  case RegularFile
  then show ?thesis using send_one_file_delivers [OF assms(1) assms(2) [OF RegularFile]] by (simp add: send_task_def Let_def)
next
  case Directory
  then show ?thesis using assms(1) by (simp add: send_task_def send_one_directory_def link_ok_def Let_def)
qed

lemma send_tasks_results:
  assumes "pair \<in> set pairs" and "\<And>st. \<exists>st' out. send_task h env tid offsets policy board pair st = (st', out, Ok r)"
  shows "r \<in> set (snd (snd (send_tasks h env tid offsets policy board pairs st)))"
  using assms(1)
proof (induction pairs arbitrary: st)
  case (Cons q pairs)
  obtain st1 out1 r1 where q: "send_task h env tid offsets policy board q st = (st1, out1, r1)"
    by (cases "send_task h env tid offsets policy board q st")
  obtain st2 outs rs where rest: "send_tasks h env tid offsets policy board pairs st1 = (st2, outs, rs)"
    by (cases "send_tasks h env tid offsets policy board pairs st1")
  show ?case
  proof (cases "pair = q")
    case True
    then have "r1 = Ok r" using assms(2) [of st] q by auto
    then show ?thesis by (simp add: q rest)
  next
    case False
    then have "r \<in> set rs" using Cons.IH [of st1] Cons.prems rest by simp
    then show ?thesis by (cases r1) (simp_all add: q rest)
  qed
qed simp

subsection \<open>Acknowledgements\<close>

lemma drain_positive:
  "(i, AckReply True r) \<in> set (answered (drain waiting reason b)) \<longleftrightarrow> (i, AckReply True r) \<in> set (answered b)"
  by (auto simp: drain_def)

text \<open>A positive answer on the board comes from an acknowledgement of the peer.\<close>

lemma ack_dispatch_positive:
  assumes "(i, AckReply True r) \<in> set (answered (ack_dispatch waiting b ins))"
  shows "(i, AckReply True r) \<in> set (answered b) \<or> (\<exists>a. InMessage (Ack a) \<in> set ins \<and> ack_file_id a = i \<and> ack_ok a)"
  using assms
proof (induction waiting b ins rule: ack_dispatch.induct)
  case (4 waiting b a ins)
  then show ?case by (auto split: if_splits)
qed (auto simp: Let_def drain_positive)

subsection \<open>Collecting items\<close>

lemma upt_join: "i \<le> j \<Longrightarrow> j \<le> k \<Longrightarrow> [i..<j] @ [j..<k] = [i..<k]"
  by (metis le_Suc_ex upt_add_eq_append)

lemma collect_ids:
  "collect_items h base p c n = Ok (its, n') \<Longrightarrow> map (file_id \<circ> fst) its = [n..<n'] \<and> n \<le> n'"
  "collect_entries h base p es n = Ok (its, n') \<Longrightarrow> map (file_id \<circ> fst) its = [n..<n'] \<and> n \<le> n'"
proof (induction h base p c n and h base p es n arbitrary: its n' and its n' rule: collect_items_collect_entries.induct)
  case (3 h base p mtime readable entries next_id)
  then obtain it its1 where *: "readable" "collect_entries h base p entries (next_id + 1) = Ok (its1, n')"
      "its = (it, p) # its1" "file_id it = next_id"
    by (auto simp: Let_def split: if_splits sum.splits)
  have "\<not> \<not> readable" using *(1) by simp
  from "3.IH" [OF refl refl this *(2)] *(3,4) show ?case by (simp add: upt_conv_Cons)
next
  case (6 h base p nm c entries next_id)
  then obtain its1 n1 its2 where *: "collect_items h base (p @ [Normal nm]) c next_id = Ok (its1, n1)"
      "collect_entries h base p entries n1 = Ok (its2, n')" "its = its1 @ its2"
    by (auto split: sum.splits)
  then show ?case using "6.IH"(1) [OF *(1)] "6.IH"(2) [OF *(1) refl *(2)]
    by (auto simp: upt_join)
qed (auto split: sum.splits)

lemma build_file_items_ids:
  "build_file_items h paths n = Ok its \<Longrightarrow> map (file_id \<circ> fst) its = [n..<n + length its]"
proof (induction h paths n arbitrary: its rule: build_file_items.induct)
  case (2 h p c paths next_id)
  then obtain its1 n1 its2 where *: "collect_items h p p c next_id = Ok (its1, n1)"
      "build_file_items h paths n1 = Ok its2" "its = its1 @ its2"
    by (auto split: sum.splits)
  have 1: "map (file_id \<circ> fst) its1 = [next_id..<n1]" "next_id \<le> n1" using collect_ids(1) [OF *(1)] by auto
  then have "n1 = next_id + length its1" by (metis add_diff_inverse_nat length_map length_upt not_less)
  then show ?case using "2.IH" [OF *(1) refl *(2)] 1 *(3)
    by (simp add: upt_join add.assoc comp_def)
qed simp


subsection \<open>Snapshots\<close>

lemma changed_fields_empty: "changed_fields a b = [] \<longleftrightarrow> a = b"
  by (auto simp: changed_fields_def split: if_splits)

lemma map_of_current: "map_option snd (map_of (current_snapshots its) i) = map_of (snapshots_of its) i"
  unfolding current_snapshots_def snapshots_of_def
  by (induction its) (auto simp: List.map_filter_simps split: option.splits)

lemma snapshot_change_empty:
  "snapshot_change (current_snapshots its) prev i = [] \<longleftrightarrow> map_of prev i = map_of (snapshots_of its) i"
  unfolding map_of_current [of its i, symmetric]
  by (cases "map_of (current_snapshots its) i"; cases "map_of prev i")
     (auto simp: snapshot_change_def Let_def changed_fields_empty split: if_splits)

lemma unopened_task:
  assumes "\<not> open_uni_ok (se_link env (file_id it))"
  shows "\<exists>e. send_task h env tid offsets policy board (it, p) st = (st, [], Err e)"
  using assms by (cases "file_type it") (simp_all add: send_task_def send_one_file_def send_one_directory_def Let_def)

lemma unopened_tasks:
  assumes "list_all (\<lambda>(it, p). \<not> open_uni_ok (se_link env (file_id it))) pairs"
  shows "send_tasks h env tid offsets policy board pairs st = (st, map (\<lambda>(it, p). (file_id it, [])) pairs, [])"
  using assms
proof (induction pairs)
  case (Cons q pairs)
  obtain it p where q: "q = (it, p)" by (cases q)
  obtain e where "send_task h env tid offsets policy board (it, p) st = (st, [], Err e)"
    using unopened_task [of env it h tid offsets policy board p st] Cons.prems q by auto
  then show ?case using Cons q by simp
qed simp

lemma concat_map_Nil: "concat (map f xs) = [] \<longleftrightarrow> (\<forall>x \<in> set xs. f x = [])"
  by simp

section \<open>Properties\<close>

text \<open>
  A source file is sent completely.  When \<^verbatim>\<open>send_one_file\<close> comes to waiting for the acknowledgement,
  whatever sizes the reads had, it has written chunks of at most 1 MiB at consecutive positions that
  hold exactly the bytes of the file after the resume position, and then the hash of the whole file.
\<close>

theorem send_one_file_complete:
  assumes "send_one_file h f lk tid it resume_from ack st = (st', out, Ok r)"
  shows "r = await_ack (file_id it) ack \<and>
    (\<exists>cs. out = map Chunk cs @ [Complete \<lparr>complete_file_id = file_id it, file_hash = h (src_content f)\<rparr>] \<and>
       covers (file_id it) (min resume_from (length (src_content f))) cs \<and>
       concat (map data cs) = drop resume_from (src_content f))"
  by (rule send_one_file_spec [OF assms])

theorem send_one_file_complete_witness:
  "\<exists>cs. [Chunk \<lparr>chunk_file_id = 0, chunk_id = 0, offset = 0, data = [1, 2]\<rparr>,
      Chunk \<lparr>chunk_file_id = 0, chunk_id = 1, offset = 2, data = [3]\<rparr>,
      Complete \<lparr>complete_file_id = 0, file_hash = [1, 2, 3]\<rparr>] =
      map Chunk cs @ [Complete \<lparr>complete_file_id = file_id sample_send_item, file_hash = src_content sample_src\<rparr>] \<and>
      concat (map data cs) = drop 0 (src_content sample_src)"
proof -
  let ?run = "send_one_file (\<lambda>b. b) sample_src sample_link ''t'' sample_send_item 0 (AckReply True None) sample_app"
  have "snd ?run = ([Chunk \<lparr>chunk_file_id = 0, chunk_id = 0, offset = 0, data = [1, 2]\<rparr>,
          Chunk \<lparr>chunk_file_id = 0, chunk_id = 1, offset = 2, data = [3]\<rparr>,
          Complete \<lparr>complete_file_id = 0, file_hash = [1, 2, 3]\<rparr>], Ok (0, True, None))" (is "_ = (?out, _)")
    by (simp add: send_one_file_def Let_def send_chunks.simps read_some_def sample_src_def sample_link_def
        sample_send_item_def CHUNK_SIZE_def await_ack_def)
  then have "?run = (fst ?run, ?out, Ok (0, True, None))" by (metis prod.collapse)
  from send_one_file_complete [OF this] show ?thesis by blast
qed

text \<open>
  Items are numbered without gap or repetition.  The items collected for an offer carry the file
  ids 0, 1, 2 and so on, whatever the tree of files, so chunks and acknowledgements can be routed by id.
\<close>

theorem build_file_items_numbered:
  assumes "build_file_items h paths 0 = Ok its"
  shows "map (file_id \<circ> fst) its = [0..<length its]"
  using build_file_items_ids [OF assms] by simp

theorem build_file_items_numbered_witness:
  "\<exists>its. build_file_items (\<lambda>b. b) [(components ''/d'', SrcDir None True [(''a'', SrcDir None True []), (''b'', SrcOther)])] 0 = Ok its
     \<and> map (file_id \<circ> fst) its = [0..<2]"
proof -
  let ?r = "build_file_items (\<lambda>b. b) [(components ''/d'', SrcDir None True [(''a'', SrcDir None True []), (''b'', SrcOther)])] 0"
  have "map_sum (\<lambda>e. e) length ?r = Ok 2" by code_simp
  then obtain its where its: "?r = Ok its" "length its = 2" by (cases ?r) auto
  show ?thesis using build_file_items_numbered [OF its(1)] its by auto
qed

text \<open>
  Progress of an earlier attempt is reused exactly when nothing is known of it or the recorded
  snapshots are those of the current items: the same files with the same size, modification time and
  hash of the first MiB.
\<close>

theorem resume_reuse_iff:
  "validate_resume_source_snapshots previous its = ReuseExistingProgress \<longleftrightarrow>
     (case previous of None \<Rightarrow> True | Some prev \<Rightarrow> map_of prev = map_of (snapshots_of its))"
proof (cases previous)
  case (Some prev)
  let ?same = "\<lambda>i. map_of prev i = map_of (snapshots_of its) i"
  have out: "?same i" if "i \<notin> set (map fst prev)" "i \<notin> set (map fst (current_snapshots its))" for i
  proof -
    have "map_of prev i = None" "map_of (current_snapshots its) i = None"
      using that by (auto simp: map_of_eq_None_iff)
    then show ?thesis using map_of_current [of its i] by simp
  qed
  have "validate_resume_source_snapshots previous its = ReuseExistingProgress \<longleftrightarrow>
      (\<forall>i \<in> set (map fst prev). ?same i) \<and>
      (\<forall>i \<in> set (map fst (current_snapshots its)). i \<notin> set (map fst prev) \<longrightarrow> ?same i)"
    unfolding Some validate_resume_source_snapshots_def Let_def snapshot_change_empty [symmetric]
    by (auto simp only: concat_map_Nil append_is_Nil_conv option.case set_sort set_remdups set_filter
        mem_Collect_eq resume_source_policy.distinct refl split: if_splits)
  also have "\<dots> \<longleftrightarrow> (\<forall>i \<in> set (map fst prev) \<union> set (map fst (current_snapshots its)). ?same i)" by blast
  also have "\<dots> \<longleftrightarrow> map_of prev = map_of (snapshots_of its)"
  proof
    assume all: "\<forall>i \<in> set (map fst prev) \<union> set (map fst (current_snapshots its)). ?same i"
    show "map_of prev = map_of (snapshots_of its)"
    proof
      show "?same i" for i
        by (cases "i \<in> set (map fst prev) \<union> set (map fst (current_snapshots its))") (use all out in auto)
    qed
  qed simp
  finally show ?thesis by (simp add: Some)
qed (simp add: validate_resume_source_snapshots_def)


text \<open>
  C33: Success means acknowledged.  When a transfer is reported as successful, the peer has
  acknowledged every item for which nothing failed on the sending side.
\<close>

theorem success_means_acknowledged:
  assumes run: "transfer_accepted h env tid fp pairs policy offsets st = (st', outs, Success)"
    and pair: "(it, p) \<in> set pairs"
    and local_ok: "link_ok (se_link env (file_id it))" "file_type it = RegularFile \<Longrightarrow> source_ok (se_source env p)"
  shows "\<exists>a. InMessage (Ack a) \<in> set (se_inbound env) \<and> ack_file_id a = file_id it \<and> ack_ok a"
proof -
  let ?board = "ack_dispatch (map (file_id \<circ> fst) pairs)
      \<lparr>answered = [], cancelled_by_peer = False, dispatch_error = None\<rparr> (se_inbound env)"
  let ?ack = "case map_of (answered ?board) (file_id it) of Some r \<Rightarrow> r | None \<Rightarrow> AckTimeout"
  let ?rs = "snd (snd (send_tasks h env tid offsets policy ?board pairs (start_transferring env tid fp st)))"
  have "determine_outcome (cancelled_by_peer ?board) ?rs (map fst pairs) (dispatch_error ?board) = Success"
    using run by (simp add: transfer_accepted_def Let_def split: prod.splits)
  then have all_ok: "filter (\<lambda>(i, ok, reason). \<not> ok) ?rs = []"
    by (auto simp: determine_outcome_def Let_def ack_failures_def split: option.splits if_splits)
  have "await_ack (file_id it) ?ack \<in> set ?rs"
    by (rule send_tasks_results [OF pair send_task_delivers [OF local_ok]])
  then have "fst (snd (await_ack (file_id it) ?ack))"
    using all_ok unfolding filter_empty_conv case_prod_beta by blast
  then obtain r where "?ack = AckReply True r" by (auto simp: await_ack_def split: ack_reply.splits)
  then have "(file_id it, AckReply True r) \<in> set (answered ?board)"
    by (auto split: option.splits dest: map_of_SomeD)
  from ack_dispatch_positive [OF this] show ?thesis by simp
qed

theorem success_means_acknowledged_witness:
  "\<exists>a. InMessage (Ack a) \<in> set (se_inbound sample_send_env) \<and> ack_file_id a = 0 \<and> ack_ok a"
proof -
  let ?run = "transfer_accepted (\<lambda>b. b) sample_send_env ''t'' ''fp'' [((sample_send_item\<lparr>file_type := Directory\<rparr>), [])] ReuseExistingProgress
      Map.empty sample_app"
  have "snd (snd ?run) = Success"
    by (simp add: transfer_accepted_def Let_def sample_send_env_def sample_send_item_def send_task_def
        send_one_directory_def sample_link_def await_ack_def determine_outcome_def ack_failures_def)
  then have run: "?run = (fst ?run, fst (snd ?run), Success)" by (metis prod.collapse)
  have "link_ok (se_link sample_send_env (file_id (sample_send_item\<lparr>file_type := Directory\<rparr>)))"
    by (simp add: link_ok_def sample_send_env_def sample_link_def)
  with success_means_acknowledged [OF run, of "sample_send_item\<lparr>file_type := Directory\<rparr>" "[]"] show ?thesis
    by (simp add: sample_send_item_def)
qed

text \<open>
  Local failures are not reported.  When no stream can be opened for any item, nothing is sent and
  no file arrives, and yet the transfer is reported as successful: a task that ends with an error of
  its own leaves no result, and an empty list of results has no failure in it.
\<close>

theorem success_without_sending:
  assumes "list_all (\<lambda>(it, p). \<not> open_uni_ok (se_link env (file_id it))) pairs" and "se_inbound env = []"
  shows "\<exists>st'. transfer_accepted h env tid fp pairs policy offsets st =
    (st', map (\<lambda>(it, p). (file_id it, [])) pairs, Success)"
  unfolding transfer_accepted_def Let_def assms(2) case_prod_beta unopened_tasks [OF assms(1)]
  by (simp add: determine_outcome_def ack_failures_def)

theorem success_without_sending_witness:
  "\<exists>st'. transfer_accepted (\<lambda>b. b)
     (sample_send_env\<lparr>se_link := (\<lambda>_. sample_link\<lparr>open_uni_ok := False\<rparr>), se_inbound := []\<rparr>) ''t'' ''fp''
     [(sample_send_item, [])] ReuseExistingProgress Map.empty sample_app = (st', [(0, [])], Success)"
  using success_without_sending
    [of "sample_send_env\<lparr>se_link := (\<lambda>_. sample_link\<lparr>open_uni_ok := False\<rparr>), se_inbound := []\<rparr>" "[(sample_send_item, [])]"
      "\<lambda>b. b" "''t''" "''fp''" ReuseExistingProgress Map.empty sample_app]
  by (simp add: sample_link_def sample_send_item_def)

end
