(* ===== verification/FileSystem.thy ===== *)
theory FileSystem
  imports Paths Protocol "HOL-Library.Sublist"
begin

text \<open>
  The file system as the receiver sees it through \<^verbatim>\<open>tokio::fs\<close>: a map from component lists to
  files and directories, without symbolic links.  What the operating system may refuse beyond the
  state of the map (a full disk, missing permissions, a failing device) is given by \<open>io_faults\<close>, an
  argument of every operation.
\<close>

section \<open>Definitions\<close>

datatype node = FileNode bytes | DirNode

type_synonym filesystem = "path \<Rightarrow> node option"

record io_error =
  raw_os_error :: "nat option"
  storage_full :: bool
  io_text :: string

record io_faults =
  create_dir_fault :: "path \<Rightarrow> io_error option"
  create_fault :: "path \<Rightarrow> io_error option"
  append_fault :: "path \<Rightarrow> io_error option"
  write_fault :: "path \<Rightarrow> nat \<Rightarrow> io_error option"
  flush_fault :: "path \<Rightarrow> io_error option"
  remove_fault :: "path \<Rightarrow> io_error option"
  rename_fault :: "path \<Rightarrow> io_error option"

definition no_faults :: io_faults where
  "no_faults = \<lparr>create_dir_fault = (\<lambda>_. None), create_fault = (\<lambda>_. None), append_fault = (\<lambda>_. None),
     write_fault = (\<lambda>_ _. None), flush_fault = (\<lambda>_. None), remove_fault = (\<lambda>_. None),
     rename_fault = (\<lambda>_. None)\<rparr>"

definition not_found :: io_error where
  "not_found = \<lparr>raw_os_error = Some 2, storage_full = False, io_text = ''No such file or directory (os error 2)''\<rparr>"

definition not_a_directory :: io_error where
  "not_a_directory = \<lparr>raw_os_error = Some 20, storage_full = False, io_text = ''Not a directory (os error 20)''\<rparr>"

definition is_a_directory :: io_error where
  "is_a_directory = \<lparr>raw_os_error = Some 21, storage_full = False, io_text = ''Is a directory (os error 21)''\<rparr>"

definition ancestors :: "path \<Rightarrow> path list" where
  "ancestors p = filter (\<lambda>q. q \<noteq> []) (prefixes p)"

definition is_file :: "filesystem \<Rightarrow> path \<Rightarrow> bool" where
  "is_file fs p = (case fs p of Some (FileNode _) \<Rightarrow> True | _ \<Rightarrow> False)"

definition create_dir_all :: "io_faults \<Rightarrow> path \<Rightarrow> filesystem \<Rightarrow> io_error + filesystem" where
  "create_dir_all F p fs =
     (case create_dir_fault F p of
        Some e \<Rightarrow> Err e
      | None \<Rightarrow>
          (if list_ex (is_file fs) (ancestors p) then Err not_a_directory
           else Ok (\<lambda>q. if q \<in> set (ancestors p) then Some DirNode else fs q)))"

definition parent_is_dir :: "filesystem \<Rightarrow> path \<Rightarrow> bool" where
  "parent_is_dir fs p =
     (case path_parent p of None \<Rightarrow> False | Some d \<Rightarrow> d = [] \<or> fs d = Some DirNode)"

definition create_file :: "io_faults \<Rightarrow> path \<Rightarrow> filesystem \<Rightarrow> io_error + filesystem" where
  "create_file F p fs =
     (case create_fault F p of
        Some e \<Rightarrow> Err e
      | None \<Rightarrow>
          (if fs p = Some DirNode then Err is_a_directory
           else if \<not> parent_is_dir fs p then Err not_found
           else Ok (fs(p \<mapsto> FileNode []))))"

definition open_append :: "io_faults \<Rightarrow> path \<Rightarrow> filesystem \<Rightarrow> io_error + filesystem" where
  "open_append F p fs =
     (case append_fault F p of
        Some e \<Rightarrow> Err e
      | None \<Rightarrow> (if is_file fs p then Ok fs else Err not_found))"

definition file_len :: "filesystem \<Rightarrow> path \<Rightarrow> nat" where
  "file_len fs p = (case fs p of Some (FileNode b) \<Rightarrow> length b | _ \<Rightarrow> 0)"

definition write_file :: "io_faults \<Rightarrow> path \<Rightarrow> bytes \<Rightarrow> filesystem \<Rightarrow> io_error + filesystem" where
  "write_file F p bs fs =
     (case write_fault F p (file_len fs p) of
        Some e \<Rightarrow> Err e
      | None \<Rightarrow>
          (case fs p of Some (FileNode b) \<Rightarrow> Ok (fs(p \<mapsto> FileNode (b @ bs))) | _ \<Rightarrow> Err not_found))"

definition remove_file :: "io_faults \<Rightarrow> path \<Rightarrow> filesystem \<Rightarrow> io_error + filesystem" where
  "remove_file F p fs =
     (case remove_fault F p of
        Some e \<Rightarrow> Err e
      | None \<Rightarrow> (if is_file fs p then Ok (fs(p := None)) else Err not_found))"

text \<open>\<^verbatim>\<open>let _ = remove_file(...)\<close>: an error is ignored.\<close>

definition try_remove :: "io_faults \<Rightarrow> path \<Rightarrow> filesystem \<Rightarrow> filesystem" where
  "try_remove F p fs = (case remove_file F p fs of Inr fs' \<Rightarrow> fs' | Inl _ \<Rightarrow> fs)"

definition rename_file :: "io_faults \<Rightarrow> path \<Rightarrow> path \<Rightarrow> filesystem \<Rightarrow> io_error + filesystem" where
  "rename_file F src dst fs =
     (case rename_fault F dst of
        Some e \<Rightarrow> Err e
      | None \<Rightarrow>
          (case fs src of
             Some (FileNode b) \<Rightarrow>
               (if fs dst = Some DirNode then Err is_a_directory
                else Ok ((fs(src := None))(dst \<mapsto> FileNode b)))
           | _ \<Rightarrow> Err not_found))"

definition io_error_code :: "io_error \<Rightarrow> error_code" where
  "io_error_code e =
     (if raw_os_error e = Some 28 then DiskFull
      else if storage_full e then DiskFull
      else ProtocolError (io_text e))"

text \<open>Where two file systems differ.\<close>

definition changed :: "filesystem \<Rightarrow> filesystem \<Rightarrow> path set" where
  "changed fs fs' = {p. fs' p \<noteq> fs p}"

section \<open>Facts\<close>

lemma changed_refl [simp]: "changed fs fs = {}"
  by (simp add: changed_def)

lemma changed_trans: "changed a b \<subseteq> X \<Longrightarrow> changed b c \<subseteq> X \<Longrightarrow> changed a c \<subseteq> X"
  unfolding changed_def by (metis (mono_tags, lifting) mem_Collect_eq subset_iff)

lemma changed_upd: "changed fs (fs(p := v)) \<subseteq> {p}"
  by (auto simp: changed_def)

lemma create_dir_all_changed: "create_dir_all F p fs = Ok fs' \<Longrightarrow> changed fs fs' \<subseteq> set (ancestors p)"
  by (auto simp: create_dir_all_def changed_def split: option.splits if_splits)

lemma create_dir_all_dirs:
  "create_dir_all F p fs = Ok fs' \<Longrightarrow> q \<in> set (ancestors p) \<Longrightarrow> fs' q = Some DirNode"
  by (auto simp: create_dir_all_def split: option.splits if_splits)

lemma create_dir_all_files:
  "create_dir_all F p fs = Ok fs' \<Longrightarrow> fs q = Some (FileNode b) \<Longrightarrow> fs' q = Some (FileNode b)"
  by (force simp: create_dir_all_def list_ex_iff is_file_def split: option.splits if_splits)

lemma create_file_eq: "create_file F p fs = Ok fs' \<Longrightarrow> fs' = fs(p \<mapsto> FileNode [])"
  by (auto simp: create_file_def split: option.splits if_splits)

lemma write_file_eq:
  "write_file F p bs fs = Ok fs' \<Longrightarrow> \<exists>b. fs p = Some (FileNode b) \<and> fs' = fs(p \<mapsto> FileNode (b @ bs))"
  by (auto simp: write_file_def split: option.splits node.splits)

lemma try_remove_cases: "try_remove F p fs = fs \<or> is_file fs p \<and> try_remove F p fs = fs(p := None)"
  by (auto simp: try_remove_def remove_file_def split: option.splits)

lemma try_remove_changed: "changed fs (try_remove F p fs) \<subseteq> {p}"
  using try_remove_cases [of F p fs] changed_upd [of fs p None] by auto

lemma rename_file_eq:
  "rename_file F src dst fs = Ok fs' \<Longrightarrow>
   \<exists>b. fs src = Some (FileNode b) \<and> fs' = (fs(src := None))(dst \<mapsto> FileNode b)"
  by (auto simp: rename_file_def split: option.splits node.splits if_splits)

lemma ancestors_prefix: "q \<in> set (ancestors p) \<longleftrightarrow> prefix q p \<and> q \<noteq> []"
  by (simp add: ancestors_def)

end
