(* ===== verification/PathValidation.thy ===== *)
theory PathValidation
  imports Paths
begin

text \<open>
  \<^verbatim>\<open>transport/path_validation.rs\<close>: the check every \<^verbatim>\<open>rel_path\<close> of an offer passes before the
  receiver touches the file system.  The model follows the code rule by rule.  The facts give the
  exact set of accepted strings, the exact destination, and containment below the save root.

  \<^verbatim>\<open>str::to_uppercase\<close> is modelled by the ASCII mapping: the only code points outside ASCII whose
  upper case is an ASCII letter alone are the dotless i, the long s and the f/st ligatures, and no
  reserved name contains I, S or F, so the membership test has the same result.
\<close>

section \<open>Definitions\<close>

datatype path_error = AbsolutePath | PathTraversal | EmptySegment | WindowsReserved

definition WINDOWS_RESERVED :: "string list" where
  "WINDOWS_RESERVED =
     [''CON'', ''PRN'', ''AUX'', ''NUL'', ''COM1'', ''COM2'', ''COM3'', ''COM4'', ''COM5'', ''COM6'',
      ''COM7'', ''COM8'', ''COM9'', ''LPT1'', ''LPT2'', ''LPT3'', ''LPT4'', ''LPT5'', ''LPT6'',
      ''LPT7'', ''LPT8'', ''LPT9'']"

definition validate_segment :: "string \<Rightarrow> path_error + unit" where
  "validate_segment segment =
     (if segment = ''..'' then Err PathTraversal
      else if segment = [] then Err EmptySegment
      else let upper = to_ascii_uppercase segment;
               base = (case split_on (CHR ''.'') upper of [] \<Rightarrow> upper | b # _ \<Rightarrow> b)
           in if base \<in> set WINDOWS_RESERVED then Err WindowsReserved else Ok ())"

fun validate_segments :: "string list \<Rightarrow> path_error + unit" where
  "validate_segments [] = Ok ()"
| "validate_segments (s # ss) =
     (case validate_segment s of Inl e \<Rightarrow> Err e | Inr _ \<Rightarrow> validate_segments ss)"

definition normalize_step :: "path \<Rightarrow> component \<Rightarrow> path" where
  "normalize_step result c =
     (case c of
        RootDir \<Rightarrow> [RootDir]
      | CurDir \<Rightarrow> result
      | ParentDir \<Rightarrow> path_pop result
      | Normal n \<Rightarrow> result @ [Normal n])"

definition normalize_path :: "path \<Rightarrow> path" where
  "normalize_path p = foldl normalize_step [] p"

definition validate_rel_path :: "string \<Rightarrow> string \<Rightarrow> path_error + path" where
  "validate_rel_path rel_path save_root =
     (if starts_with rel_path [slash] \<or> starts_with rel_path [backslash] then Err AbsolutePath
      else if length rel_path \<ge> 3 \<and> rel_path ! 1 = CHR '':'' \<and>
              (rel_path ! 2 = backslash \<or> rel_path ! 2 = slash) then Err AbsolutePath
      else if starts_with rel_path [slash] \<or> starts_with rel_path [backslash]
            \<or> ends_with rel_path [slash] \<or> ends_with rel_path [backslash]
            \<or> contains_str rel_path [slash, slash] \<or> contains_str rel_path [backslash, backslash]
            \<or> contains_str rel_path [slash, backslash] \<or> contains_str rel_path [backslash, slash]
        then Err EmptySegment
      else
        let normalized = replace_char backslash slash rel_path in
        case validate_segments (split_on slash normalized) of
          Inl e \<Rightarrow> Err e
        | Inr _ \<Rightarrow>
            (let candidate = path_join save_root normalized;
                 normalized_candidate = normalize_path (components candidate);
                 normalized_root = normalize_path (components save_root)
             in if \<not> prefix normalized_root normalized_candidate then Err PathTraversal
                else Ok normalized_candidate))"

section \<open>Specification: the accepted paths and their destination\<close>

text \<open>The segments of a relative path after both separators are unified.\<close>

definition segments :: "string \<Rightarrow> string list" where
  "segments rel_path = split_on slash (replace_char backslash slash rel_path)"

definition reserved_segment :: "string \<Rightarrow> bool" where
  "reserved_segment s = (hd (split_on (CHR ''.'') (to_ascii_uppercase s)) \<in> set WINDOWS_RESERVED)"

definition drive_absolute :: "string \<Rightarrow> bool" where
  "drive_absolute p = (length p \<ge> 3 \<and> p ! 1 = CHR '':'' \<and> (p ! 2 = backslash \<or> p ! 2 = slash))"

definition safe_rel_path :: "string \<Rightarrow> bool" where
  "safe_rel_path p =
     (\<not> drive_absolute p \<and>
      list_all (\<lambda>s. s \<noteq> [] \<and> s \<noteq> ''..'' \<and> \<not> reserved_segment s) (segments p))"

text \<open>
  Rule 5 of section 5.1 in \<^verbatim>\<open>PROTOCOL.md\<close> asks for the other rules on the normal form of the path too, in which the separators are
  unified and the segments \<open>.\<close> are folded away.
\<close>

definition folded :: "string \<Rightarrow> string" where
  "folded p = join_with [slash] (filter (\<lambda>s. s \<noteq> ''.'') (segments p))"

definition protocol_rules :: "string \<Rightarrow> bool" where
  "protocol_rules p \<longleftrightarrow> safe_rel_path p \<and> safe_rel_path (folded p)"

definition destination :: "string \<Rightarrow> string \<Rightarrow> path" where
  "destination root p =
     normalize_path (components root) @ map Normal (filter (\<lambda>s. s \<noteq> ''.'') (segments p))"

section \<open>Facts\<close>

lemma validate_segment_ok:
  "validate_segment s = Ok () \<longleftrightarrow> s \<noteq> [] \<and> s \<noteq> ''..'' \<and> \<not> reserved_segment s"
  by (cases "split_on (CHR ''.'') (to_ascii_uppercase s)")
     (auto simp: validate_segment_def reserved_segment_def Let_def)

lemma validate_segments_ok:
  "validate_segments ss = Ok () \<longleftrightarrow>
     list_all (\<lambda>s. s \<noteq> [] \<and> s \<noteq> ''..'' \<and> \<not> reserved_segment s) ss"
proof (induction ss)
  case (Cons s ss)
  then show ?case
    using validate_segment_ok [of s] by (cases "validate_segment s") auto
qed simp

lemma validate_segments_error:
  "validate_segments ss = Err e \<Longrightarrow> \<exists>s \<in> set ss. validate_segment s = Err e"
  by (induction ss) (auto split: sum.splits)

lemma contains_str_iff: "contains_str s p \<longleftrightarrow> (\<exists>a b. s = a @ p @ b)"
proof (induction s)
  case (Cons c s)
  have "(\<exists>a b. c # s = a @ p @ b) \<longleftrightarrow> prefix p (c # s) \<or> (\<exists>a b. s = a @ p @ b)"
    by (metis append_Cons append_self_conv2 append_eq_Cons_conv prefixE prefixI)
  then show ?case using Cons by (simp add: starts_with_prefix)
qed auto

lemma segments_sep:
  assumes "c = slash \<or> c = backslash"
  shows "segments (a @ c # b) = segments a @ segments b"
  using assms by (auto simp: segments_def replace_char_def split_on_append_sep)

lemma segments_Nil: "segments [] = [[]]"
  by (simp add: segments_def replace_char_def)

lemma empty_segment_start:
  "starts_with p [slash] \<or> starts_with p [backslash] \<Longrightarrow> [] \<in> set (segments p)"
  using segments_sep [of _ "[]"] by (cases p) (auto simp: starts_with_def segments_Nil)

lemma empty_segment_end:
  assumes "ends_with p [slash] \<or> ends_with p [backslash]"
  shows "[] \<in> set (segments p)"
proof -
  obtain a c where "p = a @ [c]" and "c = slash \<or> c = backslash"
    using assms by (auto simp: ends_with_suffix suffix_def)
  then show ?thesis using segments_sep [of c a "[]"] by (simp add: segments_Nil)
qed

lemma empty_segment_double:
  assumes "contains_str p [c, d]" and "c = slash \<or> c = backslash" and "d = slash \<or> d = backslash"
  shows "[] \<in> set (segments p)"
proof -
  obtain a b where "p = a @ c # [] @ d # b"
    using assms(1) by (auto simp: contains_str_iff)
  then show ?thesis
    using segments_sep [OF assms(2), of a "d # b"] segments_sep [OF assms(3), of "[]" b]
    by (simp add: segments_Nil)
qed

lemma components_normalized_join:
  assumes "\<not> starts_with n [slash]"
  shows "normalize_path (components (path_join root n)) =
           foldl normalize_step (normalize_path (components root))
             (List.map_filter seg_component (split_on slash n))"
proof (cases "root = []")
  case True
  then show ?thesis
    using assms
    by (auto simp: path_join_def components_def normalize_path_def normalize_step_def
        List.map_filter_def starts_with_def)
next
  case False
  then show ?thesis
    using components_join_nonempty [OF False assms] by (simp add: normalize_path_def)
qed

lemma map_filter_safe:
  assumes "list_all (\<lambda>s. s \<noteq> [] \<and> s \<noteq> ''..'' \<and> \<not> reserved_segment s) ss"
  shows "List.map_filter seg_component ss = map Normal (filter (\<lambda>s. s \<noteq> ''.'') ss)"
  using assms by (induction ss) (auto simp: List.map_filter_def seg_component_def)

lemma foldl_normalize_Normal: "foldl normalize_step p (map Normal ss) = p @ map Normal ss"
  by (induction ss arbitrary: p) (simp_all add: normalize_step_def)

lemma safe_no_separator_problem:
  assumes "safe_rel_path p"
  shows "\<not> starts_with p [slash]" "\<not> starts_with p [backslash]"
    "\<not> ends_with p [slash]" "\<not> ends_with p [backslash]"
    "\<not> contains_str p [slash, slash]" "\<not> contains_str p [backslash, backslash]"
    "\<not> contains_str p [slash, backslash]" "\<not> contains_str p [backslash, slash]"
proof -
  have ne: "[] \<notin> set (segments p)"
    using assms by (auto simp: safe_rel_path_def list_all_iff)
  show "\<not> starts_with p [slash]" "\<not> starts_with p [backslash]"
    "\<not> ends_with p [slash]" "\<not> ends_with p [backslash]"
    using ne empty_segment_start empty_segment_end by blast+
  show "\<not> contains_str p [slash, slash]" "\<not> contains_str p [backslash, backslash]"
    "\<not> contains_str p [slash, backslash]" "\<not> contains_str p [backslash, slash]"
    using ne empty_segment_double by blast+
qed

lemma replace_not_leading:
  "\<not> starts_with p [slash] \<Longrightarrow> \<not> starts_with p [backslash] \<Longrightarrow>
   \<not> starts_with (replace_char backslash slash p) [slash]"
  by (cases p) (auto simp: starts_with_def replace_char_def)

lemma normalized_candidate_eq:
  assumes "validate_segments (segments p) = Ok ()"
    and "\<not> starts_with p [slash]" and "\<not> starts_with p [backslash]"
  shows "normalize_path (components (path_join root (replace_char backslash slash p))) =
           destination root p"
proof -
  have safe: "list_all (\<lambda>s. s \<noteq> [] \<and> s \<noteq> ''..'' \<and> \<not> reserved_segment s) (segments p)"
    using assms(1) by (simp add: validate_segments_ok)
  show ?thesis
    using components_normalized_join [OF replace_not_leading [OF assms(2,3)]]
      map_filter_safe [OF safe]
    by (simp add: destination_def foldl_normalize_Normal segments_def)
qed

lemma prefix_destination: "prefix (normalize_path (components root)) (destination root p)"
  by (simp add: destination_def)

lemma validate_rel_path_okD:
  assumes "validate_rel_path p root = Ok q"
  shows "safe_rel_path p" and "q = destination root p"
proof -
  have seg: "validate_segments (segments p) = Ok ()"
    and st: "\<not> starts_with p [slash]" "\<not> starts_with p [backslash]"
    and dr: "\<not> drive_absolute p"
    and q: "q = normalize_path (components (path_join root (replace_char backslash slash p)))"
    using assms
    by (auto simp: validate_rel_path_def Let_def segments_def drive_absolute_def
        split: if_splits sum.splits)
  show "safe_rel_path p" and "q = destination root p"
    using seg dr q normalized_candidate_eq [OF seg st]
    by (simp_all add: safe_rel_path_def validate_segments_ok)
qed

lemma validate_rel_path_okI:
  assumes safe: "safe_rel_path p"
  shows "validate_rel_path p root = Ok (destination root p)"
proof -
  note sep = safe_no_separator_problem [OF safe]
  have dr: "\<not> drive_absolute p" and seg: "validate_segments (segments p) = Ok ()"
    using safe by (auto simp: safe_rel_path_def validate_segments_ok)
  show ?thesis
    using sep dr seg normalized_candidate_eq [OF seg sep(1,2), of root]
      prefix_destination [of root p]
    by (simp add: validate_rel_path_def drive_absolute_def segments_def Let_def)
qed

lemma segments_no_slash: "s \<in> set (segments p) \<Longrightarrow> slash \<notin> set s"
  by (simp add: segments_def split_on_no_sep)

lemma validate_segment_traversal: "validate_segment s = Err PathTraversal \<longleftrightarrow> s = ''..''"
  by (simp add: validate_segment_def Let_def)

lemma segments_plain: "s \<in> set (segments p) \<Longrightarrow> slash \<notin> set s \<and> backslash \<notin> set s"
  using segments_no_slash [of s p] split_on_chars [of s slash "replace_char backslash slash p"] replace_char_notin [of backslash slash p]
  by (auto simp: segments_def)

lemma segments_folded:
  assumes "filter (\<lambda>s. s \<noteq> ''.'') (segments p) \<noteq> []"
  shows "segments (folded p) = filter (\<lambda>s. s \<noteq> ''.'') (segments p)"
proof -
  let ?fs = "filter (\<lambda>s. s \<noteq> ''.'') (segments p)"
  have "backslash \<notin> set (folded p)" using join_with_chars [of backslash slash ?fs] segments_plain by (auto simp: folded_def)
  then have "segments (folded p) = split_on slash (join_with [slash] ?fs)" by (simp add: segments_def replace_char_id folded_def)
  also have "\<dots> = ?fs" using assms segments_plain by (intro split_join_fields) auto
  finally show ?thesis .
qed

lemma rule_5_gap:
  assumes "safe_rel_path p"
  shows "safe_rel_path (folded p) \<longleftrightarrow> \<not> list_all (\<lambda>s. s = ''.'') (segments p) \<and> \<not> drive_absolute (folded p)"
proof (cases "filter (\<lambda>s. s \<noteq> ''.'') (segments p) = []")
  case True
  then show ?thesis by (auto simp: safe_rel_path_def folded_def segments_def replace_char_def filter_empty_conv list_all_iff)
next
  case False
  then show ?thesis using assms segments_folded [OF False] by (auto simp: safe_rel_path_def list_all_iff filter_empty_conv)
qed

section \<open>Properties\<close>

text \<open>
  C1: A relative path is accepted exactly when it has no drive prefix and every segment, after
  unifying the separators, is nonempty, not the parent directory and not a reserved device name (rules 1 to 4 of the
  protocol); the destination is then the normalised save root followed by the segments other than \<open>.\<close>.  Rule 5 of the
  protocol, which applies the other rules again after the segments \<open>.\<close> are folded away, is not enforced: the accepted
  paths that it would refuse are exactly those that have no other segment, which name the save root itself, and those that
  have a drive prefix after the folding.
\<close>

theorem validate_rel_path_accepts_iff:
  "(validate_rel_path p root = Ok q \<longleftrightarrow> safe_rel_path p \<and> q = destination root p) \<and>
   (validate_rel_path p root = Ok (destination root p) \<and> \<not> protocol_rules p \<longleftrightarrow>
      safe_rel_path p \<and> (list_all (\<lambda>s. s = ''.'') (segments p) \<or> drive_absolute (folded p)))"
  using validate_rel_path_okD validate_rel_path_okI rule_5_gap unfolding protocol_rules_def by blast

text \<open>
  An accepted path names a place below the normalised save root: the root is a prefix of it,
  and every component after the root is an ordinary name without separator that is neither empty,
  nor \<open>.\<close>, nor \<open>..\<close>, nor a reserved device name, so no later component can leave the root.
\<close>

theorem validate_rel_path_contained:
  assumes "validate_rel_path p root = Ok q"
  shows "\<exists>names. q = normalize_path (components root) @ map Normal names \<and>
    list_all (\<lambda>s. s \<noteq> [] \<and> s \<noteq> ''.'' \<and> s \<noteq> ''..'' \<and> slash \<notin> set s \<and> \<not> reserved_segment s) names"
proof (intro exI conjI)
  show "q = normalize_path (components root) @ map Normal (filter (\<lambda>s. s \<noteq> ''.'') (segments p))"
    using validate_rel_path_okD(2) [OF assms] by (simp add: destination_def)
  show "list_all (\<lambda>s. s \<noteq> [] \<and> s \<noteq> ''.'' \<and> s \<noteq> ''..'' \<and> slash \<notin> set s
           \<and> \<not> reserved_segment s) (filter (\<lambda>s. s \<noteq> ''.'') (segments p))"
    using validate_rel_path_okD(1) [OF assms] segments_no_slash
    by (auto simp: safe_rel_path_def list_all_iff)
qed

theorem validate_rel_path_contained_witness:
  "\<exists>names. components ''/save/photos/a.jpg'' = normalize_path (components ''/save'') @ map Normal names \<and>
    list_all (\<lambda>s. s \<noteq> [] \<and> s \<noteq> ''.'' \<and> s \<noteq> ''..'' \<and> slash \<notin> set s \<and> \<not> reserved_segment s) names"
proof -
  have "validate_rel_path ''photos/a.jpg'' ''/save'' = Ok (components ''/save/photos/a.jpg'')"
    by code_simp
  from validate_rel_path_contained [OF this] show ?thesis .
qed

end
