(* ===== verification/Receiver.thy ===== *)
theory Receiver
  imports AppState FileSystem PathValidation
begin

text \<open>
  \<^verbatim>\<open>transport/receiver.rs\<close>: the acceptance policy, conflict resolution, the reception of one file and
  of all files of a transfer, and the handling of an offer.  Parameters stand for code outside the
  repository: \<open>h\<close> is BLAKE3 (a hasher is the list of bytes fed to it so far), \<open>show_err\<close> renders an
  error of the message reader, and \<open>io_faults\<close> are the refusals of the operating system.  An incoming
  stream is the list of the results of \<^verbatim>\<open>read_message\<close> on it; reading past its end is an error.  The
  tasks of one transfer are run in the order of the offered items.
\<close>

section \<open>Acceptance policy\<close>

definition TRUSTED_AUTO_ACCEPT_MAX_BYTES :: u64 where
  "TRUSTED_AUTO_ACCEPT_MAX_BYTES = 500 * 1024 * 1024"

definition HIGH_RISK_SUFFIXES :: "string list" where
  "HIGH_RISK_SUFFIXES = [''.app'', ''.bat'', ''.bash'', ''.cmd'', ''.deb'', ''.exe'', ''.msi'', ''.pkg'',
     ''.ps1'', ''.rpm'', ''.sh'', ''.zsh'']"

datatype manual_review_reason = UntrustedOrUnauthenticated | AutoAcceptDisabled | SizeThreshold | HighRisk

datatype auto_accept_decision = AutoAccept | RequireManual manual_review_reason

definition should_auto_accept :: "bool \<Rightarrow> bool \<Rightarrow> bool" where
  "should_auto_accept trusted auto_accept = (trusted \<and> auto_accept)"

definition infer_offer_risk_class :: "file_item \<Rightarrow> risk_class" where
  "infer_offer_risk_class it =
     (case risk_class it of
        Some rc \<Rightarrow> rc
      | None \<Rightarrow>
          (let candidate = to_ascii_lowercase
             (case file_name (components (rel_path it)) of Some n \<Rightarrow> n | None \<Rightarrow> name it)
           in if list_ex (\<lambda>suffix. ends_with candidate suffix) HIGH_RISK_SUFFIXES then High
              else NormalRisk))"

definition determine_auto_accept_decision ::
    "bool \<Rightarrow> bool \<Rightarrow> u64 \<Rightarrow> file_item list \<Rightarrow> auto_accept_decision" where
  "determine_auto_accept_decision trusted_and_authenticated auto_accept total_bytes_offered its =
     (if \<not> trusted_and_authenticated then RequireManual UntrustedOrUnauthenticated
      else if \<not> auto_accept then RequireManual AutoAcceptDisabled
      else if total_bytes_offered > TRUSTED_AUTO_ACCEPT_MAX_BYTES then RequireManual SizeThreshold
      else if list_ex (\<lambda>it. infer_offer_risk_class it = High) its then RequireManual HighRisk
      else AutoAccept)"

definition reject_reason :: "bool \<Rightarrow> string \<times> string" where
  "reject_reason is_timeout =
     (if is_timeout then (''E_TIMEOUT'', ''Timeout'') else (''E_REJECTED_BY_USER'', ''RejectedByReceiver''))"

section \<open>Paths\<close>

definition temp_path_for :: "path \<Rightarrow> path" where
  "temp_path_for p =
     with_file_name p ((case file_name p of Some f \<Rightarrow> f | None \<Rightarrow> ''file'') @ ''.dashdrop.part'')"

definition split_file_name :: "path \<Rightarrow> string \<times> string" where
  "split_file_name p =
     (case file_stem p of Some s \<Rightarrow> s | None \<Rightarrow> ''file'',
      case path_extension p of Some e \<Rightarrow> CHR ''.'' # e | None \<Rightarrow> '''')"

definition conflict_candidate :: "path \<Rightarrow> nat \<Rightarrow> path" where
  "conflict_candidate p idx =
     (let parent = (case path_parent p of Some d \<Rightarrow> d | None \<Rightarrow> [CurDir]);
          (stem, ext) = split_file_name p
      in parent @ [Normal (stem @ '' ('' @ show_nat idx @ '')'' @ ext)])"

definition resolve_conflict_path ::
    "filesystem \<Rightarrow> path \<Rightarrow> file_conflict_strategy \<Rightarrow> string + path option" where
  "resolve_conflict_path fs desired strategy =
     (if fs desired = None then Ok (Some desired)
      else case strategy of
        Overwrite \<Rightarrow> Ok (Some desired)
      | Skip \<Rightarrow> Ok None
      | Rename \<Rightarrow>
          (case find (\<lambda>idx. fs (conflict_candidate desired idx) = None) [1..<10000] of
             Some idx \<Rightarrow> Ok (Some (conflict_candidate desired idx))
           | None \<Rightarrow> Err ''unable to allocate renamed conflict path''))"

definition get_save_root :: "app_config \<Rightarrow> string option \<Rightarrow> string option \<Rightarrow> string \<Rightarrow> string" where
  "get_save_root cfg host_download_dir home tid =
     (let base = (case download_dir cfg of
            Some d \<Rightarrow> d
          | None \<Rightarrow> (case host_download_dir of
               Some d \<Rightarrow> d
             | None \<Rightarrow> path_join (case home of Some d \<Rightarrow> d | None \<Rightarrow> ''/tmp'') ''Downloads''))
      in path_join (path_join base ''DashDrop'') tid)"

section \<open>Receiving one file\<close>

type_synonym stream = "(codec_error + dash_message) list"

record world =
  app :: app_state
  fsys :: filesystem
  acks :: "ack_payload list"

type_synonym file_result = "nat \<times> bool \<times> error_code option"

datatype task_result = Done file_result | Panicked

definition routed_file_id :: "dash_message \<Rightarrow> nat option" where
  "routed_file_id m =
     (case m of Chunk c \<Rightarrow> Some (chunk_file_id c) | Complete c \<Rightarrow> Some (complete_file_id c) | _ \<Rightarrow> None)"

definition read_next :: "stream \<Rightarrow> codec_error + dash_message" where
  "read_next s = (case s of [] \<Rightarrow> Err ReadLen | r # _ \<Rightarrow> r)"

text \<open>The verification and the move into place when \<^verbatim>\<open>Complete\<close> arrives.\<close>

definition finish_file ::
    "(bytes \<Rightarrow> hash) \<Rightarrow> io_faults \<Rightarrow> file_conflict_strategy \<Rightarrow> nat \<Rightarrow> path \<Rightarrow> path \<Rightarrow> bytes \<Rightarrow>
     complete_payload \<Rightarrow> filesystem \<Rightarrow> filesystem \<times> file_result" where
  "finish_file h F strategy fid final_path temp_path hashed c fs =
     (if complete_file_id c \<noteq> fid
      then (fs, (fid, False, Some (ProtocolError ''file_id mismatch in complete'')))
      else case flush_fault F temp_path of
        Some e \<Rightarrow> (try_remove F temp_path fs, (fid, False, Some (io_error_code e)))
      | None \<Rightarrow>
          (if h hashed \<noteq> file_hash c
           then (try_remove F temp_path fs, (fid, False, Some HashMismatch))
           else
             (case (if strategy = Overwrite \<and> fs final_path \<noteq> None
                    then remove_file F final_path fs else Ok fs) of
                Inl e \<Rightarrow> (try_remove F temp_path fs, (fid, False, Some (io_error_code e)))
              | Inr fs1 \<Rightarrow>
                  (case rename_file F temp_path final_path fs1 of
                     Inl e \<Rightarrow> (try_remove F temp_path fs1, (fid, False, Some (io_error_code e)))
                   | Inr fs2 \<Rightarrow> (fs2, (fid, True, None))))))"

fun receive_loop ::
    "(bytes \<Rightarrow> hash) \<Rightarrow> (codec_error \<Rightarrow> string) \<Rightarrow> io_faults \<Rightarrow> file_conflict_strategy \<Rightarrow> string \<Rightarrow> nat \<Rightarrow>
     path \<Rightarrow> path \<Rightarrow> bytes \<Rightarrow> stream \<Rightarrow> world \<Rightarrow> world \<times> file_result" where
  "receive_loop h show_err F strategy tid fid final_path temp_path hashed [] w =
     (w\<lparr>fsys := try_remove F temp_path (fsys w)\<rparr>, (fid, False, Some (ProtocolError (show_err ReadLen))))"
| "receive_loop h show_err F strategy tid fid final_path temp_path hashed (Inl e # rest) w =
     (w\<lparr>fsys := try_remove F temp_path (fsys w)\<rparr>, (fid, False, Some (ProtocolError (show_err e))))"
| "receive_loop h show_err F strategy tid fid final_path temp_path hashed (Inr (Chunk c) # rest) w =
     (if chunk_file_id c \<noteq> fid then (w, (fid, False, Some (ProtocolError ''file_id mismatch'')))
      else case write_file F temp_path (data c) (fsys w) of
        Inl e \<Rightarrow> (w\<lparr>fsys := try_remove F temp_path (fsys w)\<rparr>, (fid, False, Some (io_error_code e)))
      | Inr fs1 \<Rightarrow>
          receive_loop h show_err F strategy tid fid final_path temp_path (hashed @ data c) rest
            (w\<lparr>fsys := fs1, app := add_progress tid (length (data c)) (app w)\<rparr>))"
| "receive_loop h show_err F strategy tid fid final_path temp_path hashed (Inr (Complete c) # rest) w =
     (case finish_file h F strategy fid final_path temp_path hashed c (fsys w) of
        (fs1, res) \<Rightarrow> (w\<lparr>fsys := fs1\<rparr>, res))"
| "receive_loop h show_err F strategy tid fid final_path temp_path hashed (Inr (Cancel r) # rest) w =
     (w\<lparr>fsys := try_remove F temp_path (fsys w)\<rparr>, (fid, False, Some Cancelled))"
| "receive_loop h show_err F strategy tid fid final_path temp_path hashed (Inr m # rest) w =
     (w\<lparr>fsys := try_remove F temp_path (fsys w)\<rparr>, (fid, False, Some (ProtocolError ''unexpected message'')))"

definition receive_directory ::
    "(bytes \<Rightarrow> hash) \<Rightarrow> io_faults \<Rightarrow> nat \<Rightarrow> path \<Rightarrow> dash_message \<Rightarrow> filesystem \<Rightarrow> filesystem \<times> file_result" where
  "receive_directory h F fid p msg fs =
     (case msg of
        Complete c \<Rightarrow>
          (if complete_file_id c \<noteq> fid
           then (fs, (fid, False, Some (ProtocolError ''file_id mismatch in complete'')))
           else if file_hash c \<noteq> h [] then (fs, (fid, False, Some HashMismatch))
           else case create_dir_all F p fs of
             Inl e \<Rightarrow> (fs, (fid, False, Some (io_error_code e)))
           | Inr fs1 \<Rightarrow> (fs1, (fid, True, None)))
      | Cancel _ \<Rightarrow> (fs, (fid, False, Some Cancelled))
      | _ \<Rightarrow> (fs, (fid, False, Some (ProtocolError ''expected Complete for directory''))))"

text \<open>Opening the temporary file: resuming appends to it, otherwise it is created empty.\<close>

datatype open_result = Opened filesystem | OpenFailed filesystem io_error | OpenPanicked filesystem

definition resume_offset :: "io_faults \<Rightarrow> path \<Rightarrow> u64 \<Rightarrow> filesystem \<Rightarrow> filesystem \<times> nat" where
  "resume_offset F temp_path expected fs =
     (if fs temp_path = None then (fs, 0)
      else if file_len fs temp_path > expected then (try_remove F temp_path fs, 0)
      else (fs, file_len fs temp_path))"

definition open_temp :: "io_faults \<Rightarrow> path \<Rightarrow> u64 \<Rightarrow> filesystem \<Rightarrow> open_result" where
  "open_temp F temp_path expected fs0 =
     (case resume_offset F temp_path expected fs0 of (fs, current) \<Rightarrow>
        if current > 0
        then (case open_append F temp_path fs of
                Inr fs1 \<Rightarrow> Opened fs1
              | Inl _ \<Rightarrow>
                  (let fs1 = try_remove F temp_path fs in
                   case create_file F temp_path fs1 of
                     Inr fs2 \<Rightarrow> Opened fs2
                   | Inl _ \<Rightarrow> OpenPanicked fs1))
        else (case create_file F temp_path fs of
                Inr fs1 \<Rightarrow> Opened fs1
              | Inl e \<Rightarrow> OpenFailed fs e))"

definition receive_regular ::
    "(bytes \<Rightarrow> hash) \<Rightarrow> (codec_error \<Rightarrow> string) \<Rightarrow> io_faults \<Rightarrow> string \<Rightarrow> file_item \<Rightarrow> path \<Rightarrow> dash_message \<Rightarrow>
     stream \<Rightarrow> world \<Rightarrow> world \<times> task_result" where
  "receive_regular h show_err F tid it desired first_msg rest w =
     (let fid = file_id it; strategy = conflict_strategy (config (app w)) in
      case resolve_conflict_path (fsys w) desired strategy of
        Inl e \<Rightarrow> (w, Done (fid, False, Some (ProtocolError e)))
      | Inr None \<Rightarrow> (w, Done (fid, False, Some PathConflict))
      | Inr (Some final_path) \<Rightarrow>
          (case (case path_parent final_path of
                   Some d \<Rightarrow> create_dir_all F d (fsys w) | None \<Rightarrow> Ok (fsys w)) of
             Inl e \<Rightarrow> (w, Done (fid, False, Some (io_error_code e)))
           | Inr fs1 \<Rightarrow>
               (let temp_path = temp_path_for final_path in
                case open_temp F temp_path (size_bytes it) fs1 of
                  OpenFailed fs2 e \<Rightarrow> (w\<lparr>fsys := fs2\<rparr>, Done (fid, False, Some (io_error_code e)))
                | OpenPanicked fs2 \<Rightarrow> (w\<lparr>fsys := fs2\<rparr>, Panicked)
                | Opened fs2 \<Rightarrow>
                    (case receive_loop h show_err F strategy tid fid final_path temp_path []
                            (Inr first_msg # rest) (w\<lparr>fsys := fs2\<rparr>) of
                       (w', res) \<Rightarrow> (w', Done res)))))"

definition receive_one_file ::
    "(bytes \<Rightarrow> hash) \<Rightarrow> (codec_error \<Rightarrow> string) \<Rightarrow> io_faults \<Rightarrow> string \<Rightarrow> string \<Rightarrow> file_item \<Rightarrow> dash_message \<Rightarrow>
     stream \<Rightarrow> world \<Rightarrow> world \<times> task_result" where
  "receive_one_file h show_err F save_root tid it first_msg rest w =
     (case validate_rel_path (rel_path it) save_root of
        Inl _ \<Rightarrow> (w, Done (file_id it, False, Some InvalidPath))
      | Inr p \<Rightarrow>
          (if file_type it = Directory
           then (case receive_directory h F (file_id it) p first_msg (fsys w) of
                   (fs1, res) \<Rightarrow> (w\<lparr>fsys := fs1\<rparr>, Done res))
           else receive_regular h show_err F tid it p first_msg rest w))"

section \<open>Receiving all files\<close>

datatype item_plan = PlanInvalid | PlanConflict | PlanReceive

fun plan_items :: "string \<Rightarrow> path list \<Rightarrow> file_item list \<Rightarrow> (file_item \<times> item_plan) list" where
  "plan_items root seen [] = []"
| "plan_items root seen (it # its) =
     (case validate_rel_path (rel_path it) root of
        Inl _ \<Rightarrow> (it, PlanInvalid) # plan_items root seen its
      | Inr p \<Rightarrow>
          (if p \<in> set seen then (it, PlanConflict) # plan_items root seen its
           else (it, PlanReceive) # plan_items root (p # seen) its))"

text \<open>
  The dispatcher: each stream is routed by the file id of its first message to the task that waits
  for that id; a \<^verbatim>\<open>Cancel\<close> closes all open routes and stops it.
\<close>

fun dispatch :: "nat list \<Rightarrow> stream list \<Rightarrow> (nat \<rightharpoonup> dash_message \<times> stream) \<times> bool" where
  "dispatch routes [] = (Map.empty, False)"
| "dispatch routes (s # ss) =
     (case read_next s of
        Inl _ \<Rightarrow> dispatch routes ss
      | Inr m \<Rightarrow>
          (case m of
             Cancel _ \<Rightarrow> (Map.empty, True)
           | _ \<Rightarrow>
               (case routed_file_id m of
                  None \<Rightarrow> dispatch routes ss
                | Some i \<Rightarrow>
                    (if i \<in> set routes
                     then (case dispatch (removeAll i routes) ss of (d, c) \<Rightarrow> (d(i \<mapsto> (m, tl s)), c))
                     else dispatch routes ss))))"

definition send_ack :: "nat \<Rightarrow> bool \<Rightarrow> error_code option \<Rightarrow> world \<Rightarrow> world" where
  "send_ack fid ok reason w =
     w\<lparr>acks := acks w @ [\<lparr>ack_file_id = fid, ack_ok = ok, ack_reason = reason\<rparr>]\<rparr>"

definition refuse :: "nat \<Rightarrow> error_code \<Rightarrow> world \<Rightarrow> world \<times> task_result" where
  "refuse fid reason w = (send_ack fid False (Some reason) w, Done (fid, False, Some reason))"

text \<open>
  One task.  \<open>superseded\<close>: a later item with the same file id has taken over the route, so this task's
  channel was closed.
\<close>

definition run_task ::
    "(bytes \<Rightarrow> hash) \<Rightarrow> (codec_error \<Rightarrow> string) \<Rightarrow> io_faults \<Rightarrow> string \<Rightarrow> string \<Rightarrow>
     (nat \<rightharpoonup> dash_message \<times> stream) \<Rightarrow> bool \<Rightarrow> bool \<Rightarrow> file_item \<Rightarrow> item_plan \<Rightarrow> world \<Rightarrow> world \<times> task_result" where
  "run_task h show_err F root tid routed cancelled superseded it plan w =
     (let fid = file_id it in
      case plan of
        PlanInvalid \<Rightarrow> refuse fid InvalidPath w
      | PlanConflict \<Rightarrow> refuse fid PathConflict w
      | PlanReceive \<Rightarrow>
          (case (if superseded then None else routed fid) of
             None \<Rightarrow>
               (if cancelled then (w, Done (fid, False, Some Cancelled))
                else if superseded then refuse fid (ProtocolError ''stream route closed'') w
                else refuse fid (ProtocolError ''stream route timeout'') w)
           | Some (m, rest) \<Rightarrow>
               (case receive_one_file h show_err F root tid it m rest w of
                  (w1, Panicked) \<Rightarrow> (w1, Panicked)
                | (w1, Done (i, ok, reason)) \<Rightarrow> (send_ack i ok reason w1, Done (i, ok, reason)))))"

fun run_tasks ::
    "(bytes \<Rightarrow> hash) \<Rightarrow> (codec_error \<Rightarrow> string) \<Rightarrow> io_faults \<Rightarrow> string \<Rightarrow> string \<Rightarrow>
     (nat \<rightharpoonup> dash_message \<times> stream) \<Rightarrow> bool \<Rightarrow> (file_item \<times> item_plan) list \<Rightarrow> world \<Rightarrow> world \<times> task_result list" where
  "run_tasks h show_err F root tid routed cancelled [] w = (w, [])"
| "run_tasks h show_err F root tid routed cancelled ((it, plan) # tasks) w =
     (let superseded = list_ex (\<lambda>(it', plan'). plan' = PlanReceive \<and> file_id it' = file_id it) tasks;
          (w1, res) = run_task h show_err F root tid routed cancelled superseded it plan w;
          (w2, ress) = run_tasks h show_err F root tid routed cancelled tasks w1
      in (w2, res # ress))"

definition success_count :: "task_result list \<Rightarrow> nat" where
  "success_count rs = length (filter (\<lambda>r. case r of Done (i, ok, reason) \<Rightarrow> ok | Panicked \<Rightarrow> False) rs)"

definition failed_files :: "file_item list \<Rightarrow> task_result list \<Rightarrow> failed_file list" where
  "failed_files its rs =
     List.map_filter (\<lambda>r. case r of
        Done (i, False, reason) \<Rightarrow>
          Some \<lparr>failed_file_id = i,
                failed_name = (case find (\<lambda>it. file_id it = i) its of Some it \<Rightarrow> name it | None \<Rightarrow> ''''),
                failed_reason = (case reason of Some e \<Rightarrow> e | None \<Rightarrow> ProtocolError ''unknown'')\<rparr>
      | _ \<Rightarrow> None) rs"

definition receive_outcome :: "bool \<Rightarrow> file_item list \<Rightarrow> task_result list \<Rightarrow> transfer_outcome" where
  "receive_outcome cancelled its rs =
     (let bad = failed_files its rs in
      if cancelled then OutcomeCancelledBySender
      else if bad = [] then Success
      else if success_count rs > 0 then PartialSuccess bad
      else OutcomeFailed (ProtocolError ''all files failed''))"

definition receive_files ::
    "(bytes \<Rightarrow> hash) \<Rightarrow> (codec_error \<Rightarrow> string) \<Rightarrow> io_faults \<Rightarrow> string \<Rightarrow> string \<Rightarrow> file_item list \<Rightarrow>
     stream list \<Rightarrow> world \<Rightarrow> world \<times> transfer_outcome" where
  "receive_files h show_err F root tid its streams w =
     (let tasks = plan_items root [] its;
          routes = map (\<lambda>(it, plan). file_id it) (filter (\<lambda>(it, plan). plan = PlanReceive) tasks);
          (routed, cancelled) = dispatch routes streams;
          (w1, ress) = run_tasks h show_err F root tid routed cancelled tasks w
      in (w1, receive_outcome cancelled its ress))"

section \<open>Handling an offer\<close>

datatype user_response = Responded bool | ResponderDropped | ResponseTimeout

text \<open>What the handler reads from its surroundings.\<close>

record offer_env =
  env_clock :: clock
  env_lock_ok :: bool
  env_uuid :: string
  env_host_download_dir :: "string option"
  env_home :: "string option"
  env_disks :: "(string \<times> u64) list"
  env_response :: user_response
  env_control_ok :: bool
  env_version :: nat
  env_peer_fp :: string
  env_peer_authenticated :: bool
  env_conn :: nat
  env_streams :: "stream list"

record offer_result =
  res_world :: world
  res_control :: "dash_message list"
  res_error :: bool

definition register_offer :: "offer_env \<Rightarrow> offer_payload \<Rightarrow> app_state \<Rightarrow> app_state" where
  "register_offer env off st =
     set_task
       \<lparr>task_id = transfer_id off, batch_id = None, direction = Receive, peer_fingerprint = env_peer_fp env,
        peer_name = sender_name off, task_items = map item_meta (items off), status = PendingAccept,
        bytes_transferred = 0, total_bytes = total_size off, revision = 0,
        started_at_unix = unix_now (env_clock env), ended_at_unix = None, terminal_reason_code = None,
        task_error = None, source_paths = None, source_path_by_file_id = None, failed_file_ids = None,
        conn = Some (env_conn env), ended_at = None\<rparr> st"

fun match_disk :: "path \<Rightarrow> nat \<Rightarrow> u64 option \<Rightarrow> (string \<times> u64) list \<Rightarrow> u64 option" where
  "match_disk root best found [] = found"
| "match_disk root best found ((mount, available) # disks) =
     (if prefix (components mount) root \<and> length mount > best
      then match_disk root (length mount) (Some available) disks
      else match_disk root best found disks)"

definition sufficient_space :: "path \<Rightarrow> (string \<times> u64) list \<Rightarrow> u64 \<Rightarrow> bool" where
  "sufficient_space root disks needed =
     (case match_disk root 0 None disks of Some available \<Rightarrow> \<not> available < needed | None \<Rightarrow> True)"

definition set_error :: "string \<Rightarrow> string \<Rightarrow> app_state \<Rightarrow> app_state" where
  "set_error tid msg st =
     (case map_of (transfers st) tid of
        Some t \<Rightarrow> st\<lparr>transfers := AList.update tid (t\<lparr>task_error := Some msg\<rparr>) (transfers st)\<rparr>
      | None \<Rightarrow> st)"

text \<open>Setting a terminal status and telling the user interface.\<close>

definition end_transfer ::
    "offer_env \<Rightarrow> string \<Rightarrow> transfer_status \<Rightarrow> string option \<Rightarrow> app_state \<Rightarrow> app_state" where
  "end_transfer env tid s reason st = fst (update_transfer_status (env_clock env) (env_lock_ok env) tid s reason st)"

definition emit_terminal ::
    "string \<Rightarrow> transfer_status \<Rightarrow> string \<Rightarrow> string \<Rightarrow> string \<Rightarrow> app_state \<Rightarrow> app_state" where
  "emit_terminal tid s reason cause phase st =
     emit (EvTerminal tid s reason cause (transfer_revision st tid) phase) st"

definition emit_error ::
    "string \<Rightarrow> string \<Rightarrow> string \<Rightarrow> string \<Rightarrow> string \<Rightarrow> app_state \<Rightarrow> app_state" where
  "emit_error tid reason cause phase detail st =
     emit (EvError tid reason cause phase (transfer_revision st tid) detail) st"

text \<open>
  Announcing the offer and deciding on it.  The handler registers a responder for the transfer and
  waits; whoever answers has taken the responder out of the table (\<^verbatim>\<open>core_service.rs\<close>), a timeout leaves it.
\<close>

definition announce_offer :: "offer_env \<Rightarrow> offer_payload \<Rightarrow> app_state \<Rightarrow> app_state" where
  "announce_offer env off st =
     (let tid = transfer_id off; fp = env_peer_fp env; trusted = is_active_trust (trusted_peers st) fp;
          (st1, nid) = ensure_incoming_request_notification (env_clock env) (env_uuid env) tid st;
          st2 = emit (EvIncoming tid nid trusted (total_size off) (transfer_revision st1 tid)) st1
      in record_receiver_fallback_prompted (env_clock env) tid fp st2)"

definition decide_offer :: "offer_env \<Rightarrow> offer_payload \<Rightarrow> app_state \<Rightarrow> app_state \<times> bool \<times> bool" where
  "decide_offer env off st =
     (let decision = determine_auto_accept_decision
            (is_active_trust (trusted_peers st) (env_peer_fp env) \<and> env_peer_authenticated env)
            (auto_accept_trusted_only (config st)) (total_size off) (items off)
      in if decision = AutoAccept then (st, True, False)
         else
           (let tid = transfer_id off;
                st1 = fst (ensure_incoming_request_notification (env_clock env) (env_uuid env) tid st);
                st2 = st1\<lparr>pending_accepts := List.insert tid (pending_accepts st1)\<rparr>;
                answered = st2\<lparr>pending_accepts := removeAll tid (pending_accepts st2)\<rparr>
            in case env_response env of
                 Responded v \<Rightarrow> (answered, v, False)
               | ResponderDropped \<Rightarrow> (answered, False, False)
               | ResponseTimeout \<Rightarrow> (st2, False, True)))"

text \<open>
  The resume offsets for the \<^verbatim>\<open>Accept\<close> message; a temporary file that is too long is removed.  The map is
  given by its entries, the last inserted first.
\<close>

fun resume_offsets_for ::
    "io_faults \<Rightarrow> string \<Rightarrow> file_conflict_strategy \<Rightarrow> file_item list \<Rightarrow> filesystem \<Rightarrow> filesystem \<times> (nat \<times> u64) list" where
  "resume_offsets_for F root strategy [] fs = (fs, [])"
| "resume_offsets_for F root strategy (it # its) fs =
     (case validate_rel_path (rel_path it) root of
        Inl _ \<Rightarrow> resume_offsets_for F root strategy its fs
      | Inr p \<Rightarrow>
          (let final_path = (case resolve_conflict_path fs p strategy of Inr (Some q) \<Rightarrow> q | _ \<Rightarrow> p);
               temp_path = temp_path_for final_path;
               current = file_len fs temp_path
           in if fs temp_path = None then resume_offsets_for F root strategy its fs
              else if current > 0 \<and> current \<le> size_bytes it
              then (case resume_offsets_for F root strategy its fs of (fs1, m) \<Rightarrow>
                      (fs1, m @ [(file_id it, current)]))
              else if current > size_bytes it
              then resume_offsets_for F root strategy its (try_remove F temp_path fs)
              else resume_offsets_for F root strategy its fs))"

definition finish_offer :: "offer_env \<Rightarrow> offer_payload \<Rightarrow> transfer_outcome \<Rightarrow> app_state \<Rightarrow> app_state" where
  "finish_offer env off outcome st =
     (let tid = transfer_id off in
      case outcome of
        Success \<Rightarrow>
          (let st1 = end_transfer env tid Completed None st
           in emit (EvComplete tid (transfer_revision st1 tid)) st1)
      | PartialSuccess bad \<Rightarrow>
          (let st1 = end_transfer env tid PartialCompleted None st
           in emit (EvPartial tid (length (items off) - length bad) bad (transfer_revision st1 tid)) st1)
      | OutcomeFailed e \<Rightarrow>
          (let st1 = end_transfer env tid StFailed (Some (reason_code e)) st;
               st2 = emit_terminal tid StFailed (reason_code e) ''NetworkDropped'' ''receive'' st1
           in emit_error tid (reason_code e) ''NetworkDropped'' ''receive'' (error_display e) st2)
      | OutcomeCancelledBySender \<Rightarrow>
          (let st1 = end_transfer env tid CancelledBySender (Some ''E_CANCELLED_BY_SENDER'') st
           in emit_terminal tid CancelledBySender ''E_CANCELLED_BY_SENDER'' ''CancelledBySender'' ''receive'' st1)
      | OutcomeCancelledByReceiver \<Rightarrow>
          (let st1 = end_transfer env tid CancelledByReceiver (Some ''E_CANCELLED_BY_RECEIVER'') st
           in emit_terminal tid CancelledByReceiver ''E_CANCELLED_BY_RECEIVER'' ''CancelledByReceiver'' ''receive'' st1))"

definition reject_offer :: "offer_env \<Rightarrow> offer_payload \<Rightarrow> bool \<Rightarrow> world \<Rightarrow> offer_result" where
  "reject_offer env off is_timeout w =
     (let tid = transfer_id off; (reason, cause) = reject_reason is_timeout in
      if \<not> env_control_ok env then \<lparr>res_world = w, res_control = [], res_error = True\<rparr>
      else
        (let st1 = end_transfer env tid StRejected (Some reason) (app w)
         in \<lparr>res_world = w\<lparr>app := emit_terminal tid StRejected reason cause ''offer'' st1\<rparr>,
             res_control = [Reject Rejected], res_error = False\<rparr>))"

definition refuse_disk_full :: "offer_env \<Rightarrow> offer_payload \<Rightarrow> world \<Rightarrow> offer_result" where
  "refuse_disk_full env off w =
     (let tid = transfer_id off in
      if \<not> env_control_ok env then \<lparr>res_world = w, res_control = [], res_error = True\<rparr>
      else
        (let st1 = set_error tid ''Insufficient disk space''
               (end_transfer env tid StFailed (Some ''E_DISK_FULL'') (app w))
         in \<lparr>res_world = w\<lparr>app := emit_terminal tid StFailed ''E_DISK_FULL'' ''DiskFull'' ''preflight'' st1\<rparr>,
             res_control = [Reject DiskFull], res_error = False\<rparr>))"

definition accept_offer ::
    "(bytes \<Rightarrow> hash) \<Rightarrow> (codec_error \<Rightarrow> string) \<Rightarrow> io_faults \<Rightarrow> offer_env \<Rightarrow> offer_payload \<Rightarrow> string \<Rightarrow> world \<Rightarrow> offer_result" where
  "accept_offer h show_err F env off save_root w =
     (let tid = transfer_id off;
          (st1, rev1) = update_transfer_status (env_clock env) (env_lock_ok env) tid Transferring None (app w);
          st2 = emit (EvAccepted tid (case rev1 of Some r \<Rightarrow> r | None \<Rightarrow> 0)) st1;
          st3 = st2\<lparr>trusted_peers := mark_peer_used (unix_now (env_clock env)) (env_peer_fp env) (trusted_peers st2)\<rparr>;
          (fs1, offs) = resume_offsets_for F save_root (conflict_strategy (config st3)) (items off) (fsys w);
          w1 = w\<lparr>app := st3, fsys := fs1\<rparr>;
          reply = Accept \<lparr>chosen_version = env_version env,
                          resume_offsets = (if offs = [] then None else Some (map_of offs))\<rparr>
      in if \<not> env_control_ok env then \<lparr>res_world = w1, res_control = [], res_error = True\<rparr>
         else
           (case create_dir_all F (components save_root) fs1 of
              Inl e \<Rightarrow>
                (let reason = io_error_code e;
                     st4 = end_transfer env tid StFailed (Some (reason_code reason)) st3;
                     st5 = emit_terminal tid StFailed (reason_code reason) ''ReceiverStorageError'' ''receive_setup'' st4;
                     st6 = emit_error tid (reason_code reason) ''ReceiverStorageError'' ''receive_setup'' (io_text e) st5
                 in \<lparr>res_world = w1\<lparr>app := st6\<rparr>, res_control = [reply, Cancel (CancelError reason)],
                     res_error = False\<rparr>)
            | Inr fs2 \<Rightarrow>
                (let (w2, outcome) = receive_files h show_err F save_root tid (items off) (env_streams env) (w1\<lparr>fsys := fs2\<rparr>)
                 in \<lparr>res_world = w2\<lparr>app := finish_offer env off outcome (app w2)\<rparr>, res_control = [reply],
                     res_error = False\<rparr>)))"

definition handle_offer ::
    "(bytes \<Rightarrow> hash) \<Rightarrow> (codec_error \<Rightarrow> string) \<Rightarrow> io_faults \<Rightarrow> offer_env \<Rightarrow> offer_payload \<Rightarrow> world \<Rightarrow> offer_result" where
  "handle_offer h show_err F env off w0 =
     (let w = w0\<lparr>app := register_offer env off (app w0)\<rparr>;
          save_root = get_save_root (config (app w)) (env_host_download_dir env) (env_home env) (transfer_id off)
      in if \<not> sufficient_space (components save_root) (env_disks env) (total_size off)
         then refuse_disk_full env off w
         else
           (let st1 = announce_offer env off (app w);
                (st2, accepted, is_timeout) = decide_offer env off st1;
                w1 = w\<lparr>app := st2\<rparr>
            in if \<not> accepted then reject_offer env off is_timeout w1
               else accept_offer h show_err F env off save_root w1))"

fun opened_fs :: "open_result \<Rightarrow> filesystem" where
  "opened_fs (Opened fs) = fs"
| "opened_fs (OpenFailed fs e) = fs"
| "opened_fs (OpenPanicked fs) = fs"

text \<open>The names of the temporary files of running receptions.\<close>

definition is_part_file :: "path \<Rightarrow> bool" where
  "is_part_file q = (case file_name q of Some n \<Rightarrow> ends_with n ''.dashdrop.part'' | None \<Rightarrow> False)"

definition sample_item :: file_item where
  "sample_item = \<lparr>file_id = 1, name = ''a'', rel_path = ''a'', size_bytes = 4, file_type = RegularFile, modified = 0,
     risk_class = None, source_snapshot = None\<rparr>"

definition sample_world :: world where
  "sample_world = \<lparr>app = sample_app, fsys = (\<lambda>q. if q = [RootDir] \<or> q = components ''/s'' then Some DirNode else None),
     acks = []\<rparr>"

definition sample_run :: "world \<times> task_result" where
  "sample_run = receive_one_file (\<lambda>b. b) (\<lambda>_. []) no_faults ''/s'' ''t'' sample_item
     (Chunk \<lparr>chunk_file_id = 1, chunk_id = 0, offset = 0, data = [7, 8]\<rparr>)
     [Inr (Complete \<lparr>complete_file_id = 1, file_hash = [7, 8]\<rparr>)] sample_world"

definition resumed_world :: world where
  "resumed_world = sample_world\<lparr>fsys := (fsys sample_world)(components ''/s/a.dashdrop.part'' \<mapsto> FileNode [1])\<rparr>"

definition resumed_run :: "world \<times> task_result" where
  "resumed_run = receive_one_file (\<lambda>b. b) (\<lambda>_. []) no_faults ''/s'' ''t'' sample_item
     (Chunk \<lparr>chunk_file_id = 1, chunk_id = 0, offset = 1, data = [7, 8]\<rparr>)
     [Inr (Complete \<lparr>complete_file_id = 1, file_hash = [7, 8]\<rparr>)] resumed_world"

section \<open>Facts\<close>

subsection \<open>The receive loop\<close>

lemma finish_file_changed:
  "changed fs (fst (finish_file h F strategy fid final_path temp_path hashed c fs)) \<subseteq> {temp_path, final_path}"
proof -
  let ?X = "{temp_path, final_path}"
  let ?clear = "if strategy = Overwrite \<and> fs final_path \<noteq> None then remove_file F final_path fs else Ok fs"
  have rm: "changed fs' (try_remove F temp_path fs') \<subseteq> ?X" for fs'
    using try_remove_changed [of fs' F temp_path] by blast
  show ?thesis
  proof (cases "complete_file_id c = fid \<and> flush_fault F temp_path = None \<and> h hashed = file_hash c")
    case False
    then show ?thesis using rm by (auto simp: finish_file_def split: option.splits)
  next
    case True
    show ?thesis
    proof (cases ?clear)
      case (Inl e)
      then show ?thesis using True rm [of fs] by (simp add: finish_file_def)
    next
      case (Inr fs1)
      have c1: "changed fs fs1 \<subseteq> ?X"
        using Inr changed_upd [of fs final_path None] by (auto simp: remove_file_def split: if_splits option.splits)
      show ?thesis
      proof (cases "rename_file F temp_path final_path fs1")
        case (Inl e)
        then show ?thesis using True Inr changed_trans [OF c1 rm [of fs1]] by (simp add: finish_file_def)
      next
        case fs2: (Inr fs2)
        have "changed fs1 fs2 \<subseteq> ?X" using rename_file_eq [OF fs2] by (auto simp: changed_def split: if_splits)
        then show ?thesis using True Inr fs2 changed_trans [OF c1] by (simp add: finish_file_def)
      qed
    qed
  qed
qed

lemma receive_loop_changed:
  "changed (fsys w) (fsys (fst (receive_loop h show_err F strategy tid fid final_path temp_path hashed s w)))
     \<subseteq> {temp_path, final_path}"
proof (induction h show_err F strategy tid fid final_path temp_path hashed s w rule: receive_loop.induct)
  case (3 h show_err F strategy tid fid final_path temp_path hashed c rest w)
  show ?case
  proof (cases "chunk_file_id c = fid")
    case True
    show ?thesis
    proof (cases "write_file F temp_path (data c) (fsys w)")
      case (Inl e)
      then show ?thesis using True try_remove_changed [of "fsys w" F temp_path] by auto
    next
      case (Inr fs1)
      then have "changed (fsys w) fs1 \<subseteq> {temp_path, final_path}"
        using write_file_eq [OF Inr] changed_upd by blast
      then show ?thesis using "3.IH" [of fs1] True Inr by (simp add: changed_trans)
    qed
  qed simp
next
  case (4 h show_err F strategy tid fid final_path temp_path hashed c rest w)
  then show ?case
    using finish_file_changed [of "fsys w" h F strategy fid final_path temp_path hashed c]
    by (simp split: prod.split) force
qed (use try_remove_changed in \<open>force+\<close>)

lemma receive_loop_app:
  "\<exists>t'. map_of (transfers (app (fst (receive_loop h show_err F strategy tid fid final_path temp_path hashed s w)))) tid = Some t'
      \<and> status t' = status t \<and> revision t' = revision t"
  if "map_of (transfers (app w)) tid = Some t"
  using that
proof (induction h show_err F strategy tid fid final_path temp_path hashed s w arbitrary: t rule: receive_loop.induct)
  case (3 h show_err F strategy tid fid final_path temp_path hashed c rest w)
  show ?case
  proof (cases "chunk_file_id c = fid \<and> (\<exists>fs1. write_file F temp_path (data c) (fsys w) = Ok fs1)")
    case True
    then obtain fs1 where fs1: "chunk_file_id c = fid" "write_file F temp_path (data c) (fsys w) = Ok fs1" by blast
    have "map_of (transfers (add_progress tid (length (data c)) (app w))) tid =
        Some (t\<lparr>bytes_transferred := bytes_transferred t + length (data c)\<rparr>)"
      using "3.prems" by (simp add: add_progress_def Let_def emit_def schedule_progress_persist_def update_conv')
    from "3.IH" [OF _ fs1(2)] this fs1 show ?thesis by fastforce
  next
    case False
    then show ?thesis using "3.prems" by (auto split: sum.split)
  qed
qed (auto split: prod.split)

lemma receive_loop_success:
  assumes "snd (receive_loop h show_err F strategy tid fid final_path temp_path hashed s w) = (i, True, r)"
    and "temp_path \<noteq> final_path"
  shows "\<exists>cs c rest b. s = map (\<lambda>x. Inr (Chunk x)) cs @ Inr (Complete c) # rest \<and>
      fsys w temp_path = Some (FileNode b) \<and> h (hashed @ concat (map data cs)) = file_hash c \<and>
      fsys (fst (receive_loop h show_err F strategy tid fid final_path temp_path hashed s w)) final_path =
        Some (FileNode (b @ concat (map data cs)))"
  using assms
proof (induction h show_err F strategy tid fid final_path temp_path hashed s w rule: receive_loop.induct)
  case (3 h show_err F strategy tid fid final_path temp_path hashed c rest w)
  then obtain fs1 where fs1: "chunk_file_id c = fid" "write_file F temp_path (data c) (fsys w) = Ok fs1"
    by (auto split: if_splits sum.splits)
  obtain b where b: "fsys w temp_path = Some (FileNode b)" "fs1 = (fsys w)(temp_path \<mapsto> FileNode (b @ data c))"
    using write_file_eq [OF fs1(2)] by blast
  obtain cs cc rest' where "rest = map (\<lambda>x. Inr (Chunk x)) cs @ Inr (Complete cc) # rest'"
      "h (hashed @ data c @ concat (map data cs)) = file_hash cc"
      "fsys (fst (receive_loop h show_err F strategy tid fid final_path temp_path (hashed @ data c) rest
          (w\<lparr>fsys := fs1, app := add_progress tid (length (data c)) (app w)\<rparr>))) final_path =
        Some (FileNode ((b @ data c) @ concat (map data cs)))"
    using "3.IH" [OF _ fs1(2)] "3.prems" fs1 b(2) by (auto split: if_splits)
  then show ?case using fs1 b(1) by (intro exI [of _ "c # cs"] exI [of _ cc]) simp
next
  case (4 h show_err F strategy tid fid final_path temp_path hashed c rest w)
  let ?fs = "fsys w"
  obtain fs1 fs2 where hash: "h hashed = file_hash c"
    and fs1: "(if strategy = Overwrite \<and> ?fs final_path \<noteq> None then remove_file F final_path ?fs else Ok ?fs) = Ok fs1"
    and fs2: "rename_file F temp_path final_path fs1 = Ok fs2"
    and res: "finish_file h F strategy fid final_path temp_path hashed c ?fs = (fs2, fid, True, None)"
    using "4.prems"(1) by (auto simp: finish_file_def split: prod.splits if_splits option.splits sum.splits)
  obtain b where b: "fs1 temp_path = Some (FileNode b)" "fs2 = (fs1(temp_path := None))(final_path \<mapsto> FileNode b)"
    using rename_file_eq [OF fs2] by blast
  have "fs1 temp_path = ?fs temp_path"
    using fs1 "4.prems"(2) by (auto simp: remove_file_def split: if_splits option.splits)
  then show ?case
    using hash b res by (intro exI [of _ "[]"] exI [of _ c] exI [of _ rest] exI [of _ b]) simp
qed (auto split: prod.splits)

subsection \<open>Where a file goes\<close>

lemma validated_shape:
  assumes "validate_rel_path rp root = Ok p" and "p \<noteq> normalize_path (components root)"
  shows "\<exists>d n. p = (normalize_path (components root) @ d) @ [Normal n]"
proof -
  let ?ns = "filter (\<lambda>s. s \<noteq> ''.'') (segments rp)"
  have p: "p = normalize_path (components root) @ map Normal ?ns"
    using validate_rel_path_okD(2) [OF assms(1)] by (simp add: destination_def)
  then have "?ns \<noteq> []" using assms(2) by auto
  then obtain ms n where "?ns = ms @ [n]" by (metis rev_exhaust)
  then show ?thesis using p by auto
qed

lemma temp_path_snoc [simp]: "temp_path_for (b @ [Normal n]) = b @ [Normal (n @ ''.dashdrop.part'')]"
  by (simp add: temp_path_for_def)

lemma conflict_candidate_snoc: "\<exists>m. conflict_candidate (b @ [Normal n]) idx = b @ [Normal m]"
  by (simp add: conflict_candidate_def split_file_name_def)

lemma resolve_conflict_shape:
  assumes "resolve_conflict_path fs (b @ [Normal n]) strategy = Ok (Some q)"
  shows "\<exists>m. q = b @ [Normal m]" and "strategy \<noteq> Overwrite \<Longrightarrow> fs q = None"
  using assms conflict_candidate_snoc [of b n]
  by (auto simp: resolve_conflict_path_def find_Some_iff split: if_splits file_conflict_strategy.splits option.splits)

lemma create_file_changed: "create_file F p fs = Ok fs' \<Longrightarrow> changed fs fs' \<subseteq> {p}"
  using create_file_eq changed_upd by metis

lemma open_append_same: "open_append F p fs = Ok fs' \<Longrightarrow> fs' = fs"
  by (auto simp: open_append_def split: option.splits if_splits)

lemma open_temp_changed: "changed fs (opened_fs (open_temp F temp_path expected fs)) \<subseteq> {temp_path}"
proof -
  obtain fs1 n where r: "resume_offset F temp_path expected fs = (fs1, n)" by (cases "resume_offset F temp_path expected fs")
  have c1: "changed fs fs1 \<subseteq> {temp_path}"
    using r try_remove_changed [of fs F temp_path] by (auto simp: resume_offset_def split: if_splits)
  let ?fs2 = "try_remove F temp_path fs1"
  have c2: "changed fs ?fs2 \<subseteq> {temp_path}" by (rule changed_trans [OF c1 try_remove_changed])
  show ?thesis
  proof (cases "n > 0")
    case True
    then show ?thesis
      using r c1 c2 open_append_same [of F temp_path fs1] changed_trans [OF c2 create_file_changed]
      by (cases "open_append F temp_path fs1"; cases "create_file F temp_path ?fs2")
         (simp_all add: open_temp_def Let_def)
  next
    case False
    then show ?thesis
      using r c1 changed_trans [OF c1 create_file_changed]
      by (cases "create_file F temp_path fs1") (simp_all add: open_temp_def)
  qed
qed

text \<open>The shape of everything \<open>receive_regular\<close> does to the file system.\<close>

lemma receive_regular_changed:
  assumes p: "p = b @ [Normal n]" and fs'_def: "fs' = fsys (fst (receive_regular h show_err F tid it p m rest w))"
  shows "\<exists>fs1 k. (fs1 = fsys w \<or> create_dir_all F b (fsys w) = Ok fs1) \<and>
     changed fs1 fs' \<subseteq> {b @ [Normal k], b @ [Normal (k @ ''.dashdrop.part'')]} \<and>
     (conflict_strategy (config (app w)) \<noteq> Overwrite \<longrightarrow> fsys w (b @ [Normal k]) = None \<or> fs' = fsys w)"
proof (cases "resolve_conflict_path (fsys w) p (conflict_strategy (config (app w)))")
  case (Inl e)
  then show ?thesis by (auto simp: fs'_def receive_regular_def)
next
  case (Inr r)
  show ?thesis
  proof (cases r)
    case None
    then show ?thesis using Inr by (auto simp: fs'_def receive_regular_def)
  next
    case (Some q)
    obtain k where k: "q = b @ [Normal k]" and fresh: "conflict_strategy (config (app w)) \<noteq> Overwrite \<Longrightarrow> fsys w q = None"
      using resolve_conflict_shape [of "fsys w" b n] Inr Some p by blast
    show ?thesis
    proof (cases "create_dir_all F b (fsys w)")
      case (Inl e)
      then show ?thesis using Inr Some k by (auto simp: fs'_def receive_regular_def)
    next
      case fs1: (Inr fs1)
      let ?t = "b @ [Normal (k @ ''.dashdrop.part'')]"
      have "changed fs1 fs' \<subseteq> {q, ?t}"
      proof (cases "open_temp F ?t (size_bytes it) fs1")
        case (Opened fs2)
        then have "changed fs1 fs2 \<subseteq> {q, ?t}"
          using open_temp_changed [of fs1 F ?t "size_bytes it"] by auto
        moreover have "changed fs2 fs' \<subseteq> {q, ?t}"
          using receive_loop_changed [of "w\<lparr>fsys := fs2\<rparr>" h show_err F "conflict_strategy (config (app w))" tid
              "file_id it" q ?t "[]" "Inr m # rest"] Inr Some k fs1 Opened
          by (auto simp: fs'_def receive_regular_def Let_def simp del: receive_loop.simps split: prod.split)
        ultimately show ?thesis by (rule changed_trans)
      qed (use Inr Some k fs1 open_temp_changed [of fs1 F ?t "size_bytes it"] in
          \<open>auto simp: fs'_def receive_regular_def Let_def\<close>)
      then show ?thesis using fs1 k fresh by blast
    qed
  qed
qed

lemma receive_regular_success:
  assumes p: "p = b @ [Normal n]"
    and res: "snd (receive_regular h show_err F tid it p m rest w) = Done (i, True, r)"
  shows "\<exists>k fs1 fs2 cs c rest' left. let q = b @ [Normal k]; t = b @ [Normal (k @ ''.dashdrop.part'')] in
      resolve_conflict_path (fsys w) p (conflict_strategy (config (app w))) = Ok (Some q) \<and>
      create_dir_all F b (fsys w) = Ok fs1 \<and> open_temp F t (size_bytes it) fs1 = Opened fs2 \<and>
      fs2 t = Some (FileNode left) \<and>
      Inr m # rest = map (\<lambda>x. Inr (Chunk x)) cs @ Inr (Complete c) # rest' \<and>
      h (concat (map data cs)) = file_hash c \<and>
      fsys (fst (receive_regular h show_err F tid it p m rest w)) q = Some (FileNode (left @ concat (map data cs)))"
proof -
  obtain q where q: "resolve_conflict_path (fsys w) p (conflict_strategy (config (app w))) = Ok (Some q)"
    using res by (auto simp: receive_regular_def Let_def split: sum.splits option.splits)
  obtain k where k: "q = b @ [Normal k]" using resolve_conflict_shape(1) [of "fsys w" b n] q p by blast
  let ?t = "b @ [Normal (k @ ''.dashdrop.part'')]"
  obtain fs1 where fs1: "create_dir_all F b (fsys w) = Ok fs1"
    using res q k by (auto simp: receive_regular_def Let_def split: sum.splits)
  obtain fs2 where fs2: "open_temp F ?t (size_bytes it) fs1 = Opened fs2"
    using res q k fs1 by (auto simp: receive_regular_def Let_def split: open_result.splits)
  let ?loop = "receive_loop h show_err F (conflict_strategy (config (app w))) tid (file_id it) q ?t [] (Inr m # rest)
      (w\<lparr>fsys := fs2\<rparr>)"
  have eq: "receive_regular h show_err F tid it p m rest w = (fst ?loop, Done (snd ?loop))"
    unfolding receive_regular_def Let_def q k
    by (simp add: fs1 fs2 del: receive_loop.simps split: prod.split)
  have "snd ?loop = (i, True, r)" using res by (simp add: eq del: receive_loop.simps)
  from receive_loop_success [OF this] obtain cs c rest' left where
      "Inr m # rest = map (\<lambda>x. Inr (Chunk x)) cs @ Inr (Complete c) # rest'"
      "fs2 ?t = Some (FileNode left)" "h (concat (map data cs)) = file_hash c"
      "fsys (fst ?loop) q = Some (FileNode (left @ concat (map data cs)))"
    unfolding k by (auto simp del: receive_loop.simps)
  then show ?thesis
    unfolding Let_def eq fst_conv using q k fs1 fs2 by blast
qed

lemma open_temp_fresh:
  assumes "open_temp F t expected fs = Opened fs'" and "fs t = None"
  shows "fs' t = Some (FileNode [])"
proof -
  have "create_file F t fs = Ok fs'"
    using assms by (auto simp: open_temp_def resume_offset_def split: sum.splits)
  then show ?thesis using create_file_eq by fastforce
qed

lemma open_temp_resumes:
  assumes "open_temp F t expected fs = Opened fs'" and "fs t = Some (FileNode old)" and "old \<noteq> []"
    and "length old \<le> expected" and "append_fault F t = None"
  shows "fs' t = Some (FileNode old)"
  using assms
  by (auto simp: open_temp_def resume_offset_def file_len_def open_append_def is_file_def split: if_splits)

lemma create_parent_child:
  assumes "create_dir_all F b fs = Ok fs'"
  shows "fs' (b @ [x]) = fs (b @ [x])"
proof -
  have "b @ [x] \<notin> set (ancestors b)" by (auto simp: ancestors_prefix dest: prefix_length_le)
  then show ?thesis using create_dir_all_changed [OF assms] by (auto simp: changed_def)
qed

lemma is_part_file_snoc: "is_part_file (b @ [Normal (k @ ''.dashdrop.part'')])"
  by (simp add: is_part_file_def ends_with_suffix suffix_def)

text \<open>A successful reception of a regular file: what was opened, what the stream held, what is stored.\<close>

lemma receive_success_shape:
  assumes valid: "validate_rel_path (rel_path it) root = Ok p" "p \<noteq> normalize_path (components root)"
    and regular: "file_type it \<noteq> Directory"
    and dest: "resolve_conflict_path (fsys w) p (conflict_strategy (config (app w))) = Ok (Some q)"
    and run: "receive_one_file h show_err F root tid it m rest w = (w', Done (i, True, r))"
  shows "\<exists>b fs1 fs2 cs c rest' left. create_dir_all F b (fsys w) = Ok fs1 \<and>
      open_temp F (temp_path_for q) (size_bytes it) fs1 = Opened fs2 \<and>
      fs2 (temp_path_for q) = Some (FileNode left) \<and> fs1 (temp_path_for q) = fsys w (temp_path_for q) \<and>
      Inr m # rest = map (\<lambda>x. Inr (Chunk x)) cs @ Inr (Complete c) # rest' \<and>
      h (concat (map data cs)) = file_hash c \<and> fsys w' q = Some (FileNode (left @ concat (map data cs)))"
proof -
  obtain d n where p: "p = (normalize_path (components root) @ d) @ [Normal n]" (is "_ = ?b @ _")
    using validated_shape [OF valid] by blast
  have reg: "receive_regular h show_err F tid it p m rest w = (w', Done (i, True, r))"
    using run valid(1) regular by (simp add: receive_one_file_def)
  then have res: "snd (receive_regular h show_err F tid it p m rest w) = Done (i, True, r)" by simp
  obtain k fs1 fs2 cs c rest' left where q: "q = ?b @ [Normal k]"
    and fs1: "create_dir_all F ?b (fsys w) = Ok fs1"
    and "open_temp F (?b @ [Normal (k @ ''.dashdrop.part'')]) (size_bytes it) fs1 = Opened fs2"
      "fs2 (?b @ [Normal (k @ ''.dashdrop.part'')]) = Some (FileNode left)"
      "Inr m # rest = map (\<lambda>x. Inr (Chunk x)) cs @ Inr (Complete c) # rest'"
      "h (concat (map data cs)) = file_hash c"
      "fsys w' q = Some (FileNode (left @ concat (map data cs)))"
    using receive_regular_success [OF p res] dest unfolding Let_def reg by auto
  moreover have "temp_path_for q = ?b @ [Normal (k @ ''.dashdrop.part'')]" unfolding q by (rule temp_path_snoc)
  ultimately show ?thesis using create_parent_child [OF fs1] by metis
qed

section \<open>Properties\<close>

text \<open>
  The acceptance policy.  An offer is accepted without asking exactly when the peer is trusted and
  authenticated, automatic acceptance is enabled, the offer is at most 500 MiB, and no item is of
  high risk, declared or inferred from its file name.
\<close>

theorem auto_accept_iff:
  "determine_auto_accept_decision trusted_auth enabled total_offered its = AutoAccept \<longleftrightarrow>
     trusted_auth \<and> enabled \<and> total_offered \<le> 500 * 1024 * 1024 \<and>
     list_all (\<lambda>it. risk_class it \<noteq> Some High \<and>
       (risk_class it = None \<longrightarrow>
          \<not> list_ex (ends_with (to_ascii_lowercase
              (case file_name (components (rel_path it)) of Some n \<Rightarrow> n | None \<Rightarrow> name it))) HIGH_RISK_SUFFIXES)) its"
proof -
  have "infer_offer_risk_class it = High \<longleftrightarrow> risk_class it = Some High \<or> (risk_class it = None \<and>
      list_ex (ends_with (to_ascii_lowercase
        (case file_name (components (rel_path it)) of Some n \<Rightarrow> n | None \<Rightarrow> name it))) HIGH_RISK_SUFFIXES)" for it
    by (auto simp: infer_offer_risk_class_def Let_def split: option.splits)
  then show ?thesis
    by (auto simp: determine_auto_accept_decision_def TRUSTED_AUTO_ACCEPT_MAX_BYTES_def list_all_iff list_ex_iff)
qed

theorem auto_accept_iff_witness:
  "determine_auto_accept_decision True True 10 [sample_item] = AutoAccept"
proof -
  have "\<not> list_ex (ends_with (to_ascii_lowercase
      (case file_name (components (rel_path sample_item)) of Some n \<Rightarrow> n | None \<Rightarrow> name sample_item))) HIGH_RISK_SUFFIXES"
    by code_simp
  moreover have "risk_class sample_item = None" by (simp add: sample_item_def)
  ultimately show ?thesis using auto_accept_iff [of True True 10 "[sample_item]"] by simp
qed

text \<open>
  C7: A reception is confined to the save root.  For an item whose validated path is not the save root
  itself, everything the reception of that item changes lies below the normalised save root, except
  that missing directories above it may be created.
\<close>

theorem receive_confined:
  assumes "validate_rel_path (rel_path it) root = Ok p" and "p \<noteq> normalize_path (components root)"
    and "fs' = fsys (fst (receive_one_file h show_err F root tid it m rest w))" and "fs' q \<noteq> fsys w q"
  shows "prefix (normalize_path (components root)) q \<or>
    (prefix q (normalize_path (components root)) \<and> fsys w q = None \<and> fs' q = Some DirNode)"
proof -
  let ?base = "normalize_path (components root)"
  obtain d n where p: "p = (?base @ d) @ [Normal n]" using validated_shape [OF assms(1,2)] by blast
  have dirs: "prefix ?base q \<or> prefix q ?base \<and> fsys w q = None \<and> fs1 q = Some DirNode"
    if "create_dir_all F (?base @ e) (fsys w) = Ok fs1" "fs1 q \<noteq> fsys w q" for fs1 e
  proof -
    have a: "q \<in> set (ancestors (?base @ e))"
      using create_dir_all_changed [OF that(1)] that(2) by (auto simp: changed_def)
    then have "prefix ?base q \<or> prefix q ?base"
      using prefix_same_cases [of q "?base @ e" ?base] by (auto simp: ancestors_prefix)
    moreover have "fs1 q = Some DirNode" using create_dir_all_dirs [OF that(1) a] .
    moreover have "fsys w q = None"
      using create_dir_all_files [OF that(1), of q] that(2) calculation(2)
      by (cases "fsys w q") (auto, metis node.exhaust)
    ultimately show ?thesis by blast
  qed
  show ?thesis
  proof (cases "file_type it = Directory")
    case True
    then have "fs' = fsys w \<or> create_dir_all F ((?base @ d) @ [Normal n]) (fsys w) = Ok fs'"
      using assms(1,3) p
      by (auto simp: receive_one_file_def receive_directory_def split: dash_message.splits if_splits sum.splits prod.splits)
    then show ?thesis using dirs [of "d @ [Normal n]" fs'] assms(4) by auto
  next
    case False
    then have "fs' = fsys (fst (receive_regular h show_err F tid it p m rest w))"
      using assms(1,3) by (simp add: receive_one_file_def)
    from receive_regular_changed [OF p this] obtain fs1 k where
        fs1: "fs1 = fsys w \<or> create_dir_all F (?base @ d) (fsys w) = Ok fs1"
        "changed fs1 fs' \<subseteq> {(?base @ d) @ [Normal k], (?base @ d) @ [Normal (k @ ''.dashdrop.part'')]}"
      by blast
    show ?thesis
    proof (cases "fs' q = fs1 q")
      case True
      then show ?thesis using fs1(1) dirs [of d fs1] assms(4) by auto
    next
      case False
      then have "q = ?base @ d @ [Normal k] \<or> q = ?base @ d @ [Normal (k @ ''.dashdrop.part'')]"
        using fs1(2) by (auto simp: changed_def)
      then show ?thesis by auto
    qed
  qed
qed

lemma sample_run_eval:
  "snd sample_run = Done (1, True, None)"
  "fsys (fst sample_run) (components ''/s/a'') = Some (FileNode [7, 8])"
  "fsys sample_world (components ''/s/a'') = None"
  "fsys sample_world (components ''/s/a.dashdrop.part'') = None"
  "validate_rel_path ''a'' ''/s'' = Ok (components ''/s/a'')"
  "normalize_path (components ''/s'') = components ''/s''"
  by code_simp+

theorem receive_confined_witness:
  "prefix (components ''/s'') (components ''/s/a'') \<or>
    (prefix (components ''/s/a'') (components ''/s'') \<and> fsys sample_world (components ''/s/a'') = None \<and>
     fsys (fst sample_run) (components ''/s/a'') = Some DirNode)"
proof -
  have "validate_rel_path (rel_path sample_item) ''/s'' = Ok (components ''/s/a'')"
    by (simp add: sample_item_def sample_run_eval)
  moreover have "components ''/s/a'' \<noteq> normalize_path (components ''/s'')" by code_simp
  moreover have "fsys (fst sample_run) (components ''/s/a'') \<noteq> fsys sample_world (components ''/s/a'')"
    by (simp add: sample_run_eval)
  ultimately show ?thesis
    using receive_confined [OF _ _ sample_run_def [THEN arg_cong [where f = "\<lambda>x. fsys (fst x)"]], of "components ''/s/a''" "components ''/s/a''"]
    by (simp only: sample_run_eval(6) simp_thms)
qed

text \<open>
  C8: A reception never overwrites.  Under the conflict strategies Rename and Skip the reception of an item
  leaves every existing file as it was, apart from temporary files, whatever messages and data the peer sends
  after it.  As for confinement, the item's validated path must not be the save root itself, which a peer that
  chooses the path \<^verbatim>\<open>.\<close> can bring about.
\<close>

theorem receive_never_overwrites:
  assumes strategy: "conflict_strategy (config (app w)) \<noteq> Overwrite"
    and below: "validate_rel_path (rel_path it) root \<noteq> Ok (normalize_path (components root))"
    and existing: "fsys w q = Some (FileNode b)" "\<not> is_part_file q"
  shows "fsys (fst (receive_one_file h show_err F root tid it m rest w)) q = Some (FileNode b)"
proof (cases "validate_rel_path (rel_path it) root")
  case (Inl e)
  then show ?thesis using existing by (simp add: receive_one_file_def)
next
  case (Inr p)
  show ?thesis
  proof (cases "file_type it = Directory")
    case True
    then show ?thesis using Inr existing(1)
      by (auto simp: receive_one_file_def receive_directory_def create_dir_all_files
          split: dash_message.splits sum.splits)
  next
    case False
    let ?fs' = "fsys (fst (receive_regular h show_err F tid it p m rest w))"
    obtain d n where p: "p = (normalize_path (components root) @ d) @ [Normal n]"
      using validated_shape [OF Inr] below Inr by auto
    obtain fs1 k where fs1: "fs1 = fsys w \<or> create_dir_all F (normalize_path (components root) @ d) (fsys w) = Ok fs1"
      and ch: "changed fs1 ?fs' \<subseteq> {(normalize_path (components root) @ d) @ [Normal k],
          (normalize_path (components root) @ d) @ [Normal (k @ ''.dashdrop.part'')]}"
      and fresh: "fsys w ((normalize_path (components root) @ d) @ [Normal k]) = None \<or> ?fs' = fsys w"
      using receive_regular_changed [OF p refl, where h = h and show_err = show_err and F = F and tid = tid and it = it and m = m and rest = rest and w = w] strategy by metis
    have "fs1 q = Some (FileNode b)" using fs1 existing(1) create_dir_all_files by auto
    moreover have "is_part_file ((normalize_path (components root) @ d) @ [Normal (k @ ''.dashdrop.part'')])"
      by (rule is_part_file_snoc)
    ultimately have "?fs' = fsys w \<or> q \<notin> changed fs1 ?fs'" using ch fresh existing by fastforce
    then have "?fs' q = Some (FileNode b)"
      using \<open>fs1 q = _\<close> existing(1) by (auto simp: changed_def)
    then show ?thesis using False Inr by (simp add: receive_one_file_def)
  qed
qed

theorem receive_never_overwrites_witness:
  "fsys (fst (receive_one_file (\<lambda>b. b) (\<lambda>_. []) no_faults ''/s'' ''t'' sample_item
      (Cancel UserCancelled) [] (sample_world\<lparr>fsys := (fsys sample_world)(components ''/s/a'' \<mapsto> FileNode [1])\<rparr>)))
    (components ''/s/a'') = Some (FileNode [1])"
proof (rule receive_never_overwrites)
  show "conflict_strategy (config (app (sample_world\<lparr>fsys := (fsys sample_world)(components ''/s/a'' \<mapsto> FileNode [1])\<rparr>))) \<noteq> Overwrite"
    by code_simp
  show "validate_rel_path (rel_path sample_item) ''/s'' \<noteq> Ok (normalize_path (components ''/s''))" by code_simp
  show "\<not> is_part_file (components ''/s/a'')" by code_simp
qed simp


text \<open>
  C9: Integrity of a fresh reception.  If no temporary file of an earlier attempt exists for the chosen
  destination and the reception of a regular file reports success, then the stream held chunks
  followed by a Complete message, the file stored at the destination is exactly the concatenation of
  the chunks, and its BLAKE3 hash is the one the sender announced.
\<close>

theorem receive_integrity:
  assumes valid: "validate_rel_path (rel_path it) root = Ok p" "p \<noteq> normalize_path (components root)"
    and regular: "file_type it \<noteq> Directory"
    and dest: "resolve_conflict_path (fsys w) p (conflict_strategy (config (app w))) = Ok (Some q)"
    and fresh: "fsys w (temp_path_for q) = None"
    and run: "receive_one_file h show_err F root tid it m rest w = (w', Done (i, True, r))"
  shows "\<exists>cs c rest' content. Inr m # rest = map (\<lambda>x. Inr (Chunk x)) cs @ Inr (Complete c) # rest' \<and>
      content = concat (map data cs) \<and> fsys w' q = Some (FileNode content) \<and> h content = file_hash c"
proof -
  obtain b fs1 fs2 cs c rest' left where *: "create_dir_all F b (fsys w) = Ok fs1"
      "open_temp F (temp_path_for q) (size_bytes it) fs1 = Opened fs2" "fs2 (temp_path_for q) = Some (FileNode left)"
      "fs1 (temp_path_for q) = fsys w (temp_path_for q)"
      "Inr m # rest = map (\<lambda>x. Inr (Chunk x)) cs @ Inr (Complete c) # rest'" "h (concat (map data cs)) = file_hash c"
      "fsys w' q = Some (FileNode (left @ concat (map data cs)))"
    using receive_success_shape [OF valid regular dest run] by blast
  have "left = []" using open_temp_fresh [OF *(2)] *(3,4) fresh by simp
  then show ?thesis using * by auto
qed

theorem receive_integrity_witness:
  "\<exists>cs c rest' content.
     (Inr (Chunk \<lparr>chunk_file_id = 1, chunk_id = 0, offset = 0, data = [7, 8]\<rparr>) #
       [Inr (Complete \<lparr>complete_file_id = 1, file_hash = [7, 8]\<rparr>)] :: stream) =
       map (\<lambda>x. Inr (Chunk x)) cs @ Inr (Complete c) # rest' \<and>
     content = concat (map data cs) \<and>
     fsys (fst sample_run) (components ''/s/a'') = Some (FileNode content) \<and> content = file_hash c"
proof (rule receive_integrity [where h = "\<lambda>b. b" and w = sample_world and it = sample_item and root = "''/s''"
      and p = "components ''/s/a''" and i = 1 and r = None])
  show "receive_one_file (\<lambda>b. b) (\<lambda>_. []) no_faults ''/s'' ''t'' sample_item
     (Chunk \<lparr>chunk_file_id = 1, chunk_id = 0, offset = 0, data = [7, 8]\<rparr>)
     [Inr (Complete \<lparr>complete_file_id = 1, file_hash = [7, 8]\<rparr>)] sample_world
     = (fst sample_run, Done (1, True, None))"
    using sample_run_eval(1) unfolding sample_run_def [symmetric] by (metis prod.collapse)
qed (simp add: sample_item_def sample_run_eval, code_simp+)

text \<open>
  A resumed reception is verified in part only.  When a temporary file of an earlier attempt is
  left, is no longer than the offered size and can be opened, a successful reception stores the old
  bytes followed by the received ones, while the hash comparison covers the received bytes alone.
\<close>

theorem resumed_content_unverified:
  assumes valid: "validate_rel_path (rel_path it) root = Ok p" "p \<noteq> normalize_path (components root)"
    and regular: "file_type it \<noteq> Directory"
    and dest: "resolve_conflict_path (fsys w) p (conflict_strategy (config (app w))) = Ok (Some q)"
    and part: "fsys w (temp_path_for q) = Some (FileNode old)" "old \<noteq> []" "length old \<le> size_bytes it"
    and opens: "append_fault F (temp_path_for q) = None"
    and run: "receive_one_file h show_err F root tid it m rest w = (w', Done (i, True, r))"
  shows "\<exists>cs c rest'. Inr m # rest = map (\<lambda>x. Inr (Chunk x)) cs @ Inr (Complete c) # rest' \<and>
      fsys w' q = Some (FileNode (old @ concat (map data cs))) \<and> h (concat (map data cs)) = file_hash c"
proof -
  obtain b fs1 fs2 cs c rest' left where *: "create_dir_all F b (fsys w) = Ok fs1"
      "open_temp F (temp_path_for q) (size_bytes it) fs1 = Opened fs2" "fs2 (temp_path_for q) = Some (FileNode left)"
      "fs1 (temp_path_for q) = fsys w (temp_path_for q)"
      "Inr m # rest = map (\<lambda>x. Inr (Chunk x)) cs @ Inr (Complete c) # rest'" "h (concat (map data cs)) = file_hash c"
      "fsys w' q = Some (FileNode (left @ concat (map data cs)))"
    using receive_success_shape [OF valid regular dest run] by blast
  have "left = old" using open_temp_resumes [OF *(2)] part opens *(3,4) by simp
  then show ?thesis using * by auto
qed


theorem resumed_content_unverified_witness:
  "\<exists>cs c rest'.
     (Inr (Chunk \<lparr>chunk_file_id = 1, chunk_id = 0, offset = 1, data = [7, 8]\<rparr>) #
       [Inr (Complete \<lparr>complete_file_id = 1, file_hash = [7, 8]\<rparr>)] :: stream) =
       map (\<lambda>x. Inr (Chunk x)) cs @ Inr (Complete c) # rest' \<and>
     fsys (fst resumed_run) (components ''/s/a'') = Some (FileNode ([1] @ concat (map data cs))) \<and>
     concat (map data cs) = file_hash c"
proof (rule resumed_content_unverified [where h = "\<lambda>b. b" and w = resumed_world and it = sample_item
      and root = "''/s''" and p = "components ''/s/a''" and i = 1 and r = None])
  have "snd resumed_run = Done (1, True, None)" by code_simp
  then show "receive_one_file (\<lambda>b. b) (\<lambda>_. []) no_faults ''/s'' ''t'' sample_item
     (Chunk \<lparr>chunk_file_id = 1, chunk_id = 0, offset = 1, data = [7, 8]\<rparr>)
     [Inr (Complete \<lparr>complete_file_id = 1, file_hash = [7, 8]\<rparr>)] resumed_world
     = (fst resumed_run, Done (1, True, None))"
    unfolding resumed_run_def [symmetric] by (metis prod.collapse)
qed (simp add: sample_item_def sample_run_eval, code_simp+)


end
