(* ===== verification/EndToEnd.thy ===== *)
theory EndToEnd
  imports Sender Receiver
begin

text \<open>
  The sender and the receiver together: the messages \<^verbatim>\<open>send_one_file\<close> (\<^verbatim>\<open>sender.rs\<close>) writes on the
  stream of a file are what \<^verbatim>\<open>receive_one_file\<close> (\<^verbatim>\<open>receiver.rs\<close>) reads from it.  A fresh transfer delivers
  the file byte by byte; a resumed one is refused by the hash comparison.
\<close>

section \<open>A concrete transfer\<close>

definition e2e_item :: file_item where
  "e2e_item = \<lparr>file_id = 0, name = ''a'', rel_path = ''a'', size_bytes = 3, file_type = RegularFile, modified = 0,
     risk_class = None, source_snapshot = None\<rparr>"

definition e2e_out :: "dash_message list" where
  "e2e_out = [Chunk \<lparr>chunk_file_id = 0, chunk_id = 0, offset = 0, data = [1, 2]\<rparr>,
     Chunk \<lparr>chunk_file_id = 0, chunk_id = 1, offset = 2, data = [3]\<rparr>,
     Complete \<lparr>complete_file_id = 0, file_hash = [1, 2, 3]\<rparr>]"

definition e2e_resumed_out :: "dash_message list" where
  "e2e_resumed_out = [Chunk \<lparr>chunk_file_id = 0, chunk_id = 1, offset = 1, data = [2, 3]\<rparr>,
     Complete \<lparr>complete_file_id = 0, file_hash = [1, 2, 3]\<rparr>]"

section \<open>Facts\<close>

lemma e2e_sent:
  "\<exists>st'. send_one_file (\<lambda>b. b) sample_src sample_link ''t'' e2e_item 0 (AckReply True None) sample_app =
     (st', e2e_out, Ok (0, True, None))"
  by (simp add: send_one_file_def Let_def send_chunks.simps read_some_def sample_src_def sample_link_def
      e2e_item_def e2e_out_def CHUNK_SIZE_def await_ack_def)

lemma e2e_resumed_sent:
  "\<exists>st'. send_one_file (\<lambda>b. b) sample_src sample_link ''t'' e2e_item 1 (AckReply True None) sample_app =
     (st', e2e_resumed_out, Ok (0, True, None))"
  by (simp add: send_one_file_def Let_def send_chunks.simps read_upto.simps read_some_def sample_src_def sample_link_def
      e2e_item_def e2e_resumed_out_def CHUNK_SIZE_def await_ack_def)

lemma e2e_destination:
  "validate_rel_path (rel_path e2e_item) ''/s'' = Ok (components ''/s/a'')"
  "components ''/s/a'' \<noteq> normalize_path (components ''/s'')"
  "resolve_conflict_path (fsys sample_world) (components ''/s/a'') (conflict_strategy (config (app sample_world)))
     = Ok (Some (components ''/s/a''))"
  "resolve_conflict_path (fsys resumed_world) (components ''/s/a'') (conflict_strategy (config (app resumed_world)))
     = Ok (Some (components ''/s/a''))"
  "\<not> list_ex (is_file (fsys sample_world)) (ancestors (butlast (components ''/s/a'')))"
  "\<not> list_ex (is_file (fsys resumed_world)) (ancestors (butlast (components ''/s/a'')))"
  "fsys sample_world (components ''/s/a'') \<noteq> Some DirNode"
  "fsys sample_world (temp_path_for (components ''/s/a'')) = None"
  "fsys resumed_world (temp_path_for (components ''/s/a'')) = Some (FileNode (take 1 (src_content sample_src)))"
  by code_simp+

text \<open>A reception without faults of the operating system: the chunks are appended, then the file is finished.\<close>

lemma receive_loop_run:
  assumes "covers fid off cs" and "fsys w temp_path = Some (FileNode b)"
  shows "\<exists>w'. receive_loop h show_err no_faults strategy tid fid final_path temp_path hashed
        (map (\<lambda>x. Inr (Chunk x)) cs @ Inr (Complete c) # rest) w =
      (w', snd (finish_file h no_faults strategy fid final_path temp_path (hashed @ concat (map data cs)) c
         ((fsys w)(temp_path \<mapsto> FileNode (b @ concat (map data cs)))))) \<and>
      fsys w' = fst (finish_file h no_faults strategy fid final_path temp_path (hashed @ concat (map data cs)) c
         ((fsys w)(temp_path \<mapsto> FileNode (b @ concat (map data cs)))))"
  using assms
proof (induction cs arbitrary: off b hashed w)
  case Nil
  have "(fsys w)(temp_path \<mapsto> FileNode b) = fsys w" using Nil(2) by auto
  then show ?case by (simp split: prod.split)
next
  case (Cons x cs)
  let ?w = "w\<lparr>fsys := (fsys w)(temp_path \<mapsto> FileNode (b @ data x)), app := add_progress tid (length (data x)) (app w)\<rparr>"
  have x: "chunk_file_id x = fid" "covers fid (off + length (data x)) cs" using Cons.prems(1) by auto
  have "write_file no_faults temp_path (data x) (fsys w) = Ok ((fsys w)(temp_path \<mapsto> FileNode (b @ data x)))"
    using Cons.prems(2) by (simp add: write_file_def no_faults_def)
  moreover have "fsys ?w temp_path = Some (FileNode (b @ data x))" by simp
  ultimately show ?case using Cons.IH [OF x(2), of ?w "b @ data x" "hashed @ data x"] x(1) by (simp cong: if_cong)
qed

lemma finish_file_accepts:
  assumes "complete_file_id c = fid" and "h hashed = file_hash c" and "fs temp_path = Some (FileNode b)"
    and "temp_path \<noteq> final_path" and "fs final_path \<noteq> Some DirNode"
  shows "finish_file h no_faults strategy fid final_path temp_path hashed c fs =
    ((fs(temp_path := None))(final_path \<mapsto> FileNode b), fid, True, None)"
proof (cases "strategy = Overwrite \<and> fs final_path \<noteq> None")
  case True
  then obtain b' where "fs final_path = Some (FileNode b')" using assms(5) by (cases "fs final_path") (auto, metis node.exhaust)
  then show ?thesis using True assms
    by (simp add: finish_file_def no_faults_def remove_file_def is_file_def rename_file_def fun_upd_twist)
next
  case False
  then show ?thesis using assms by (auto simp: finish_file_def no_faults_def rename_file_def)
qed

lemma finish_file_mismatch:
  assumes "complete_file_id c = fid" and "h hashed \<noteq> file_hash c" and "fs temp_path = Some (FileNode b)"
  shows "finish_file h no_faults strategy fid final_path temp_path hashed c fs =
    (fs(temp_path := None), fid, False, Some HashMismatch)"
  using assms by (simp add: finish_file_def no_faults_def try_remove_def remove_file_def is_file_def)

lemma parent_is_dir_snoc: "parent_is_dir fs (b @ [Normal x]) \<longleftrightarrow> b = [] \<or> fs b = Some DirNode"
  by (simp add: parent_is_dir_def path_parent_def)

lemma open_temp_appends:
  assumes "fs t = Some (FileNode old)" and "old \<noteq> []" and "length old \<le> expected"
  shows "open_temp no_faults t expected fs = Opened fs"
  using assms by (simp add: open_temp_def resume_offset_def file_len_def open_append_def is_file_def no_faults_def)

text \<open>The directory of the destination can be made: no file is in the way.\<close>

lemma destination_ready:
  assumes valid: "validate_rel_path (rel_path it) root = Ok p" "p \<noteq> normalize_path (components root)"
    and dest: "resolve_conflict_path (fsys w) p strategy = Ok (Some q)"
    and dirs: "\<not> list_ex (is_file (fsys w)) (ancestors (butlast q))"
  obtains b k fs1 where "q = b @ [Normal k]" "create_dir_all no_faults b (fsys w) = Ok fs1"
    "\<And>x. fs1 (b @ [x]) = fsys w (b @ [x])" "\<And>x. parent_is_dir fs1 (b @ [Normal x])"
proof -
  obtain d n where p: "p = (normalize_path (components root) @ d) @ [Normal n]" (is "_ = ?b @ _")
    using validated_shape [OF valid] by blast
  obtain k where q: "q = ?b @ [Normal k]" using resolve_conflict_shape(1) [of "fsys w" ?b n] dest p by blast
  obtain fs1 where fs1: "create_dir_all no_faults ?b (fsys w) = Ok fs1"
    using dirs unfolding q butlast_snoc by (simp add: create_dir_all_def no_faults_def)
  have "parent_is_dir fs1 (?b @ [Normal x])" for x
    using create_dir_all_dirs [OF fs1, of ?b] unfolding parent_is_dir_snoc by (cases "?b = []") (auto simp: ancestors_prefix)
  with q fs1 create_parent_child [OF fs1] show ?thesis by (rule that)
qed

lemma receive_one_file_opened:
  assumes valid: "validate_rel_path (rel_path it) root = Ok p"
    and regular: "file_type it \<noteq> Directory"
    and dest: "resolve_conflict_path (fsys w) p (conflict_strategy (config (app w))) = Ok (Some (b @ [Normal k]))"
    and fs1: "create_dir_all F b (fsys w) = Ok fs1"
    and opened: "open_temp F (b @ [Normal (k @ ''.dashdrop.part'')]) (size_bytes it) fs1 = Opened fs2"
    and loop: "receive_loop h show_err F (conflict_strategy (config (app w))) tid (file_id it) (b @ [Normal k])
        (b @ [Normal (k @ ''.dashdrop.part'')]) [] (Inr m # rest) (w\<lparr>fsys := fs2\<rparr>) = (w', res)"
  shows "receive_one_file h show_err F root tid it m rest w = (w', Done res)"
  unfolding receive_one_file_def receive_regular_def Let_def valid sum.case dest option.case
  using regular fs1 opened loop by (simp del: receive_loop.simps)

lemma stream_cons:
  assumes "out = map Chunk cs @ [Complete c]"
  shows "(Inr (hd out) # map Inr (tl out) :: stream) = map (\<lambda>x. Inr (Chunk x)) cs @ Inr (Complete c) # []"
proof -
  have "out \<noteq> []" using assms by simp
  then have "(Inr (hd out) # map Inr (tl out) :: stream) = map Inr out" by (cases out) auto
  then show ?thesis unfolding assms by simp
qed

section \<open>Properties\<close>

text \<open>
  C6: A fresh transfer delivers the file.  What the sender writes for a file, with whatever sizes its
  reads have, makes the receiver store exactly the bytes of the source file at the destination, report
  success and leave no temporary file, provided the destination is valid, no earlier temporary file and no
  obstructing file or directory exists, and the operating system refuses nothing.
\<close>

theorem fresh_transfer_delivers:
  assumes sent: "send_one_file h f lk stid its 0 ack st = (st', out, Ok r)"
    and same: "file_id it = file_id its" "file_type it \<noteq> Directory"
    and valid: "validate_rel_path (rel_path it) root = Ok p" "p \<noteq> normalize_path (components root)"
    and dest: "resolve_conflict_path (fsys w) p (conflict_strategy (config (app w))) = Ok (Some q)"
    and free: "\<not> list_ex (is_file (fsys w)) (ancestors (butlast q))" "fsys w q \<noteq> Some DirNode"
      "fsys w (temp_path_for q) = None"
  shows "\<exists>w'. receive_one_file h show_err no_faults root tid it (hd out) (map Inr (tl out)) w = (w', Done (file_id it, True, None)) \<and>
    fsys w' q = Some (FileNode (src_content f)) \<and> fsys w' (temp_path_for q) = None"
proof -
  obtain cs where cs: "out = map Chunk cs @ [Complete \<lparr>complete_file_id = file_id it, file_hash = h (src_content f)\<rparr>]"
      "covers (file_id it) 0 cs" "concat (map data cs) = src_content f"
    using send_one_file_spec [OF sent] same(1) by auto
  let ?c = "\<lparr>complete_file_id = file_id it, file_hash = h (src_content f)\<rparr>"
  obtain b k fs1 where q: "q = b @ [Normal k]" and fs1: "create_dir_all no_faults b (fsys w) = Ok fs1"
      "\<And>x. fs1 (b @ [x]) = fsys w (b @ [x])" "\<And>x. parent_is_dir fs1 (b @ [Normal x])"
    using destination_ready [OF valid dest free(1)] by blast
  define t where "t = b @ [Normal (k @ ''.dashdrop.part'')]"
  have temp: "temp_path_for q = t" unfolding q t_def by (rule temp_path_snoc)
  have neq: "t \<noteq> q" by (simp add: q t_def)
  have absent: "fs1 t = None" using free(3) fs1(2) unfolding temp t_def by simp
  define fs2 where "fs2 = fs1(t \<mapsto> FileNode [])"
  have opened: "open_temp no_faults t (size_bytes it) fs1 = Opened fs2"
    using absent fs1(3) by (simp add: open_temp_def resume_offset_def create_file_def no_faults_def fs2_def t_def)
  let ?strategy = "conflict_strategy (config (app w))"
  let ?fs3 = "fs2(t \<mapsto> FileNode (src_content f))"
  have fin: "finish_file h no_faults ?strategy (file_id it) q t (src_content f) ?c ?fs3 =
      ((?fs3(t := None))(q \<mapsto> FileNode (src_content f)), file_id it, True, None)"
    using neq free(2) fs1(2) by (intro finish_file_accepts) (auto simp: fs2_def q t_def)
  obtain w' where loop: "receive_loop h show_err no_faults ?strategy tid (file_id it) q t []
        (map (\<lambda>x. Inr (Chunk x)) cs @ Inr (Complete ?c) # []) (w\<lparr>fsys := fs2\<rparr>) = (w', file_id it, True, None)"
      "fsys w' = (?fs3(t := None))(q \<mapsto> FileNode (src_content f))"
    using receive_loop_run [OF cs(2), of "w\<lparr>fsys := fs2\<rparr>" t "[]" h show_err ?strategy tid q "[]" ?c "[]"] cs(3) fin
    by (auto simp: fs2_def simp del: receive_loop.simps)
  have s: "(Inr (hd out) # map Inr (tl out) :: stream) = map (\<lambda>x. Inr (Chunk x)) cs @ Inr (Complete ?c) # []"
    by (rule stream_cons [OF cs(1)])
  have "receive_one_file h show_err no_faults root tid it (hd out) (map Inr (tl out)) w = (w', Done (file_id it, True, None))"
    by (rule receive_one_file_opened [OF valid(1) same(2) dest [unfolded q] fs1(1) opened [unfolded t_def]
          loop(1) [folded s, unfolded q t_def]])
  moreover have "fsys w' q = Some (FileNode (src_content f))" "fsys w' t = None" using loop(2) neq by auto
  ultimately show ?thesis unfolding temp by blast
qed

theorem fresh_transfer_delivers_witness:
  "\<exists>w'. receive_one_file (\<lambda>b. b) (\<lambda>_. []) no_faults ''/s'' ''t'' e2e_item (hd e2e_out) (map Inr (tl e2e_out)) sample_world =
      (w', Done (file_id e2e_item, True, None)) \<and>
    fsys w' (components ''/s/a'') = Some (FileNode (src_content sample_src)) \<and>
    fsys w' (temp_path_for (components ''/s/a'')) = None"
proof -
  obtain st' where "send_one_file (\<lambda>b. b) sample_src sample_link ''t'' e2e_item 0 (AckReply True None) sample_app =
     (st', e2e_out, Ok (0, True, None))" using e2e_sent by blast
  from fresh_transfer_delivers [OF this refl _ e2e_destination(1,2,3,5,7,8)] show ?thesis by (simp add: e2e_item_def)
qed

text \<open>
  C37: A resumed transfer fails.  The receiver has the first \<open>n\<close> bytes in a temporary file and the sender
  resumes at \<open>n\<close>.  The sender announces the hash of the whole file, the receiver compares it with the
  hash of what it received in this attempt; unless the two collide, the file is refused as damaged
  and the temporary file, with the progress it held, is deleted.
\<close>

theorem resumed_transfer_refused:
  assumes sent: "send_one_file h f lk stid its n ack st = (st', out, Ok r)"
    and same: "file_id it = file_id its" "file_type it \<noteq> Directory" "size_bytes it = length (src_content f)"
    and valid: "validate_rel_path (rel_path it) root = Ok p" "p \<noteq> normalize_path (components root)"
    and dest: "resolve_conflict_path (fsys w) p (conflict_strategy (config (app w))) = Ok (Some q)"
    and free: "\<not> list_ex (is_file (fsys w)) (ancestors (butlast q))"
    and part: "fsys w (temp_path_for q) = Some (FileNode (take n (src_content f)))" "0 < n" "n \<le> length (src_content f)"
    and differ: "h (drop n (src_content f)) \<noteq> h (src_content f)"
  shows "\<exists>w'. receive_one_file h show_err no_faults root tid it (hd out) (map Inr (tl out)) w =
      (w', Done (file_id it, False, Some HashMismatch)) \<and> fsys w' (temp_path_for q) = None \<and> fsys w' q = fsys w q"
proof -
  let ?old = "take n (src_content f)"
  obtain cs where cs: "out = map Chunk cs @ [Complete \<lparr>complete_file_id = file_id it, file_hash = h (src_content f)\<rparr>]"
      "covers (file_id it) (min n (length (src_content f))) cs" "concat (map data cs) = drop n (src_content f)"
    using send_one_file_spec [OF sent] same(1) by auto
  let ?c = "\<lparr>complete_file_id = file_id it, file_hash = h (src_content f)\<rparr>"
  obtain b k fs1 where q: "q = b @ [Normal k]" and fs1: "create_dir_all no_faults b (fsys w) = Ok fs1"
      "\<And>x. fs1 (b @ [x]) = fsys w (b @ [x])" "\<And>x. parent_is_dir fs1 (b @ [Normal x])"
    using destination_ready [OF valid dest free] by blast
  define t where "t = b @ [Normal (k @ ''.dashdrop.part'')]"
  have temp: "temp_path_for q = t" unfolding q t_def by (rule temp_path_snoc)
  have neq: "t \<noteq> q" by (simp add: q t_def)
  have old: "fs1 t = Some (FileNode ?old)" "?old \<noteq> []" "length ?old \<le> size_bytes it"
    using part fs1(2) same(3) unfolding temp t_def by auto
  have opened: "open_temp no_faults t (size_bytes it) fs1 = Opened fs1"
    by (rule open_temp_appends) (fact old)+
  let ?strategy = "conflict_strategy (config (app w))"
  let ?fs3 = "fs1(t \<mapsto> FileNode (?old @ drop n (src_content f)))"
  have fin: "finish_file h no_faults ?strategy (file_id it) q t (drop n (src_content f)) ?c ?fs3 =
      (?fs3(t := None), file_id it, False, Some HashMismatch)"
    using differ by (intro finish_file_mismatch) auto
  obtain w' where loop: "receive_loop h show_err no_faults ?strategy tid (file_id it) q t []
        (map (\<lambda>x. Inr (Chunk x)) cs @ Inr (Complete ?c) # []) (w\<lparr>fsys := fs1\<rparr>) = (w', file_id it, False, Some HashMismatch)"
      "fsys w' = ?fs3(t := None)"
    using receive_loop_run [OF cs(2), of "w\<lparr>fsys := fs1\<rparr>" t ?old h show_err ?strategy tid q "[]" ?c "[]"] cs(3) fin old(1)
    by (auto simp del: receive_loop.simps append_take_drop_id)
  have s: "(Inr (hd out) # map Inr (tl out) :: stream) = map (\<lambda>x. Inr (Chunk x)) cs @ Inr (Complete ?c) # []"
    by (rule stream_cons [OF cs(1)])
  have "receive_one_file h show_err no_faults root tid it (hd out) (map Inr (tl out)) w = (w', Done (file_id it, False, Some HashMismatch))"
    by (rule receive_one_file_opened [OF valid(1) same(2) dest [unfolded q] fs1(1) opened [unfolded t_def]
          loop(1) [folded s, unfolded q t_def]])
  moreover have "fsys w' t = None" "fsys w' q = fsys w q" using loop(2) neq fs1(2) by (auto simp: q)
  ultimately show ?thesis unfolding temp by blast
qed

theorem resumed_transfer_refused_witness:
  "\<exists>w'. receive_one_file (\<lambda>b. b) (\<lambda>_. []) no_faults ''/s'' ''t'' e2e_item (hd e2e_resumed_out) (map Inr (tl e2e_resumed_out))
      resumed_world = (w', Done (file_id e2e_item, False, Some HashMismatch)) \<and>
    fsys w' (temp_path_for (components ''/s/a'')) = None \<and> fsys w' (components ''/s/a'') = fsys resumed_world (components ''/s/a'')"
proof -
  obtain st' where sent: "send_one_file (\<lambda>b. b) sample_src sample_link ''t'' e2e_item 1 (AckReply True None) sample_app =
     (st', e2e_resumed_out, Ok (0, True, None))" using e2e_resumed_sent by blast
  show ?thesis
    by (rule resumed_transfer_refused [OF sent refl _ _ e2e_destination(1,2,4,6,9)])
       (simp_all add: e2e_item_def sample_src_def)
qed

end
