(* ===== verification/RateLimit.thy ===== *)
theory RateLimit
  imports Prelude
begin

text \<open>
  The three rate limiters of the transport layer: connections per IP address (\<^verbatim>\<open>ip_rate_limited\<close> in
  \<^verbatim>\<open>server.rs\<close>), connections per certificate and offers per peer (\<^verbatim>\<open>handshake.rs\<close>).  All count requests
  in windows of sixty seconds.  A table maps a key to the count and the start of the current window;
  instants are milliseconds.  The counts are 32 bits wide: the first limiter saturates, the other two add with \<^verbatim>\<open>+=\<close>, which wraps
  in the release profile.
\<close>

section \<open>Definitions\<close>

type_synonym 'k limit_table = "'k \<Rightarrow> (nat \<times> nat) option"

definition INCOMING_IP_RATE_LIMIT_WINDOW_SECS :: nat where "INCOMING_IP_RATE_LIMIT_WINDOW_SECS = 60"
definition INCOMING_IP_RATE_LIMIT_MAX_PER_WINDOW :: nat where "INCOMING_IP_RATE_LIMIT_MAX_PER_WINDOW = 120"
definition OFFER_RATE_LIMIT_TRUSTED_PER_MIN :: nat where "OFFER_RATE_LIMIT_TRUSTED_PER_MIN = 60"
definition OFFER_RATE_LIMIT_UNTRUSTED_PER_MIN :: nat where "OFFER_RATE_LIMIT_UNTRUSTED_PER_MIN = 20"
definition CONNECTION_RATE_LIMIT_TRUSTED_PER_MIN :: nat where "CONNECTION_RATE_LIMIT_TRUSTED_PER_MIN = 400"
definition CONNECTION_RATE_LIMIT_UNTRUSTED_PER_MIN :: nat where "CONNECTION_RATE_LIMIT_UNTRUSTED_PER_MIN = 120"

definition U32_MAX :: nat where "U32_MAX = 2 ^ 32 - 1"

definition ip_rate_limited :: "'k \<Rightarrow> nat \<Rightarrow> 'k limit_table \<Rightarrow> 'k limit_table \<times> bool" where
  "ip_rate_limited ip now limiter =
     (let (count, window_start) = (case limiter ip of Some e \<Rightarrow> e | None \<Rightarrow> (0, now));
          (count1, start1) = (if now - window_start > INCOMING_IP_RATE_LIMIT_WINDOW_SECS * 1000 then (0, now)
                              else (count, window_start));
          count2 = min U32_MAX (count1 + 1)
      in (limiter(ip \<mapsto> (count2, start1)), count2 > INCOMING_IP_RATE_LIMIT_MAX_PER_WINDOW))"

definition offer_limit :: "bool \<Rightarrow> nat" where
  "offer_limit trusted = (if trusted then OFFER_RATE_LIMIT_TRUSTED_PER_MIN else OFFER_RATE_LIMIT_UNTRUSTED_PER_MIN)"

definition check_offer_rate_limit :: "bool \<Rightarrow> string \<Rightarrow> nat \<Rightarrow> string limit_table \<Rightarrow> string limit_table \<times> bool" where
  "check_offer_rate_limit trusted peer_fp now limiter =
     (let (count, window_start) = (case limiter peer_fp of Some e \<Rightarrow> e | None \<Rightarrow> (0, now));
          (count1, start1) = (if now - window_start > 60000 then (0, now) else (count, window_start));
          count2 = (count1 + 1) mod 2 ^ 32
      in (limiter(peer_fp \<mapsto> (count2, start1)), count2 > offer_limit trusted))"

definition connection_limit :: "bool \<Rightarrow> nat" where
  "connection_limit trusted =
     (if trusted then CONNECTION_RATE_LIMIT_TRUSTED_PER_MIN else CONNECTION_RATE_LIMIT_UNTRUSTED_PER_MIN)"

definition check_connection_rate_limit :: "bool \<Rightarrow> string \<Rightarrow> nat \<Rightarrow> string limit_table \<Rightarrow> string limit_table \<times> bool" where
  "check_connection_rate_limit trusted peer_fp now limiter =
     (let (count, window_start) = (case limiter peer_fp of Some e \<Rightarrow> e | None \<Rightarrow> (0, now));
          (count1, start1) = (if now - window_start > 60000 then (0, now) else (count, window_start));
          count2 = (count1 + 1) mod 2 ^ 32
      in (limiter(peer_fp \<mapsto> (count2, start1)), count2 > connection_limit trusted))"

text \<open>
  The number of admitted requests for a key in a sequence of requests, each with the caller's
  circumstances, its key and its instant.
\<close>

fun admitted ::
    "('c \<Rightarrow> 'k \<Rightarrow> nat \<Rightarrow> 'k limit_table \<Rightarrow> 'k limit_table \<times> bool) \<Rightarrow> 'k \<Rightarrow> ('c \<times> 'k \<times> nat) list \<Rightarrow> 'k limit_table \<Rightarrow> nat" where
  "admitted step k [] tbl = 0"
| "admitted step k ((c, k', now) # reqs) tbl =
     (case step c k' now tbl of
        (tbl', limited) \<Rightarrow> (if k' = k \<and> \<not> limited then 1 else 0) + admitted step k reqs tbl')"

definition counted :: "'k limit_table \<Rightarrow> 'k \<Rightarrow> nat" where
  "counted tbl k = (case tbl k of Some (n, s) \<Rightarrow> n | None \<Rightarrow> 0)"

section \<open>The interface of a window limiter\<close>

text \<open>
  What the bound below needs to know of a limiter: a request touches its own key only, a new window
  starts for an unknown key or after more than \<open>window\<close> milliseconds, within a window the counter rises by one, or stays
  above \<open>cap\<close>, as long as there is \<open>room\<close> for it, and a request is refused when the counter exceeds \<open>cap\<close>.
\<close>

locale window_limiter =
  fixes step :: "'c \<Rightarrow> 'k \<Rightarrow> nat \<Rightarrow> 'k limit_table \<Rightarrow> 'k limit_table \<times> bool"
    and cap :: nat and window :: nat and room :: "nat \<Rightarrow> bool"
  assumes other: "k \<noteq> k' \<Longrightarrow> fst (step c k' now tbl) k = tbl k"
    and fresh: "tbl k = None \<Longrightarrow> fst (step c k now tbl) k = Some (1, now)"
    and expired: "tbl k = Some (n, s) \<Longrightarrow> now - s > window \<Longrightarrow> fst (step c k now tbl) k = Some (1, now)"
    and same: "tbl k = Some (n, s) \<Longrightarrow> now - s \<le> window \<Longrightarrow> room (n + 1) \<Longrightarrow>
      \<exists>m. fst (step c k now tbl) k = Some (m, s) \<and> min (n + 1) (cap + 1) \<le> m \<and> m \<le> n + 1"
    and room_below: "room n \<Longrightarrow> m \<le> n \<Longrightarrow> room m"
    and refuse: "fst (step c k now tbl) k = Some (m, s) \<Longrightarrow> cap < m \<Longrightarrow> snd (step c k now tbl)"
begin

text \<open>In one window at most \<open>cap\<close> requests are admitted, less those counted already.\<close>

lemma window_bound:
  assumes "tbl k = Some (n, s)" and "\<forall>(c, k', t) \<in> set reqs. t \<le> s + window" and "room (n + length reqs)"
  shows "admitted step k reqs tbl \<le> cap - n"
  using assms
proof (induction reqs arbitrary: tbl n)
  case (Cons r reqs)
  obtain c k' now where r: "r = (c, k', now)" by (cases r)
  have later: "\<forall>(c, k', t) \<in> set reqs. t \<le> s + window" and now: "now \<le> s + window" using Cons.prems(2) r by auto
  obtain tbl1 limited where step: "step c k' now tbl = (tbl1, limited)" by (cases "step c k' now tbl")
  show ?case
  proof (cases "k' = k")
    case False
    then have "tbl1 k = Some (n, s)" using other [of k k' c now tbl] Cons.prems(1) step by simp
    then show ?thesis using Cons.IH [of tbl1 n] later False room_below [OF Cons.prems(3)] by (simp add: r step)
  next
    case True
    have "now - s \<le> window" "room (n + 1)" using now room_below [OF Cons.prems(3)] by simp_all
    then obtain m where m: "tbl1 k = Some (m, s)" "min (n + 1) (cap + 1) \<le> m" "m \<le> n + 1"
      using same [of tbl k n s now c] Cons.prems(1) step True by auto
    have "room (m + length reqs)" using room_below [OF Cons.prems(3)] m(3) by simp
    then have "admitted step k reqs tbl1 \<le> cap - m" using Cons.IH [of tbl1 m] m(1) later by blast
    moreover have "limited \<or> m \<le> cap" using refuse [of c k now tbl m s] m(1) step True by force
    ultimately show ?thesis using m(2) True step by (cases limited) (auto simp: r min_def split: if_splits)
  qed
qed simp

text \<open>Any span of \<open>window\<close> milliseconds meets at most two windows.\<close>

lemma span_bound:
  assumes "sorted (map (\<lambda>(c, k', t). t) reqs)" and "\<forall>(c, k', t) \<in> set reqs. a \<le> t \<and> t \<le> a + window"
    and "room (counted tbl k + length reqs)"
  shows "admitted step k reqs tbl \<le> 2 * cap - (case tbl k of Some (n, s) \<Rightarrow> min n cap | None \<Rightarrow> 0)"
  using assms
proof (induction reqs arbitrary: tbl)
  case (Cons r reqs)
  obtain c k' now where r: "r = (c, k', now)" by (cases r)
  have later: "sorted (map (\<lambda>(c, k', t). t) reqs)" "\<forall>(c, k', t) \<in> set reqs. a \<le> t \<and> t \<le> a + window"
    and now: "a \<le> now" "now \<le> a + window" using Cons.prems r by auto
  obtain tbl1 limited where step: "step c k' now tbl = (tbl1, limited)" by (cases "step c k' now tbl")
  show ?case
  proof (cases "k' = k")
    case False
    then have "tbl1 k = tbl k" using other [of k k' c now tbl] step by simp
    then show ?thesis using Cons.IH [OF later, of tbl1] False room_below [OF Cons.prems(3)] by (simp add: r step counted_def)
  next
    case True
    have start: "admitted step k (r # reqs) tbl \<le> cap" if "tbl1 k = Some (1, now)"
    proof -
      have "\<forall>(c, k', t) \<in> set reqs. t \<le> now + window" using later(2) now(1) by auto
      moreover have "room (1 + length reqs)" using room_below [OF Cons.prems(3)] by simp
      ultimately have "admitted step k reqs tbl1 \<le> cap - 1" using window_bound [of tbl1 k 1 now reqs] that by simp
      moreover have "cap < 1 \<Longrightarrow> limited" using refuse [of c k now tbl 1 now] that step True by simp
      ultimately show ?thesis using True step by (cases "cap = 0") (auto simp: r)
    qed
    show ?thesis
    proof (cases "tbl k")
      case None
      then show ?thesis using start fresh [of tbl k c now] step True by simp
    next
      case (Some e)
      obtain n s where e: "e = (n, s)" by (cases e)
      show ?thesis
      proof (cases "now - s > window")
        case False
        have "room (n + 1)" using room_below [OF Cons.prems(3)] Some e by (simp add: counted_def)
        then obtain m where m: "tbl1 k = Some (m, s)" "min (n + 1) (cap + 1) \<le> m" "m \<le> n + 1"
          using same [of tbl k n s now c] Some e step True False by auto
        have "room (counted tbl1 k + length reqs)" using room_below [OF Cons.prems(3)] m(1,3) Some e by (simp add: counted_def)
        have "limited \<or> m \<le> cap" using refuse [of c k now tbl m s] m(1) step True by force
        moreover have "admitted step k reqs tbl1 \<le> 2 * cap - min m cap" using Cons.IH [OF later \<open>room (counted tbl1 k + length reqs)\<close>] m(1) by simp
        ultimately show ?thesis using m(2) Some e True step by (cases limited) (auto simp: r min_def split: if_splits)
      qed (use start expired [of tbl k n s now c] Some e step True in auto)
    qed
  qed
qed simp

end

interpretation ip_limiter: window_limiter "\<lambda>c :: unit. ip_rate_limited" 120 60000 "\<lambda>_. True"
proof
  show "\<exists>m. fst (ip_rate_limited k now tbl) k = Some (m, s) \<and> min (n + 1) (120 + 1) \<le> m \<and> m \<le> n + 1"
    if "tbl k = Some (n, s)" "now - s \<le> 60000" for k now n s and tbl :: "'k limit_table"
    using that by (auto simp: ip_rate_limited_def INCOMING_IP_RATE_LIMIT_WINDOW_SECS_def U32_MAX_def)
qed (auto simp: ip_rate_limited_def INCOMING_IP_RATE_LIMIT_WINDOW_SECS_def INCOMING_IP_RATE_LIMIT_MAX_PER_WINDOW_def
    U32_MAX_def Let_def split: if_splits option.splits prod.splits)

interpretation offer_limiter: window_limiter check_offer_rate_limit 60 60000 "\<lambda>n. n < 2 ^ 32"
  by unfold_locales
     (auto simp: check_offer_rate_limit_def offer_limit_def OFFER_RATE_LIMIT_TRUSTED_PER_MIN_def
       OFFER_RATE_LIMIT_UNTRUSTED_PER_MIN_def Let_def split: if_splits option.splits prod.splits)

interpretation connection_limiter: window_limiter check_connection_rate_limit 400 60000 "\<lambda>n. n < 2 ^ 32"
  by unfold_locales
     (auto simp: check_connection_rate_limit_def connection_limit_def CONNECTION_RATE_LIMIT_TRUSTED_PER_MIN_def
       CONNECTION_RATE_LIMIT_UNTRUSTED_PER_MIN_def Let_def split: if_splits option.splits prod.splits)

section \<open>Properties\<close>

text \<open>
  C36: Requests are bounded over every minute, not only over the limiter's own windows.  Whatever requests
  of whatever peers came before and come in between, in any span of sixty seconds at most 240 connections
  from one address are admitted, and, as long as the requests of the span and those counted before do not exceed the 32 bits of
  the counters, at most 800 connections under one certificate and 120 offers of one peer.
\<close>

theorem admitted_per_minute:
  assumes "sorted (map (\<lambda>(c, k', t). t) ips)" and "list_all (\<lambda>(c, k', t). a \<le> t \<and> t \<le> a + 60000) ips"
    and "sorted (map (\<lambda>(c, k', t). t) reqs)" and "list_all (\<lambda>(c, k', t). a \<le> t \<and> t \<le> a + 60000) reqs"
    and "counted tbl1 fp + length reqs < 2 ^ 32" and "counted tbl2 fp + length reqs < 2 ^ 32"
  shows "admitted (\<lambda>c :: unit. ip_rate_limited) ip ips tbl \<le> 240 \<and>
    admitted check_connection_rate_limit fp reqs tbl1 \<le> 800 \<and> admitted check_offer_rate_limit fp reqs tbl2 \<le> 120"
proof (intro conjI)
  have ips: "\<forall>(c, k', t) \<in> set ips. a \<le> t \<and> t \<le> a + 60000" and reqs: "\<forall>(c, k', t) \<in> set reqs. a \<le> t \<and> t \<le> a + 60000"
    using assms(2,4) by (auto simp: list_all_iff)
  show "admitted (\<lambda>c :: unit. ip_rate_limited) ip ips tbl \<le> 240" using ip_limiter.span_bound [OF assms(1) ips, of ip tbl] by simp
  show "admitted check_connection_rate_limit fp reqs tbl1 \<le> 800"
    using connection_limiter.span_bound [OF assms(3) reqs assms(5)] by simp
  show "admitted check_offer_rate_limit fp reqs tbl2 \<le> 120" using offer_limiter.span_bound [OF assms(3) reqs assms(6)] by simp
qed

theorem admitted_per_minute_witness:
  "admitted (\<lambda>c :: unit. ip_rate_limited) (1 :: nat) [((), 1, 5), ((), 2, 9)] (\<lambda>_. None) \<le> 240 \<and>
   admitted check_connection_rate_limit ''f'' [(True, ''f'', 7)] (\<lambda>_. None) \<le> 800 \<and>
   admitted check_offer_rate_limit ''f'' [(True, ''f'', 7)] (\<lambda>_. None) \<le> 120"
  by (rule admitted_per_minute [where a = 5]) (simp_all add: counted_def)

text \<open>The two counters that are not saturated start again at zero: the request after the largest count is admitted.\<close>

theorem counters_wrap:
  assumes "tbl fp = Some (U32_MAX, s)" and "now - s \<le> 60000"
  shows "\<not> snd (check_offer_rate_limit trusted fp now tbl) \<and> \<not> snd (check_connection_rate_limit trusted fp now tbl)"
  using assms by (simp add: check_offer_rate_limit_def check_connection_rate_limit_def U32_MAX_def)

theorem counters_wrap_witness: "\<not> snd (check_offer_rate_limit False ''f'' 7 [''f'' \<mapsto> (U32_MAX, 5)])"
  using counters_wrap [of "[''f'' \<mapsto> (U32_MAX, 5)]" "''f''" 5 7 False] by simp

end
