(* ===== verification/Handshake.thy ===== *)
theory Handshake
  imports Receiver RateLimit
begin

text \<open>
  \<^verbatim>\<open>transport/handshake.rs\<close> and the accept loop of \<^verbatim>\<open>transport/server.rs\<close>: what happens to an incoming QUIC
  connection before and until an offer reaches the receiver.  An \<open>incoming\<close> connection is described by
  what the code learns of it: its remote address, the fingerprint of its certificate if it has one, and
  the results of the two reads of the control stream.  Writes on the control stream succeed or fail by \<open>in_hello_write_ok\<close> for the greeting and by
  \<open>env_control_ok\<close> for all others, with the text \<open>in_write_error\<close>.  \<open>show_msg\<close> and \<open>show_err\<close> render
  messages and errors for the texts of rejections.
\<close>

section \<open>Data\<close>

record net_state =
  ns_world :: world
  offer_limits :: "string limit_table"
  conn_limits :: "string limit_table"
  ip_limits :: "ip_addr limit_table"
  fp_alerts :: "string \<rightharpoonup> u64"

record incoming =
  in_env :: offer_env
  in_is_probe :: bool
  in_ip :: ip_addr
  in_cert :: "string option"
  in_accept_bi :: bool
  in_hello :: "codec_error + dash_message"
  in_hello_write_ok :: bool
  in_offer :: "codec_error + dash_message"
  in_write_error :: string

record incoming_result =
  ir_state :: net_state
  ir_control :: "dash_message list"
  ir_closed :: bool
  ir_error :: "string option"

definition HARD_REJECT_KNOWN_IDENTITY_MISMATCH :: bool where
  "HARD_REJECT_KNOWN_IDENTITY_MISMATCH = False"

datatype mismatch_action = AuditOnly | RejectConnection

section \<open>Small operations\<close>

definition is_identity_mismatch :: "string \<Rightarrow> string \<Rightarrow> bool" where
  "is_identity_mismatch expected actual = (expected \<noteq> actual)"

definition peer_fp_matches :: "string option \<Rightarrow> string \<Rightarrow> string + (bool \<times> string)" where
  "peer_fp_matches cert expected =
     (case cert of
        None \<Rightarrow> Err ''no peer identity''
      | Some actual \<Rightarrow> Ok (\<not> is_identity_mismatch expected actual, actual))"

definition incoming_identity_mismatch_action :: "string option \<Rightarrow> string option \<Rightarrow> bool \<Rightarrow> mismatch_action" where
  "incoming_identity_mismatch_action expected actual hard_reject =
     (case (expected, actual) of
        (Some e, Some a) \<Rightarrow> (if hard_reject \<and> is_identity_mismatch e a then RejectConnection else AuditOnly)
      | _ \<Rightarrow> AuditOnly)"

definition negotiate_version :: "nat list \<Rightarrow> nat option" where
  "negotiate_version peer_versions = find (\<lambda>v. v \<in> set peer_versions) (rev SUPPORTED_VERSIONS)"

definition our_hello :: dash_message where
  "our_hello = Hello \<lparr>wire_version = WIRE_VERSION, supported_versions = SUPPORTED_VERSIONS\<rparr>"

text \<open>The initiator's side of the greeting: the chosen version or an error text.\<close>

definition do_hello_as_initiator ::
    "(dash_message \<Rightarrow> string) \<Rightarrow> (codec_error \<Rightarrow> string) \<Rightarrow> bool \<Rightarrow> bool \<Rightarrow> codec_error + dash_message \<Rightarrow> string + nat" where
  "do_hello_as_initiator show_msg show_err open_ok write_works reply =
     (if \<not> open_ok then Err ''open bi stream''
      else if \<not> write_works then Err ''write Hello''
      else case reply of
        Inl e \<Rightarrow> Err (show_err e)
      | Inr (Hello h) \<Rightarrow>
          (if wire_version h \<noteq> 0 then Err (''unknown peer wire_version: '' @ show_nat (wire_version h))
           else case negotiate_version (supported_versions h) of
             None \<Rightarrow> Err ''no common protocol version''
           | Some v \<Rightarrow> Ok v)
      | Inr m \<Rightarrow> Err (''expected Hello, got '' @ show_msg m))"

text \<open>The first known device that shares the remote address under another fingerprint.\<close>

fun find_mismatch :: "string \<Rightarrow> ip_addr \<Rightarrow> (string \<times> device_info) list \<Rightarrow> (string \<times> string) option" where
  "find_mismatch cert remote [] = None"
| "find_mismatch cert remote ((fp, d) # rest) =
     (case find (\<lambda>(k, s). list_ex (\<lambda>a. addr_ip a = remote) (ss_addrs s)) (dv_sessions d) of
        Some (k, s) \<Rightarrow>
          (if dv_fingerprint d \<noteq> cert then Some (dv_fingerprint d, ss_id s) else find_mismatch cert remote rest)
      | None \<Rightarrow> find_mismatch cert remote rest)"

definition on_app :: "(app_state \<Rightarrow> app_state) \<Rightarrow> net_state \<Rightarrow> net_state" where
  "on_app f ns = ns\<lparr>ns_world := (ns_world ns)\<lparr>app := f (app (ns_world ns))\<rparr>\<rparr>"

definition log_event :: "offer_env \<Rightarrow> string \<Rightarrow> string \<Rightarrow> string option \<Rightarrow> string \<Rightarrow> app_state \<Rightarrow> app_state" where
  "log_event env ty phase fp reason st =
     (if env_lock_ok env
      then st\<lparr>security_db := log_security_event (unix_now (env_clock env)) ty phase fp reason (security_db st)\<rparr>
      else st)"

section \<open>A fingerprint that changed\<close>

definition freeze_changed_peer :: "offer_env \<Rightarrow> string \<Rightarrow> string \<Rightarrow> string \<Rightarrow> app_state \<Rightarrow> app_state" where
  "freeze_changed_peer env mdns_fp cert_fp session_id st =
     (let level = trust_level_for (trusted_peers st) mdns_fp;
          reason = ''Fingerprint changed on session '' @ session_id @ '': expected '' @ mdns_fp @ '', saw '' @ cert_fp
      in if level = Some SignedLinkVerified \<or> level = Some MutualConfirmed
         then
           (let tbl = fst (freeze_trusted_peer mdns_fp reason (unix_now (env_clock env)) (trusted_peers st));
                st1 = st\<lparr>trusted_peers := tbl\<rparr>;
                st2 = (if env_lock_ok env
                       then st1\<lparr>trusted_db := fst (replace_trusted_peers tbl (trusted_db st1))\<rparr> else st1);
                st3 = log_event env ''trust_frozen'' ''incoming'' (Some mdns_fp) reason st2
            in emit (EvHost ''trusted_peer_updated'' [mdns_fp, ''frozen'']) st3)
         else st)"

definition alert_changed_fingerprint :: "offer_env \<Rightarrow> string \<Rightarrow> string \<Rightarrow> string \<Rightarrow> net_state \<Rightarrow> net_state" where
  "alert_changed_fingerprint env mdns_fp cert_fp session_id ns =
     (let key = session_id @ ''|'' @ mdns_fp @ ''|'' @ cert_fp;
          now = unix_now (env_clock env);
          last_alert = (case fp_alerts ns key of Some t \<Rightarrow> t | None \<Rightarrow> 0)
      in if sat_sub now last_alert \<ge> 60
         then on_app (\<lambda>st. log_event env ''fingerprint_changed'' ''incoming'' (Some mdns_fp)
                (''trusted fingerprint changed on session '' @ session_id @ '': previous='' @ mdns_fp @ '' current='' @ cert_fp)
                (emit (EvHost ''fingerprint_changed'' [session_id, mdns_fp, cert_fp]) st))
              (ns\<lparr>fp_alerts := (fp_alerts ns)(key \<mapsto> now)\<rparr>)
         else ns)"

definition note_mismatch :: "offer_env \<Rightarrow> string \<Rightarrow> string \<Rightarrow> string \<Rightarrow> net_state \<Rightarrow> net_state" where
  "note_mismatch env mdns_fp cert_fp session_id ns =
     (let ns1 = on_app (\<lambda>st. log_event env ''identity_mismatch'' ''incoming'' (Some mdns_fp)
                  ''mDNS identity does not match peer certificate fingerprint''
                  (emit (EvHost ''identity_mismatch'' [mdns_fp, cert_fp]) st)) ns;
          tbl = trusted_peers (app (ns_world ns1))
      in if is_trusted tbl mdns_fp \<and> \<not> is_trusted tbl cert_fp
         then alert_changed_fingerprint env mdns_fp cert_fp session_id
                (on_app (freeze_changed_peer env mdns_fp cert_fp session_id) ns1)
         else ns1)"

section \<open>The connection handler\<close>

definition answer :: "net_state \<Rightarrow> dash_message list \<Rightarrow> incoming_result" where
  "answer ns msgs = \<lparr>ir_state = ns, ir_control = msgs, ir_closed = False, ir_error = None\<rparr>"

definition close_conn :: "net_state \<Rightarrow> incoming_result" where
  "close_conn ns = \<lparr>ir_state = ns, ir_control = [], ir_closed = True, ir_error = None\<rparr>"

definition fail :: "net_state \<Rightarrow> dash_message list \<Rightarrow> string \<Rightarrow> incoming_result" where
  "fail ns msgs e = \<lparr>ir_state = ns, ir_control = msgs, ir_closed = False, ir_error = Some e\<rparr>"

text \<open>A rejection whose write fails is only logged.\<close>

definition reject_control_stream :: "bool \<Rightarrow> error_code \<Rightarrow> dash_message list" where
  "reject_control_stream write_works reason = (if write_works then [Reject reason] else [])"

text \<open>An offer that was read: its fingerprint is checked against the certificate, then its rate, then the receiver takes over.\<close>

definition admit_offer ::
    "(bytes \<Rightarrow> hash) \<Rightarrow> (codec_error \<Rightarrow> string) \<Rightarrow> io_faults \<Rightarrow> incoming \<Rightarrow> nat \<Rightarrow> offer_payload \<Rightarrow> net_state \<Rightarrow> incoming_result" where
  "admit_offer h show_err F inc chosen off ns =
     (let env = in_env inc; ok = env_control_ok env; peer_fp = sender_fingerprint off in
      if trim peer_fp = '''' then answer ns (our_hello # reject_control_stream ok (ProtocolError ''missing sender fingerprint in Offer''))
      else if in_cert inc \<noteq> None \<and> in_cert inc \<noteq> Some peer_fp
      then answer ns (our_hello # reject_control_stream ok IdentityMismatch)
      else
        (let (tbl, limited) = check_offer_rate_limit (is_trusted (trusted_peers (app (ns_world ns))) peer_fp) peer_fp
               (instant_now (env_clock env)) (offer_limits ns);
             ns1 = ns\<lparr>offer_limits := tbl\<rparr>
         in if limited then answer ns1 (our_hello # reject_control_stream ok RateLimited)
            else
              (let r = handle_offer h show_err F
                     (env\<lparr>env_peer_fp := peer_fp, env_peer_authenticated := in_cert inc \<noteq> None, env_version := chosen\<rparr>)
                     off (ns_world ns1);
                   ns2 = ns1\<lparr>ns_world := res_world r\<rparr>
               in if res_error r then fail ns2 (our_hello # res_control r) (in_write_error inc)
                  else answer ns2 (our_hello # res_control r))))"

definition await_offer ::
    "(bytes \<Rightarrow> hash) \<Rightarrow> (dash_message \<Rightarrow> string) \<Rightarrow> (codec_error \<Rightarrow> string) \<Rightarrow> io_faults \<Rightarrow> incoming \<Rightarrow> nat \<Rightarrow> net_state \<Rightarrow> incoming_result" where
  "await_offer h show_msg show_err F inc chosen ns =
     (let refusal = (\<lambda>e. answer ns (our_hello # reject_control_stream (env_control_ok (in_env inc)) e)) in
      case in_offer inc of
        Inr (Offer off) \<Rightarrow> admit_offer h show_err F inc chosen off ns
      | Inr (Cancel c) \<Rightarrow> refusal Cancelled
      | Inr other \<Rightarrow> refusal (ProtocolError (''expected Offer, got '' @ show_msg other))
      | Inl e \<Rightarrow> refusal (ProtocolError (''read Offer failed: '' @ show_err e)))"

definition exchange_hello ::
    "(bytes \<Rightarrow> hash) \<Rightarrow> (dash_message \<Rightarrow> string) \<Rightarrow> (codec_error \<Rightarrow> string) \<Rightarrow> io_faults \<Rightarrow> incoming \<Rightarrow> net_state \<Rightarrow> incoming_result" where
  "exchange_hello h show_msg show_err F inc ns =
     (let ok = env_control_ok (in_env inc); refusal = (\<lambda>e. answer ns (reject_control_stream ok e)) in
      if \<not> in_accept_bi inc then fail ns [] ''accept bi stream''
      else case in_hello inc of
        Inl e \<Rightarrow> refusal (ProtocolError (''read Hello failed: '' @ show_err e))
      | Inr (Hello hello) \<Rightarrow>
          (if wire_version hello \<noteq> 0 then refusal VersionMismatch
           else if \<not> in_hello_write_ok inc then fail ns [] (in_write_error inc)
           else case negotiate_version (supported_versions hello) of
             None \<Rightarrow> (if ok then fail ns [our_hello, Reject VersionMismatch] ''no common protocol version''
                      else fail ns [our_hello] (in_write_error inc))
           | Some chosen \<Rightarrow> await_offer h show_msg show_err F inc chosen ns)
      | Inr other \<Rightarrow> refusal (ProtocolError (''expected Hello, got '' @ show_msg other)))"

definition check_identity ::
    "(bytes \<Rightarrow> hash) \<Rightarrow> (dash_message \<Rightarrow> string) \<Rightarrow> (codec_error \<Rightarrow> string) \<Rightarrow> io_faults \<Rightarrow> incoming \<Rightarrow> net_state \<Rightarrow> incoming_result" where
  "check_identity h show_msg show_err F inc ns =
     (let mismatch = (case in_cert inc of Some cert \<Rightarrow> find_mismatch cert (in_ip inc) (devices (discovery (app (ns_world ns)))) | None \<Rightarrow> None) in
      case mismatch of
        None \<Rightarrow> exchange_hello h show_msg show_err F inc ns
      | Some (mdns_fp, session_id) \<Rightarrow>
          (let cert_fp = (case in_cert inc of Some c \<Rightarrow> c | None \<Rightarrow> ''unknown'');
               ns1 = note_mismatch (in_env inc) mdns_fp cert_fp session_id ns
           in if incoming_identity_mismatch_action (Some mdns_fp) (in_cert inc) HARD_REJECT_KNOWN_IDENTITY_MISMATCH = RejectConnection
              then close_conn ns1
              else exchange_hello h show_msg show_err F inc ns1))"

definition handle_incoming ::
    "(bytes \<Rightarrow> hash) \<Rightarrow> (dash_message \<Rightarrow> string) \<Rightarrow> (codec_error \<Rightarrow> string) \<Rightarrow> io_faults \<Rightarrow> incoming \<Rightarrow> net_state \<Rightarrow> incoming_result" where
  "handle_incoming h show_msg show_err F inc ns =
     (case in_cert inc of
        None \<Rightarrow> check_identity h show_msg show_err F inc ns
      | Some cert \<Rightarrow>
          (let (tbl, limited) = check_connection_rate_limit (is_trusted (trusted_peers (app (ns_world ns))) cert) cert
                 (instant_now (env_clock (in_env inc))) (conn_limits ns);
               ns1 = ns\<lparr>conn_limits := tbl\<rparr>
           in if limited then close_conn ns1 else check_identity h show_msg show_err F inc ns1))"

text \<open>One connection of the accept loop: probes are closed, addresses limited, and a failure recorded and reported.\<close>

definition accept_connection ::
    "(bytes \<Rightarrow> hash) \<Rightarrow> (dash_message \<Rightarrow> string) \<Rightarrow> (codec_error \<Rightarrow> string) \<Rightarrow> io_faults \<Rightarrow> incoming \<Rightarrow> net_state \<Rightarrow> incoming_result" where
  "accept_connection h show_msg show_err F inc ns =
     (if in_is_probe inc then close_conn ns
      else
        (let (tbl, limited) = ip_rate_limited (in_ip inc) (instant_now (env_clock (in_env inc))) (ip_limits ns);
             ns1 = ns\<lparr>ip_limits := tbl\<rparr>
         in if limited then close_conn ns1
            else
              (let r = handle_incoming h show_msg show_err F inc ns1 in
               case ir_error r of
                 None \<Rightarrow> r
               | Some e \<Rightarrow>
                   r\<lparr>ir_state := on_app (\<lambda>st.
                        emit (EvHost ''transfer_error'' [''E_PROTOCOL'', ''IncomingConnectionError'', ''incoming'', e])
                          (log_event (in_env inc) ''handshake_failed'' ''incoming'' None e st)) (ir_state r)\<rparr>)))"

fun accept_loop ::
    "(bytes \<Rightarrow> hash) \<Rightarrow> (dash_message \<Rightarrow> string) \<Rightarrow> (codec_error \<Rightarrow> string) \<Rightarrow> io_faults \<Rightarrow> incoming list \<Rightarrow> net_state \<Rightarrow>
     net_state \<times> dash_message list list" where
  "accept_loop h show_msg show_err F [] ns = (ns, [])"
| "accept_loop h show_msg show_err F (inc # incs) ns =
     (let r = accept_connection h show_msg show_err F inc ns;
          (ns', replies) = accept_loop h show_msg show_err F incs (ir_state r)
      in (ns', ir_control r # replies))"


section \<open>Consent\<close>

text \<open>What the acceptance policy asks of an offer from a peer that proved its fingerprint.\<close>

definition auto_accept_allowed :: "app_state \<Rightarrow> string \<Rightarrow> offer_payload \<Rightarrow> bool" where
  "auto_accept_allowed st fp off \<longleftrightarrow>
     is_active_trust (trusted_peers st) fp \<and> auto_accept_trusted_only (config st) \<and>
     total_size off \<le> 500 * 1024 * 1024 \<and> list_all (\<lambda>it. infer_offer_risk_class it \<noteq> High) (items off)"

text \<open>Concrete inputs: a connection of a trusted peer with an empty offer, and one of a stranger at that peer's address.\<close>

definition sample_offer_env :: offer_env where
  "sample_offer_env = \<lparr>env_clock = sample_clock, env_lock_ok = True, env_uuid = ''u'', env_host_download_dir = Some ''/s'',
     env_home = None, env_disks = [], env_response = ResponseTimeout, env_control_ok = True, env_version = 1,
     env_peer_fp = '''', env_peer_authenticated = False, env_conn = 1, env_streams = []\<rparr>"

definition sample_offer :: offer_payload where
  "sample_offer = \<lparr>transfer_id = ''t'', items = [], total_size = 0, sender_name = ''n'', sender_fingerprint = ''f''\<rparr>"

definition sample_incoming :: incoming where
  "sample_incoming = \<lparr>in_env = sample_offer_env, in_is_probe = False, in_ip = IPv4 3232235778, in_cert = Some ''f'',
     in_accept_bi = True, in_hello = Inr our_hello, in_hello_write_ok = True,
     in_offer = Inr (Offer sample_offer), in_write_error = ''''\<rparr>"

definition stranger_incoming :: incoming where
  "stranger_incoming = sample_incoming\<lparr>in_cert := Some ''g''\<rparr>"

definition sample_net :: net_state where
  "sample_net = \<lparr>ns_world = sample_world\<lparr>app := sample_app\<lparr>trusted_peers := [(''f'', sample_peer)],
       config := sample_config\<lparr>auto_accept_trusted_only := True\<rparr>,
       discovery := empty_discovery\<lparr>devices := [(''f'', sighted_device)]\<rparr>\<rparr>\<rparr>,
     offer_limits = Map.empty, conn_limits = Map.empty, ip_limits = Map.empty, fp_alerts = Map.empty\<rparr>"

section \<open>Facts\<close>

subsection \<open>What an offer leaves of trust and configuration\<close>

lemma register_offer_keeps [simp]:
  "trusted_peers (register_offer env off st) = trusted_peers st" "config (register_offer env off st) = config st"
  by (simp_all add: register_offer_def set_task_def)

lemma emit_keeps [simp]: "trusted_peers (emit e st) = trusted_peers st" "config (emit e st) = config st"
  by (simp_all add: emit_def)

lemma upd_slo_keeps [simp]: "trusted_peers (upd_slo tid f st) = trusted_peers st" "config (upd_slo tid f st) = config st"
  by (simp_all add: upd_slo_def)

lemma ensure_notification_keeps [simp]:
  "trusted_peers (fst (ensure_incoming_request_notification clk uuid tid st)) = trusted_peers st"
  "config (fst (ensure_incoming_request_notification clk uuid tid st)) = config st"
  by (simp_all add: ensure_incoming_request_notification_def record_receiver_prompted_def
      set_transfer_slo_peer_if_missing_def Let_def split: prod.split option.split)

lemma announce_offer_keeps [simp]:
  "trusted_peers (announce_offer env off st) = trusted_peers st" "config (announce_offer env off st) = config st"
  by (simp_all add: announce_offer_def record_receiver_fallback_prompted_def Let_def case_prod_beta)

lemma decide_offer_keeps [simp]: "trusted_peers (fst (decide_offer env off st)) = trusted_peers st"
  by (simp add: decide_offer_def Let_def split: user_response.splits)

lemma end_transfer_keeps [simp]: "trusted_peers (end_transfer env tid s reason st) = trusted_peers st"
  by (simp add: end_transfer_def update_transfer_status_def mark_incoming_request_notification_inactive_def
      flush_progress_persist_now_def Let_def split: option.splits)

lemma finish_offer_keeps [simp]: "trusted_peers (finish_offer env off outcome st) = trusted_peers st"
  by (simp add: finish_offer_def emit_terminal_def emit_error_def Let_def split: transfer_outcome.split)

lemma determine_AutoAccept:
  "determine_auto_accept_decision trusted_auth enabled offered its = AutoAccept \<longleftrightarrow>
     trusted_auth \<and> enabled \<and> offered \<le> 500 * 1024 * 1024 \<and> list_all (\<lambda>it. infer_offer_risk_class it \<noteq> High) its"
  by (auto simp: determine_auto_accept_decision_def TRUSTED_AUTO_ACCEPT_MAX_BYTES_def list_all_iff list_ex_iff)

lemma decide_offer_accepts:
  assumes "fst (snd (decide_offer env off st))"
  shows "env_response env = Responded True \<or> env_peer_authenticated env \<and> auto_accept_allowed st (env_peer_fp env) off"
  using assms unfolding decide_offer_def auto_accept_allowed_def
  by (auto simp: Let_def determine_AutoAccept split: if_splits user_response.splits)

lemma accept_offer_version:
  "Accept p \<in> set (res_control (accept_offer h show_err F env off root w)) \<Longrightarrow> chosen_version p = env_version env"
  by (auto simp: accept_offer_def Let_def split: prod.splits if_splits sum.splits)

lemma handle_offer_accepts:
  assumes "Accept p \<in> set (res_control (handle_offer h show_err F env off w))"
  shows "chosen_version p = env_version env \<and>
    (env_response env = Responded True \<or> env_peer_authenticated env \<and> auto_accept_allowed (app w) (env_peer_fp env) off)"
proof -
  let ?st = "announce_offer env off (register_offer env off (app w))"
  have keeps: "auto_accept_allowed ?st fp off = auto_accept_allowed (app w) fp off" for fp
    by (simp add: auto_accept_allowed_def)
  have "fst (snd (decide_offer env off ?st)) \<and> chosen_version p = env_version env"
    using assms accept_offer_version
    by (auto simp: handle_offer_def Let_def refuse_disk_full_def reject_offer_def split: prod.splits if_splits)
  then show ?thesis using decide_offer_accepts keeps by blast
qed

lemma add_progress_keeps [simp]: "trusted_peers (add_progress tid n st) = trusted_peers st"
  by (simp add: add_progress_def schedule_progress_persist_def Let_def split: option.split)

lemma receive_loop_keeps [simp]:
  "trusted_peers (app (fst (receive_loop h show_err F strategy tid fid final_path temp_path hashed s w))) = trusted_peers (app w)"
  by (induction h show_err F strategy tid fid final_path temp_path hashed s w rule: receive_loop.induct)
    (auto split: prod.split sum.split)

lemma receive_one_file_keeps [simp]:
  "trusted_peers (app (fst (receive_one_file h show_err F root tid it m rest w))) = trusted_peers (app w)"
  by (auto simp: receive_one_file_def receive_regular_def Let_def case_prod_beta
      split: sum.split option.split open_result.split)

lemma run_tasks_keeps [simp]:
  "trusted_peers (app (fst (run_tasks h show_err F root tid routed cancelled tasks w))) = trusted_peers (app w)"
proof (induction tasks arbitrary: w)
  case (Cons task tasks)
  obtain it plan where task: "task = (it, plan)" by fastforce
  have "trusted_peers (app (fst (run_task h show_err F root tid routed cancelled superseded it plan w))) = trusted_peers (app w)"
    for superseded
    by (auto simp: run_task_def refuse_def send_ack_def Let_def split: item_plan.split option.split prod.split task_result.split)
      (metis fst_conv receive_one_file_keeps)+
  then show ?case using Cons task by (simp add: Let_def case_prod_beta)
qed simp

lemma is_active_trust_mark_used [simp]: "is_active_trust (mark_peer_used now fp tbl) fp' = is_active_trust tbl fp'"
  by (auto simp: is_active_trust_def mark_peer_used_def update_conv' split: option.split)

lemma handle_offer_keeps_trust:
  "is_active_trust (trusted_peers (app (res_world (handle_offer h show_err F env off w)))) fp =
     is_active_trust (trusted_peers (app w)) fp"
proof -
  have status: "trusted_peers (fst (update_transfer_status clk ok tid s r st)) = trusted_peers st" for clk ok tid s r st
    using end_transfer_keeps [of "undefined\<lparr>env_clock := clk, env_lock_ok := ok\<rparr>"] by (simp add: end_transfer_def)
  have "is_active_trust (trusted_peers (app (res_world (accept_offer h show_err F env off root v)))) fp =
      is_active_trust (trusted_peers (app v)) fp" for root v
    by (simp add: accept_offer_def receive_files_def emit_terminal_def emit_error_def Let_def case_prod_beta status
        split: sum.split)
  then show ?thesis
    by (simp add: handle_offer_def reject_offer_def refuse_disk_full_def set_error_def emit_terminal_def Let_def
        case_prod_beta split: option.split)
qed

subsection \<open>What a mismatch does to trust\<close>

lemma log_event_keeps [simp]:
  "trusted_peers (log_event env ty phase fp reason st) = trusted_peers st"
  "config (log_event env ty phase fp reason st) = config st"
  by (simp_all add: log_event_def)

lemma on_app_simps [simp]:
  "app (ns_world (on_app f ns)) = f (app (ns_world ns))" "offer_limits (on_app f ns) = offer_limits ns"
  by (simp_all add: on_app_def)

lemma alert_keeps [simp]:
  "trusted_peers (app (ns_world (alert_changed_fingerprint env a b c ns))) = trusted_peers (app (ns_world ns))"
  "config (app (ns_world (alert_changed_fingerprint env a b c ns))) = config (app (ns_world ns))"
  by (simp_all add: alert_changed_fingerprint_def Let_def)

lemma note_mismatch_trust:
  "trusted_peers (app (ns_world (note_mismatch env mdns cert sid ns))) =
     (let tbl = trusted_peers (app (ns_world ns)); level = trust_level_for tbl mdns in
      if (level = Some SignedLinkVerified \<or> level = Some MutualConfirmed) \<and> \<not> is_trusted tbl cert
      then fst (freeze_trusted_peer mdns
        (''Fingerprint changed on session '' @ sid @ '': expected '' @ mdns @ '', saw '' @ cert) (unix_now (env_clock env)) tbl)
      else tbl)"
  "config (app (ns_world (note_mismatch env mdns cert sid ns))) = config (app (ns_world ns))"
  by (auto simp: note_mismatch_def freeze_changed_peer_def is_trusted_def trust_level_for_def Let_def)

lemma freeze_not_active: "\<not> is_active_trust (fst (freeze_trusted_peer fp r at tbl)) fp"
  by (auto simp: freeze_trusted_peer_def is_active_trust_def allows_sensitive_send_def Let_def update_conv' split: option.split)

lemma freeze_only_lowers:
  "is_active_trust (fst (freeze_trusted_peer fp r at tbl)) fp' \<Longrightarrow> is_active_trust tbl fp'"
  by (auto simp: freeze_trusted_peer_def is_active_trust_def allows_sensitive_send_def Let_def update_conv'
      split: option.splits if_splits)

lemma note_mismatch_only_lowers:
  "auto_accept_allowed (app (ns_world (note_mismatch env mdns cert sid ns))) fp off \<Longrightarrow>
     auto_accept_allowed (app (ns_world ns)) fp off"
  by (auto simp: auto_accept_allowed_def note_mismatch_trust Let_def split: if_splits dest: freeze_only_lowers)

subsection \<open>Consent through the layers\<close>

lemma admit_offer_accepts:
  assumes "Accept p \<in> set (ir_control (admit_offer h show_err F inc chosen off ns))"
  shows "chosen_version p = chosen \<and> (in_cert inc = None \<or> in_cert inc = Some (sender_fingerprint off)) \<and>
    (env_response (in_env inc) = Responded True \<or>
     in_cert inc = Some (sender_fingerprint off) \<and> auto_accept_allowed (app (ns_world ns)) (sender_fingerprint off) off)"
proof -
  let ?env = "in_env inc\<lparr>env_peer_fp := sender_fingerprint off, env_peer_authenticated := in_cert inc \<noteq> None, env_version := chosen\<rparr>"
  have cert: "in_cert inc = None \<or> in_cert inc = Some (sender_fingerprint off)"
    using assms by (auto simp: admit_offer_def answer_def reject_control_stream_def our_hello_def Let_def split: if_splits)
  have "Accept p \<in> set (res_control (handle_offer h show_err F ?env off (ns_world ns)))"
    using assms cert
    by (auto simp: admit_offer_def answer_def fail_def reject_control_stream_def our_hello_def Let_def case_prod_beta
        split: if_splits)
  from handle_offer_accepts [OF this] cert show ?thesis by auto
qed

lemma negotiate_version_supported:
  "negotiate_version vs = Some v \<Longrightarrow> v \<in> set SUPPORTED_VERSIONS \<and> v \<in> set vs"
  by (auto simp: negotiate_version_def find_Some_iff) (metis nth_mem set_rev length_rev)

lemma exchange_hello_accepts:
  assumes "Accept p \<in> set (ir_control (exchange_hello h show_msg show_err F inc ns))"
  shows "\<exists>off chosen. in_offer inc = Inr (Offer off) \<and> chosen \<in> set SUPPORTED_VERSIONS \<and>
    Accept p \<in> set (ir_control (admit_offer h show_err F inc chosen off ns))"
proof -
  obtain chosen where "chosen \<in> set SUPPORTED_VERSIONS"
    and "Accept p \<in> set (ir_control (await_offer h show_msg show_err F inc chosen ns))"
    using assms unfolding exchange_hello_def answer_def fail_def reject_control_stream_def our_hello_def Let_def
    by (auto split: if_splits sum.splits dash_message.splits option.splits dest: negotiate_version_supported)
  then show ?thesis
    by (auto simp: await_offer_def answer_def reject_control_stream_def our_hello_def Let_def
        split: sum.splits dash_message.splits if_splits)
qed

lemma check_identity_accepts:
  assumes "Accept p \<in> set (ir_control (check_identity h show_msg show_err F inc ns))"
  shows "\<exists>off. in_offer inc = Inr (Offer off) \<and> chosen_version p \<in> set SUPPORTED_VERSIONS \<and>
    (in_cert inc = None \<or> in_cert inc = Some (sender_fingerprint off)) \<and>
    (env_response (in_env inc) = Responded True \<or>
     in_cert inc = Some (sender_fingerprint off) \<and> auto_accept_allowed (app (ns_world ns)) (sender_fingerprint off) off)"
proof -
  have "\<exists>ns1. Accept p \<in> set (ir_control (exchange_hello h show_msg show_err F inc ns1)) \<and>
      (ns1 = ns \<or> (\<exists>mdns cert sid. ns1 = note_mismatch (in_env inc) mdns cert sid ns))"
    using assms by (auto simp: check_identity_def close_conn_def Let_def split: option.splits if_splits) blast+
  then obtain ns1 where acc: "Accept p \<in> set (ir_control (exchange_hello h show_msg show_err F inc ns1))"
    and ns1: "ns1 = ns \<or> (\<exists>mdns cert sid. ns1 = note_mismatch (in_env inc) mdns cert sid ns)" by blast
  have "auto_accept_allowed (app (ns_world ns1)) fp off \<Longrightarrow> auto_accept_allowed (app (ns_world ns)) fp off" for fp off
    using ns1 note_mismatch_only_lowers by blast
  with exchange_hello_accepts [OF acc] admit_offer_accepts show ?thesis by blast
qed

text \<open>Conversely, what the policy allows is accepted, when there is space and the control stream works.\<close>

lemma accept_offer_control:
  "env_control_ok env \<Longrightarrow> \<exists>p. Accept p \<in> set (res_control (accept_offer h show_err F env off root w))"
  by (auto simp: accept_offer_def Let_def split: prod.splits sum.splits)

lemma handle_offer_auto_accepts:
  assumes "env_control_ok env" "env_peer_authenticated env" "auto_accept_allowed (app w) (env_peer_fp env) off"
    and "sufficient_space (components (get_save_root (config (app w)) (env_host_download_dir env) (env_home env) (transfer_id off)))
      (env_disks env) (total_size off)"
  shows "\<exists>p. Accept p \<in> set (res_control (handle_offer h show_err F env off w))"
proof -
  have "decide_offer env off (announce_offer env off (register_offer env off (app w))) =
      (announce_offer env off (register_offer env off (app w)), True, False)"
    using assms by (simp add: decide_offer_def determine_AutoAccept auto_accept_allowed_def)
  then show ?thesis using assms accept_offer_control [OF assms(1)] by (simp add: handle_offer_def)
qed

lemma accept_connection_control:
  "\<not> in_is_probe inc \<Longrightarrow> ip_rate_limited (in_ip inc) (instant_now (env_clock (in_env inc))) (ip_limits ns) = (tbl, False) \<Longrightarrow>
   ir_control (accept_connection h show_msg show_err F inc ns) =
     ir_control (handle_incoming h show_msg show_err F inc (ns\<lparr>ip_limits := tbl\<rparr>))"
  by (simp add: accept_connection_def Let_def split: option.split)

lemma sighted_mismatch:
  "find_mismatch c (IPv4 3232235778) [(''f'', sighted_device)] = (if c = ''f'' then None else Some (''f'', ''s''))"
  by (simp add: sighted_device_def see_device_def new_device_def sample_addr_def Let_def)

lemma sample_connection_accepted:
  "\<exists>p. Accept p \<in> set (ir_control (accept_connection (\<lambda>b. b) (\<lambda>_. []) (\<lambda>_. []) no_faults sample_incoming sample_net))"
proof -
  note samples = sample_incoming_def sample_net_def sample_offer_def sample_offer_env_def sample_peer_def
  let ?ns = "sample_net\<lparr>ip_limits := [IPv4 3232235778 \<mapsto> (1, 7)], conn_limits := [''f'' \<mapsto> (1, 7)]\<rparr>"
  let ?h = "\<lambda>b :: bytes. b" and ?e = "\<lambda>_ :: codec_error. []" and ?m = "\<lambda>_ :: dash_message. []"
  let ?r = "handle_offer ?h ?e no_faults
    (sample_offer_env\<lparr>env_peer_fp := ''f'', env_peer_authenticated := True, env_version := 1\<rparr>) sample_offer (ns_world ?ns)"
  have "\<exists>p. Accept p \<in> set (res_control ?r)"
    by (rule handle_offer_auto_accepts)
      (simp_all add: samples auto_accept_allowed_def is_active_trust_def allows_sensitive_send_def sufficient_space_def)
  moreover have "ir_control (admit_offer ?h ?e no_faults sample_incoming 1 sample_offer ?ns) = our_hello # res_control ?r"
  proof -
    have "trim ''f'' \<noteq> ''''" by code_simp
    then show ?thesis
      by (simp add: admit_offer_def answer_def fail_def check_offer_rate_limit_def offer_limit_def samples is_trusted_def
          OFFER_RATE_LIMIT_TRUSTED_PER_MIN_def sample_clock_def Let_def)
  qed
  moreover have "exchange_hello ?h ?m ?e no_faults sample_incoming ?ns = admit_offer ?h ?e no_faults sample_incoming 1 sample_offer ?ns"
    by (simp add: exchange_hello_def await_offer_def sample_incoming_def our_hello_def WIRE_VERSION_def SUPPORTED_VERSIONS_def
        negotiate_version_def Let_def)
  moreover have "handle_incoming ?h ?m ?e no_faults sample_incoming (sample_net\<lparr>ip_limits := [IPv4 3232235778 \<mapsto> (1, 7)]\<rparr>) =
      exchange_hello ?h ?m ?e no_faults sample_incoming ?ns"
    by (simp add: handle_incoming_def check_identity_def samples sighted_mismatch check_connection_rate_limit_def connection_limit_def
        CONNECTION_RATE_LIMIT_TRUSTED_PER_MIN_def is_trusted_def sample_clock_def Let_def
        del: find_mismatch.simps)
  moreover have "ir_control (accept_connection ?h ?m ?e no_faults sample_incoming sample_net) =
      ir_control (handle_incoming ?h ?m ?e no_faults sample_incoming (sample_net\<lparr>ip_limits := [IPv4 3232235778 \<mapsto> (1, 7)]\<rparr>))"
    by (rule accept_connection_control) (simp_all add: samples sample_clock_def ip_rate_limited_def U32_MAX_def
        INCOMING_IP_RATE_LIMIT_MAX_PER_WINDOW_def)
  ultimately show ?thesis by (metis list.set_intros(2))
qed

section \<open>Properties\<close>

text \<open>
  C2: No silent acceptance.  Whenever a connection is answered with \<^verbatim>\<open>Accept\<close>, the peer sent an offer, the
  version in the answer is one this side supports, and an offer on a connection with a client
  certificate names that certificate's fingerprint.  Moreover the user agreed, or the certificate
  proves the fingerprint of a peer that was actively trusted before the connection, automatic
  acceptance is enabled, the offer is at most 500 MiB and none of its items is of high risk.
\<close>

theorem no_silent_accept:
  assumes "Accept p \<in> set (ir_control (accept_connection h show_msg show_err F inc ns))"
  shows "\<exists>off. in_offer inc = Inr (Offer off) \<and> chosen_version p \<in> set SUPPORTED_VERSIONS \<and>
    (in_cert inc = None \<or> in_cert inc = Some (sender_fingerprint off)) \<and>
    (env_response (in_env inc) = Responded True \<or>
     in_cert inc = Some (sender_fingerprint off) \<and> auto_accept_allowed (app (ns_world ns)) (sender_fingerprint off) off)"
proof -
  obtain ns1 where "Accept p \<in> set (ir_control (check_identity h show_msg show_err F inc ns1))"
    and "ns_world ns1 = ns_world ns"
    using assms
    by (fastforce simp: accept_connection_def handle_incoming_def close_conn_def Let_def case_prod_beta
        split: option.splits if_splits)
  then show ?thesis using check_identity_accepts by fastforce
qed

theorem no_silent_accept_witness:
  "auto_accept_allowed (app (ns_world sample_net)) ''f'' sample_offer"
proof -
  obtain p where "Accept p \<in> set (ir_control
      (accept_connection (\<lambda>b. b) (\<lambda>_. []) (\<lambda>_. []) no_faults sample_incoming sample_net))"
    using sample_connection_accepted by blast
  from no_silent_accept [OF this] show ?thesis
    by (auto simp: sample_incoming_def sample_offer_env_def sample_offer_def)
qed

text \<open>
  C26: A verified peer whose address suddenly presents an unknown certificate is frozen.  When a connection
  passes the rate limits, its certificate is not of a trusted peer, and the first known device at its
  address has another fingerprint that was verified, then after the connection, whatever it offered,
  that device is no longer actively trusted.
\<close>

theorem changed_certificate_freezes:
  assumes cert: "in_cert inc = Some cert" "\<not> in_is_probe inc"
    and admitted: "\<not> snd (ip_rate_limited (in_ip inc) (instant_now (env_clock (in_env inc))) (ip_limits ns))"
      "\<not> snd (check_connection_rate_limit False cert (instant_now (env_clock (in_env inc))) (conn_limits ns))"
    and mismatch: "find_mismatch cert (in_ip inc) (devices (discovery (app (ns_world ns)))) = Some (mdns, sid)"
    and verified: "trust_level_for (trusted_peers (app (ns_world ns))) mdns \<in> {Some SignedLinkVerified, Some MutualConfirmed}"
    and unknown: "\<not> is_trusted (trusted_peers (app (ns_world ns))) cert"
  shows "\<not> is_active_trust (trusted_peers (app (ns_world (ir_state (accept_connection h show_msg show_err F inc ns))))) mdns"
proof -
  have hello: "is_active_trust (trusted_peers (app (ns_world (ir_state (exchange_hello h show_msg show_err F inc ns1))))) fp =
      is_active_trust (trusted_peers (app (ns_world ns1))) fp" for ns1 fp
    by (auto simp: exchange_hello_def await_offer_def admit_offer_def answer_def fail_def Let_def case_prod_beta
        handle_offer_keeps_trust split: sum.split dash_message.split option.split)
  have ident: "\<not> is_active_trust (trusted_peers (app (ns_world (ir_state (check_identity h show_msg show_err F inc ns1))))) mdns"
    if "ns_world ns1 = ns_world ns" for ns1
    using that verified unknown
    by (auto simp: check_identity_def cert mismatch incoming_identity_mismatch_action_def HARD_REJECT_KNOWN_IDENTITY_MISMATCH_def
        hello note_mismatch_trust freeze_not_active)
  show ?thesis
    using admitted unknown cert ident
    by (auto simp: accept_connection_def handle_incoming_def Let_def case_prod_beta split: option.split)
qed

theorem changed_certificate_freezes_witness:
  "is_active_trust (trusted_peers (app (ns_world sample_net))) ''f'' \<and>
   \<not> is_active_trust (trusted_peers (app (ns_world (ir_state
       (accept_connection (\<lambda>b. b) (\<lambda>_. []) (\<lambda>_. []) no_faults stranger_incoming sample_net))))) ''f''"
proof
  show "is_active_trust (trusted_peers (app (ns_world sample_net))) ''f''"
    by (simp add: sample_net_def sample_peer_def is_active_trust_def allows_sensitive_send_def)
  show "\<not> is_active_trust (trusted_peers (app (ns_world (ir_state
       (accept_connection (\<lambda>b. b) (\<lambda>_. []) (\<lambda>_. []) no_faults stranger_incoming sample_net))))) ''f''"
    by (rule changed_certificate_freezes [where cert = "''g''" and sid = "''s''"])
      (simp_all add: stranger_incoming_def sample_incoming_def sample_net_def sighted_mismatch sample_peer_def trust_level_for_def is_trusted_def
        ip_rate_limited_def check_connection_rate_limit_def INCOMING_IP_RATE_LIMIT_MAX_PER_WINDOW_def U32_MAX_def
        connection_limit_def CONNECTION_RATE_LIMIT_UNTRUSTED_PER_MIN_def del: find_mismatch.simps)
qed

end
