(* ===== verification/Views.thy ===== *)
theory Views
  imports AppState
begin

text \<open>
  What the program shows of its state: the views of \<^verbatim>\<open>dto.rs\<close>, the local identity and the runtime status of
  \<^verbatim>\<open>state.rs\<close>, with the fields of \<^verbatim>\<open>AppState\<close> that only describe how the process was started.
\<close>

record transfer_view =
  tv_id :: string
  tv_batch_id :: "string option"
  tv_direction :: transfer_direction
  tv_peer_fingerprint :: string
  tv_peer_name :: string
  tv_items :: "file_item_meta list"
  tv_status :: transfer_status
  tv_bytes_transferred :: u64
  tv_total_bytes :: u64
  tv_revision :: u64
  tv_started_at_unix :: u64
  tv_ended_at_unix :: "u64 option"
  tv_terminal_reason_code :: "string option"
  tv_error :: "string option"

definition transfer_view_of :: "transfer_task \<Rightarrow> transfer_view" where
  "transfer_view_of t =
     \<lparr>tv_id = task_id t, tv_batch_id = batch_id t, tv_direction = direction t, tv_peer_fingerprint = peer_fingerprint t,
      tv_peer_name = peer_name t, tv_items = task_items t, tv_status = status t, tv_bytes_transferred = bytes_transferred t,
      tv_total_bytes = total_bytes t, tv_revision = revision t, tv_started_at_unix = started_at_unix t,
      tv_ended_at_unix = ended_at_unix t, tv_terminal_reason_code = terminal_reason_code t, tv_error = task_error t\<rparr>"

record trusted_peer_view =
  pv_fingerprint :: string
  pv_name :: string
  pv_paired_at :: u64
  pv_trust_level :: trust_level
  pv_last_verification_method :: trust_verification_method
  pv_alias :: "string option"
  pv_last_used_at :: "u64 option"
  pv_remote_confirmation_material_seen_at :: "u64 option"
  pv_local_confirmation_at :: "u64 option"
  pv_mutual_confirmed_at :: "u64 option"
  pv_frozen_at :: "u64 option"
  pv_freeze_reason :: "string option"

definition trusted_peer_view_of :: "trusted_peer \<Rightarrow> trusted_peer_view" where
  "trusted_peer_view_of p =
     \<lparr>pv_fingerprint = fingerprint p, pv_name = tp_name p, pv_paired_at = paired_at p, pv_trust_level = trust_level p,
      pv_last_verification_method = last_verification_method p, pv_alias = alias_name p, pv_last_used_at = last_used_at p,
      pv_remote_confirmation_material_seen_at = remote_confirmation_material_seen_at p,
      pv_local_confirmation_at = local_confirmation_at p, pv_mutual_confirmed_at = mutual_confirmed_at p,
      pv_frozen_at = frozen_at p, pv_freeze_reason = freeze_reason p\<rparr>"

record local_identity_view =
  iv_fingerprint :: string
  iv_device_name :: string
  iv_port :: nat

definition local_identity_view_of :: "string \<Rightarrow> string \<Rightarrow> nat \<Rightarrow> local_identity_view" where
  "local_identity_view_of fp nm port = \<lparr>iv_fingerprint = fp, iv_device_name = nm, iv_port = port\<rparr>"

text \<open>The fields of \<^verbatim>\<open>AppState\<close> that describe the process.\<close>

record process_info =
  pi_local_port :: nat
  pi_mdns_service_fullname :: "string option"
  pi_requested_control_plane_mode :: string
  pi_control_plane_mode :: string
  pi_runtime_profile :: string
  pi_daemon_status :: string
  pi_daemon_connect_attempts :: nat
  pi_daemon_connect_strategy :: string
  pi_daemon_binary_path :: "string option"
  pi_listener_port_mode :: string
  pi_firewall_rule_state :: string
  pi_daemon_idle_monitor_enabled :: bool
  pi_daemon_idle_timeout_secs :: "u64 option"
  pi_daemon_idle_deadline_unix_ms :: "u64 option"
  pi_daemon_idle_blockers :: "string list"

definition initial_process_info :: process_info where
  "initial_process_info =
     \<lparr>pi_local_port = 0, pi_mdns_service_fullname = None, pi_requested_control_plane_mode = ''in_process'',
      pi_control_plane_mode = ''in_process'', pi_runtime_profile = ''unknown'', pi_daemon_status = ''inactive'',
      pi_daemon_connect_attempts = 0, pi_daemon_connect_strategy = ''unknown'', pi_daemon_binary_path = None,
      pi_listener_port_mode = ''fallback_random'', pi_firewall_rule_state = ''unknown'',
      pi_daemon_idle_monitor_enabled = False, pi_daemon_idle_timeout_secs = None, pi_daemon_idle_deadline_unix_ms = None,
      pi_daemon_idle_blockers = []\<rparr>"

definition set_daemon_idle_monitor_state ::
    "bool \<Rightarrow> u64 option \<Rightarrow> u64 option \<Rightarrow> string list \<Rightarrow> process_info \<Rightarrow> process_info" where
  "set_daemon_idle_monitor_state enabled timeout till blockers pinfo =
     pinfo\<lparr>pi_daemon_idle_monitor_enabled := enabled, pi_daemon_idle_timeout_secs := timeout,
           pi_daemon_idle_deadline_unix_ms := till, pi_daemon_idle_blockers := blockers\<rparr>"

record runtime_status =
  rs_local_port :: nat
  rs_mdns_registered :: bool
  rs_discovered_devices :: nat
  rs_trusted_devices :: nat
  rs_requested_control_plane_mode :: string
  rs_control_plane_mode :: string
  rs_runtime_profile :: string
  rs_daemon_status :: string
  rs_daemon_connect_attempts :: nat
  rs_daemon_connect_strategy :: string
  rs_daemon_binary_path :: "string option"
  rs_listener_port_mode :: string
  rs_firewall_rule_state :: string
  rs_daemon_idle_monitor_enabled :: bool
  rs_daemon_idle_timeout_secs :: "u64 option"
  rs_daemon_idle_deadline_unix_ms :: "u64 option"
  rs_daemon_idle_blockers :: "string list"

definition runtime_status_of :: "process_info \<Rightarrow> app_state \<Rightarrow> runtime_status" where
  "runtime_status_of pinfo st =
     \<lparr>rs_local_port = pi_local_port pinfo, rs_mdns_registered = (pi_mdns_service_fullname pinfo \<noteq> None),
      rs_discovered_devices = length (devices (discovery st)), rs_trusted_devices = length (trusted_peers st),
      rs_requested_control_plane_mode = pi_requested_control_plane_mode pinfo,
      rs_control_plane_mode = pi_control_plane_mode pinfo, rs_runtime_profile = pi_runtime_profile pinfo,
      rs_daemon_status = pi_daemon_status pinfo, rs_daemon_connect_attempts = pi_daemon_connect_attempts pinfo,
      rs_daemon_connect_strategy = pi_daemon_connect_strategy pinfo, rs_daemon_binary_path = pi_daemon_binary_path pinfo,
      rs_listener_port_mode = pi_listener_port_mode pinfo, rs_firewall_rule_state = pi_firewall_rule_state pinfo,
      rs_daemon_idle_monitor_enabled = pi_daemon_idle_monitor_enabled pinfo,
      rs_daemon_idle_timeout_secs = pi_daemon_idle_timeout_secs pinfo,
      rs_daemon_idle_deadline_unix_ms = pi_daemon_idle_deadline_unix_ms pinfo,
      rs_daemon_idle_blockers = pi_daemon_idle_blockers pinfo\<rparr>"

end
