(* ===== verification/TrustService.thy ===== *)
theory TrustService
  imports AppState FileSystem "HOL-Library.Multiset"
begin

text \<open>
  The commands of \<^verbatim>\<open>core_service.rs\<close> that change trust and configuration, with their persistence, and the
  start of the runtime in \<^verbatim>\<open>runtime/bootstrap.rs\<close> that reads it back.  What the commands meet is in
  \<open>service_env\<close>: the clock, whether the database lock is available, whether the configuration row can be
  written, whether a host is attached, and the answer of the mDNS re-registration.
\<close>

section \<open>Environment and errors\<close>

record service_env =
  se_clock :: clock
  se_lock_ok :: bool
  se_config_write_ok :: bool
  se_has_host :: bool
  se_reregister :: "string + unit"

datatype service_error =
    LockPoisoned | ConfigWriteFailed | StoreFailed store_error | TrustedDeviceNotFound string
  | MutualNeedsSignedLink | DeviceNameEmpty | ParallelStreamsOutOfRange
  | DownloadDirNotUsable io_error | DownloadDirNotWritable io_error | MdnsRefreshFailed string

type_synonym 'a service_result = "app_state \<times> (service_error + 'a)"

section \<open>Persistence\<close>

definition persist_runtime_state :: "service_env \<Rightarrow> app_state \<Rightarrow> unit service_result" where
  "persist_runtime_state env st =
     (if \<not> se_lock_ok env then (st, Err LockPoisoned)
      else if \<not> se_config_write_ok env then (st, Err ConfigWriteFailed)
      else
        (let st1 = st\<lparr>config_db := Some (config st)\<rparr>;
             (rows, r) = replace_trusted_peers (trusted_peers st) (trusted_db st)
         in (st1\<lparr>trusted_db := rows\<rparr>, case r of Inl e \<Rightarrow> Err (StoreFailed e) | Inr _ \<Rightarrow> Ok ())))"

definition host_event :: "service_env \<Rightarrow> string \<Rightarrow> string list \<Rightarrow> app_state \<Rightarrow> app_state" where
  "host_event env event args st = (if se_has_host env then emit (EvHost event args) st else st)"

text \<open>Persisting and then telling the host, if persisting worked.\<close>

definition persist_then :: "service_env \<Rightarrow> (app_state \<Rightarrow> app_state) \<Rightarrow> app_state \<Rightarrow> unit service_result" where
  "persist_then env tell st =
     (case persist_runtime_state env st of
        (st1, Inl e) \<Rightarrow> (st1, Err e)
      | (st1, Inr _) \<Rightarrow> (tell st1, Ok ()))"

definition level_or_legacy :: "string \<Rightarrow> app_state \<Rightarrow> trust_level" where
  "level_or_legacy fp st = (case trust_level_for (trusted_peers st) fp of Some l \<Rightarrow> l | None \<Rightarrow> LegacyPaired)"

section \<open>Pairing\<close>

text \<open>The trusted mark of a known device, which is announced when a host is attached.\<close>

definition set_device_trusted :: "service_env \<Rightarrow> bool \<Rightarrow> string \<Rightarrow> app_state \<Rightarrow> app_state" where
  "set_device_trusted env b fp st =
     (case map_of (devices (discovery st)) fp of
        None \<Rightarrow> st
      | Some d \<Rightarrow>
          (let d1 = d\<lparr>dv_trusted := b\<rparr>;
               ds1 = (discovery st)\<lparr>devices := AList.update fp d1 (devices (discovery st))\<rparr>
           in st\<lparr>discovery := (if se_has_host env then emit_device (DeviceUpdated (device_view_of d1)) ds1 else ds1)\<rparr>))"

definition pair_device :: "service_env \<Rightarrow> string \<Rightarrow> app_state \<Rightarrow> unit service_result" where
  "pair_device env fp st =
     (let nm = (case map_of (devices (discovery st)) fp of Some d \<Rightarrow> dv_name d | None \<Rightarrow> ''Unknown'');
          st1 = set_device_trusted env True fp st;
          st2 = st1\<lparr>trusted_peers := add_trust (unix_now (se_clock env)) fp nm (trusted_peers st1)\<rparr>
      in persist_then env
           (\<lambda>s. host_event env ''trusted_peer_updated'' [fp, ''paired'', level_str (level_or_legacy fp s)] s) st2)"

definition unpair_device :: "service_env \<Rightarrow> string \<Rightarrow> app_state \<Rightarrow> unit service_result" where
  "unpair_device env fp st =
     (if map_of (trusted_peers st) fp = None then (st, Err (TrustedDeviceNotFound fp))
      else
        (let st1 = set_device_trusted env False fp (st\<lparr>trusted_peers := AList.delete fp (trusted_peers st)\<rparr>)
         in persist_then env (host_event env ''trusted_peer_updated'' [fp, ''unpaired'']) st1))"

definition normalized_alias :: "string option \<Rightarrow> string option" where
  "normalized_alias a = (case a of None \<Rightarrow> None | Some v \<Rightarrow> (if trim v = '''' then None else Some (trim v)))"

definition set_trusted_alias :: "service_env \<Rightarrow> string \<Rightarrow> string option \<Rightarrow> app_state \<Rightarrow> unit service_result" where
  "set_trusted_alias env fp a st =
     (case map_of (trusted_peers st) fp of
        None \<Rightarrow> (st, Err (TrustedDeviceNotFound fp))
      | Some p \<Rightarrow>
          persist_then env
            (\<lambda>s. host_event env ''trusted_peer_updated'' ([fp, ''alias_updated'', level_str (level_or_legacy fp s)] @
               (case normalized_alias a of Some v \<Rightarrow> [v] | None \<Rightarrow> [])) s)
            (st\<lparr>trusted_peers := AList.update fp (p\<lparr>alias_name := normalized_alias a\<rparr>) (trusted_peers st)\<rparr>))"

section \<open>Verification\<close>

definition requested_level :: "trust_verification_method \<Rightarrow> bool \<Rightarrow> trust_level" where
  "requested_level mth mut =
     (if mut then MutualConfirmed
      else if mth = SignedPairingLink then SignedLinkVerified
      else LegacyPaired)"

definition verified_peer :: "u64 \<Rightarrow> trust_verification_method \<Rightarrow> bool \<Rightarrow> trusted_peer \<Rightarrow> trusted_peer" where
  "verified_peer now mth mut p =
     (let p1 = p\<lparr>trust_level := apply_verification (trust_level p) (requested_level mth mut),
                 last_verification_method := (if mut then MutualReceipt else mth),
                 local_confirmation_at := Some now\<rparr>;
          p2 = (if mth = SignedPairingLink \<or> mth = MutualReceipt
                then p1\<lparr>remote_confirmation_material_seen_at := Some now\<rparr> else p1);
          p3 = (if mut \<and> mutual_confirmed_at p2 = None then p2\<lparr>mutual_confirmed_at := Some now\<rparr> else p2)
      in if trust_level p3 \<noteq> Frozen then p3\<lparr>frozen_at := None, freeze_reason := None\<rparr> else p3)"

text \<open>The names that \<^verbatim>\<open>{:?}\<close> prints.\<close>

fun debug_level :: "trust_level \<Rightarrow> string" where
  "debug_level LegacyPaired = ''LegacyPaired''"
| "debug_level SignedLinkVerified = ''SignedLinkVerified''"
| "debug_level MutualConfirmed = ''MutualConfirmed''"
| "debug_level Frozen = ''Frozen''"

fun debug_method :: "trust_verification_method \<Rightarrow> string" where
  "debug_method ManualPairing = ''ManualPairing''"
| "debug_method LegacyUnsignedLink = ''LegacyUnsignedLink''"
| "debug_method SignedPairingLink = ''SignedPairingLink''"
| "debug_method MutualReceipt = ''MutualReceipt''"

text \<open>The security events of a confirmation.\<close>

definition log_confirmation ::
    "service_env \<Rightarrow> string \<Rightarrow> trust_level \<Rightarrow> trusted_peer \<Rightarrow> bool \<Rightarrow> app_state \<Rightarrow> app_state" where
  "log_confirmation env fp previous p mut st =
     (if \<not> se_lock_ok env then st
      else
        (let now = unix_now (se_clock env); current = trust_level p;
             log1 = (if previous \<noteq> current
                     then log_security_event now ''trust_level_transition'' ''pairing'' (Some fp)
                       (''trust level moved from '' @ debug_level previous @ '' to '' @ debug_level current @ '' via '' @
                        debug_method (last_verification_method p)) (security_db st)
                     else security_db st);
             log2 = (if mut
                     then log_security_event now ''mutual_confirmation_complete'' ''pairing'' (Some fp)
                       ''mutual pairing confirmation recorded after shared pair code check'' log1
                     else log1);
             log3 = (if previous = Frozen \<and> current \<noteq> Frozen
                     then log_security_event now ''trust_freeze_cleared'' ''pairing'' (Some fp)
                       ''frozen trust relationship cleared by explicit verification confirmation'' log2
                     else log2)
         in st\<lparr>security_db := log3\<rparr>))"

definition confirm_trusted_peer_verification ::
    "service_env \<Rightarrow> string \<Rightarrow> trust_verification_method \<Rightarrow> bool \<Rightarrow> app_state \<Rightarrow> unit service_result" where
  "confirm_trusted_peer_verification env fp mth mut st =
     (if mut \<and> (mth = ManualPairing \<or> mth = LegacyUnsignedLink) then (st, Err MutualNeedsSignedLink)
      else case map_of (trusted_peers st) fp of
        None \<Rightarrow> (st, Err (TrustedDeviceNotFound fp))
      | Some p \<Rightarrow>
          (let p1 = verified_peer (unix_now (se_clock env)) mth mut p;
               st1 = st\<lparr>trusted_peers := AList.update fp p1 (trusted_peers st)\<rparr>
           in persist_then env
                (\<lambda>s. log_confirmation env fp (trust_level p) p1 mut
                   (host_event env ''trusted_peer_updated''
                      [fp, ''verification_confirmed'', level_str (trust_level p1), method_str (last_verification_method p1)] s)) st1))"

section \<open>Configuration\<close>

text \<open>The download directory is created and probed with a scratch file.\<close>

definition check_download_dir :: "io_faults \<Rightarrow> string option \<Rightarrow> filesystem \<Rightarrow> filesystem \<times> (service_error + unit)" where
  "check_download_dir F dir fs =
     (case dir of
        None \<Rightarrow> (fs, Ok ())
      | Some d \<Rightarrow>
          (case create_dir_all F (components d) fs of
             Inl e \<Rightarrow> (fs, Err (DownloadDirNotUsable e))
           | Inr fs1 \<Rightarrow>
               (let probe = components d @ [Normal ''.dashdrop-write-test''] in
                case create_file F probe fs1 of
                  Inl e \<Rightarrow> (fs1, Err (DownloadDirNotWritable e))
                | Inr fs2 \<Rightarrow> (try_remove F probe fs2, Ok ()))))"

definition set_app_config ::
    "io_faults \<Rightarrow> service_env \<Rightarrow> app_config \<Rightarrow> filesystem \<times> app_state \<Rightarrow> filesystem \<times> unit service_result" where
  "set_app_config F env cfg0 fst_st =
     (case fst_st of (fs, st) \<Rightarrow>
        (let cfg = cfg0\<lparr>device_name := trim (device_name cfg0)\<rparr> in
         if device_name cfg = '''' then (fs, st, Err DeviceNameEmpty)
         else if max_parallel_streams cfg = 0 \<or> max_parallel_streams cfg > 32 then (fs, st, Err ParallelStreamsOutOfRange)
         else case check_download_dir F (download_dir cfg) fs of
           (fs1, Inl e) \<Rightarrow> (fs1, st, Err e)
         | (fs1, Inr _) \<Rightarrow>
             (let rename = (device_name (config st) \<noteq> device_name cfg) in
              case (if rename then se_reregister env else Ok ()) of
                Inl e \<Rightarrow> (fs1, host_event env ''system_error'' [''MDNS_REREGISTER_FAILED'', device_name cfg, device_name (config st)] st,
                          Err (MdnsRefreshFailed e))
              | Inr _ \<Rightarrow> (fs1, persist_then env (host_event env ''app_config_updated'' []) (st\<lparr>config := cfg\<rparr>)))))"

section \<open>Start of the runtime\<close>

definition default_app_config :: app_config where
  "default_app_config = \<lparr>device_name = ''DashDrop Device'', auto_accept_trusted_only = False, download_dir = None,
     conflict_strategy = Rename, max_parallel_streams = 4, launch_at_login = False\<rparr>"

text \<open>
  What \<^verbatim>\<open>initialize_state_at\<close> makes of the database and a legacy state file: the configuration and the
  trust table in memory, and the two tables on disk.  A table that cannot be read is empty.
\<close>

definition trust_table_of :: "trusted_peer list \<Rightarrow> trust_table" where
  "trust_table_of ps = fold (\<lambda>p. AList.update (fingerprint p) p) ps []"

definition import_legacy ::
    "(app_config option \<times> trusted_peer list) option \<Rightarrow> app_config option \<Rightarrow> trusted_store \<Rightarrow>
     app_config option \<times> trusted_peer list \<times> trusted_store" where
  "import_legacy legacy cfg rows =
     (let peers = load_trusted_peers rows in
      case legacy of
        Some (lcfg, lpeers) \<Rightarrow>
          (if cfg = None \<and> peers = []
           then (lcfg, (if lpeers = [] then peers else lpeers),
                 (if lpeers = [] then rows else fst (replace_trusted_peers (trust_table_of lpeers) rows)))
           else (cfg, peers, rows))
      | None \<Rightarrow> (cfg, peers, rows))"

definition initialize_state ::
    "string \<Rightarrow> (app_config option \<times> trusted_peer list) option \<Rightarrow> app_config option \<Rightarrow> trusted_store \<Rightarrow>
     app_config \<times> trust_table \<times> app_config option \<times> trusted_store" where
  "initialize_state identity_name legacy cfg rows =
     (let (cfg1, peers, rows1) = import_legacy legacy cfg rows;
          cfg2 = (case cfg1 of Some c \<Rightarrow> c | None \<Rightarrow> default_app_config\<lparr>device_name := identity_name\<rparr>);
          cfg3 = (if trim (device_name cfg2) = '''' then cfg2\<lparr>device_name := identity_name\<rparr> else cfg2)
      in (cfg3, trust_table_of peers, cfg1, rows1))"

section \<open>Commands\<close>

datatype trust_command =
  PairDevice string | UnpairDevice string | SetAlias string "string option"
| ConfirmVerification string trust_verification_method bool

fun run_command :: "service_env \<Rightarrow> trust_command \<Rightarrow> app_state \<Rightarrow> unit service_result" where
  "run_command env (PairDevice fp) st = pair_device env fp st"
| "run_command env (UnpairDevice fp) st = unpair_device env fp st"
| "run_command env (SetAlias fp a) st = set_trusted_alias env fp a st"
| "run_command env (ConfirmVerification fp mth mut) st = confirm_trusted_peer_verification env fp mth mut st"

definition run_commands :: "(service_env \<times> trust_command) list \<Rightarrow> app_state \<Rightarrow> app_state" where
  "run_commands cmds st = fold (\<lambda>(env, cmd) s. fst (run_command env cmd s)) cmds st"

text \<open>The table each command leaves, whether or not it could be persisted.\<close>

definition table_after :: "u64 \<Rightarrow> trust_command \<Rightarrow> app_state \<Rightarrow> trust_table" where
  "table_after now cmd st =
     (let tbl = trusted_peers st in
      case cmd of
        PairDevice fp \<Rightarrow>
          add_trust now fp (case map_of (devices (discovery st)) fp of Some d \<Rightarrow> dv_name d | None \<Rightarrow> ''Unknown'') tbl
      | UnpairDevice fp \<Rightarrow> AList.delete fp tbl
      | SetAlias fp a \<Rightarrow>
          (case map_of tbl fp of Some p \<Rightarrow> AList.update fp (p\<lparr>alias_name := normalized_alias a\<rparr>) tbl | None \<Rightarrow> tbl)
      | ConfirmVerification fp mth mut \<Rightarrow>
          (if mut \<and> (mth = ManualPairing \<or> mth = LegacyUnsignedLink) then tbl
           else case map_of tbl fp of Some p \<Rightarrow> AList.update fp (verified_peer now mth mut p) tbl | None \<Rightarrow> tbl))"

text \<open>A trust table that can be stored: unique keys that are the fingerprints, and numbers SQLite can hold.\<close>

definition storable :: "string \<times> trusted_peer \<Rightarrow> bool" where
  "storable e \<longleftrightarrow> fingerprint (snd e) = fst e \<and> peer_fits (snd e)"

definition trust_table_ok :: "trust_table \<Rightarrow> bool" where
  "trust_table_ok tbl \<longleftrightarrow> distinct (map fst tbl) \<and> list_all storable tbl"

text \<open>Concrete inputs.\<close>

definition sample_service_env :: service_env where
  "sample_service_env = \<lparr>se_clock = sample_clock, se_lock_ok = True, se_config_write_ok = True, se_has_host = False,
     se_reregister = Ok ()\<rparr>"

definition frozen_app :: app_state where
  "frozen_app = sample_app\<lparr>trusted_peers := [(''f'', sample_peer\<lparr>trust_level := Frozen, frozen_at := Some 9\<rparr>)]\<rparr>"

section \<open>Facts\<close>

lemma persist_keeps [simp]:
  "trusted_peers (fst (persist_runtime_state env st)) = trusted_peers st"
  "config (fst (persist_runtime_state env st)) = config st"
  by (simp_all add: persist_runtime_state_def Let_def case_prod_beta)

lemma host_event_keeps [simp]:
  "trusted_peers (host_event env ev args st) = trusted_peers st" "config (host_event env ev args st) = config st"
  "trusted_db (host_event env ev args st) = trusted_db st" "config_db (host_event env ev args st) = config_db st"
  "security_db (host_event env ev args st) = security_db st"
  by (simp_all add: host_event_def emit_def)

lemma log_confirmation_keeps [simp]:
  "trusted_peers (log_confirmation env fp l p m st) = trusted_peers st" "config (log_confirmation env fp l p m st) = config st"
  "trusted_db (log_confirmation env fp l p m st) = trusted_db st" "config_db (log_confirmation env fp l p m st) = config_db st"
  by (simp_all add: log_confirmation_def Let_def)

lemma set_device_trusted_keeps [simp]:
  "trusted_peers (set_device_trusted env b fp st) = trusted_peers st" "config (set_device_trusted env b fp st) = config st"
  by (simp_all add: set_device_trusted_def Let_def split: option.split)

lemma persist_then_trust:
  assumes "\<And>s. trusted_peers (tell s) = trusted_peers s"
  shows "trusted_peers (fst (persist_then env tell st)) = trusted_peers st"
  unfolding persist_then_def using assms
  by (cases "persist_runtime_state env st") (use persist_keeps(1) [of env st] in \<open>auto split: sum.split\<close>)

lemma delete_absent: "map_of xs k = None \<Longrightarrow> AList.delete k xs = xs"
  by (induction xs) (auto split: if_splits)

lemma trusted_after_command:
  "trusted_peers (fst (run_command env cmd st)) = table_after (unix_now (se_clock env)) cmd st"
  by (cases cmd)
    (auto simp: table_after_def pair_device_def unpair_device_def set_trusted_alias_def confirm_trusted_peer_verification_def
      persist_then_trust delete_absent Let_def split: option.split)

lemma list_all_storable_update:
  "list_all storable tbl \<Longrightarrow> storable (fp, p) \<Longrightarrow> list_all storable (AList.update fp p tbl)"
  by (induction tbl) (auto simp: storable_def)

lemma add_trust_ok:
  assumes "trust_table_ok tbl" "now \<le> I64_MAX"
  shows "trust_table_ok (add_trust now fp nm tbl)"
proof -
  have fits: "fingerprint p = fp \<and> peer_fits p" if "map_of tbl fp = Some p" for p
    using assms(1) that by (auto simp: trust_table_ok_def storable_def list_all_iff dest!: map_of_SomeD)
  show ?thesis
  proof (cases "map_of tbl fp")
    case None
    then show ?thesis using assms
      by (auto simp: add_trust_def trust_table_ok_def distinct_update list_all_storable_update storable_def peer_fits_def)
  next
    case (Some p)
    then show ?thesis using assms fits [OF Some]
      by (auto simp: add_trust_def trust_table_ok_def distinct_update list_all_storable_update storable_def peer_fits_def
          split: option.split)
  qed
qed

lemma update_ok:
  assumes "trust_table_ok tbl" "map_of tbl fp = Some p" "fingerprint p' = fingerprint p" "peer_fits p \<Longrightarrow> peer_fits p'"
  shows "trust_table_ok (AList.update fp p' tbl)"
proof -
  have "storable (fp, p)"
    using assms(1,2) by (auto simp: trust_table_ok_def list_all_iff dest!: map_of_SomeD)
  then show ?thesis using assms by (auto simp: trust_table_ok_def distinct_update list_all_storable_update storable_def)
qed

lemma verified_peer_fits: "now \<le> I64_MAX \<Longrightarrow> peer_fits p \<Longrightarrow> peer_fits (verified_peer now mth mut p)"
  by (auto simp: verified_peer_def peer_fits_def Let_def split: option.splits)

lemma table_after_ok:
  assumes "trust_table_ok (trusted_peers st)" "now \<le> I64_MAX"
  shows "trust_table_ok (table_after now cmd st)"
proof (cases cmd)
  case (PairDevice fp)
  then show ?thesis using assms by (simp add: table_after_def add_trust_ok)
next
  case (UnpairDevice fp)
  then show ?thesis using assms
    by (auto simp: table_after_def trust_table_ok_def list_all_iff AList.delete_eq distinct_map_filter)
next
  case (SetAlias fp a)
  then show ?thesis using assms update_ok [OF assms(1)]
    by (auto simp: table_after_def peer_fits_def Let_def split: option.split)
next
  case (ConfirmVerification fp mth mut)
  have "fingerprint (verified_peer now mth mut p) = fingerprint p" for p
    by (simp add: verified_peer_def Let_def)
  then show ?thesis using assms update_ok [OF assms(1)] verified_peer_fits [OF assms(2)] ConfirmVerification
    by (auto simp: table_after_def Let_def split: option.split)
qed

lemma run_commands_ok:
  assumes "trust_table_ok (trusted_peers st)" "list_all (\<lambda>(env, cmd). unix_now (se_clock env) \<le> I64_MAX) cmds"
  shows "trust_table_ok (trusted_peers (run_commands cmds st))"
  using assms
proof (induction cmds arbitrary: st)
  case (Cons c cmds)
  obtain env cmd where c: "c = (env, cmd)" by fastforce
  have "trust_table_ok (trusted_peers (fst (run_command env cmd st)))"
    using Cons.prems c by (simp add: trusted_after_command table_after_ok)
  then show ?case using Cons c by (simp add: run_commands_def)
qed (simp add: run_commands_def)

text \<open>A command that returns successfully has written memory to the database.\<close>

lemma persist_then_ok:
  assumes "persist_then env tell st = (st', Ok ())"
  shows "\<exists>st1. st' = tell st1 \<and> config_db st1 = Some (config st) \<and> config st1 = config st \<and> trusted_peers st1 = trusted_peers st \<and>
    replace_trusted_peers (trusted_peers st) (trusted_db st) = (trusted_db st1, Ok ())"
  using assms by (auto simp: persist_then_def persist_runtime_state_def Let_def split: prod.splits sum.splits if_splits)

lemma run_command_persists:
  assumes "run_command env cmd st = (st', Ok ())"
  shows "\<exists>old. config_db st' = Some (config st') \<and> replace_trusted_peers (trusted_peers st') old = (trusted_db st', Ok ())"
proof -
  obtain tell st0 where "persist_then env tell st0 = (st', Ok ())"
    and tell: "\<And>s. trusted_peers (tell s) = trusted_peers s \<and> config (tell s) = config s \<and>
      trusted_db (tell s) = trusted_db s \<and> config_db (tell s) = config_db s"
    using assms
    by (cases cmd; simp add: pair_device_def unpair_device_def set_trusted_alias_def confirm_trusted_peer_verification_def
        Let_def split: if_splits option.splits; fastforce)
  from persist_then_ok [OF this(1)] tell show ?thesis by metis
qed

lemma trust_table_of_snoc: "trust_table_of (ps @ [p]) = AList.update (fingerprint p) p (trust_table_of ps)"
  by (simp add: trust_table_of_def)

lemma trust_table_of_notin: "fp \<notin> fingerprint ` set ps \<Longrightarrow> map_of (trust_table_of ps) fp = None"
  by (induction ps rule: rev_induct) (auto simp: trust_table_of_snoc update_conv' trust_table_of_def [of "[]"])

lemma trust_table_of_mem:
  "distinct (map fingerprint ps) \<Longrightarrow> p \<in> set ps \<Longrightarrow> map_of (trust_table_of ps) (fingerprint p) = Some p"
proof (induction ps rule: rev_induct)
  case (snoc x xs)
  show ?case
  proof (cases "p = x")
    case False
    then have mem: "p \<in> set xs" using snoc.prems(2) by simp
    have "fingerprint x \<notin> fingerprint ` set xs" using snoc.prems(1) by simp
    then have "fingerprint p \<noteq> fingerprint x" using imageI [OF mem, of fingerprint] by metis
    then show ?thesis using snoc False by (simp add: trust_table_of_snoc update_conv')
  qed (simp add: trust_table_of_snoc update_conv')
qed simp

lemma map_of_reloaded:
  assumes ok: "trust_table_ok tbl" and perm: "mset ps = mset (map snd tbl)"
  shows "map_of (trust_table_of ps) fp = map_of tbl fp"
proof -
  have keys: "fingerprint p = k" if "(k, p) \<in> set tbl" for k p
    using ok that by (auto simp: trust_table_ok_def storable_def list_all_iff)
  have dist: "distinct (map fst tbl)" using ok by (simp add: trust_table_ok_def)
  have names: "map (fingerprint \<circ> snd) tbl = map fst tbl" using keys by auto
  have "mset (map fingerprint ps) = mset (map fst tbl)"
    using perm names by (metis list.map_comp mset_map)
  then have distp: "distinct (map fingerprint ps)" and fps: "fingerprint ` set ps = fst ` set tbl"
    using dist by (metis mset_eq_imp_distinct_iff, metis list.set_map mset_eq_setD)
  show ?thesis
  proof (cases "fp \<in> fst ` set tbl")
    case False
    then show ?thesis using fps by (simp add: trust_table_of_notin map_of_eq_None_iff [THEN iffD2])
  next
    case True
    then obtain p where p: "(fp, p) \<in> set tbl" by force
    then have "p \<in> set ps" using mset_eq_setD [OF perm] by force
    then show ?thesis using trust_table_of_mem [OF distp] keys [OF p] p dist by fastforce
  qed
qed

lemma load_stored_table:
  assumes ok: "trust_table_ok tbl" and rep: "replace_trusted_peers tbl old = (rows, Ok ())"
  shows "load_trusted_peers rows = sort_key paired_at (map snd tbl)"
proof -
  have "list_all (peer_fits \<circ> snd) tbl"
    using ok by (auto simp: trust_table_ok_def storable_def list_all_iff)
  moreover have "map (fingerprint \<circ> snd) tbl = map fst tbl"
    using ok by (auto simp: trust_table_ok_def storable_def list_all_iff)
  then have "distinct (map (fingerprint \<circ> snd) tbl)"
    using ok by (simp only: trust_table_ok_def)
  ultimately show ?thesis
    using load_replaced rep by blast
qed

section \<open>Properties\<close>

text \<open>
  C23: Trust commands are durable.  After any sequence of pairing, unpairing, alias and verification
  commands, successful or not, on a storable table, a further command that reports success has written
  configuration and trust to the database such that a restart, whatever a legacy state file contains,
  restores the same configuration and, for every fingerprint, the same trusted peer.
\<close>

theorem trust_commands_durable:
  assumes "trust_table_ok (trusted_peers st0)" "list_all (\<lambda>(env, cmd). unix_now (se_clock env) \<le> I64_MAX) (cmds @ [(env, cmd)])"
    and run: "run_command env cmd (run_commands cmds st0) = (st', Ok ())" and "trim (device_name (config st')) \<noteq> ''''"
  shows "\<exists>tbl. initialize_state identity_name legacy (config_db st') (trusted_db st') =
      (config st', tbl, config_db st', trusted_db st') \<and> (\<forall>fp. map_of tbl fp = map_of (trusted_peers st') fp)"
proof -
  have ok: "trust_table_ok (trusted_peers st')"
    using run_commands_ok [of st0 cmds] table_after_ok trusted_after_command [of env cmd "run_commands cmds st0"] run assms(1,2)
    by simp
  obtain old where cfg: "config_db st' = Some (config st')"
    and rep: "replace_trusted_peers (trusted_peers st') old = (trusted_db st', Ok ())"
    using run_command_persists [OF run] by blast
  have "load_trusted_peers (trusted_db st') = sort_key paired_at (map snd (trusted_peers st'))"
    by (rule load_stored_table [OF ok rep])
  then have "mset (load_trusted_peers (trusted_db st')) = mset (map snd (trusted_peers st'))" by simp
  from map_of_reloaded [OF ok this] show ?thesis
    using cfg assms(4) by (auto simp: initialize_state_def import_legacy_def Let_def split: option.split)
qed

theorem trust_commands_durable_witness:
  "\<exists>tbl. initialize_state ''id'' None (config_db (fst (run_command sample_service_env (PairDevice ''f'') sample_app)))
      (trusted_db (fst (run_command sample_service_env (PairDevice ''f'') sample_app))) =
      (sample_config, tbl, Some sample_config, trusted_db (fst (run_command sample_service_env (PairDevice ''f'') sample_app))) \<and>
      is_trusted tbl ''f''"
proof -
  let ?r = "run_command sample_service_env (PairDevice ''f'') sample_app"
  note defs = sample_service_env_def sample_app_def sample_clock_def pair_device_def set_device_trusted_def empty_discovery_def
    persist_then_def persist_runtime_state_def replace_trusted_peers_def add_trust_def insert_peer_def peer_fits_def host_event_def
    I64_MAX_def Let_def
  have ok: "?r = (fst ?r, Ok ())" by (simp add: defs)
  have cfg: "config (fst ?r) = sample_config" "config_db (fst ?r) = Some sample_config" "is_trusted (trusted_peers (fst ?r)) ''f''"
    by (simp_all add: defs is_trusted_def)
  have "trim (device_name sample_config) \<noteq> ''''" by code_simp
  then show ?thesis
    using trust_commands_durable [of sample_app "[]" sample_service_env "PairDevice ''f''" "fst ?r" "''id''" None] ok cfg
    by (auto simp: run_commands_def trust_table_ok_def is_trusted_def sample_app_def sample_service_env_def sample_clock_def I64_MAX_def)
qed

text \<open>
  What a confirmed verification does.  When the confirmation of a trusted peer succeeds, the peer is no
  longer frozen and its freeze marks are gone, its level has not been lowered unless it was frozen, it
  is mutually confirmed only if it was before or the confirmation is mutual (which needs a signed link),
  no other peer is touched, and a cleared freeze is the newest entry of the security log.
\<close>

theorem confirmation_effect:
  assumes p: "map_of (trusted_peers st) fp = Some p"
    and ok: "confirm_trusted_peer_verification env fp mth mut st = (st', Ok ())"
  shows "\<exists>p'. map_of (trusted_peers st') fp = Some p' \<and> trust_level p' \<noteq> Frozen \<and> frozen_at p' = None \<and> freeze_reason p' = None \<and>
    (trust_level p \<noteq> Frozen \<longrightarrow> trust_level p \<le> trust_level p') \<and>
    (trust_level p' = MutualConfirmed \<longrightarrow> trust_level p = MutualConfirmed \<or>
       mut \<and> (mth = SignedPairingLink \<or> mth = MutualReceipt)) \<and>
    (\<forall>fp'. fp' \<noteq> fp \<longrightarrow> map_of (trusted_peers st') fp' = map_of (trusted_peers st) fp') \<and>
    (trust_level p = Frozen \<longrightarrow> security_db st' \<noteq> [] \<and> ev_type (last (security_db st')) = ''trust_freeze_cleared'')"
proof -
  let ?p = "verified_peer (unix_now (se_clock env)) mth mut p"
  have guard: "\<not> (mut \<and> (mth = ManualPairing \<or> mth = LegacyUnsignedLink))"
    using ok by (auto simp: confirm_trusted_peer_verification_def)
  have tbl: "trusted_peers st' = AList.update fp ?p (trusted_peers st)"
    using trusted_after_command [of env "ConfirmVerification fp mth mut" st] ok p guard by (auto simp: table_after_def)
  have level: "trust_level ?p = apply_verification (trust_level p) (requested_level mth mut)"
    by (simp add: verified_peer_def Let_def)
  have thawed: "trust_level ?p \<noteq> Frozen"
    unfolding level by (cases "trust_level p") (auto simp: apply_verification_def requested_level_def max_level_def
        less_eq_trust_level_def)
  have log: "trust_level p = Frozen \<longrightarrow> security_db st' \<noteq> [] \<and> ev_type (last (security_db st')) = ''trust_freeze_cleared''"
    using ok p guard thawed
    by (auto simp: confirm_trusted_peer_verification_def persist_then_def persist_runtime_state_def log_confirmation_def
        log_security_event_def Let_def split: prod.splits sum.splits if_splits)
  have "trust_level p \<noteq> Frozen \<longrightarrow> trust_level p \<le> trust_level ?p"
    unfolding level by (cases "trust_level p") (auto simp: apply_verification_def max_level_def less_eq_trust_level_def)
  moreover have "trust_level ?p = MutualConfirmed \<longrightarrow> trust_level p = MutualConfirmed \<or>
       mut \<and> (mth = SignedPairingLink \<or> mth = MutualReceipt)"
    unfolding level using guard
    by (cases mth) (auto simp: apply_verification_def requested_level_def max_level_def split: if_splits)
  moreover have "frozen_at ?p = None" "freeze_reason ?p = None"
    using thawed by (auto simp: verified_peer_def Let_def)
  ultimately show ?thesis using tbl thawed log by (auto simp: update_conv')
qed

theorem confirmation_effect_witness:
  "\<exists>p'. map_of (trusted_peers (fst (confirm_trusted_peer_verification sample_service_env ''f'' SignedPairingLink False frozen_app))) ''f'' =
     Some p' \<and> trust_level p' \<noteq> Frozen"
proof -
  let ?r = "confirm_trusted_peer_verification sample_service_env ''f'' SignedPairingLink False frozen_app"
  have ok: "?r = (fst ?r, Ok ())"
    by (simp add: confirm_trusted_peer_verification_def frozen_app_def sample_peer_def sample_app_def sample_service_env_def
        sample_clock_def verified_peer_def persist_then_def persist_runtime_state_def replace_trusted_peers_def insert_peer_def
        peer_fits_def I64_MAX_def apply_verification_def requested_level_def Let_def)
  have "map_of (trusted_peers frozen_app) ''f'' = Some (sample_peer\<lparr>trust_level := Frozen, frozen_at := Some 9\<rparr>)"
    by (simp add: frozen_app_def)
  from confirmation_effect [OF this ok] show ?thesis by blast
qed

end
