(* ===== verification/Trimming.thy ===== *)
theory Trimming
  imports Prelude
begin

text \<open>
  Facts on \<open>trim\<close> and decimal printing that the handling of text needs: trimming twice is trimming once, it commutes with lower case,
  text of graphic ASCII characters is not changed by it, and a number prints as digits only.
\<close>

definition is_graphic :: "char \<Rightarrow> bool" where
  "is_graphic c \<longleftrightarrow> 33 \<le> (of_char c :: nat) \<and> (of_char c :: nat) < 127"

lemma ws_front_take: "ws_front bs = 0 \<Longrightarrow> ws_front (take n bs) = 0"
  by (auto simp: ws_front_def byte_at_def Let_def split: if_splits)

lemma trim_start_id: "ws_front (byte_vals s) = 0 \<or> s = [] \<Longrightarrow> trim_start s = s"
  by (subst trim_start.simps) simp

lemma trim_end_id: "ws_back (byte_vals r) = 0 \<or> r = [] \<Longrightarrow> trim_end_rev r = r"
  by (subst trim_end_rev.simps) simp

lemma trim_start_front: "ws_front (byte_vals (trim_start s)) = 0 \<or> trim_start s = []"
proof (induction s rule: trim_start.induct)
  case (1 s)
  show ?case
  proof (cases "ws_front (byte_vals s) = 0 \<or> s = []")
    case True
    then show ?thesis by (simp add: trim_start_id)
  next
    case False
    then have "trim_start s = trim_start (drop (ws_front (byte_vals s)) s)" by (subst trim_start.simps) (simp add: Let_def)
    then show ?thesis using 1 [OF refl] False by simp
  qed
qed

lemma trim_end_back: "ws_back (byte_vals (trim_end_rev r)) = 0 \<or> trim_end_rev r = []"
proof (induction r rule: trim_end_rev.induct)
  case (1 r)
  show ?case
  proof (cases "ws_back (byte_vals r) = 0 \<or> r = []")
    case True
    then show ?thesis by (simp add: trim_end_id)
  next
    case False
    then have "trim_end_rev r = trim_end_rev (drop (ws_back (byte_vals r)) r)" by (subst trim_end_rev.simps) (simp add: Let_def)
    then show ?thesis using 1 [OF refl] False by simp
  qed
qed

lemma trim_end_suffix: "\<exists>n. trim_end_rev r = drop n r"
proof (induction r rule: trim_end_rev.induct)
  case (1 r)
  show ?case
  proof (cases "ws_back (byte_vals r) = 0 \<or> r = []")
    case True
    then have "trim_end_rev r = drop 0 r" by (simp add: trim_end_id)
    then show ?thesis by blast
  next
    case False
    then have "trim_end_rev r = trim_end_rev (drop (ws_back (byte_vals r)) r)" by (subst trim_end_rev.simps) (simp add: Let_def)
    then show ?thesis using 1 False by (metis drop_drop)
  qed
qed

lemma trim_idem [simp]: "trim (trim s) = trim s"
proof -
  let ?t = "trim_start s"
  let ?r = "trim_end_rev (rev ?t)"
  obtain n where n: "?r = drop n (rev ?t)" using trim_end_suffix by blast
  then have "rev ?r = take (length ?t - n) ?t" by (simp add: rev_drop)
  moreover have "ws_front (byte_vals (take k ?t)) = 0 \<or> take k ?t = []" for k
    using trim_start_front [of s] by (auto simp: byte_vals_def take_map [symmetric] ws_front_take)
  ultimately have "trim_start (rev ?r) = rev ?r" using trim_start_id by metis
  then show ?thesis by (simp add: trim_def trim_end_id [OF trim_end_back])
qed

text \<open>Lower case commutes with trimming: no byte of a white-space code point is a letter.\<close>

definition lower_byte :: "nat \<Rightarrow> nat" where
  "lower_byte b = (if 65 \<le> b \<and> b \<le> 90 then b + 32 else b)"

lemma byte_vals_lower: "byte_vals (to_ascii_lowercase s) = map lower_byte (byte_vals s)"
proof -
  have "of_char (ascii_lower c) = lower_byte (of_char c)" for c
    by (auto simp: ascii_lower_def lower_byte_def Let_def of_char_of)
  then show ?thesis by (simp add: byte_vals_def to_ascii_lowercase_def)
qed

lemma ws_front_lower [simp]: "ws_front (map lower_byte bs) = ws_front bs"
proof -
  have at: "byte_at (map lower_byte bs) i = lower_byte (byte_at bs i)" for i
    by (simp add: byte_at_def lower_byte_def)
  have eq: "lower_byte b = k \<longleftrightarrow> b = k" if "k < 65 \<or> 122 < k" for b k using that by (auto simp: lower_byte_def)
  have le: "k \<le> lower_byte b \<longleftrightarrow> k \<le> b" if "k < 65 \<or> 122 < k" for b k using that by (auto simp: lower_byte_def)
  have ge: "lower_byte b \<le> k \<longleftrightarrow> b \<le> k" if "k < 65 \<or> 122 < k" for b k using that by (auto simp: lower_byte_def)
  show ?thesis by (simp add: ws_front_def at Let_def eq le ge)
qed

lemma ws_back_lower [simp]: "ws_back (map lower_byte bs) = ws_back bs"
  by (simp add: ws_back_def take_map rev_map)

lemma trim_start_lower: "trim_start (to_ascii_lowercase s) = to_ascii_lowercase (trim_start s)"
proof (induction s rule: trim_start.induct)
  case (1 s)
  have "drop n (to_ascii_lowercase s) = to_ascii_lowercase (drop n s)" for n by (simp add: to_ascii_lowercase_def drop_map)
  moreover have "to_ascii_lowercase s = [] \<longleftrightarrow> s = []" by (simp add: to_ascii_lowercase_def)
  ultimately show ?case using 1 [OF refl]
    by (subst (1 2) trim_start.simps) (simp add: Let_def byte_vals_lower)
qed

lemma trim_end_lower: "trim_end_rev (to_ascii_lowercase s) = to_ascii_lowercase (trim_end_rev s)"
proof (induction s rule: trim_end_rev.induct)
  case (1 s)
  have "drop n (to_ascii_lowercase s) = to_ascii_lowercase (drop n s)" for n by (simp add: to_ascii_lowercase_def drop_map)
  moreover have "to_ascii_lowercase s = [] \<longleftrightarrow> s = []" by (simp add: to_ascii_lowercase_def)
  ultimately show ?case using 1 [OF refl]
    by (subst (1 2) trim_end_rev.simps) (simp add: Let_def byte_vals_lower)
qed

lemma trim_lower: "trim (to_ascii_lowercase s) = to_ascii_lowercase (trim s)"
proof -
  have "rev (to_ascii_lowercase t) = to_ascii_lowercase (rev t)" for t by (simp add: to_ascii_lowercase_def rev_map)
  then show ?thesis by (simp add: trim_def trim_start_lower trim_end_lower)
qed

lemma lower_idem [simp]: "to_ascii_lowercase (to_ascii_lowercase s) = to_ascii_lowercase s"
proof -
  have "ascii_lower (ascii_lower c) = ascii_lower c" for c by (auto simp: ascii_lower_def Let_def of_char_of)
  then show ?thesis by (simp add: to_ascii_lowercase_def)
qed

lemma ws_front_ascii:
  assumes "\<forall>b \<in> set bs. 33 \<le> b \<and> b < 127"
  shows "ws_front bs = 0"
proof -
  have "byte_at bs 0 = 256 \<or> 33 \<le> byte_at bs 0 \<and> byte_at bs 0 < 127"
    using assms nth_mem [of 0 bs] by (auto simp: byte_at_def)
  then have "\<not> (9 \<le> byte_at bs 0 \<and> byte_at bs 0 \<le> 13 \<or> byte_at bs 0 = 32)" "byte_at bs 0 \<noteq> 194"
    "byte_at bs 0 \<noteq> 225" "byte_at bs 0 \<noteq> 226" "byte_at bs 0 \<noteq> 227" by linarith+
  then show ?thesis unfolding ws_front_def Let_def by (simp only: if_False HOL.simp_thms)
qed

lemma trim_graphic:
  assumes "list_all is_graphic s"
  shows "trim s = s"
proof -
  have g: "33 \<le> b \<and> b < 127" if "b \<in> set (byte_vals s)" for b
    using assms that by (auto simp: byte_vals_def list_all_iff is_graphic_def)
  have w: "ws_front bs = 0" if "set bs \<subseteq> set (byte_vals s)" for bs
    using that g by (intro ws_front_ascii) blast
  have "set (rev (take k (byte_vals (rev s)))) \<subseteq> set (byte_vals s)" for k
    using set_take_subset [of k "byte_vals (rev s)"] by (auto simp: byte_vals_def)
  then have "ws_back (byte_vals (rev s)) = 0" by (simp add: ws_back_def w)
  moreover have "trim_start s = s" by (simp add: trim_start_id w)
  ultimately show ?thesis by (simp add: trim_def trim_end_id)
qed

lemma digit_char_graphic: "d < 10 \<Longrightarrow> is_graphic (digit_char d)"
  by (simp add: is_graphic_def digit_char_def of_char_of)

lemma show_nat_graphic: "list_all is_graphic (show_nat n)"
  by (induction n rule: show_nat.induct) (subst show_nat.simps, auto simp: digit_char_graphic)

lemma show_nat_length: "n < 10 ^ k \<Longrightarrow> 0 < k \<Longrightarrow> length (show_nat n) \<le> k"
proof (induction n arbitrary: k rule: show_nat.induct)
  case (1 n)
  show ?case
  proof (cases "n < 10")
    case True
    then show ?thesis using 1(3) by (subst show_nat.simps) simp
  next
    case False
    obtain j where kj: "k = Suc j" using 1(3) by (cases k) simp_all
    with False 1(2) have "0 < j" by (cases j) simp_all
    with kj have k: "k = Suc j" "0 < j" by simp_all
    then have "n div 10 < 10 ^ j" using 1(2) by (simp add: less_mult_imp_div_less mult.commute)
    then have "length (show_nat (n div 10)) \<le> j" using 1(1) False k by blast
    then show ?thesis using False k by (subst show_nat.simps) simp
  qed
qed

end
