(* ===== verification/TextData.thy ===== *)
theory TextData
  imports Trimming
begin

text \<open>
  Text as the code handles it, strings being the bytes of a \<^verbatim>\<open>str\<close>: conversion to and from bytes with the
  UTF-8 check, prefixes, and the JSON values of \<^verbatim>\<open>serde_json\<close>.
\<close>

section \<open>Bytes and text\<close>

definition str_bytes :: "string \<Rightarrow> bytes" where
  "str_bytes s = map (\<lambda>c. word_of_nat (of_char c)) s"

definition bytes_str :: "bytes \<Rightarrow> string" where
  "bytes_str bs = map (\<lambda>b. char_of (unat b)) bs"

text \<open>\<^verbatim>\<open>String::from_utf8\<close>: the well-formed byte sequences of UTF-8.\<close>

definition is_cont :: "nat \<Rightarrow> bool" where
  "is_cont b = (128 \<le> b \<and> b \<le> 191)"

definition utf8_len :: "nat list \<Rightarrow> nat" where
  "utf8_len bs =
     (let b = byte_at bs 0; c = byte_at bs 1; d = byte_at bs 2; e = byte_at bs 3 in
      if b < 128 then 1
      else if 194 \<le> b \<and> b \<le> 223 \<and> is_cont c then 2
      else if b = 224 \<and> 160 \<le> c \<and> c \<le> 191 \<and> is_cont d then 3
      else if ((225 \<le> b \<and> b \<le> 236) \<or> b = 238 \<or> b = 239) \<and> is_cont c \<and> is_cont d then 3
      else if b = 237 \<and> 128 \<le> c \<and> c \<le> 159 \<and> is_cont d then 3
      else if b = 240 \<and> 144 \<le> c \<and> c \<le> 191 \<and> is_cont d \<and> is_cont e then 4
      else if 241 \<le> b \<and> b \<le> 243 \<and> is_cont c \<and> is_cont d \<and> is_cont e then 4
      else if b = 244 \<and> 128 \<le> c \<and> c \<le> 143 \<and> is_cont d \<and> is_cont e then 4
      else 0)"

function utf8_valid :: "nat list \<Rightarrow> bool" where
  "utf8_valid bs =
     (if bs = [] then True
      else (let n = utf8_len bs in if n = 0 then False else utf8_valid (drop n bs)))"
  by pat_completeness auto
termination
  by (relation "measure length") auto

declare utf8_valid.simps [simp del]

definition from_utf8 :: "bytes \<Rightarrow> string option" where
  "from_utf8 bs = (if utf8_valid (map unat bs) then Some (bytes_str bs) else None)"

definition strip_prefix :: "string \<Rightarrow> string \<Rightarrow> string option" where
  "strip_prefix p s = (if starts_with s p then Some (drop (length p) s) else None)"

definition is_ascii_alphanumeric :: "char \<Rightarrow> bool" where
  "is_ascii_alphanumeric c =
     (let n = (of_char c :: nat) in (48 \<le> n \<and> n \<le> 57) \<or> (65 \<le> n \<and> n \<le> 90) \<or> (97 \<le> n \<and> n \<le> 122))"

section \<open>JSON values\<close>

text \<open>A JSON value, as \<^verbatim>\<open>serde_json::Value\<close>: numbers that are no integers carry their text.\<close>

datatype json = JNull | JBool bool | JNum int | JFloat string | JStr string | JArr "json list" | JObj "(string \<times> json) list"

definition as_u64 :: "json \<Rightarrow> u64 option" where
  "as_u64 v = (case v of JNum i \<Rightarrow> (if 0 \<le> i \<and> i \<le> int U64_MAX then Some (nat i) else None) | _ \<Rightarrow> None)"

section \<open>Facts\<close>

lemma byte_of_char [simp]: "unat (word_of_nat (of_char c) :: 8 word) = of_char c"
proof -
  have "(of_char c :: nat) < 256" by (rule nat_of_char_less_256)
  then show ?thesis by (simp add: unsigned_of_nat take_bit_nat_eq_self)
qed

lemma str_bytes_inv [simp]: "bytes_str (str_bytes s) = s"
  by (induction s) (simp_all add: str_bytes_def bytes_str_def byte_of_char)

lemma utf8_ascii: "\<forall>b \<in> set bs. b < 128 \<Longrightarrow> utf8_valid bs"
proof (induction bs)
  case Nil
  then show ?case by (subst utf8_valid.simps) simp
next
  case (Cons b bs)
  then have "utf8_len (b # bs) = 1" by (simp add: utf8_len_def byte_at_def Let_def)
  then show ?case using Cons by (subst utf8_valid.simps) simp
qed

lemma from_utf8_ascii: "\<forall>c \<in> set s. (of_char c :: nat) < 128 \<Longrightarrow> from_utf8 (str_bytes s) = Some s"
  by (simp add: from_utf8_def str_bytes_def byte_of_char comp_def utf8_ascii)
    (simp add: str_bytes_inv [unfolded str_bytes_def])

end
