(* ===== verification/Pairing.thy ===== *)
theory Pairing
  imports TrustService TextData
begin

text \<open>
  Pairing links of \<^verbatim>\<open>pairing.rs\<close>: building a signed link, validating legacy and signed payloads, and the
  migration of a trusted peer to a new identity.  The crates the code calls are the fields of
  \<open>pairing_lib\<close>, an argument of every definition that uses them: base64, \<^verbatim>\<open>serde_json\<close> (reading a text as a
  value, writing the two structures), and ed25519 (decoding keys, signing, verifying).  What the code
  relies on is \<open>pairing_lib_ok\<close>.
\<close>

section \<open>Data\<close>

record migration_proof =
  previous_fingerprint :: string
  previous_public_key :: string
  proof_signature :: string

record validated_payload =
  vp_version :: nat
  vp_fingerprint :: string
  vp_device_name :: string
  vp_verification_code :: string
  vp_issued_at_unix_ms :: u64
  vp_expires_at_unix_ms :: u64
  vp_trust_model :: string
  vp_signature_verified :: bool
  vp_migration_proof :: "migration_proof option"

record payload_v1 =
  v1_version :: nat
  v1_fingerprint :: string
  v1_device_name :: string
  v1_verification_code :: string
  v1_issued_at_unix_ms :: u64

record payload_v2_body =
  b2_version :: nat
  b2_fingerprint :: string
  b2_device_name :: string
  b2_verification_code :: string
  b2_issued_at_unix_ms :: u64
  b2_signer_public_key :: string
  b2_migration_proof :: "migration_proof option"

record payload_v2 =
  v2_version :: nat
  v2_fingerprint :: string
  v2_device_name :: string
  v2_verification_code :: string
  v2_issued_at_unix_ms :: u64
  v2_signer_public_key :: string
  v2_signature :: string
  v2_migration_proof :: "migration_proof option"

datatype pairing_error =
    LinkEmpty | LinkDataMissing | LinkNotBase64 | PayloadNotUtf8 | PayloadNotJson | UnsupportedVersion
  | LegacyPayloadMalformed | SignedPayloadMalformed
  | FingerprintMissing | DeviceNameMissing | VerificationCodeInvalid
  | IssueTimeMissing | IssueTimeInvalid | LinkExpired
  | SignerKeyInvalid | SignerKeyLength | SignatureEncoding | SignatureLength | SignatureInvalid
  | PreviousKeyInvalid | PreviousKeyLength | MigrationSignatureEncoding | MigrationSignatureLength | MigrationSignatureInvalid
  | LocalFingerprintMissing | LocalDeviceNameMissing | LocalKeyUndecodable
  | NoMigrationProof | DatabaseLockPoisoned | MigrationStoreFailed store_error

record pairing_lib =
  b64_encode :: "bytes \<Rightarrow> string"
  b64_decode :: "string \<Rightarrow> bytes option"
  b64url_encode :: "bytes \<Rightarrow> string"
  b64url_decode :: "string \<Rightarrow> bytes option"
  json_parse :: "string \<Rightarrow> json option"
  ser_body :: "payload_v2_body \<Rightarrow> bytes"
  ser_payload :: "payload_v2 \<Rightarrow> bytes"
  signing_key_from_der :: "bytes \<Rightarrow> bytes option"
  verifying_key :: "bytes \<Rightarrow> bytes"
  sign_with :: "bytes \<Rightarrow> bytes \<Rightarrow> bytes"
  key_decodes :: "bytes \<Rightarrow> bool"
  sig_verify :: "bytes \<Rightarrow> bytes \<Rightarrow> bytes \<Rightarrow> bool"

definition PAIRING_LINK_TTL_MS :: u64 where "PAIRING_LINK_TTL_MS = 10 * 60 * 1000"
definition PAIRING_LINK_FUTURE_SKEW_MS :: u64 where "PAIRING_LINK_FUTURE_SKEW_MS = 2 * 60 * 1000"
definition DASHDROP_PAIRING_PREFIX :: string where "DASHDROP_PAIRING_PREFIX = ''dashdrop://pair?''"

section \<open>Fingerprints and verification codes\<close>

definition normalize_fingerprint :: "string \<Rightarrow> string" where
  "normalize_fingerprint fp = map ascii_upper (filter is_ascii_alphanumeric fp)"

definition normalize_device_name :: "string \<Rightarrow> string" where
  "normalize_device_name nm = trim nm"

text \<open>The three counters; the arithmetic is that of 32-bit integers.\<close>

fun mix_code :: "nat \<Rightarrow> nat list \<Rightarrow> nat list \<Rightarrow> nat list" where
  "mix_code i [] buckets = buckets"
| "mix_code i (b # bs) buckets =
     (let k = i mod 3;
          v = ((buckets ! k) * 131 + b + ((i mod 2 ^ 32) * 17) mod 2 ^ 32) mod 2 ^ 32 mod 10000
      in mix_code (i + 1) bs (buckets[k := v]))"

text \<open>\<^verbatim>\<open>format!("{part:04}")\<close>.\<close>

definition pad4 :: "nat \<Rightarrow> string" where
  "pad4 n = (let s = show_nat n in replicate (4 - length s) (CHR ''0'') @ s)"

definition code_from_value :: "string \<Rightarrow> string" where
  "code_from_value s =
     (if s = '''' then ''0000-0000-0000''
      else join_with ''-'' (map pad4 (mix_code 0 (byte_vals s) [4951, 9320, 13980])))"

definition verification_code_from_fingerprint :: "string \<Rightarrow> string" where
  "verification_code_from_fingerprint fp = code_from_value (normalize_fingerprint fp)"

definition pairing_payload_expires_at_unix_ms :: "u64 \<Rightarrow> u64" where
  "pairing_payload_expires_at_unix_ms issued = sat_add issued PAIRING_LINK_TTL_MS"

section \<open>Reading a payload\<close>

fun find_data :: "string list \<Rightarrow> string option" where
  "find_data [] = None"
| "find_data (e # es) = (case strip_prefix ''data='' e of Some d \<Rightarrow> Some d | None \<Rightarrow> find_data es)"

definition decode_b64url_text :: "pairing_lib \<Rightarrow> string \<Rightarrow> pairing_error + string" where
  "decode_b64url_text L d =
     (case b64url_decode L d of
        None \<Rightarrow> Err LinkNotBase64
      | Some bs \<Rightarrow> (case from_utf8 bs of None \<Rightarrow> Err PayloadNotUtf8 | Some s \<Rightarrow> Ok s))"

definition decode_pairing_payload_source :: "pairing_lib \<Rightarrow> string \<Rightarrow> pairing_error + string" where
  "decode_pairing_payload_source L input =
     (let raw = trim input in
      if raw = '''' then Err LinkEmpty
      else case strip_prefix DASHDROP_PAIRING_PREFIX raw of
        Some query \<Rightarrow>
          (case find_data (split_on (CHR ''&'') query) of
             None \<Rightarrow> Err LinkDataMissing
           | Some d \<Rightarrow> decode_b64url_text L d)
      | None \<Rightarrow> (if starts_with raw ''{'' then Ok raw else decode_b64url_text L raw))"

definition validate_payload_freshness :: "u64 \<Rightarrow> u64 \<Rightarrow> pairing_error + u64" where
  "validate_payload_freshness issued now =
     (if issued = 0 then Err IssueTimeMissing
      else if sat_sub issued now > PAIRING_LINK_FUTURE_SKEW_MS then Err IssueTimeInvalid
      else (let expires = pairing_payload_expires_at_unix_ms issued
            in if now > expires then Err LinkExpired else Ok expires))"

text \<open>
  What \<^verbatim>\<open>#[derive(Deserialize)]\<close> reads from a value: a required field must be there with its type, an
  optional one may be missing or null, a nested structure may also be given as a sequence.
\<close>

definition get_str :: "string \<Rightarrow> (string \<times> json) list \<Rightarrow> string option" where
  "get_str k obj = (case map_of obj k of Some (JStr s) \<Rightarrow> Some s | _ \<Rightarrow> None)"

definition get_uint :: "nat \<Rightarrow> string \<Rightarrow> (string \<times> json) list \<Rightarrow> nat option" where
  "get_uint bound k obj =
     (case Option.bind (map_of obj k) as_u64 of Some n \<Rightarrow> (if n \<le> bound then Some n else None) | None \<Rightarrow> None)"

definition decode_proof :: "json \<Rightarrow> migration_proof option" where
  "decode_proof v =
     (case v of
        JObj obj \<Rightarrow>
          (case (get_str ''previous_fingerprint'' obj, get_str ''previous_public_key'' obj, get_str ''signature'' obj) of
             (Some f, Some k, Some s) \<Rightarrow> Some \<lparr>previous_fingerprint = f, previous_public_key = k, proof_signature = s\<rparr>
           | _ \<Rightarrow> None)
      | JArr [JStr f, JStr k, JStr s] \<Rightarrow> Some \<lparr>previous_fingerprint = f, previous_public_key = k, proof_signature = s\<rparr>
      | _ \<Rightarrow> None)"

definition get_proof :: "(string \<times> json) list \<Rightarrow> migration_proof option option" where
  "get_proof obj =
     (case map_of obj ''migration_proof'' of
        None \<Rightarrow> Some None
      | Some JNull \<Rightarrow> Some None
      | Some v \<Rightarrow> map_option Some (decode_proof v))"

definition decode_v1 :: "(string \<times> json) list \<Rightarrow> payload_v1 option" where
  "decode_v1 obj =
     Option.bind (get_uint 255 ''version'' obj) (\<lambda>v.
     Option.bind (get_str ''fingerprint'' obj) (\<lambda>f.
     Option.bind (get_str ''device_name'' obj) (\<lambda>d.
     Option.bind (get_str ''verification_code'' obj) (\<lambda>c.
     Option.bind (get_uint U64_MAX ''issued_at_unix_ms'' obj) (\<lambda>i.
       Some \<lparr>v1_version = v, v1_fingerprint = f, v1_device_name = d, v1_verification_code = c, v1_issued_at_unix_ms = i\<rparr>)))))"

definition decode_v2 :: "(string \<times> json) list \<Rightarrow> payload_v2 option" where
  "decode_v2 obj =
     Option.bind (get_uint 255 ''version'' obj) (\<lambda>v.
     Option.bind (get_str ''fingerprint'' obj) (\<lambda>f.
     Option.bind (get_str ''device_name'' obj) (\<lambda>d.
     Option.bind (get_str ''verification_code'' obj) (\<lambda>c.
     Option.bind (get_uint U64_MAX ''issued_at_unix_ms'' obj) (\<lambda>i.
     Option.bind (get_str ''signer_public_key'' obj) (\<lambda>k.
     Option.bind (get_str ''signature'' obj) (\<lambda>s.
     Option.bind (get_proof obj) (\<lambda>m.
       Some \<lparr>v2_version = v, v2_fingerprint = f, v2_device_name = d, v2_verification_code = c, v2_issued_at_unix_ms = i,
             v2_signer_public_key = k, v2_signature = s, v2_migration_proof = m\<rparr>))))))))"

section \<open>Validation\<close>

text \<open>The checks both versions share: fingerprint, device name and verification code.\<close>

definition check_names :: "string \<Rightarrow> string \<Rightarrow> string \<Rightarrow> pairing_error + (string \<times> string \<times> string)" where
  "check_names fp nm code =
     (let fingerprint = normalize_fingerprint fp; device = normalize_device_name nm;
          expected = verification_code_from_fingerprint fingerprint
      in if fingerprint = '''' then Err FingerprintMissing
         else if device = '''' then Err DeviceNameMissing
         else if trim code \<noteq> expected then Err VerificationCodeInvalid
         else Ok (fingerprint, device, expected))"

definition validate_v1 :: "payload_v1 \<Rightarrow> u64 \<Rightarrow> pairing_error + validated_payload" where
  "validate_v1 p now =
     (case check_names (v1_fingerprint p) (v1_device_name p) (v1_verification_code p) of
        Inl e \<Rightarrow> Err e
      | Inr (fp, nm, code) \<Rightarrow>
          (case validate_payload_freshness (v1_issued_at_unix_ms p) now of
             Inl e \<Rightarrow> Err e
           | Inr expires \<Rightarrow>
               Ok \<lparr>vp_version = 1, vp_fingerprint = fp, vp_device_name = nm, vp_verification_code = code,
                   vp_issued_at_unix_ms = v1_issued_at_unix_ms p, vp_expires_at_unix_ms = expires,
                   vp_trust_model = ''legacy_unsigned'', vp_signature_verified = False, vp_migration_proof = None\<rparr>))"

text \<open>
  A signature check: the key and the signature are decoded, with an error for each way that fails, and
  the signature is verified over the message.
\<close>

definition check_signature ::
    "pairing_lib \<Rightarrow> pairing_error \<Rightarrow> pairing_error \<Rightarrow> pairing_error \<Rightarrow> pairing_error \<Rightarrow> pairing_error \<Rightarrow>
     string \<Rightarrow> string \<Rightarrow> bytes \<Rightarrow> pairing_error + unit" where
  "check_signature L bad_key bad_key_len bad_sig bad_sig_len bad key sig msg =
     (case b64_decode L (trim key) of
        None \<Rightarrow> Err bad_key
      | Some pk \<Rightarrow>
          (if length pk \<noteq> 32 then Err bad_key_len
           else if \<not> key_decodes L pk then Err bad_key
           else case b64_decode L (trim sig) of
             None \<Rightarrow> Err bad_sig
           | Some sg \<Rightarrow>
               (if length sg \<noteq> 64 then Err bad_sig_len
                else if \<not> sig_verify L pk msg sg then Err bad
                else Ok ())))"

definition proof_data :: "string \<Rightarrow> u64 \<Rightarrow> bytes" where
  "proof_data fp issued = str_bytes (fp @ '':'' @ show_nat issued)"

definition check_migration :: "pairing_lib \<Rightarrow> string \<Rightarrow> u64 \<Rightarrow> migration_proof option \<Rightarrow> pairing_error + unit" where
  "check_migration L fp issued pr =
     (case pr of
        None \<Rightarrow> Ok ()
      | Some m \<Rightarrow>
          check_signature L PreviousKeyInvalid PreviousKeyLength MigrationSignatureEncoding MigrationSignatureLength
            MigrationSignatureInvalid (previous_public_key m) (proof_signature m) (proof_data fp issued))"

definition signed_body :: "payload_v2 \<Rightarrow> string \<Rightarrow> string \<Rightarrow> string \<Rightarrow> payload_v2_body" where
  "signed_body p fp nm code =
     \<lparr>b2_version = 2, b2_fingerprint = fp, b2_device_name = nm, b2_verification_code = code,
      b2_issued_at_unix_ms = v2_issued_at_unix_ms p, b2_signer_public_key = trim (v2_signer_public_key p),
      b2_migration_proof = v2_migration_proof p\<rparr>"

definition validate_v2 :: "pairing_lib \<Rightarrow> payload_v2 \<Rightarrow> u64 \<Rightarrow> pairing_error + validated_payload" where
  "validate_v2 L p now =
     (case check_names (v2_fingerprint p) (v2_device_name p) (v2_verification_code p) of
        Inl e \<Rightarrow> Err e
      | Inr (fp, nm, code) \<Rightarrow>
          (case check_signature L SignerKeyInvalid SignerKeyLength SignatureEncoding SignatureLength SignatureInvalid
                  (v2_signer_public_key p) (v2_signature p) (ser_body L (signed_body p fp nm code)) of
             Inl e \<Rightarrow> Err e
           | Inr _ \<Rightarrow>
               (case check_migration L fp (v2_issued_at_unix_ms p) (v2_migration_proof p) of
                  Inl e \<Rightarrow> Err e
                | Inr _ \<Rightarrow>
                    (case validate_payload_freshness (v2_issued_at_unix_ms p) now of
                       Inl e \<Rightarrow> Err e
                     | Inr expires \<Rightarrow>
                         Ok \<lparr>vp_version = 2, vp_fingerprint = fp, vp_device_name = nm, vp_verification_code = code,
                             vp_issued_at_unix_ms = v2_issued_at_unix_ms p, vp_expires_at_unix_ms = expires,
                             vp_trust_model = ''signed_link'', vp_signature_verified = True,
                             vp_migration_proof = v2_migration_proof p\<rparr>))))"

definition validate_pairing_input_value :: "pairing_lib \<Rightarrow> string \<Rightarrow> u64 \<Rightarrow> pairing_error + validated_payload" where
  "validate_pairing_input_value L input now =
     (case decode_pairing_payload_source L input of
        Inl e \<Rightarrow> Err e
      | Inr source \<Rightarrow>
          (case json_parse L source of
             None \<Rightarrow> Err PayloadNotJson
           | Some (JObj obj) \<Rightarrow>
               (case Option.bind (map_of obj ''version'') as_u64 of
                  None \<Rightarrow> Err UnsupportedVersion
                | Some v \<Rightarrow>
                    (if v = 1 then (case decode_v1 obj of None \<Rightarrow> Err LegacyPayloadMalformed | Some p \<Rightarrow> validate_v1 p now)
                     else if v = 2 then (case decode_v2 obj of None \<Rightarrow> Err SignedPayloadMalformed | Some p \<Rightarrow> validate_v2 L p now)
                     else Err UnsupportedVersion))
           | Some _ \<Rightarrow> Err UnsupportedVersion))"

section \<open>Building links and proofs\<close>

definition link_of_payload :: "pairing_lib \<Rightarrow> payload_v2 \<Rightarrow> string" where
  "link_of_payload L p = ''dashdrop://pair?data='' @ b64url_encode L (ser_payload L p)"

text \<open>The signed payload for a fingerprint and a name, both normalised, with an optional migration proof.\<close>

definition sign_payload :: "pairing_lib \<Rightarrow> bytes \<Rightarrow> string \<Rightarrow> string \<Rightarrow> u64 \<Rightarrow> migration_proof option \<Rightarrow> payload_v2" where
  "sign_payload L key fp nm issued pr =
     (let code = verification_code_from_fingerprint fp;
          pk = b64_encode L (verifying_key L key);
          body = \<lparr>b2_version = 2, b2_fingerprint = fp, b2_device_name = nm, b2_verification_code = code,
                  b2_issued_at_unix_ms = issued, b2_signer_public_key = pk, b2_migration_proof = pr\<rparr>
      in \<lparr>v2_version = 2, v2_fingerprint = fp, v2_device_name = nm, v2_verification_code = code,
          v2_issued_at_unix_ms = issued, v2_signer_public_key = pk,
          v2_signature = b64_encode L (sign_with L key (ser_body L body)), v2_migration_proof = pr\<rparr>)"

record identity =
  id_fingerprint :: string
  id_cert_der :: bytes
  id_key_der :: bytes

definition build_signed_pairing_link :: "pairing_lib \<Rightarrow> identity \<Rightarrow> string \<Rightarrow> u64 \<Rightarrow> pairing_error + string" where
  "build_signed_pairing_link L idn nm0 now =
     (let fp = normalize_fingerprint (id_fingerprint idn); nm = normalize_device_name nm0 in
      if fp = '''' then Err LocalFingerprintMissing
      else if nm = '''' then Err LocalDeviceNameMissing
      else case signing_key_from_der L (id_key_der idn) of
        None \<Rightarrow> Err LocalKeyUndecodable
      | Some key \<Rightarrow> Ok (link_of_payload L (sign_payload L key fp nm now None)))"

definition create_identity_migration_proof ::
    "pairing_lib \<Rightarrow> identity \<Rightarrow> string \<Rightarrow> u64 \<Rightarrow> pairing_error + migration_proof" where
  "create_identity_migration_proof L idn new_fp issued =
     (case signing_key_from_der L (id_key_der idn) of
        None \<Rightarrow> Err LocalKeyUndecodable
      | Some key \<Rightarrow>
          Ok \<lparr>previous_fingerprint = normalize_fingerprint (id_fingerprint idn),
              previous_public_key = b64_encode L (verifying_key L key),
              proof_signature = b64_encode L (sign_with L key (proof_data (normalize_fingerprint new_fp) issued))\<rparr>)"

definition apply_identity_migration :: "service_env \<Rightarrow> validated_payload \<Rightarrow> app_state \<Rightarrow> app_state \<times> (pairing_error + unit)" where
  "apply_identity_migration env v st =
     (case vp_migration_proof v of
        None \<Rightarrow> (st, Err NoMigrationProof)
      | Some m \<Rightarrow>
          (if \<not> se_lock_ok env then (st, Err DatabaseLockPoisoned)
           else
             (let (rows, log, r) = migrate_trusted_peer_identity (unix_now (se_clock env)) (previous_fingerprint m)
                    (vp_fingerprint v) (vp_device_name v) (trusted_db st) (security_db st)
              in (st\<lparr>trusted_db := rows, security_db := log\<rparr>,
                  case r of Inl e \<Rightarrow> Err (MigrationStoreFailed e) | Inr _ \<Rightarrow> Ok ()))))"

section \<open>What the code relies on\<close>

definition is_b64_char :: "char \<Rightarrow> bool" where
  "is_b64_char c = (is_ascii_alphanumeric c \<or> c \<in> {CHR ''+'', CHR ''/'', CHR ''='', CHR ''-'', CHR ''_''})"

text \<open>The value that \<^verbatim>\<open>serde_json\<close> reads from a written payload, its keys in the order of its map.\<close>

definition proof_value :: "migration_proof \<Rightarrow> json" where
  "proof_value m = JObj [(''previous_fingerprint'', JStr (previous_fingerprint m)),
     (''previous_public_key'', JStr (previous_public_key m)), (''signature'', JStr (proof_signature m))]"

definition payload_value :: "payload_v2 \<Rightarrow> json" where
  "payload_value p = JObj ([(''device_name'', JStr (v2_device_name p)), (''fingerprint'', JStr (v2_fingerprint p)),
     (''issued_at_unix_ms'', JNum (int (v2_issued_at_unix_ms p)))] @
     (case v2_migration_proof p of Some m \<Rightarrow> [(''migration_proof'', proof_value m)] | None \<Rightarrow> []) @
     [(''signature'', JStr (v2_signature p)), (''signer_public_key'', JStr (v2_signer_public_key p)),
      (''verification_code'', JStr (v2_verification_code p)), (''version'', JNum (int (v2_version p)))])"

text \<open>
  Encodings decode to what was encoded and use their alphabets; a written payload is UTF-8 text that
  reads back as its value; a key has 32 bytes, a signature 64, and a signature verifies.
\<close>

definition pairing_lib_ok :: "pairing_lib \<Rightarrow> bool" where
  "pairing_lib_ok L \<longleftrightarrow>
     (\<forall>b. b64_decode L (b64_encode L b) = Some b \<and> list_all is_b64_char (b64_encode L b)) \<and>
     (\<forall>b. b64url_decode L (b64url_encode L b) = Some b \<and> list_all is_b64_char (b64url_encode L b)) \<and>
     (\<forall>p. \<exists>s. from_utf8 (ser_payload L p) = Some s \<and> json_parse L s = Some (payload_value p)) \<and>
     (\<forall>key. length (verifying_key L key) = 32 \<and> key_decodes L (verifying_key L key)) \<and>
     (\<forall>key msg. length (sign_with L key msg) = 64 \<and> sig_verify L (verifying_key L key) msg (sign_with L key msg))"

end
