(* ===== verification/PairingLinks.thy ===== *)
theory PairingLinks
  imports Pairing
begin

text \<open>
  What the pairing links of \<^verbatim>\<open>pairing.rs\<close> guarantee: a link a device builds is accepted within its
  validity window and gives back the device it names, an accepted input is fresh, names a fingerprint
  with its code and, for the signed version, verifies; and what the migration proof does not tie together.
\<close>

section \<open>A library that keeps the laws\<close>

text \<open>
  Two letters a byte stand for base64, fields of such letters between commas for JSON, and a signature is
  the key and the head of the message.
\<close>

definition nib_char :: "nat \<Rightarrow> char" where
  "nib_char n = char_of (65 + n)"

definition nib_encode :: "bytes \<Rightarrow> string" where
  "nib_encode bs = concat (map (\<lambda>b. [nib_char (unat b div 16), nib_char (unat b mod 16)]) bs)"

fun nib_decode :: "string \<Rightarrow> bytes option" where
  "nib_decode [] = Some []"
| "nib_decode [c] = None"
| "nib_decode (c # d # s) =
     map_option ((#) (word_of_nat (16 * (of_char c - 65) + (of_char d - 65)))) (nib_decode s)"

definition field_text :: "string \<Rightarrow> string" where
  "field_text s = nib_encode (str_bytes s)"

definition text_field :: "string \<Rightarrow> string" where
  "text_field s = (case nib_decode s of Some bs \<Rightarrow> bytes_str bs | None \<Rightarrow> [])"

definition payload_fields :: "payload_v2 \<Rightarrow> string list" where
  "payload_fields p =
     [v2_device_name p, v2_fingerprint p, show_nat (v2_issued_at_unix_ms p), v2_signature p, v2_signer_public_key p,
      v2_verification_code p, show_nat (v2_version p)] @
     (case v2_migration_proof p of
        Some m \<Rightarrow> [previous_fingerprint m, previous_public_key m, proof_signature m] | None \<Rightarrow> [])"

definition fields_payload :: "string list \<Rightarrow> payload_v2" where
  "fields_payload fs =
     \<lparr>v2_version = read_nat (fs ! 6), v2_fingerprint = fs ! 1, v2_device_name = fs ! 0,
      v2_verification_code = fs ! 5, v2_issued_at_unix_ms = read_nat (fs ! 2), v2_signer_public_key = fs ! 4,
      v2_signature = fs ! 3,
      v2_migration_proof =
        (if length fs = 10
         then Some \<lparr>previous_fingerprint = fs ! 7, previous_public_key = fs ! 8, proof_signature = fs ! 9\<rparr>
         else None)\<rparr>"

definition toy_ser :: "payload_v2 \<Rightarrow> bytes" where
  "toy_ser p = str_bytes (join_with '','' (map field_text (payload_fields p)))"

definition toy_parse :: "string \<Rightarrow> json option" where
  "toy_parse s = Some (payload_value (fields_payload (map text_field (split_on (CHR '','') s))))"

definition toy_sign :: "bytes \<Rightarrow> bytes \<Rightarrow> bytes" where
  "toy_sign key msg = take 32 (key @ replicate 32 0) @ take 32 (msg @ replicate 32 0)"

definition toy_lib :: pairing_lib where
  "toy_lib =
     \<lparr>b64_encode = nib_encode, b64_decode = nib_decode, b64url_encode = nib_encode, b64url_decode = nib_decode,
      json_parse = toy_parse, ser_body = (\<lambda>b. str_bytes (b2_fingerprint b)), ser_payload = toy_ser,
      signing_key_from_der = Some, verifying_key = (\<lambda>k. take 32 (k @ replicate 32 0)), sign_with = toy_sign,
      key_decodes = (\<lambda>_. True), sig_verify = (\<lambda>pk msg sg. sg = pk @ take 32 (msg @ replicate 32 0))\<rparr>"

definition sample_identity :: identity where
  "sample_identity = \<lparr>id_fingerprint = ''ab:C'', id_cert_der = [], id_key_der = [1]\<rparr>"

definition victim_app :: app_state where
  "victim_app = sample_app\<lparr>trusted_peers := [(''f'', sample_peer)], trusted_db := [row_of_peer sample_peer]\<rparr>"

section \<open>The validity window\<close>

definition fresh_at :: "u64 \<Rightarrow> u64 \<Rightarrow> bool" where
  "fresh_at issued now \<longleftrightarrow>
     0 < issued \<and> issued \<le> now + PAIRING_LINK_FUTURE_SKEW_MS \<and> now \<le> pairing_payload_expires_at_unix_ms issued"

section \<open>What an input carries\<close>

definition carried_payload :: "pairing_lib \<Rightarrow> string \<Rightarrow> payload_v2 option" where
  "carried_payload L input =
     (case decode_pairing_payload_source L input of
        Inr source \<Rightarrow> (case json_parse L source of Some (JObj obj) \<Rightarrow> decode_v2 obj | _ \<Rightarrow> None)
      | Inl _ \<Rightarrow> None)"

text \<open>A signature given as text verifies under a key given as text.\<close>

definition verifies :: "pairing_lib \<Rightarrow> string \<Rightarrow> string \<Rightarrow> bytes \<Rightarrow> bool" where
  "verifies L key sig msg =
     (case (b64_decode L (trim key), b64_decode L (trim sig)) of
        (Some pk, Some sg) \<Rightarrow> length pk = 32 \<and> key_decodes L pk \<and> length sg = 64 \<and> sig_verify L pk msg sg
      | _ \<Rightarrow> False)"

section \<open>Facts on the library\<close>

lemma nib_decode_encode [simp]: "nib_decode (nib_encode bs) = Some bs"
proof (induction bs)
  case Nil
  then show ?case by (simp add: nib_encode_def)
next
  case (Cons b bs)
  have "unat b < 256" using unsigned_less [of b] by simp
  then have "unat b div 16 < 16" "unat b mod 16 < 16" by (simp_all add: less_mult_imp_div_less)
  then have "(of_char (nib_char (unat b div 16)) :: nat) = 65 + unat b div 16"
    "(of_char (nib_char (unat b mod 16)) :: nat) = 65 + unat b mod 16"
    by (simp_all add: nib_char_def of_char_of)
  then have "16 * (of_char (nib_char (unat b div 16)) - 65) + (of_char (nib_char (unat b mod 16)) - 65) = unat b"
    by simp
  then show ?case using Cons by (simp add: nib_encode_def)
qed

lemma nib_alnum: "n < 16 \<Longrightarrow> is_ascii_alphanumeric (nib_char n)"
  by (simp add: is_ascii_alphanumeric_def nib_char_def of_char_of Let_def)

lemma nib_encode_alnum: "list_all is_ascii_alphanumeric (nib_encode bs)"
proof (induction bs)
  case Nil
  then show ?case by (simp add: nib_encode_def)
next
  case (Cons b bs)
  have "unat b < 256" using unsigned_less [of b] by simp
  then have "unat b div 16 < 16" by (simp add: less_mult_imp_div_less)
  then show ?case using Cons by (simp add: nib_encode_def nib_alnum)
qed

lemma text_field_text [simp]: "text_field (field_text s) = s"
  by (simp add: text_field_def field_text_def)

lemma alnum_not: "is_ascii_alphanumeric c \<Longrightarrow> c \<noteq> CHR '',''" "is_ascii_alphanumeric c \<Longrightarrow> c \<noteq> CHR ''&''"
  by (auto simp: is_ascii_alphanumeric_def Let_def)

lemma split_field_texts: "fs \<noteq> [] \<Longrightarrow> map text_field (split_on (CHR '','') (join_with '','' (map field_text fs))) = fs"
proof -
  assume ne: "fs \<noteq> []"
  have "CHR '','' \<notin> set (field_text s)" for s
    using nib_encode_alnum alnum_not(1) by (auto simp: field_text_def list_all_iff)
  then show ?thesis using ne by (subst split_join_fields) (auto simp: comp_def)
qed

lemma toy_lib_ok: "pairing_lib_ok toy_lib"
proof -
  have b64: "list_all is_b64_char (nib_encode b)" for b
    using nib_encode_alnum [of b] by (auto simp: list_all_iff is_b64_char_def)
  have field: "(of_char c :: nat) < 128" if "c \<in> set (field_text s)" for c s
    using that nib_encode_alnum [of "str_bytes s"]
    by (auto simp: field_text_def list_all_iff is_ascii_alphanumeric_def Let_def)
  have join: "(of_char c :: nat) < 128" if "c \<in> set (join_with '','' (map field_text fs))" for c fs
    using that by (induction "'',''" fs rule: join_with.induct) (auto dest: field)
  have "from_utf8 (toy_ser p) = Some (bytes_str (toy_ser p))" for p
    unfolding toy_ser_def str_bytes_inv by (rule from_utf8_ascii) (rule ballI, rule join)
  moreover have "fields_payload (payload_fields p) = p" for p
    by (cases "v2_migration_proof p") (simp_all add: fields_payload_def payload_fields_def read_show_nat)
  then have "toy_parse (bytes_str (toy_ser p)) = Some (payload_value p)" for p
    unfolding toy_parse_def toy_ser_def str_bytes_inv
    by (subst split_field_texts) (simp_all add: payload_fields_def)
  ultimately show ?thesis
    unfolding pairing_lib_ok_def by (auto simp: toy_lib_def b64 toy_sign_def)
qed

section \<open>Facts on links\<close>

lemma upper_alnum: "is_ascii_alphanumeric c \<Longrightarrow> is_ascii_alphanumeric (ascii_upper c) \<and> ascii_upper (ascii_upper c) = ascii_upper c"
  by (auto simp: is_ascii_alphanumeric_def ascii_upper_def Let_def of_char_of)

lemma normalize_fingerprint_idem [simp]: "normalize_fingerprint (normalize_fingerprint s) = normalize_fingerprint s"
  by (induction s) (simp_all add: normalize_fingerprint_def upper_alnum)

lemma join_graphic: "\<forall>w \<in> set ws. list_all is_graphic w \<Longrightarrow> list_all is_graphic (join_with ''-'' ws)"
proof (induction "''-''" ws rule: join_with.induct)
  case 1
  then show ?case by simp
next
  case (2 w)
  then show ?case by simp
next
  case (3 w v vs)
  moreover have "is_graphic (CHR ''-'')" by (simp add: is_graphic_def)
  ultimately show ?case by simp
qed

lemma code_graphic: "list_all is_graphic (code_from_value s)"
proof (cases "s = ''''")
  case True
  then show ?thesis by (simp add: code_from_value_def is_graphic_def)
next
  case False
  have "is_graphic (CHR ''0'')" by (simp add: is_graphic_def)
  then have "list_all is_graphic (pad4 n)" for n
    using show_nat_graphic [of n] by (auto simp: pad4_def Let_def list_all_iff)
  then show ?thesis using False by (auto simp: code_from_value_def intro!: join_graphic)
qed

lemma trim_code [simp]: "trim (verification_code_from_fingerprint fp) = verification_code_from_fingerprint fp"
  by (simp add: verification_code_from_fingerprint_def trim_graphic code_graphic)

lemma b64_graphic: "is_b64_char c \<Longrightarrow> is_graphic c \<and> c \<noteq> CHR ''&''"
  by (auto simp: is_b64_char_def is_ascii_alphanumeric_def is_graphic_def Let_def)

lemma trim_b64 [simp]: "list_all is_b64_char s \<Longrightarrow> trim s = s"
  by (rule trim_graphic) (auto simp: list_all_iff b64_graphic)

text \<open>The text of a link is read back as the payload it carries.\<close>

lemma decode_link:
  assumes "pairing_lib_ok L"
  shows "\<exists>s. decode_pairing_payload_source L (link_of_payload L p) = Ok s \<and> json_parse L s = Some (payload_value p)"
proof -
  let ?d = "b64url_encode L (ser_payload L p)"
  have b: "list_all is_b64_char ?d" and r: "b64url_decode L ?d = Some (ser_payload L p)"
    using assms by (simp_all add: pairing_lib_ok_def)
  obtain s where s: "from_utf8 (ser_payload L p) = Some s" "json_parse L s = Some (payload_value p)"
    using assms unfolding pairing_lib_ok_def by blast
  have "list_all is_graphic ''dashdrop://pair?data=''" by (simp add: is_graphic_def)
  then have t: "trim (link_of_payload L p) = link_of_payload L p"
    using b by (intro trim_graphic) (auto simp: link_of_payload_def list_all_iff b64_graphic)
  have pre: "strip_prefix DASHDROP_PAIRING_PREFIX (link_of_payload L p) = Some (''data='' @ ?d)"
    by (simp add: strip_prefix_def DASHDROP_PAIRING_PREFIX_def link_of_payload_def starts_with_def)
  have "CHR ''&'' \<notin> set (''data='' @ ?d)" using b b64_graphic by (auto simp: list_all_iff)
  then have "split_on (CHR ''&'') (''data='' @ ?d) = [''data='' @ ?d]" by (rule split_on_single)
  moreover have "strip_prefix ''data='' (''data='' @ ?d) = Some ?d" by (simp add: strip_prefix_def starts_with_def)
  moreover have "link_of_payload L p \<noteq> ''''" by (simp add: link_of_payload_def)
  ultimately show ?thesis
    using s r unfolding decode_pairing_payload_source_def t pre Let_def by (simp add: decode_b64url_text_def)
qed

lemma decode_v2_value:
  assumes "v2_version p = 2" and "v2_issued_at_unix_ms p \<le> U64_MAX"
  shows "\<exists>obj. payload_value p = JObj obj \<and> Option.bind (map_of obj ''version'') as_u64 = Some 2 \<and> decode_v2 obj = Some p"
proof -
  have two: "(2 :: nat) \<le> U64_MAX" by (simp add: U64_MAX_def)
  show ?thesis
  proof (cases "v2_migration_proof p")
    case None
    then show ?thesis using assms two
      by (simp add: payload_value_def decode_v2_def get_uint_def get_str_def as_u64_def get_proof_def)
  next
    case (Some m)
    then show ?thesis using assms two
      by (simp add: payload_value_def decode_v2_def get_uint_def get_str_def as_u64_def get_proof_def proof_value_def decode_proof_def)
  qed
qed

lemma signature_accepted:
  assumes "pairing_lib_ok L"
  shows "check_signature L e1 e2 e3 e4 e5 (b64_encode L (verifying_key L key)) (b64_encode L (sign_with L key msg)) msg = Ok ()"
  using assms by (simp add: pairing_lib_ok_def check_signature_def)

lemma signature_sound:
  "check_signature L e1 e2 e3 e4 e5 key sig msg = Ok u \<longleftrightarrow> verifies L key sig msg"
  by (auto simp: check_signature_def verifies_def split: option.splits)

lemma freshness_iff:
  "validate_payload_freshness issued now = Ok e \<longleftrightarrow> fresh_at issued now \<and> e = pairing_payload_expires_at_unix_ms issued"
  by (auto simp: validate_payload_freshness_def fresh_at_def sat_sub_eq Let_def)

lemma window_sample: "fresh_at 1000000 1000500" "(1000000 :: nat) \<le> U64_MAX"
  by (simp_all add: fresh_at_def PAIRING_LINK_FUTURE_SKEW_MS_def pairing_payload_expires_at_unix_ms_def sat_add_def
      PAIRING_LINK_TTL_MS_def U64_MAX_def)

lemma check_names_iff:
  "check_names fp nm code = Ok (f, n, c) \<longleftrightarrow>
     f = normalize_fingerprint fp \<and> f \<noteq> '''' \<and> n = trim nm \<and> n \<noteq> '''' \<and> c = trim code \<and>
     c = verification_code_from_fingerprint f"
  by (auto simp: check_names_def Let_def normalize_device_name_def)

text \<open>A payload signed by a key is accepted, whatever migration proof it carries, when that proof checks.\<close>

lemma signed_link_accepted:
  assumes lib: "pairing_lib_ok L" and fp: "normalize_fingerprint fp = fp" "fp \<noteq> ''''" and nm: "trim nm = nm" "nm \<noteq> ''''"
    and iss: "issued \<le> U64_MAX" and fresh: "fresh_at issued now" and mig: "check_migration L fp issued pr = Ok ()"
  shows "validate_pairing_input_value L (link_of_payload L (sign_payload L key fp nm issued pr)) now =
           Ok \<lparr>vp_version = 2, vp_fingerprint = fp, vp_device_name = nm,
               vp_verification_code = verification_code_from_fingerprint fp, vp_issued_at_unix_ms = issued,
               vp_expires_at_unix_ms = pairing_payload_expires_at_unix_ms issued, vp_trust_model = ''signed_link'',
               vp_signature_verified = True, vp_migration_proof = pr\<rparr>"
proof -
  let ?p = "sign_payload L key fp nm issued pr"
  let ?code = "verification_code_from_fingerprint fp"
  obtain s where s: "decode_pairing_payload_source L (link_of_payload L ?p) = Ok s" "json_parse L s = Some (payload_value ?p)"
    using decode_link [OF lib] by blast
  have flds: "v2_version ?p = 2" "v2_issued_at_unix_ms ?p = issued" "v2_fingerprint ?p = fp" "v2_device_name ?p = nm"
    "v2_verification_code ?p = ?code" "v2_migration_proof ?p = pr"
    "v2_signer_public_key ?p = b64_encode L (verifying_key L key)"
    by (simp_all add: sign_payload_def Let_def)
  obtain obj where obj: "payload_value ?p = JObj obj" "Option.bind (map_of obj ''version'') as_u64 = Some 2" "decode_v2 obj = Some ?p"
    using decode_v2_value [of ?p] flds iss by auto
  have names: "check_names (v2_fingerprint ?p) (v2_device_name ?p) (v2_verification_code ?p) = Ok (fp, nm, ?code)"
    using fp nm by (simp add: check_names_iff flds)
  have "list_all is_b64_char (b64_encode L (verifying_key L key))" using lib by (simp add: pairing_lib_ok_def)
  then have "v2_signature ?p = b64_encode L (sign_with L key (ser_body L (signed_body ?p fp nm ?code)))"
    by (simp add: signed_body_def flds) (simp add: sign_payload_def Let_def)
  then have sig: "check_signature L SignerKeyInvalid SignerKeyLength SignatureEncoding SignatureLength SignatureInvalid
      (v2_signer_public_key ?p) (v2_signature ?p) (ser_body L (signed_body ?p fp nm ?code)) = Ok ()"
    by (simp add: flds signature_accepted [OF lib])
  have "validate_payload_freshness issued now = Ok (pairing_payload_expires_at_unix_ms issued)"
    using fresh by (simp add: freshness_iff)
  then have "validate_v2 L ?p now = Ok \<lparr>vp_version = 2, vp_fingerprint = fp, vp_device_name = nm,
               vp_verification_code = ?code, vp_issued_at_unix_ms = issued,
               vp_expires_at_unix_ms = pairing_payload_expires_at_unix_ms issued, vp_trust_model = ''signed_link'',
               vp_signature_verified = True, vp_migration_proof = pr\<rparr>"
    unfolding validate_v2_def names sum.case prod.case sig by (simp add: mig flds)
  then show ?thesis using s obj by (simp add: validate_pairing_input_value_def)
qed

text \<open>
  C25: A link a device builds is accepted by every device that reads it within its window: ten minutes
  after it was issued, or up to two minutes before by a clock that is behind.  It names the builder's
  normalised fingerprint with its verification code and its trimmed name, and counts as signed.
\<close>
theorem built_link_accepted:
  assumes "pairing_lib_ok L" and "signing_key_from_der L (id_key_der idn) = Some key"
    and "normalize_fingerprint (id_fingerprint idn) \<noteq> ''''" and "trim nm \<noteq> ''''"
    and "issued \<le> U64_MAX" and "fresh_at issued now"
  shows "\<exists>link. build_signed_pairing_link L idn nm issued = Ok link \<and>
           validate_pairing_input_value L link now =
             Ok \<lparr>vp_version = 2, vp_fingerprint = normalize_fingerprint (id_fingerprint idn), vp_device_name = trim nm,
                 vp_verification_code = verification_code_from_fingerprint (id_fingerprint idn),
                 vp_issued_at_unix_ms = issued, vp_expires_at_unix_ms = pairing_payload_expires_at_unix_ms issued,
                 vp_trust_model = ''signed_link'', vp_signature_verified = True, vp_migration_proof = None\<rparr>"
proof -
  let ?fp = "normalize_fingerprint (id_fingerprint idn)"
  have code: "verification_code_from_fingerprint ?fp = verification_code_from_fingerprint (id_fingerprint idn)"
    by (simp add: verification_code_from_fingerprint_def)
  have "check_migration L ?fp issued None = Ok ()" by (simp add: check_migration_def)
  then show ?thesis using signed_link_accepted [of L ?fp "trim nm" issued now None key] assms
    by (simp add: build_signed_pairing_link_def normalize_device_name_def code)
qed

theorem built_link_accepted_witness:
  "\<exists>link. build_signed_pairing_link toy_lib sample_identity '' Mac '' 1000000 = Ok link \<and>
     (\<exists>v. validate_pairing_input_value toy_lib link 1000500 = Ok v \<and> vp_fingerprint v = ''ABC'' \<and> vp_device_name v = ''Mac'' \<and>
          vp_signature_verified v)"
proof -
  have "normalize_fingerprint (id_fingerprint sample_identity) = ''ABC''" by code_simp
  moreover have "trim '' Mac '' = ''Mac''" by code_simp
  moreover have "signing_key_from_der toy_lib (id_key_der sample_identity) = Some [1]"
    by (simp add: toy_lib_def sample_identity_def)
  ultimately show ?thesis
    using built_link_accepted [OF toy_lib_ok, of sample_identity "[1]" "'' Mac ''" 1000000 1000500] window_sample by auto
qed

text \<open>
  C24: What an accepted input has been checked for: it is fresh, its fingerprint is normalised and not empty
  and its verification code is the one of that fingerprint, its name is trimmed and not empty.  Version 2
  counts as signed: the fields are those of the payload the input carries, the signature of that payload
  verifies, under the key of that payload, over the body with exactly the accepted fields, and a migration
  proof verifies under the previous key it names itself over the fingerprint and the time of the payload.
  Version 1 never counts as signed and carries no migration proof.
\<close>
theorem accepted_input_checked:
  assumes "validate_pairing_input_value L input now = Ok v"
  shows "fresh_at (vp_issued_at_unix_ms v) now \<and>
         vp_expires_at_unix_ms v = pairing_payload_expires_at_unix_ms (vp_issued_at_unix_ms v) \<and>
         vp_fingerprint v \<noteq> [] \<and> normalize_fingerprint (vp_fingerprint v) = vp_fingerprint v \<and>
         vp_verification_code v = verification_code_from_fingerprint (vp_fingerprint v) \<and>
         vp_device_name v \<noteq> [] \<and> trim (vp_device_name v) = vp_device_name v \<and>
         (if vp_signature_verified v
          then vp_version v = 2 \<and>
            (case carried_payload L input of
               None \<Rightarrow> False
             | Some p \<Rightarrow>
                 vp_fingerprint v = normalize_fingerprint (v2_fingerprint p) \<and> vp_device_name v = trim (v2_device_name p) \<and>
                 vp_issued_at_unix_ms v = v2_issued_at_unix_ms p \<and> vp_migration_proof v = v2_migration_proof p \<and>
                 verifies L (v2_signer_public_key p) (v2_signature p)
                   (ser_body L \<lparr>b2_version = 2, b2_fingerprint = vp_fingerprint v,
                      b2_device_name = vp_device_name v, b2_verification_code = vp_verification_code v,
                      b2_issued_at_unix_ms = vp_issued_at_unix_ms v, b2_signer_public_key = trim (v2_signer_public_key p),
                      b2_migration_proof = vp_migration_proof v\<rparr>) \<and>
                 (case vp_migration_proof v of
                    None \<Rightarrow> True
                  | Some m \<Rightarrow> verifies L (previous_public_key m) (proof_signature m)
                                (proof_data (vp_fingerprint v) (vp_issued_at_unix_ms v))))
          else vp_version v = 1 \<and> vp_migration_proof v = None)"
proof -
  consider p where "validate_v1 p now = Ok v" | p where "validate_v2 L p now = Ok v" "carried_payload L input = Some p"
    using assms by (auto simp: validate_pairing_input_value_def carried_payload_def split: sum.splits option.splits json.splits if_splits)
  then show ?thesis
  proof cases
    case 1
    then show ?thesis
      by (auto simp: validate_v1_def check_names_iff freshness_iff split: sum.splits)
  next
    case (2 p)
    then obtain f n c u w e where
      nc: "check_names (v2_fingerprint p) (v2_device_name p) (v2_verification_code p) = Ok (f, n, c)" and
      sg: "check_signature L SignerKeyInvalid SignerKeyLength SignatureEncoding SignatureLength SignatureInvalid
             (v2_signer_public_key p) (v2_signature p) (ser_body L (signed_body p f n c)) = Ok u" and
      mg: "check_migration L f (v2_issued_at_unix_ms p) (v2_migration_proof p) = Ok w" and
      fr: "validate_payload_freshness (v2_issued_at_unix_ms p) now = Ok e" and
      v: "v = \<lparr>vp_version = 2, vp_fingerprint = f, vp_device_name = n, vp_verification_code = c,
               vp_issued_at_unix_ms = v2_issued_at_unix_ms p, vp_expires_at_unix_ms = e, vp_trust_model = ''signed_link'',
               vp_signature_verified = True, vp_migration_proof = v2_migration_proof p\<rparr>"
      by (auto simp: validate_v2_def split: sum.splits prod.splits)
    have "case v2_migration_proof p of None \<Rightarrow> True
        | Some m \<Rightarrow> verifies L (previous_public_key m) (proof_signature m) (proof_data f (v2_issued_at_unix_ms p))"
      using mg by (auto simp: check_migration_def signature_sound split: option.splits)
    moreover have "verifies L (v2_signer_public_key p) (v2_signature p) (ser_body L (signed_body p f n c))"
      using sg unfolding signature_sound .
    ultimately show ?thesis using nc fr 2(2) by (auto simp: v check_names_iff freshness_iff signed_body_def split: option.split)
  qed
qed

theorem accepted_input_checked_witness:
  "\<exists>v. validate_pairing_input_value toy_lib (link_of_payload toy_lib (sign_payload toy_lib [1] ''ABC'' ''Mac'' 1000000 None)) 1000500
        = Ok v \<and> vp_version v = 2 \<and>
     vp_verification_code v = verification_code_from_fingerprint (vp_fingerprint v) \<and> fresh_at (vp_issued_at_unix_ms v) 1000500"
proof -
  have c: "normalize_fingerprint ''ABC'' = ''ABC''" "trim ''Mac'' = ''Mac''" by code_simp+
  have "check_migration toy_lib ''ABC'' 1000000 None = Ok ()" by (simp add: check_migration_def)
  then obtain v where "validate_pairing_input_value toy_lib
      (link_of_payload toy_lib (sign_payload toy_lib [1] ''ABC'' ''Mac'' 1000000 None)) 1000500 = Ok v" "vp_signature_verified v"
    using signed_link_accepted [OF toy_lib_ok c(1) _ c(2), of 1000000 1000500 None "[1]"] window_sample by auto
  then show ?thesis using accepted_input_checked [of toy_lib _ 1000500 v] by auto
qed

lemma upsert_mem: "r \<in> set (upsert_row_tp r tbl)"
  by (induction tbl) simp_all

lemma upsert_other: "x \<in> set (upsert_row_tp r tbl) \<Longrightarrow> x = r \<or> x \<in> set tbl"
  by (induction tbl) (auto split: if_splits)

lemma migrated_peers:
  assumes "find (\<lambda>r. tr_fingerprint r = old_fp) tbl = Some r" and "peer_fits (peer_of_row r)" and "new_fp \<noteq> old_fp"
    and "migrate_trusted_peer_identity now old_fp new_fp nm tbl log = (tbl', log', res)"
  shows "res = Ok () \<and> old_fp \<notin> fingerprint ` set (load_trusted_peers tbl') \<and>
    (\<exists>p \<in> set (load_trusted_peers tbl'). fingerprint p = new_fp \<and> tp_name p = nm \<and>
       trust_level p = trust_level (peer_of_row r) \<and> paired_at p = paired_at (peer_of_row r) \<and>
       mutual_confirmed_at p = mutual_confirmed_at (peer_of_row r) \<and> frozen_at p = None)"
proof -
  let ?p = "(peer_of_row r)\<lparr>last_verification_method := parse_method_migrate (tr_method r),
                frozen_at := None, freeze_reason := None, fingerprint := new_fp, tp_name := nm\<rparr>"
  have fits: "peer_fits ?p" using assms(2) by (simp add: peer_fits_def)
  then have tbl': "tbl' = upsert_row_tp (row_of_peer ?p) (filter (\<lambda>x. tr_fingerprint x \<noteq> old_fp) tbl)" and res: "res = Ok ()"
    using assms(1,4) by (simp_all add: migrate_trusted_peer_identity_def save_trusted_peer_def)
  have "old_fp \<notin> tr_fingerprint ` set tbl'"
    using assms(3) by (auto simp: tbl' dest!: upsert_other)
  moreover have "fingerprint (peer_of_row x) = tr_fingerprint x" for x by (simp add: peer_of_row_def)
  ultimately have gone: "old_fp \<notin> fingerprint ` set (load_trusted_peers tbl')"
    by (simp add: load_trusted_peers_def image_image)
  have "?p \<in> set (load_trusted_peers tbl')"
    using imageI [OF upsert_mem, of peer_of_row "row_of_peer ?p"] by (simp add: load_trusted_peers_def tbl')
  then show ?thesis using gone res by (intro conjI bexI [of _ ?p]) simp_all
qed

text \<open>
  C38: The migration proof is not bound to the identity it gives up.  Whoever holds any signing key can sign
  both the payload and the migration proof with it and name a trusted fingerprint as the previous one:
  the link is accepted as signed, and applying it removes the named peer from the trust store and
  stores the new fingerprint with that peer's trust level, pairing time and mutual confirmation.
\<close>
theorem forged_migration_takes_trust:
  assumes lib: "pairing_lib_ok L" and fp: "normalize_fingerprint fp = fp" "fp \<noteq> ''''" and nm: "trim nm = nm" "nm \<noteq> ''''"
    and iss: "issued \<le> U64_MAX" and fresh: "fresh_at issued now"
    and row: "find (\<lambda>r. tr_fingerprint r = victim) (trusted_db st) = Some r" and fits: "peer_fits (peer_of_row r)"
    and ne: "fp \<noteq> victim" and lock: "se_lock_ok env"
  shows "\<exists>mp v. previous_fingerprint mp = victim \<and>
           previous_public_key mp = b64_encode L (verifying_key L key) \<and>
           validate_pairing_input_value L (link_of_payload L (sign_payload L key fp nm issued (Some mp))) now = Ok v \<and>
           vp_signature_verified v \<and>
           (case apply_identity_migration env v st of (st', res) \<Rightarrow>
              res = Ok () \<and> trusted_peers st' = trusted_peers st \<and>
              victim \<notin> fingerprint ` set (load_trusted_peers (trusted_db st')) \<and>
              (\<exists>p \<in> set (load_trusted_peers (trusted_db st')). fingerprint p = fp \<and>
                 trust_level p = trust_level (peer_of_row r) \<and> paired_at p = paired_at (peer_of_row r) \<and>
                 mutual_confirmed_at p = mutual_confirmed_at (peer_of_row r)))"
proof -
  define mp where mp_eq: "mp = \<lparr>previous_fingerprint = victim, previous_public_key = b64_encode L (verifying_key L key),
    proof_signature = b64_encode L (sign_with L key (proof_data fp issued))\<rparr>"
  have "check_migration L fp issued (Some mp) = Ok ()"
    by (simp add: check_migration_def mp_eq signature_accepted [OF lib])
  note acc = signed_link_accepted [OF lib fp nm iss fresh this, of key]
  obtain rows log res where m: "migrate_trusted_peer_identity (unix_now (se_clock env)) victim fp nm (trusted_db st) (security_db st)
      = (rows, log, res)" by (metis prod_cases3)
  note moved = migrated_peers [OF row fits ne m]
  let ?v = "\<lparr>vp_version = 2, vp_fingerprint = fp, vp_device_name = nm,
      vp_verification_code = verification_code_from_fingerprint fp, vp_issued_at_unix_ms = issued,
      vp_expires_at_unix_ms = pairing_payload_expires_at_unix_ms issued, vp_trust_model = ''signed_link'',
      vp_signature_verified = True, vp_migration_proof = Some mp\<rparr>"
  have "apply_identity_migration env ?v st = (st\<lparr>trusted_db := rows, security_db := log\<rparr>, Ok ())"
    using moved m lock by (simp add: apply_identity_migration_def mp_eq)
  then show ?thesis using moved acc by (intro exI [of _ mp] exI [of _ ?v]) (auto simp: mp_eq)
qed

theorem forged_migration_takes_trust_witness:
  "\<exists>mp v. previous_fingerprint mp = ''f'' \<and>
     validate_pairing_input_value toy_lib (link_of_payload toy_lib (sign_payload toy_lib [1] ''ABC'' ''Mac'' 1000000 (Some mp))) 1000500 = Ok v \<and>
     (case apply_identity_migration sample_service_env v victim_app of (st', res) \<Rightarrow>
        res = Ok () \<and> (\<exists>p \<in> set (load_trusted_peers (trusted_db st')). fingerprint p = ''ABC'' \<and> trust_level p = MutualConfirmed))"
proof -
  have c: "normalize_fingerprint ''ABC'' = ''ABC''" "trim ''Mac'' = ''Mac''" by code_simp+
  have row: "find (\<lambda>r. tr_fingerprint r = ''f'') (trusted_db victim_app) = Some (row_of_peer sample_peer)"
    by (simp add: victim_app_def sample_peer_def)
  have fits: "peer_fits (peer_of_row (row_of_peer sample_peer))" by (simp add: peer_fits_def sample_peer_def I64_MAX_def)
  have lvl: "trust_level sample_peer = MutualConfirmed" "se_lock_ok sample_service_env"
    by (simp_all add: sample_peer_def sample_service_env_def)
  obtain mp v where "previous_fingerprint mp = ''f''"
    "validate_pairing_input_value toy_lib (link_of_payload toy_lib (sign_payload toy_lib [1] ''ABC'' ''Mac'' 1000000 (Some mp))) 1000500 = Ok v"
    "case apply_identity_migration sample_service_env v victim_app of (st', res) \<Rightarrow>
       res = Ok () \<and> (\<exists>p \<in> set (load_trusted_peers (trusted_db st')). fingerprint p = ''ABC'' \<and> trust_level p = MutualConfirmed)"
    using forged_migration_takes_trust [OF toy_lib_ok c(1) _ c(2) _ _ _ row fits _ lvl(2), of 1000000 1000500 "[1]"]
      window_sample lvl(1) by (auto simp: case_prod_beta)
  then show ?thesis by (intro exI [of _ mp] exI [of _ v] conjI)
qed

text \<open>
  A migration changes the database and not the trust table in memory: the next trust command that
  succeeds stores the table it computes from memory, as if the migration had not taken place.
\<close>
theorem migration_undone_by_next_command:
  assumes ok: "trust_table_ok (trusted_peers st)" and "unix_now (se_clock env') \<le> I64_MAX"
    and m: "apply_identity_migration env v st = (st1, res)" and run: "run_command env' cmd st1 = (st2, Ok ())"
  shows "load_trusted_peers (trusted_db st2) = sort_key paired_at (map snd (table_after (unix_now (se_clock env')) cmd st))"
proof -
  have same: "trusted_peers st1 = trusted_peers st" "discovery st1 = discovery st"
    using m by (auto simp: apply_identity_migration_def Let_def case_prod_beta split: option.splits if_splits)
  then have tbl: "trusted_peers st2 = table_after (unix_now (se_clock env')) cmd st"
    using trusted_after_command [of env' cmd st1] run by (cases cmd) (simp_all add: table_after_def)
  then have ok2: "trust_table_ok (trusted_peers st2)" using table_after_ok assms(1,2) by simp
  obtain old where "replace_trusted_peers (trusted_peers st2) old = (trusted_db st2, Ok ())"
    using run_command_persists [OF run] by blast
  then show ?thesis using load_stored_table [OF ok2] tbl by simp
qed

theorem migration_undone_by_next_command_witness:
  "\<exists>st1 st2. apply_identity_migration sample_service_env
       \<lparr>vp_version = 2, vp_fingerprint = ''ABC'', vp_device_name = ''Mac'', vp_verification_code = ''c'', vp_issued_at_unix_ms = 1,
        vp_expires_at_unix_ms = 2, vp_trust_model = ''signed_link'', vp_signature_verified = True,
        vp_migration_proof = Some \<lparr>previous_fingerprint = ''f'', previous_public_key = ''k'', proof_signature = ''s''\<rparr>\<rparr>
       victim_app = (st1, Ok ()) \<and>
     run_command sample_service_env (SetAlias ''f'' None) st1 = (st2, Ok ()) \<and> load_trusted_peers (trusted_db st2) = [sample_peer]"
proof -
  let ?v = "\<lparr>vp_version = 2, vp_fingerprint = ''ABC'', vp_device_name = ''Mac'', vp_verification_code = ''c'', vp_issued_at_unix_ms = 1,
        vp_expires_at_unix_ms = 2, vp_trust_model = ''signed_link'', vp_signature_verified = True,
        vp_migration_proof = Some \<lparr>previous_fingerprint = ''f'', previous_public_key = ''k'', proof_signature = ''s''\<rparr>\<rparr>"
  let ?m = "apply_identity_migration sample_service_env ?v victim_app"
  let ?r = "run_command sample_service_env (SetAlias ''f'' None) (fst ?m)"
  note defs = sample_service_env_def sample_app_def sample_clock_def victim_app_def apply_identity_migration_def
    migrate_trusted_peer_identity_def save_trusted_peer_def peer_fits_def sample_peer_def I64_MAX_def Let_def
  have m: "?m = (fst ?m, Ok ())" by (simp add: defs)
  have r: "?r = (fst ?r, Ok ())"
    by (simp add: defs set_trusted_alias_def normalized_alias_def insert_peer_def persist_then_def persist_runtime_state_def replace_trusted_peers_def
        host_event_def empty_discovery_def)
  have "trust_table_ok (trusted_peers victim_app)" "unix_now (se_clock sample_service_env) \<le> I64_MAX"
    "table_after (unix_now (se_clock sample_service_env)) (SetAlias ''f'' None) victim_app = [(''f'', sample_peer)]"
    by (simp_all add: defs trust_table_ok_def table_after_def storable_def normalized_alias_def)
  then show ?thesis using migration_undone_by_next_command [OF _ _ m r] m r
    by (intro exI [of _ "fst ?m"] exI [of _ "fst ?r"]) simp
qed

end
