(* ===== verification/BleAssist.thy ===== *)
theory BleAssist
  imports PairingLinks
begin

text \<open>
  The Bluetooth assist of \<^verbatim>\<open>ble.rs\<close>: the capsule a device advertises and how a received one is validated, the
  table of observations and the runtime status that \<^verbatim>\<open>state.rs\<close> keeps of them, the choice of the provider and
  the polling loop of the two platform bridges.  SHA-256 is an argument beside \<open>pairing_lib\<close>; what a
  pass of the polling loop meets (the clock at each call, the answers of the file system and of the
  worker threads) is in \<open>bridge_input\<close>.
\<close>

section \<open>Data\<close>

record ble_capsule =
  cap_version :: nat
  cap_issued_at_unix_ms :: u64
  cap_expires_at_unix_ms :: u64
  cap_rolling_identifier :: string
  cap_integrity_tag :: string
  cap_transport_hint :: string
  cap_qr_fallback_available :: bool
  cap_short_code_fallback_available :: bool
  cap_rotation_window_ms :: u64

record ble_capsule_body =
  body_version :: nat
  body_issued_at_unix_ms :: u64
  body_expires_at_unix_ms :: u64
  body_rolling_identifier :: string
  body_transport_hint :: string
  body_qr_fallback_available :: bool
  body_short_code_fallback_available :: bool
  body_rotation_window_ms :: u64

record ble_observation =
  ob_rolling_identifier :: string
  ob_integrity_tag :: string
  ob_first_seen_at_unix_ms :: u64
  ob_last_seen_at_unix_ms :: u64
  ob_expires_at_unix_ms :: u64
  ob_transport_hint :: string
  ob_qr_fallback_available :: bool
  ob_short_code_fallback_available :: bool

record ble_runtime_status =
  br_provider_name :: string
  br_scanner_state :: string
  br_advertiser_state :: string
  br_permission_state :: "string option"
  br_bridge_mode :: "string option"
  br_bridge_file_path :: "string option"
  br_advertisement_file_path :: "string option"
  br_last_started_at_unix_ms :: "u64 option"
  br_last_error :: "string option"
  br_last_capsule_ingested_at_unix_ms :: "u64 option"
  br_last_observation_prune_at_unix_ms :: "u64 option"
  br_last_bridge_snapshot_at_unix_ms :: "u64 option"
  br_last_advertisement_request_at_unix_ms :: "u64 option"
  br_advertised_rolling_identifier :: "string option"

text \<open>The part of the application state the assist uses, with the \<^verbatim>\<open>system_error\<close> events it emits: code and message.\<close>

record ble_state =
  ble_observations :: "(string \<times> ble_observation) list"
  ble_runtime :: ble_runtime_status
  ble_events :: "(string \<times> string) list"

datatype ble_error =
    BleFingerprintMissing | BleKeyUndecodable | BleVersionUnsupported | BleIdentifierMissing | BleTagMissing
  | BleExpired | BleExpiryInvalid

record ble_lib =
  bl_pairing :: pairing_lib
  sha256 :: "bytes \<Rightarrow> bytes"
  ser_capsule_body :: "ble_capsule_body \<Rightarrow> bytes"

definition BLE_ASSIST_CAPSULE_TTL_MS :: u64 where "BLE_ASSIST_CAPSULE_TTL_MS = 2 * 60 * 1000"
definition BLE_ASSIST_ROTATION_WINDOW_MS :: u64 where "BLE_ASSIST_ROTATION_WINDOW_MS = 30 * 1000"
definition BLE_PROBE_INTERVAL_SECS :: u64 where "BLE_PROBE_INTERVAL_SECS = 60"
definition BLE_ADVERTISEMENT_REFRESH_INTERVAL_SECS :: u64 where "BLE_ADVERTISEMENT_REFRESH_INTERVAL_SECS = 10"

section \<open>Capsules\<close>

text \<open>\<^verbatim>\<open>u64::to_be_bytes\<close>.\<close>

definition u64_be_bytes :: "u64 \<Rightarrow> bytes" where
  "u64_be_bytes n = map (\<lambda>i. word_of_nat (n div 256 ^ (7 - i) mod 256)) [0..<8]"

definition rolling_identifier :: "ble_lib \<Rightarrow> identity \<Rightarrow> string \<Rightarrow> u64 \<Rightarrow> string" where
  "rolling_identifier L idn fp issued =
     b64url_encode (bl_pairing L)
       (take 12 (sha256 L (str_bytes fp @ u64_be_bytes (issued div BLE_ASSIST_ROTATION_WINDOW_MS) @ id_cert_der idn)))"

definition capsule_body :: "string \<Rightarrow> u64 \<Rightarrow> ble_capsule_body" where
  "capsule_body rid issued =
     \<lparr>body_version = 1, body_issued_at_unix_ms = issued,
      body_expires_at_unix_ms = sat_add issued BLE_ASSIST_CAPSULE_TTL_MS, body_rolling_identifier = rid,
      body_transport_hint = ''qr_or_short_code_fallback'', body_qr_fallback_available = True,
      body_short_code_fallback_available = True, body_rotation_window_ms = BLE_ASSIST_ROTATION_WINDOW_MS\<rparr>"

definition build_ble_assist_capsule :: "ble_lib \<Rightarrow> identity \<Rightarrow> u64 \<Rightarrow> ble_error + ble_capsule" where
  "build_ble_assist_capsule L idn now =
     (let fp = normalize_fingerprint (id_fingerprint idn) in
      if fp = '''' then Err BleFingerprintMissing
      else
        (let body = capsule_body (rolling_identifier L idn fp now) now in
         case signing_key_from_der (bl_pairing L) (id_key_der idn) of
           None \<Rightarrow> Err BleKeyUndecodable
         | Some key \<Rightarrow>
             Ok \<lparr>cap_version = body_version body, cap_issued_at_unix_ms = body_issued_at_unix_ms body,
                 cap_expires_at_unix_ms = body_expires_at_unix_ms body,
                 cap_rolling_identifier = body_rolling_identifier body,
                 cap_integrity_tag =
                   b64url_encode (bl_pairing L) (take 12 (sign_with (bl_pairing L) key (ser_capsule_body L body))),
                 cap_transport_hint = body_transport_hint body,
                 cap_qr_fallback_available = body_qr_fallback_available body,
                 cap_short_code_fallback_available = body_short_code_fallback_available body,
                 cap_rotation_window_ms = body_rotation_window_ms body\<rparr>))"

definition validate_ble_assist_capsule :: "u64 \<Rightarrow> ble_capsule \<Rightarrow> ble_error + unit" where
  "validate_ble_assist_capsule now c =
     (if cap_version c \<noteq> 1 then Err BleVersionUnsupported
      else if trim (cap_rolling_identifier c) = '''' then Err BleIdentifierMissing
      else if trim (cap_integrity_tag c) = '''' then Err BleTagMissing
      else if cap_expires_at_unix_ms c \<le> now then Err BleExpired
      else if cap_expires_at_unix_ms c \<le> cap_issued_at_unix_ms c then Err BleExpiryInvalid
      else Ok ())"

section \<open>Observations and runtime status\<close>

definition retain_unexpired :: "u64 \<Rightarrow> (string \<times> ble_observation) list \<Rightarrow> (string \<times> ble_observation) list" where
  "retain_unexpired now obs = filter (\<lambda>(k, ob). ob_expires_at_unix_ms ob > now) obs"

definition new_observation :: "u64 \<Rightarrow> ble_capsule \<Rightarrow> ble_observation" where
  "new_observation now c =
     \<lparr>ob_rolling_identifier = cap_rolling_identifier c, ob_integrity_tag = cap_integrity_tag c,
      ob_first_seen_at_unix_ms = now, ob_last_seen_at_unix_ms = now, ob_expires_at_unix_ms = cap_expires_at_unix_ms c,
      ob_transport_hint = cap_transport_hint c, ob_qr_fallback_available = cap_qr_fallback_available c,
      ob_short_code_fallback_available = cap_short_code_fallback_available c\<rparr>"

definition record_ble_assist_observation :: "u64 \<Rightarrow> ble_capsule \<Rightarrow> ble_state \<Rightarrow> ble_state" where
  "record_ble_assist_observation now c st =
     (let obs = retain_unexpired now (ble_observations st);
          entry = (case map_of obs (cap_rolling_identifier c) of Some ob \<Rightarrow> ob | None \<Rightarrow> new_observation now c);
          entry1 = entry\<lparr>ob_integrity_tag := cap_integrity_tag c, ob_last_seen_at_unix_ms := now,
                         ob_expires_at_unix_ms := cap_expires_at_unix_ms c, ob_transport_hint := cap_transport_hint c,
                         ob_qr_fallback_available := cap_qr_fallback_available c,
                         ob_short_code_fallback_available := cap_short_code_fallback_available c\<rparr>
      in st\<lparr>ble_observations := AList.update (cap_rolling_identifier c) entry1 obs,
            ble_runtime := (ble_runtime st)\<lparr>br_last_capsule_ingested_at_unix_ms := Some now,
                                            br_scanner_state := ''observing_capsules''\<rparr>\<rparr>)"

definition ble_assist_observations_snapshot :: "u64 \<Rightarrow> ble_state \<Rightarrow> ble_state \<times> ble_observation list" where
  "ble_assist_observations_snapshot now st =
     (let obs = retain_unexpired now (ble_observations st)
      in (st\<lparr>ble_observations := obs,
             ble_runtime := (ble_runtime st)\<lparr>br_last_observation_prune_at_unix_ms := Some now\<rparr>\<rparr>, map snd obs))"

definition mark_ble_runtime_started :: "u64 \<Rightarrow> string \<Rightarrow> string \<Rightarrow> string \<Rightarrow> ble_state \<Rightarrow> ble_state" where
  "mark_ble_runtime_started now provider scanner advertiser st =
     st\<lparr>ble_runtime := (ble_runtime st)\<lparr>br_provider_name := provider, br_scanner_state := scanner,
        br_advertiser_state := advertiser, br_last_started_at_unix_ms := Some now, br_last_error := None\<rparr>\<rparr>"

definition mark_ble_runtime_error :: "string \<Rightarrow> string \<Rightarrow> ble_state \<Rightarrow> ble_state" where
  "mark_ble_runtime_error provider message st =
     st\<lparr>ble_runtime := (ble_runtime st)\<lparr>br_provider_name := provider, br_last_error := Some message,
        br_scanner_state := ''error''\<rparr>\<rparr>"

definition mark_ble_runtime_idle :: "string \<Rightarrow> string \<Rightarrow> string \<Rightarrow> ble_state \<Rightarrow> ble_state" where
  "mark_ble_runtime_idle provider scanner advertiser st =
     st\<lparr>ble_runtime := (ble_runtime st)\<lparr>br_provider_name := provider, br_scanner_state := scanner,
        br_advertiser_state := advertiser, br_last_error := None\<rparr>\<rparr>"

definition update_ble_runtime_bridge ::
    "string option \<Rightarrow> string option \<Rightarrow> string option \<Rightarrow> u64 option \<Rightarrow> string option \<Rightarrow> ble_state \<Rightarrow> ble_state" where
  "update_ble_runtime_bridge permission mode bfile snapshot_at rid st =
     st\<lparr>ble_runtime := (ble_runtime st)\<lparr>br_permission_state := permission, br_bridge_mode := mode,
        br_bridge_file_path := bfile, br_last_bridge_snapshot_at_unix_ms := snapshot_at,
        br_advertised_rolling_identifier := rid\<rparr>\<rparr>"

definition update_ble_runtime_advertisement :: "string option \<Rightarrow> u64 option \<Rightarrow> string option \<Rightarrow> ble_state \<Rightarrow> ble_state" where
  "update_ble_runtime_advertisement afile request_at rid st =
     st\<lparr>ble_runtime := (ble_runtime st)\<lparr>br_advertisement_file_path := afile,
        br_last_advertisement_request_at_unix_ms := request_at, br_advertised_rolling_identifier := rid\<rparr>\<rparr>"

section \<open>Providers\<close>

datatype ble_provider = NoopProvider | DisabledProvider | MacOsProvider | WindowsProvider

datatype target_os = TargetMacOs | TargetWindows | TargetOther

fun provider_name :: "ble_provider \<Rightarrow> string" where
  "provider_name NoopProvider = ''noop''"
| "provider_name DisabledProvider = ''disabled''"
| "provider_name MacOsProvider = ''macos_native''"
| "provider_name WindowsProvider = ''windows_native''"

text \<open>The value of \<^verbatim>\<open>DASHDROP_BLE_PROVIDER\<close>, empty when it is not set.\<close>

definition provider_from_env :: "target_os \<Rightarrow> string \<Rightarrow> ble_provider \<times> string option" where
  "provider_from_env os env_value =
     (let raw = to_ascii_lowercase (trim env_value) in
      if raw = '''' then ((case os of TargetMacOs \<Rightarrow> MacOsProvider | TargetWindows \<Rightarrow> WindowsProvider | TargetOther \<Rightarrow> NoopProvider), None)
      else if raw = ''noop'' then (NoopProvider, None)
      else if raw = ''disabled'' then (DisabledProvider, None)
      else if raw = ''macos_native'' then
        (if os = TargetMacOs then (MacOsProvider, None)
         else (NoopProvider, Some ''BLE provider 'macos_native' is only available on macOS; falling back to noop baseline.''))
      else if raw = ''windows_native'' then
        (if os = TargetWindows then (WindowsProvider, None)
         else (NoopProvider, Some ''BLE provider 'windows_native' is only available on Windows; falling back to noop baseline.''))
      else (NoopProvider, Some (''BLE provider '' @ [CHR 0x27] @ raw @ [CHR 0x27] @ '' is not implemented yet; falling back to noop baseline.'')))"

definition ble_system_error :: "string \<Rightarrow> string \<Rightarrow> string \<Rightarrow> ble_state \<Rightarrow> ble_state" where
  "ble_system_error provider ev_code message st =
     (let st1 = mark_ble_runtime_error provider message st in st1\<lparr>ble_events := ble_events st1 @ [(ev_code, message)]\<rparr>)"

text \<open>The effect of the fallback warning of \<^verbatim>\<open>start_runtime\<close>, and one pass of the loop of the noop provider.\<close>

definition warn_fallback :: "ble_provider \<times> string option \<Rightarrow> ble_state \<Rightarrow> ble_state" where
  "warn_fallback choice st =
     (case choice of (p, None) \<Rightarrow> st | (p, Some msg) \<Rightarrow> ble_system_error (provider_name p) ''BLE_PROVIDER_FALLBACK'' msg st)"

definition noop_pass :: "u64 \<Rightarrow> ble_state \<Rightarrow> ble_state" where
  "noop_pass now st =
     (let (st1, observed) = ble_assist_observations_snapshot now st
      in mark_ble_runtime_idle ''noop'' (if observed = [] then ''idle_noop'' else ''observing_capsules'') ''capsule_preview_only'' st1)"

section \<open>The platform bridges\<close>

record bridge_snapshot =
  bs_permission_state :: "string option"
  bs_scanner_state :: "string option"
  bs_advertiser_state :: "string option"
  bs_advertised_rolling_identifier :: "string option"
  bs_capsules :: "ble_capsule list"

record bluetooth_probe =
  hardware_present :: bool
  controller_powered :: bool

text \<open>What differs between the two bridges: names, and whether the hardware is probed.\<close>

record bridge_kind =
  bk_provider :: string
  bk_label :: string
  bk_code :: string
  bk_unavailable :: string
  bk_permission :: "string option"
  bk_probes :: bool

definition macos_bridge :: bridge_kind where
  "macos_bridge = \<lparr>bk_provider = ''macos_native'', bk_label = ''macOS'', bk_code = ''BLE_MACOS_'',
     bk_unavailable = ''probing_hardware_scaffold'', bk_permission = None, bk_probes = True\<rparr>"

definition windows_bridge :: bridge_kind where
  "windows_bridge = \<lparr>bk_provider = ''windows_native'', bk_label = ''Windows'', bk_code = ''BLE_WINDOWS_'',
     bk_unavailable = ''windows_helper_unavailable'', bk_permission = Some ''not_required'', bk_probes = False\<rparr>"

text \<open>The variables of the loop.\<close>

record bridge_loop =
  lp_last_probe_started_at :: u64
  lp_last_snapshot_hash :: "string option"
  lp_snapshot_seen :: bool
  lp_last_refresh_started_at :: u64

text \<open>
  What a pass meets.  A worker thread that fails gives \<open>Err\<close> with its message, otherwise its own result.
  Capsule number \<open>i\<close> of a snapshot is validated and recorded at the times \<open>in_times i\<close>.
\<close>

record bridge_input =
  in_now :: u64
  in_advertise :: "string + (string + ble_capsule)"
  in_probe :: "string + (string + bluetooth_probe)"
  in_read :: "string + (string + (bridge_snapshot \<times> string) option)"
  in_times :: "nat \<Rightarrow> u64 \<times> u64"

definition ble_error_text :: "ble_error \<Rightarrow> string" where
  "ble_error_text e =
     (case e of
        BleFingerprintMissing \<Rightarrow> ''Local BLE assist fingerprint is missing.''
      | BleKeyUndecodable \<Rightarrow> ''decode local identity key for BLE assist capsule''
      | BleVersionUnsupported \<Rightarrow> ''Unsupported BLE assist capsule version.''
      | BleIdentifierMissing \<Rightarrow> ''BLE assist capsule rolling identifier is missing.''
      | BleTagMissing \<Rightarrow> ''BLE assist capsule integrity tag is missing.''
      | BleExpired \<Rightarrow> ''BLE assist capsule expired.''
      | BleExpiryInvalid \<Rightarrow> ''BLE assist capsule expiry is invalid.'')"

definition bridge_start :: "bridge_kind \<Rightarrow> u64 \<Rightarrow> string + string option \<Rightarrow> bool \<Rightarrow> string \<Rightarrow> string \<Rightarrow> ble_state \<Rightarrow> ble_state" where
  "bridge_start bk now spawned env_bridge bfile afile st =
     (let (st1, mode) = (case spawned of
            Inr m \<Rightarrow> (st, m)
          | Inl e \<Rightarrow> (ble_system_error (bk_provider bk) (bk_code bk @ ''BRIDGE_START_FAILED'')
                        (bk_label bk @ '' BLE bridge helper failed to start: '' @ e) st, None));
          st2 = mark_ble_runtime_started now (bk_provider bk)
                  (if mode \<noteq> None then ''bridge_bootstrapping'' else bk_unavailable bk) ''scaffold_unimplemented'' st1;
          st3 = update_ble_runtime_bridge (bk_permission bk)
                  (case mode of Some m \<Rightarrow> Some m | None \<Rightarrow> (if env_bridge then Some ''json_file_bridge_external'' else None))
                  (Some bfile) None None st2
      in update_ble_runtime_advertisement (Some afile) None None st3)"

definition advertise_pass :: "bridge_kind \<Rightarrow> string \<Rightarrow> bridge_input \<Rightarrow> bridge_loop \<times> ble_state \<Rightarrow> bridge_loop \<times> ble_state" where
  "advertise_pass bk afile i s =
     (case s of (lp, st) \<Rightarrow>
      if sat_sub (in_now i) (lp_last_refresh_started_at lp) < BLE_ADVERTISEMENT_REFRESH_INTERVAL_SECS * 1000 then (lp, st)
      else
        (lp\<lparr>lp_last_refresh_started_at := in_now i\<rparr>,
         case in_advertise i of
           Inr (Inr c) \<Rightarrow> update_ble_runtime_advertisement (Some afile) (Some (in_now i)) (Some (cap_rolling_identifier c)) st
         | Inr (Inl e) \<Rightarrow> ble_system_error (bk_provider bk) (bk_code bk @ ''ADVERTISEMENT_WRITE_FAILED'')
                            (bk_label bk @ '' BLE advertisement request write failed: '' @ e) st
         | Inl e \<Rightarrow> ble_system_error (bk_provider bk) (bk_code bk @ ''ADVERTISEMENT_WRITE_JOIN_FAILED'')
                      (bk_label bk @ '' BLE advertisement worker failed: '' @ e) st))"

definition probe_pass :: "bridge_kind \<Rightarrow> bridge_input \<Rightarrow> bridge_loop \<times> ble_state \<Rightarrow> bridge_loop \<times> ble_state" where
  "probe_pass bk i s =
     (case s of (lp, st) \<Rightarrow>
      if \<not> bk_probes bk \<or> lp_snapshot_seen lp \<or>
         sat_sub (in_now i) (lp_last_probe_started_at lp) < BLE_PROBE_INTERVAL_SECS * 1000 then (lp, st)
      else
        (lp\<lparr>lp_last_probe_started_at := in_now i\<rparr>,
         case in_probe i of
           Inr (Inr p) \<Rightarrow>
             mark_ble_runtime_idle (bk_provider bk)
               (if \<not> hardware_present p then ''hardware_unavailable''
                else if controller_powered p then ''hardware_ready_scaffold'' else ''hardware_present_powered_off'')
               ''scaffold_unimplemented'' st
         | Inr (Inl e) \<Rightarrow> ble_system_error (bk_provider bk) (bk_code bk @ ''PROBE_FAILED'')
                            (bk_label bk @ '' BLE scaffold probe failed: '' @ e) st
         | Inl e \<Rightarrow> ble_system_error (bk_provider bk) (bk_code bk @ ''PROBE_JOIN_FAILED'')
                      (bk_label bk @ '' BLE scaffold probe worker failed: '' @ e) st))"

fun ingest_capsules :: "bridge_kind \<Rightarrow> (nat \<Rightarrow> u64 \<times> u64) \<Rightarrow> nat \<Rightarrow> ble_capsule list \<Rightarrow> ble_state \<Rightarrow> ble_state" where
  "ingest_capsules bk ts n [] st = st"
| "ingest_capsules bk ts n (c # cs) st =
     ingest_capsules bk ts (n + 1) cs
       (case validate_ble_assist_capsule (fst (ts n)) c of
          Inl e \<Rightarrow> ble_system_error (bk_provider bk) (bk_code bk @ ''BRIDGE_INVALID_CAPSULE'')
                     (bk_label bk @ '' BLE bridge provided invalid capsule '' @ cap_rolling_identifier c @ '': '' @ ble_error_text e) st
        | Inr _ \<Rightarrow> record_ble_assist_observation (snd (ts n)) c st)"

definition apply_snapshot :: "bridge_kind \<Rightarrow> string \<Rightarrow> bridge_input \<Rightarrow> bridge_snapshot \<Rightarrow> ble_state \<Rightarrow> ble_state" where
  "apply_snapshot bk bfile i snap st =
     (let st1 = ingest_capsules bk (in_times i) 0 (bs_capsules snap) st;
          st2 = update_ble_runtime_bridge (bs_permission_state snap) (br_bridge_mode (ble_runtime st1)) (Some bfile)
                  (Some (in_now i)) (bs_advertised_rolling_identifier snap) st1
      in mark_ble_runtime_idle (bk_provider bk)
           (case bs_scanner_state snap of Some s \<Rightarrow> s | None \<Rightarrow> ''bridge_snapshot_ready'')
           (case bs_advertiser_state snap of Some s \<Rightarrow> s | None \<Rightarrow> ''observer_only_bridge'') st2)"

definition snapshot_pass :: "ble_lib \<Rightarrow> bridge_kind \<Rightarrow> string \<Rightarrow> bridge_input \<Rightarrow> bridge_loop \<times> ble_state \<Rightarrow> bridge_loop \<times> ble_state" where
  "snapshot_pass L bk bfile i s =
     (case s of (lp, st) \<Rightarrow>
      (case in_read i of
         Inr (Inr (Some (snap, raw))) \<Rightarrow>
           (let h = b64url_encode (bl_pairing L) (sha256 L (str_bytes raw)); lp1 = lp\<lparr>lp_snapshot_seen := True\<rparr>
            in if lp_last_snapshot_hash lp = Some h then (lp1, st)
               else (lp1\<lparr>lp_last_snapshot_hash := Some h\<rparr>, apply_snapshot bk bfile i snap st))
       | Inr (Inr None) \<Rightarrow> (lp, st)
       | Inr (Inl e) \<Rightarrow> (lp, ble_system_error (bk_provider bk) (bk_code bk @ ''BRIDGE_READ_FAILED'')
                               (bk_label bk @ '' BLE bridge snapshot read failed: '' @ e) st)
       | Inl e \<Rightarrow> (lp, ble_system_error (bk_provider bk) (bk_code bk @ ''BRIDGE_JOIN_FAILED'')
                         (bk_label bk @ '' BLE bridge snapshot worker failed: '' @ e) st)))"

definition bridge_pass ::
    "ble_lib \<Rightarrow> bridge_kind \<Rightarrow> string \<Rightarrow> string \<Rightarrow> bridge_input \<Rightarrow> bridge_loop \<times> ble_state \<Rightarrow> bridge_loop \<times> ble_state" where
  "bridge_pass L bk bfile afile i s = snapshot_pass L bk bfile i (probe_pass bk i (advertise_pass bk afile i s))"

definition start_loop :: bridge_loop where
  "start_loop = \<lparr>lp_last_probe_started_at = 0, lp_last_snapshot_hash = None, lp_snapshot_seen = False, lp_last_refresh_started_at = 0\<rparr>"

definition run_bridge :: "ble_lib \<Rightarrow> bridge_kind \<Rightarrow> string \<Rightarrow> string \<Rightarrow> bridge_input list \<Rightarrow> ble_state \<Rightarrow> bridge_loop \<times> ble_state" where
  "run_bridge L bk bfile afile inputs st = fold (bridge_pass L bk bfile afile) inputs (start_loop, st)"

definition parse_macos_system_profiler_output :: "string \<Rightarrow> bluetooth_probe" where
  "parse_macos_system_profiler_output output =
     (let n = to_ascii_lowercase output in
      \<lparr>hardware_present = (\<not> contains_str n ''no bluetooth information found'' \<and> \<not> contains_str n ''bluetooth: not available''),
       controller_powered = (contains_str n ''state: on'' \<or> contains_str n ''powered: on'' \<or>
                             contains_str n ''controller power state: on'')\<rparr>)"

definition sample_capsule :: ble_capsule where
  "sample_capsule = \<lparr>cap_version = 1, cap_issued_at_unix_ms = 5, cap_expires_at_unix_ms = 20, cap_rolling_identifier = ''r'',
     cap_integrity_tag = ''t'', cap_transport_hint = ''qr'', cap_qr_fallback_available = True,
     cap_short_code_fallback_available = True, cap_rotation_window_ms = 30000\<rparr>"

text \<open>
  The observations of one device are kept under its identifier, once, with a first sighting that is not
  after the last; none is dated after the given time.
\<close>

definition observation_ok :: "u64 \<Rightarrow> string \<times> ble_observation \<Rightarrow> bool" where
  "observation_ok t e \<longleftrightarrow>
     ob_rolling_identifier (snd e) = fst e \<and> ob_first_seen_at_unix_ms (snd e) \<le> ob_last_seen_at_unix_ms (snd e) \<and>
     ob_last_seen_at_unix_ms (snd e) \<le> t \<and> trim (fst e) \<noteq> '''' \<and> trim (ob_integrity_tag (snd e)) \<noteq> ''''"

definition observations_ok :: "u64 \<Rightarrow> (string \<times> ble_observation) list \<Rightarrow> bool" where
  "observations_ok t obs \<longleftrightarrow> distinct (map fst obs) \<and> list_all (observation_ok t) obs"

text \<open>The times of a pass do not run backwards and end before the next pass.\<close>

definition times_in :: "u64 \<Rightarrow> u64 \<Rightarrow> bridge_input \<Rightarrow> bool" where
  "times_in t t' i \<longleftrightarrow> t \<le> t' \<and> (\<forall>n. t \<le> snd (in_times i n) \<and> snd (in_times i n) \<le> snd (in_times i (n + 1)) \<and> snd (in_times i n) \<le> t')"

definition toy_ble_lib :: ble_lib where
  "toy_ble_lib = \<lparr>bl_pairing = toy_lib, sha256 = (\<lambda>b. take 32 (b @ replicate 32 0)),
     ser_capsule_body = (\<lambda>b. str_bytes (body_rolling_identifier b))\<rparr>"

text \<open>Passes with the time by which each has ended.\<close>

fun chain :: "u64 \<Rightarrow> (u64 \<times> bridge_input) list \<Rightarrow> bool" where
  "chain t [] = True"
| "chain t ((t', i) # xs) = (times_in t t' i \<and> chain t' xs)"

fun last_time :: "u64 \<Rightarrow> (u64 \<times> bridge_input) list \<Rightarrow> u64" where
  "last_time t [] = t"
| "last_time t ((t', i) # xs) = last_time t' xs"

section \<open>Facts\<close>

lemma validated_capsule: "validate_ble_assist_capsule now c = Ok u \<longleftrightarrow>
   cap_version c = 1 \<and> trim (cap_rolling_identifier c) \<noteq> '''' \<and> trim (cap_integrity_tag c) \<noteq> '''' \<and>
   now < cap_expires_at_unix_ms c \<and> cap_issued_at_unix_ms c < cap_expires_at_unix_ms c"
  by (auto simp: validate_ble_assist_capsule_def)

lemma retain_ok: "observations_ok t obs \<Longrightarrow> observations_ok t (retain_unexpired now obs)"
  by (auto simp: observations_ok_def retain_unexpired_def list_all_iff distinct_map inj_on_def)

lemma observations_mono: "observations_ok t obs \<Longrightarrow> t \<le> t' \<Longrightarrow> observations_ok t' obs"
  by (auto simp: observations_ok_def observation_ok_def list_all_iff)

lemma update_all: "list_all P xs \<Longrightarrow> P (k, v) \<Longrightarrow> list_all P (AList.update k v xs)"
  by (induction xs) auto

lemma record_ok:
  assumes "observations_ok t (ble_observations st)" and "t \<le> now" and "trim (cap_rolling_identifier c) \<noteq> ''''"
    and "trim (cap_integrity_tag c) \<noteq> ''''"
  shows "observations_ok now (ble_observations (record_ble_assist_observation now c st))"
proof -
  let ?obs = "retain_unexpired now (ble_observations st)"
  let ?k = "cap_rolling_identifier c"
  let ?entry = "case map_of ?obs ?k of Some ob \<Rightarrow> ob | None \<Rightarrow> new_observation now c"
  have d: "distinct (map fst ?obs)" and all: "list_all (observation_ok now) ?obs"
    using retain_ok [OF observations_mono [OF assms(1,2)]] by (simp_all add: observations_ok_def)
  have "observation_ok now (?k, ob)" if "map_of ?obs ?k = Some ob" for ob
    using all map_of_SomeD [OF that] by (auto simp: list_all_iff)
  moreover have "observation_ok now (?k, new_observation now c)"
    using assms(3,4) by (simp add: observation_ok_def new_observation_def)
  ultimately have "observation_ok now (?k, ?entry)" by (simp split: option.split)
  then have new: "observation_ok now (?k, ?entry\<lparr>ob_integrity_tag := cap_integrity_tag c, ob_last_seen_at_unix_ms := now,
      ob_expires_at_unix_ms := x, ob_transport_hint := h, ob_qr_fallback_available := a, ob_short_code_fallback_available := b\<rparr>)" for x h a b
    using assms(4) unfolding observation_ok_def by simp
  show ?thesis
    using d update_all [OF all new] by (simp add: observations_ok_def record_ble_assist_observation_def Let_def distinct_update)
qed

lemma ble_updates_keep [simp]:
  "ble_observations (ble_system_error p c m st) = ble_observations st"
  "ble_observations (mark_ble_runtime_idle p a b st) = ble_observations st"
  "ble_observations (update_ble_runtime_bridge x1 x2 x3 x4 x5 st) = ble_observations st"
  "ble_observations (update_ble_runtime_advertisement y1 y2 y3 st) = ble_observations st"
  by (simp_all add: ble_system_error_def mark_ble_runtime_error_def mark_ble_runtime_idle_def update_ble_runtime_bridge_def
      update_ble_runtime_advertisement_def Let_def)

lemma ingest_ok:
  assumes "observations_ok u (ble_observations st)" "u \<le> snd (ts n)" "u \<le> t'"
    and "\<forall>k. snd (ts k) \<le> snd (ts (k + 1)) \<and> snd (ts k) \<le> t'"
  shows "observations_ok t' (ble_observations (ingest_capsules bk ts n cs st))"
  using assms
proof (induction cs arbitrary: n st u)
  case Nil
  then show ?case using observations_mono by simp
next
  case (Cons c cs)
  show ?case
  proof (cases "validate_ble_assist_capsule (fst (ts n)) c")
    case (Inl e)
    have "u \<le> snd (ts (n + 1))" using Cons.prems(2,4) by (meson order_trans)
    then show ?thesis using Inl Cons.prems Cons.IH [of u _ "n + 1"] by simp
  next
    case (Inr x)
    then have "observations_ok (snd (ts n)) (ble_observations (record_ble_assist_observation (snd (ts n)) c st))"
      using record_ok Cons.prems by (simp add: validated_capsule)
    then show ?thesis using Inr Cons.prems Cons.IH [of "snd (ts n)" _ "n + 1"] by simp
  qed
qed

lemma bridge_pass_ok:
  assumes "observations_ok t (ble_observations (snd s))" and "times_in t t' i"
  shows "observations_ok t' (ble_observations (snd (bridge_pass L bk bfile afile i s)))"
proof -
  obtain lp st where s: "s = (lp, st)" by (cases s)
  let ?s2 = "probe_pass bk i (advertise_pass bk afile i (lp, st))"
  have "ble_observations (snd ?s2) = ble_observations st"
    by (simp add: probe_pass_def advertise_pass_def case_prod_beta split: sum.split)
  then have ok: "observations_ok t (ble_observations (snd ?s2))" using assms(1) s by simp
  then have now: "observations_ok t' (ble_observations (snd ?s2))" using assms(2) observations_mono by (auto simp: times_in_def)
  have "observations_ok t' (ble_observations (ingest_capsules bk (in_times i) 0 cs (snd ?s2)))" for cs
    by (rule ingest_ok [OF ok]) (use assms(2) in \<open>simp_all add: times_in_def\<close>)
  then show ?thesis
    using now unfolding s bridge_pass_def snapshot_pass_def
    by (auto simp: case_prod_beta apply_snapshot_def Let_def split: sum.split option.split)
qed

section \<open>Properties\<close>

text \<open>
  Whatever the bridge helper writes, and in whatever order its files, its failures and the clock arrive,
  the table of observations stays well formed: one entry per identifier, under that identifier, with an
  identifier and a tag that are not blank and a first sighting not after the last.
\<close>
theorem bridge_observations_ok:
  assumes "observations_ok 0 (ble_observations st)" and "chain 0 inputs"
  shows "observations_ok (last_time 0 inputs) (ble_observations (snd (run_bridge L bk bfile afile (map snd inputs) st)))"
proof -
  have "observations_ok (last_time t inputs) (ble_observations (snd (fold (bridge_pass L bk bfile afile) (map snd inputs) s)))"
    if "observations_ok t (ble_observations (snd s))" "chain t inputs" for t s
    using that
  proof (induction inputs arbitrary: t s)
    case (Cons x xs)
    then show ?case using bridge_pass_ok [of t s "fst x" "snd x"] by (cases x) simp
  qed simp
  then show ?thesis using assms unfolding run_bridge_def by simp
qed

text \<open>
  The integrity tag of a capsule is not checked: a capsule stays valid under any other tag that is not
  blank, so whoever can reach the service or the bridge file can make observations of its own choice.
\<close>
theorem integrity_tag_ignored:
  assumes "validate_ble_assist_capsule now c = Ok ()" and "trim tag \<noteq> ''''"
  shows "validate_ble_assist_capsule now (c\<lparr>cap_integrity_tag := tag\<rparr>) = Ok ()"
  using assms by (simp add: validated_capsule)

text \<open>A capsule a device builds is accepted exactly until two minutes after it was issued.\<close>
theorem built_capsule_valid_for_ttl:
  assumes lib: "pairing_lib_ok (bl_pairing L)" and hash: "\<forall>b. length (sha256 L b) = 32"
    and enc: "\<forall>b. b \<noteq> [] \<longrightarrow> b64url_encode (bl_pairing L) b \<noteq> ''''"
    and built: "build_ble_assist_capsule L idn issued = Ok c" and "issued + BLE_ASSIST_CAPSULE_TTL_MS \<le> U64_MAX"
  shows "validate_ble_assist_capsule now c = Ok () \<longleftrightarrow> now < issued + BLE_ASSIST_CAPSULE_TTL_MS"
proof -
  obtain h key msg where c: "cap_rolling_identifier c = b64url_encode (bl_pairing L) (take 12 (sha256 L h))"
    "cap_integrity_tag c = b64url_encode (bl_pairing L) (take 12 (sign_with (bl_pairing L) key msg))"
    "cap_version c = 1" "cap_issued_at_unix_ms c = issued"
    "cap_expires_at_unix_ms c = sat_add issued BLE_ASSIST_CAPSULE_TTL_MS"
    using built by (auto simp: build_ble_assist_capsule_def capsule_body_def rolling_identifier_def Let_def split: if_splits option.splits)
  have "take 12 (sha256 L h) \<noteq> []" using hash by (metis length_0_conv take_eq_Nil zero_neq_numeral)
  moreover have "length (sign_with (bl_pairing L) key msg) = 64" using lib by (simp add: pairing_lib_ok_def)
  then have "take 12 (sign_with (bl_pairing L) key msg) \<noteq> []" by (metis length_0_conv take_eq_Nil zero_neq_numeral)
  moreover have "trim (b64url_encode (bl_pairing L) b) = b64url_encode (bl_pairing L) b" for b
    using lib by (simp add: pairing_lib_ok_def)
  ultimately show ?thesis
    using c enc assms(5) by (simp add: validated_capsule sat_add_exact BLE_ASSIST_CAPSULE_TTL_MS_def)
qed

theorem built_capsule_valid_for_ttl_witness:
  "\<exists>c. build_ble_assist_capsule toy_ble_lib sample_identity 1000 = Ok c \<and> validate_ble_assist_capsule 120999 c = Ok () \<and>
       validate_ble_assist_capsule 121000 c \<noteq> Ok ()"
proof -
  have "normalize_fingerprint (id_fingerprint sample_identity) = ''ABC''" by code_simp
  then obtain c where c: "build_ble_assist_capsule toy_ble_lib sample_identity 1000 = Ok c"
    by (simp add: build_ble_assist_capsule_def toy_ble_lib_def toy_lib_def Let_def)
  have "pairing_lib_ok (bl_pairing toy_ble_lib)" "\<forall>b. length (sha256 toy_ble_lib b) = 32"
    "\<forall>b. b \<noteq> [] \<longrightarrow> b64url_encode (bl_pairing toy_ble_lib) b \<noteq> ''''" "1000 + BLE_ASSIST_CAPSULE_TTL_MS \<le> U64_MAX"
    using toy_lib_ok by (auto simp: toy_ble_lib_def toy_lib_def nib_encode_def BLE_ASSIST_CAPSULE_TTL_MS_def U64_MAX_def neq_Nil_conv)
  then have "validate_ble_assist_capsule now c = Ok () \<longleftrightarrow> now < 1000 + BLE_ASSIST_CAPSULE_TTL_MS" for now
    using built_capsule_valid_for_ttl c by blast
  then show ?thesis using c by (auto simp: BLE_ASSIST_CAPSULE_TTL_MS_def)
qed

text \<open>
  A pass that reads a new snapshot leaves no error in the runtime status, whatever it met before in that
  pass: the report of an invalid capsule, or of a failed advertisement, is erased by the final update.
\<close>
theorem snapshot_erases_errors:
  assumes "in_read i = Inr (Inr (Some (snap, raw)))"
    and "lp_last_snapshot_hash (fst s) \<noteq> Some (b64url_encode (bl_pairing L) (sha256 L (str_bytes raw)))"
  shows "br_last_error (ble_runtime (snd (bridge_pass L bk bfile afile i s))) = None"
proof -
  let ?s2 = "probe_pass bk i (advertise_pass bk afile i s)"
  have "lp_last_snapshot_hash (fst ?s2) = lp_last_snapshot_hash (fst s)"
    by (simp add: probe_pass_def advertise_pass_def case_prod_beta)
  then show ?thesis
    using assms by (simp add: bridge_pass_def snapshot_pass_def case_prod_beta Let_def apply_snapshot_def mark_ble_runtime_idle_def)
qed

end
