(* ===== verification/TransferControl.thy ===== *)
theory TransferControl
  imports Sender "HOL-Library.List_Lexorder" "HOL-Library.Char_ord"
begin

text \<open>
  The commands on transfers of \<^verbatim>\<open>core_service.rs\<close>: accepting and rejecting an incoming request,
  cancelling, retrying and starting a transfer, with the two maintenance loops of
  \<^verbatim>\<open>runtime/supervisor.rs\<close>.  A command that answers a waiting offer handler delivers a value on its
  one-shot channel; it is part of the result.  The text of an error of the transport layer is a parameter.
\<close>

section \<open>Answering an incoming request\<close>

definition REQUEST_EXPIRED_CODE :: string where "REQUEST_EXPIRED_CODE = ''E_REQUEST_EXPIRED''"
definition REQUEST_EXPIRED_CAUSE :: string where "REQUEST_EXPIRED_CAUSE = ''NotificationExpired''"
definition REQUEST_EXPIRED_PHASE :: string where "REQUEST_EXPIRED_PHASE = ''notification_action''"

datatype incoming_request_action_state = Pending | Expired | StaleNotification | Missing

datatype control_error = RequestExpired | NotFound

record control_result =
  cr_app :: app_state
  cr_delivered :: "bool option"
  cr_result :: "control_error + unit"

definition incoming_request_notification :: "app_state \<Rightarrow> string \<Rightarrow> notification option" where
  "incoming_request_notification st tid = map_of (notifications st) tid"

definition incoming_request_action_state :: "app_state \<Rightarrow> string \<Rightarrow> string \<Rightarrow> incoming_request_action_state" where
  "incoming_request_action_state st tid nid =
     (let n = incoming_request_notification st tid in
      case map_option status (map_of (transfers st) tid) of
        Some PendingAccept \<Rightarrow>
          (case n of
             None \<Rightarrow> Missing
           | Some e \<Rightarrow>
               (if \<not> nt_active e then Expired
                else if notification_id e \<noteq> nid then StaleNotification
                else Pending))
      | Some _ \<Rightarrow> Expired
      | None \<Rightarrow>
          (if (case n of Some e \<Rightarrow> \<not> nt_active e | None \<Rightarrow> False) then Expired
           else if (case n of Some e \<Rightarrow> notification_id e \<noteq> nid | None \<Rightarrow> False) then StaleNotification
           else if tid \<in> set (pending_accepts st) then Pending
           else Missing))"

definition take_responder :: "string \<Rightarrow> app_state \<Rightarrow> app_state \<times> bool" where
  "take_responder tid st =
     (st\<lparr>pending_accepts := removeAll tid (pending_accepts st)\<rparr>, tid \<in> set (pending_accepts st))"

definition expire_request :: "clock \<Rightarrow> string \<Rightarrow> app_state \<Rightarrow> app_state" where
  "expire_request clk tid st =
     fst (mark_incoming_request_notification_inactive clk tid (Some REQUEST_EXPIRED_CODE) st)"

text \<open>\<open>missing\<close> is the result when nobody waits: an error for accepting, success for rejecting.\<close>

definition answer_pending ::
    "clock \<Rightarrow> bool \<Rightarrow> control_error + unit \<Rightarrow> app_state \<Rightarrow> string \<Rightarrow> string \<Rightarrow> control_result" where
  "answer_pending clk answer missing st tid nid =
     (case incoming_request_action_state st tid nid of
        Expired \<Rightarrow>
          \<lparr>cr_app = expire_request clk tid (fst (take_responder tid st)), cr_delivered = None,
           cr_result = Err RequestExpired\<rparr>
      | StaleNotification \<Rightarrow> \<lparr>cr_app = st, cr_delivered = None, cr_result = Err RequestExpired\<rparr>
      | Missing \<Rightarrow> \<lparr>cr_app = st, cr_delivered = None, cr_result = missing\<rparr>
      | Pending \<Rightarrow>
          (let (st1, waiting) = take_responder tid st in
           if waiting
           then \<lparr>cr_app = fst (mark_incoming_request_notification_inactive clk tid None st1),
                 cr_delivered = Some answer, cr_result = Ok ()\<rparr>
           else case incoming_request_action_state st1 tid nid of
             Expired \<Rightarrow> \<lparr>cr_app = expire_request clk tid st1, cr_delivered = None, cr_result = Err RequestExpired\<rparr>
           | StaleNotification \<Rightarrow> \<lparr>cr_app = st1, cr_delivered = None, cr_result = Err RequestExpired\<rparr>
           | _ \<Rightarrow> \<lparr>cr_app = st1, cr_delivered = None, cr_result = missing\<rparr>))"

definition accept_pending_transfer :: "clock \<Rightarrow> app_state \<Rightarrow> string \<Rightarrow> string \<Rightarrow> control_result" where
  "accept_pending_transfer clk st tid nid = answer_pending clk True (Err NotFound) st tid nid"

definition reject_pending_transfer :: "clock \<Rightarrow> app_state \<Rightarrow> string \<Rightarrow> string \<Rightarrow> control_result" where
  "reject_pending_transfer clk st tid nid = answer_pending clk False (Ok ()) st tid nid"

definition emit_request_expired :: "bool \<Rightarrow> string \<Rightarrow> control_result \<Rightarrow> control_result" where
  "emit_request_expired has_host tid r =
     (if has_host \<and> cr_result r = Err RequestExpired
      then r\<lparr>cr_app := emit (EvError tid REQUEST_EXPIRED_CODE REQUEST_EXPIRED_CAUSE REQUEST_EXPIRED_PHASE
                             (transfer_revision (cr_app r) tid) []) (cr_app r)\<rparr>
      else r)"

definition accept_transfer :: "clock \<Rightarrow> bool \<Rightarrow> app_state \<Rightarrow> string \<Rightarrow> string \<Rightarrow> control_result" where
  "accept_transfer clk has_host st tid nid = emit_request_expired has_host tid (accept_pending_transfer clk st tid nid)"

definition reject_transfer :: "clock \<Rightarrow> bool \<Rightarrow> app_state \<Rightarrow> string \<Rightarrow> string \<Rightarrow> control_result" where
  "reject_transfer clk has_host st tid nid = emit_request_expired has_host tid (reject_pending_transfer clk st tid nid)"

section \<open>Cancelling\<close>

definition cancel_status :: "transfer_direction \<Rightarrow> transfer_status" where
  "cancel_status d = (case d of Send \<Rightarrow> CancelledBySender | Receive \<Rightarrow> CancelledByReceiver)"

definition cancelled_task :: "clock \<Rightarrow> transfer_task \<Rightarrow> transfer_task" where
  "cancelled_task clk t =
     (let next = cancel_status (direction t);
          t1 = (if status t \<noteq> next then t\<lparr>status := next, revision := revision t + 1\<rparr> else t)
      in t1\<lparr>terminal_reason_code := Some ''E_CANCELLED_BY_USER'', failed_file_ids := Some (all_file_ids t1),
            ended_at := Some (instant_now clk), ended_at_unix := Some (unix_now clk)\<rparr>)"

definition cancel_transfer_inner :: "clock \<Rightarrow> bool \<Rightarrow> bool \<Rightarrow> string \<Rightarrow> app_state \<Rightarrow> app_state \<times> bool option \<times> bool" where
  "cancel_transfer_inner clk lock_ok has_host tid st =
     (let (st1, waiting) = take_responder tid st;
          st2 = (if waiting
                 then fst (mark_incoming_request_notification_inactive clk tid (Some ''E_CANCELLED_BY_USER'') st1)
                 else st1);
          delivered = (if waiting then Some False else None)
      in case map_of (transfers st2) tid of
           None \<Rightarrow> (st2, delivered, False)
         | Some t \<Rightarrow>
             (let t1 = cancelled_task clk t;
                  st3 = st2\<lparr>transfers := AList.update tid t1 (transfers st2),
                            history_db := (if lock_ok then save_step (unix_now clk) (history_db st2) t1
                                           else history_db st2)\<rparr>;
                  st4 = (if has_host
                         then emit (EvTerminal tid (status t1) ''E_CANCELLED_BY_USER'' ''UserCancelled'' (revision t1) ''cancel'') st3
                         else st3)
              in (st4\<lparr>metrics := record_transfer_terminal (direction t1) (status t1) (bytes_transferred t1) (metrics st4)\<rparr>,
                  delivered, True)))"

definition active_ids :: "app_state \<Rightarrow> string list" where
  "active_ids st = map fst (filter (\<lambda>(i, t). status t = PendingAccept \<or> status t = Transferring) (transfers st))"

fun cancel_each :: "clock \<Rightarrow> bool \<Rightarrow> bool \<Rightarrow> string list \<Rightarrow> app_state \<Rightarrow> app_state \<times> nat" where
  "cancel_each clk lock_ok has_host [] st = (st, 0)"
| "cancel_each clk lock_ok has_host (i # is) st =
     (let (st1, _, ok) = cancel_transfer_inner clk lock_ok has_host i st;
          (st2, n) = cancel_each clk lock_ok has_host is st1
      in (st2, (if ok then 1 else 0) + n))"

definition cancel_all_transfers :: "clock \<Rightarrow> bool \<Rightarrow> bool \<Rightarrow> app_state \<Rightarrow> app_state \<times> nat" where
  "cancel_all_transfers clk lock_ok has_host st = cancel_each clk lock_ok has_host (active_ids st) st"

section \<open>Retrying\<close>

fun keep_first :: "'a list \<Rightarrow> 'a list \<Rightarrow> 'a list" where
  "keep_first seen [] = []"
| "keep_first seen (x # xs) = (if x \<in> set seen then keep_first seen xs else x # keep_first (x # seen) xs)"

datatype retry_error = NotInCache | OnlyOutgoing | NotTerminal | NoSourcePaths

definition select_retry_paths :: "transfer_task \<Rightarrow> retry_error + string list" where
  "select_retry_paths t =
     (case source_paths t of
        None \<Rightarrow> Err NoSourcePaths
      | Some all_paths \<Rightarrow>
          (let failed_ids = (case failed_file_ids t of Some ids \<Rightarrow> ids | None \<Rightarrow> []);
               subset = (case source_path_by_file_id t of
                   Some mapping \<Rightarrow> keep_first [] (List.map_filter mapping failed_ids)
                 | None \<Rightarrow> [])
           in if failed_ids = [] then Ok all_paths
              else if subset = [] then Ok all_paths
              else Ok subset))"

definition retry_request :: "app_state \<Rightarrow> string \<Rightarrow> retry_error + string \<times> string list" where
  "retry_request st tid =
     (case map_of (transfers st) tid of
        None \<Rightarrow> Err NotInCache
      | Some t \<Rightarrow>
          (if direction t \<noteq> Send then Err OnlyOutgoing
           else if status t = Draft \<or> status t = PendingAccept \<or> status t = Transferring then Err NotTerminal
           else case select_retry_paths t of Inl e \<Rightarrow> Err e | Inr ps \<Rightarrow> Ok (peer_fingerprint t, ps)))"

section \<open>Maintenance\<close>

definition memory_cleanup :: "u64 \<Rightarrow> app_state \<Rightarrow> app_state" where
  "memory_cleanup now st =
     st\<lparr>transfers := filter (\<lambda>(i, t). case ended_at_unix t of Some e \<Rightarrow> sat_sub now e < 60 | None \<Rightarrow> True) (transfers st)\<rparr>"

definition notification_maintenance :: "clock \<Rightarrow> (string \<Rightarrow> string) \<Rightarrow> app_state \<Rightarrow> app_state" where
  "notification_maintenance clk uuid st =
     (let waiting = filter (\<lambda>(i, t). status t = PendingAccept) (transfers st);
          others = filter (\<lambda>(i, t). status t \<noteq> PendingAccept) (transfers st);
          st1 = fold (\<lambda>(i, t) s. fst (ensure_incoming_request_notification clk (uuid i) i s)) waiting st;
          st2 = st1\<lparr>pending_accepts := filter (\<lambda>i. i \<in> set (map fst waiting)) (pending_accepts st1)\<rparr>
      in fold (\<lambda>(i, t) s. fst (mark_incoming_request_notification_inactive clk i (terminal_reason_code t) s)) others st2)"

record pending_request =
  pr_transfer_id :: string
  pr_batch_id :: "string option"
  pr_notification_id :: string
  pr_sender_name :: string
  pr_sender_fp :: string
  pr_trusted :: bool
  pr_items :: "file_item_meta list"
  pr_total_size :: u64
  pr_revision :: u64

definition get_pending_incoming_requests :: "app_state \<Rightarrow> pending_request list" where
  "get_pending_incoming_requests st =
     sort_key pr_transfer_id (List.map_filter (\<lambda>(i, t).
        if direction t = Receive \<and> status t = PendingAccept
        then (case map_of (notifications st) (task_id t) of
                Some n \<Rightarrow>
                  (if nt_active n
                   then Some \<lparr>pr_transfer_id = task_id t, pr_batch_id = batch_id t,
                              pr_notification_id = notification_id n, pr_sender_name = peer_name t,
                              pr_sender_fp = peer_fingerprint t,
                              pr_trusted = (map_of (trusted_peers st) (peer_fingerprint t) \<noteq> None),
                              pr_items = task_items t, pr_total_size = total_bytes t, pr_revision = revision t\<rparr>
                   else None)
              | None \<Rightarrow> None)
        else None) (transfers st))"

section \<open>Starting a transfer\<close>

definition classify_runtime_send_error :: "string \<Rightarrow> string \<times> string" where
  "classify_runtime_send_error detail =
     (let s = to_ascii_lowercase detail; has = contains_str s in
      if has ''timeout'' \<or> has ''timed out'' then (''E_TIMEOUT'', ''Timeout'')
      else if has ''message too large'' then (''E_PROTOCOL'', ''OfferTooLarge'')
      else if has ''expected offer'' \<or> has ''expected accept/reject'' \<or> has ''expected hello'' \<or>
              has ''read hello failed'' \<or> has ''read offer failed''
           then (''E_PROTOCOL'', ''ProtocolSequenceError'')
      else if has ''identity mismatch'' then (''E_IDENTITY_MISMATCH'', ''IdentityMismatch'')
      else if has ''version'' \<and> has ''mismatch'' then (''E_VERSION_MISMATCH'', ''VersionMismatch'')
      else if has ''rate limit'' then (''E_RATE_LIMITED'', ''RateLimited'')
      else if has ''read len'' \<or> has ''read body'' \<or> has ''control stream'' \<or> has ''stream closed''
           then (''E_PROTOCOL'', ''ControlStreamClosed'')
      else (''E_PROTOCOL'', ''SystemError''))"

definition should_retry_send_once :: "string \<Rightarrow> bool" where
  "should_retry_send_once detail =
     (let s = to_ascii_lowercase detail
      in list_ex (contains_str s)
           [''read accept/reject failed'', ''control stream'', ''read len'', ''read body'', ''open bi stream'',
            ''accept bi stream''])"

text \<open>The last resort after an error: the task is failed unless it is terminal already.\<close>

definition fail_send :: "clock \<Rightarrow> bool \<Rightarrow> string \<Rightarrow> string \<Rightarrow> app_state \<Rightarrow> app_state" where
  "fail_send clk lock_ok tid detail st =
     (let (reason, cause) = classify_runtime_send_error detail;
          st1 = (case map_of (transfers st) tid of
              None \<Rightarrow> st
            | Some t \<Rightarrow>
                (if is_terminal (status t) then st
                 else
                   (let t1 = t\<lparr>status := StFailed, revision := revision t + 1, terminal_reason_code := Some reason,
                               failed_file_ids := Some (all_file_ids t), task_error := Some detail,
                               ended_at := Some (instant_now clk), ended_at_unix := Some (unix_now clk)\<rparr>
                    in st\<lparr>transfers := AList.update tid t1 (transfers st),
                          history_db := (if lock_ok then save_step (unix_now clk) (history_db st) t1
                                         else history_db st)\<rparr>)));
          rev1 = transfer_revision st1 tid
      in emit (EvError tid reason cause ''send'' rev1 detail) (emit (EvTerminal tid StFailed reason cause rev1 ''send'') st1))"

text \<open>
  The spawned task: one attempt, and after an error of the control stream one more on a new connection
  if that can be made (\<open>second\<close>).
\<close>

definition send_attempts ::
    "(bytes \<Rightarrow> hash) \<Rightarrow> (send_error \<Rightarrow> string) \<Rightarrow> send_env \<Rightarrow> send_env option \<Rightarrow> string \<Rightarrow> string \<Rightarrow>
     (path \<times> src_node) list \<Rightarrow> app_state \<Rightarrow> app_state" where
  "send_attempts h detail first second tid fp sources st =
     (let r = send_files h first tid fp sources st in
      case sr_outcome r of
        Inr _ \<Rightarrow> sr_app r
      | Inl e \<Rightarrow>
          (case (if should_retry_send_once (detail e) then second else None) of
             None \<Rightarrow> fail_send (se_clock first) (se_lock_ok first) tid (detail e) (sr_app r)
           | Some env \<Rightarrow>
               (let r2 = send_files h env tid fp sources (sr_app r) in
                case sr_outcome r2 of
                  Inr _ \<Rightarrow> sr_app r2
                | Inl e2 \<Rightarrow> fail_send (se_clock env) (se_lock_ok env) tid (detail e2) (sr_app r2))))"

datatype send_service_error =
    PeerFrozen string | DeviceUnknown | NoAddress | SourceMissing | ConnectFailed | IdentityUnverified
  | IdentityMismatch | NoRuntimeHost

record send_service_env =
  sx_addrs :: "send_service_error + string list"
  sx_connect :: "string \<Rightarrow> bool"
  sx_peer_fp :: "string option"
  sx_has_host :: bool
  sx_second :: "send_env option"

definition service_connect ::
    "(bytes \<Rightarrow> hash) \<Rightarrow> (send_error \<Rightarrow> string) \<Rightarrow> send_env \<Rightarrow> send_service_env \<Rightarrow> string \<Rightarrow> string \<Rightarrow>
     (path \<times> src_node) list \<Rightarrow> (string \<Rightarrow> string \<Rightarrow> string \<Rightarrow> app_state \<Rightarrow> app_state) \<Rightarrow> app_state \<Rightarrow>
     app_state \<times> (send_service_error + unit)" where
  "service_connect h detail env sv tid fp sources log st0 =
     (let st = record_sender_dispatch (se_clock env) tid fp st0 in
      case sx_addrs sv of
        Inl e \<Rightarrow> (st, Err e)
      | Inr addrs \<Rightarrow>
          (if list_ex (\<lambda>(p, c). case c of SrcMissing \<Rightarrow> True | _ \<Rightarrow> False) sources then (st, Err SourceMissing)
           else if \<not> list_ex (sx_connect sv) addrs then (st, Err ConnectFailed)
           else case sx_peer_fp sv of
             None \<Rightarrow> (st, Err IdentityUnverified)
           | Some actual \<Rightarrow>
               (if actual \<noteq> fp
                then (log ''identity_mismatch'' ''connect'' ''peer certificate fingerprint mismatch'' st, Err IdentityMismatch)
                else if \<not> sx_has_host sv then (st, Err NoRuntimeHost)
                else (send_attempts h detail env (sx_second sv) tid fp sources st, Ok ()))))"

definition service_send_files ::
    "(bytes \<Rightarrow> hash) \<Rightarrow> (send_error \<Rightarrow> string) \<Rightarrow> send_env \<Rightarrow> send_service_env \<Rightarrow> string \<Rightarrow> string \<Rightarrow>
     (path \<times> src_node) list \<Rightarrow> app_state \<Rightarrow> app_state \<times> (send_service_error + unit)" where
  "service_send_files h detail env sv tid fp sources st =
     (let log = (\<lambda>ty phase reason s. if se_lock_ok env
            then s\<lparr>security_db := log_security_event (unix_now (se_clock env)) ty phase (Some fp) reason (security_db s)\<rparr>
            else s)
      in case map_of (trusted_peers st) fp of
           Some p \<Rightarrow>
             (if \<not> allows_sensitive_send (trust_level p)
              then
                (let reason = (case freeze_reason p of Some r \<Rightarrow> r
                     | None \<Rightarrow> ''This trusted peer is frozen and must be re-verified before sending.'')
                 in (log ''frozen_send_blocked'' ''outgoing'' reason st, Err (PeerFrozen reason)))
              else service_connect h detail env sv tid fp sources log st)
         | None \<Rightarrow> service_connect h detail env sv tid fp sources log st)"

section \<open>Sequences of commands\<close>

datatype control_cmd =
    AcceptCmd string string
  | RejectCmd string string
  | CancelCmd string
  | CleanupCmd
  | MaintainCmd

text \<open>One command, with the answer it delivers and to which transfer.\<close>

fun control_step :: "clock \<Rightarrow> bool \<Rightarrow> bool \<Rightarrow> (string \<Rightarrow> string) \<Rightarrow> control_cmd \<Rightarrow> app_state \<Rightarrow> app_state \<times> (string \<times> bool) option" where
  "control_step clk lock_ok has_host uuid (AcceptCmd tid nid) st =
     (let r = accept_transfer clk has_host st tid nid in (cr_app r, map_option (Pair tid) (cr_delivered r)))"
| "control_step clk lock_ok has_host uuid (RejectCmd tid nid) st =
     (let r = reject_transfer clk has_host st tid nid in (cr_app r, map_option (Pair tid) (cr_delivered r)))"
| "control_step clk lock_ok has_host uuid (CancelCmd tid) st =
     (let (st1, d, _) = cancel_transfer_inner clk lock_ok has_host tid st in (st1, map_option (Pair tid) d))"
| "control_step clk lock_ok has_host uuid CleanupCmd st = (memory_cleanup (unix_now clk) st, None)"
| "control_step clk lock_ok has_host uuid MaintainCmd st = (notification_maintenance clk uuid st, None)"

fun control_run ::
    "(clock \<times> bool \<times> bool \<times> (string \<Rightarrow> string) \<times> control_cmd) list \<Rightarrow> app_state \<Rightarrow> app_state \<times> (string \<times> bool) list" where
  "control_run [] st = (st, [])"
| "control_run ((clk, lock_ok, has_host, uuid, cmd) # cmds) st =
     (let (st1, d) = control_step clk lock_ok has_host uuid cmd st;
          (st2, ds) = control_run cmds st1
      in (st2, (case d of Some x \<Rightarrow> x # ds | None \<Rightarrow> ds)))"

text \<open>A request that waits for an answer.\<close>

definition waiting_app :: app_state where
  "waiting_app = sample_app\<lparr>transfers := [(''t'', sample_task\<lparr>task_id := ''t'', direction := Receive, status := PendingAccept\<rparr>)],
     pending_accepts := [''t''],
     notifications := [(''t'', \<lparr>notification_id = ''n'', nt_transfer_id = ''t'', nt_active = True, nt_reason_code = None,
       nt_updated_at_unix = 0\<rparr>)]\<rparr>"

section \<open>Facts\<close>

lemma pending_mark_inactive [simp]:
  "pending_accepts (fst (mark_incoming_request_notification_inactive clk i reason st)) = pending_accepts st"
  by (simp add: mark_incoming_request_notification_inactive_def Let_def split: option.split)

lemma pending_emit [simp]: "pending_accepts (emit e st) = pending_accepts st"
  by (simp add: emit_def)

lemma pending_slo [simp]:
  "pending_accepts (record_receiver_prompted clk i fp st) = pending_accepts st"
  "pending_accepts (set_transfer_slo_peer_if_missing i fp st) = pending_accepts st"
  by (simp_all add: record_receiver_prompted_def set_transfer_slo_peer_if_missing_def upd_slo_def split: option.split)

lemma pending_ensure [simp]:
  "pending_accepts (fst (ensure_incoming_request_notification clk uuid i st)) = pending_accepts st"
  by (simp add: ensure_incoming_request_notification_def Let_def split: prod.split)

lemma pending_expire [simp]: "pending_accepts (expire_request clk tid st) = pending_accepts st"
  by (simp add: expire_request_def)

lemma pending_request_expired [simp]: "pending_accepts (cr_app (emit_request_expired hh tid r)) = pending_accepts (cr_app r)"
  by (simp add: emit_request_expired_def)

lemma delivered_request_expired [simp]: "cr_delivered (emit_request_expired hh tid r) = cr_delivered r"
  by (simp add: emit_request_expired_def)

text \<open>Answering takes the responder out of the table and touches no other.\<close>

lemma answer_pending_effect:
  assumes r_def: "r = answer_pending clk a missing st tid nid"
  shows "set (pending_accepts (cr_app r)) \<subseteq> set (pending_accepts st)"
    and "cr_delivered r \<noteq> None \<Longrightarrow> tid \<in> set (pending_accepts st) \<and> tid \<notin> set (pending_accepts (cr_app r))"
  unfolding r_def answer_pending_def take_responder_def Let_def
  by (auto split: incoming_request_action_state.splits if_splits)

lemma cancel_effect:
  assumes "cancel_transfer_inner clk lock_ok hh tid st = (st', d, ok)"
  shows "set (pending_accepts st') = set (pending_accepts st) - {tid}"
    and "d \<noteq> None \<Longrightarrow> tid \<in> set (pending_accepts st)"
  using assms unfolding cancel_transfer_inner_def take_responder_def Let_def
  by (auto split: if_splits option.splits)

lemma pending_fold:
  "(\<And>x s. pending_accepts (f x s) = pending_accepts s) \<Longrightarrow> pending_accepts (fold f xs st) = pending_accepts st"
  by (induction xs arbitrary: st) auto

lemma pending_maintenance:
  "set (pending_accepts (notification_maintenance clk uuid st)) \<subseteq> set (pending_accepts st)"
  unfolding notification_maintenance_def Let_def by (auto simp: pending_fold case_prod_beta)

lemma control_step_effect:
  assumes "control_step clk lock_ok hh uuid cmd st = (st', d)"
  shows "set (pending_accepts st') \<subseteq> set (pending_accepts st)"
    and "d = Some (i, v) \<Longrightarrow> i \<in> set (pending_accepts st) \<and> i \<notin> set (pending_accepts st')"
proof -
  have acc: "set (pending_accepts (cr_app (accept_transfer clk hh st tid nid))) \<subseteq> set (pending_accepts st)"
      "cr_delivered (accept_transfer clk hh st tid nid) \<noteq> None \<Longrightarrow>
        tid \<in> set (pending_accepts st) \<and> tid \<notin> set (pending_accepts (cr_app (accept_transfer clk hh st tid nid)))" for tid nid
    using answer_pending_effect [OF refl, of clk True "Err NotFound" st tid nid]
    by (auto simp: accept_transfer_def accept_pending_transfer_def)
  have rej: "set (pending_accepts (cr_app (reject_transfer clk hh st tid nid))) \<subseteq> set (pending_accepts st)"
      "cr_delivered (reject_transfer clk hh st tid nid) \<noteq> None \<Longrightarrow>
        tid \<in> set (pending_accepts st) \<and> tid \<notin> set (pending_accepts (cr_app (reject_transfer clk hh st tid nid)))" for tid nid
    using answer_pending_effect [OF refl, of clk False "Ok ()" st tid nid]
    by (auto simp: reject_transfer_def reject_pending_transfer_def)
  have can: "set (pending_accepts (fst (cancel_transfer_inner clk lock_ok hh tid st))) = set (pending_accepts st) - {tid}"
      "fst (snd (cancel_transfer_inner clk lock_ok hh tid st)) \<noteq> None \<Longrightarrow> tid \<in> set (pending_accepts st)" for tid
    using cancel_effect [of clk lock_ok hh tid st] by (metis prod.collapse)+
  have "set (pending_accepts st') \<subseteq> set (pending_accepts st) \<and>
      (d = Some (i, v) \<longrightarrow> i \<in> set (pending_accepts st) \<and> i \<notin> set (pending_accepts st'))"
  proof (cases cmd)
    case (AcceptCmd tid nid)
    then show ?thesis using assms acc [of tid nid] by (auto simp: Let_def)
  next
    case (RejectCmd tid nid)
    then show ?thesis using assms rej [of tid nid] by (auto simp: Let_def)
  next
    case (CancelCmd tid)
    then show ?thesis using assms can [of tid] by (auto simp: case_prod_beta)
  qed (use assms pending_maintenance [of clk uuid st] in \<open>auto simp: memory_cleanup_def\<close>)
  then show "set (pending_accepts st') \<subseteq> set (pending_accepts st)"
    and "d = Some (i, v) \<Longrightarrow> i \<in> set (pending_accepts st) \<and> i \<notin> set (pending_accepts st')" by blast+
qed

lemma cancel_inner_registered:
  assumes "map_of (transfers st) tid = Some t"
  shows "map_of (transfers (fst (cancel_transfer_inner clk lock_ok hh tid st))) = (map_of (transfers st))(tid \<mapsto> cancelled_task clk t)"
    and "metrics (fst (cancel_transfer_inner clk lock_ok hh tid st)) =
      record_transfer_terminal (direction t) (cancel_status (direction t)) (bytes_transferred t) (metrics st)"
    and "snd (snd (cancel_transfer_inner clk lock_ok hh tid st))"
    and "map fst (transfers (fst (cancel_transfer_inner clk lock_ok hh tid st))) = map fst (transfers st)"
  using assms imageI [OF map_of_SomeD [OF assms], of fst]
  by (auto simp: cancel_transfer_inner_def take_responder_def Let_def cancelled_task_def emit_def update_conv' update_keys
      split: if_splits)

lemma cancelled_task_status [simp]: "status (cancelled_task clk t) = cancel_status (direction t)"
  by (simp add: cancelled_task_def Let_def)

lemma cancel_status_terminal [simp]: "is_terminal (cancel_status d)"
  by (cases d) (simp_all add: cancel_status_def)

lemma cancel_each_all:
  assumes "set is \<subseteq> set (map fst (transfers st))" and "cancel_each clk lock_ok hh is st = (st', n)"
  shows "n = length is \<and> map fst (transfers st') = map fst (transfers st) \<and>
    (\<forall>i t'. map_of (transfers st') i = Some t' \<longrightarrow>
       (if i \<in> set is then is_terminal (status t') else map_of (transfers st) i = Some t'))"
  using assms
proof (induction "is" arbitrary: st n)
  case (Cons i "is")
  obtain t where t: "map_of (transfers st) i = Some t" using Cons.prems(1) by (cases "map_of (transfers st) i") (auto simp: map_of_eq_None_iff)
  let ?st1 = "fst (cancel_transfer_inner clk lock_ok hh i st)"
  note c = cancel_inner_registered [OF t, of clk lock_ok hh]
  obtain m where m: "cancel_each clk lock_ok hh is ?st1 = (st', m)" "n = m + 1"
    using Cons.prems(2) c(3) by (auto simp: Let_def split: prod.splits)
  have sub: "set is \<subseteq> set (map fst (transfers ?st1))" using Cons.prems(1) c(4) by simp
  have IH: "m = length is" "map fst (transfers st') = map fst (transfers ?st1)"
    "\<And>j t'. map_of (transfers st') j = Some t' \<Longrightarrow>
       if j \<in> set is then is_terminal (status t') else map_of (transfers ?st1) j = Some t'"
    using Cons.IH [OF sub m(1)] by auto
  have "if j \<in> set (i # is) then is_terminal (status t') else map_of (transfers st) j = Some t'"
    if "map_of (transfers st') j = Some t'" for j t'
    using IH(3) [OF that] c(1) by (auto split: if_splits)
  then show ?case using IH(1,2) m(2) c(4) by auto
qed auto

lemma fold_emit [simp]:
  "transfers (fold emit es st) = transfers st" "metrics (fold emit es st) = metrics st"
  by (induction es arbitrary: st) (simp_all add: emit_def)

lemma finish_send_registered:
  assumes "map_of (transfers st) tid = Some t"
  shows "\<exists>t'. map_of (transfers (finish_send env tid n oc st)) tid = Some t' \<and> status t' = outcome_status oc"
    and "metrics (finish_send env tid n oc st) =
      record_transfer_terminal (direction t) (outcome_status oc) (bytes_transferred t) (metrics st)"
  using assms
  by (simp_all add: finish_send_def close_task_def Let_def update_conv' flush_progress_persist_now_def)

lemma outcome_status_terminal [simp]: "is_terminal (outcome_status oc)"
  by (cases oc) (simp_all add: outcome_status_def)

section \<open>Properties\<close>

text \<open>
  C32: An incoming request is answered at most once.  Whatever sequence of accept, reject and cancel
  commands, of any clients and for any notification ids, interleaved with the maintenance loops, runs
  after an offer handler has registered, it delivers at most one answer to that handler, and none to a
  transfer nobody waits for.
\<close>

theorem answered_at_most_once:
  "length (filter (\<lambda>x. fst x = tid) (snd (control_run cmds st))) \<le> (if tid \<in> set (pending_accepts st) then 1 else 0)"
proof (induction cmds st rule: control_run.induct)
  case (2 clk lock_ok hh uuid cmd cmds st)
  obtain st1 d where step: "control_step clk lock_ok hh uuid cmd st = (st1, d)"
    by (cases "control_step clk lock_ok hh uuid cmd st")
  let ?n = "length (filter (\<lambda>x. fst x = tid) (snd (control_run cmds st1)))"
  have IH: "?n \<le> (if tid \<in> set (pending_accepts st1) then 1 else 0)" using "2.IH" [OF step [symmetric] refl] .
  have sub: "set (pending_accepts st1) \<subseteq> set (pending_accepts st)" using control_step_effect(1) [OF step] .
  show ?case
  proof (cases "\<exists>v. d = Some (tid, v)")
    case True
    then have "tid \<in> set (pending_accepts st)" "tid \<notin> set (pending_accepts st1)"
      using control_step_effect(2) [OF step] by blast+
    then show ?thesis using True IH by (auto simp: step split: prod.splits)
  next
    case False
    then have "length (filter (\<lambda>x. fst x = tid) (snd (control_run ((clk, lock_ok, hh, uuid, cmd) # cmds) st))) = ?n"
      by (auto simp: step split: prod.splits option.splits)
    then show ?thesis using IH sub by (auto split: if_splits)
  qed
qed simp


text \<open>
  Only the current prompt can accept.  An accept command releases the waiting handler exactly when
  there is one and the request is still open under the given notification: the transfer is pending (or
  no longer in the table) and its notification is active and has this id.  A stale or expired prompt never
  starts a transfer.
\<close>

theorem accept_needs_current_notification:
  "cr_delivered (accept_transfer clk has_host st tid nid) = Some True \<longleftrightarrow>
     tid \<in> set (pending_accepts st) \<and>
     (case map_of (transfers st) tid of
        Some t \<Rightarrow> status t = PendingAccept \<and>
          (case map_of (notifications st) tid of Some n \<Rightarrow> nt_active n \<and> notification_id n = nid | None \<Rightarrow> False)
      | None \<Rightarrow> (case map_of (notifications st) tid of Some n \<Rightarrow> nt_active n \<and> notification_id n = nid | None \<Rightarrow> True))"
proof -
  have "cr_delivered (accept_transfer clk has_host st tid nid) = Some True \<longleftrightarrow>
      tid \<in> set (pending_accepts st) \<and> incoming_request_action_state st tid nid = Pending"
    by (auto simp: accept_transfer_def accept_pending_transfer_def answer_pending_def take_responder_def Let_def
        split: incoming_request_action_state.splits if_splits)
  moreover have "incoming_request_action_state st tid nid = Pending \<longleftrightarrow>
      (case map_of (transfers st) tid of
         Some t \<Rightarrow> status t = PendingAccept \<and>
           (case map_of (notifications st) tid of Some n \<Rightarrow> nt_active n \<and> notification_id n = nid | None \<Rightarrow> False)
       | None \<Rightarrow> (case map_of (notifications st) tid of Some n \<Rightarrow> nt_active n \<and> notification_id n = nid | None \<Rightarrow> True))"
    if "tid \<in> set (pending_accepts st)"
    using that
    by (auto simp: incoming_request_action_state_def incoming_request_notification_def Let_def
        split: option.splits transfer_status.splits if_splits)
  ultimately show ?thesis by blast
qed

text \<open>
  Cancelling everything stops everything.  After \<^verbatim>\<open>cancel_all_transfers\<close> no transfer is pending or
  running, and the reported number is that of the transfers that were.
\<close>

theorem cancel_all_stops_everything:
  assumes "distinct (map fst (transfers st))"
  shows "count_with PendingAccept (fst (cancel_all_transfers clk lock_ok has_host st)) = 0 \<and>
    count_with Transferring (fst (cancel_all_transfers clk lock_ok has_host st)) = 0 \<and>
    snd (cancel_all_transfers clk lock_ok has_host st) = count_with PendingAccept st + count_with Transferring st"
proof -
  obtain st' n where run: "cancel_each clk lock_ok has_host (active_ids st) st = (st', n)"
    by (cases "cancel_each clk lock_ok has_host (active_ids st) st")
  have "set (active_ids st) \<subseteq> set (map fst (transfers st))" by (auto simp: active_ids_def)
  note c = cancel_each_all [OF this run]
  have inactive: "status t' \<noteq> PendingAccept \<and> status t' \<noteq> Transferring" if "(i, t') \<in> set (transfers st')" for i t'
  proof -
    have lk: "map_of (transfers st') i = Some t'" using that assms c by (intro map_of_is_SomeI) auto
    show ?thesis
    proof (cases "i \<in> set (active_ids st)")
      case False
      then have "(i, t') \<in> set (transfers st)" using c lk by (metis map_of_SomeD)
      then show ?thesis using False by (force simp: active_ids_def)
    next
      case True
      then have "is_terminal (status t')" using c lk by metis
      then show ?thesis by auto
    qed
  qed
  have "length (filter (\<lambda>(i, t). status t = PendingAccept \<or> status t = Transferring) ts) =
      length (filter (\<lambda>(i, t). status t = PendingAccept) ts) + length (filter (\<lambda>(i, t). status t = Transferring) ts)"
    for ts :: "(string \<times> transfer_task) list"
    by (induction ts) auto
  then have "length (active_ids st) = count_with PendingAccept st + count_with Transferring st"
    by (simp add: active_ids_def count_with_def)
  then show ?thesis
    using inactive run c by (auto simp: cancel_all_transfers_def count_with_def filter_empty_conv)
qed

theorem cancel_all_stops_everything_witness:
  "count_with PendingAccept (fst (cancel_all_transfers sample_clock True True waiting_app)) = 0 \<and>
   snd (cancel_all_transfers sample_clock True True waiting_app) = 1"
proof -
  have "distinct (map fst (transfers waiting_app))" "count_with PendingAccept waiting_app + count_with Transferring waiting_app = 1"
    by (simp_all add: waiting_app_def count_with_def)
  with cancel_all_stops_everything [of waiting_app sample_clock True True] show ?thesis by simp
qed


text \<open>
  A cancellation by the sending user is overwritten and counted twice.  The command cancels the
  running transfer, records it and closes the connection; the sending task then ends with whatever outcome
  the closed connection gives it, replaces the status Cancelled by that of the outcome, and adds to
  the terminal counters a second time.
\<close>

theorem cancelled_send_counted_twice:
  assumes "map_of (transfers st) tid = Some t" and "terminal_total (metrics st) + 1 < U64_MAX"
    and "st1 = fst (cancel_transfer_inner clk lock_ok has_host tid st)" and "st2 = finish_send env tid n oc st1"
  shows "terminal_total (metrics st2) = terminal_total (metrics st) + 2 \<and>
    (\<exists>t'. map_of (transfers st2) tid = Some t' \<and> status t' = outcome_status oc)"
proof -
  note c = cancel_inner_registered [OF assms(1), of clk lock_ok has_host, folded assms(3)]
  have lk: "map_of (transfers st1) tid = Some (cancelled_task clk t)" using c(1) by simp
  note f = finish_send_registered [OF lk, of env n oc, folded assms(4)]
  have "terminal_total (metrics st1) = terminal_total (metrics st) + 1"
    using c(2) assms(2) by (simp add: record_terminal_total)
  then have "terminal_total (metrics st2) = terminal_total (metrics st) + 2"
    using f(2) assms(2) by (simp add: record_terminal_total)
  then show ?thesis using f(1) by blast
qed

theorem cancelled_send_counted_twice_witness:
  "terminal_total (metrics (finish_send sample_send_env ''t1'' 1 (OutcomeFailed Cancelled)
     (fst (cancel_transfer_inner sample_clock True True ''t1'' (sample_app\<lparr>transfers := [(''t1'', sample_task)]\<rparr>))))) = 2"
proof -
  let ?st = "sample_app\<lparr>transfers := [(''t1'', sample_task)]\<rparr>"
  have "terminal_total (metrics ?st) = 0" by (simp add: sample_app_def terminal_total_def default_metrics_def)
  moreover have "(1::nat) < U64_MAX" by (simp add: U64_MAX_def)
  ultimately show ?thesis
    using cancelled_send_counted_twice [of ?st "''t1''" sample_task _ sample_clock True True _ sample_send_env 1
        "OutcomeFailed Cancelled", OF _ _ refl refl]
    by simp
qed


end
