(* ===== verification/EventJournal.thy ===== *)
theory EventJournal
  imports Prelude "HOL-Library.AList" "HOL-Library.List_Lexorder" "HOL-Library.Char_ord"
begin

text \<open>
  The persisted runtime-event journal of \<^verbatim>\<open>db.rs\<close>: the tables \<^verbatim>\<open>runtime_event_meta\<close>,
  \<^verbatim>\<open>runtime_event_journal\<close>, \<^verbatim>\<open>runtime_event_segments\<close> and \<^verbatim>\<open>runtime_event_checkpoints\<close>, and every
  function that reads or writes them.  A table is the list of its rows in insertion order; the single
  row of \<^verbatim>\<open>runtime_event_meta\<close> is kept as fields of the journal.  A stored envelope stands for its JSON
  text.  Sequence numbers are naturals (\<^verbatim>\<open>AtomicU64\<close> in the code, stored as SQLite integers): the
  range of a signed 64-bit integer is not reached by counting events.
\<close>

section \<open>Data\<close>

definition RUNTIME_EVENT_FEED_CAPACITY :: nat where
  "RUNTIME_EVENT_FEED_CAPACITY = 1024"

definition RUNTIME_EVENT_PERSISTED_JOURNAL_CAPACITY :: nat where
  "RUNTIME_EVENT_PERSISTED_JOURNAL_CAPACITY = 10000"

definition RUNTIME_EVENT_PERSISTED_JOURNAL_MAX_CAPACITY :: nat where
  "RUNTIME_EVENT_PERSISTED_JOURNAL_MAX_CAPACITY = 100000"

definition RUNTIME_EVENT_PERSISTED_SEGMENT_SIZE :: nat where
  "RUNTIME_EVENT_PERSISTED_SEGMENT_SIZE = 1000"

record envelope =
  e_seq :: nat
  e_event :: string
  e_payload :: string
  e_emitted_at_unix_ms :: nat

record journal_row =
  j_seq :: nat
  j_generation :: string
  j_envelope :: envelope
  j_segment_id :: nat

record segment_row =
  s_generation :: string
  s_id :: nat
  s_first_seq :: nat
  s_last_seq :: nat
  s_event_count :: nat
  s_created_at_unix_ms :: nat
  s_sealed_at_unix_ms :: "nat option"
  s_compacted_at_unix_ms :: "nat option"

record checkpoint =
  consumer_id :: string
  c_generation :: string
  c_seq :: nat
  updated_at_unix_ms :: nat
  created_at_unix_ms :: "nat option"
  last_read_at_unix_ms :: "nat option"
  lease_expires_at_unix_ms :: "nat option"
  c_revision :: "nat option"
  last_transition :: "string option"
  recovery_hint :: "string option"
  current_oldest_available_seq :: "nat option"
  current_latest_available_seq :: "nat option"
  current_compaction_watermark_seq :: "nat option"
  current_compaction_watermark_segment_id :: "nat option"

record journal =
  meta_generation :: string
  meta_last_seq :: nat
  meta_watermark_seq :: nat
  meta_watermark_segment_id :: nat
  meta_last_compacted_at :: "nat option"
  journal_rows :: "journal_row list"
  segments_tbl :: "segment_row list"
  checkpoints_tbl :: "checkpoint list"

record journal_stats =
  st_generation :: string
  st_active_segment_count :: nat
  st_oldest_active_segment_id :: "nat option"
  st_latest_active_segment_id :: "nat option"
  st_compacted_segment_count :: nat
  st_latest_compacted_segment_id :: "nat option"
  st_compaction_watermark_seq :: nat
  st_compaction_watermark_segment_id :: nat
  st_last_compacted_at_unix_ms :: "nat option"

section \<open>Opening the tables\<close>

text \<open>The empty tables with the meta row that the first call inserts; \<open>gen\<close> is the fresh UUID.\<close>

definition new_journal :: "string \<Rightarrow> journal" where
  "new_journal gen =
     \<lparr>meta_generation = gen, meta_last_seq = 0, meta_watermark_seq = 0, meta_watermark_segment_id = 0,
      meta_last_compacted_at = None, journal_rows = [], segments_tbl = [], checkpoints_tbl = []\<rparr>"

definition segment_of :: "nat \<Rightarrow> nat" where
  "segment_of s = sat_sub s 1 div RUNTIME_EVENT_PERSISTED_SEGMENT_SIZE + 1"

definition backfill_segment_id :: "journal_row \<Rightarrow> journal_row" where
  "backfill_segment_id r =
     (if j_seq r > 0 \<and> j_segment_id r = 0 then r\<lparr>j_segment_id := segment_of (j_seq r)\<rparr> else r)"

definition row_key :: "journal_row \<Rightarrow> string \<times> nat" where
  "row_key r = (j_generation r, j_segment_id r)"

definition seg_key :: "segment_row \<Rightarrow> string \<times> nat" where
  "seg_key s = (s_generation s, s_id s)"

definition group_seqs :: "journal_row list \<Rightarrow> string \<times> nat \<Rightarrow> nat list" where
  "group_seqs rows k = map j_seq (filter (\<lambda>r. row_key r = k) rows)"

definition min_seq :: "nat list \<Rightarrow> nat" where
  "min_seq xs = (case list_min xs of Some m \<Rightarrow> m | None \<Rightarrow> 0)"

definition max_seq :: "nat list \<Rightarrow> nat" where
  "max_seq xs = (case list_max xs of Some m \<Rightarrow> m | None \<Rightarrow> 0)"

text \<open>One group of the \<^verbatim>\<open>INSERT ... SELECT ... GROUP BY ... ON CONFLICT DO UPDATE\<close>.\<close>

definition merge_group :: "journal_row list \<Rightarrow> segment_row list \<Rightarrow> string \<times> nat \<Rightarrow> segment_row list" where
  "merge_group rows segs k =
     (let xs = group_seqs rows k in
      if list_ex (\<lambda>s. seg_key s = k) segs
      then map (\<lambda>s. if seg_key s = k
             then s\<lparr>s_first_seq := min (s_first_seq s) (min_seq xs),
                    s_last_seq := max (s_last_seq s) (max_seq xs),
                    s_event_count := max (s_event_count s) (length xs)\<rparr>
             else s) segs
      else segs @ [\<lparr>s_generation = fst k, s_id = snd k, s_first_seq = min_seq xs,
                    s_last_seq = max_seq xs, s_event_count = length xs, s_created_at_unix_ms = 0,
                    s_sealed_at_unix_ms = None, s_compacted_at_unix_ms = None\<rparr>])"

definition ensure_runtime_event_tables :: "journal \<Rightarrow> journal" where
  "ensure_runtime_event_tables j =
     (let rows = map backfill_segment_id (journal_rows j) in
      j\<lparr>journal_rows := rows,
        segments_tbl := foldl (merge_group rows) (segments_tbl j) (remdups (map row_key rows))\<rparr>)"

section \<open>Reading\<close>

definition generation_seqs :: "journal \<Rightarrow> string \<Rightarrow> nat list" where
  "generation_seqs j g = map j_seq (filter (\<lambda>r. j_generation r = g) (journal_rows j))"

definition load_runtime_event_state ::
    "journal \<Rightarrow> nat \<Rightarrow> journal \<times> string \<times> nat option \<times> nat \<times> envelope list" where
  "load_runtime_event_state j0 limit =
     (let j = ensure_runtime_event_tables j0;
          g = meta_generation j;
          newest_first = rev (sort_key j_seq (filter (\<lambda>r. j_generation r = g) (journal_rows j)))
      in (j, g, list_min (generation_seqs j g), meta_last_seq j,
          rev (map j_envelope (take limit newest_first))))"

definition load_runtime_events_after :: "journal \<Rightarrow> nat \<Rightarrow> nat \<Rightarrow> journal \<times> envelope list" where
  "load_runtime_events_after j0 after_seq limit =
     (let j = ensure_runtime_event_tables j0;
          rows = filter (\<lambda>r. j_seq r > after_seq \<and> j_generation r = meta_generation j) (journal_rows j)
      in (j, map j_envelope (take limit (sort_key j_seq rows))))"

definition load_runtime_event_journal_stats :: "journal \<Rightarrow> journal \<times> journal_stats" where
  "load_runtime_event_journal_stats j0 =
     (let j = ensure_runtime_event_tables j0;
          mine = filter (\<lambda>s. s_generation s = meta_generation j) (segments_tbl j);
          active = filter (\<lambda>s. s_compacted_at_unix_ms s = None) mine;
          compacted = filter (\<lambda>s. s_compacted_at_unix_ms s \<noteq> None) mine
      in (j, \<lparr>st_generation = meta_generation j,
              st_active_segment_count = length active,
              st_oldest_active_segment_id = list_min (map s_id active),
              st_latest_active_segment_id = list_max (map s_id active),
              st_compacted_segment_count = length compacted,
              st_latest_compacted_segment_id = list_max (map s_id compacted),
              st_compaction_watermark_seq = meta_watermark_seq j,
              st_compaction_watermark_segment_id = meta_watermark_segment_id j,
              st_last_compacted_at_unix_ms = meta_last_compacted_at j\<rparr>))"

section \<open>Checkpoints\<close>

definition load_checkpoint :: "journal \<Rightarrow> string \<Rightarrow> journal \<times> checkpoint option" where
  "load_checkpoint j0 cid =
     (let j = ensure_runtime_event_tables j0
      in (j, find (\<lambda>c. consumer_id c = cid) (checkpoints_tbl j)))"

definition save_checkpoint :: "journal \<Rightarrow> checkpoint \<Rightarrow> journal" where
  "save_checkpoint j0 c =
     (let j = ensure_runtime_event_tables j0 in
      j\<lparr>checkpoints_tbl :=
         (if list_ex (\<lambda>d. consumer_id d = consumer_id c) (checkpoints_tbl j)
          then map (\<lambda>d. if consumer_id d = consumer_id c then c else d) (checkpoints_tbl j)
          else checkpoints_tbl j @ [c])\<rparr>)"

definition delete_checkpoint :: "journal \<Rightarrow> string \<Rightarrow> journal" where
  "delete_checkpoint j0 cid =
     (let j = ensure_runtime_event_tables j0 in
      j\<lparr>checkpoints_tbl := filter (\<lambda>c. consumer_id c \<noteq> cid) (checkpoints_tbl j)\<rparr>)"

definition prune_checkpoints :: "journal \<Rightarrow> nat \<Rightarrow> journal \<times> nat" where
  "prune_checkpoints j0 stale_before =
     (let j = ensure_runtime_event_tables j0;
          kept = filter (\<lambda>c. \<not> updated_at_unix_ms c \<le> stale_before) (checkpoints_tbl j)
      in (j\<lparr>checkpoints_tbl := kept\<rparr>, length (checkpoints_tbl j) - length kept))"

definition list_checkpoints :: "journal \<Rightarrow> journal \<times> checkpoint list" where
  "list_checkpoints j0 =
     (let j = ensure_runtime_event_tables j0
      in (j, sort_key (\<lambda>c. - int (updated_at_unix_ms c)) (sort_key consumer_id (checkpoints_tbl j))))"

section \<open>Appending\<close>

definition insert_row :: "journal_row \<Rightarrow> journal_row list \<Rightarrow> journal_row list" where
  "insert_row r rows = filter (\<lambda>q. j_seq q \<noteq> j_seq r) rows @ [r]"

definition touch_segment :: "string \<Rightarrow> nat \<Rightarrow> envelope \<Rightarrow> segment_row list \<Rightarrow> segment_row list" where
  "touch_segment g i e segs =
     (if list_ex (\<lambda>s. seg_key s = (g, i)) segs
      then map (\<lambda>s. if seg_key s = (g, i)
             then s\<lparr>s_last_seq := max (s_last_seq s) (e_seq e),
                    s_event_count := max (s_event_count s) (e_seq e - s_first_seq s + 1)\<rparr>
             else s) segs
      else segs @ [\<lparr>s_generation = g, s_id = i, s_first_seq = e_seq e, s_last_seq = e_seq e,
                    s_event_count = 1, s_created_at_unix_ms = e_emitted_at_unix_ms e,
                    s_sealed_at_unix_ms = None, s_compacted_at_unix_ms = None\<rparr>])"

definition seal_segments :: "string \<Rightarrow> nat \<Rightarrow> nat \<Rightarrow> segment_row list \<Rightarrow> segment_row list" where
  "seal_segments g i now =
     map (\<lambda>s. if s_generation s = g \<and> s_id s < i \<and> s_compacted_at_unix_ms s = None
                 \<and> s_sealed_at_unix_ms s = None
              then s\<lparr>s_sealed_at_unix_ms := Some now\<rparr> else s)"

definition compact_segments :: "string \<Rightarrow> (nat \<Rightarrow> bool) \<Rightarrow> nat \<Rightarrow> segment_row list \<Rightarrow> segment_row list" where
  "compact_segments g dead now =
     map (\<lambda>s. if s_generation s = g \<and> dead (s_id s) \<and> s_compacted_at_unix_ms s = None
              then s\<lparr>s_compacted_at_unix_ms := Some now\<rparr> else s)"

definition pins :: "string \<Rightarrow> nat \<Rightarrow> nat \<Rightarrow> checkpoint \<Rightarrow> bool" where
  "pins g active_after floor_seq c =
     (c_generation c = g \<and> updated_at_unix_ms c > active_after \<and> c_seq c \<ge> floor_seq \<and>
      (case recovery_hint c of None \<Rightarrow> True | Some h \<Rightarrow> h \<noteq> ''resync_required''))"

definition retained_from :: "journal \<Rightarrow> string \<Rightarrow> nat \<Rightarrow> nat \<Rightarrow> nat \<Rightarrow> nat \<Rightarrow> nat" where
  "retained_from j g s keep_latest max_keep_latest active_after =
     (let baseline = (if keep_latest = 0 then sat_add s 1
                      else max (sat_sub s (keep_latest - 1)) 1);
          max_retained = max (sat_sub s (max_keep_latest - 1)) 1;
          oldest_pinned = list_min (map c_seq
             (filter (pins g active_after (sat_sub max_retained 1)) (checkpoints_tbl j)));
          protected_from = (case oldest_pinned of
             Some p \<Rightarrow> max (sat_add p 1) 1 | None \<Rightarrow> baseline)
      in max max_retained (min baseline protected_from))"

definition compact :: "journal \<Rightarrow> string \<Rightarrow> envelope \<Rightarrow> nat \<Rightarrow> nat \<Rightarrow> nat \<Rightarrow> journal" where
  "compact j g e keep_latest max_keep_latest active_after =
     (if max_keep_latest = 0
      then j\<lparr>journal_rows := [],
             segments_tbl := compact_segments g (\<lambda>_. True) (e_emitted_at_unix_ms e) (segments_tbl j)\<rparr>
      else
        (let i = segment_of (retained_from j g (e_seq e) keep_latest max_keep_latest active_after)
         in j\<lparr>segments_tbl :=
                compact_segments g (\<lambda>k. k < i) (e_emitted_at_unix_ms e) (segments_tbl j),
              journal_rows :=
                filter (\<lambda>r. \<not> (j_generation r = g \<and> j_segment_id r < i)) (journal_rows j)\<rparr>))"

definition update_watermark :: "journal \<Rightarrow> string \<Rightarrow> journal" where
  "update_watermark j g =
     (let dead = filter (\<lambda>s. s_generation s = g \<and> s_compacted_at_unix_ms s \<noteq> None) (segments_tbl j)
      in j\<lparr>meta_watermark_seq := max_seq (map s_last_seq dead),
           meta_watermark_segment_id := max_seq (map s_id dead),
           meta_last_compacted_at := list_max (List.map_filter s_compacted_at_unix_ms dead)\<rparr>)"

definition append_runtime_event ::
    "journal \<Rightarrow> string \<Rightarrow> envelope \<Rightarrow> nat \<Rightarrow> nat \<Rightarrow> nat \<Rightarrow> journal \<times> nat option" where
  "append_runtime_event j0 g e keep_latest max_keep_latest active_after =
     (let j = ensure_runtime_event_tables j0;
          i = segment_of (e_seq e);
          r = \<lparr>j_seq = e_seq e, j_generation = g, j_envelope = e, j_segment_id = i\<rparr>;
          j1 = j\<lparr>journal_rows := insert_row r (journal_rows j),
                 meta_generation := g, meta_last_seq := e_seq e,
                 segments_tbl := seal_segments g i (e_emitted_at_unix_ms e)
                   (touch_segment g i e (segments_tbl j))\<rparr>;
          j2 = update_watermark (compact j1 g e keep_latest max_keep_latest active_after) g
      in (j2, list_min (generation_seqs j2 g)))"

section \<open>What the journal holds\<close>

text \<open>
  \<open>journal_holds g H k j\<close>: of the history \<open>H\<close> of all appended events, whose sequence numbers are
  \<open>1, 2, \<dots>\<close>, the journal \<open>j\<close> of generation \<open>g\<close> holds everything but the first \<open>k\<close> segments; its
  segment table describes every segment of \<open>H\<close> and marks exactly those as compacted, and its
  watermark is the last dropped event.
\<close>

definition hist_ok :: "envelope list \<Rightarrow> bool" where
  "hist_ok H = (map e_seq H = [1..<Suc (length H)])"

definition row_of_event :: "string \<Rightarrow> envelope \<Rightarrow> journal_row" where
  "row_of_event g e =
     \<lparr>j_seq = e_seq e, j_generation = g, j_envelope = e, j_segment_id = segment_of (e_seq e)\<rparr>"

definition seg_view :: "segment_row \<Rightarrow> string \<times> nat \<times> nat \<times> nat \<times> nat \<times> bool" where
  "seg_view s = (s_generation s, s_id s, s_first_seq s, s_last_seq s, s_event_count s,
     s_compacted_at_unix_ms s \<noteq> None)"

definition seg_spec :: "string \<Rightarrow> nat \<Rightarrow> nat \<Rightarrow> nat \<Rightarrow> string \<times> nat \<times> nat \<times> nat \<times> nat \<times> bool" where
  "seg_spec g n k i =
     (g, i, 1000 * (i - 1) + 1, min (1000 * i) n, min (1000 * i) n - 1000 * (i - 1), i \<le> k)"

definition segment_total :: "nat \<Rightarrow> nat" where
  "segment_total n = (n + 999) div 1000"

definition segments_hold :: "string \<Rightarrow> nat \<Rightarrow> nat \<Rightarrow> segment_row list \<Rightarrow> bool" where
  "segments_hold g n k segs = (map seg_view segs = map (seg_spec g n k) [1..<Suc (segment_total n)])"

definition journal_holds :: "string \<Rightarrow> envelope list \<Rightarrow> nat \<Rightarrow> journal \<Rightarrow> bool" where
  "journal_holds g H k j =
     (meta_generation j = g \<and> meta_last_seq j = length H \<and> 1000 * k \<le> length H \<and>
      journal_rows j = map (row_of_event g) (drop (1000 * k) H) \<and>
      segments_hold g (length H) k (segments_tbl j) \<and>
      meta_watermark_seq j = 1000 * k \<and> meta_watermark_segment_id j = k)"

section \<open>Facts\<close>

lemma segment_of_pos: "segment_of s = (s - 1) div 1000 + 1"
  by (simp add: segment_of_def RUNTIME_EVENT_PERSISTED_SEGMENT_SIZE_def sat_sub_eq)

lemma segment_of_less: "0 < s \<Longrightarrow> segment_of s < i \<longleftrightarrow> s \<le> 1000 * (i - 1)"
  unfolding segment_of_pos by (cases i) (auto simp: div_less_iff_less_mult less_mult_imp_div_less)

lemma segment_of_bounds:
  assumes "0 < s"
  shows "1000 * (segment_of s - 1) + 1 \<le> s" and "s \<le> 1000 * segment_of s"
  using assms unfolding segment_of_pos by simp_all

lemma segment_of_total: "0 < s \<Longrightarrow> s \<le> n \<Longrightarrow> segment_of s \<le> segment_total n"
proof -
  assume "0 < s" "s \<le> n"
  then have "(s - 1 + 1000) div 1000 \<le> (n + 999) div 1000" by (intro div_le_mono) simp
  then show ?thesis by (simp add: segment_of_pos segment_total_def)
qed

lemma hist_ok_Nil [simp]: "hist_ok []"
  by (simp add: hist_ok_def)

lemma hist_ok_snoc [simp]: "hist_ok (H @ [e]) \<longleftrightarrow> hist_ok H \<and> e_seq e = Suc (length H)"
  by (auto simp: hist_ok_def)

lemma hist_ok_nth:
  assumes "hist_ok H" and "i < length H"
  shows "e_seq (H ! i) = Suc i"
proof -
  have "e_seq (H ! i) = map e_seq H ! i" using assms(2) by simp
  also have "\<dots> = [1..<Suc (length H)] ! i" using assms(1) by (simp only: hist_ok_def)
  also have "\<dots> = Suc i" using assms(2) by (simp del: upt_Suc)
  finally show ?thesis .
qed

lemma hist_ok_drop_seqs:
  assumes "hist_ok H" shows "map e_seq (drop d H) = [Suc d..<Suc (length H)]"
  using assms by (simp add: hist_ok_def drop_map [symmetric] drop_upt del: upt_Suc)

lemma hist_ok_drop_mem:
  assumes "hist_ok H" and "e \<in> set (drop d H)"
  shows "d < e_seq e" and "e_seq e \<le> length H"
proof -
  have "e_seq e \<in> set (map e_seq (drop d H))" using assms(2) by simp
  then have "e_seq e \<in> set [Suc d..<Suc (length H)]" using hist_ok_drop_seqs [OF assms(1)] by simp
  then show "d < e_seq e" "e_seq e \<le> length H" by auto
qed

lemma filter_seq_drop:
  assumes "hist_ok H"
  shows "filter (\<lambda>e. a < e_seq e) (drop d H) = drop (max d a) H"
proof -
  have low: "filter (\<lambda>e. a < e_seq e) (take (a - d) (drop d H)) = []"
  proof (rule filter_False, rule ballI)
    fix e assume "e \<in> set (take (a - d) (drop d H))"
    then obtain i where "i < a - d" "i < length (drop d H)" "e = drop d H ! i"
      by (auto simp: in_set_conv_nth)
    then show "\<not> a < e_seq e" using hist_ok_nth [OF assms, of "d + i"] by simp
  qed
  have eq: "drop (a - d) (drop d H) = drop (max d a) H"
    by (simp add: max_def add.commute)
  have high: "filter (\<lambda>e. a < e_seq e) (drop (max d a) H) = drop (max d a) H"
    using hist_ok_drop_mem(1) [OF assms, of _ "max d a"] by (auto simp: filter_id_conv)
  have "filter (\<lambda>e. a < e_seq e) (drop d H) =
      filter (\<lambda>e. a < e_seq e) (take (a - d) (drop d H) @ drop (a - d) (drop d H))"
    by (simp only: append_take_drop_id)
  then show ?thesis by (simp only: filter_append low eq high append_Nil)
qed

lemma sort_rows:
  assumes "hist_ok H"
  shows "sort_key j_seq (map (row_of_event g) (drop d H)) = map (row_of_event g) (drop d H)"
proof -
  have "map j_seq (map (row_of_event g) (drop d H)) = map e_seq (drop d H)"
    by (simp add: row_of_event_def)
  then have "sorted (map j_seq (map (row_of_event g) (drop d H)))"
    using hist_ok_drop_seqs [OF assms, of d] by (simp del: upt_Suc map_map)
  then show ?thesis by (rule sort_key_id_if_sorted)
qed

lemma seg_key_view: "seg_key s = (fst (seg_view s), fst (snd (seg_view s)))"
  by (simp add: seg_key_def seg_view_def)

lemma segments_hold_mem:
  assumes "segments_hold g n k segs" and "s \<in> set segs"
  shows "s_generation s = g" and "1 \<le> s_id s" and "s_id s \<le> segment_total n"
    and "s_first_seq s = 1000 * (s_id s - 1) + 1" and "s_last_seq s = min (1000 * s_id s) n"
    and "s_event_count s = min (1000 * s_id s) n - 1000 * (s_id s - 1)"
    and "s_compacted_at_unix_ms s \<noteq> None \<longleftrightarrow> s_id s \<le> k"
proof -
  have "seg_view s \<in> seg_spec g n k ` set [1..<Suc (segment_total n)]"
    using assms unfolding segments_hold_def by (metis image_eqI list.set_map)
  then show "s_generation s = g" "1 \<le> s_id s" "s_id s \<le> segment_total n"
    "s_first_seq s = 1000 * (s_id s - 1) + 1" "s_last_seq s = min (1000 * s_id s) n"
    "s_event_count s = min (1000 * s_id s) n - 1000 * (s_id s - 1)"
    "s_compacted_at_unix_ms s \<noteq> None \<longleftrightarrow> s_id s \<le> k"
    by (auto simp: seg_view_def seg_spec_def)
qed

lemma segments_hold_ex:
  assumes "segments_hold g n k segs"
  shows "list_ex (\<lambda>s. seg_key s = (g, i)) segs \<longleftrightarrow> 1 \<le> i \<and> i \<le> segment_total n"
proof -
  have "list_ex (\<lambda>s. seg_key s = (g, i)) segs \<longleftrightarrow>
      (g, i) \<in> (\<lambda>v. (fst v, fst (snd v))) ` set (map seg_view segs)"
    by (auto simp: list_ex_iff seg_key_view image_iff)
  also have "\<dots> \<longleftrightarrow> 1 \<le> i \<and> i \<le> segment_total n"
    using assms by (auto simp: segments_hold_def seg_spec_def image_iff simp del: upt_Suc)
  finally show ?thesis .
qed

lemma row_of_event_simps [simp]:
  "j_seq (row_of_event g e) = e_seq e" "j_generation (row_of_event g e) = g"
  "j_envelope (row_of_event g e) = e" "j_segment_id (row_of_event g e) = segment_of (e_seq e)"
  by (simp_all add: row_of_event_def)

lemma min_seq_ge: "xs \<noteq> [] \<Longrightarrow> \<forall>x \<in> set xs. m \<le> x \<Longrightarrow> m \<le> min_seq xs"
  using list_min_mem by (fastforce simp: min_seq_def split: option.splits)

lemma max_seq_le: "\<forall>x \<in> set xs. x \<le> m \<Longrightarrow> max_seq xs \<le> m"
  using list_max_mem by (fastforce simp: max_seq_def split: option.splits)

lemma merge_group_id:
  assumes hist: "hist_ok H" and segs: "segments_hold g (length H) k segs"
    and rows: "rows = map (row_of_event g) (drop d H)" and key: "key \<in> row_key ` set rows"
  shows "merge_group rows segs key = segs"
proof -
  let ?xs = "group_seqs rows key"
  obtain e where e: "e \<in> set (drop d H)" "key = (g, segment_of (e_seq e))"
    using key rows by (auto simp: row_key_def)
  have ne: "?xs \<noteq> []"
    using e rows by (auto simp: group_seqs_def row_key_def filter_empty_conv)
  have dist: "distinct ?xs"
  proof -
    have "map j_seq rows = [Suc d..<Suc (length H)]"
      using hist_ok_drop_seqs [OF hist] by (simp add: rows comp_def del: upt_Suc)
    then have "distinct (map j_seq rows)" by (metis distinct_upt)
    then show ?thesis unfolding group_seqs_def by (rule distinct_map_filter)
  qed
  have bnd: "1000 * (snd key - 1) + 1 \<le> q \<and> q \<le> min (1000 * snd key) (length H)" if q: "q \<in> set ?xs" for q
  proof -
    obtain f where "f \<in> set (drop d H)" "q = e_seq f" "snd key = segment_of (e_seq f)"
      using q rows e(2) by (auto simp: group_seqs_def row_key_def)
    then show ?thesis
      using hist_ok_drop_mem [OF hist, of f d] segment_of_bounds [of q] by auto
  qed
  have count: "length ?xs \<le> min (1000 * snd key) (length H) - 1000 * (snd key - 1)"
  proof -
    have "set ?xs \<subseteq> {1000 * (snd key - 1) + 1..min (1000 * snd key) (length H)}"
      using bnd by auto
    from card_mono [OF _ this] show ?thesis using distinct_card [OF dist] by simp
  qed
  have "s\<lparr>s_first_seq := min (s_first_seq s) (min_seq ?xs), s_last_seq := max (s_last_seq s) (max_seq ?xs),
      s_event_count := max (s_event_count s) (length ?xs)\<rparr> = s"
    if "s \<in> set segs" "seg_key s = key" for s
  proof -
    have i: "snd key = s_id s" using that(2) by (simp add: seg_key_def prod_eq_iff)
    note mem = segments_hold_mem [OF segs that(1)]
    have "s_first_seq s \<le> min_seq ?xs"
      using min_seq_ge [OF ne, of "s_first_seq s"] bnd mem(4) i by simp
    moreover have "max_seq ?xs \<le> s_last_seq s"
      using max_seq_le [of ?xs "s_last_seq s"] bnd mem(5) i by simp
    moreover have "length ?xs \<le> s_event_count s" using count mem(6) i by simp
    ultimately show ?thesis by (simp add: min_absorb1 max_absorb1)
  qed
  then have "map (\<lambda>s. if seg_key s = key then s\<lparr>s_first_seq := min (s_first_seq s) (min_seq ?xs),
      s_last_seq := max (s_last_seq s) (max_seq ?xs),
      s_event_count := max (s_event_count s) (length ?xs)\<rparr> else s) segs = segs"
    by (auto intro!: map_idI)
  moreover have "list_ex (\<lambda>s. seg_key s = key) segs"
    using segments_hold_ex [OF segs] e hist_ok_drop_mem [OF hist e(1)] segment_of_total
    by (simp add: segment_of_pos)
  ultimately show ?thesis by (simp add: merge_group_def Let_def)
qed

lemma foldl_fixpoint: "(\<And>x. x \<in> set xs \<Longrightarrow> f s x = s) \<Longrightarrow> foldl f s xs = s"
  by (induction xs) auto

lemma ensure_id:
  assumes "hist_ok H" and "journal_holds g H k j"
  shows "ensure_runtime_event_tables j = j"
proof -
  have rows: "journal_rows j = map (row_of_event g) (drop (1000 * k) H)"
    and segs: "segments_hold g (length H) k (segments_tbl j)"
    using assms(2) by (auto simp: journal_holds_def)
  have "backfill_segment_id r = r" if "r \<in> set (journal_rows j)" for r
    using that by (auto simp: rows backfill_segment_id_def segment_of_pos)
  then have filled: "map backfill_segment_id (journal_rows j) = journal_rows j"
    by (simp add: map_idI)
  have "foldl (merge_group (journal_rows j)) (segments_tbl j) (remdups (map row_key (journal_rows j)))
      = segments_tbl j"
    by (rule foldl_fixpoint) (use merge_group_id [OF assms(1) segs rows] in simp)
  with filled show ?thesis by (simp add: ensure_runtime_event_tables_def Let_def)
qed

subsection \<open>Appending one event\<close>

lemma segment_total_eq:
  "r < 1000 \<Longrightarrow> segment_total (1000 * q + r) = (if r = 0 then q else Suc q)"
  unfolding segment_total_def by (cases "r = 0") (simp_all add: div_nat_eqI)

lemma segment_of_eq: "r < 1000 \<Longrightarrow> segment_of (Suc (1000 * q + r)) = Suc q"
  unfolding segment_of_pos by (simp add: div_nat_eqI)

lemma thousands: obtains q r where "(n :: nat) = 1000 * q + r" and "r < 1000"
proof
  show "n = 1000 * (n div 1000) + n mod 1000" by simp
qed simp

lemma segment_total_Suc:
  "segment_total (Suc n) = (if n mod 1000 = 0 then Suc (segment_total n) else segment_total n)"
  "segment_of (Suc n) = segment_total (Suc n)"
  "n mod 1000 = 0 \<Longrightarrow> 1000 * segment_total n = n"
proof -
  obtain q r where n: "n = 1000 * q + r" "r < 1000" by (rule thousands)
  have "segment_total (Suc n) = Suc q"
  proof (cases "r = 999")
    case True
    then have "Suc n = 1000 * Suc q + 0" using n by simp
    then show ?thesis by (metis segment_total_eq zero_less_numeral)
  next
    case False
    then show ?thesis using segment_total_eq [of "Suc r" q] n by simp
  qed
  then show "segment_total (Suc n) = (if n mod 1000 = 0 then Suc (segment_total n) else segment_total n)"
    and "segment_of (Suc n) = segment_total (Suc n)" and "n mod 1000 = 0 \<Longrightarrow> 1000 * segment_total n = n"
    using segment_total_eq [OF n(2), of q] segment_of_eq [OF n(2), of q] n
    by (cases "r = 0"; simp)+
qed

lemma segment_total_bounds: "n \<le> 1000 * segment_total n" "0 < n \<Longrightarrow> 1000 * (segment_total n - 1) < n"
proof -
  obtain q r where n: "n = 1000 * q + r" "r < 1000" by (rule thousands)
  then show "n \<le> 1000 * segment_total n" "0 < n \<Longrightarrow> 1000 * (segment_total n - 1) < n"
    using segment_total_eq [OF n(2), of q] by (cases q; auto)+
qed

lemma seg_view_touch:
  "map seg_view (map (\<lambda>s. if seg_key s = (g, i)
       then s\<lparr>s_last_seq := max (s_last_seq s) q, s_event_count := max (s_event_count s) (q - s_first_seq s + 1)\<rparr>
       else s) segs) =
   map (\<lambda>(g', i', f, l, c, b). if (g', i') = (g, i) then (g', i', f, max l q, max c (q - f + 1), b)
       else (g', i', f, l, c, b)) (map seg_view segs)"
  by (simp add: seg_view_def seg_key_def)

lemma touch_segment_holds:
  assumes segs: "segments_hold g n k segs" and k: "1000 * k \<le> n" and e: "e_seq e = Suc n"
  shows "segments_hold g (Suc n) k (touch_segment g (segment_of (Suc n)) e segs)"
proof (cases "n mod 1000 = 0")
  case True
  note eqs = segment_total_Suc [of n] True segment_total_Suc(3) [OF True]
  have "\<not> list_ex (\<lambda>s. seg_key s = (g, segment_of (Suc n))) segs"
    using segments_hold_ex [OF segs] eqs by simp
  moreover have "seg_spec g n k i = seg_spec g (Suc n) k i" if "i \<in> set [1..<Suc (segment_total n)]" for i
    using that eqs by (auto simp: seg_spec_def min_def)
  then have "map (seg_spec g n k) [1..<Suc (segment_total n)] =
      map (seg_spec g (Suc n) k) [1..<Suc (segment_total n)]"
    by (intro map_cong) simp_all
  ultimately show ?thesis
    using segs e k eqs
    by (simp add: segments_hold_def touch_segment_def seg_view_def seg_spec_def)
next
  case False
  note eqs = segment_total_Suc(1,2) [of n] False
  have pos: "0 < n" using False by (cases n) auto
  have ex: "list_ex (\<lambda>s. seg_key s = (g, segment_of (Suc n))) segs"
    using segments_hold_ex [OF segs] eqs by (simp add: segment_of_pos)
  have "(\<lambda>(g', i', f, l, c, b). if (g', i') = (g, segment_of (Suc n))
         then (g', i', f, max l (Suc n), max c (Suc n - f + 1), b) else (g', i', f, l, c, b))
          (seg_spec g n k i) = seg_spec g (Suc n) k i"
    if "i \<in> set [1..<Suc (segment_total n)]" for i
  proof (cases "i = segment_total n")
    case True
    then have "1000 * (i - 1) < n" "Suc n \<le> 1000 * i"
      using segment_total_bounds(2) [OF pos] segment_of_bounds(2) [of "Suc n"] eqs by auto
    then show ?thesis using True eqs by (simp add: seg_spec_def)
  next
    case False
    then have "i \<le> segment_total n - 1" using that by auto
    then have "1000 * i \<le> 1000 * (segment_total n - 1)" by simp
    then have "1000 * i < n" using segment_total_bounds(2) [OF pos] by linarith
    then show ?thesis using False eqs by (simp add: seg_spec_def)
  qed
  then have "map (\<lambda>(g', i', f, l, c, b). if (g', i') = (g, segment_of (Suc n))
         then (g', i', f, max l (Suc n), max c (Suc n - f + 1), b) else (g', i', f, l, c, b))
          (map (seg_spec g n k) [1..<Suc (segment_total n)]) =
       map (seg_spec g (Suc n) k) [1..<Suc (segment_total n)]"
    unfolding map_map by (intro map_cong) simp_all
  then have "map seg_view (touch_segment g (segment_of (Suc n)) e segs) =
       map (seg_spec g (Suc n) k) [1..<Suc (segment_total n)]"
    using segs ex unfolding segments_hold_def touch_segment_def e
    by (simp only: if_True seg_view_touch)
  then show ?thesis using eqs by (simp only: segments_hold_def if_False)
qed

lemma seal_segments_view [simp]: "map seg_view (seal_segments g i now segs) = map seg_view segs"
  by (simp add: seal_segments_def seg_view_def)

lemma compact_segments_holds:
  assumes "segments_hold g n k segs"
  shows "segments_hold g n (max k (i - 1)) (compact_segments g (\<lambda>m. m < i) now segs)"
proof -
  have "map seg_view (compact_segments g (\<lambda>m. m < i) now segs) =
      map (\<lambda>(g', m, f, l, c, b). (g', m, f, l, c, b \<or> g' = g \<and> m < i)) (map seg_view segs)"
    by (auto simp: compact_segments_def seg_view_def)
  also have "\<dots> = map (seg_spec g n (max k (i - 1))) [1..<Suc (segment_total n)]"
    using assms by (auto simp: segments_hold_def seg_spec_def simp del: upt_Suc)
  finally show ?thesis by (simp add: segments_hold_def)
qed

lemma compact_rows:
  assumes "hist_ok H"
  shows "filter (\<lambda>r. \<not> (j_generation r = g \<and> j_segment_id r < i)) (map (row_of_event g) (drop (1000 * k) H))
    = map (row_of_event g) (drop (1000 * max k (i - 1)) H)"
proof -
  have "filter (\<lambda>r. \<not> (j_generation r = g \<and> j_segment_id r < i)) (map (row_of_event g) (drop (1000 * k) H)) =
      map (row_of_event g) (filter (\<lambda>e. 1000 * (i - 1) < e_seq e) (drop (1000 * k) H))"
    using hist_ok_drop_mem(1) [OF assms, of _ "1000 * k"]
    by (fastforce simp: filter_map segment_of_less not_le intro!: arg_cong [of _ _ "map _"] filter_cong)
  also have "\<dots> = map (row_of_event g) (drop (max (1000 * k) (1000 * (i - 1))) H)"
    by (simp add: filter_seq_drop [OF assms])
  also have "max (1000 * k) (1000 * (i - 1)) = 1000 * max k (i - 1)"
    by (simp add: max_mult_distrib_left)
  finally show ?thesis .
qed

lemma list_max_upt: "list_max [1..<Suc m] = (if m = 0 then None else Some m)"
proof (cases "list_max [1..<Suc m]")
  case (Some x)
  then have "x \<in> set [1..<Suc m]" by (rule list_max_mem)
  moreover from this have "m \<le> x" using list_max_ge [OF Some, of m] by auto
  ultimately show ?thesis using Some by auto
qed (cases m; simp)

lemma max_seq_eqI:
  assumes "m \<in> set xs" and "\<And>x. x \<in> set xs \<Longrightarrow> x \<le> m"
  shows "max_seq xs = m"
proof (cases "list_max xs")
  case None
  then show ?thesis using assms(1) by simp
next
  case (Some x)
  then show ?thesis
    using list_max_mem [OF Some] list_max_ge [OF Some assms(1)] assms(2)
    by (simp add: max_seq_def antisym)
qed

lemma filter_upt_le:
  assumes "k \<le> m" shows "filter (\<lambda>i. i \<le> k) [1..<Suc m] = [1..<Suc k]"
proof -
  have "[1..<Suc m] = [1..<Suc k] @ [Suc k..<Suc m]"
    using upt_add_eq_append [of 1 "Suc k" "m - k"] assms by (simp del: upt_Suc)
  then show ?thesis by (simp add: filter_id_conv filter_empty_conv del: upt_Suc)
qed

lemma dead_segments:
  assumes segs: "segments_hold g n k segs" and k: "1000 * k \<le> n"
  defines "dead \<equiv> filter (\<lambda>s. s_generation s = g \<and> s_compacted_at_unix_ms s \<noteq> None) segs"
  shows "map s_id dead = [1..<Suc k]" and "map s_last_seq dead = map ((*) 1000) [1..<Suc k]"
proof -
  have km: "k \<le> segment_total n"
    using k segment_total_bounds(1) [of n] by linarith
  have "dead = filter (\<lambda>s. s_id s \<le> k) segs"
    unfolding dead_def by (rule filter_cong [OF refl]) (use segments_hold_mem [OF segs] in auto)
  then have "map seg_view dead = filter (\<lambda>v. fst (snd v) \<le> k) (map seg_view segs)"
    by (simp add: filter_map comp_def seg_view_def)
  also have "\<dots> = map (seg_spec g n k) (filter (\<lambda>i. i \<le> k) [1..<Suc (segment_total n)])"
    using segs by (simp add: segments_hold_def filter_map comp_def seg_spec_def del: upt_Suc)
  finally have v: "map seg_view dead = map (seg_spec g n k) [1..<Suc k]"
    by (simp only: filter_upt_le [OF km])
  have "map s_id dead = map (\<lambda>v. fst (snd v)) (map seg_view dead)"
    by (simp add: seg_view_def)
  then show "map s_id dead = [1..<Suc k]" by (simp add: v seg_spec_def comp_def del: upt_Suc)
  have "map s_last_seq dead = map (\<lambda>v. fst (snd (snd (snd v)))) (map seg_view dead)"
    by (simp add: seg_view_def)
  then show "map s_last_seq dead = map ((*) 1000) [1..<Suc k]"
    using k by (auto simp: v seg_spec_def simp del: upt_Suc)
qed

lemma update_watermark_holds:
  assumes segs: "segments_hold g n k (segments_tbl j)" and k: "1000 * k \<le> n"
  shows "meta_watermark_seq (update_watermark j g) = 1000 * k"
    and "meta_watermark_segment_id (update_watermark j g) = k"
proof -
  have "max_seq [1..<Suc k] = k" unfolding max_seq_def list_max_upt by simp
  then show "meta_watermark_segment_id (update_watermark j g) = k"
    by (simp add: update_watermark_def Let_def dead_segments(1) [OF segs k] del: upt_Suc not_None_eq One_nat_def)
  have "max_seq (map ((*) 1000) [1..<Suc k]) = 1000 * k"
  proof (cases "k = 0")
    case False
    then show ?thesis by (intro max_seq_eqI) auto
  qed (simp add: max_seq_def)
  then show "meta_watermark_seq (update_watermark j g) = 1000 * k"
    by (simp add: update_watermark_def Let_def dead_segments(2) [OF segs k] del: upt_Suc not_None_eq One_nat_def)
qed

lemma retained_from_bounds:
  assumes "0 < keep" and "keep \<le> maxk"
  shows "1 \<le> retained_from j g s keep maxk active"
    and "retained_from j g s keep maxk active \<le> max (s - (keep - 1)) 1"
    and "s - (maxk - 1) \<le> retained_from j g s keep maxk active"
proof -
  define b where "b = max (s - (keep - 1)) 1"
  define m where "m = max (s - (maxk - 1)) 1"
  define p where "p = (case list_min (map c_seq (filter (pins g active (sat_sub m 1)) (checkpoints_tbl j)))
      of Some p \<Rightarrow> max (sat_add p 1) 1 | None \<Rightarrow> b)"
  have p: "retained_from j g s keep maxk active = max m (min b p)"
  proof -
    have "(keep = 0) = False" using assms(1) by simp
    then show ?thesis
      unfolding retained_from_def Let_def p_def m_def b_def by (simp only: if_False sat_sub_eq)
  qed
  have "m \<le> b" unfolding m_def b_def using assms by (intro max.mono) auto
  moreover have "1 \<le> m" and "s - (maxk - 1) \<le> m" by (simp_all add: m_def)
  ultimately show "1 \<le> retained_from j g s keep maxk active"
    and "retained_from j g s keep maxk active \<le> max (s - (keep - 1)) 1"
    and "s - (maxk - 1) \<le> retained_from j g s keep maxk active"
    unfolding p b_def [symmetric] by (auto simp: le_max_iff_disj)
qed

lemma retained_from_pinned:
  assumes "c \<in> set (checkpoints_tbl j)"
    and "pins g active (sat_sub (max (sat_sub s (maxk - 1)) 1) 1) c"
  shows "retained_from j g s keep maxk active \<le> Suc (c_seq c)"
proof -
  let ?pinned = "map c_seq (filter (pins g active (sat_sub (max (sat_sub s (maxk - 1)) 1) 1)) (checkpoints_tbl j))"
  have mem: "c_seq c \<in> set ?pinned" using assms by auto
  then obtain p where p: "list_min ?pinned = Some p" by (cases "list_min ?pinned") (simp_all only: list_min_None, simp_all)
  have "p \<le> c_seq c" by (rule list_min_le [OF p mem])
  moreover have "max (sat_sub s (maxk - 1)) 1 \<le> Suc (c_seq c)"
    using assms(2) by (auto simp: pins_def sat_sub_eq)
  moreover have "sat_add p 1 \<le> Suc p" by (simp add: sat_add_def)
  ultimately have "max (sat_add p 1) 1 \<le> Suc (c_seq c)" by simp
  with \<open>max (sat_sub s (maxk - 1)) 1 \<le> Suc (c_seq c)\<close> show ?thesis
    by (simp add: retained_from_def Let_def p min_le_iff_disj del: One_nat_def)
qed

lemma insert_row_fresh:
  assumes "hist_ok H" and "e_seq e = Suc (length H)" and "d \<le> length H"
  shows "insert_row (row_of_event g e) (map (row_of_event g) (drop d H)) =
           map (row_of_event g) (drop d (H @ [e]))"
proof -
  have "filter (\<lambda>r. j_seq r \<noteq> Suc (length H)) (map (row_of_event g) (drop d H)) =
      map (row_of_event g) (drop d H)"
    using hist_ok_drop_mem(2) [OF assms(1), of _ d] by (force simp: filter_id_conv)
  then show ?thesis using assms by (simp add: insert_row_def)
qed

lemma oldest_retained:
  assumes "hist_ok H" and "d < length H"
  shows "list_min (map e_seq (drop d H)) = Some (Suc d)"
  using assms by (intro list_min_eqI) (auto simp: hist_ok_drop_seqs simp del: upt_Suc)

lemma append_runtime_event_holds:
  fixes active :: nat
  assumes hist: "hist_ok (H @ [e])" and holds: "journal_holds g H k j"
    and keep: "0 < keep" "keep \<le> maxk"
  defines "res \<equiv> append_runtime_event j g e keep maxk active"
    and "k' \<equiv> max k (segment_of (retained_from j g (Suc (length H)) keep maxk active) - 1)"
  shows "journal_holds g (H @ [e]) k' (fst res)" and "snd res = Some (Suc (1000 * k'))"
    and "1000 * k' \<le> length H" and "checkpoints_tbl (fst res) = checkpoints_tbl j"
proof -
  let ?n = "length H" and ?i = "segment_of (retained_from j g (Suc (length H)) keep maxk active)"
  have h: "hist_ok H" and e: "e_seq e = Suc ?n" using hist by simp_all
  have rows: "journal_rows j = map (row_of_event g) (drop (1000 * k) H)" and k: "1000 * k \<le> ?n"
    and segs: "segments_hold g ?n k (segments_tbl j)"
    using holds by (auto simp: journal_holds_def)
  define j1 where "j1 = j\<lparr>journal_rows := insert_row (row_of_event g e) (journal_rows j),
      meta_generation := g, meta_last_seq := e_seq e,
      segments_tbl := seal_segments g (segment_of (e_seq e)) (e_emitted_at_unix_ms e)
        (touch_segment g (segment_of (e_seq e)) e (segments_tbl j))\<rparr>"
  define j2 where "j2 = compact j1 g e keep maxk active"
  have res: "res = (update_watermark j2 g, list_min (generation_seqs (update_watermark j2 g) g))"
    by (simp add: res_def append_runtime_event_def Let_def ensure_id [OF h holds] j2_def j1_def
        row_of_event_def)
  have ret: "retained_from j1 g (Suc ?n) keep maxk active = retained_from j g (Suc ?n) keep maxk active"
    by (simp add: j1_def retained_from_def)
  show le: "1000 * k' \<le> ?n"
  proof -
    have "max (Suc ?n - (keep - 1)) 1 \<le> Suc ?n" by simp
    then have "1000 * (?i - 1) \<le> ?n"
      using segment_of_bounds(1) [of "retained_from j g (Suc ?n) keep maxk active"]
        retained_from_bounds(1,2) [OF keep, of j g "Suc ?n" active] by linarith
    then show ?thesis using k by (simp add: k'_def max_def)
  qed
  have "segments_hold g (Suc ?n) k (segments_tbl j1)"
    using touch_segment_holds [OF segs k e] by (simp add: j1_def segments_hold_def e)
  then have segs2: "segments_hold g (Suc ?n) k' (segments_tbl j2)"
    using keep by (simp add: j2_def compact_def Let_def e ret k'_def compact_segments_holds del: One_nat_def)
  have rows2: "journal_rows j2 = map (row_of_event g) (drop (1000 * k') (H @ [e]))"
  proof -
    have "journal_rows j1 = map (row_of_event g) (drop (1000 * k) (H @ [e]))"
      by (simp only: j1_def rows) (simp add: insert_row_fresh [OF h e k] del: drop_append)
    then show ?thesis
      using keep compact_rows [OF hist, of g ?i k]
      by (simp add: j2_def compact_def Let_def e ret k'_def del: drop_append One_nat_def)
  qed
  have le': "1000 * k' \<le> Suc ?n" using le by simp
  note wm = update_watermark_holds [OF segs2 le']
  have other: "journal_rows (update_watermark j2 g) = journal_rows j2"
      "segments_tbl (update_watermark j2 g) = segments_tbl j2"
      "meta_generation (update_watermark j2 g) = g" "meta_last_seq (update_watermark j2 g) = Suc ?n"
      "checkpoints_tbl (update_watermark j2 g) = checkpoints_tbl j"
    using keep by (simp_all add: update_watermark_def j2_def compact_def j1_def e Let_def)
  show "journal_holds g (H @ [e]) k' (fst res)"
    using wm other segs2 rows2 le' by (simp add: res journal_holds_def)
  have "generation_seqs (update_watermark j2 g) g = map e_seq (drop (1000 * k') (H @ [e]))"
    by (simp add: generation_seqs_def other rows2 filter_map comp_def del: drop_append)
  then show "snd res = Some (Suc (1000 * k'))"
    using oldest_retained [OF hist, of "1000 * k'"] le by (simp add: res del: drop_append)
  show "checkpoints_tbl (fst res) = checkpoints_tbl j" by (simp add: res other)
qed

lemma load_after_holds:
  assumes "hist_ok H" and "journal_holds g H k j"
  shows "load_runtime_events_after j a limit = (j, take limit (drop (max (1000 * k) a) H))"
proof -
  have rows: "journal_rows j = map (row_of_event g) (drop (1000 * k) H)" and g: "meta_generation j = g"
    using assms(2) by (auto simp: journal_holds_def)
  have "filter (\<lambda>r. j_seq r > a \<and> j_generation r = g) (journal_rows j) =
      map (row_of_event g) (drop (max (1000 * k) a) H)"
    by (simp add: rows filter_map comp_def filter_seq_drop [OF assms(1)])
  then show ?thesis
    by (simp add: load_runtime_events_after_def Let_def ensure_id [OF assms] g sort_rows [OF assms(1)]
        take_map comp_def)
qed

lemma load_state_holds:
  assumes "hist_ok H" and "journal_holds g H k j"
  shows "load_runtime_event_state j limit =
    (j, g, if 1000 * k < length H then Some (Suc (1000 * k)) else None, length H,
     drop (max (1000 * k) (length H - limit)) H)"
proof -
  have rows: "journal_rows j = map (row_of_event g) (drop (1000 * k) H)" and g: "meta_generation j = g"
    and n: "meta_last_seq j = length H"
    using assms(2) by (auto simp: journal_holds_def)
  have "list_min (generation_seqs j g) = (if 1000 * k < length H then Some (Suc (1000 * k)) else None)"
    using oldest_retained [OF assms(1), of "1000 * k"]
    by (simp add: generation_seqs_def rows filter_map comp_def)
  moreover have len: "length H - (1000 * k + limit) + 1000 * k = max (1000 * k) (length H - limit)"
    by simp
  moreover have "rev (map j_envelope (take limit (rev (sort_key j_seq
      (filter (\<lambda>r. j_generation r = g) (journal_rows j)))))) = drop (max (1000 * k) (length H - limit)) H"
    by (simp add: rows filter_map sort_rows [OF assms(1)] take_rev rev_map [symmetric] drop_map
        comp_def len)
  ultimately show ?thesis
    by (simp add: load_runtime_event_state_def Let_def ensure_id [OF assms] g n)
qed

section \<open>The interface the event feed relies on\<close>

text \<open>
  A bounded event store: \<open>holds H d s\<close> says that \<open>s\<close> holds the history \<open>H\<close> without its first \<open>d\<close>
  events.  Appending drops only whole prefixes, never one of the latest \<open>keep\<close> events, leaves at most
  \<open>cap\<close> events and reports the oldest one left; reading after a cursor returns what is held beyond it.
\<close>

locale event_store =
  fixes holds :: "'e list \<Rightarrow> nat \<Rightarrow> 's \<Rightarrow> bool"
    and append :: "nat \<Rightarrow> 's \<Rightarrow> 'e \<Rightarrow> 's \<times> nat option"
    and after :: "'s \<Rightarrow> nat \<Rightarrow> nat \<Rightarrow> 's \<times> 'e list"
    and seq :: "'e \<Rightarrow> nat"
    and keep :: nat and cap :: nat
  assumes append_holds: "holds H d s \<Longrightarrow> seq e = Suc (length H) \<Longrightarrow>
        \<exists>d'. d \<le> d' \<and> d' \<le> length H \<and>
             holds (H @ [e]) d' (fst (append a s e)) \<and> snd (append a s e) = Some (Suc d')"
    and after_holds: "holds H d s \<Longrightarrow> after s a l = (s, take l (drop (max d a) H))"
    and holds_window: "holds H d s \<Longrightarrow> d \<le> length H - keep"
    and holds_cap: "holds H d s \<Longrightarrow> length H - d \<le> cap"
    and holds_seq: "holds H d s \<Longrightarrow> i < length H \<Longrightarrow> seq (H ! i) = Suc i"
begin

lemma replay_exact: "holds H d s \<Longrightarrow> d \<le> a \<Longrightarrow> after s a l = (s, take l (drop a H))"
  by (simp add: after_holds max_absorb2)

lemma replay_recent:
  "holds H d s \<Longrightarrow> length H \<le> a + keep \<Longrightarrow> after s a l = (s, take l (drop a H))"
  using holds_window [of H d s] by (intro replay_exact) auto

text \<open>A consumer that moves its cursor past what it read and asks again misses and repeats nothing.\<close>

lemma replay_resume:
  assumes "holds H d s" and "d \<le> a"
  shows "snd (after s a l) @ snd (after s (a + length (snd (after s a l))) m) = take (l + m) (drop a H)"
    and "snd (after s a l) \<noteq> [] \<Longrightarrow>
      seq (last (snd (after s a l))) = a + length (snd (after s a l))"
proof -
  let ?x = "take l (drop a H)"
  have x: "snd (after s a l) = ?x" using replay_exact [OF assms] by simp
  have y: "snd (after s (a + length ?x) m) = take m (drop (a + length ?x) H)"
    using replay_exact [OF assms(1)] assms(2) by simp
  have "?x @ take m (drop (a + length ?x) H) = take (l + m) (drop a H)"
    by (cases "l \<le> length (drop a H)") (auto simp: take_add add.commute)
  then show "snd (after s a l) @ snd (after s (a + length (snd (after s a l))) m) = take (l + m) (drop a H)"
    by (simp only: x y)
  assume "snd (after s a l) \<noteq> []"
  then have ne: "?x \<noteq> []" by (simp only: x not_False_eq_True)
  then have pos: "0 < length ?x" by simp
  have "last ?x = ?x ! (length ?x - 1)" using ne by (rule last_conv_nth)
  also have "\<dots> = drop a H ! (length ?x - 1)" using pos by (intro nth_take) auto
  also have "\<dots> = H ! (a + (length ?x - 1))" using pos by (intro nth_drop) auto
  finally have "last ?x = H ! (a + (length ?x - 1))" .
  moreover have "a + (length ?x - 1) < length H" using pos by simp linarith
  ultimately have "seq (last ?x) = Suc (a + (length ?x - 1))" using holds_seq [OF assms(1)] by simp
  then show "seq (last (snd (after s a l))) = a + length (snd (after s a l))"
    using pos by (simp only: x)
qed

end

definition append_event :: "string \<Rightarrow> nat \<Rightarrow> journal \<Rightarrow> envelope \<Rightarrow> journal \<times> nat option" where
  "append_event g active_after j e =
     append_runtime_event j g e RUNTIME_EVENT_PERSISTED_JOURNAL_CAPACITY
       RUNTIME_EVENT_PERSISTED_JOURNAL_MAX_CAPACITY active_after"

definition stores :: "string \<Rightarrow> envelope list \<Rightarrow> nat \<Rightarrow> journal \<Rightarrow> bool" where
  "stores g H d j = (hist_ok H \<and> d mod 1000 = 0 \<and> journal_holds g H (d div 1000) j \<and>
     d \<le> length H - 10000 \<and> length H - d \<le> 100999)"

lemma append_event_stores:
  fixes active :: nat
  assumes st: "stores g H d j" and e: "e_seq e = Suc (length H)"
  defines "d' \<equiv> max d (1000 * (segment_of (retained_from j g (Suc (length H)) 10000 100000 active) - 1))"
  shows "stores g (H @ [e]) d' (fst (append_event g active j e))"
    and "snd (append_event g active j e) = Some (Suc d')"
    and "d' \<le> length H"
    and "checkpoints_tbl (fst (append_event g active j e)) = checkpoints_tbl j"
proof -
  let ?ret = "retained_from j g (Suc (length H)) 10000 100000 active"
  define k' where "k' = max (d div 1000) (segment_of ?ret - 1)"
  have h: "hist_ok (H @ [e])" and holds: "journal_holds g H (d div 1000) j" and d: "1000 * (d div 1000) = d"
    and w: "d \<le> length H - 10000"
    using st e by (auto simp: stores_def)
  have k: "d' = 1000 * k'"
    using d by (simp add: d'_def k'_def max_def del: One_nat_def) linarith?
  have keep: "0 < (10000 :: nat)" "10000 \<le> (100000 :: nat)" by simp_all
  note app = append_runtime_event_holds [OF h holds keep, where active = active, folded k'_def, folded k]
  have ap: "append_event g active j e = append_runtime_event j g e 10000 100000 active"
    by (simp add: append_event_def RUNTIME_EVENT_PERSISTED_JOURNAL_CAPACITY_def
        RUNTIME_EVENT_PERSISTED_JOURNAL_MAX_CAPACITY_def)
  have ret: "1 \<le> ?ret" "?ret \<le> max (Suc (length H) - 9999) 1" "Suc (length H) - 99999 \<le> ?ret"
    using retained_from_bounds [OF keep, where j = j and g = g and s = "Suc (length H)" and active = active]
    by simp_all
  have seg: "1000 * (segment_of ?ret - 1) + 1 \<le> ?ret" "?ret \<le> 1000 * segment_of ?ret"
    using segment_of_bounds [of ?ret] ret(1) by simp_all
  have low: "1000 * (segment_of ?ret - 1) \<le> length H + 1 - 10000" using seg(1) ret(2) by simp
  show "d' \<le> length H" using app(3) .
  have "d' \<le> length (H @ [e]) - 10000" using w low by (simp add: d'_def)
  moreover have "1000 * segment_of ?ret - 1000 \<le> d'" by (simp add: d'_def diff_mult_distrib2)
  then have "length (H @ [e]) - d' \<le> 100999" using seg(2) ret(3) by simp
  ultimately show "stores g (H @ [e]) d' (fst (append_event g active j e))"
    using app(1) h by (simp add: stores_def ap k)
  show "snd (append_event g active j e) = Some (Suc d')" using app(2) by (simp only: ap)
  show "checkpoints_tbl (fst (append_event g active j e)) = checkpoints_tbl j" using app(4) by (simp only: ap)
qed

text \<open>An active checkpoint above the hard cap holds back compaction.\<close>

lemma append_event_pinned:
  assumes "c \<in> set (checkpoints_tbl j)" and "c_generation c = g" and "updated_at_unix_ms c > active"
    and "recovery_hint c \<noteq> Some ''resync_required''" and "n + 1 \<le> c_seq c + 100000"
  shows "1000 * (segment_of (retained_from j g (Suc n) 10000 100000 active) - 1) \<le> c_seq c"
proof -
  let ?ret = "retained_from j g (Suc n) 10000 100000 active"
  have "pins g active (sat_sub (max (sat_sub (Suc n) (100000 - 1)) 1) 1) c"
    using assms by (auto simp: pins_def sat_sub_eq split: option.split)
  then have "?ret \<le> Suc (c_seq c)" by (rule retained_from_pinned [OF assms(1)])
  moreover have "1 \<le> ?ret" using retained_from_bounds(1) [of 10000 100000] by simp
  ultimately show ?thesis using segment_of_bounds(1) [of ?ret] by simp
qed

interpretation journal: event_store "stores g" "append_event g" load_runtime_events_after e_seq
    10000 100999 for g
proof
  fix H d j a l e i
  show "stores g H d j \<Longrightarrow> e_seq e = Suc (length H) \<Longrightarrow>
        \<exists>d'. d \<le> d' \<and> d' \<le> length H \<and>
             stores g (H @ [e]) d' (fst (append_event g a j e)) \<and>
             snd (append_event g a j e) = Some (Suc d')"
    by (rule exI, intro conjI) (rule max.cobounded1, rule append_event_stores(3), assumption+,
        rule append_event_stores(1), assumption+,
        rule append_event_stores(2), assumption+)
  show "stores g H d j \<Longrightarrow> load_runtime_events_after j a l = (j, take l (drop (max d a) H))"
    using load_after_holds [of H g "d div 1000" j a l] by (auto simp: stores_def)
  show "stores g H d j \<Longrightarrow> d \<le> length H - 10000" by (simp add: stores_def)
  show "stores g H d j \<Longrightarrow> length H - d \<le> 100999" by (simp add: stores_def)
  show "stores g H d j \<Longrightarrow> i < length H \<Longrightarrow> e_seq (H ! i) = Suc i"
    by (simp add: stores_def hist_ok_nth)
qed

lemma stores_new: "stores g [] 0 (new_journal g)"
  by (simp add: stores_def journal_holds_def new_journal_def segments_hold_def segment_total_def)

lemma stores_checkpoints [simp]: "stores g H d (j\<lparr>checkpoints_tbl := cs\<rparr>) = stores g H d j"
  by (simp add: stores_def journal_holds_def)

lemma stores_ensure: "stores g H d j \<Longrightarrow> ensure_runtime_event_tables j = j"
  using ensure_id [of H g "d div 1000" j] by (simp add: stores_def)

end
