(* ===== verification/EventFeed.thy ===== *)
theory EventFeed
  imports EventJournal
begin

text \<open>
  The runtime-event feed of \<^verbatim>\<open>AppState\<close> (\<^verbatim>\<open>state.rs\<close>): the in-memory ring buffer in front of the
  persisted journal, cursor-based replay, and the consumer checkpoints that pin retention.  The clock
  and \<open>db_ok\<close> (the database mutex is not poisoned and SQLite answers) are arguments.  Each operation is
  one atomic step: the interleaving of two callers between \<^verbatim>\<open>fetch_add\<close> and the feed lock is not
  modelled.
\<close>

section \<open>State\<close>

definition RUNTIME_EVENT_CHECKPOINT_ACTIVE_THRESHOLD_MS :: nat where
  "RUNTIME_EVENT_CHECKPOINT_ACTIVE_THRESHOLD_MS = 5 * 60 * 1000"

definition RUNTIME_EVENT_CHECKPOINT_STALE_THRESHOLD_MS :: nat where
  "RUNTIME_EVENT_CHECKPOINT_STALE_THRESHOLD_MS = 60 * 60 * 1000"

definition RUNTIME_EVENT_CHECKPOINT_TTL_MS :: nat where
  "RUNTIME_EVENT_CHECKPOINT_TTL_MS = 7 * 24 * 60 * 60 * 1000"

record replay_metrics =
  total_feed_requests :: u64
  memory_feed_requests :: u64
  persisted_catch_up_requests :: u64
  persisted_catch_up_events_served :: u64
  resync_required_requests :: u64
  last_replay_source :: "string option"
  last_replay_source_at_unix_ms :: "u64 option"
  last_resync_reason :: "string option"
  checkpoint_loads :: u64
  checkpoint_saves :: u64
  checkpoint_creates :: u64
  checkpoint_advances :: u64
  checkpoint_heartbeats :: u64
  checkpoint_rewinds :: u64
  checkpoint_generation_resets :: u64
  checkpoint_metadata_refreshes :: u64
  checkpoint_resync_transitions :: u64
  expired_checkpoint_misses :: u64
  pruned_checkpoint_count :: u64
  last_persisted_catch_up_at_unix_ms :: "u64 option"
  last_resync_required_at_unix_ms :: "u64 option"
  last_checkpoint_heartbeat_at_unix_ms :: "u64 option"
  last_checkpoint_transition_at_unix_ms :: "u64 option"
  last_checkpoint_metadata_refresh_at_unix_ms :: "u64 option"
  last_checkpoint_prune_at_unix_ms :: "u64 option"

definition default_replay_metrics :: replay_metrics where
  "default_replay_metrics =
     \<lparr>total_feed_requests = 0, memory_feed_requests = 0, persisted_catch_up_requests = 0,
      persisted_catch_up_events_served = 0, resync_required_requests = 0, last_replay_source = None,
      last_replay_source_at_unix_ms = None, last_resync_reason = None, checkpoint_loads = 0,
      checkpoint_saves = 0, checkpoint_creates = 0, checkpoint_advances = 0, checkpoint_heartbeats = 0,
      checkpoint_rewinds = 0, checkpoint_generation_resets = 0, checkpoint_metadata_refreshes = 0,
      checkpoint_resync_transitions = 0, expired_checkpoint_misses = 0, pruned_checkpoint_count = 0,
      last_persisted_catch_up_at_unix_ms = None, last_resync_required_at_unix_ms = None,
      last_checkpoint_heartbeat_at_unix_ms = None, last_checkpoint_transition_at_unix_ms = None,
      last_checkpoint_metadata_refresh_at_unix_ms = None, last_checkpoint_prune_at_unix_ms = None\<rparr>"

record feed_state =
  fs_generation :: string
  fs_seq :: nat
  fs_feed :: "envelope list"
  fs_persisted_oldest :: nat
  fs_metrics :: replay_metrics
  fs_journal :: journal

record feed_snapshot =
  snap_events :: "envelope list"
  snap_generation :: string
  snap_oldest_available_seq :: "nat option"
  snap_latest_available_seq :: nat
  snap_resync_required :: bool
  snap_replay_source :: "string option"
  snap_resync_reason :: "string option"

datatype feed_error = ConsumerIdRequired | GenerationRequired | DbLockPoisoned

text \<open>The event part of \<^verbatim>\<open>AppState::new\<close> on a database that answers.\<close>

definition open_feed :: "journal \<Rightarrow> feed_state" where
  "open_feed j0 =
     (case load_runtime_event_state j0 RUNTIME_EVENT_FEED_CAPACITY of
        (j, g, oldest, last_seq, events) \<Rightarrow>
          \<lparr>fs_generation = g, fs_seq = last_seq, fs_feed = events,
           fs_persisted_oldest = (case oldest of Some s \<Rightarrow> s | None \<Rightarrow> 0),
           fs_metrics = default_replay_metrics, fs_journal = j\<rparr>)"

abbreviation upd_metrics :: "(replay_metrics \<Rightarrow> replay_metrics) \<Rightarrow> feed_state \<Rightarrow> feed_state" where
  "upd_metrics f st \<equiv> st\<lparr>fs_metrics := f (fs_metrics st)\<rparr>"

definition memory_oldest_seq :: "feed_state \<Rightarrow> nat option" where
  "memory_oldest_seq st = (case fs_feed st of [] \<Rightarrow> None | e # _ \<Rightarrow> Some (e_seq e))"

definition persisted_oldest_seq :: "feed_state \<Rightarrow> nat option" where
  "persisted_oldest_seq st = (if fs_persisted_oldest st = 0 then None else Some (fs_persisted_oldest st))"

section \<open>Checkpoints\<close>

definition checkpoint_transition :: "checkpoint option \<Rightarrow> string \<Rightarrow> nat \<Rightarrow> string" where
  "checkpoint_transition previous g s =
     (case previous of
        None \<Rightarrow> ''created''
      | Some p \<Rightarrow>
          (if c_generation p \<noteq> g then ''generation_reset''
           else if c_seq p = s then ''heartbeat''
           else if c_seq p < s then ''advanced''
           else ''rewound''))"

definition update_transition_metrics ::
    "string \<Rightarrow> nat \<Rightarrow> string option \<Rightarrow> string option \<Rightarrow> replay_metrics \<Rightarrow> replay_metrics" where
  "update_transition_metrics transition updated_at previous_hint next_hint m =
     (let m1 =
        (if transition = ''created'' then m\<lparr>checkpoint_creates := sat_add (checkpoint_creates m) 1\<rparr>
         else if transition = ''advanced'' then m\<lparr>checkpoint_advances := sat_add (checkpoint_advances m) 1\<rparr>
         else if transition = ''rewound'' then m\<lparr>checkpoint_rewinds := sat_add (checkpoint_rewinds m) 1\<rparr>
         else if transition = ''generation_reset''
         then m\<lparr>checkpoint_generation_resets := sat_add (checkpoint_generation_resets m) 1\<rparr>
         else m);
        m2 = m1\<lparr>last_checkpoint_transition_at_unix_ms := Some updated_at\<rparr>
      in if previous_hint \<noteq> Some ''resync_required'' \<and> next_hint = Some ''resync_required''
         then m2\<lparr>checkpoint_resync_transitions := sat_add (checkpoint_resync_transitions m2) 1\<rparr>
         else m2)"

definition checkpoint_recovery_hint ::
    "feed_state \<Rightarrow> string \<Rightarrow> nat \<Rightarrow> nat \<Rightarrow> nat option \<Rightarrow> nat option \<Rightarrow> string" where
  "checkpoint_recovery_hint st g s latest_seq memory_oldest persisted_oldest =
     (if g \<noteq> fs_generation st then ''resync_required''
      else if latest_seq = 0 \<or> s \<ge> latest_seq then ''up_to_date''
      else if (case memory_oldest of Some m \<Rightarrow> s \<ge> sat_sub m 1 | None \<Rightarrow> True) then ''hot_window''
      else if (case persisted_oldest of Some m \<Rightarrow> s \<ge> sat_sub m 1 | None \<Rightarrow> True) then ''persisted_catch_up''
      else ''resync_required'')"

definition opt_or :: "'a option \<Rightarrow> 'a option \<Rightarrow> 'a option" where
  "opt_or a b = (case a of Some x \<Rightarrow> Some x | None \<Rightarrow> b)"

definition enrich_checkpoint ::
    "feed_state \<Rightarrow> journal_stats option \<Rightarrow> nat option \<Rightarrow> checkpoint \<Rightarrow> checkpoint" where
  "enrich_checkpoint st stats read_at c =
     c\<lparr>created_at_unix_ms := opt_or (created_at_unix_ms c) (Some (updated_at_unix_ms c)),
       last_read_at_unix_ms := opt_or read_at (last_read_at_unix_ms c),
       lease_expires_at_unix_ms :=
         Some (sat_add (updated_at_unix_ms c) RUNTIME_EVENT_CHECKPOINT_ACTIVE_THRESHOLD_MS),
       c_revision := Some (max (case c_revision c of Some r \<Rightarrow> r | None \<Rightarrow> 1) 1),
       last_transition := opt_or (last_transition c) (Some ''created''),
       recovery_hint := Some (checkpoint_recovery_hint st (c_generation c) (c_seq c) (fs_seq st)
         (memory_oldest_seq st) (persisted_oldest_seq st)),
       current_oldest_available_seq := opt_or (persisted_oldest_seq st) (memory_oldest_seq st),
       current_latest_available_seq := Some (fs_seq st),
       current_compaction_watermark_seq := map_option st_compaction_watermark_seq stats,
       current_compaction_watermark_segment_id := map_option st_compaction_watermark_segment_id stats\<rparr>"

definition became_resync :: "checkpoint \<Rightarrow> checkpoint \<Rightarrow> bool" where
  "became_resync old new =
     (recovery_hint old \<noteq> Some ''resync_required'' \<and> recovery_hint new = Some ''resync_required'')"

definition refresh_checkpoints :: "nat \<Rightarrow> nat option \<Rightarrow> feed_state \<Rightarrow> feed_state \<times> checkpoint list" where
  "refresh_checkpoints now read_at st =
     (let (j1, stats) = load_runtime_event_journal_stats (fs_journal st);
          (j2, originals) = list_checkpoints j1;
          refreshed = map (enrich_checkpoint st (Some stats) read_at) originals;
          changed = filter (\<lambda>(old, new). old \<noteq> new) (zip originals refreshed);
          j3 = foldl save_checkpoint j2 (map snd changed);
          resyncs = length (filter (\<lambda>(old, new). became_resync old new) changed);
          st1 = st\<lparr>fs_journal := j3\<rparr>
      in ((if changed = [] then st1
           else upd_metrics (\<lambda>m. m\<lparr>
             checkpoint_metadata_refreshes := sat_add (checkpoint_metadata_refreshes m) (length changed),
             last_checkpoint_metadata_refresh_at_unix_ms := Some now,
             checkpoint_resync_transitions := sat_add (checkpoint_resync_transitions m) resyncs\<rparr>) st1),
          refreshed))"

definition prune_stale_checkpoints :: "nat \<Rightarrow> feed_state \<Rightarrow> feed_state \<times> nat" where
  "prune_stale_checkpoints now st =
     (let (j, removed) = prune_checkpoints (fs_journal st) (sat_sub now RUNTIME_EVENT_CHECKPOINT_TTL_MS);
          st1 = st\<lparr>fs_journal := j\<rparr>
      in ((if removed = 0 then st1
           else upd_metrics (\<lambda>m. m\<lparr>
             pruned_checkpoint_count := sat_add (pruned_checkpoint_count m) removed,
             last_checkpoint_prune_at_unix_ms := Some now\<rparr>) st1),
          removed))"

section \<open>Recording and replay\<close>

definition push_feed :: "envelope \<Rightarrow> envelope list \<Rightarrow> envelope list" where
  "push_feed e feed =
     (if length feed \<ge> RUNTIME_EVENT_FEED_CAPACITY then tl feed else feed) @ [e]"

definition record_runtime_event ::
    "nat \<Rightarrow> bool \<Rightarrow> string \<Rightarrow> string \<Rightarrow> feed_state \<Rightarrow> feed_state \<times> envelope" where
  "record_runtime_event now db_ok event payload st =
     (let e = \<lparr>e_seq = fs_seq st + 1, e_event = event, e_payload = payload, e_emitted_at_unix_ms = now\<rparr>;
          st1 = st\<lparr>fs_seq := fs_seq st + 1, fs_feed := push_feed e (fs_feed st)\<rparr>
      in if \<not> db_ok then (st1, e)
         else
           (let st2 = fst (prune_stale_checkpoints now st1);
                previous = fs_persisted_oldest st2;
                (j, oldest) = append_event (fs_generation st2)
                  (sat_sub now RUNTIME_EVENT_CHECKPOINT_STALE_THRESHOLD_MS) (fs_journal st2) e;
                next_oldest = (case oldest of Some s \<Rightarrow> s | None \<Rightarrow> 0);
                st3 = st2\<lparr>fs_journal := j, fs_persisted_oldest := next_oldest\<rparr>
            in if next_oldest \<noteq> previous then (fst (refresh_checkpoints now None st3), e) else (st3, e)))"

definition resync_decision :: "feed_state \<Rightarrow> nat \<Rightarrow> nat option \<Rightarrow> bool \<times> string option" where
  "resync_decision st after_seq oldest_available =
     (if after_seq = 0 then (False, None)
      else if fs_seq st = 0 \<or> after_seq > fs_seq st then (True, Some ''cursor_after_latest_available'')
      else case oldest_available of
        Some oldest \<Rightarrow>
          (if after_seq < sat_sub oldest 1 then (True, Some ''cursor_before_oldest_available'')
           else (False, None))
      | None \<Rightarrow> (False, None))"

text \<open>The events the request reads, with the reason when the journal could not be read.\<close>

definition read_events ::
    "bool \<Rightarrow> nat \<Rightarrow> nat \<Rightarrow> nat \<Rightarrow> bool \<Rightarrow> bool \<Rightarrow> feed_state \<Rightarrow> feed_state \<times> envelope list \<times> string option" where
  "read_events db_ok now after_seq limit resync catch_up st =
     (if limit = 0 \<or> resync then (st, [], None)
      else if catch_up then
        (let st1 = upd_metrics (\<lambda>m. m\<lparr>persisted_catch_up_requests :=
               sat_add (persisted_catch_up_requests m) 1\<rparr>) st
         in if \<not> db_ok then (st1, [], Some ''persisted_journal_unavailable'')
            else
              (let (j, events) = load_runtime_events_after (fs_journal st1) after_seq limit in
               (upd_metrics (\<lambda>m. m\<lparr>
                  persisted_catch_up_events_served :=
                    sat_add (persisted_catch_up_events_served m) (length events),
                  last_persisted_catch_up_at_unix_ms := Some now\<rparr>) (st1\<lparr>fs_journal := j\<rparr>),
                events, None)))
      else
        (upd_metrics (\<lambda>m. m\<lparr>memory_feed_requests := sat_add (memory_feed_requests m) 1\<rparr>) st,
         take limit (filter (\<lambda>e. e_seq e > after_seq) (fs_feed st)), None))"

text \<open>What the request decides before it reads: the window, resynchronisation, catch-up.\<close>

record poll_plan =
  pl_oldest_available :: "nat option"
  pl_resync :: bool
  pl_reason :: "string option"
  pl_catch_up :: bool

definition plan_poll :: "nat \<Rightarrow> feed_state \<Rightarrow> poll_plan" where
  "plan_poll after_seq st =
     (let memory_oldest = memory_oldest_seq st;
          oldest_available = (if after_seq = 0 then memory_oldest
                              else opt_or (persisted_oldest_seq st) memory_oldest);
          (resync, reason) = resync_decision st after_seq oldest_available
      in \<lparr>pl_oldest_available = oldest_available, pl_resync = resync, pl_reason = reason,
          pl_catch_up = (after_seq > 0 \<and> \<not> resync \<and>
            (case memory_oldest of Some m \<Rightarrow> after_seq < sat_sub m 1 | None \<Rightarrow> False))\<rparr>)"

text \<open>The answer, from the plan, the events read and a failure to read them.\<close>

definition poll_snapshot ::
    "nat \<Rightarrow> nat \<Rightarrow> string \<Rightarrow> nat \<Rightarrow> poll_plan \<Rightarrow> envelope list \<Rightarrow> string option \<Rightarrow> feed_snapshot" where
  "poll_snapshot after_seq limit g latest_available pl read failure =
     (let resync1 = (pl_resync pl \<or> failure \<noteq> None);
          gap = (pl_catch_up pl \<and> \<not> resync1 \<and> after_seq < latest_available \<and> read = []);
          resync = (resync1 \<or> gap);
          events = (if resync then [] else read);
          source = (if resync then ''resync_required''
                    else if limit = 0 \<or> (after_seq = 0 \<and> latest_available = 0) \<or> events = []
                    then ''empty''
                    else if pl_catch_up pl then ''persisted_catch_up''
                    else ''memory_hot_window'')
      in \<lparr>snap_events = events, snap_generation = g,
          snap_oldest_available_seq = pl_oldest_available pl,
          snap_latest_available_seq = latest_available, snap_resync_required = resync,
          snap_replay_source = Some source,
          snap_resync_reason =
            (if gap then Some ''persisted_catch_up_empty'' else opt_or failure (pl_reason pl))\<rparr>)"

definition poll_metrics :: "nat \<Rightarrow> feed_snapshot \<Rightarrow> replay_metrics \<Rightarrow> replay_metrics" where
  "poll_metrics now snap m =
     (let m1 = (if snap_resync_required snap
                then m\<lparr>resync_required_requests := sat_add (resync_required_requests m) 1,
                       last_resync_required_at_unix_ms := Some now\<rparr>
                else m)
      in m1\<lparr>last_replay_source := snap_replay_source snap, last_replay_source_at_unix_ms := Some now,
            last_resync_reason :=
              (if snap_resync_required snap then snap_resync_reason snap else last_resync_reason m1)\<rparr>)"

definition runtime_events_since ::
    "bool \<Rightarrow> nat \<Rightarrow> nat \<Rightarrow> nat \<Rightarrow> feed_state \<Rightarrow> feed_state \<times> feed_snapshot" where
  "runtime_events_since db_ok now after_seq limit st =
     (let st0 = upd_metrics (\<lambda>m. m\<lparr>total_feed_requests := sat_add (total_feed_requests m) 1\<rparr>) st;
          pl = plan_poll after_seq st0;
          (st1, events, failure) = read_events db_ok now after_seq limit (pl_resync pl) (pl_catch_up pl) st0;
          snap = poll_snapshot after_seq limit (fs_generation st) (fs_seq st0) pl events failure
      in (upd_metrics (poll_metrics now snap) st1, snap))"

section \<open>Checkpoint requests\<close>

definition runtime_event_checkpoint ::
    "bool \<Rightarrow> nat \<Rightarrow> string \<Rightarrow> feed_state \<Rightarrow> feed_state \<times> (feed_error + checkpoint option)" where
  "runtime_event_checkpoint db_ok now raw_id st =
     (let cid = trim raw_id in
      if cid = [] then (st, Err ConsumerIdRequired)
      else if \<not> db_ok then (st, Err DbLockPoisoned)
      else
        (let st1 = upd_metrics (\<lambda>m. m\<lparr>checkpoint_loads := sat_add (checkpoint_loads m) 1\<rparr>) st;
             (j1, found) = load_checkpoint (fs_journal st1) cid
         in case found of
              None \<Rightarrow> (st1\<lparr>fs_journal := j1\<rparr>, Ok None)
            | Some original \<Rightarrow>
                (if sat_add (updated_at_unix_ms original) RUNTIME_EVENT_CHECKPOINT_TTL_MS \<le> now
                 then (upd_metrics (\<lambda>m. m\<lparr>
                         expired_checkpoint_misses := sat_add (expired_checkpoint_misses m) 1,
                         pruned_checkpoint_count := sat_add (pruned_checkpoint_count m) 1,
                         last_checkpoint_prune_at_unix_ms := Some now\<rparr>)
                         (st1\<lparr>fs_journal := delete_checkpoint j1 cid\<rparr>), Ok None)
                 else
                   (let (j2, stats) = load_runtime_event_journal_stats j1;
                        c = enrich_checkpoint st1 (Some stats) (Some now) original
                    in if c \<noteq> original
                       then (upd_metrics (\<lambda>m. m\<lparr>
                               checkpoint_metadata_refreshes := sat_add (checkpoint_metadata_refreshes m) 1,
                               last_checkpoint_metadata_refresh_at_unix_ms := Some now,
                               checkpoint_resync_transitions :=
                                 (if became_resync original c then sat_add (checkpoint_resync_transitions m) 1
                                  else checkpoint_resync_transitions m)\<rparr>)
                               (st1\<lparr>fs_journal := save_checkpoint j2 c\<rparr>), Ok (Some c))
                       else (st1\<lparr>fs_journal := j2\<rparr>, Ok (Some c))))))"

definition new_checkpoint ::
    "nat \<Rightarrow> string \<Rightarrow> string \<Rightarrow> nat \<Rightarrow> checkpoint option \<Rightarrow> checkpoint" where
  "new_checkpoint now cid g s previous =
     \<lparr>consumer_id = cid, c_generation = g, c_seq = s, updated_at_unix_ms = now,
      created_at_unix_ms =
        opt_or (case previous of Some p \<Rightarrow> created_at_unix_ms p | None \<Rightarrow> None) (Some now),
      last_read_at_unix_ms = (case previous of Some p \<Rightarrow> last_read_at_unix_ms p | None \<Rightarrow> None),
      lease_expires_at_unix_ms = Some (sat_add now RUNTIME_EVENT_CHECKPOINT_ACTIVE_THRESHOLD_MS),
      c_revision = Some (sat_add
        (case previous of Some p \<Rightarrow> (case c_revision p of Some r \<Rightarrow> r | None \<Rightarrow> 0) | None \<Rightarrow> 0) 1),
      last_transition = Some (checkpoint_transition previous g s),
      recovery_hint = None, current_oldest_available_seq = None, current_latest_available_seq = None,
      current_compaction_watermark_seq = None, current_compaction_watermark_segment_id = None\<rparr>"

definition checkpoint_save_metrics :: "checkpoint option \<Rightarrow> checkpoint \<Rightarrow> replay_metrics \<Rightarrow> replay_metrics" where
  "checkpoint_save_metrics previous c m0 =
     (let m1 = update_transition_metrics
            (case last_transition c of Some t \<Rightarrow> t | None \<Rightarrow> ''heartbeat'') (updated_at_unix_ms c)
            (case previous of Some p \<Rightarrow> recovery_hint p | None \<Rightarrow> None) (recovery_hint c) m0;
          m = m1\<lparr>checkpoint_saves := sat_add (checkpoint_saves m1) 1\<rparr>;
          heartbeat = (case previous of
             Some p \<Rightarrow> c_generation p = c_generation c \<and> c_seq p = c_seq c | None \<Rightarrow> False)
      in if heartbeat
         then m\<lparr>checkpoint_heartbeats := sat_add (checkpoint_heartbeats m) 1,
                last_checkpoint_heartbeat_at_unix_ms := Some (updated_at_unix_ms c)\<rparr>
         else m)"

definition save_runtime_event_checkpoint ::
    "bool \<Rightarrow> nat \<Rightarrow> string \<Rightarrow> string \<Rightarrow> nat \<Rightarrow> feed_state \<Rightarrow> feed_state \<times> (feed_error + checkpoint)" where
  "save_runtime_event_checkpoint db_ok now raw_id raw_generation s st =
     (let cid = trim raw_id; g = trim raw_generation in
      if cid = [] then (st, Err ConsumerIdRequired)
      else if g = [] then (st, Err GenerationRequired)
      else if \<not> db_ok then (st, Err DbLockPoisoned)
      else
        (let (j1, previous) = load_checkpoint (fs_journal st) cid;
             (j2, stats) = load_runtime_event_journal_stats j1;
             c = enrich_checkpoint st (Some stats) None
                   (new_checkpoint now cid g (min s (fs_seq st)) previous);
             st1 = st\<lparr>fs_journal := save_checkpoint j2 c\<rparr>;
             st2 = upd_metrics (checkpoint_save_metrics previous c) st1
         in (fst (prune_stale_checkpoints (updated_at_unix_ms c) st2), Ok c)))"

definition runtime_event_checkpoints ::
    "bool \<Rightarrow> nat \<Rightarrow> feed_state \<Rightarrow> feed_state \<times> (feed_error + checkpoint list)" where
  "runtime_event_checkpoints db_ok now st =
     (if \<not> db_ok then (st, Err DbLockPoisoned)
      else
        (let (st2, cs) = refresh_checkpoints now None (fst (prune_stale_checkpoints now st))
         in (st2, Ok cs)))"

section \<open>Runs of the feed\<close>

text \<open>
  The requests a running daemon serves, with the database answering each of them: an append that fails, which
  \<^verbatim>\<open>record_runtime_event\<close> only logs and which leaves a hole in the journal, is not among them.  \<open>recorded ops n\<close> is the list of
  envelopes that the \<open>Record\<close> requests of \<open>ops\<close> produce when \<open>n\<close> events precede them.
\<close>

datatype feed_op =
    Record nat string string
  | Poll nat nat nat
  | GetCheckpoint nat string
  | SaveCheckpoint nat string string nat
  | ListCheckpoints nat

fun run_op :: "feed_op \<Rightarrow> feed_state \<Rightarrow> feed_state" where
  "run_op (Record now event payload) st = fst (record_runtime_event now True event payload st)"
| "run_op (Poll now after_seq limit) st = fst (runtime_events_since True now after_seq limit st)"
| "run_op (GetCheckpoint now cid) st = fst (runtime_event_checkpoint True now cid st)"
| "run_op (SaveCheckpoint now cid g s) st = fst (save_runtime_event_checkpoint True now cid g s st)"
| "run_op (ListCheckpoints now) st = fst (runtime_event_checkpoints True now st)"

fun run_ops :: "feed_op list \<Rightarrow> feed_state \<Rightarrow> feed_state" where
  "run_ops [] st = st"
| "run_ops (op # ops) st = run_ops ops (run_op op st)"

fun recorded :: "feed_op list \<Rightarrow> nat \<Rightarrow> envelope list" where
  "recorded [] n = []"
| "recorded (Record now event payload # ops) n =
     \<lparr>e_seq = Suc n, e_event = event, e_payload = payload, e_emitted_at_unix_ms = now\<rparr> # recorded ops (Suc n)"
| "recorded (op # ops) n = recorded ops n"

fun op_time :: "feed_op \<Rightarrow> nat" where
  "op_time (Record now _ _) = now"
| "op_time (Poll now _ _) = now"
| "op_time (GetCheckpoint now _) = now"
| "op_time (SaveCheckpoint now _ _ _) = now"
| "op_time (ListCheckpoints now) = now"

fun saves_for :: "string \<Rightarrow> feed_op \<Rightarrow> bool" where
  "saves_for cid (SaveCheckpoint now raw g s) = (trim raw = cid)"
| "saves_for cid _ = False"

text \<open>The feed reflects the history \<open>H\<close>, of which the journal has dropped the first \<open>d\<close> events.\<close>

definition feed_holds :: "envelope list \<Rightarrow> nat \<Rightarrow> feed_state \<Rightarrow> bool" where
  "feed_holds H d st =
     (stores (fs_generation st) H d (fs_journal st) \<and> fs_seq st = length H \<and>
      fs_feed st = drop (length H - 1024) H \<and>
      fs_persisted_oldest st = (if H = [] then 0 else Suc d))"

text \<open>Requests that leave the log alone and touch only checkpoints and metrics.\<close>

definition same_log :: "feed_state \<Rightarrow> feed_state \<Rightarrow> bool" where
  "same_log st st' =
     (fs_generation st' = fs_generation st \<and> fs_seq st' = fs_seq st \<and> fs_feed st' = fs_feed st \<and>
      fs_persisted_oldest st' = fs_persisted_oldest st \<and>
      fs_journal st' = (fs_journal st)\<lparr>checkpoints_tbl := checkpoints_tbl (fs_journal st')\<rparr>)"

section \<open>Facts\<close>

lemma feed_holds_same_log: "feed_holds H d st \<Longrightarrow> same_log st st' \<Longrightarrow> feed_holds H d st'"
  unfolding feed_holds_def same_log_def by (metis stores_checkpoints)

lemma feed_holds_stores: "feed_holds H d st \<Longrightarrow> stores (fs_generation st) H d (fs_journal st)"
  by (simp add: feed_holds_def)

lemma save_checkpoint_log:
  assumes "stores g H d j"
  shows "\<exists>cs. save_checkpoint j c = j\<lparr>checkpoints_tbl := cs\<rparr>" and "stores g H d (save_checkpoint j c)"
  using assms by (auto simp: save_checkpoint_def Let_def stores_ensure [OF assms])

lemma save_checkpoints_log:
  assumes "stores g H d j"
  shows "\<exists>cs. foldl save_checkpoint j xs = j\<lparr>checkpoints_tbl := cs\<rparr>"
  using assms
proof (induction xs arbitrary: j)
  case Nil
  have "j = j\<lparr>checkpoints_tbl := checkpoints_tbl j\<rparr>" by simp
  then show ?case unfolding foldl_Nil by blast
next
  case (Cons x xs)
  obtain cs where cs: "save_checkpoint j x = j\<lparr>checkpoints_tbl := cs\<rparr>"
    using save_checkpoint_log(1) [OF Cons.prems] by blast
  obtain cs' where "foldl save_checkpoint (save_checkpoint j x) xs =
      (save_checkpoint j x)\<lparr>checkpoints_tbl := cs'\<rparr>"
    using Cons.IH [OF save_checkpoint_log(2) [OF Cons.prems]] by blast
  then show ?case by (auto simp: cs)
qed

lemma load_simps:
  assumes "stores g H d j"
  shows "load_checkpoint j cid = (j, find (\<lambda>c. consumer_id c = cid) (checkpoints_tbl j))"
    and "fst (load_runtime_event_journal_stats j) = j"
    and "fst (list_checkpoints j) = j"
    and "fst (load_runtime_events_after j a l) = j"
    and "fst (prune_checkpoints j b) =
      j\<lparr>checkpoints_tbl := filter (\<lambda>c. b < updated_at_unix_ms c) (checkpoints_tbl j)\<rparr>"
    and "delete_checkpoint j cid =
      j\<lparr>checkpoints_tbl := filter (\<lambda>c. consumer_id c \<noteq> cid) (checkpoints_tbl j)\<rparr>"
  using stores_ensure [OF assms]
  by (simp_all add: load_checkpoint_def load_runtime_event_journal_stats_def list_checkpoints_def
      load_runtime_events_after_def prune_checkpoints_def delete_checkpoint_def Let_def not_le)

lemma prune_stale_same_log:
  assumes "feed_holds H d st"
  shows "same_log st (fst (prune_stale_checkpoints now st))"
    and "checkpoints_tbl (fs_journal (fst (prune_stale_checkpoints now st))) =
      filter (\<lambda>c. sat_sub now RUNTIME_EVENT_CHECKPOINT_TTL_MS < updated_at_unix_ms c)
        (checkpoints_tbl (fs_journal st))"
proof -
  let ?b = "sat_sub now RUNTIME_EVENT_CHECKPOINT_TTL_MS" and ?j = "fs_journal st"
  obtain n where "prune_checkpoints ?j ?b =
      (?j\<lparr>checkpoints_tbl := filter (\<lambda>c. ?b < updated_at_unix_ms c) (checkpoints_tbl ?j)\<rparr>, n)"
    using load_simps(5) [OF feed_holds_stores [OF assms]] by (metis prod.collapse)
  then show "same_log st (fst (prune_stale_checkpoints now st))"
    and "checkpoints_tbl (fs_journal (fst (prune_stale_checkpoints now st))) =
      filter (\<lambda>c. ?b < updated_at_unix_ms c) (checkpoints_tbl ?j)"
    by (simp_all add: prune_stale_checkpoints_def same_log_def Let_def)
qed

lemma refresh_journal:
  assumes "feed_holds H d st"
  shows "\<exists>xs stats. fs_journal (fst (refresh_checkpoints now read_at st)) =
        foldl save_checkpoint (fs_journal st) (map (enrich_checkpoint st (Some stats) read_at) xs) \<and>
      set xs \<subseteq> set (checkpoints_tbl (fs_journal st))"
proof -
  let ?j = "fs_journal st"
  obtain stats where st: "load_runtime_event_journal_stats ?j = (?j, stats)"
    using load_simps(2) [OF feed_holds_stores [OF assms]] by (metis prod.collapse)
  obtain cs where cs: "list_checkpoints ?j = (?j, cs)" "set cs = set (checkpoints_tbl ?j)"
    using stores_ensure [OF feed_holds_stores [OF assms]] by (simp add: list_checkpoints_def Let_def)
  let ?f = "enrich_checkpoint st (Some stats) read_at"
  let ?xs = "filter (\<lambda>c. c \<noteq> ?f c) cs"
  have eq: "map snd (filter (\<lambda>(old, new). old \<noteq> new) (zip cs (map ?f cs))) = map ?f ?xs"
    by (induction cs) auto
  have "fs_journal (fst (refresh_checkpoints now read_at st)) = foldl save_checkpoint ?j (map ?f ?xs)"
    by (auto simp: refresh_checkpoints_def st cs Let_def simp flip: eq)
  moreover have "set ?xs \<subseteq> set (checkpoints_tbl ?j)" using cs(2) by auto
  ultimately show ?thesis by blast
qed

lemma refresh_same_log:
  assumes "feed_holds H d st"
  shows "same_log st (fst (refresh_checkpoints now read_at st))"
proof -
  obtain cs where "fs_journal (fst (refresh_checkpoints now read_at st)) = (fs_journal st)\<lparr>checkpoints_tbl := cs\<rparr>"
    using refresh_journal [OF assms] save_checkpoints_log [OF feed_holds_stores [OF assms]] by metis
  then show ?thesis
    by (auto simp: same_log_def refresh_checkpoints_def Let_def split: prod.splits)
qed

lemma same_log_refl [simp]: "same_log st st"
  by (simp add: same_log_def)

lemma same_log_trans: "same_log a b \<Longrightarrow> same_log b c \<Longrightarrow> same_log a c"
  unfolding same_log_def
  by (metis (no_types, lifting) journal.surjective journal.update_convs(8) journal.select_convs(8))

lemma same_log_metrics [simp]:
  "same_log st (st'\<lparr>fs_metrics := m\<rparr>) = same_log st st'"
  "same_log (st\<lparr>fs_metrics := m\<rparr>) st' = same_log st st'"
  by (simp_all add: same_log_def)

lemma feed_holds_metrics [simp]: "feed_holds H d (st\<lparr>fs_metrics := m\<rparr>) = feed_holds H d st"
  by (simp add: feed_holds_def)

lemma same_log_journal [simp]:
  "same_log st (st\<lparr>fs_journal := (fs_journal st)\<lparr>checkpoints_tbl := cs\<rparr>\<rparr>)"
  by (simp add: same_log_def)

lemma feed_memory_oldest:
  assumes "feed_holds H d st"
  shows "memory_oldest_seq st = (if H = [] then None else Some (Suc (length H - 1024)))"
proof (cases "H = []")
  case False
  then have "drop (length H - 1024) H = H ! (length H - 1024) # drop (Suc (length H - 1024)) H"
    by (intro Cons_nth_drop_Suc [symmetric]) (cases H, auto)
  moreover have "e_seq (H ! (length H - 1024)) = Suc (length H - 1024)"
    using journal.holds_seq [OF feed_holds_stores [OF assms]] False by (cases H) auto
  ultimately show ?thesis using assms False by (simp add: feed_holds_def memory_oldest_seq_def)
qed (use assms in \<open>simp add: feed_holds_def memory_oldest_seq_def\<close>)

lemma feed_persisted_oldest:
  "feed_holds H d st \<Longrightarrow> persisted_oldest_seq st = (if H = [] then None else Some (Suc d))"
  by (simp add: feed_holds_def persisted_oldest_seq_def)

lemma push_feed_window:
  "push_feed e (drop (length H - 1024) H) = drop (length (H @ [e]) - 1024) (H @ [e])"
proof (cases "1024 \<le> length H")
  case True
  then have "Suc (length H - 1024) = length H - 1023" by simp
  with True show ?thesis
    by (simp add: push_feed_def RUNTIME_EVENT_FEED_CAPACITY_def tl_drop drop_Suc [symmetric])
qed (simp add: push_feed_def RUNTIME_EVENT_FEED_CAPACITY_def)

text \<open>Recording extends the history by one event and drops at most a prefix of the journal.\<close>

lemma record_holds:
  fixes now :: nat and event payload :: string
  assumes st: "feed_holds H d st"
  defines "e \<equiv> \<lparr>e_seq = Suc (length H), e_event = event, e_payload = payload, e_emitted_at_unix_ms = now\<rparr>"
    and "cs \<equiv> filter (\<lambda>c. sat_sub now RUNTIME_EVENT_CHECKPOINT_TTL_MS < updated_at_unix_ms c)
           (checkpoints_tbl (fs_journal st))"
  defines "j1 \<equiv> (fs_journal st)\<lparr>checkpoints_tbl := cs\<rparr>"
    and "active \<equiv> sat_sub now RUNTIME_EVENT_CHECKPOINT_STALE_THRESHOLD_MS"
  defines "d' \<equiv> max d (1000 * (segment_of (retained_from j1 (fs_generation st) (Suc (length H)) 10000 100000 active) - 1))"
  shows "\<exists>st3. feed_holds (H @ [e]) d' st3 \<and> checkpoints_tbl (fs_journal st3) = cs \<and>
      fs_generation st3 = fs_generation st \<and>
      (fst (record_runtime_event now True event payload st) = st3 \<or>
       fst (record_runtime_event now True event payload st) = fst (refresh_checkpoints now None st3))"
proof -
  define st1 where "st1 = st\<lparr>fs_seq := fs_seq st + 1, fs_feed := push_feed e (fs_feed st)\<rparr>"
  define st2 where "st2 = fst (prune_stale_checkpoints now st1)"
  have n: "fs_seq st = length H" and sto: "stores (fs_generation st) H d (fs_journal st)"
    using st by (auto simp: feed_holds_def)
  obtain removed where pr: "prune_checkpoints (fs_journal st) (sat_sub now RUNTIME_EVENT_CHECKPOINT_TTL_MS) = (j1, removed)"
    using load_simps(5) [OF sto] by (metis prod.collapse cs_def j1_def)
  have st2: "fs_journal st2 = j1" "fs_generation st2 = fs_generation st" "fs_seq st2 = Suc (length H)"
      "fs_feed st2 = push_feed e (fs_feed st)"
    by (simp_all add: st2_def st1_def prune_stale_checkpoints_def pr n Let_def)
  have "stores (fs_generation st) H d j1" using sto by (simp add: j1_def)
  note app = append_event_stores [OF this, of e, where active = active, folded d'_def]
  define st3 where "st3 = st2\<lparr>fs_journal := fst (append_event (fs_generation st) active j1 e), fs_persisted_oldest := Suc d'\<rparr>"
  have feed: "push_feed e (fs_feed st) = drop (length (H @ [e]) - 1024) (H @ [e])"
    using st push_feed_window [of e H] by (simp add: feed_holds_def del: drop_append)
  have "feed_holds (H @ [e]) d' st3"
    using app st2 feed by (simp add: feed_holds_def st3_def e_def del: drop_append)
  moreover have "checkpoints_tbl (fs_journal st3) = cs"
    using app(4) by (simp add: st3_def e_def j1_def)
  moreover have "fst (record_runtime_event now True event payload st) =
      (if Suc d' \<noteq> fs_persisted_oldest st2 then fst (refresh_checkpoints now None st3) else st3)"
  proof -
    have ev: "\<lparr>e_seq = fs_seq st + 1, e_event = event, e_payload = payload, e_emitted_at_unix_ms = now\<rparr> = e"
      by (simp add: e_def n)
    obtain j' where j': "append_event (fs_generation st) active j1 e = (j', Some (Suc d'))"
      using app(2) by (metis prod.collapse e_def envelope.select_convs(1))
    show ?thesis
      unfolding record_runtime_event_def Let_def ev st1_def [symmetric] st2_def [symmetric]
        active_def [symmetric] st2 j' st3_def by simp
  qed
  ultimately show ?thesis using st2(2) by (intro exI [of _ st3]) (simp add: st3_def)
qed

text \<open>Replay: what a request with a cursor returns.\<close>

lemma plan_poll_cong:
  assumes "fs_seq st = fs_seq st'" and "fs_feed st = fs_feed st'"
    and "fs_persisted_oldest st = fs_persisted_oldest st'"
  shows "plan_poll a st = plan_poll a st'"
  unfolding plan_poll_def memory_oldest_seq_def persisted_oldest_seq_def resync_decision_def assms ..

lemma plan_metrics [simp]: "plan_poll a (st\<lparr>fs_metrics := m\<rparr>) = plan_poll a st"
  by (rule plan_poll_cong) simp_all

lemma read_metrics [simp]:
  "snd (read_events db_ok now a l r c (st\<lparr>fs_metrics := m\<rparr>)) = snd (read_events db_ok now a l r c st)"
  by (simp add: read_events_def Let_def split: prod.split)

lemma snapshot_eq:
  "snd (runtime_events_since db_ok now a limit st) =
     (let pl = plan_poll a st; r = snd (read_events db_ok now a limit (pl_resync pl) (pl_catch_up pl) st)
      in poll_snapshot a limit (fs_generation st) (fs_seq st) pl (fst r) (snd r))"
proof -
  have "snd (read_events db_ok now a limit r c (upd_metrics f st)) = snd (read_events db_ok now a limit r c st)"
    for r c f by simp
  then show ?thesis
    unfolding runtime_events_since_def Let_def case_prod_beta plan_metrics by simp
qed

lemma replay_from_zero:
  assumes st: "feed_holds H d st"
  shows "snd (runtime_events_since db_ok now 0 limit st) =
    \<lparr>snap_events = take limit (drop (length H - 1024) H), snap_generation = fs_generation st,
     snap_oldest_available_seq = memory_oldest_seq st, snap_latest_available_seq = length H,
     snap_resync_required = False,
     snap_replay_source = Some (if limit = 0 \<or> H = [] then ''empty'' else ''memory_hot_window''),
     snap_resync_reason = None\<rparr>"
proof -
  have n: "fs_seq st = length H" and f: "fs_feed st = drop (length H - 1024) H" and h: "hist_ok H"
    using st by (auto simp: feed_holds_def stores_def)
  have "filter (\<lambda>e. 0 < e_seq e) (fs_feed st) = fs_feed st"
    using filter_seq_drop [OF h, of 0 "length H - 1024"] by (simp add: f)
  moreover have "drop (length H - 1024) H = [] \<longleftrightarrow> H = []" by (cases H) auto
  ultimately show ?thesis
    by (auto simp: snapshot_eq plan_poll_def poll_snapshot_def Let_def resync_decision_def read_events_def n
        opt_or_def f)
qed

lemma replay_after_cursor:
  fixes now limit :: nat
  assumes st: "feed_holds H d st" and a: "0 < a"
  defines "snap \<equiv> snd (runtime_events_since True now a limit st)"
  shows "snap_resync_required snap \<longleftrightarrow> a > length H \<or> a < d \<or> limit = 0 \<and> a < length H - 1024"
    and "snap_events snap = (if a > length H \<or> a < d then [] else take limit (drop a H))"
    and "0 < limit \<Longrightarrow> snap_resync_reason snap =
      (if a > length H then Some ''cursor_after_latest_available''
       else if a < d then Some ''cursor_before_oldest_available'' else None)"
    and "limit = 0 \<Longrightarrow> d \<le> a \<Longrightarrow> a < length H - 1024 \<Longrightarrow>
      snap_resync_required snap \<and> snap_resync_reason snap = Some ''persisted_catch_up_empty''"
proof -
  have n: "fs_seq st = length H" and f: "fs_feed st = drop (length H - 1024) H" and h: "hist_ok H"
    and sto: "stores (fs_generation st) H d (fs_journal st)"
    using st by (auto simp: feed_holds_def stores_def)
  have mem: "filter (\<lambda>e. a < e_seq e) (fs_feed st) = drop (max (length H - 1024) a) H"
    by (simp add: f filter_seq_drop [OF h])
  have load: "load_runtime_events_after (fs_journal st) a limit = (fs_journal st, take limit (drop (max d a) H))"
    by (rule journal.after_holds [OF sto])
  note defs = snap_def snapshot_eq plan_poll_def poll_snapshot_def Let_def resync_decision_def
     read_events_def n feed_memory_oldest [OF st] feed_persisted_oldest [OF st] opt_or_def sat_sub_eq mem load
  consider (after) "a > length H" | (before) "a \<le> length H" "a < d"
    | (catch_up) "a \<le> length H" "d \<le> a" "a < length H - 1024"
    | (memory) "a \<le> length H" "d \<le> a" "length H - 1024 \<le> a" by linarith
  then have all: "(snap_resync_required snap \<longleftrightarrow> a > length H \<or> a < d \<or> limit = 0 \<and> a < length H - 1024) \<and>
    snap_events snap = (if a > length H \<or> a < d then [] else take limit (drop a H)) \<and>
    (0 < limit \<longrightarrow> snap_resync_reason snap =
      (if a > length H then Some ''cursor_after_latest_available''
       else if a < d then Some ''cursor_before_oldest_available'' else None)) \<and>
    (limit = 0 \<longrightarrow> d \<le> a \<longrightarrow> a < length H - 1024 \<longrightarrow>
      snap_resync_required snap \<and> snap_resync_reason snap = Some ''persisted_catch_up_empty'')"
  proof cases
    case after
    then have "\<not> a < length H - 1024" by linarith
    with after a show ?thesis by (simp add: defs)
  next
    case before
    then have "H \<noteq> []" using a by auto
    with before a show ?thesis by (simp add: defs)
  next
    case catch_up
    then have "H \<noteq> []" using a by auto
    with catch_up a show ?thesis by (cases "limit = 0") (auto simp: defs max_absorb2)
  next
    case memory
    then have "H \<noteq> []" using a by auto
    with memory a show ?thesis by (cases "limit = 0") (simp_all add: defs max_absorb2)
  qed
  from all show "snap_resync_required snap \<longleftrightarrow> a > length H \<or> a < d \<or> limit = 0 \<and> a < length H - 1024" by blast
  from all show "snap_events snap = (if a > length H \<or> a < d then [] else take limit (drop a H))" by blast
  from all show "0 < limit \<Longrightarrow> snap_resync_reason snap =
      (if a > length H then Some ''cursor_after_latest_available''
       else if a < d then Some ''cursor_before_oldest_available'' else None)" by blast
  from all show "limit = 0 \<Longrightarrow> d \<le> a \<Longrightarrow> a < length H - 1024 \<Longrightarrow>
      snap_resync_required snap \<and> snap_resync_reason snap = Some ''persisted_catch_up_empty''" by blast
qed

text \<open>The same for any cursor and limit: cursor 0 reads what is in memory.\<close>

lemma replay_any_cursor:
  fixes now limit a :: nat
  assumes st: "feed_holds H d st"
  defines "snap \<equiv> snd (runtime_events_since True now a limit st)"
  shows "snap_resync_required snap \<longleftrightarrow> 0 < a \<and> (a > length H \<or> a < d \<or> limit = 0 \<and> a < length H - 1024)"
    and "snap_events snap =
      (if snap_resync_required snap then [] else take limit (drop (if a = 0 then length H - 1024 else a) H))"
proof -
  have zero: "snap_resync_required snap = False \<and> snap_events snap = take limit (drop (length H - 1024) H)" if "a = 0"
  proof -
    have "fs_feed st = drop (length H - 1024) H" and "hist_ok H" using st by (auto simp: feed_holds_def stores_def)
    then have "filter (\<lambda>e. 0 < e_seq e) (fs_feed st) = drop (length H - 1024) H"
      by (simp add: filter_seq_drop)
    then show ?thesis
      by (simp add: that snap_def snapshot_eq plan_poll_def poll_snapshot_def resync_decision_def read_events_def Let_def)
  qed
  note pos = replay_after_cursor(1,2) [OF st, of a now limit, folded snap_def]
  show "snap_resync_required snap \<longleftrightarrow> 0 < a \<and> (a > length H \<or> a < d \<or> limit = 0 \<and> a < length H - 1024)"
    using zero pos(1) by (cases "a = 0") simp_all
  show "snap_events snap =
      (if snap_resync_required snap then [] else take limit (drop (if a = 0 then length H - 1024 else a) H))"
    using zero pos by (cases "a = 0") auto
qed

text \<open>Every request keeps the correspondence with the history.\<close>

lemma read_same_log:
  assumes "feed_holds H d st"
  shows "same_log st (fst (read_events db_ok now a limit resync catch_up st))"
proof -
  obtain es where "load_runtime_events_after (fs_journal st) a limit = (fs_journal st, es)"
    using load_simps(4) [OF feed_holds_stores [OF assms]] by (metis prod.collapse)
  then show ?thesis by (simp add: read_events_def Let_def)
qed

lemma poll_same_log:
  assumes "feed_holds H d st"
  shows "same_log st (fst (runtime_events_since db_ok now a limit st))"
proof -
  let ?st0 = "upd_metrics (\<lambda>m. m\<lparr>total_feed_requests := sat_add (total_feed_requests m) 1\<rparr>) st"
  have "same_log st (fst (read_events db_ok now a limit resync catch_up ?st0))" for resync catch_up
    using read_same_log [of H d ?st0] assms by simp
  then show ?thesis
    unfolding runtime_events_since_def Let_def case_prod_beta fst_conv same_log_metrics .
qed

lemma enrich_keeps [simp]:
  "consumer_id (enrich_checkpoint st stats r c) = consumer_id c"
  "c_generation (enrich_checkpoint st stats r c) = c_generation c"
  "c_seq (enrich_checkpoint st stats r c) = c_seq c"
  "updated_at_unix_ms (enrich_checkpoint st stats r c) = updated_at_unix_ms c"
  by (simp_all add: enrich_checkpoint_def)

lemma stats_split:
  assumes "stores g H d j" obtains stats where "load_runtime_event_journal_stats j = (j, stats)"
  using load_simps(2) [OF assms] by (metis prod.collapse)

lemma same_log_save:
  assumes "feed_holds H d st"
  shows "same_log st (st\<lparr>fs_journal := save_checkpoint (fs_journal st) c\<rparr>)"
  using save_checkpoint_log(1) [OF feed_holds_stores [OF assms], of c] by (auto simp: same_log_def)

lemma get_checkpoint_journal:
  fixes now :: nat and raw :: string
  assumes st: "feed_holds H d st"
  defines "st' \<equiv> fst (runtime_event_checkpoint True now raw st)"
  shows "same_log st st'"
    and "fs_journal st' = fs_journal st \<or>
      (\<exists>c stats. c \<in> set (checkpoints_tbl (fs_journal st)) \<and> consumer_id c = trim raw \<and>
         (sat_add (updated_at_unix_ms c) RUNTIME_EVENT_CHECKPOINT_TTL_MS \<le> now \<and>
            fs_journal st' = delete_checkpoint (fs_journal st) (trim raw) \<or>
          fs_journal st' = save_checkpoint (fs_journal st) (enrich_checkpoint st (Some stats) (Some now) c)))"
proof -
  let ?j = "fs_journal st"
  note sto = feed_holds_stores [OF st]
  obtain stats where stats: "load_runtime_event_journal_stats ?j = (?j, stats)" by (rule stats_split [OF sto])
  have enr: "enrich_checkpoint (upd_metrics f st) = enrich_checkpoint st" for f
    by (intro ext) (simp add: enrich_checkpoint_def checkpoint_recovery_hint_def memory_oldest_seq_def
        persisted_oldest_seq_def)
  note defs = st'_def runtime_event_checkpoint_def Let_def load_simps(1,6) [OF sto] stats enr
  have "same_log st st' \<and> (fs_journal st' = ?j \<or>
      (\<exists>c stats. c \<in> set (checkpoints_tbl ?j) \<and> consumer_id c = trim raw \<and>
         (sat_add (updated_at_unix_ms c) RUNTIME_EVENT_CHECKPOINT_TTL_MS \<le> now \<and>
            fs_journal st' = delete_checkpoint (fs_journal st) (trim raw) \<or>
          fs_journal st' = save_checkpoint ?j (enrich_checkpoint st (Some stats) (Some now) c))))"
  proof (cases "trim raw = [] \<or> find (\<lambda>c. consumer_id c = trim raw) (checkpoints_tbl ?j) = None")
    case True
    then show ?thesis by (auto simp: defs same_log_def)
  next
    case False
    then obtain c where ne: "trim raw \<noteq> []" and f: "find (\<lambda>c. consumer_id c = trim raw) (checkpoints_tbl ?j) = Some c"
      by auto
    have c: "c \<in> set (checkpoints_tbl ?j)" "consumer_id c = trim raw"
      using f by (auto simp: find_Some_iff)
    show ?thesis
    proof (cases "sat_add (updated_at_unix_ms c) RUNTIME_EVENT_CHECKPOINT_TTL_MS \<le> now")
      case True
      then have "same_log st st'" "fs_journal st' = delete_checkpoint ?j (trim raw)"
        using ne f by (simp_all add: defs same_log_def)
      with True c show ?thesis by blast
    next
      case False
      have sv: "same_log st (st\<lparr>fs_journal := save_checkpoint ?j c'\<rparr>)" for c'
        by (rule same_log_save [OF st])
      show ?thesis
      proof (cases "enrich_checkpoint st (Some stats) (Some now) c = c")
        case True
        then show ?thesis using ne f False by (simp add: defs same_log_def)
      next
        case neq: False
        then have "fs_journal st' = save_checkpoint ?j (enrich_checkpoint st (Some stats) (Some now) c)"
          using ne f False by (simp add: defs)
        moreover have "same_log st st'"
          using ne f False neq sv [of "enrich_checkpoint st (Some stats) (Some now) c"]
          by (simp add: defs same_log_def)
        ultimately show ?thesis using c by blast
      qed
    qed
  qed
  then show "same_log st st'" and "fs_journal st' = ?j \<or>
      (\<exists>c stats. c \<in> set (checkpoints_tbl ?j) \<and> consumer_id c = trim raw \<and>
         (sat_add (updated_at_unix_ms c) RUNTIME_EVENT_CHECKPOINT_TTL_MS \<le> now \<and>
            fs_journal st' = delete_checkpoint (fs_journal st) (trim raw) \<or>
          fs_journal st' = save_checkpoint ?j (enrich_checkpoint st (Some stats) (Some now) c)))"
    by blast+
qed

lemma save_runtime_checkpoint_journal:
  fixes now s :: nat and raw g :: string
  assumes st: "feed_holds H d st" and ne: "trim raw \<noteq> []" "trim g \<noteq> []"
  shows "\<exists>stats previous st1. let c = enrich_checkpoint st (Some stats) None
            (new_checkpoint now (trim raw) (trim g) (min s (fs_seq st)) previous) in
      snd (save_runtime_event_checkpoint True now raw g s st) = Ok c \<and>
      same_log st st1 \<and> fs_journal st1 = save_checkpoint (fs_journal st) c \<and>
      fst (save_runtime_event_checkpoint True now raw g s st) = fst (prune_stale_checkpoints now st1)"
proof -
  let ?j = "fs_journal st"
  note sto = feed_holds_stores [OF st]
  obtain stats where stats: "load_runtime_event_journal_stats ?j = (?j, stats)" by (rule stats_split [OF sto])
  let ?prev = "find (\<lambda>c. consumer_id c = trim raw) (checkpoints_tbl ?j)"
  define c where "c = enrich_checkpoint st (Some stats) None
            (new_checkpoint now (trim raw) (trim g) (min s (fs_seq st)) ?prev)"
  have up: "updated_at_unix_ms c = now" by (simp add: c_def new_checkpoint_def)
  define m where "m = checkpoint_save_metrics ?prev c (fs_metrics st)"
  have m: "save_runtime_event_checkpoint True now raw g s st =
      (fst (prune_stale_checkpoints now (st\<lparr>fs_journal := save_checkpoint ?j c, fs_metrics := m\<rparr>)), Ok c)"
    unfolding save_runtime_event_checkpoint_def load_simps(1) [OF sto] stats Let_def prod.case
      c_def [symmetric] up using ne by (simp add: m_def)
  have "same_log st (st\<lparr>fs_journal := save_checkpoint ?j c, fs_metrics := m\<rparr>)"
    using same_log_save [OF st, of c] by (simp add: same_log_def)
  then show ?thesis
    unfolding Let_def using m
    by (intro exI [of _ stats] exI [of _ ?prev]
        exI [of _ "st\<lparr>fs_journal := save_checkpoint ?j c, fs_metrics := m\<rparr>"]) (simp add: c_def)
qed

lemma save_runtime_checkpoint_same_log:
  assumes st: "feed_holds H d st"
  shows "same_log st (fst (save_runtime_event_checkpoint True now raw g s st))"
proof (cases "trim raw = [] \<or> trim g = []")
  case True
  then show ?thesis by (auto simp: save_runtime_event_checkpoint_def Let_def)
next
  case False
  then obtain st1 where "same_log st st1"
      "fst (save_runtime_event_checkpoint True now raw g s st) = fst (prune_stale_checkpoints now st1)"
    using save_runtime_checkpoint_journal [OF st, of raw g now s] unfolding Let_def by blast
  then show ?thesis
    using prune_stale_same_log(1) [OF feed_holds_same_log [OF st]] same_log_trans by metis
qed

lemma list_checkpoints_same_log:
  assumes st: "feed_holds H d st"
  shows "same_log st (fst (runtime_event_checkpoints True now st))"
proof -
  note p = prune_stale_same_log(1) [OF st, of now]
  have "same_log st (fst (refresh_checkpoints now None (fst (prune_stale_checkpoints now st))))"
    by (rule same_log_trans [OF p refresh_same_log [OF feed_holds_same_log [OF st p]]])
  then show ?thesis by (auto simp: runtime_event_checkpoints_def split: prod.split)
qed

lemma other_op_same_log:
  assumes "feed_holds H d st" and "recorded [op] (length H) = []"
  shows "same_log st (run_op op st)"
  using assms
  by (cases op) (auto simp: poll_same_log get_checkpoint_journal(1) save_runtime_checkpoint_same_log
      list_checkpoints_same_log)

lemma run_op_holds:
  assumes st: "feed_holds H d st"
  shows "\<exists>d'. feed_holds (H @ recorded [op] (length H)) d' (run_op op st) \<and>
      fs_generation (run_op op st) = fs_generation st"
proof (cases "recorded [op] (length H) = []")
  case True
  note log = other_op_same_log [OF st True]
  show ?thesis using feed_holds_same_log [OF st log] log True by (auto simp: same_log_def)
next
  case False
  then obtain now event payload where op: "op = Record now event payload" by (cases op) auto
  obtain d' st3 where st3: "feed_holds (H @ recorded [op] (length H)) d' st3"
      "fs_generation st3 = fs_generation st" "run_op op st = st3 \<or> run_op op st = fst (refresh_checkpoints now None st3)"
    using record_holds [OF st, where now = now and event = event and payload = payload]
    by (auto simp: op)
  then show ?thesis
    using feed_holds_same_log [OF st3(1) refresh_same_log [OF st3(1)]]
      refresh_same_log [OF st3(1), unfolded same_log_def] by metis
qed

lemma recorded_Cons: "recorded (op # ops) n = recorded [op] n @ recorded ops (n + length (recorded [op] n))"
  by (cases op) auto

lemma recorded_append: "recorded (xs @ ys) n = recorded xs n @ recorded ys (n + length (recorded xs n))"
proof (induction xs arbitrary: n)
  case (Cons x xs)
  then show ?case by (cases x) auto
qed simp

lemma run_ops_append: "run_ops (xs @ ys) st = run_ops ys (run_ops xs st)"
  by (induction xs arbitrary: st) auto

lemma run_ops_holds:
  "feed_holds H d st \<Longrightarrow> \<exists>d'. feed_holds (H @ recorded ops (length H)) d' (run_ops ops st) \<and>
      fs_generation (run_ops ops st) = fs_generation st"
proof (induction ops arbitrary: H d st)
  case (Cons op ops)
  obtain d1 where d1: "feed_holds (H @ recorded [op] (length H)) d1 (run_op op st)"
      "fs_generation (run_op op st) = fs_generation st"
    using run_op_holds [OF Cons.prems] by blast
  from Cons.IH [OF d1(1)] d1(2) show ?case by (subst recorded_Cons) simp
qed auto

lemma open_new_holds:
  "feed_holds [] 0 (open_feed (new_journal g))" "fs_generation (open_feed (new_journal g)) = g"
  by (simp_all add: open_feed_def load_runtime_event_state_def ensure_runtime_event_tables_def
      new_journal_def generation_seqs_def feed_holds_def stores_def journal_holds_def segments_hold_def
      segment_total_def Let_def)

lemma fresh_run_holds:
  "\<exists>d. feed_holds (recorded ops 0) d (run_ops ops (open_feed (new_journal g))) \<and>
    fs_generation (run_ops ops (open_feed (new_journal g))) = g"
  using run_ops_holds [OF open_new_holds(1), of ops g] by (simp add: open_new_holds(2))

lemma feed_watermark:
  "feed_holds H d st \<Longrightarrow> meta_watermark_seq (fs_journal st) = d"
  by (auto simp: feed_holds_def stores_def journal_holds_def)

lemma watermark_small:
  assumes "length (recorded ops 0) \<le> 10000"
  shows "meta_watermark_seq (fs_journal (run_ops ops (open_feed (new_journal g)))) = 0"
proof -
  obtain d where d: "feed_holds (recorded ops 0) d (run_ops ops (open_feed (new_journal g)))"
    using fresh_run_holds by blast
  show ?thesis
    using journal.holds_window [OF feed_holds_stores [OF d]] assms by (simp add: feed_watermark [OF d])
qed

section \<open>Pinned consumers\<close>

text \<open>
  A consumer whose checkpoint was saved at time \<open>t\<close> with cursor \<open>s\<close>: every row under its id has that
  cursor and time and is not marked as lost.
\<close>

definition pinned_row :: "string \<Rightarrow> nat \<Rightarrow> nat \<Rightarrow> checkpoint \<Rightarrow> bool" where
  "pinned_row g s t c = (c_generation c = g \<and> c_seq c = s \<and> updated_at_unix_ms c = t \<and>
     recovery_hint c \<noteq> Some ''resync_required'')"

definition pinned :: "string \<Rightarrow> string \<Rightarrow> nat \<Rightarrow> nat \<Rightarrow> checkpoint list \<Rightarrow> bool" where
  "pinned cid g s t cs =
     (list_ex (\<lambda>c. consumer_id c = cid) cs \<and>
      list_all (\<lambda>c. consumer_id c = cid \<longrightarrow> pinned_row g s t c) cs)"

lemma enriched_pinned_row:
  assumes "feed_holds H d st" and "d \<le> s" and "pinned_row (fs_generation st) s t c"
  shows "pinned_row (fs_generation st) s t (enrich_checkpoint st stats r c)"
  using assms feed_persisted_oldest [OF assms(1)] assms(1)
  by (auto simp: pinned_row_def enrich_checkpoint_def checkpoint_recovery_hint_def sat_sub_eq
      feed_holds_def split: option.splits)

lemma save_pinned:
  assumes "stores g H d j" and "pinned cid g' s t (checkpoints_tbl j)"
    and "consumer_id c = cid \<longrightarrow> pinned_row g' s t c"
  shows "pinned cid g' s t (checkpoints_tbl (save_checkpoint j c))"
proof -
  have ids: "consumer_id ` set (checkpoints_tbl j) \<subseteq> consumer_id ` set (checkpoints_tbl (save_checkpoint j c))"
    by (auto simp: save_checkpoint_def Let_def stores_ensure [OF assms(1)] image_iff)
  have sub: "set (checkpoints_tbl (save_checkpoint j c)) \<subseteq> insert c (set (checkpoints_tbl j))"
    by (auto simp: save_checkpoint_def Let_def stores_ensure [OF assms(1)])
  have "list_ex (\<lambda>c. consumer_id c = cid) xs \<longleftrightarrow> cid \<in> consumer_id ` set xs" for xs
    by (auto simp: list_ex_iff)
  then show ?thesis using assms(2,3) ids sub unfolding pinned_def list_all_iff by blast
qed

lemma refresh_pinned:
  assumes st: "feed_holds H d st" and d: "d \<le> s"
    and pin: "pinned cid (fs_generation st) s t (checkpoints_tbl (fs_journal st))"
  shows "pinned cid (fs_generation st) s t (checkpoints_tbl (fs_journal (fst (refresh_checkpoints now r st))))"
proof -
  obtain xs stats where xs: "fs_journal (fst (refresh_checkpoints now r st)) =
        foldl save_checkpoint (fs_journal st) (map (enrich_checkpoint st (Some stats) r) xs)"
      "set xs \<subseteq> set (checkpoints_tbl (fs_journal st))"
    using refresh_journal [OF st] by blast
  have good: "\<forall>c \<in> set (map (enrich_checkpoint st (Some stats) r) xs).
      consumer_id c = cid \<longrightarrow> pinned_row (fs_generation st) s t c"
    using xs(2) pin enriched_pinned_row [OF st d] by (auto simp: pinned_def list_all_iff)
  have "pinned cid (fs_generation st) s t (checkpoints_tbl (foldl save_checkpoint j ys))"
    if "\<forall>c \<in> set ys. consumer_id c = cid \<longrightarrow> pinned_row (fs_generation st) s t c"
      "stores g H d j" "pinned cid (fs_generation st) s t (checkpoints_tbl j)" for j ys g
    using that
  proof (induction ys arbitrary: j)
    case (Cons y ys)
    then show ?case
      using save_pinned [OF Cons.prems(2,3)] save_checkpoint_log(2) [OF Cons.prems(2)] by simp
  qed simp
  from this [OF good feed_holds_stores [OF st] pin] show ?thesis by (simp only: xs(1))
qed

lemma prune_pinned:
  assumes st: "feed_holds H d st" and pin: "pinned cid g s t (checkpoints_tbl (fs_journal st))"
    and t: "sat_sub now RUNTIME_EVENT_CHECKPOINT_TTL_MS < t"
  shows "pinned cid g s t (checkpoints_tbl (fs_journal (fst (prune_stale_checkpoints now st))))"
  using pin t unfolding prune_stale_same_log(2) [OF st]
  by (fastforce simp: pinned_def list_all_iff list_ex_iff pinned_row_def)

lemma pinned_filter:
  "pinned cid g s t cs \<Longrightarrow> (\<And>c. consumer_id c = cid \<Longrightarrow> updated_at_unix_ms c = t \<Longrightarrow> P c) \<Longrightarrow>
   pinned cid g s t (filter P cs)"
  by (fastforce simp: pinned_def list_all_iff list_ex_iff pinned_row_def)

lemma get_checkpoint_pinned:
  assumes st: "feed_holds H d st" and d: "d \<le> s"
    and pin: "pinned cid (fs_generation st) s t (checkpoints_tbl (fs_journal st))"
    and t: "now < sat_add t RUNTIME_EVENT_CHECKPOINT_TTL_MS"
  shows "pinned cid (fs_generation st) s t
    (checkpoints_tbl (fs_journal (fst (runtime_event_checkpoint True now raw st))))"
proof -
  let ?j = "fs_journal st" and ?j' = "fs_journal (fst (runtime_event_checkpoint True now raw st))"
  consider "?j' = ?j"
    | (gone) c where "c \<in> set (checkpoints_tbl ?j)" "consumer_id c = trim raw"
        "sat_add (updated_at_unix_ms c) RUNTIME_EVENT_CHECKPOINT_TTL_MS \<le> now"
        "?j' = delete_checkpoint ?j (trim raw)"
    | (kept) c stats where "c \<in> set (checkpoints_tbl ?j)" "consumer_id c = trim raw"
        "?j' = save_checkpoint ?j (enrich_checkpoint st (Some stats) (Some now) c)"
    using get_checkpoint_journal(2) [OF st, of now raw] by blast
  then show ?thesis
  proof cases
    case gone
    then have "trim raw \<noteq> cid"
      using pin t by (auto simp: pinned_def list_all_iff pinned_row_def)
    then show ?thesis
      using pin gone(4) by (simp add: load_simps(6) [OF feed_holds_stores [OF st]] pinned_filter)
  next
    case kept
    have "consumer_id c = cid \<longrightarrow> pinned_row (fs_generation st) s t c"
      using pin kept(1) by (auto simp: pinned_def list_all_iff)
    then show ?thesis
      using save_pinned [OF feed_holds_stores [OF st] pin] enriched_pinned_row [OF st d]
      by (simp add: kept(3))
  qed (use pin in simp)
qed

lemma pinned_window:
  assumes pin: "pinned cid g s t (checkpoints_tbl j)" and "active < t" and "n + 1 \<le> s + 100000"
  shows "1000 * (segment_of (retained_from j g (Suc n) 10000 100000 active) - 1) \<le> s"
proof -
  obtain c where "c \<in> set (checkpoints_tbl j)" "pinned_row g s t c"
    using pin by (auto simp: pinned_def list_ex_iff list_all_iff)
  then show ?thesis
    using append_event_pinned [of c j g active n] assms(2,3) by (simp add: pinned_row_def)
qed

lemma record_pinned:
  assumes st: "feed_holds H d st" and d: "d \<le> s"
    and pin: "pinned cid (fs_generation st) s t (checkpoints_tbl (fs_journal st))"
    and t: "0 < t" "now < t + 3600000" and n: "length H + 1 \<le> s + 100000"
  shows "\<exists>d'. feed_holds (H @ recorded [Record now event payload] (length H)) d'
        (run_op (Record now event payload) st) \<and> d' \<le> s \<and>
      fs_generation (run_op (Record now event payload) st) = fs_generation st \<and>
      pinned cid (fs_generation st) s t (checkpoints_tbl (fs_journal (run_op (Record now event payload) st)))"
proof -
  define cs where "cs = filter (\<lambda>c. sat_sub now RUNTIME_EVENT_CHECKPOINT_TTL_MS < updated_at_unix_ms c)
      (checkpoints_tbl (fs_journal st))"
  define active where "active = sat_sub now RUNTIME_EVENT_CHECKPOINT_STALE_THRESHOLD_MS"
  have act: "active < t" and ttl: "sat_sub now RUNTIME_EVENT_CHECKPOINT_TTL_MS < t"
    using t by (auto simp: active_def sat_sub_eq RUNTIME_EVENT_CHECKPOINT_STALE_THRESHOLD_MS_def
        RUNTIME_EVENT_CHECKPOINT_TTL_MS_def)
  have cs: "pinned cid (fs_generation st) s t cs"
    unfolding cs_def by (rule pinned_filter [OF pin]) (use ttl in simp)
  let ?j = "(fs_journal st)\<lparr>checkpoints_tbl := cs\<rparr>"
  let ?d = "max d (1000 * (segment_of (retained_from ?j (fs_generation st) (Suc (length H)) 10000 100000 active) - 1))"
  have le: "?d \<le> s"
    using d pinned_window [of cid "fs_generation st" s t ?j active "length H"] cs act n by simp
  obtain st3 where st3: "feed_holds (H @ recorded [Record now event payload] (length H)) ?d st3"
      "checkpoints_tbl (fs_journal st3) = cs" "fs_generation st3 = fs_generation st"
      "run_op (Record now event payload) st = st3 \<or>
       run_op (Record now event payload) st = fst (refresh_checkpoints now None st3)"
    using record_holds [OF st, where now = now and event = event and payload = payload,
        folded cs_def active_def] by auto
  show ?thesis
    using st3(4)
  proof
    assume "run_op (Record now event payload) st = st3"
    then show ?thesis using st3 cs le by auto
  next
    assume r: "run_op (Record now event payload) st = fst (refresh_checkpoints now None st3)"
    have "pinned cid (fs_generation st) s t (checkpoints_tbl (fs_journal (fst (refresh_checkpoints now None st3))))"
      using refresh_pinned [OF st3(1) le, of cid t] st3(2,3) cs by simp
    moreover have "fs_generation (fst (refresh_checkpoints now None st3)) = fs_generation st"
      using refresh_same_log [OF st3(1), of now None] st3(3) by (simp add: same_log_def)
    ultimately show ?thesis
      using feed_holds_same_log [OF st3(1) refresh_same_log [OF st3(1)]] le unfolding r by blast
  qed
qed

lemma pinned_now:
  assumes "now < t + 3600000" and "0 < t" and "t + 3600000 \<le> U64_MAX"
  shows "sat_sub now RUNTIME_EVENT_CHECKPOINT_TTL_MS < t" and "now < sat_add t RUNTIME_EVENT_CHECKPOINT_TTL_MS"
  using assms by (auto simp: sat_sub_eq sat_add_def RUNTIME_EVENT_CHECKPOINT_TTL_MS_def)

lemma save_other_pinned:
  assumes st: "feed_holds H d st" and other: "trim raw \<noteq> cid"
    and pin: "pinned cid (fs_generation st) s t (checkpoints_tbl (fs_journal st))"
    and t: "sat_sub now RUNTIME_EVENT_CHECKPOINT_TTL_MS < t"
  shows "pinned cid (fs_generation st) s t
    (checkpoints_tbl (fs_journal (fst (save_runtime_event_checkpoint True now raw g q st))))"
proof (cases "trim raw = [] \<or> trim g = []")
  case True
  then show ?thesis using pin by (auto simp: save_runtime_event_checkpoint_def Let_def)
next
  case False
  then obtain c st1 where c: "consumer_id c = trim raw" "same_log st st1"
      "fs_journal st1 = save_checkpoint (fs_journal st) c"
      "fst (save_runtime_event_checkpoint True now raw g q st) = fst (prune_stale_checkpoints now st1)"
    using save_runtime_checkpoint_journal [OF st, of raw g now q] unfolding Let_def
    by (metis enrich_keeps(1) new_checkpoint_def checkpoint.select_convs(1))
  have "pinned cid (fs_generation st) s t (checkpoints_tbl (fs_journal st1))"
    using save_pinned [OF feed_holds_stores [OF st] pin, of c] c(1,3) other by simp
  then show ?thesis
    using prune_pinned [OF feed_holds_same_log [OF st c(2)]] t by (simp only: c(4))
qed

lemma list_pinned:
  assumes st: "feed_holds H d st" and d: "d \<le> s"
    and pin: "pinned cid (fs_generation st) s t (checkpoints_tbl (fs_journal st))"
    and t: "sat_sub now RUNTIME_EVENT_CHECKPOINT_TTL_MS < t"
  shows "pinned cid (fs_generation st) s t
    (checkpoints_tbl (fs_journal (fst (runtime_event_checkpoints True now st))))"
proof -
  let ?st = "fst (prune_stale_checkpoints now st)"
  note p = prune_stale_same_log(1) [OF st, of now]
  have "fs_generation ?st = fs_generation st" using p by (simp add: same_log_def)
  then have "pinned cid (fs_generation st) s t (checkpoints_tbl (fs_journal (fst (refresh_checkpoints now None ?st))))"
    using refresh_pinned [OF feed_holds_same_log [OF st p] d, of cid t] prune_pinned [OF st pin t] by simp
  then show ?thesis by (auto simp: runtime_event_checkpoints_def split: prod.split)
qed

lemma poll_checkpoints:
  assumes "feed_holds H d st"
  shows "fs_journal (fst (runtime_events_since True now a limit st)) = fs_journal st"
proof -
  obtain es where load: "load_runtime_events_after (fs_journal st) a limit = (fs_journal st, es)"
    using load_simps(4) [OF feed_holds_stores [OF assms]] by (metis prod.collapse)
  have "fs_journal (fst (read_events True now a limit resync catch_up (upd_metrics f st))) = fs_journal st"
    for resync catch_up f
    by (simp add: read_events_def Let_def load)
  then show ?thesis
    unfolding runtime_events_since_def Let_def case_prod_beta fst_conv by (simp add: load)
qed

lemma run_op_pinned:
  assumes st: "feed_holds H d st" and d: "d \<le> s"
    and pin: "pinned cid (fs_generation st) s t (checkpoints_tbl (fs_journal st))"
    and t: "op_time op < t + 3600000" "0 < t" "t + 3600000 \<le> U64_MAX"
    and op: "\<not> saves_for cid op" and n: "length (H @ recorded [op] (length H)) \<le> s + 100000"
  shows "\<exists>d'. feed_holds (H @ recorded [op] (length H)) d' (run_op op st) \<and> d' \<le> s \<and>
      fs_generation (run_op op st) = fs_generation st \<and>
      pinned cid (fs_generation st) s t (checkpoints_tbl (fs_journal (run_op op st)))"
proof (cases "recorded [op] (length H) = []")
  case True
  note log = other_op_same_log [OF st True]
  note ttl = pinned_now [OF t]
  have "pinned cid (fs_generation st) s t (checkpoints_tbl (fs_journal (run_op op st)))"
    using True pin op ttl get_checkpoint_pinned [OF st d pin] save_other_pinned [OF st _ pin]
      list_pinned [OF st d pin]
    by (cases op) (auto simp: poll_checkpoints [OF st])
  then show ?thesis
    using feed_holds_same_log [OF st log] d log True by (auto simp: same_log_def)
next
  case False
  then obtain now event payload where "op = Record now event payload" by (cases op) auto
  then show ?thesis using record_pinned [OF st d pin t(2), of now event payload] t n by auto
qed

lemma run_ops_pinned:
  assumes "feed_holds H d st" and "d \<le> s"
    and "pinned cid (fs_generation st) s t (checkpoints_tbl (fs_journal st))"
    and "0 < t" "t + 3600000 \<le> U64_MAX"
    and "list_all (\<lambda>op. \<not> saves_for cid op \<and> op_time op < t + 3600000) ops"
    and "length (H @ recorded ops (length H)) \<le> s + 100000"
  shows "\<exists>d'. feed_holds (H @ recorded ops (length H)) d' (run_ops ops st) \<and> d' \<le> s"
  using assms
proof (induction ops arbitrary: H d st)
  case (Cons op ops)
  have n: "length (H @ recorded [op] (length H)) \<le> s + 100000"
    using Cons.prems(7) by (subst (asm) recorded_Cons) simp
  obtain d1 where d1: "feed_holds (H @ recorded [op] (length H)) d1 (run_op op st)" "d1 \<le> s"
      "fs_generation (run_op op st) = fs_generation st"
      "pinned cid (fs_generation st) s t (checkpoints_tbl (fs_journal (run_op op st)))"
    using run_op_pinned [OF Cons.prems(1-3) _ Cons.prems(4,5) _ n] Cons.prems(6) by auto
  have eq: "H @ recorded (op # ops) (length H) =
      (H @ recorded [op] (length H)) @ recorded ops (length (H @ recorded [op] (length H)))"
    by (subst recorded_Cons) simp
  show ?case
    unfolding eq run_ops.simps
    by (rule Cons.IH [OF d1(1,2)]) (use Cons.prems d1(3,4) eq in simp_all)
qed auto

lemma save_makes_pinned:
  assumes "stores g H d j" and "pinned_row g' s t c" and "consumer_id c = cid"
  shows "pinned cid g' s t (checkpoints_tbl (save_checkpoint j c))"
proof -
  have "c \<in> set (checkpoints_tbl (save_checkpoint j c))"
    by (auto simp: save_checkpoint_def Let_def stores_ensure [OF assms(1)] list_ex_iff image_iff)
  moreover have "c' = c" if "c' \<in> set (checkpoints_tbl (save_checkpoint j c))" "consumer_id c' = cid" for c'
    using that assms(3)
    by (auto simp: save_checkpoint_def Let_def stores_ensure [OF assms(1)] list_ex_iff split: if_splits)
  ultimately show ?thesis
    using assms(2,3) unfolding pinned_def list_ex_iff list_all_iff by blast
qed

lemma save_then_pinned:
  assumes st: "feed_holds H d st" and raw: "trim raw \<noteq> []" and g: "trim gen = fs_generation st" "trim gen \<noteq> []"
    and s: "d \<le> s" "s \<le> length H" and t: "0 < t"
  defines "st' \<equiv> fst (save_runtime_event_checkpoint True t raw gen s st)"
  shows "pinned (trim raw) (fs_generation st') s t (checkpoints_tbl (fs_journal st'))"
proof -
  obtain stats previous st1 where sv: "same_log st st1"
      "fs_journal st1 = save_checkpoint (fs_journal st) (enrich_checkpoint st (Some stats) None
          (new_checkpoint t (trim raw) (trim gen) (min s (fs_seq st)) previous))"
      "st' = fst (prune_stale_checkpoints t st1)"
    using save_runtime_checkpoint_journal [OF st raw g(2), of t s] unfolding Let_def st'_def by blast
  let ?c = "new_checkpoint t (trim raw) (trim gen) (min s (fs_seq st)) previous"
  have n: "fs_seq st = length H" using st by (simp add: feed_holds_def)
  have "pinned_row (fs_generation st) s t ?c"
    using s g n by (simp add: pinned_row_def new_checkpoint_def)
  then have row: "pinned_row (fs_generation st) s t (enrich_checkpoint st (Some stats) None ?c)"
    by (rule enriched_pinned_row [OF st s(1)])
  have cid: "consumer_id (enrich_checkpoint st (Some stats) None ?c) = trim raw"
    by (simp add: new_checkpoint_def)
  have "pinned (trim raw) (fs_generation st) s t (checkpoints_tbl (fs_journal st1))"
    unfolding sv(2) by (rule save_makes_pinned [OF feed_holds_stores [OF st] row cid])
  moreover have "sat_sub t RUNTIME_EVENT_CHECKPOINT_TTL_MS < t"
    using t by (simp add: sat_sub_eq RUNTIME_EVENT_CHECKPOINT_TTL_MS_def)
  moreover have "fs_generation st' = fs_generation st"
    using sv(1,3) prune_stale_same_log(1) [OF feed_holds_same_log [OF st sv(1)], of t]
    by (simp add: same_log_def)
  ultimately show ?thesis
    using prune_pinned [OF feed_holds_same_log [OF st sv(1)]] by (simp add: sv(3))
qed

lemma reopen_holds:
  assumes "feed_holds H d st"
  shows "feed_holds H d (open_feed (fs_journal st))"
proof -
  have sto: "stores (fs_generation st) H d (fs_journal st)" and hist: "hist_ok H"
    and jh: "journal_holds (fs_generation st) H (d div 1000) (fs_journal st)"
    and d: "1000 * (d div 1000) = d" "d \<le> length H - 10000"
    using assms by (auto simp: feed_holds_def stores_def)
  have "max d (length H - 1024) = length H - 1024" using d by simp
  moreover have "d < length H \<longleftrightarrow> H \<noteq> []" using d by (cases H) auto
  ultimately show ?thesis
    using sto by (simp add: open_feed_def load_state_holds [OF hist jh] d(1) feed_holds_def
        RUNTIME_EVENT_FEED_CAPACITY_def)
qed

lemma snapshot_determined:
  assumes "feed_holds H d st" and "feed_holds H d st'" and "fs_generation st = fs_generation st'"
    and "fs_journal st = fs_journal st'"
  shows "snd (runtime_events_since db_ok now a limit st) = snd (runtime_events_since db_ok now' a limit st')"
proof -
  have eq: "fs_seq st = fs_seq st'" "fs_feed st = fs_feed st'" "fs_persisted_oldest st = fs_persisted_oldest st'"
    using assms(1,2) by (simp_all add: feed_holds_def)
  have "plan_poll a st = plan_poll a st'"
    by (rule plan_poll_cong) (rule eq)+
  moreover have "snd (read_events db_ok now a limit r c st) = snd (read_events db_ok now' a limit r c st')" for r c
    by (simp add: read_events_def Let_def eq assms(4) split: prod.split)
  ultimately show ?thesis by (simp add: snapshot_eq eq assms(3))
qed

section \<open>Properties\<close>

text \<open>
  C12: Replay is exact.  Take any sequence of requests that a daemon with an empty journal has served, with the
  database answering each of them (an append that fails is not among them, see \<open>feed_op\<close>), and a poll with
  cursor \<open>a\<close> and any limit, for which the database answers too.  Cursor 0 reads the events in memory, the latest
  1024.  Any other cursor in the retained window reads exactly the next events of the history, in order and
  without a gap, up to the limit.  A resynchronisation is demanded exactly when a cursor other than 0 lies
  beyond the newest event or before the compaction watermark, and also when the limit is 0 and the cursor is
  behind the events in memory, although nothing is lost then.  The watermark never passes one of the latest
  10000 events, and at most 100999 events are retained.
\<close>

theorem replay_complete:
  "let st = run_ops ops (open_feed (new_journal g)); H = recorded ops 0;
       w = meta_watermark_seq (fs_journal st);
       snap = snd (runtime_events_since True now a limit st)
   in (snap_resync_required snap \<longleftrightarrow> 0 < a \<and> (a > length H \<or> a < w \<or> limit = 0 \<and> a < length H - 1024))
    \<and> snap_events snap =
        (if snap_resync_required snap then [] else take limit (drop (if a = 0 then length H - 1024 else a) H))
    \<and> w \<le> length H - 10000 \<and> length H - w \<le> 100999"
proof -
  obtain d where d: "feed_holds (recorded ops 0) d (run_ops ops (open_feed (new_journal g)))"
    using fresh_run_holds by blast
  note sto = feed_holds_stores [OF d]
  show ?thesis
    using replay_any_cursor [OF d, of now a limit] journal.holds_window [OF sto] journal.holds_cap [OF sto]
    unfolding Let_def feed_watermark [OF d] by blast
qed

text \<open>
  C13: An active consumer is not cut off.  A consumer saves a checkpoint at time \<open>t\<close> whose cursor is
  in the retained window.  As long as the following requests come within an hour of \<open>t\<close>, with the database
  answering each of them so that no append fails, none of
  them saves a checkpoint for the same consumer, and no more than 100000 events lie beyond the cursor,
  the consumer can read every event after its cursor, however many events others recorded.
\<close>

theorem active_consumer_catches_up:
  assumes "trim raw \<noteq> []" and "trim gen = g" and "g \<noteq> []" and "0 < t" and "t + 3600000 \<le> U64_MAX"
    and "0 < s" and "s \<le> length (recorded ops0 0)"
    and "meta_watermark_seq (fs_journal (run_ops ops0 (open_feed (new_journal g)))) \<le> s"
    and "list_all (\<lambda>op. \<not> saves_for (trim raw) op \<and> op_time op < t + 3600000) ops"
    and "length (recorded (ops0 @ ops) 0) \<le> s + 100000" and "0 < limit"
  shows "let snap = snd (runtime_events_since True now s limit
           (run_ops (ops0 @ SaveCheckpoint t raw gen s # ops) (open_feed (new_journal g))))
         in \<not> snap_resync_required snap \<and> snap_events snap = take limit (drop s (recorded (ops0 @ ops) 0))"
proof -
  let ?H = "recorded ops0 0" and ?st = "run_ops ops0 (open_feed (new_journal g))"
  let ?st1 = "fst (save_runtime_event_checkpoint True t raw gen s ?st)"
  obtain d where d: "feed_holds ?H d ?st" "fs_generation ?st = g" using fresh_run_holds by blast
  have le: "d \<le> s" using assms(8) by (simp add: feed_watermark [OF d(1)])
  have st1: "feed_holds ?H d ?st1"
    by (rule feed_holds_same_log [OF d(1) save_runtime_checkpoint_same_log [OF d(1)]])
  have pin: "pinned (trim raw) (fs_generation ?st1) s t (checkpoints_tbl (fs_journal ?st1))"
    using save_then_pinned [OF d(1) assms(1) _ _ le assms(7,4)] assms(2,3) d(2) by simp
  have H: "recorded (ops0 @ ops) 0 = ?H @ recorded ops (length ?H)" by (simp add: recorded_append)
  have "length (?H @ recorded ops (length ?H)) \<le> s + 100000" using assms(10) unfolding H .
  then obtain d' where d': "feed_holds (recorded (ops0 @ ops) 0) d' (run_ops ops ?st1)" "d' \<le> s"
    using run_ops_pinned [OF st1 le pin assms(4,5,9)] unfolding H by blast
  have "s \<le> length (recorded (ops0 @ ops) 0)" using assms(7) by (simp add: H)
  then show ?thesis
    using replay_after_cursor(1,2) [OF d'(1) assms(6), where now = now and limit = limit] assms(11) d'(2)
    by (simp add: Let_def run_ops_append)
qed

theorem active_consumer_catches_up_witness:
  "let snap = snd (runtime_events_since True 900 1 10
       (run_ops ([Record 5 ''x'' ''{}''] @ SaveCheckpoint 10 ''ui'' ''g'' 1 # [Record 20 ''y'' ''{}''])
         (open_feed (new_journal ''g''))))
   in \<not> snap_resync_required snap \<and>
      snap_events snap = take 10 (drop 1 (recorded ([Record 5 ''x'' ''{}''] @ [Record 20 ''y'' ''{}'']) 0))"
proof -
  have "trim ''ui'' = ''ui''" "trim ''g'' = ''g''" by code_simp+
  moreover have w: "meta_watermark_seq (fs_journal (run_ops [Record 5 ''x'' ''{}''] (open_feed (new_journal ''g'')))) = 0"
    by (rule watermark_small) simp
  have "meta_watermark_seq (fs_journal (run_ops [Record 5 ''x'' ''{}''] (open_feed (new_journal ''g'')))) \<le> 1"
    unfolding w by simp
  ultimately show ?thesis
    by (intro active_consumer_catches_up) (simp_all add: U64_MAX_def)
qed

text \<open>
  A new consumer.  A poll with cursor 0 returns the oldest events of the in-memory window, which
  is the last 1024 events of the history, and never demands a resynchronisation.
\<close>

theorem replay_new_consumer:
  "let st = run_ops ops (open_feed (new_journal g)); H = recorded ops 0;
       snap = snd (runtime_events_since db_ok now 0 limit st)
   in \<not> snap_resync_required snap \<and> snap_events snap = take limit (drop (length H - 1024) H)
    \<and> snap_latest_available_seq snap = length H \<and> length (fs_feed st) = min 1024 (length H)"
proof -
  obtain d where d: "feed_holds (recorded ops 0) d (run_ops ops (open_feed (new_journal g)))"
    using fresh_run_holds by blast
  then have "fs_feed (run_ops ops (open_feed (new_journal g))) =
      drop (length (recorded ops 0) - 1024) (recorded ops 0)" by (simp add: feed_holds_def)
  then show ?thesis using replay_from_zero [OF d] by (simp add: Let_def)
qed

text \<open>
  C14: A restart is invisible to consumers.  After any requests that were served with the database answering (so
  that no append failed), a daemon that is restarted on the same database answers every poll as the running
  one would.
\<close>

theorem restart_transparent:
  "snd (runtime_events_since db_ok now a limit
      (open_feed (fs_journal (run_ops ops (open_feed (new_journal g)))))) =
   snd (runtime_events_since db_ok now a limit (run_ops ops (open_feed (new_journal g))))"
proof -
  let ?st = "run_ops ops (open_feed (new_journal g))"
  obtain d where d: "feed_holds (recorded ops 0) d ?st" using fresh_run_holds by blast
  note op = reopen_holds [OF d]
  have "fs_generation (open_feed (fs_journal ?st)) = fs_generation ?st \<and> fs_journal (open_feed (fs_journal ?st)) = fs_journal ?st"
    using load_state_holds [of "recorded ops 0" "fs_generation ?st" "d div 1000" "fs_journal ?st"] d
    by (simp add: open_feed_def feed_holds_def stores_def)
  then show ?thesis using snapshot_determined [OF op d] by simp
qed

text \<open>
  A poll with limit 0 from a retained cursor behind the in-memory window demands a
  resynchronisation, although nothing has been lost.
\<close>

theorem replay_limit_zero_resyncs:
  assumes "0 < a" and "a < length (recorded ops 0) - 1024"
    and "meta_watermark_seq (fs_journal (run_ops ops (open_feed (new_journal g)))) \<le> a"
  shows "let snap = snd (runtime_events_since True now a 0 (run_ops ops (open_feed (new_journal g))))
         in snap_resync_required snap \<and> snap_resync_reason snap = Some ''persisted_catch_up_empty''"
proof -
  obtain d where d: "feed_holds (recorded ops 0) d (run_ops ops (open_feed (new_journal g)))"
    using fresh_run_holds by blast
  then show ?thesis
    using replay_after_cursor(4) [OF d assms(1), where now = now and limit = 0] assms(2,3) by (simp add: Let_def feed_watermark [OF d])
qed

lemma length_recorded_replicate: "length (recorded (replicate k (Record t e p)) n) = k"
  by (induction k arbitrary: n) simp_all

theorem replay_limit_zero_resyncs_witness:
  "let snap = snd (runtime_events_since True 9 1 0
       (run_ops (replicate 1026 (Record 5 ''x'' ''{}'')) (open_feed (new_journal ''g''))))
   in snap_resync_required snap \<and> snap_resync_reason snap = Some ''persisted_catch_up_empty''"
proof -
  let ?ops = "replicate 1026 (Record 5 ''x'' ''{}'')"
  have n: "length (recorded ?ops 0) = 1026" by (rule length_recorded_replicate)
  have w: "meta_watermark_seq (fs_journal (run_ops ?ops (open_feed (new_journal ''g'')))) = 0"
    by (rule watermark_small) (subst n, simp)
  show ?thesis
  proof (rule replay_limit_zero_resyncs)
    show "1 < length (recorded ?ops 0) - 1024" unfolding n by simp
    show "meta_watermark_seq (fs_journal (run_ops ?ops (open_feed (new_journal ''g'')))) \<le> 1"
      unfolding w by simp
  qed simp
qed

end
