(* ===== verification/LocalIpc.thy ===== *)
theory LocalIpc
  imports Views BleAssist TransferControl EventFeed
begin

text \<open>
  The local control protocol of \<^verbatim>\<open>local_ipc.rs\<close>: commands and responses, their names and payloads on the wire,
  which endpoint takes a command and whether it needs an access token, the length-prefixed frames, and
  the endpoint paths.  Reading a typed field of a payload follows the derived \<^verbatim>\<open>Deserialize\<close> implementations;
  the text \<^verbatim>\<open>serde_json\<close> gives when a value has not the type of the field is the argument \<open>serde_err\<close>, by
  field and value, and \<^verbatim>\<open>blake3\<close> is an argument of the endpoint path.
\<close>

section \<open>Commands\<close>

datatype local_ipc_command =
    AuthIssue | AuthRevoke | DiscoverList | DiscoverConnectByAddress string
  | TrustList | TrustPair string | TrustUnpair string | TrustSetAlias string "string option"
  | TrustConfirmVerification string trust_verification_method bool
  | ConfigGet | ConfigSet app_config
  | TransferSend string "string list" | TransferAccept string string | TransferReject string string
  | TransferCancel string | TransferCancelAll | TransferRetry string | TransferList | TransferGet string
  | TransferHistory u32 u32 | TransferPendingIncoming
  | AppActivate "string list" "string list" | AppGetLocalIdentity | AppGetBleAssistCapsule
  | AppIngestBleAssistCapsule ble_capsule "string option"
  | AppGetRuntimeStatus | AppGetDiscoveryDiagnostics | AppGetEventCheckpoint string | AppGetEventFeed u64 u32
  | AppSetEventCheckpoint string string u64 | AppQueueExternalShare "string list"
  | SecurityGetEvents u32 u32 | TransferGetMetrics | SecurityGetPosture

datatype command_class = AuthBootstrap | ReadSide | WriteSide | ActivationShareHandoff | RuntimeEventReplay

datatype endpoint_kind = Service | UiActivation

definition command_class_of :: "local_ipc_command \<Rightarrow> command_class" where
  "command_class_of cmd =
     (case cmd of
        AuthIssue \<Rightarrow> AuthBootstrap
      | AuthRevoke \<Rightarrow> AuthBootstrap
      | DiscoverList \<Rightarrow> ReadSide
      | TrustList \<Rightarrow> ReadSide
      | ConfigGet \<Rightarrow> ReadSide
      | TransferList \<Rightarrow> ReadSide
      | TransferGet _ \<Rightarrow> ReadSide
      | TransferHistory _ _ \<Rightarrow> ReadSide
      | TransferPendingIncoming \<Rightarrow> ReadSide
      | AppGetLocalIdentity \<Rightarrow> ReadSide
      | AppGetBleAssistCapsule \<Rightarrow> ReadSide
      | AppGetRuntimeStatus \<Rightarrow> ReadSide
      | AppGetDiscoveryDiagnostics \<Rightarrow> ReadSide
      | AppGetEventCheckpoint _ \<Rightarrow> ReadSide
      | SecurityGetEvents _ _ \<Rightarrow> ReadSide
      | TransferGetMetrics \<Rightarrow> ReadSide
      | SecurityGetPosture \<Rightarrow> ReadSide
      | AppActivate _ _ \<Rightarrow> ActivationShareHandoff
      | AppQueueExternalShare _ \<Rightarrow> ActivationShareHandoff
      | AppGetEventFeed _ _ \<Rightarrow> RuntimeEventReplay
      | DiscoverConnectByAddress _ \<Rightarrow> WriteSide
      | TrustPair _ \<Rightarrow> WriteSide
      | TrustUnpair _ \<Rightarrow> WriteSide
      | TrustSetAlias _ _ \<Rightarrow> WriteSide
      | TrustConfirmVerification _ _ _ \<Rightarrow> WriteSide
      | ConfigSet _ \<Rightarrow> WriteSide
      | AppIngestBleAssistCapsule _ _ \<Rightarrow> WriteSide
      | AppSetEventCheckpoint _ _ _ \<Rightarrow> WriteSide
      | TransferSend _ _ \<Rightarrow> WriteSide
      | TransferAccept _ _ \<Rightarrow> WriteSide
      | TransferReject _ _ \<Rightarrow> WriteSide
      | TransferCancel _ \<Rightarrow> WriteSide
      | TransferCancelAll \<Rightarrow> WriteSide
      | TransferRetry _ \<Rightarrow> WriteSide)"

definition endpoint_kind_of :: "local_ipc_command \<Rightarrow> endpoint_kind" where
  "endpoint_kind_of cmd =
     (case command_class_of cmd of
        AuthBootstrap \<Rightarrow> Service
      | ActivationShareHandoff \<Rightarrow> UiActivation
      | _ \<Rightarrow> Service)"

definition requires_auth :: "local_ipc_command \<Rightarrow> bool" where
  "requires_auth cmd \<longleftrightarrow> command_class_of cmd \<in> {ReadSide, WriteSide, RuntimeEventReplay}"

definition accepts_on_endpoint :: "local_ipc_command \<Rightarrow> endpoint_kind \<Rightarrow> bool" where
  "accepts_on_endpoint cmd k \<longleftrightarrow> endpoint_kind_of cmd = k"

fun endpoint_label :: "endpoint_kind \<Rightarrow> string" where
  "endpoint_label Service = ''service''"
| "endpoint_label UiActivation = ''ui activation''"

primrec command_name :: "local_ipc_command \<Rightarrow> string" where
  "command_name AuthIssue = ''auth/issue''"
| "command_name AuthRevoke = ''auth/revoke''"
| "command_name DiscoverList = ''discover/list''"
| "command_name (DiscoverConnectByAddress a) = ''discover/connect_by_address''"
| "command_name TrustList = ''trust/list''"
| "command_name (TrustPair fp) = ''trust/pair''"
| "command_name (TrustUnpair fp) = ''trust/unpair''"
| "command_name (TrustSetAlias fp a) = ''trust/set_alias''"
| "command_name (TrustConfirmVerification fp m b) = ''trust/confirm_verification''"
| "command_name ConfigGet = ''config/get''"
| "command_name (ConfigSet c) = ''config/set''"
| "command_name (TransferSend fp ps) = ''transfer/send''"
| "command_name (TransferAccept t n) = ''transfer/accept''"
| "command_name (TransferReject t n) = ''transfer/reject''"
| "command_name (TransferCancel t) = ''transfer/cancel''"
| "command_name TransferCancelAll = ''transfer/cancel_all''"
| "command_name (TransferRetry t) = ''transfer/retry''"
| "command_name TransferList = ''transfer/list''"
| "command_name (TransferGet t) = ''transfer/get''"
| "command_name (TransferHistory l p) = ''transfer/history''"
| "command_name TransferPendingIncoming = ''transfer/pending_incoming''"
| "command_name (AppActivate ps ls) = ''app/activate''"
| "command_name AppGetLocalIdentity = ''app/get_local_identity''"
| "command_name AppGetBleAssistCapsule = ''app/get_ble_assist_capsule''"
| "command_name (AppIngestBleAssistCapsule c s) = ''app/ingest_ble_assist_capsule''"
| "command_name AppGetRuntimeStatus = ''app/get_runtime_status''"
| "command_name AppGetDiscoveryDiagnostics = ''app/get_discovery_diagnostics''"
| "command_name (AppGetEventCheckpoint c) = ''app/get_event_checkpoint''"
| "command_name (AppGetEventFeed a l) = ''app/get_event_feed''"
| "command_name (AppSetEventCheckpoint c g s) = ''app/set_event_checkpoint''"
| "command_name (AppQueueExternalShare ps) = ''app/queue_external_share''"
| "command_name (SecurityGetEvents l p) = ''security/get_events''"
| "command_name TransferGetMetrics = ''transfer/get_metrics''"
| "command_name SecurityGetPosture = ''security/get_posture''"

section \<open>Values\<close>

definition opt_value :: "string option \<Rightarrow> json" where
  "opt_value s = (case s of Some v \<Rightarrow> JStr v | None \<Rightarrow> JNull)"

definition u32_value :: "u32 \<Rightarrow> json" where
  "u32_value w = JNum (int (unat w))"

definition u64_value :: "u64 \<Rightarrow> json" where
  "u64_value n = JNum (int n)"

definition strings_value :: "string list \<Rightarrow> json" where
  "strings_value ss = JArr (map JStr ss)"

fun strategy_str :: "file_conflict_strategy \<Rightarrow> string" where
  "strategy_str Overwrite = ''overwrite''"
| "strategy_str Rename = ''rename''"
| "strategy_str Skip = ''skip''"

definition config_value :: "app_config \<Rightarrow> json" where
  "config_value c = JObj
     [(''auto_accept_trusted_only'', JBool (auto_accept_trusted_only c)), (''device_name'', JStr (device_name c)),
      (''download_dir'', opt_value (download_dir c)), (''file_conflict_strategy'', JStr (strategy_str (conflict_strategy c))),
      (''launch_at_login'', JBool (launch_at_login c)), (''max_parallel_streams'', u32_value (max_parallel_streams c))]"

definition capsule_value :: "ble_capsule \<Rightarrow> json" where
  "capsule_value c = JObj
     [(''expires_at_unix_ms'', u64_value (cap_expires_at_unix_ms c)), (''integrity_tag'', JStr (cap_integrity_tag c)),
      (''issued_at_unix_ms'', u64_value (cap_issued_at_unix_ms c)),
      (''qr_fallback_available'', JBool (cap_qr_fallback_available c)),
      (''rolling_identifier'', JStr (cap_rolling_identifier c)), (''rotation_window_ms'', u64_value (cap_rotation_window_ms c)),
      (''short_code_fallback_available'', JBool (cap_short_code_fallback_available c)),
      (''transport_hint'', JStr (cap_transport_hint c)), (''version'', u64_value (cap_version c))]"

definition de_string :: "json \<Rightarrow> string option" where
  "de_string v = (case v of JStr s \<Rightarrow> Some s | _ \<Rightarrow> None)"

definition de_opt_string :: "json \<Rightarrow> string option option" where
  "de_opt_string v = (case v of JNull \<Rightarrow> Some None | JStr s \<Rightarrow> Some (Some s) | _ \<Rightarrow> None)"

definition de_bool :: "json \<Rightarrow> bool option" where
  "de_bool v = (case v of JBool b \<Rightarrow> Some b | _ \<Rightarrow> None)"

definition de_uint :: "nat \<Rightarrow> json \<Rightarrow> nat option" where
  "de_uint bound v = (case as_u64 v of Some n \<Rightarrow> (if n \<le> bound then Some n else None) | None \<Rightarrow> None)"

definition de_u32 :: "json \<Rightarrow> u32 option" where
  "de_u32 v = map_option of_nat (de_uint (2 ^ 32 - 1) v)"

text \<open>An enumeration without fields: its name, or an object with the name as only key and null.\<close>

definition de_variant :: "(string \<Rightarrow> 'a option) \<Rightarrow> json \<Rightarrow> 'a option" where
  "de_variant f v = (case v of JStr s \<Rightarrow> f s | JObj [(s, JNull)] \<Rightarrow> f s | _ \<Rightarrow> None)"

definition read_strategy :: "string \<Rightarrow> file_conflict_strategy option" where
  "read_strategy s =
     (if s = ''overwrite'' then Some Overwrite else if s = ''rename'' then Some Rename
      else if s = ''skip'' then Some Skip else None)"

definition read_method :: "string \<Rightarrow> trust_verification_method option" where
  "read_method s =
     (if s = ''manual_pairing'' then Some ManualPairing else if s = ''legacy_unsigned_link'' then Some LegacyUnsignedLink
      else if s = ''signed_pairing_link'' then Some SignedPairingLink else if s = ''mutual_receipt'' then Some MutualReceipt
      else None)"

definition or_default :: "'a \<Rightarrow> (json \<Rightarrow> 'a option) \<Rightarrow> json option \<Rightarrow> 'a option" where
  "or_default d f v = (case v of None \<Rightarrow> Some d | Some x \<Rightarrow> f x)"

definition build_config ::
    "string option \<Rightarrow> bool option \<Rightarrow> string option option \<Rightarrow> file_conflict_strategy option \<Rightarrow> u32 option \<Rightarrow> bool option \<Rightarrow>
     app_config option" where
  "build_config nm auto dir strat streams login =
     Option.bind nm (\<lambda>n. Option.bind auto (\<lambda>a. Option.bind dir (\<lambda>d. Option.bind strat (\<lambda>s.
     Option.bind streams (\<lambda>m. Option.bind login (\<lambda>l.
       Some \<lparr>device_name = n, auto_accept_trusted_only = a, download_dir = d, conflict_strategy = s,
             max_parallel_streams = m, launch_at_login = l\<rparr>))))))"

definition nth_value :: "json list \<Rightarrow> nat \<Rightarrow> json option" where
  "nth_value vs i = (if i < length vs then Some (vs ! i) else None)"

definition de_config :: "json \<Rightarrow> app_config option" where
  "de_config v =
     (case v of
        JObj obj \<Rightarrow>
          build_config (Option.bind (map_of obj ''device_name'') de_string)
            (case (map_of obj ''auto_accept_trusted_only'', map_of obj ''auto_accept'') of
               (Some x, Some y) \<Rightarrow> None
             | (Some x, None) \<Rightarrow> de_bool x
             | (None, y) \<Rightarrow> or_default False de_bool y)
            (or_default None de_opt_string (map_of obj ''download_dir''))
            (or_default Rename (de_variant read_strategy) (map_of obj ''file_conflict_strategy''))
            (or_default 4 de_u32 (map_of obj ''max_parallel_streams''))
            (or_default False de_bool (map_of obj ''launch_at_login''))
      | JArr vs \<Rightarrow>
          (if length vs < 3 \<or> length vs > 6 then None
           else build_config (Option.bind (nth_value vs 0) de_string) (or_default False de_bool (nth_value vs 1))
                  (Option.bind (nth_value vs 2) de_opt_string)
                  (or_default Rename (de_variant read_strategy) (nth_value vs 3))
                  (or_default 4 de_u32 (nth_value vs 4)) (or_default False de_bool (nth_value vs 5)))
      | _ \<Rightarrow> None)"

definition build_capsule ::
    "nat option \<Rightarrow> nat option \<Rightarrow> nat option \<Rightarrow> string option \<Rightarrow> string option \<Rightarrow> string option \<Rightarrow> bool option \<Rightarrow> bool option \<Rightarrow>
     nat option \<Rightarrow> ble_capsule option" where
  "build_capsule ver iss xp rid tag hint qr short rot =
     Option.bind ver (\<lambda>v. Option.bind iss (\<lambda>i. Option.bind xp (\<lambda>e. Option.bind rid (\<lambda>r. Option.bind tag (\<lambda>t.
     Option.bind hint (\<lambda>h. Option.bind qr (\<lambda>q. Option.bind short (\<lambda>s. Option.bind rot (\<lambda>w.
       Some \<lparr>cap_version = v, cap_issued_at_unix_ms = i, cap_expires_at_unix_ms = e, cap_rolling_identifier = r,
             cap_integrity_tag = t, cap_transport_hint = h, cap_qr_fallback_available = q,
             cap_short_code_fallback_available = s, cap_rotation_window_ms = w\<rparr>)))))))))"

definition capsule_from :: "(nat \<Rightarrow> string \<Rightarrow> json option) \<Rightarrow> ble_capsule option" where
  "capsule_from get =
     build_capsule (Option.bind (get 0 ''version'') (de_uint 255))
       (Option.bind (get 1 ''issued_at_unix_ms'') (de_uint U64_MAX)) (Option.bind (get 2 ''expires_at_unix_ms'') (de_uint U64_MAX))
       (Option.bind (get 3 ''rolling_identifier'') de_string) (Option.bind (get 4 ''integrity_tag'') de_string)
       (Option.bind (get 5 ''transport_hint'') de_string) (Option.bind (get 6 ''qr_fallback_available'') de_bool)
       (Option.bind (get 7 ''short_code_fallback_available'') de_bool)
       (Option.bind (get 8 ''rotation_window_ms'') (de_uint U64_MAX))"

definition de_capsule :: "json \<Rightarrow> ble_capsule option" where
  "de_capsule v =
     (case v of
        JObj obj \<Rightarrow> capsule_from (\<lambda>i k. map_of obj k)
      | JArr vs \<Rightarrow> (if length vs = 9 then capsule_from (\<lambda>i k. nth_value vs i) else None)
      | _ \<Rightarrow> None)"

section \<open>Errors and payload fields\<close>

record ipc_error =
  ie_code :: string
  ie_message :: string

definition invalid_request :: "string \<Rightarrow> ipc_error" where
  "invalid_request m = \<lparr>ie_code = ''invalid_request'', ie_message = m\<rparr>"

definition unauthorized :: "string \<Rightarrow> ipc_error" where
  "unauthorized m = \<lparr>ie_code = ''unauthorized'', ie_message = m\<rparr>"

definition dispatch_failed :: "string \<Rightarrow> ipc_error" where
  "dispatch_failed m = \<lparr>ie_code = ''dispatch_failed'', ie_message = m\<rparr>"

definition proto_mismatch :: "nat \<Rightarrow> nat \<Rightarrow> ipc_error" where
  "proto_mismatch expected actual = \<lparr>ie_code = ''proto_mismatch'',
     ie_message = ''unsupported local IPC protocol version '' @ show_nat actual @ ''; expected '' @ show_nat expected\<rparr>"

definition payload_object :: "json option \<Rightarrow> ipc_error + (string \<times> json) list" where
  "payload_object p =
     (case p of Some (JObj obj) \<Rightarrow> Ok obj | _ \<Rightarrow> Err (invalid_request ''payload must be an object''))"

definition field_error :: "string \<Rightarrow> string \<Rightarrow> ipc_error" where
  "field_error fld what = invalid_request (''payload.'' @ fld @ what)"

definition required_string :: "json option \<Rightarrow> string \<Rightarrow> ipc_error + string" where
  "required_string p fld =
     (case payload_object p of
        Inl e \<Rightarrow> Err e
      | Inr obj \<Rightarrow>
          (case Option.bind (map_of obj fld) de_string of
             Some s \<Rightarrow> Ok s | None \<Rightarrow> Err (field_error fld '' must be a string'')))"

definition optional_string :: "json option \<Rightarrow> string \<Rightarrow> ipc_error + string option" where
  "optional_string p fld =
     (case payload_object p of
        Inl e \<Rightarrow> Err e
      | Inr obj \<Rightarrow>
          (case map_of obj fld of
             Some (JStr s) \<Rightarrow> Ok (Some s)
           | Some JNull \<Rightarrow> Ok None
           | None \<Rightarrow> Ok None
           | Some _ \<Rightarrow> Err (field_error fld '' must be a string or null'')))"

definition optional_bool :: "json option \<Rightarrow> string \<Rightarrow> ipc_error + bool option" where
  "optional_bool p fld =
     (case payload_object p of
        Inl e \<Rightarrow> Err e
      | Inr obj \<Rightarrow>
          (case map_of obj fld of
             Some (JBool b) \<Rightarrow> Ok (Some b)
           | Some JNull \<Rightarrow> Ok None
           | None \<Rightarrow> Ok None
           | Some _ \<Rightarrow> Err (field_error fld '' must be a boolean or null'')))"

fun all_strings :: "json list \<Rightarrow> string list option" where
  "all_strings [] = Some []"
| "all_strings (v # vs) = Option.bind (de_string v) (\<lambda>s. map_option ((#) s) (all_strings vs))"

definition string_items :: "string \<Rightarrow> json list \<Rightarrow> ipc_error + string list" where
  "string_items fld vs =
     (case all_strings vs of Some ss \<Rightarrow> Ok ss | None \<Rightarrow> Err (field_error fld '' must be an array of strings''))"

definition required_string_vec :: "json option \<Rightarrow> string \<Rightarrow> ipc_error + string list" where
  "required_string_vec p fld =
     (case payload_object p of
        Inl e \<Rightarrow> Err e
      | Inr obj \<Rightarrow>
          (case map_of obj fld of
             None \<Rightarrow> Err (field_error fld '' is required'')
           | Some (JArr vs) \<Rightarrow> string_items fld vs
           | Some _ \<Rightarrow> Err (field_error fld '' must be an array of strings'')))"

definition optional_string_vec :: "json option \<Rightarrow> string \<Rightarrow> ipc_error + string list" where
  "optional_string_vec p fld =
     (case payload_object p of
        Inl e \<Rightarrow> Err e
      | Inr obj \<Rightarrow>
          (case map_of obj fld of
             Some (JArr vs) \<Rightarrow> string_items fld vs
           | Some JNull \<Rightarrow> Ok []
           | None \<Rightarrow> Ok []
           | Some _ \<Rightarrow> Err (field_error fld '' must be an array of strings'')))"

definition required_value :: "(string \<Rightarrow> json \<Rightarrow> string) \<Rightarrow> (json \<Rightarrow> 'a option) \<Rightarrow> json option \<Rightarrow> string \<Rightarrow> ipc_error + 'a" where
  "required_value serde_err de p fld =
     (case payload_object p of
        Inl e \<Rightarrow> Err e
      | Inr obj \<Rightarrow>
          (case map_of obj fld of
             None \<Rightarrow> Err (field_error fld '' is required'')
           | Some v \<Rightarrow>
               (case de v of Some x \<Rightarrow> Ok x | None \<Rightarrow> Err (field_error fld ('' is invalid: '' @ serde_err fld v)))))"

section \<open>Requests\<close>

definition LOCAL_IPC_PROTO_VERSION :: nat where "LOCAL_IPC_PROTO_VERSION = 1"
definition LOCAL_IPC_MAX_FRAME_LEN :: nat where "LOCAL_IPC_MAX_FRAME_LEN = 1024 * 1024"
definition RESERVED_PHASE_A_COMMANDS :: "string list" where "RESERVED_PHASE_A_COMMANDS = [''discover/diagnostics'']"

record local_auth_context =
  ac_access_token :: "string option"

record wire_request =
  rq_proto_version :: nat
  rq_request_id :: string
  rq_command :: string
  rq_payload :: "json option"
  rq_auth_context :: "local_auth_context option"

primrec command_payload :: "local_ipc_command \<Rightarrow> json option" where
  "command_payload AuthIssue = None"
| "command_payload AuthRevoke = None"
| "command_payload DiscoverList = None"
| "command_payload (DiscoverConnectByAddress a) = Some (JObj [(''address'', JStr a)])"
| "command_payload TrustList = None"
| "command_payload (TrustPair fp) = Some (JObj [(''fingerprint'', JStr fp)])"
| "command_payload (TrustUnpair fp) = Some (JObj [(''fingerprint'', JStr fp)])"
| "command_payload (TrustSetAlias fp a) = Some (JObj [(''fingerprint'', JStr fp), (''alias'', opt_value a)])"
| "command_payload (TrustConfirmVerification fp m b) =
     Some (JObj [(''fingerprint'', JStr fp), (''verification_method'', JStr (method_str m)), (''mutual_confirmation'', JBool b)])"
| "command_payload ConfigGet = None"
| "command_payload (ConfigSet c) = Some (JObj [(''config'', config_value c)])"
| "command_payload (TransferSend fp ps) = Some (JObj [(''peer_fingerprint'', JStr fp), (''paths'', strings_value ps)])"
| "command_payload (TransferAccept t n) = Some (JObj [(''transfer_id'', JStr t), (''notification_id'', JStr n)])"
| "command_payload (TransferReject t n) = Some (JObj [(''transfer_id'', JStr t), (''notification_id'', JStr n)])"
| "command_payload (TransferCancel t) = Some (JObj [(''transfer_id'', JStr t)])"
| "command_payload TransferCancelAll = None"
| "command_payload (TransferRetry t) = Some (JObj [(''transfer_id'', JStr t)])"
| "command_payload TransferList = None"
| "command_payload (TransferGet t) = Some (JObj [(''transfer_id'', JStr t)])"
| "command_payload (TransferHistory l p) = Some (JObj [(''limit'', u32_value l), (''offset'', u32_value p)])"
| "command_payload TransferPendingIncoming = None"
| "command_payload (AppActivate ps ls) = Some (JObj [(''paths'', strings_value ps), (''pairing_links'', strings_value ls)])"
| "command_payload AppGetLocalIdentity = None"
| "command_payload AppGetBleAssistCapsule = None"
| "command_payload (AppIngestBleAssistCapsule c s) = Some (JObj [(''capsule'', capsule_value c), (''source'', opt_value s)])"
| "command_payload AppGetRuntimeStatus = None"
| "command_payload AppGetDiscoveryDiagnostics = None"
| "command_payload (AppGetEventCheckpoint c) = Some (JObj [(''consumer_id'', JStr c)])"
| "command_payload (AppGetEventFeed a l) = Some (JObj [(''after_seq'', u64_value a), (''limit'', u32_value l)])"
| "command_payload (AppSetEventCheckpoint c g s) =
     Some (JObj [(''consumer_id'', JStr c), (''generation'', JStr g), (''seq'', u64_value s)])"
| "command_payload (AppQueueExternalShare ps) = Some (JObj [(''paths'', strings_value ps)])"
| "command_payload (SecurityGetEvents l p) = Some (JObj [(''limit'', u32_value l), (''offset'', u32_value p)])"
| "command_payload TransferGetMetrics = None"
| "command_payload SecurityGetPosture = None"

definition to_wire_request :: "local_ipc_command \<Rightarrow> string \<Rightarrow> local_auth_context option \<Rightarrow> wire_request" where
  "to_wire_request cmd rid auth =
     \<lparr>rq_proto_version = LOCAL_IPC_PROTO_VERSION, rq_request_id = rid, rq_command = command_name cmd,
      rq_payload = command_payload cmd, rq_auth_context = auth\<rparr>"

text \<open>The constructor applied to one, two or three fields read in order, the first error returned.\<close>

definition with1 :: "('a \<Rightarrow> 'c) \<Rightarrow> ipc_error + 'a \<Rightarrow> ipc_error + 'c" where
  "with1 f a = (case a of Inl e \<Rightarrow> Err e | Inr x \<Rightarrow> Ok (f x))"

definition with2 :: "('a \<Rightarrow> 'b \<Rightarrow> 'c) \<Rightarrow> ipc_error + 'a \<Rightarrow> ipc_error + 'b \<Rightarrow> ipc_error + 'c" where
  "with2 f a b = (case a of Inl e \<Rightarrow> Err e | Inr x \<Rightarrow> with1 (f x) b)"

definition with3 :: "('a \<Rightarrow> 'b \<Rightarrow> 'd \<Rightarrow> 'c) \<Rightarrow> ipc_error + 'a \<Rightarrow> ipc_error + 'b \<Rightarrow> ipc_error + 'd \<Rightarrow> ipc_error + 'c" where
  "with3 f a b d = (case a of Inl e \<Rightarrow> Err e | Inr x \<Rightarrow> with2 (f x) b d)"

definition trust_from :: "(string \<Rightarrow> json \<Rightarrow> string) \<Rightarrow> string \<Rightarrow> json option \<Rightarrow> (ipc_error + local_ipc_command) option" where
  "trust_from se cmd p =
     (if cmd = ''trust/list'' then Some (Ok TrustList)
      else if cmd = ''trust/pair'' then Some (with1 TrustPair (required_string p ''fingerprint''))
      else if cmd = ''trust/unpair'' then Some (with1 TrustUnpair (required_string p ''fingerprint''))
      else if cmd = ''trust/set_alias'' then
        Some (with2 TrustSetAlias (required_string p ''fingerprint'') (optional_string p ''alias''))
      else if cmd = ''trust/confirm_verification'' then
        Some (with3 TrustConfirmVerification (required_string p ''fingerprint'')
                (required_value se (de_variant read_method) p ''verification_method'')
                (with1 (\<lambda>b. case b of Some x \<Rightarrow> x | None \<Rightarrow> False) (optional_bool p ''mutual_confirmation'')))
      else None)"

definition transfer_from :: "(string \<Rightarrow> json \<Rightarrow> string) \<Rightarrow> string \<Rightarrow> json option \<Rightarrow> (ipc_error + local_ipc_command) option" where
  "transfer_from se cmd p =
     (if cmd = ''transfer/send'' then
        Some (with2 TransferSend (required_string p ''peer_fingerprint'') (required_string_vec p ''paths''))
      else if cmd = ''transfer/accept'' then
        Some (with2 TransferAccept (required_string p ''transfer_id'') (required_string p ''notification_id''))
      else if cmd = ''transfer/reject'' then
        Some (with2 TransferReject (required_string p ''transfer_id'') (required_string p ''notification_id''))
      else if cmd = ''transfer/cancel'' then Some (with1 TransferCancel (required_string p ''transfer_id''))
      else if cmd = ''transfer/cancel_all'' then Some (Ok TransferCancelAll)
      else if cmd = ''transfer/retry'' then Some (with1 TransferRetry (required_string p ''transfer_id''))
      else if cmd = ''transfer/list'' then Some (Ok TransferList)
      else if cmd = ''transfer/get'' then Some (with1 TransferGet (required_string p ''transfer_id''))
      else if cmd = ''transfer/history'' then
        Some (with2 TransferHistory (required_value se de_u32 p ''limit'') (required_value se de_u32 p ''offset''))
      else if cmd = ''transfer/pending_incoming'' then Some (Ok TransferPendingIncoming)
      else if cmd = ''transfer/get_metrics'' then Some (Ok TransferGetMetrics)
      else None)"

definition app_from :: "(string \<Rightarrow> json \<Rightarrow> string) \<Rightarrow> string \<Rightarrow> json option \<Rightarrow> (ipc_error + local_ipc_command) option" where
  "app_from se cmd p =
     (if cmd = ''app/activate'' then
        Some (with2 AppActivate (required_string_vec p ''paths'') (optional_string_vec p ''pairing_links''))
      else if cmd = ''app/get_local_identity'' then Some (Ok AppGetLocalIdentity)
      else if cmd = ''app/get_ble_assist_capsule'' then Some (Ok AppGetBleAssistCapsule)
      else if cmd = ''app/ingest_ble_assist_capsule'' then
        Some (with2 AppIngestBleAssistCapsule (required_value se de_capsule p ''capsule'') (optional_string p ''source''))
      else if cmd = ''app/get_runtime_status'' then Some (Ok AppGetRuntimeStatus)
      else if cmd = ''app/get_discovery_diagnostics'' then Some (Ok AppGetDiscoveryDiagnostics)
      else if cmd = ''app/get_event_checkpoint'' then Some (with1 AppGetEventCheckpoint (required_string p ''consumer_id''))
      else if cmd = ''app/get_event_feed'' then
        Some (with2 AppGetEventFeed (required_value se (de_uint U64_MAX) p ''after_seq'') (required_value se de_u32 p ''limit''))
      else if cmd = ''app/set_event_checkpoint'' then
        Some (with3 AppSetEventCheckpoint (required_string p ''consumer_id'') (required_string p ''generation'')
                (required_value se (de_uint U64_MAX) p ''seq''))
      else if cmd = ''app/queue_external_share'' then Some (with1 AppQueueExternalShare (required_string_vec p ''paths''))
      else None)"

definition other_from :: "(string \<Rightarrow> json \<Rightarrow> string) \<Rightarrow> string \<Rightarrow> json option \<Rightarrow> ipc_error + local_ipc_command" where
  "other_from se cmd p =
     (if cmd = ''auth/issue'' then Ok AuthIssue
      else if cmd = ''auth/revoke'' then Ok AuthRevoke
      else if cmd = ''discover/list'' then Ok DiscoverList
      else if cmd = ''discover/connect_by_address'' then with1 DiscoverConnectByAddress (required_string p ''address'')
      else if cmd = ''config/get'' then Ok ConfigGet
      else if cmd = ''config/set'' then with1 ConfigSet (required_value se de_config p ''config'')
      else if cmd = ''security/get_events'' then
        with2 SecurityGetEvents (required_value se de_u32 p ''limit'') (required_value se de_u32 p ''offset'')
      else if cmd = ''security/get_posture'' then Ok SecurityGetPosture
      else if cmd \<in> set RESERVED_PHASE_A_COMMANDS then
        Err (invalid_request (''command '' @ cmd @
          '' is reserved for the frozen Phase A IPC contract and is not implemented in the single-process baseline''))
      else Err (invalid_request (''unknown local IPC command '' @ cmd)))"

text \<open>The match on the command name, in the groups the names form.\<close>

definition from_name_and_payload :: "(string \<Rightarrow> json \<Rightarrow> string) \<Rightarrow> string \<Rightarrow> json option \<Rightarrow> ipc_error + local_ipc_command" where
  "from_name_and_payload se cmd p =
     (case trust_from se cmd p of
        Some r \<Rightarrow> r
      | None \<Rightarrow>
          (case transfer_from se cmd p of
             Some r \<Rightarrow> r
           | None \<Rightarrow> (case app_from se cmd p of Some r \<Rightarrow> r | None \<Rightarrow> other_from se cmd p)))"

definition from_wire_request :: "(string \<Rightarrow> json \<Rightarrow> string) \<Rightarrow> wire_request \<Rightarrow> ipc_error + local_ipc_command" where
  "from_wire_request se rq =
     (if rq_proto_version rq \<noteq> LOCAL_IPC_PROTO_VERSION
      then Err (proto_mismatch LOCAL_IPC_PROTO_VERSION (rq_proto_version rq))
      else from_name_and_payload se (rq_command rq) (rq_payload rq))"

section \<open>Responses\<close>

record connect_result =
  cn_fingerprint :: string
  cn_name :: string
  cn_trusted :: bool
  cn_address :: socket_addr

datatype (discs_sels) local_ipc_response =
    AccessGrant access_grant | Ack | Devices "device_view list" | ConnectByAddress connect_result
  | TrustedPeers "trusted_peer_view list" | AppConfig app_config | CancelledTransfers nat
  | TransfersList "transfer_view list" | TransferOne "transfer_view option" | HistoryList "transfer_view list"
  | PendingIncomingRequests "pending_request list" | LocalIdentity local_identity_view | BleAssistCapsule ble_capsule
  | RuntimeStatus runtime_status | DiscoveryDiagnostics json | RuntimeEvents feed_snapshot
  | RuntimeEventCheckpoint "checkpoint option" | SecurityEvents "security_event list" | TransferMetrics transfer_metrics
  | SecurityPosture json

record wire_success =
  ok_proto_version :: nat
  ok_request_id :: string
  ok_ok :: bool
  ok_payload :: "json option"

record wire_error =
  er_proto_version :: nat
  er_request_id :: string
  er_ok :: bool
  er_error :: ipc_error

datatype wire_response = WireOk wire_success | WireErr wire_error

text \<open>
  The payload: one key for what the response carries, none for an acknowledgement, and the fields of the
  snapshot itself for an event feed.  The derived serialisation of what is carried is \<open>ser\<close>.
\<close>

definition response_key :: "local_ipc_response \<Rightarrow> string" where
  "response_key r =
     (case r of
        AccessGrant _ \<Rightarrow> ''auth'' | Ack \<Rightarrow> '''' | Devices _ \<Rightarrow> ''devices'' | ConnectByAddress _ \<Rightarrow> ''result''
      | TrustedPeers _ \<Rightarrow> ''trusted_peers'' | AppConfig _ \<Rightarrow> ''config'' | CancelledTransfers _ \<Rightarrow> ''count''
      | TransfersList _ \<Rightarrow> ''transfers'' | TransferOne _ \<Rightarrow> ''transfer'' | HistoryList _ \<Rightarrow> ''history''
      | PendingIncomingRequests _ \<Rightarrow> ''requests'' | LocalIdentity _ \<Rightarrow> ''identity'' | BleAssistCapsule _ \<Rightarrow> ''capsule''
      | RuntimeStatus _ \<Rightarrow> ''runtime_status'' | DiscoveryDiagnostics _ \<Rightarrow> ''diagnostics'' | RuntimeEvents _ \<Rightarrow> ''''
      | RuntimeEventCheckpoint _ \<Rightarrow> ''checkpoint'' | SecurityEvents _ \<Rightarrow> ''events'' | TransferMetrics _ \<Rightarrow> ''metrics''
      | SecurityPosture _ \<Rightarrow> ''posture'')"

definition response_payload :: "(local_ipc_response \<Rightarrow> json) \<Rightarrow> local_ipc_response \<Rightarrow> json option" where
  "response_payload ser r =
     (case r of
        Ack \<Rightarrow> None
      | RuntimeEvents _ \<Rightarrow> Some (ser r)
      | _ \<Rightarrow> Some (JObj [(response_key r, ser r)]))"

definition into_wire_response :: "(local_ipc_response \<Rightarrow> json) \<Rightarrow> local_ipc_response \<Rightarrow> string \<Rightarrow> nat \<Rightarrow> wire_response" where
  "into_wire_response ser r rid v =
     WireOk \<lparr>ok_proto_version = v, ok_request_id = rid, ok_ok = True, ok_payload = response_payload ser r\<rparr>"

definition wire_error_response :: "string \<Rightarrow> nat \<Rightarrow> ipc_error \<Rightarrow> wire_response" where
  "wire_error_response rid v e = WireErr \<lparr>er_proto_version = v, er_request_id = rid, er_ok = False, er_error = e\<rparr>"

section \<open>Endpoints\<close>

definition hashed_endpoint_key :: "(bytes \<Rightarrow> string) \<Rightarrow> string \<Rightarrow> string" where
  "hashed_endpoint_key blake3_hex config_dir = take 12 (blake3_hex (str_bytes config_dir))"

fun endpoint_suffix :: "endpoint_kind \<Rightarrow> string" where
  "endpoint_suffix Service = ''service''"
| "endpoint_suffix UiActivation = ''ui''"

text \<open>The Unix socket: in the runtime directory of the session, else in \<^verbatim>\<open>/tmp\<close> or the temporary directory.\<close>

definition resolve_local_ipc_endpoint_for_kind ::
    "(bytes \<Rightarrow> string) \<Rightarrow> string option \<Rightarrow> bool \<Rightarrow> string \<Rightarrow> string \<Rightarrow> endpoint_kind \<Rightarrow> string" where
  "resolve_local_ipc_endpoint_for_kind blake3_hex runtime_dir tmp_exists temp_dir config_dir k =
     (let nm = ''dashdrop-'' @ endpoint_suffix k @ ''-'' @ hashed_endpoint_key blake3_hex config_dir @ ''.sock''
      in case runtime_dir of
           Some d \<Rightarrow> path_join d nm
         | None \<Rightarrow> path_join (if tmp_exists then ''/tmp'' else temp_dir) nm)"

section \<open>Frames\<close>

datatype frame_error = FrameTooLarge nat | UnexpectedEof | FrameWriteFailed | SerializeFailed | DeserializeFailed

definition encode_message :: "('m \<Rightarrow> bytes option) \<Rightarrow> 'm \<Rightarrow> frame_error + bytes" where
  "encode_message enc m =
     (case enc m of
        None \<Rightarrow> Err SerializeFailed
      | Some bs \<Rightarrow> (if length bs > LOCAL_IPC_MAX_FRAME_LEN then Err (FrameTooLarge (length bs)) else Ok bs))"

definition decode_message :: "(bytes \<Rightarrow> 'm option) \<Rightarrow> bytes \<Rightarrow> frame_error + 'm" where
  "decode_message dec bs = (case dec bs of None \<Rightarrow> Err DeserializeFailed | Some m \<Rightarrow> Ok m)"

definition write_frame_bytes :: "send_stream \<Rightarrow> bytes \<Rightarrow> frame_error + send_stream" where
  "write_frame_bytes out bs =
     (if length bs > LOCAL_IPC_MAX_FRAME_LEN then Err (FrameTooLarge (length bs))
      else case write_all out (u32_to_be_bytes (of_nat (length bs))) of
        None \<Rightarrow> Err FrameWriteFailed
      | Some out1 \<Rightarrow> (case write_all out1 bs of None \<Rightarrow> Err FrameWriteFailed | Some out2 \<Rightarrow> Ok out2))"

definition read_frame_bytes :: "bytes \<Rightarrow> frame_error + (bytes \<times> bytes)" where
  "read_frame_bytes inp =
     (case read_exact inp 4 of
        None \<Rightarrow> Err UnexpectedEof
      | Some (len_buf, inp1) \<Rightarrow>
          (let n = u32_from_be_bytes len_buf in
           if n > LOCAL_IPC_MAX_FRAME_LEN then Err (FrameTooLarge n)
           else case read_exact inp1 n of None \<Rightarrow> Err UnexpectedEof | Some r \<Rightarrow> Ok r))"

definition write_framed_message :: "('m \<Rightarrow> bytes option) \<Rightarrow> send_stream \<Rightarrow> 'm \<Rightarrow> frame_error + send_stream" where
  "write_framed_message enc out m =
     (case encode_message enc m of Inl e \<Rightarrow> Err e | Inr bs \<Rightarrow> write_frame_bytes out bs)"

definition read_framed_message :: "(bytes \<Rightarrow> 'm option) \<Rightarrow> bytes \<Rightarrow> frame_error + ('m \<times> bytes)" where
  "read_framed_message dec inp =
     (case read_frame_bytes inp of
        Inl e \<Rightarrow> Err e
      | Inr (bs, rest) \<Rightarrow> (case decode_message dec bs of Inl e \<Rightarrow> Err e | Inr m \<Rightarrow> Ok (m, rest)))"

text \<open>What the types of the fields guarantee in Rust where the model has unbounded numbers.\<close>

fun command_typed :: "local_ipc_command \<Rightarrow> bool" where
  "command_typed (AppIngestBleAssistCapsule c s) \<longleftrightarrow>
     cap_version c \<le> 255 \<and> cap_issued_at_unix_ms c \<le> U64_MAX \<and> cap_expires_at_unix_ms c \<le> U64_MAX \<and>
     cap_rotation_window_ms c \<le> U64_MAX"
| "command_typed (AppGetEventFeed a l) \<longleftrightarrow> a \<le> U64_MAX"
| "command_typed (AppSetEventCheckpoint c g s) \<longleftrightarrow> s \<le> U64_MAX"
| "command_typed _ \<longleftrightarrow> True"

section \<open>Facts\<close>

lemma all_strings_map [simp]: "all_strings (map JStr ss) = Some ss"
  by (induction ss) (simp_all add: de_string_def)

lemma de_uint_value [simp]: "n \<le> bound \<Longrightarrow> bound \<le> U64_MAX \<Longrightarrow> de_uint bound (u64_value n) = Some n"
  by (simp add: de_uint_def u64_value_def as_u64_def)

lemma de_u32_value [simp]: "de_u32 (u32_value w) = Some w"
proof -
  have w: "unat w \<le> 2 ^ 32 - 1" using unsigned_less [of w, where ?'a = nat] by simp
  have "(2 ^ 32 - 1 :: nat) \<le> U64_MAX" by (simp add: U64_MAX_def)
  then have "unat w \<le> U64_MAX" using w by linarith
  then have "as_u64 (u32_value w) = Some (unat w)"
    unfolding as_u64_def u32_value_def json.case by (simp only: zle_int of_nat_0_le_iff simp_thms if_True nat_int)
  then show ?thesis using w by (simp add: de_u32_def de_uint_def)
qed

lemma de_values [simp]:
  "de_string (JStr s) = Some s" "de_bool (JBool b) = Some b" "de_opt_string (opt_value a) = Some a"
  "de_variant f (JStr s) = f s"
  by (simp_all add: de_string_def de_bool_def de_opt_string_def opt_value_def de_variant_def split: option.split)

lemma read_strategy_str [simp]: "read_strategy (strategy_str st) = Some st"
  by (cases st) (simp_all add: read_strategy_def)

lemma read_method_str [simp]: "read_method (method_str m) = Some m"
  by (cases m) (simp_all add: read_method_def)

lemma de_config_value [simp]: "de_config (config_value c) = Some c"
  by (simp add: de_config_def config_value_def build_config_def or_default_def)

lemma de_capsule_value:
  assumes "command_typed (AppIngestBleAssistCapsule c s)"
  shows "de_capsule (capsule_value c) = Some c"
proof -
  have "(255 :: nat) \<le> U64_MAX" by (simp add: U64_MAX_def)
  then show ?thesis using assms
    by (simp add: de_capsule_def capsule_value_def capsule_from_def build_capsule_def)
qed

lemma optional_string_value: "map_of obj fld = Some (opt_value a) \<Longrightarrow> optional_string (Some (JObj obj)) fld = Ok a"
  by (simp add: optional_string_def payload_object_def opt_value_def split: option.split)

lemmas payload_defs = required_string_def optional_bool_def required_string_vec_def optional_string_vec_def
  required_value_def payload_object_def string_items_def strings_value_def with1_def with2_def with3_def optional_string_value

lemma from_name_payload:
  assumes "command_typed cmd"
  shows "from_name_and_payload se (command_name cmd) (command_payload cmd) = Ok cmd"
proof -
  note defs = from_name_and_payload_def trust_from_def transfer_from_def app_from_def other_from_def payload_defs
  show ?thesis using assms by (cases cmd) (simp_all add: defs de_capsule_value)
qed

lemma frame_of_bytes:
  assumes "length bs \<le> LOCAL_IPC_MAX_FRAME_LEN"
  shows "read_frame_bytes (u32_to_be_bytes (of_nat (length bs)) @ bs @ rest) = Ok (bs, rest)"
proof -
  have "length bs < 2 ^ 32" using assms by (simp add: LOCAL_IPC_MAX_FRAME_LEN_def)
  then have "unat (of_nat (length bs) :: u32) = length bs" by (simp add: unsigned_of_nat take_bit_nat_eq_self)
  then show ?thesis using assms by (simp add: read_frame_bytes_def read_exact_def be_bytes_roundtrip Let_def)
qed

lemma read_frame_shorter: "read_frame_bytes inp = Ok (fr, rest) \<Longrightarrow> length rest < length inp"
  by (auto simp: read_frame_bytes_def read_exact_def Let_def split: if_splits)

section \<open>Properties\<close>

text \<open>
  C17: Every command survives the wire: the request a client makes of it, with any request id and any
  credentials, is read by the server as that very command.
\<close>
theorem command_wire_roundtrip:
  assumes "command_typed cmd"
  shows "from_wire_request se (to_wire_request cmd rid auth) = Ok cmd"
  using from_name_payload [OF assms] by (simp add: from_wire_request_def to_wire_request_def)

theorem command_wire_roundtrip_witness:
  "from_wire_request (\<lambda>f v. ''bad'') (to_wire_request (AppSetEventCheckpoint ''ui'' ''g'' 7) ''1'' None) =
     Ok (AppSetEventCheckpoint ''ui'' ''g'' 7)"
  using command_wire_roundtrip [of "AppSetEventCheckpoint ''ui'' ''g'' 7"] by (simp add: U64_MAX_def)

text \<open>
  A frame that was written is read back, whatever follows it in the stream, and no frame is read whose
  announced length is above the limit: memory for at most one mebibyte is set aside on behalf of a peer.
\<close>
theorem frame_bounded_roundtrip:
  "(\<forall>out out' bs rest. write_frame_bytes out bs = Ok out' \<longrightarrow>
      (\<exists>fr. sent out' = sent out @ fr \<and> read_frame_bytes (fr @ rest) = Ok (bs, rest))) \<and>
   (\<forall>inp bs rest. read_frame_bytes inp = Ok (bs, rest) \<longrightarrow>
      length bs \<le> LOCAL_IPC_MAX_FRAME_LEN \<and> inp = take 4 inp @ bs @ rest)"
proof (intro conjI allI impI)
  fix out out' bs rest
  assume "write_frame_bytes out bs = Ok out'"
  then have "length bs \<le> LOCAL_IPC_MAX_FRAME_LEN" and "sent out' = sent out @ u32_to_be_bytes (of_nat (length bs)) @ bs"
    by (auto simp: write_frame_bytes_def write_all_def split: if_splits option.splits)
  then show "\<exists>fr. sent out' = sent out @ fr \<and> read_frame_bytes (fr @ rest) = Ok (bs, rest)"
    using frame_of_bytes by (intro exI [of _ "u32_to_be_bytes (of_nat (length bs)) @ bs"]) simp
next
  fix inp bs rest
  assume *: "read_frame_bytes inp = Ok (bs, rest)"
  show "length bs \<le> LOCAL_IPC_MAX_FRAME_LEN"
    using * by (auto simp: read_frame_bytes_def read_exact_def Let_def split: if_splits)
  show "inp = take 4 inp @ bs @ rest"
    using * append_take_drop_id [of "u32_from_be_bytes (take 4 inp)" "drop 4 inp"] append_take_drop_id [of 4 inp]
    by (auto simp: read_frame_bytes_def read_exact_def Let_def simp del: append_take_drop_id split: if_splits)
qed

text \<open>
  A command changes nothing without a token unless it is one of the two that manage tokens or one of
  the two that hand paths to a running user interface, and those two are only taken by the endpoint of
  the user interface, which takes nothing else.
\<close>
theorem unauthenticated_commands:
  "(\<not> requires_auth cmd \<longleftrightarrow>
      cmd \<in> {AuthIssue, AuthRevoke} \<or> (\<exists>ps ls. cmd = AppActivate ps ls) \<or> (\<exists>ps. cmd = AppQueueExternalShare ps)) \<and>
   (accepts_on_endpoint cmd UiActivation \<longleftrightarrow>
      (\<exists>ps ls. cmd = AppActivate ps ls) \<or> (\<exists>ps. cmd = AppQueueExternalShare ps)) \<and>
   (accepts_on_endpoint cmd Service \<longleftrightarrow> \<not> accepts_on_endpoint cmd UiActivation)"
  by (cases cmd) (simp_all add: requires_auth_def accepts_on_endpoint_def endpoint_kind_of_def command_class_of_def)

end
