(* ===== verification/ExternalShare.thy ===== *)
theory ExternalShare
  imports Paths TextData
begin

text \<open>
  Paths and pairing links handed to the program from outside, \<^verbatim>\<open>runtime/bootstrap.rs\<close>: command-line arguments
  and the paths of a local activation request are turned into canonical paths, \<^verbatim>\<open>file://\<close> URLs with their
  percent-encoding included.  \<^verbatim>\<open>std::fs::canonicalize\<close> and the current directory are arguments.  Slicing a
  \<^verbatim>\<open>str\<close> inside a character panics, which is the outcome \<open>Panics\<close>; arguments are UTF-8 text, and paths are
  those of a system that is not Windows.
\<close>

section \<open>Definitions\<close>

datatype 'a run = Panics | Returns 'a

fun bind_run :: "'a run \<Rightarrow> ('a \<Rightarrow> 'b run) \<Rightarrow> 'b run" where
  "bind_run Panics f = Panics"
| "bind_run (Returns x) f = f x"

text \<open>\<^verbatim>\<open>str::is_char_boundary\<close>.\<close>

definition is_char_boundary :: "string \<Rightarrow> nat \<Rightarrow> bool" where
  "is_char_boundary s n \<longleftrightarrow> n = 0 \<or> n = length s \<or> (n < length s \<and> \<not> is_cont (of_char (s ! n)))"

definition eq_ignore_ascii_case :: "string \<Rightarrow> string \<Rightarrow> bool" where
  "eq_ignore_ascii_case a b = (to_ascii_lowercase a = to_ascii_lowercase b)"

definition strip_ascii_prefix :: "string \<Rightarrow> string \<Rightarrow> string option run" where
  "strip_ascii_prefix value pre =
     (if length value < length pre then Returns None
      else if \<not> is_char_boundary value (length pre) then Panics
      else if eq_ignore_ascii_case (take (length pre) value) pre then Returns (Some (drop (length pre) value))
      else Returns None)"

definition has_ascii_prefix :: "string \<Rightarrow> string \<Rightarrow> bool run" where
  "has_ascii_prefix value pre = bind_run (strip_ascii_prefix value pre) (\<lambda>r. Returns (r \<noteq> None))"

definition find_char :: "char \<Rightarrow> string \<Rightarrow> nat" where
  "find_char c s = length (takeWhile (\<lambda>d. d \<noteq> c) s)"

definition strip_url_suffix :: "string \<Rightarrow> string" where
  "strip_url_suffix value = take (min (find_char (CHR ''?'') value) (find_char (CHR ''#'') value)) value"

definition decode_hex_digit :: "char \<Rightarrow> nat option" where
  "decode_hex_digit c =
     (let n = (of_char c :: nat) in
      if 48 \<le> n \<and> n \<le> 57 then Some (n - 48)
      else if 97 \<le> n \<and> n \<le> 102 then Some (n - 97 + 10)
      else if 65 \<le> n \<and> n \<le> 70 then Some (n - 65 + 10)
      else None)"

fun percent_bytes :: "string \<Rightarrow> bytes option" where
  "percent_bytes [] = Some []"
| "percent_bytes (c # cs) =
     (if c = CHR ''%'' then
        (case cs of
           h # l # rest \<Rightarrow>
             (case (decode_hex_digit h, decode_hex_digit l) of
                (Some hi, Some lo) \<Rightarrow> map_option ((#) (word_of_nat (hi * 16 + lo))) (percent_bytes rest)
              | _ \<Rightarrow> None)
         | _ \<Rightarrow> None)
      else map_option ((#) (word_of_nat (of_char c))) (percent_bytes cs))"

definition percent_decode_utf8 :: "string \<Rightarrow> string option" where
  "percent_decode_utf8 value = Option.bind (percent_bytes value) from_utf8"

definition parse_file_url_path :: "(string \<Rightarrow> string option) \<Rightarrow> string \<Rightarrow> string option run" where
  "parse_file_url_path canonicalize raw_value =
     bind_run (strip_ascii_prefix raw_value ''file://'') (\<lambda>r.
       case r of
         None \<Rightarrow> Returns None
       | Some url \<Rightarrow>
           bind_run (strip_ascii_prefix url ''localhost'') (\<lambda>l.
             let url_path = (case l of Some p \<Rightarrow> p | None \<Rightarrow> url) in
             if \<not> starts_with url_path ''/'' then Returns None
             else Returns (Option.bind (percent_decode_utf8 (strip_url_suffix url_path)) canonicalize)))"

definition normalize_external_share_path ::
    "(string \<Rightarrow> string option) \<Rightarrow> string option \<Rightarrow> string \<Rightarrow> string option run" where
  "normalize_external_share_path canonicalize current_dir value =
     (if trim value = '''' \<or> starts_with value ''-psn_'' then Returns None
      else bind_run (has_ascii_prefix value ''file://'') (\<lambda>is_url.
        if is_url then parse_file_url_path canonicalize value
        else Returns (canonicalize
               (if starts_with value ''/'' then value
                else case current_dir of Some base \<Rightarrow> path_join base value | None \<Rightarrow> value))))"

text \<open>The lazy iterator: the first argument that panics ends the program, whatever came before.\<close>

fun share_paths :: "(string \<Rightarrow> string option) \<Rightarrow> string option \<Rightarrow> string list \<Rightarrow> string list \<Rightarrow> string list run" where
  "share_paths canonicalize cd seen [] = Returns []"
| "share_paths canonicalize cd seen (v # vs) =
     bind_run (normalize_external_share_path canonicalize cd v) (\<lambda>r.
       case r of
         None \<Rightarrow> share_paths canonicalize cd seen vs
       | Some p \<Rightarrow>
           (if p \<in> set seen then share_paths canonicalize cd seen vs
            else bind_run (share_paths canonicalize cd (p # seen) vs) (\<lambda>ps. Returns (p # ps))))"

definition collect_external_share_paths :: "(string \<Rightarrow> string option) \<Rightarrow> string option \<Rightarrow> string list \<Rightarrow> string list run" where
  "collect_external_share_paths canonicalize cd values = share_paths canonicalize cd [] values"

definition collect_pairing_links :: "string list \<Rightarrow> string list" where
  "collect_pairing_links values = filter (\<lambda>v. starts_with (trim_start v) ''dashdrop://pair?'') values"

text \<open>The configuration directory, from the environment.\<close>

definition resolve_config_dir_from_base :: "string option \<Rightarrow> string option \<Rightarrow> string option" where
  "resolve_config_dir_from_base override base =
     (case override of Some d \<Rightarrow> Some d | None \<Rightarrow> map_option (\<lambda>b. path_join b ''dashdrop'') base)"

definition resolve_headless_config_dir :: "string option \<Rightarrow> string option \<Rightarrow> string option \<Rightarrow> string option" where
  "resolve_headless_config_dir override xdg home =
     (case override of
        Some d \<Rightarrow> Some d
      | None \<Rightarrow>
          (case xdg of
             Some x \<Rightarrow> Some (path_join x ''dashdrop'')
           | None \<Rightarrow> map_option (\<lambda>h. path_join (path_join h ''.config'') ''dashdrop'') home))"

text \<open>The encoding that \<open>percent_bytes\<close> undoes: every byte but letters, digits and the slash is escaped.\<close>

definition hex_digit :: "nat \<Rightarrow> char" where
  "hex_digit n = (if n < 10 then char_of (48 + n) else char_of (55 + n))"

definition percent_encode :: "string \<Rightarrow> string" where
  "percent_encode s = concat (map (\<lambda>c.
     if is_ascii_alphanumeric c \<or> c = CHR ''/'' then [c]
     else [CHR ''%'', hex_digit (of_char c div 16), hex_digit (of_char c mod 16)]) s)"

section \<open>Facts\<close>

lemma decode_hex_digit_of: "n < 16 \<Longrightarrow> decode_hex_digit (hex_digit n) = Some n"
  by (auto simp: decode_hex_digit_def hex_digit_def Let_def of_char_of)

lemma percent_bytes_encode: "percent_bytes (percent_encode s) = Some (str_bytes s)"
proof (induction s)
  case Nil
  then show ?case by (simp add: percent_encode_def str_bytes_def)
next
  case (Cons c s)
  have "(of_char c :: nat) < 256" by (rule nat_of_char_less_256)
  then have "(of_char c :: nat) div 16 < 16" "(of_char c :: nat) mod 16 < 16" by (simp_all add: less_mult_imp_div_less)
  note d = this [THEN decode_hex_digit_of]
  have "\<not> is_ascii_alphanumeric (CHR ''%'')" by (simp add: is_ascii_alphanumeric_def)
  then show ?case
  proof (cases "is_ascii_alphanumeric c \<or> c = CHR ''/''")
    case True
    then have "c \<noteq> CHR ''%''" using \<open>\<not> is_ascii_alphanumeric (CHR ''%'')\<close> by auto
    then show ?thesis using Cons True by (simp add: percent_encode_def str_bytes_def)
  next
    case False
    then show ?thesis using Cons d by (simp add: percent_encode_def str_bytes_def)
  qed
qed

section \<open>Properties\<close>

text \<open>Percent-decoding gives back every UTF-8 text from its encoding.\<close>
theorem percent_decode_roundtrip:
  assumes "utf8_valid (byte_vals s)"
  shows "percent_decode_utf8 (percent_encode s) = Some s"
  using assms by (simp add: percent_decode_utf8_def percent_bytes_encode from_utf8_def str_bytes_def bytes_str_def byte_vals_def comp_def)

theorem percent_decode_roundtrip_witness: "percent_decode_utf8 (percent_encode ''a b'') = Some ''a b''"
  using percent_decode_roundtrip [of "''a b''"] utf8_ascii [of "byte_vals ''a b''"] by (simp add: byte_vals_def)

text \<open>
  A path whose seventh and eighth byte belong to one character ends the program: the test for a URL
  scheme slices the text at byte seven.  Every path below \<^verbatim>\<open>/home/\<close> of a user whose name starts with such a
  character is one.
\<close>
theorem share_path_panics:
  assumes "trim value \<noteq> ''''" and "length value > 7" and "is_cont (of_char (value ! 7))" and "\<not> starts_with value ''-psn_''"
  shows "collect_external_share_paths canonicalize cd (value # rest) = Panics"
proof -
  have len: "length ''file://'' = (7 :: nat)" by simp
  have "\<not> is_char_boundary value 7" using assms(2,3) by (simp add: is_char_boundary_def)
  then have "strip_ascii_prefix value ''file://'' = Panics"
    unfolding strip_ascii_prefix_def len using assms(2) by simp
  then show ?thesis
    using assms(1,4) by (simp add: collect_external_share_paths_def normalize_external_share_path_def has_ascii_prefix_def)
qed

theorem share_path_panics_witness:
  "collect_external_share_paths Some None [''/home/'' @ [CHR 0xC3, CHR 0xA9] @ ''mile/a.txt''] = Panics"
proof -
  have "trim (''/home/'' @ [CHR 0xC3, CHR 0xA9] @ ''mile/a.txt'') \<noteq> ''''" by code_simp
  moreover have "is_cont (of_char ((''/home/'' @ [CHR 0xC3, CHR 0xA9] @ ''mile/a.txt'') ! 7))" by code_simp
  moreover have "\<not> starts_with (''/home/'' @ [CHR 0xC3, CHR 0xA9] @ ''mile/a.txt'') ''-psn_''" by code_simp
  ultimately show ?thesis
    using share_path_panics [of "''/home/'' @ [CHR 0xC3, CHR 0xA9] @ ''mile/a.txt''" Some None "[]"] by simp
qed

end
