(* ===== verification/CoreService.thy ===== *)
theory CoreService
  imports LocalIpc ExternalShare
begin

text \<open>
  The dispatch of commands to the operations of the program, \<^verbatim>\<open>AppCoreService\<close> of \<^verbatim>\<open>core_service.rs\<close>.  The state is
  that of every component behind it; what the operations meet of the outside world (clocks, the answers
  of the network, of the file system and of the host, fresh identifiers) is in \<open>core_env\<close>, one value per
  command.  Errors are those of the components; \<open>ce_text\<close> is the text they are shown with.  The diagnostics
  report is the argument \<open>ce_report\<close>: what collecting it changes is modelled, what it prints is not.  Commands
  that start a send spawn a task for it and return; here that task runs to its end within the command, so the
  state after the command is the one the spawned send leaves, and the response does not depend on it.
\<close>

section \<open>Addresses as text\<close>

text \<open>The \<^verbatim>\<open>Display\<close> implementations of the standard library.\<close>

definition show_ipv4 :: "32 word \<Rightarrow> string" where
  "show_ipv4 w = join_with ''.'' (map (\<lambda>d. show_nat (unat w div d mod 256)) [16777216, 65536, 256, 1])"

definition hex_char :: "nat \<Rightarrow> char" where
  "hex_char d = (if d < 10 then char_of (48 + d) else char_of (87 + d))"

fun show_hex :: "nat \<Rightarrow> string" where
  "show_hex n = (if n < 16 then [hex_char n] else show_hex (n div 16) @ [hex_char (n mod 16)])"

declare show_hex.simps [simp del]

definition ipv6_segments :: "128 word \<Rightarrow> nat list" where
  "ipv6_segments w = map (\<lambda>i. unat w div 65536 ^ (7 - i) mod 65536) [0..<8]"

definition zero_run :: "nat list \<Rightarrow> nat \<Rightarrow> nat" where
  "zero_run segs i = length (takeWhile (\<lambda>x. x = 0) (drop i segs))"

text \<open>The first of the longest runs of zero segments.\<close>

definition longest_zero_run :: "nat list \<Rightarrow> nat \<times> nat" where
  "longest_zero_run segs = fold (\<lambda>i best. if zero_run segs i > snd best then (i, zero_run segs i) else best) [0..<length segs] (0, 0)"

definition show_ipv6 :: "128 word \<Rightarrow> string" where
  "show_ipv6 w =
     (let segs = ipv6_segments w; (start, len) = longest_zero_run segs; hexes = (\<lambda>xs. join_with '':'' (map show_hex xs))
      in if take 5 segs = [0, 0, 0, 0, 0] \<and> segs ! 5 = 65535
         then ''::ffff:'' @ show_ipv4 (word_of_nat (segs ! 6 * 65536 + segs ! 7))
         else if len > 1 then hexes (take start segs) @ ''::'' @ hexes (drop (start + len) segs)
         else hexes segs)"

fun show_ip :: "socket_addr \<Rightarrow> string" where
  "show_ip (SockV4 w port) = show_ipv4 w"
| "show_ip (SockV6 w port scope) = show_ipv6 w"

fun addr_port :: "socket_addr \<Rightarrow> nat" where
  "addr_port (SockV4 w port) = port"
| "addr_port (SockV6 w port scope) = port"

fun show_addr :: "socket_addr \<Rightarrow> string" where
  "show_addr (SockV4 w port) = show_ipv4 w @ '':'' @ show_nat port"
| "show_addr (SockV6 w port scope) =
     (if scope = 0 then ''['' @ show_ipv6 w @ '']:'' @ show_nat port
      else ''['' @ show_ipv6 w @ ''%'' @ show_nat scope @ '']:'' @ show_nat port)"

section \<open>State and environment\<close>

record service_state =
  sv_app :: app_state
  sv_feed :: feed_state
  sv_ble :: ble_state
  sv_files :: filesystem
  sv_process :: process_info
  sv_identity :: identity

datatype core_error =
    EText string | EControl control_error | EService TrustService.service_error | ESend send_service_error
  | ERetry retry_error | EFeed feed_error | EHistory history_error | EBle ble_error | ENotFound string

record core_env =
  ce_env :: service_env
  ce_faults :: io_faults
  ce_hash :: "bytes \<Rightarrow> hash"
  ce_detail :: "send_error \<Rightarrow> string"
  ce_send_env :: send_env
  ce_send :: send_service_env
  ce_transfer_id :: string
  ce_sources :: "string list \<Rightarrow> (path \<times> src_node) list"
  ce_token :: string
  ce_resolve :: "string \<Rightarrow> string + socket_addr list"
  ce_connect :: "socket_addr \<Rightarrow> string + unit"
  ce_peer_fp :: "string + string"
  ce_hello :: "string + unit"
  ce_canonicalize :: "string \<Rightarrow> string option"
  ce_current_dir :: "string option"
  ce_emit :: "string \<Rightarrow> string + unit"
  ce_reveal :: "string + unit"
  ce_lib :: ble_lib
  ce_feed_db_ok :: bool
  ce_average :: "(u64 \<times> u64) list \<Rightarrow> u64"
  ce_report :: "service_state \<Rightarrow> json"
  ce_secure_store :: bool
  ce_text :: "core_error \<Rightarrow> string"

definition env_clock :: "core_env \<Rightarrow> clock" where
  "env_clock E = service_env.se_clock (ce_env E)"

definition env_lock_ok :: "core_env \<Rightarrow> bool" where
  "env_lock_ok E = service_env.se_lock_ok (ce_env E)"

definition env_has_host :: "core_env \<Rightarrow> bool" where
  "env_has_host E = se_has_host (ce_env E)"

type_synonym core_result = "service_state \<times> (core_error + local_ipc_response) run"

definition acked :: "('e \<Rightarrow> core_error) \<Rightarrow> 'e + 'a \<Rightarrow> (core_error + local_ipc_response) run" where
  "acked f r = Returns (case r of Inl e \<Rightarrow> Err (f e) | Inr _ \<Rightarrow> Ok Ack)"

definition on_app :: "(app_state \<Rightarrow> app_state \<times> 'r) \<Rightarrow> service_state \<Rightarrow> service_state \<times> 'r" where
  "on_app f s = (case f (sv_app s) of (a, r) \<Rightarrow> (s\<lparr>sv_app := a\<rparr>, r))"

section \<open>Connecting by address\<close>

fun connect_first :: "(socket_addr \<Rightarrow> string + unit) \<Rightarrow> socket_addr list \<Rightarrow> string list \<Rightarrow> string list + socket_addr" where
  "connect_first conn_to [] errs = Inl errs"
| "connect_first conn_to (a # as) errs =
     (case conn_to a of Inr _ \<Rightarrow> Inr a | Inl e \<Rightarrow> connect_first conn_to as (errs @ [show_addr a @ '': '' @ e]))"

definition manual_device :: "u64 \<Rightarrow> bool \<Rightarrow> string \<Rightarrow> socket_addr \<Rightarrow> device_info" where
  "manual_device now trust fp a =
     \<lparr>dv_fingerprint = fp, dv_name = ''Manual '' @ show_addr a, dv_platform = UnknownPlatform, dv_trusted = trust,
      dv_sessions = [], dv_last_seen = now, dv_reachability = Reachable, dv_probe_fail_count = 0, dv_last_probe_at = Some now,
      dv_last_probe_result = Some ''ok'', dv_last_probe_error = None, dv_last_probe_error_detail = None,
      dv_last_probe_addr = Some a, dv_last_probe_attempted_addrs = [a], dv_last_resolve_raw_addr_count = 1,
      dv_last_resolve_usable_addr_count = 1, dv_last_resolve_hostname = Some (show_ip a),
      dv_last_resolve_port = Some (addr_port a), dv_last_resolve_at = Some now\<rparr>"

definition manual_session :: "clock \<Rightarrow> socket_addr \<Rightarrow> string \<times> session_info" where
  "manual_session clk a =
     (''manual:'' @ show_addr a,
      \<lparr>ss_id = ''manual:'' @ show_addr a, ss_addrs = [a], ss_last_seen_unix = unix_now clk,
       ss_last_seen_instant = instant_now clk\<rparr>)"

definition connected_device :: "clock \<Rightarrow> bool \<Rightarrow> socket_addr \<Rightarrow> device_info \<Rightarrow> device_info" where
  "connected_device clk trust a d =
     d\<lparr>dv_sessions := (case manual_session clk a of (k, se) \<Rightarrow> AList.update k se (dv_sessions d)),
       dv_last_seen := unix_now clk, dv_reachability := Reachable, dv_last_probe_at := Some (unix_now clk),
       dv_probe_fail_count := 0, dv_last_probe_result := Some ''ok'', dv_last_probe_error := None,
       dv_last_probe_error_detail := None, dv_last_probe_addr := Some a, dv_last_probe_attempted_addrs := [a],
       dv_last_resolve_raw_addr_count := 1, dv_last_resolve_usable_addr_count := 1,
       dv_last_resolve_hostname := Some (show_ip a), dv_last_resolve_port := Some (addr_port a),
       dv_last_resolve_at := Some (unix_now clk), dv_trusted := trust\<rparr>"

definition register_connected :: "core_env \<Rightarrow> string \<Rightarrow> socket_addr \<Rightarrow> app_state \<Rightarrow> app_state \<times> connect_result" where
  "register_connected E fp a st =
     (let clk = env_clock E; trust = is_trusted (trusted_peers st) fp; ds = discovery st;
          known = map_of (devices ds) fp;
          d = connected_device clk trust a (case known of Some d0 \<Rightarrow> d0 | None \<Rightarrow> manual_device (unix_now clk) trust fp a);
          ds1 = ds\<lparr>devices := AList.update fp d (devices ds)\<rparr>;
          ev = (if known = None then DeviceDiscovered (device_view_of d) else DeviceUpdated (device_view_of d))
      in (st\<lparr>discovery := (if env_has_host E then emit_device ev ds1 else ds1)\<rparr>,
          \<lparr>cn_fingerprint = fp, cn_name = dv_name d, cn_trusted = trust, cn_address = a\<rparr>))"

definition connect_by_address :: "core_env \<Rightarrow> string \<Rightarrow> app_state \<Rightarrow> app_state \<times> (core_error + connect_result)" where
  "connect_by_address E address st =
     (case ce_resolve E address of
        Inl e \<Rightarrow> (st, Err (EText (''invalid address '' @ address @ '': '' @ e)))
      | Inr addrs \<Rightarrow>
          (if addrs = [] then (st, Err (EText (''address '' @ address @ '' resolved to no endpoints'')))
           else case connect_first (ce_connect E) addrs [] of
             Inl errs \<Rightarrow> (st, Err (EText (''all connection attempts failed ('' @ join_with '' | '' errs @ '')'')))
           | Inr a \<Rightarrow>
               (case ce_peer_fp E of
                  Inl e \<Rightarrow> (st, Err (EText (''failed to read peer fingerprint: '' @ e)))
                | Inr fp \<Rightarrow>
                    (case ce_hello E of
                       Inl e \<Rightarrow>
                         ((if env_lock_ok E
                           then st\<lparr>security_db := log_security_event (unix_now (env_clock E)) ''handshake_failed''
                                     ''connect_by_address'' (Some fp) e (security_db st)\<rparr>
                           else st), Err (EText (''peer handshake failed: '' @ e)))
                     | Inr _ \<Rightarrow> (case register_connected E fp a st of (st1, r) \<Rightarrow> (st1, Ok r))))))"

section \<open>Shares and activation\<close>

text \<open>An event for the host: it is sent, and the result of sending it is the host's.\<close>

definition emit_json :: "core_env \<Rightarrow> string \<Rightarrow> string list \<Rightarrow> app_state \<Rightarrow> app_state \<times> (string + unit)" where
  "emit_json E ev args st = (emit (EvHost ev args) st, ce_emit E ev)"

definition reveal_main_window :: "core_env \<Rightarrow> app_state \<Rightarrow> app_state \<times> (string + unit)" where
  "reveal_main_window E st =
     (case ce_reveal E of Inl e \<Rightarrow> (st, Err e) | Inr _ \<Rightarrow> emit_json E ''app_window_revealed'' [''runtime_host''] st)"

definition emit_external_share_payload ::
    "core_env \<Rightarrow> string list \<Rightarrow> string \<Rightarrow> app_state \<Rightarrow> app_state \<times> (string + string list option) run" where
  "emit_external_share_payload E paths source st =
     (case collect_external_share_paths (ce_canonicalize E) (ce_current_dir E) paths of
        Panics \<Rightarrow> (st, Panics)
      | Returns ps \<Rightarrow>
          (if ps = [] then (st, Returns (Ok None))
           else case emit_json E ''external_share_received'' (ps @ [source]) st of
             (st1, Inl e) \<Rightarrow> (st1, Returns (Err e))
           | (st1, Inr _) \<Rightarrow> (st1, Returns (Ok (Some ps)))))"

definition queue_external_share :: "core_env \<Rightarrow> string list \<Rightarrow> app_state \<Rightarrow> app_state \<times> (core_error + unit) run" where
  "queue_external_share E paths st =
     (if \<not> env_has_host E then (st, Returns (Err (EText ''app/queue_external_share requires runtime host'')))
      else case emit_external_share_payload E paths ''local_ipc'' st of
        (st1, Panics) \<Rightarrow> (st1, Panics)
      | (st1, Returns (Inl e)) \<Rightarrow> (st1, Returns (Err (EText e)))
      | (st1, Returns (Inr None)) \<Rightarrow> (st1, Returns (Err (EText ''external share requires at least one valid path'')))
      | (st1, Returns (Inr (Some _))) \<Rightarrow>
          (case reveal_main_window E st1 of
             (st2, Inl e) \<Rightarrow> (st2, Returns (Err (EText e)))
           | (st2, Inr _) \<Rightarrow> (st2, Returns (Ok ()))))"

fun emit_links :: "core_env \<Rightarrow> string list \<Rightarrow> app_state \<Rightarrow> app_state \<times> (string + unit)" where
  "emit_links E [] st = (st, Ok ())"
| "emit_links E (l # ls) st =
     (case emit_json E ''pairing_link_received'' [l, ''app_activate''] st of
        (st1, Inl e) \<Rightarrow> (st1, Err (''failed to emit pairing link event: '' @ e))
      | (st1, Inr _) \<Rightarrow> emit_links E ls st1)"

definition activate_app :: "core_env \<Rightarrow> string list \<Rightarrow> string list \<Rightarrow> app_state \<Rightarrow> app_state \<times> (core_error + unit) run" where
  "activate_app E paths links st =
     (if \<not> env_has_host E then (st, Returns (Err (EText ''app/activate requires runtime host'')))
      else case emit_external_share_payload E paths ''app_activate'' st of
        (st1, Panics) \<Rightarrow> (st1, Panics)
      | (st1, Returns (Inl e)) \<Rightarrow> (st1, Returns (Err (EText (''failed to emit activation share event: '' @ e))))
      | (st1, Returns (Inr _)) \<Rightarrow>
          (case emit_links E links st1 of
             (st2, Inl e) \<Rightarrow> (st2, Returns (Err (EText e)))
           | (st2, Inr _) \<Rightarrow>
               (case reveal_main_window E st2 of
                  (st3, Inl e) \<Rightarrow> (st3, Returns (Err (EText e)))
                | (st3, Inr _) \<Rightarrow> (st3, Returns (Ok ())))))"

section \<open>Reading and small commands\<close>

definition with_db :: "core_env \<Rightarrow> (core_error + local_ipc_response) \<Rightarrow> (core_error + local_ipc_response) run" where
  "with_db E r = Returns (if env_lock_ok E then r else Err (EText ''DB lock poisoned''))"

definition history_response :: "core_env \<Rightarrow> u32 \<Rightarrow> u32 \<Rightarrow> app_state \<Rightarrow> core_error + local_ipc_response" where
  "history_response E limit skip st =
     (case get_history (history_db st) (unat limit) (unat skip) of
        Inl e \<Rightarrow> Err (EHistory e) | Inr ts \<Rightarrow> Ok (HistoryList (map transfer_view_of ts)))"

definition metrics_response :: "core_env \<Rightarrow> app_state \<Rightarrow> core_error + local_ipc_response" where
  "metrics_response E st =
     (case get_transfer_metrics (ce_average E) (history_db st) of Inl e \<Rightarrow> Err (EHistory e) | Inr m \<Rightarrow> Ok (TransferMetrics m))"

definition ingest_ble_assist_capsule :: "core_env \<Rightarrow> ble_capsule \<Rightarrow> string option \<Rightarrow> service_state \<Rightarrow> service_state \<times> (ble_error + unit)" where
  "ingest_ble_assist_capsule E c source s =
     (let now = unix_now_ms (env_clock E) in
      case validate_ble_assist_capsule now c of
        Inl e \<Rightarrow> (s, Err e)
      | Inr _ \<Rightarrow>
          (let st = sv_app s;
               st1 = (if env_lock_ok E
                      then st\<lparr>security_db := log_security_event (unix_now (env_clock E)) ''ble_assist_capsule_seen''
                                (case source of Some x \<Rightarrow> x | None \<Rightarrow> ''ble_assist'') None
                                (''observed BLE assist capsule '' @ cap_rolling_identifier c @ '' expiring at '' @
                                 show_nat (cap_expires_at_unix_ms c)) (security_db st)\<rparr>
                      else st)
           in (s\<lparr>sv_ble := record_ble_assist_observation now c (sv_ble s), sv_app := st1\<rparr>, Ok ())))"

text \<open>What collecting the diagnostics changes: expired observations are dropped, checkpoints refreshed.\<close>

definition collect_diagnostics :: "core_env \<Rightarrow> service_state \<Rightarrow> service_state" where
  "collect_diagnostics E s =
     (let now = unix_now_ms (env_clock E)
      in s\<lparr>sv_ble := fst (ble_assist_observations_snapshot now (sv_ble s)),
           sv_feed := fst (runtime_event_checkpoints (ce_feed_db_ok E) now (sv_feed s))\<rparr>)"

definition send_to_peer :: "core_env \<Rightarrow> string \<Rightarrow> string list \<Rightarrow> app_state \<Rightarrow> app_state \<times> (send_service_error + unit)" where
  "send_to_peer E fp paths st =
     service_send_files (ce_hash E) (ce_detail E) (ce_send_env E) (ce_send E) (ce_transfer_id E) fp (ce_sources E paths) st"

definition cancel_transfer :: "core_env \<Rightarrow> string \<Rightarrow> app_state \<Rightarrow> app_state \<times> (core_error + unit)" where
  "cancel_transfer E tid st =
     (case cancel_transfer_inner (env_clock E) (env_lock_ok E) (env_has_host E) tid st of
        (st1, _, ok) \<Rightarrow> (st1, if ok then Ok () else Err (ENotFound tid)))"

definition retry_transfer :: "core_env \<Rightarrow> string \<Rightarrow> app_state \<Rightarrow> app_state \<times> (core_error + unit)" where
  "retry_transfer E tid st =
     (case retry_request st tid of
        Inl e \<Rightarrow> (st, Err (ERetry e))
      | Inr (fp, paths) \<Rightarrow>
          (case send_to_peer E fp paths st of (st1, r) \<Rightarrow> (st1, case r of Inl e \<Rightarrow> Err (ESend e) | Inr _ \<Rightarrow> Ok ())))"

definition answer_transfer :: "(app_state \<Rightarrow> control_result) \<Rightarrow> app_state \<Rightarrow> app_state \<times> (control_error + unit)" where
  "answer_transfer f st = (let r = f st in (cr_app r, cr_result r))"

definition apply_config :: "core_env \<Rightarrow> app_config \<Rightarrow> service_state \<Rightarrow> service_state \<times> (TrustService.service_error + unit)" where
  "apply_config E cfg s =
     (case set_app_config (ce_faults E) (ce_env E) cfg (sv_files s, sv_app s) of
        (fs, st, r) \<Rightarrow> (s\<lparr>sv_files := fs, sv_app := st\<rparr>, r))"

definition on_feed :: "(feed_state \<Rightarrow> feed_state \<times> 'r) \<Rightarrow> service_state \<Rightarrow> service_state \<times> 'r" where
  "on_feed f s = (case f (sv_feed s) of (fd, r) \<Rightarrow> (s\<lparr>sv_feed := fd\<rparr>, r))"

definition map_result :: "('r \<Rightarrow> 'q) \<Rightarrow> service_state \<times> 'r \<Rightarrow> service_state \<times> 'q" where
  "map_result f x = (fst x, f (snd x))"

definition replied :: "('e \<Rightarrow> core_error) \<Rightarrow> ('a \<Rightarrow> local_ipc_response) \<Rightarrow> 'e + 'a \<Rightarrow> (core_error + local_ipc_response) run" where
  "replied f g r = Returns (case r of Inl e \<Rightarrow> Err (f e) | Inr x \<Rightarrow> Ok (g x))"

fun acked_run :: "(core_error + unit) run \<Rightarrow> (core_error + local_ipc_response) run" where
  "acked_run Panics = Panics"
| "acked_run (Returns r) = acked id r"

section \<open>Dispatch\<close>

definition issue_grant :: "core_env \<Rightarrow> string option \<Rightarrow> service_state \<Rightarrow> service_state \<times> access_grant" where
  "issue_grant E previous = on_app (\<lambda>st. case issue_local_ipc_access_grant (unix_now_ms (env_clock E)) (ce_token E) previous (access_tokens st)
     of (toks, g) \<Rightarrow> (st\<lparr>access_tokens := toks\<rparr>, g))"

definition dispatch :: "core_env \<Rightarrow> local_ipc_command \<Rightarrow> service_state \<Rightarrow> core_result" where
  "dispatch E cmd s =
     (let clk = env_clock E; st = sv_app s; host = env_has_host E; say = (\<lambda>r. (s, Returns (Ok r))) in
      case cmd of
        AuthIssue \<Rightarrow> map_result (\<lambda>g. Returns (Ok (AccessGrant g))) (issue_grant E None s)
      | AuthRevoke \<Rightarrow> (s, Returns (Err (EText ''auth/revoke must be handled by the local IPC server'')))
      | DiscoverList \<Rightarrow> say (Devices (map (device_view_of \<circ> snd) (devices (discovery st))))
      | DiscoverConnectByAddress a \<Rightarrow> map_result (replied id ConnectByAddress) (on_app (connect_by_address E a) s)
      | TrustList \<Rightarrow> say (TrustedPeers (map (trusted_peer_view_of \<circ> snd) (trusted_peers st)))
      | TrustPair fp \<Rightarrow> map_result (acked EService) (on_app (pair_device (ce_env E) fp) s)
      | TrustUnpair fp \<Rightarrow> map_result (acked EService) (on_app (unpair_device (ce_env E) fp) s)
      | TrustSetAlias fp a \<Rightarrow> map_result (acked EService) (on_app (set_trusted_alias (ce_env E) fp a) s)
      | TrustConfirmVerification fp m b \<Rightarrow>
          map_result (acked EService) (on_app (confirm_trusted_peer_verification (ce_env E) fp m b) s)
      | ConfigGet \<Rightarrow> say (AppConfig (config st))
      | ConfigSet cfg \<Rightarrow> map_result (acked EService) (apply_config E cfg s)
      | TransferSend fp ps \<Rightarrow> map_result (acked ESend) (on_app (send_to_peer E fp ps) s)
      | TransferAccept t n \<Rightarrow> map_result (acked EControl) (on_app (answer_transfer (\<lambda>x. accept_transfer clk host x t n)) s)
      | TransferReject t n \<Rightarrow> map_result (acked EControl) (on_app (answer_transfer (\<lambda>x. reject_transfer clk host x t n)) s)
      | TransferCancel t \<Rightarrow> map_result (acked id) (on_app (cancel_transfer E t) s)
      | TransferCancelAll \<Rightarrow>
          map_result (\<lambda>n. Returns (Ok (CancelledTransfers n))) (on_app (cancel_all_transfers clk (env_lock_ok E) host) s)
      | TransferRetry t \<Rightarrow> map_result (acked id) (on_app (retry_transfer E t) s)
      | TransferList \<Rightarrow> say (TransfersList (map (transfer_view_of \<circ> snd) (transfers st)))
      | TransferGet t \<Rightarrow> say (TransferOne (map_option transfer_view_of (map_of (transfers st) t)))
      | TransferHistory l p \<Rightarrow> (s, with_db E (history_response E l p st))
      | TransferPendingIncoming \<Rightarrow> say (PendingIncomingRequests (get_pending_incoming_requests st))
      | AppActivate ps ls \<Rightarrow> map_result acked_run (on_app (activate_app E ps ls) s)
      | AppGetLocalIdentity \<Rightarrow>
          say (LocalIdentity (local_identity_view_of (id_fingerprint (sv_identity s)) (device_name (config st))
                 (pi_local_port (sv_process s))))
      | AppGetBleAssistCapsule \<Rightarrow>
          (s, replied EBle BleAssistCapsule (build_ble_assist_capsule (ce_lib E) (sv_identity s) (unix_now_ms clk)))
      | AppIngestBleAssistCapsule c src \<Rightarrow> map_result (acked EBle) (ingest_ble_assist_capsule E c src s)
      | AppGetRuntimeStatus \<Rightarrow> say (RuntimeStatus (runtime_status_of (sv_process s) st))
      | AppGetDiscoveryDiagnostics \<Rightarrow>
          (let s1 = collect_diagnostics E s in (s1, Returns (Ok (DiscoveryDiagnostics (ce_report E s1)))))
      | AppGetEventCheckpoint c \<Rightarrow>
          map_result (replied EFeed RuntimeEventCheckpoint)
            (on_feed (runtime_event_checkpoint (ce_feed_db_ok E) (unix_now_ms clk) c) s)
      | AppGetEventFeed a l \<Rightarrow>
          map_result (\<lambda>x. Returns (Ok (RuntimeEvents x)))
            (on_feed (runtime_events_since (ce_feed_db_ok E) (unix_now_ms clk) a (unat l)) s)
      | AppSetEventCheckpoint c g q \<Rightarrow>
          map_result (acked EFeed) (on_feed (save_runtime_event_checkpoint (ce_feed_db_ok E) (unix_now_ms clk) c g q) s)
      | AppQueueExternalShare ps \<Rightarrow> map_result acked_run (on_app (queue_external_share E ps) s)
      | SecurityGetEvents l p \<Rightarrow> (s, with_db E (Ok (SecurityEvents (get_security_events (security_db st) (unat l) (unat p)))))
      | TransferGetMetrics \<Rightarrow> (s, with_db E (metrics_response E st))
      | SecurityGetPosture \<Rightarrow> say (SecurityPosture (JObj [(''secure_store_available'', JBool (ce_secure_store E))])))"

text \<open>Concrete inputs.\<close>

definition sample_feed :: feed_state where
  "sample_feed = open_feed (new_journal ''g'')"

definition idle_ble :: ble_state where
  "idle_ble = \<lparr>ble_observations = [],
     ble_runtime = \<lparr>br_provider_name = ''noop'', br_scanner_state = ''idle'', br_advertiser_state = ''idle'', br_permission_state = None,
       br_bridge_mode = None, br_bridge_file_path = None, br_advertisement_file_path = None, br_last_started_at_unix_ms = None,
       br_last_error = None, br_last_capsule_ingested_at_unix_ms = None, br_last_observation_prune_at_unix_ms = None,
       br_last_bridge_snapshot_at_unix_ms = None, br_last_advertisement_request_at_unix_ms = None,
       br_advertised_rolling_identifier = None\<rparr>, ble_events = []\<rparr>"

definition sample_state :: service_state where
  "sample_state = \<lparr>sv_app = sample_app\<lparr>access_tokens := [(''tok'', \<lparr>expires_at_unix_ms = 900000, refresh_after_unix_ms = 500000\<rparr>)]\<rparr>,
     sv_feed = sample_feed, sv_ble = idle_ble, sv_files = (\<lambda>_. None), sv_process = initial_process_info,
     sv_identity = sample_identity\<rparr>"

definition sample_core_env :: core_env where
  "sample_core_env = \<lparr>ce_env = sample_service_env, ce_faults = no_faults, ce_hash = (\<lambda>_. []), ce_detail = (\<lambda>_. ''e''),
     ce_send_env = sample_send_env,
     ce_send = \<lparr>sx_addrs = Err DeviceUnknown, sx_connect = (\<lambda>_. False), sx_peer_fp = None, sx_has_host = False, sx_second = None\<rparr>,
     ce_transfer_id = ''t'', ce_sources = (\<lambda>_. []), ce_token = ''new'', ce_resolve = (\<lambda>_. Ok []), ce_connect = (\<lambda>_. Err ''e''),
     ce_peer_fp = Err ''e'', ce_hello = Ok (), ce_canonicalize = Some, ce_current_dir = None, ce_emit = (\<lambda>_. Ok ()),
     ce_reveal = Ok (), ce_lib = toy_ble_lib, ce_feed_db_ok = True, ce_average = (\<lambda>_. 0), ce_report = (\<lambda>_. JNull),
     ce_secure_store = True, ce_text = (\<lambda>_. ''failed'')\<rparr>"

section \<open>Properties\<close>

lemma map_result_run: "map_result f x = (s', r) \<longleftrightarrow> fst x = s' \<and> f (snd x) = r"
  by (auto simp: map_result_def)

lemma acked_ok: "acked f r = Returns (Ok x) \<Longrightarrow> x = Ack"
  by (auto simp: acked_def split: sum.splits)

lemma replied_ok: "replied f g r = Returns (Ok x) \<Longrightarrow> \<exists>y. x = g y"
  by (auto simp: replied_def split: sum.splits)

text \<open>A command of the read side leaves transfers, trust, configuration, tokens and the database tables as they are.\<close>
theorem read_side_keeps_app:
  assumes "command_class_of cmd = ReadSide"
  shows "sv_app (fst (dispatch E cmd s)) = sv_app s \<and> sv_files (fst (dispatch E cmd s)) = sv_files s"
  using assms
  by (cases cmd) (simp_all add: command_class_of_def dispatch_def Let_def map_result_def on_feed_def collect_diagnostics_def case_prod_beta)

end
