(* ===== verification/IpcServer.thy ===== *)
theory IpcServer
  imports CoreService
begin

text \<open>
  The local control server of \<^verbatim>\<open>daemon/server.rs\<close>: the checks a request passes before it is dispatched (the user
  behind the connection, the endpoint, the access token), and the loop that reads frames from a connection
  and writes one response for each.  Reading and writing CBOR (\<^verbatim>\<open>ciborium\<close>) and the text of its errors are
  arguments; the loop ends when the peer closes, when a frame cannot be read or written, or when an
  operation panics.  Connections are those of Unix sockets.
\<close>

section \<open>Requests\<close>

record peer_identity =
  peer_uid :: nat
  peer_pid :: "nat option"

fun token_error_text :: "token_error \<Rightarrow> string" where
  "token_error_text MissingToken = ''missing access token''"
| "token_error_text ExpiredToken = ''expired access token''"
| "token_error_text UnknownToken = ''unknown access token''"

definition request_token :: "wire_request \<Rightarrow> string option" where
  "request_token rq = Option.bind (rq_auth_context rq) ac_access_token"

definition check_token :: "core_env \<Rightarrow> string option \<Rightarrow> service_state \<Rightarrow> service_state \<times> (token_error + unit)" where
  "check_token E tok = on_app (\<lambda>st. case validate_local_ipc_access_token (unix_now_ms (env_clock E)) tok (access_tokens st)
     of (toks, r) \<Rightarrow> (st\<lparr>access_tokens := toks\<rparr>, r))"

definition revoke_token :: "core_env \<Rightarrow> string option \<Rightarrow> service_state \<Rightarrow> service_state \<times> (token_error + unit)" where
  "revoke_token E tok = on_app (\<lambda>st. case revoke_local_ipc_access_token (unix_now_ms (env_clock E)) tok (access_tokens st)
     of (toks, r) \<Rightarrow> (st\<lparr>access_tokens := toks\<rparr>, r))"

definition uid_mismatch_text :: "peer_identity \<Rightarrow> nat \<Rightarrow> string" where
  "uid_mismatch_text p uid =
     ''local IPC peer uid '' @ show_nat (peer_uid p) @
     (case peer_pid p of Some pid \<Rightarrow> '' (pid '' @ show_nat pid @ '')'' | None \<Rightarrow> '''') @
     '' does not match current uid '' @ show_nat uid"

definition run_dispatch ::
    "(local_ipc_response \<Rightarrow> json) \<Rightarrow> core_env \<Rightarrow> local_ipc_command \<Rightarrow> string \<Rightarrow> nat \<Rightarrow> service_state \<Rightarrow> service_state \<times> wire_response run" where
  "run_dispatch ser E cmd rid v s =
     map_result (\<lambda>r. case r of
          Panics \<Rightarrow> Panics
        | Returns (Inr resp) \<Rightarrow> Returns (into_wire_response ser resp rid v)
        | Returns (Inl e) \<Rightarrow> Returns (wire_error_response rid v (dispatch_failed (ce_text E e)))) (dispatch E cmd s)"

definition run_command_for ::
    "(local_ipc_response \<Rightarrow> json) \<Rightarrow> core_env \<Rightarrow> endpoint_kind \<Rightarrow> wire_request \<Rightarrow> local_ipc_command \<Rightarrow> service_state \<Rightarrow>
     service_state \<times> wire_response run" where
  "run_command_for ser E k rq cmd s =
     (let rid = rq_request_id rq; v = rq_proto_version rq; refuse = (\<lambda>e. Returns (wire_error_response rid v e)) in
      if \<not> accepts_on_endpoint cmd k
      then (s, refuse (invalid_request (''command '' @ command_name cmd @ '' must be sent to the '' @
                 endpoint_label (endpoint_kind_of cmd) @ '' endpoint'')))
      else if cmd = AuthIssue
      then map_result (\<lambda>g. Returns (into_wire_response ser (AccessGrant g) rid v)) (issue_grant E (request_token rq) s)
      else if cmd = AuthRevoke
      then map_result (\<lambda>r. case r of Inr _ \<Rightarrow> Returns (into_wire_response ser Ack rid v)
                                  | Inl e \<Rightarrow> refuse (unauthorized (token_error_text e))) (revoke_token E (request_token rq) s)
      else if requires_auth cmd
      then (case check_token E (request_token rq) s of
              (s1, Inl e) \<Rightarrow> (s1, refuse (unauthorized (token_error_text e)))
            | (s1, Inr _) \<Rightarrow> run_dispatch ser E cmd rid v s1)
      else run_dispatch ser E cmd rid v s)"

definition dispatch_request ::
    "(local_ipc_response \<Rightarrow> json) \<Rightarrow> (string \<Rightarrow> json \<Rightarrow> string) \<Rightarrow> core_env \<Rightarrow> endpoint_kind \<Rightarrow> peer_identity option \<Rightarrow> nat \<Rightarrow>
     wire_request \<Rightarrow> service_state \<Rightarrow> service_state \<times> wire_response run" where
  "dispatch_request ser se E k peer uid rq s =
     (let rid = rq_request_id rq; v = rq_proto_version rq;
          stranger = (case peer of Some p \<Rightarrow> (if peer_uid p \<noteq> uid then Some p else None) | None \<Rightarrow> None)
      in case stranger of
           Some p \<Rightarrow> (s, Returns (wire_error_response rid v (unauthorized (uid_mismatch_text p uid))))
         | None \<Rightarrow>
             (case from_wire_request se rq of
                Inl e \<Rightarrow> (s, Returns (wire_error_response rid v e))
              | Inr cmd \<Rightarrow> run_command_for ser E k rq cmd s))"

section \<open>Connections\<close>

record ipc_codec =
  dec_request :: "bytes \<Rightarrow> wire_request option"
  enc_response :: "wire_response \<Rightarrow> bytes option"
  dec_error_text :: "bytes \<Rightarrow> string"
  ser_response :: "local_ipc_response \<Rightarrow> json"
  de_error_text :: "string \<Rightarrow> json \<Rightarrow> string"

datatype conn_end = PeerClosed | FrameFailed frame_error | TaskPanicked

definition decode_error_response :: "ipc_codec \<Rightarrow> bytes \<Rightarrow> wire_response" where
  "decode_error_response C fr =
     wire_error_response ''decode-error'' LOCAL_IPC_PROTO_VERSION
       (invalid_request (''failed to deserialize cbor: '' @ dec_error_text C fr))"

text \<open>The answer to one frame; the environment is that of the request.\<close>

definition answer_frame ::
    "ipc_codec \<Rightarrow> core_env \<Rightarrow> endpoint_kind \<Rightarrow> peer_identity option \<Rightarrow> nat \<Rightarrow> bytes \<Rightarrow> service_state \<Rightarrow> service_state \<times> wire_response run" where
  "answer_frame C E k peer uid fr s =
     (case decode_message (dec_request C) fr of
        Inl _ \<Rightarrow> (s, Returns (decode_error_response C fr))
      | Inr rq \<Rightarrow> dispatch_request (ser_response C) (de_error_text C) E k peer uid rq s)"

text \<open>
  The loop; request number \<open>n\<close> meets the environment \<open>envs n\<close>.  A frame cut short counts as closed, as an
  end of the stream inside a frame is reported the same way as one before it.
\<close>

function handle_connection ::
    "ipc_codec \<Rightarrow> (nat \<Rightarrow> core_env) \<Rightarrow> endpoint_kind \<Rightarrow> peer_identity option \<Rightarrow> nat \<Rightarrow> nat \<Rightarrow> bytes \<Rightarrow> send_stream \<Rightarrow> service_state \<Rightarrow>
     service_state \<times> send_stream \<times> conn_end" where
  "handle_connection C envs k peer uid n inp out s =
     (case read_frame_bytes inp of
        Inl UnexpectedEof \<Rightarrow> (s, out, PeerClosed)
      | Inl e \<Rightarrow> (s, out, FrameFailed e)
      | Inr (fr, rest) \<Rightarrow>
          (case answer_frame C (envs n) k peer uid fr s of
             (s1, Panics) \<Rightarrow> (s1, out, TaskPanicked)
           | (s1, Returns resp) \<Rightarrow>
               (case write_framed_message (enc_response C) out resp of
                  Inl e \<Rightarrow> (s1, out, FrameFailed e)
                | Inr out1 \<Rightarrow> handle_connection C envs k peer uid (n + 1) rest out1 s1)))"
  by pat_completeness auto
termination
  by (relation "measure (\<lambda>(C, envs, k, peer, uid, n, inp, out, s). length inp)") (auto dest: read_frame_shorter)

declare handle_connection.simps [simp del]

text \<open>A framed message, the request id a frame asks for, and the one a response carries.\<close>

definition framed :: "bytes \<Rightarrow> bytes" where
  "framed fr = u32_to_be_bytes (of_nat (length fr)) @ fr"

definition response_frame :: "ipc_codec \<Rightarrow> wire_response \<Rightarrow> bytes" where
  "response_frame C resp = framed (case enc_response C resp of Some bs \<Rightarrow> bs | None \<Rightarrow> [])"

definition frame_id :: "ipc_codec \<Rightarrow> bytes \<Rightarrow> string" where
  "frame_id C fr = (case dec_request C fr of None \<Rightarrow> ''decode-error'' | Some rq \<Rightarrow> rq_request_id rq)"

fun response_id :: "wire_response \<Rightarrow> string" where
  "response_id (WireOk r) = ok_request_id r"
| "response_id (WireErr r) = er_request_id r"

definition sample_codec :: ipc_codec where
  "sample_codec = \<lparr>dec_request = (\<lambda>bs. if bs = [1] then Some (to_wire_request ConfigGet ''a'' None) else None),
     enc_response = (\<lambda>_. Some [7]), dec_error_text = (\<lambda>_. ''bad''), ser_response = (\<lambda>_. JNull), de_error_text = (\<lambda>_ _. ''bad'')\<rparr>"

section \<open>Facts\<close>

lemma tokens_only_check: "fst (check_token E tok s) = s\<lparr>sv_app := (sv_app s)\<lparr>access_tokens :=
    fst (validate_local_ipc_access_token (unix_now_ms (env_clock E)) tok (access_tokens (sv_app s)))\<rparr>\<rparr>"
  by (simp add: check_token_def on_app_def case_prod_beta)

lemma check_token_ok:
  assumes "check_token E tok s = (s1, Inr u)"
  shows "\<exists>t. tok = Some t \<and> token_status (unix_now_ms (env_clock E)) (access_tokens (sv_app s)) t = Ok ()"
  using assms
  by (auto simp: check_token_def on_app_def case_prod_beta validate_local_ipc_access_token_def non_blank_def split: option.splits if_splits)

lemma issue_grant_tokens: "\<exists>toks. fst (issue_grant E p s) = s\<lparr>sv_app := (sv_app s)\<lparr>access_tokens := toks\<rparr>\<rparr>"
  by (auto simp: issue_grant_def on_app_def case_prod_beta)

lemma revoke_tokens: "\<exists>toks. fst (revoke_token E p s) = s\<lparr>sv_app := (sv_app s)\<lparr>access_tokens := toks\<rparr>\<rparr>"
  by (auto simp: revoke_token_def on_app_def case_prod_beta)

lemma same_tokens: "\<exists>toks. s = s\<lparr>sv_app := (sv_app s)\<lparr>access_tokens := toks\<rparr>\<rparr>"
  by (rule exI [of _ "access_tokens (sv_app s)"]) simp

lemma run_command_effect:
  assumes "\<forall>toks. fst (run_command_for ser E k rq cmd s) \<noteq> s\<lparr>sv_app := (sv_app s)\<lparr>access_tokens := toks\<rparr>\<rparr>"
  shows "accepts_on_endpoint cmd k \<and>
    (k = UiActivation \<or> (\<exists>t. request_token rq = Some t \<and> token_status (unix_now_ms (env_clock E)) (access_tokens (sv_app s)) t = Ok ()))"
proof -
  have acc: "accepts_on_endpoint cmd k" and auth: "cmd \<noteq> AuthIssue" "cmd \<noteq> AuthRevoke"
    using assms same_tokens [of s] issue_grant_tokens [of E "request_token rq" s] revoke_tokens [of E "request_token rq" s]
    by (auto simp: run_command_for_def Let_def map_result_def split: if_splits)
  show ?thesis
  proof (cases "requires_auth cmd")
    case False
    then have "\<not> accepts_on_endpoint cmd Service" using auth
      by (cases cmd) (simp_all add: requires_auth_def accepts_on_endpoint_def endpoint_kind_of_def command_class_of_def)
    then show ?thesis using acc by (cases k) simp_all
  next
    case True
    obtain s1 r where ct: "check_token E (request_token rq) s = (s1, r)" by fastforce
    have "r \<noteq> Inl e" for e
      using assms acc auth True ct tokens_only_check [of E "request_token rq" s] by (auto simp: run_command_for_def Let_def)
    then obtain u where "r = Inr u" by (cases r) auto
    then show ?thesis using check_token_ok ct acc by blast
  qed
qed

section \<open>Properties\<close>

text \<open>
  C3: A request changes the state, beyond the table of access tokens, only when it comes from the user the
  service runs as, is a well-formed command for this endpoint, and carries a token that is valid at that
  moment; without a token only the endpoint of the user interface acts.
\<close>
theorem request_needs_token:
  assumes "\<forall>toks. fst (dispatch_request ser se E k peer uid rq s) \<noteq> s\<lparr>sv_app := (sv_app s)\<lparr>access_tokens := toks\<rparr>\<rparr>"
  shows "(case peer of Some p \<Rightarrow> peer_uid p = uid | None \<Rightarrow> True) \<and>
    (\<exists>cmd. from_wire_request se rq = Ok cmd \<and> accepts_on_endpoint cmd k) \<and>
    (k = UiActivation \<or>
     (\<exists>t. request_token rq = Some t \<and> token_status (unix_now_ms (env_clock E)) (access_tokens (sv_app s)) t = Ok ()))"
proof -
  have user: "case peer of Some p \<Rightarrow> peer_uid p = uid | None \<Rightarrow> True"
    using assms same_tokens [of s] by (auto simp: dispatch_request_def Let_def split: option.splits if_splits)
  then have eq: "dispatch_request ser se E k peer uid rq s =
      (case from_wire_request se rq of Inl e \<Rightarrow> (s, Returns (wire_error_response (rq_request_id rq) (rq_proto_version rq) e))
       | Inr cmd \<Rightarrow> run_command_for ser E k rq cmd s)"
    by (cases peer) (simp_all add: dispatch_request_def Let_def)
  show ?thesis
  proof (cases "from_wire_request se rq")
    case (Inl e)
    then show ?thesis using assms same_tokens [of s] unfolding eq by auto
  next
    case (Inr cmd)
    then show ?thesis using assms run_command_effect [of ser E k rq cmd s] user unfolding eq by auto
  qed
qed

theorem request_needs_token_witness:
  "let r = dispatch_request (\<lambda>_. JNull) (\<lambda>_ _. ''bad'') sample_core_env Service (Some \<lparr>peer_uid = 7, peer_pid = None\<rparr>) 7
      (to_wire_request (AppIngestBleAssistCapsule (sample_capsule\<lparr>cap_expires_at_unix_ms := 200000\<rparr>) None) ''1''
        (Some \<lparr>ac_access_token = Some ''tok''\<rparr>)) sample_state
   in (\<forall>toks. fst r \<noteq> sample_state\<lparr>sv_app := (sv_app sample_state)\<lparr>access_tokens := toks\<rparr>\<rparr>) \<and>
      token_status 100000 (access_tokens (sv_app sample_state)) ''tok'' = Ok ()"
proof -
  let ?cmd = "AppIngestBleAssistCapsule (sample_capsule\<lparr>cap_expires_at_unix_ms := 200000\<rparr>) None"
  let ?rq = "to_wire_request ?cmd ''1'' (Some \<lparr>ac_access_token = Some ''tok''\<rparr>)"
  let ?r = "dispatch_request (\<lambda>_. JNull) (\<lambda>_ _. ''bad'') sample_core_env Service (Some \<lparr>peer_uid = 7, peer_pid = None\<rparr>) 7 ?rq sample_state"
  have cmd: "from_wire_request (\<lambda>_ _. ''bad'') ?rq = Ok ?cmd"
    unfolding from_wire_request_def using from_name_payload [of ?cmd]
    by (simp add: to_wire_request_def sample_capsule_def U64_MAX_def)
  have t: "trim ''tok'' = ''tok''" "trim ''r'' = ''r''" "trim ''t'' = ''t''" by code_simp+
  have eq: "?r = run_command_for (\<lambda>_. JNull) sample_core_env Service ?rq ?cmd sample_state"
    unfolding dispatch_request_def Let_def cmd by simp
  have "ble_observations (sv_ble (fst ?r)) \<noteq> []"
    unfolding eq
    by (simp add: request_token_def to_wire_request_def env_lock_ok_def Let_def run_command_for_def accepts_on_endpoint_def endpoint_kind_of_def
        command_class_of_def requires_auth_def check_token_def on_app_def validate_local_ipc_access_token_def
        non_blank_def t token_status_def sample_state_def sample_core_env_def env_clock_def sample_service_env_def sample_clock_def
        run_dispatch_def map_result_def dispatch_def ingest_ble_assist_capsule_def validate_ble_assist_capsule_def
        sample_capsule_def record_ble_assist_observation_def idle_ble_def retain_unexpired_def case_prod_beta)
  then have "\<forall>toks. fst ?r \<noteq> sample_state\<lparr>sv_app := (sv_app sample_state)\<lparr>access_tokens := toks\<rparr>\<rparr>"
    by (auto simp: sample_state_def idle_ble_def)
  moreover from request_needs_token [OF this]
  have "token_status 100000 (access_tokens (sv_app sample_state)) ''tok'' = Ok ()"
    by (auto simp: request_token_def to_wire_request_def sample_core_env_def env_clock_def sample_service_env_def sample_clock_def)
  ultimately show ?thesis by (simp add: Let_def)
qed

lemma dispatch_returns:
  assumes "accepts_on_endpoint cmd Service"
  shows "\<exists>r. snd (dispatch E cmd s) = Returns r"
  using assms
  by (cases cmd)
    (simp_all add: accepts_on_endpoint_def endpoint_kind_of_def command_class_of_def dispatch_def Let_def map_result_def acked_def
      replied_def with_db_def)

lemma run_dispatch_id:
  assumes "accepts_on_endpoint cmd Service"
  shows "\<exists>resp. snd (run_dispatch ser E cmd rid v s) = Returns resp \<and> response_id resp = rid"
proof -
  obtain r where r: "snd (dispatch E cmd s) = Returns r" using dispatch_returns [OF assms] by blast
  then show ?thesis
    by (cases r) (simp_all add: run_dispatch_def map_result_def wire_error_response_def into_wire_response_def)
qed

lemma run_command_id: "\<exists>resp. snd (run_command_for ser E Service rq cmd s) = Returns resp \<and> response_id resp = rq_request_id rq"
proof (cases "accepts_on_endpoint cmd Service")
  case False
  then show ?thesis by (simp add: run_command_for_def Let_def wire_error_response_def)
next
  case True
  obtain s1 r where ct: "check_token E (request_token rq) s = (s1, r)" by fastforce
  show ?thesis
    using True run_dispatch_id [OF True] ct
    by (cases r) (auto simp: run_command_for_def Let_def map_result_def wire_error_response_def into_wire_response_def split: sum.split)
qed

lemma answer_frame_id: "\<exists>resp. snd (answer_frame C E Service peer uid fr s) = Returns resp \<and> response_id resp = frame_id C fr"
proof (cases "dec_request C fr")
  case None
  then show ?thesis
    by (simp add: answer_frame_def decode_message_def decode_error_response_def wire_error_response_def frame_id_def)
next
  case (Some rq)
  then show ?thesis
    using run_command_id [of "ser_response C" E rq _ s]
    by (auto simp: answer_frame_def decode_message_def dispatch_request_def Let_def frame_id_def wire_error_response_def
        split: option.split sum.split)
qed

lemma write_framed:
  assumes "peer_takes out = None" and "enc m = Some bs" and "length bs \<le> LOCAL_IPC_MAX_FRAME_LEN"
  shows "write_framed_message enc out m = Ok (out\<lparr>sent := sent out @ framed bs\<rparr>)"
  using assms by (simp add: write_framed_message_def encode_message_def write_frame_bytes_def write_all_def framed_def)

text \<open>
  C16: Every request on a connection to the service is answered, exactly once and in order.  When frames within
  the limit arrive, the peer reads what is written, and responses fit into a frame, the connection ends only
  when the peer closes it, and what has been written is one framed response per frame, each with the id of
  its request.
\<close>
theorem connection_answers_every_request:
  assumes enc: "\<forall>resp. \<exists>bs. enc_response C resp = Some bs \<and> length bs \<le> LOCAL_IPC_MAX_FRAME_LEN"
    and frames: "\<forall>fr \<in> set frs. length fr \<le> LOCAL_IPC_MAX_FRAME_LEN" and peer_reads: "peer_takes out = None"
  shows "\<exists>s' resps. handle_connection C envs Service peer uid n (concat (map framed frs)) out s =
            (s', out\<lparr>sent := sent out @ concat (map (response_frame C) resps)\<rparr>, PeerClosed) \<and>
          map response_id resps = map (frame_id C) frs"
  using frames peer_reads
proof (induction frs arbitrary: n out s)
  case Nil
  have "read_frame_bytes [] = Inl UnexpectedEof" by (simp add: read_frame_bytes_def read_exact_def)
  then show ?case by (subst handle_connection.simps) simp
next
  case (Cons fr frs)
  let ?rest = "concat (map framed frs)"
  have rd: "read_frame_bytes (framed fr @ ?rest) = Ok (fr, ?rest)"
    using frame_of_bytes [of fr ?rest] Cons.prems(1) by (simp add: framed_def)
  obtain s1 a where af: "answer_frame C (envs n) Service peer uid fr s = (s1, a)" by fastforce
  then obtain resp where a: "a = Returns resp" and rid: "response_id resp = frame_id C fr"
    using answer_frame_id [of C "envs n" peer uid fr s] by auto
  obtain bs where bs: "enc_response C resp = Some bs" "length bs \<le> LOCAL_IPC_MAX_FRAME_LEN" using enc by blast
  let ?out1 = "out\<lparr>sent := sent out @ framed bs\<rparr>"
  have wr: "write_framed_message (enc_response C) out resp = Ok ?out1"
    using write_framed [of out "enc_response C" resp bs] Cons.prems(2) bs by blast
  have prems: "\<forall>fr \<in> set frs. length fr \<le> LOCAL_IPC_MAX_FRAME_LEN" "peer_takes ?out1 = None" using Cons.prems by simp_all
  obtain s' resps where ih: "handle_connection C envs Service peer uid (n + 1) ?rest ?out1 s1 =
      (s', ?out1\<lparr>sent := sent ?out1 @ concat (map (response_frame C) resps)\<rparr>, PeerClosed)"
    "map response_id resps = map (frame_id C) frs"
    using Cons.IH [of ?out1 "n + 1" s1] prems by blast
  have "handle_connection C envs Service peer uid n (framed fr @ ?rest) out s =
      (s', out\<lparr>sent := sent out @ concat (map (response_frame C) (resp # resps))\<rparr>, PeerClosed)"
    by (subst handle_connection.simps) (use rd af a wr ih(1) bs(1) in \<open>simp add: response_frame_def\<close>)
  then show ?case using rid ih(2) by (intro exI [of _ s'] exI [of _ "resp # resps"]) simp
qed

theorem connection_answers_every_request_witness:
  "\<exists>s' resps. handle_connection sample_codec (\<lambda>_. sample_core_env) Service None 7 0 (framed [1] @ framed [2])
        \<lparr>sent = [], peer_takes = None\<rparr> sample_state =
      (s', \<lparr>sent = concat (map (response_frame sample_codec) resps), peer_takes = None\<rparr>, PeerClosed) \<and>
    map response_id resps = [''a'', ''decode-error'']"
proof -
  have "\<forall>resp. \<exists>bs. enc_response sample_codec resp = Some bs \<and> length bs \<le> LOCAL_IPC_MAX_FRAME_LEN"
    by (simp add: sample_codec_def LOCAL_IPC_MAX_FRAME_LEN_def)
  moreover have "\<forall>fr \<in> set [[1], [2]]. length fr \<le> LOCAL_IPC_MAX_FRAME_LEN" by (simp add: LOCAL_IPC_MAX_FRAME_LEN_def)
  moreover have "map (frame_id sample_codec) [[1], [2]] = [''a'', ''decode-error'']"
    by (simp add: frame_id_def sample_codec_def to_wire_request_def)
  ultimately show ?thesis
    using connection_answers_every_request [of sample_codec "[[1], [2]]" "\<lparr>sent = [], peer_takes = None\<rparr>" "\<lambda>_. sample_core_env" None 7 0 sample_state]
    by simp
qed

end
