(* ===== verification/Footprint.thy ===== *)
theory Footprint
  imports Handshake IpcServer
begin

text \<open>
  What the operations of the program leave of the shared tables of \<^verbatim>\<open>AppState\<close>.  An operation is \<open>steady\<close>
  when it leaves the discovered devices and the access tokens as they are, keeps the primary key of the
  history and the keys of the trust table, and makes no peer actively trusted that was not before.  The
  rules for the small updates are collected in \<open>steady_intros\<close>; sending, receiving, the handshake, the
  answers to requests and the maintenance loops follow from them, so that nothing a peer does on the
  network can add trust.
\<close>

named_theorems steady_intros \<open>operations that leave the shared tables in order\<close>

section \<open>Definitions\<close>

definition trust_keys_ok :: "trust_table \<Rightarrow> bool" where
  "trust_keys_ok tbl \<longleftrightarrow> distinct (map fst tbl) \<and> list_all (\<lambda>(fp, p). fingerprint p = fp) tbl"

definition no_new_trust :: "trust_table \<Rightarrow> trust_table \<Rightarrow> bool" where
  "no_new_trust tbl tbl' \<longleftrightarrow> (trust_keys_ok tbl \<longrightarrow> trust_keys_ok tbl') \<and>
     (\<forall>fp. is_active_trust tbl' fp \<longrightarrow> is_active_trust tbl fp)"

definition steady :: "app_state \<Rightarrow> app_state \<Rightarrow> bool" where
  "steady st st' \<longleftrightarrow> discovery st' = discovery st \<and> access_tokens st' = access_tokens st \<and>
     (table_ok (history_db st) \<longrightarrow> table_ok (history_db st')) \<and> no_new_trust (trusted_peers st) (trusted_peers st')"

text \<open>The invariant of the shared tables, and operations that add trust for the given fingerprints only.\<close>

definition app_ok :: "app_state \<Rightarrow> bool" where
  "app_ok st \<longleftrightarrow> trust_keys_ok (trusted_peers st) \<and> discovery_ok (discovery st) \<and> table_distinct (access_tokens st) \<and>
     table_ok (history_db st)"

definition trust_limited :: "string set \<Rightarrow> app_state \<Rightarrow> app_state \<Rightarrow> bool" where
  "trust_limited fps st st' \<longleftrightarrow> (app_ok st \<longrightarrow> app_ok st') \<and>
     (\<forall>fp. fp \<notin> fps \<longrightarrow> is_active_trust (trusted_peers st') fp \<longrightarrow> is_active_trust (trusted_peers st) fp)"

text \<open>The fingerprints a command may add trust for.\<close>

definition grants_trust :: "local_ipc_command \<Rightarrow> string set" where
  "grants_trust cmd = (case cmd of TrustPair fp \<Rightarrow> {fp} | TrustConfirmVerification fp m b \<Rightarrow> {fp} | _ \<Rightarrow> {})"

section \<open>Small updates\<close>

lemma no_new_trust_refl [simp]: "no_new_trust tbl tbl"
  by (simp add: no_new_trust_def)

lemma no_new_trust_trans: "no_new_trust a b \<Longrightarrow> no_new_trust b c \<Longrightarrow> no_new_trust a c"
  by (auto simp: no_new_trust_def)

lemma steady_refl [steady_intros]: "steady st st"
  by (simp add: steady_def)

lemma steady_trans [trans]: "steady a b \<Longrightarrow> steady b c \<Longrightarrow> steady a c"
  using no_new_trust_trans by (auto simp: steady_def)

lemma steady_updates [simp]:
  "steady st (s\<lparr>transfers := x1\<rparr>) = steady st s" "steady st (s\<lparr>pending_accepts := x2\<rparr>) = steady st s"
  "steady st (s\<lparr>config := x3\<rparr>) = steady st s" "steady st (s\<lparr>notifications := x4\<rparr>) = steady st s"
  "steady st (s\<lparr>slo_transfers := x5\<rparr>) = steady st s" "steady st (s\<lparr>metrics := x6\<rparr>) = steady st s"
  "steady st (s\<lparr>security_db := x7\<rparr>) = steady st s" "steady st (s\<lparr>snapshot_db := x8\<rparr>) = steady st s"
  "steady st (s\<lparr>trusted_db := x9\<rparr>) = steady st s" "steady st (s\<lparr>config_db := x10\<rparr>) = steady st s"
  "steady st (s\<lparr>persist_log := x11\<rparr>) = steady st s" "steady st (s\<lparr>ui_log := x12\<rparr>) = steady st s"
  by (simp_all add: steady_def)

lemma steady_history:
  "steady st s \<Longrightarrow> (table_ok (history_db s) \<Longrightarrow> table_ok y) \<Longrightarrow> steady st (s\<lparr>history_db := y\<rparr>)"
  by (auto simp: steady_def)

lemma steady_trust: "steady st s \<Longrightarrow> no_new_trust (trusted_peers s) tbl \<Longrightarrow> steady st (s\<lparr>trusted_peers := tbl\<rparr>)"
  using no_new_trust_trans by (auto simp: steady_def)

lemma update_keys_ok: "trust_keys_ok tbl \<Longrightarrow> fingerprint p = fp \<Longrightarrow> trust_keys_ok (AList.update fp p tbl)"
  by (auto simp: trust_keys_ok_def distinct_update intro: update_all)

lemma keys_okD: "trust_keys_ok tbl \<Longrightarrow> map_of tbl fp = Some p \<Longrightarrow> fingerprint p = fp"
  by (auto simp: trust_keys_ok_def list_all_iff dest: map_of_SomeD)

lemma replaced_trust:
  assumes "map_of tbl fp = Some p" "fingerprint p' = fingerprint p"
    and "allows_sensitive_send (trust_level p') \<Longrightarrow> allows_sensitive_send (trust_level p)"
  shows "no_new_trust tbl (AList.update fp p' tbl)"
  using assms keys_okD update_keys_ok by (auto simp: no_new_trust_def is_active_trust_def update_conv' split: if_splits)

lemma mark_used_trust [simp]: "no_new_trust tbl (mark_peer_used now fp tbl)"
  by (auto simp: mark_peer_used_def intro: replaced_trust split: option.split)

lemma freeze_trust [simp]: "no_new_trust tbl (fst (freeze_trusted_peer fp reason now tbl))"
  by (auto simp: freeze_trusted_peer_def Let_def allows_sensitive_send_def intro: replaced_trust split: option.split)

lemma delete_trust [simp]: "no_new_trust tbl (AList.delete fp tbl)"
proof -
  have "set (AList.delete fp tbl) \<subseteq> set tbl" by (auto simp: AList.delete_eq)
  then show ?thesis
    by (auto simp: no_new_trust_def trust_keys_ok_def is_active_trust_def delete_conv' distinct_delete list_all_iff split: if_splits)
qed

lemma emit_steady [steady_intros]: "steady st s \<Longrightarrow> steady st (emit e s)"
  by (simp add: emit_def)

lemma fold_emit_steady [steady_intros]: "steady st s \<Longrightarrow> steady st (fold emit evs s)"
  by (induction evs arbitrary: s) (auto intro: steady_intros)

lemma progress_steady [steady_intros]:
  "steady st s \<Longrightarrow> steady st (add_progress tid n s)" "steady st s \<Longrightarrow> steady st (skip_progress tid n s)"
  by (auto simp: skip_progress_def add_progress_def schedule_progress_persist_def Let_def emit_def split: option.split)

lemma set_task_steady [steady_intros]:
  "steady st s \<Longrightarrow> steady st (set_task t s)" "steady st s \<Longrightarrow> steady st (flush_progress_persist_now t s)"
  "steady st s \<Longrightarrow> steady st (upd_slo i f s)"
  by (simp_all add: set_task_def flush_progress_persist_now_def upd_slo_def)

lemma notification_steady [steady_intros]:
  "steady st s \<Longrightarrow> steady st (fst (ensure_incoming_request_notification clk uuid i s))"
  "steady st s \<Longrightarrow> steady st (fst (mark_incoming_request_notification_inactive clk i r s))"
  by (auto simp: ensure_incoming_request_notification_def mark_incoming_request_notification_inactive_def Let_def
      record_receiver_prompted_def set_transfer_slo_peer_if_missing_def upd_slo_def split: option.split prod.split)

lemma saved_steady [steady_intros]:
  "steady st s \<Longrightarrow> steady st (s\<lparr>history_db := if b then save_step now (history_db s) t else history_db s\<rparr>)"
  by (rule steady_history) (auto intro: save_step_table_ok)

lemma status_steady [steady_intros]: "steady st s \<Longrightarrow> steady st (fst (update_transfer_status clk ok i new r s))"
  unfolding update_transfer_status_def Let_def
  by (auto intro!: steady_intros steady_history save_step_table_ok split: option.split)

section \<open>Receiving\<close>

lemma offer_steady [steady_intros]:
  "steady st s \<Longrightarrow> steady st (register_offer env off s)" "steady st s \<Longrightarrow> steady st (announce_offer env off s)"
  "steady st s \<Longrightarrow> steady st (fst (decide_offer env off s))" "steady st s \<Longrightarrow> steady st (set_error tid msg s)"
  "steady st s \<Longrightarrow> steady st (end_transfer env tid new r s)" "steady st s \<Longrightarrow> steady st (emit_terminal tid new rc c ph s)"
  "steady st s \<Longrightarrow> steady st (emit_error tid rc c ph d s)"
  by (auto simp: register_offer_def announce_offer_def record_receiver_fallback_prompted_def decide_offer_def set_error_def
      end_transfer_def emit_terminal_def emit_error_def Let_def case_prod_beta intro: steady_intros
      split: user_response.split option.split)

lemma finish_offer_steady [steady_intros]: "steady st s \<Longrightarrow> steady st (finish_offer env off oc s)"
  by (auto simp: finish_offer_def Let_def intro!: steady_intros split: transfer_outcome.split)

lemma receive_loop_steady:
  "steady st (app w) \<Longrightarrow> steady st (app (fst (receive_loop h show_err F strategy tid fid final_path temp_path hashed s w)))"
  by (induction h show_err F strategy tid fid final_path temp_path hashed s w rule: receive_loop.induct)
    (auto intro: steady_intros split: prod.split sum.split)

lemma receive_one_file_steady:
  "steady st (app w) \<Longrightarrow> steady st (app (fst (receive_one_file h show_err F root tid it m rest w)))"
  by (auto simp: receive_one_file_def receive_regular_def Let_def case_prod_beta intro: receive_loop_steady
      split: sum.split option.split open_result.split)

lemma run_task_steady:
  assumes "steady st (app w)"
  shows "steady st (app (fst (run_task h show_err F root tid routed cancelled superseded it plan w)))"
proof -
  have "steady st (app w1)" if "receive_one_file h show_err F root tid it m rest w = (w1, r)" for m rest w1 r
    using receive_one_file_steady [OF assms, of h show_err F root tid it m rest] that by simp
  then show ?thesis using assms
    by (auto simp: run_task_def refuse_def send_ack_def Let_def split: item_plan.split option.split prod.split task_result.split)
qed

lemma run_tasks_steady:
  "steady st (app w) \<Longrightarrow> steady st (app (fst (run_tasks h show_err F root tid routed cancelled tasks w)))"
proof (induction tasks arbitrary: w)
  case (Cons task tasks)
  then show ?case using run_task_steady [OF Cons.prems] by (cases task) (simp add: Let_def case_prod_beta)
qed simp

lemma receive_files_steady:
  "steady st (app w) \<Longrightarrow> steady st (app (fst (receive_files h show_err F root tid its streams w)))"
  by (auto simp: receive_files_def Let_def case_prod_beta intro: run_tasks_steady)

lemma handle_offer_steady:
  assumes "steady st (app w)"
  shows "steady st (app (res_world (handle_offer h show_err F env off w)))"
proof -
  have acc: "steady st (app (res_world (accept_offer h show_err F env off root v)))" if "steady st (app v)" for root v
    using that by (auto simp: accept_offer_def Let_def case_prod_beta intro!: steady_intros steady_trust receive_files_steady split: sum.split)
  show ?thesis using assms
    by (auto simp: handle_offer_def reject_offer_def refuse_disk_full_def Let_def case_prod_beta intro!: steady_intros acc)
qed

section \<open>The handshake\<close>

lemma log_steady [steady_intros]:
  "steady st s \<Longrightarrow> steady st (log_event env ty phase fp reason s)"
  "steady st s \<Longrightarrow> steady st (freeze_changed_peer env a b c s)"
  by (auto simp: log_event_def freeze_changed_peer_def Let_def emit_def intro: steady_trust)

lemma mismatch_steady:
  "steady st (app (ns_world ns)) \<Longrightarrow> steady st (app (ns_world (note_mismatch env a b c ns)))"
  by (auto simp: note_mismatch_def alert_changed_fingerprint_def Let_def intro!: steady_intros)

lemma exchange_steady:
  "steady st (app (ns_world ns)) \<Longrightarrow> steady st (app (ns_world (ir_state (exchange_hello h show_msg show_err F inc ns))))"
  unfolding exchange_hello_def await_offer_def admit_offer_def Let_def case_prod_beta answer_def fail_def
  by (auto intro: handle_offer_steady split: sum.split dash_message.split option.split)

lemma accept_connection_steady:
  assumes "steady st (app (ns_world ns))"
  shows "steady st (app (ns_world (ir_state (accept_connection h show_msg show_err F inc ns))))"
proof -
  have ident: "steady st (app (ns_world (ir_state (check_identity h show_msg show_err F inc ns'))))"
    if "steady st (app (ns_world ns'))" for ns'
    using that by (auto simp: check_identity_def close_conn_def Let_def intro!: exchange_steady mismatch_steady split: option.split prod.split)
  have "steady st (app (ns_world (ir_state (handle_incoming h show_msg show_err F inc ns'))))"
    if "steady st (app (ns_world ns'))" for ns'
    using that by (auto simp: handle_incoming_def close_conn_def Let_def case_prod_beta intro!: ident split: option.split)
  then show ?thesis using assms
    by (auto simp: accept_connection_def close_conn_def Let_def case_prod_beta intro!: steady_intros split: option.split)
qed

section \<open>Sending\<close>

lemma send_chunks_steady:
  "steady st0 st \<Longrightarrow> steady st0 (fst (send_chunks f lk tid fid off cid hashed out st))"
proof (induction f lk tid fid off cid hashed out st rule: send_chunks.induct)
  case (1 f lk tid fid off cid hashed out st)
  then show ?case by (subst send_chunks.simps) (auto simp: Let_def intro: steady_intros)
qed

lemma send_one_file_steady: "steady st0 st \<Longrightarrow> steady st0 (fst (send_one_file h f lk tid it from ack st))"
  using send_chunks_steady [of st0]
  by (auto simp: send_one_file_def Let_def intro: steady_intros split: sum.split prod.split)
     (metis fst_conv progress_steady(2))+

lemma send_tasks_steady: "steady st0 st \<Longrightarrow> steady st0 (fst (send_tasks h env tid offs policy board pairs st))"
proof (induction pairs arbitrary: st)
  case (Cons pair pairs)
  have "steady st0 (fst (send_task h env tid offs policy board pair st))"
    using Cons.prems by (auto simp: send_task_def Let_def intro: send_one_file_steady split: file_type.split)
  then show ?case using Cons.IH by (simp add: Let_def case_prod_beta)
qed simp

lemma close_task_steady [steady_intros]: "steady st0 st \<Longrightarrow> steady st0 (close_task env tid upd evs st)"
  by (auto simp: close_task_def Let_def intro!: steady_intros steady_history save_step_table_ok split: option.split)

lemma send_parts_steady [steady_intros]:
  "steady st0 st \<Longrightarrow> steady st0 (use_peer env fp st)" "steady st0 st \<Longrightarrow> steady st0 (register_send env tid fp ps prs st)"
  "steady st0 st \<Longrightarrow> steady st0 (note_sources env tid fp its policy st)" "steady st0 st \<Longrightarrow> steady st0 (finish_send env tid n oc st)"
  by (auto simp: use_peer_def register_send_def note_sources_def finish_send_def Let_def intro!: steady_intros steady_trust
      split: option.split resume_source_policy.split)

lemma transfer_accepted_steady:
  "steady st0 st \<Longrightarrow> steady st0 (fst (transfer_accepted h env tid fp pairs policy offs st))"
  by (auto simp: transfer_accepted_def start_transferring_def Let_def case_prod_beta intro!: steady_intros send_tasks_steady
      split: option.split)

lemma send_files_steady: "steady st0 st \<Longrightarrow> steady st0 (sr_app (send_files h env tid fp sources st))"
  by (auto simp: send_files_def offer_timed_out_def offer_rejected_def Let_def case_prod_beta
      intro!: steady_intros transfer_accepted_steady split: sum.split offer_reply.split dash_message.split)

lemma service_send_steady: "steady st0 st \<Longrightarrow> steady st0 (fst (service_send_files h detail env sv tid fp sources st))"
proof -
  have fl: "steady st0 (fail_send clk ok tid d s)" if "steady st0 s" for clk ok d s
    using that by (auto simp: fail_send_def Let_def case_prod_beta intro!: steady_intros steady_history save_step_table_ok split: option.split)
  have att: "steady st0 (send_attempts h detail env second tid fp sources s)" if "steady st0 s" for second s
    using that by (auto simp: send_attempts_def Let_def intro!: fl send_files_steady split: sum.split option.split)
  assume "steady st0 st"
  then show ?thesis
    by (auto simp: service_send_files_def service_connect_def record_sender_dispatch_def Let_def intro!: steady_intros att
        split: option.split sum.split)
qed

section \<open>Answers and maintenance\<close>

lemma answer_steady [steady_intros]:
  "steady st s \<Longrightarrow> steady st (cr_app (answer_pending clk a missing s tid nid))"
  by (auto simp: answer_pending_def take_responder_def expire_request_def Let_def intro!: steady_intros
      split: incoming_request_action_state.split)

lemma request_steady [steady_intros]:
  "steady st s \<Longrightarrow> steady st (cr_app (accept_transfer clk host s tid nid))"
  "steady st s \<Longrightarrow> steady st (cr_app (reject_transfer clk host s tid nid))"
  by (auto simp: accept_transfer_def reject_transfer_def accept_pending_transfer_def reject_pending_transfer_def
      emit_request_expired_def intro!: steady_intros)

lemma cancel_steady [steady_intros]: "steady st s \<Longrightarrow> steady st (fst (cancel_transfer_inner clk ok host tid s))"
  by (auto simp: cancel_transfer_inner_def take_responder_def Let_def intro!: steady_intros steady_history save_step_table_ok
      split: option.split)

lemma cancel_each_steady: "steady st s \<Longrightarrow> steady st (fst (cancel_each clk ok host is s))"
proof (induction "is" arbitrary: s)
  case (Cons i "is")
  then show ?case using cancel_steady [OF Cons.prems] by (simp add: Let_def case_prod_beta)
qed simp

lemma cancel_all_steady [steady_intros]: "steady st s \<Longrightarrow> steady st (fst (cancel_all_transfers clk ok host s))"
  by (simp add: cancel_all_transfers_def cancel_each_steady)

lemma fold_steady: "(\<And>x s. steady st s \<Longrightarrow> steady st (f x s)) \<Longrightarrow> steady st s \<Longrightarrow> steady st (fold f xs s)"
  by (induction xs arbitrary: s) auto

lemma maintenance_steady [steady_intros]:
  "steady st s \<Longrightarrow> steady st (memory_cleanup now s)" "steady st s \<Longrightarrow> steady st (notification_maintenance clk uuid s)"
  by (auto simp: memory_cleanup_def notification_maintenance_def Let_def case_prod_beta intro!: fold_steady notification_steady)

section \<open>The services\<close>

lemma steady_limited: "steady st st' \<Longrightarrow> trust_limited fps st st'"
  by (auto simp: steady_def no_new_trust_def trust_limited_def app_ok_def)

lemma limited_refl [simp]: "trust_limited fps st st"
  by (simp add: trust_limited_def)

lemma limited_steady: "trust_limited fps a b \<Longrightarrow> steady b c \<Longrightarrow> trust_limited fps a c"
  by (auto simp: steady_def no_new_trust_def trust_limited_def app_ok_def)

lemma limited_discovery:
  "trust_limited fps st s \<Longrightarrow> (discovery_ok (discovery s) \<Longrightarrow> discovery_ok ds) \<Longrightarrow> trust_limited fps st (s\<lparr>discovery := ds\<rparr>)"
  by (auto simp: trust_limited_def app_ok_def)

lemma limited_tokens:
  "trust_limited fps st s \<Longrightarrow> (table_distinct (access_tokens s) \<Longrightarrow> table_distinct toks) \<Longrightarrow>
   trust_limited fps st (s\<lparr>access_tokens := toks\<rparr>)"
  by (auto simp: trust_limited_def app_ok_def)

lemma limited_trust:
  assumes "trust_limited fps st s" "trust_keys_ok (trusted_peers s) \<Longrightarrow> trust_keys_ok tbl"
    and "\<And>fp. fp \<notin> fps \<Longrightarrow> is_active_trust tbl fp \<Longrightarrow> is_active_trust (trusted_peers s) fp"
  shows "trust_limited fps st (s\<lparr>trusted_peers := tbl\<rparr>)"
  using assms by (auto simp: trust_limited_def app_ok_def)

lemma no_new_limited: "trust_limited fps st s \<Longrightarrow> no_new_trust (trusted_peers s) tbl \<Longrightarrow> trust_limited fps st (s\<lparr>trusted_peers := tbl\<rparr>)"
  by (rule limited_trust) (auto simp: no_new_trust_def)

lemma persist_steady:
  assumes "steady st s" "\<And>x. steady x (tell x)"
  shows "steady st (fst (persist_then env tell s))"
proof -
  have "steady st (fst (persist_runtime_state env s))"
    using assms(1) by (auto simp: persist_runtime_state_def Let_def case_prod_beta)
  then show ?thesis
    using assms(2) by (auto simp: persist_then_def intro: steady_trans split: prod.split sum.split)
qed

lemma persist_limited:
  "trust_limited fps st s \<Longrightarrow> (\<And>x. steady x (tell x)) \<Longrightarrow> trust_limited fps st (fst (persist_then env tell s))"
  by (rule limited_steady [of _ _ s]) (auto intro: persist_steady steady_refl)

lemma host_event_steady [steady_intros]:
  "steady st s \<Longrightarrow> steady st (host_event env ev args s)" "steady st s \<Longrightarrow> steady st (log_confirmation env fp l p m s)"
  by (auto simp: host_event_def log_confirmation_def Let_def intro: steady_intros)

lemma replaced_device_ok:
  assumes ok: "discovery_ok ds" and d: "device_ok fp d"
    and more: "\<And>d0 sid. map_of (devices ds) fp = Some d0 \<Longrightarrow> map_of (dv_sessions d0) sid \<noteq> None \<Longrightarrow> map_of (dv_sessions d) sid \<noteq> None"
  shows "discovery_ok (ds\<lparr>devices := AList.update fp d (devices ds)\<rparr>)"
proof (rule discovery_ok_update [OF ok d])
  have "Discovery.entry_ok (AList.update fp d (devices ds)) e" if "Discovery.entry_ok (devices ds) e" for e
    using that more by (intro entry_ok_update) (auto simp: Discovery.entry_ok_def split: option.splits)
  then show "list_all (\<lambda>(k, e). Discovery.entry_ok (AList.update fp d (devices ds)) e)
      (session_index (ds\<lparr>devices := AList.update fp d (devices ds)\<rparr>))"
    using ok by (auto simp: discovery_ok_def list_all_iff)
qed simp

lemma device_trusted_limited:
  assumes "trust_limited fps st s"
  shows "trust_limited fps st (set_device_trusted env b fp s)"
proof (cases "map_of (devices (discovery s)) fp")
  case (Some d)
  have "discovery_ok ((discovery s)\<lparr>devices := AList.update fp (d\<lparr>dv_trusted := b\<rparr>) (devices (discovery s))\<rparr>)"
    if "discovery_ok (discovery s)"
    using discovery_okD [OF that Some] Some by (intro replaced_device_ok that) (auto simp: device_ok_def)
  then show ?thesis using assms Some by (auto simp: set_device_trusted_def Let_def intro: limited_discovery)
qed (simp add: set_device_trusted_def assms)

lemma connected_limited: "trust_limited fps st (fst (register_connected E fp a st))"
proof -
  let ?ds = "discovery st" and ?trust = "is_trusted (trusted_peers st) fp"
  let ?old = "case map_of (devices ?ds) fp of Some d0 \<Rightarrow> d0 | None \<Rightarrow> manual_device (unix_now (CoreService.env_clock E)) ?trust fp a"
  let ?d = "connected_device (CoreService.env_clock E) ?trust a ?old"
  have "discovery_ok (?ds\<lparr>devices := AList.update fp ?d (devices ?ds)\<rparr>)" if "discovery_ok ?ds"
  proof (rule replaced_device_ok [OF that])
    have "device_ok fp ?old"
      using discovery_okD [OF that] by (auto simp: device_ok_def manual_device_def split: option.split)
    then show "device_ok fp ?d"
      by (auto simp: device_ok_def connected_device_def manual_session_def distinct_update)
  qed (auto simp: connected_device_def manual_session_def update_conv')
  then show ?thesis by (auto simp: register_connected_def Let_def intro!: limited_discovery)
qed

lemma connect_limited: "trust_limited fps st (fst (connect_by_address E address st))"
  using connected_limited
  by (auto simp: connect_by_address_def case_prod_beta steady_limited steady_refl split: sum.split)

lemma pair_limited: "trust_limited {fp} st (fst (pair_device env fp st))"
proof -
  have add: "trust_limited {fp} st (s\<lparr>trusted_peers := add_trust now fp nm tbl\<rparr>)"
    if "trust_limited {fp} st s" and tbl: "tbl = trusted_peers s" for s now nm tbl
  proof (rule limited_trust [OF that(1)])
    show "trust_keys_ok (add_trust now fp nm tbl)" if "trust_keys_ok (trusted_peers s)"
      using that by (auto simp: tbl add_trust_def keys_okD intro!: update_keys_ok split: option.split)
  qed (auto simp: tbl add_trust_def is_active_trust_def update_conv' split: option.split_asm)
  show ?thesis
    by (auto simp: pair_device_def Let_def intro!: add persist_limited device_trusted_limited steady_intros)
qed

lemma unpair_limited: "trust_limited fps st (fst (unpair_device env fp st))"
  by (auto simp: unpair_device_def Let_def intro!: persist_limited device_trusted_limited steady_intros no_new_limited)

lemma alias_limited: "trust_limited fps st (fst (set_trusted_alias env fp a st))"
  by (auto simp: set_trusted_alias_def intro!: persist_limited steady_intros no_new_limited replaced_trust split: option.split)

lemma verified_fingerprint [simp]: "fingerprint (verified_peer now m b p) = fingerprint p"
  by (simp add: verified_peer_def Let_def)

lemma confirm_limited: "trust_limited {fp} st (fst (confirm_trusted_peer_verification env fp m b st))"
proof -
  have "trust_limited {fp} st (st\<lparr>trusted_peers := AList.update fp (verified_peer now m b p) (trusted_peers st)\<rparr>)"
    if "map_of (trusted_peers st) fp = Some p" for now p
    using that update_keys_ok keys_okD [OF _ that]
    by (intro limited_trust) (auto simp: is_active_trust_def update_conv')
  then show ?thesis
    by (auto simp: confirm_trusted_peer_verification_def Let_def intro!: persist_limited steady_intros split: option.split)
qed

lemma config_limited: "trust_limited fps st (fst (snd (set_app_config F env cfg (fs, st))))"
  by (rule steady_limited)
    (auto simp: set_app_config_def Let_def intro!: persist_steady steady_intros split: prod.split sum.split)

lemma issue_limited: "trust_limited fps st (st\<lparr>access_tokens := fst (issue_local_ipc_access_grant now tok previous (access_tokens st))\<rparr>)"
  using token_step_distinct [of "access_tokens st" "Issue now tok previous"] by (auto intro: limited_tokens)

lemma validate_limited: "trust_limited fps st (st\<lparr>access_tokens := fst (validate_local_ipc_access_token now tok (access_tokens st))\<rparr>)"
  using token_step_distinct [of "access_tokens st" "Validate now tok"] by (auto intro: limited_tokens)

lemma revoke_limited: "trust_limited fps st (st\<lparr>access_tokens := fst (revoke_local_ipc_access_token now tok (access_tokens st))\<rparr>)"
  using token_step_distinct [of "access_tokens st" "Revoke now tok"] by (auto intro: limited_tokens)

lemma blockers_limited: "trust_limited fps st (fst (headless_idle_blockers now st))"
  using token_step_distinct [of "access_tokens st" "Count now"]
  by (auto simp: headless_idle_blockers_def Let_def case_prod_beta intro: limited_tokens)

section \<open>Commands\<close>

lemma emit_json_steady [steady_intros]: "steady st s \<Longrightarrow> steady st (fst (emit_json E ev args s))"
  by (auto simp: emit_json_def intro: steady_intros)

lemma activation_steady [steady_intros]:
  "steady st s \<Longrightarrow> steady st (fst (reveal_main_window E s))"
  "steady st s \<Longrightarrow> steady st (fst (emit_external_share_payload E ps src s))"
  "steady st s \<Longrightarrow> steady st (fst (emit_links E ls s))"
  subgoal by (auto simp: reveal_main_window_def intro: steady_intros split: sum.split)
  subgoal using emit_json_steady [of st s]
    by (auto simp: emit_external_share_payload_def split: run.split prod.split sum.split) (metis fst_conv)+
  subgoal
  proof (induction ls arbitrary: s)
    case (Cons l ls)
    have "steady st (fst (emit_json E ''pairing_link_received'' [l, ''app_activate''] s))" using Cons.prems by (rule emit_json_steady)
    then show ?case using Cons.IH by (auto split: prod.split sum.split)
  qed simp
  done

lemma shares_steady:
  "steady st (fst (queue_external_share E ps st))" "steady st (fst (activate_app E ps ls st))"
proof -
  have pay: "steady st s" if "emit_external_share_payload E ps src st = (s, r)" for src s r
    using activation_steady(2) [OF steady_refl, of st E ps src] that by simp
  have rev: "steady st s'" if "reveal_main_window E s = (s', r)" "steady st s" for s s' r
    using activation_steady(1) [OF that(2), of E] that by simp
  have links: "steady st s'" if "emit_links E ls s = (s', r)" "steady st s" for s s' r
    using activation_steady(3) [OF that(2), of E ls] that by simp
  show "steady st (fst (queue_external_share E ps st))"
    using pay rev steady_refl by (fastforce simp: queue_external_share_def split: prod.split run.split sum.split option.split)
  show "steady st (fst (activate_app E ps ls st))"
    using pay rev links steady_refl by (fastforce simp: activate_app_def split: prod.split run.split sum.split)
qed

lemma transfer_commands_steady:
  "steady st (fst (send_to_peer E fp ps st))" "steady st (fst (cancel_transfer E tid st))" "steady st (fst (retry_transfer E tid st))"
proof -
  show send: "steady st (fst (send_to_peer E fp ps st))" for fp ps
    by (simp add: send_to_peer_def service_send_steady steady_refl)
  show "steady st (fst (cancel_transfer E tid st))"
    using cancel_steady [OF steady_refl, of st] by (simp add: cancel_transfer_def case_prod_beta)
  show "steady st (fst (retry_transfer E tid st))"
    using send by (auto simp: retry_transfer_def case_prod_beta steady_refl split: sum.split)
qed

lemma capsule_steady: "steady (sv_app s) (sv_app (fst (ingest_ble_assist_capsule E c src s)))"
  by (auto simp: ingest_ble_assist_capsule_def Let_def steady_refl split: sum.split)

lemma on_app_app: "sv_app (fst (CoreService.on_app f s)) = fst (f (sv_app s))"
  by (simp add: CoreService.on_app_def case_prod_beta)

lemma dispatch_limited: "trust_limited (grants_trust cmd) (sv_app s) (sv_app (fst (CoreService.dispatch E cmd s)))"
  by (cases cmd)
    (simp_all add: CoreService.dispatch_def grants_trust_def Let_def map_result_def on_app_app issue_grant_def case_prod_beta
      apply_config_def on_feed_def collect_diagnostics_def answer_transfer_def
      connect_limited pair_limited unpair_limited alias_limited confirm_limited config_limited issue_limited
      steady_limited shares_steady transfer_commands_steady capsule_steady steady_refl cancel_all_steady request_steady)

lemma limited_after_tokens:
  "trust_limited fps (st\<lparr>access_tokens := toks\<rparr>) st' \<Longrightarrow> (table_distinct (access_tokens st) \<Longrightarrow> table_distinct toks) \<Longrightarrow>
   trust_limited fps st st'"
  by (auto simp: trust_limited_def app_ok_def)

lemma run_dispatch_limited:
  "trust_limited (grants_trust cmd) (sv_app s) (sv_app (fst (run_dispatch ser E cmd rid v s)))"
  by (simp add: run_dispatch_def map_result_def dispatch_limited)

lemma grant_limited:
  "trust_limited fps (sv_app s) (sv_app (fst (issue_grant E previous s)))"
  "trust_limited fps (sv_app s) (sv_app (fst (revoke_token E previous s)))"
  by (simp_all add: issue_grant_def revoke_token_def on_app_app case_prod_beta issue_limited revoke_limited)

lemma run_command_limited:
  "trust_limited (grants_trust cmd) (sv_app s) (sv_app (fst (run_command_for ser E k rq cmd s)))"
proof -
  have "trust_limited (grants_trust cmd) (sv_app s) (sv_app (fst (run_dispatch ser E cmd rid v s1)))"
    if "check_token E tok s = (s1, r)" for rid v s1 r tok
  proof (rule limited_after_tokens)
    let ?v = "validate_local_ipc_access_token (unix_now_ms (CoreService.env_clock E)) tok (access_tokens (sv_app s))"
    have "s1 = s\<lparr>sv_app := (sv_app s)\<lparr>access_tokens := fst ?v\<rparr>\<rparr>" using tokens_only_check [of E tok s] that by simp
    then show "trust_limited (grants_trust cmd) ((sv_app s)\<lparr>access_tokens := fst ?v\<rparr>) (sv_app (fst (run_dispatch ser E cmd rid v s1)))"
      using run_dispatch_limited [of cmd s1] by simp
    show "table_distinct (fst ?v)" if "table_distinct (access_tokens (sv_app s))"
      using token_step_distinct [OF that, of "Validate (unix_now_ms (CoreService.env_clock E)) tok"] by simp
  qed
  moreover have "trust_limited (grants_trust cmd) (sv_app s) (sv_app s1)" if "check_token E tok s = (s1, r)" for s1 r tok
    using tokens_only_check [of E tok s] that validate_limited by simp
  ultimately show ?thesis
    by (auto simp: run_command_for_def Let_def map_result_def grant_limited run_dispatch_limited split: prod.split sum.split)
qed

lemma request_limited:
  assumes "fps = (case from_wire_request se rq of Inr cmd \<Rightarrow> grants_trust cmd | Inl _ \<Rightarrow> {})"
  shows "trust_limited fps (sv_app s) (sv_app (fst (dispatch_request ser se E k peer uid rq s)))"
  using assms run_command_limited by (auto simp: dispatch_request_def Let_def split: option.split sum.split)

text \<open>Where new trust comes from: a trust command of the user the service runs as, with a valid token.\<close>

lemma request_new_trust:
  assumes new: "is_active_trust (trusted_peers (sv_app (fst (dispatch_request ser se E k peer uid rq s)))) fp"
    and old: "\<not> is_active_trust (trusted_peers (sv_app s)) fp"
  shows "\<exists>cmd t. from_wire_request se rq = Ok cmd \<and> fp \<in> grants_trust cmd \<and> request_token rq = Some t \<and>
    token_status (unix_now_ms (CoreService.env_clock E)) (access_tokens (sv_app s)) t = Ok () \<and>
    (case peer of Some p \<Rightarrow> peer_uid p = uid | None \<Rightarrow> True)"
proof -
  obtain cmd where cmd: "from_wire_request se rq = Ok cmd" and uid: "case peer of Some p \<Rightarrow> peer_uid p = uid | None \<Rightarrow> True"
    and eq: "fst (dispatch_request ser se E k peer uid rq s) = fst (run_command_for ser E k rq cmd s)"
    using new old by (auto simp: dispatch_request_def Let_def split: option.splits if_splits sum.splits)
  have fp: "fp \<in> grants_trust cmd"
    using request_limited [OF refl, of se rq s ser E k peer uid] new old cmd by (auto simp: trust_limited_def)
  have "fst (run_command_for ser E k rq cmd s) \<noteq> s\<lparr>sv_app := (sv_app s)\<lparr>access_tokens := toks\<rparr>\<rparr>" for toks
    using new old eq by auto
  then have "accepts_on_endpoint cmd k \<and> (k = UiActivation \<or> (\<exists>t. request_token rq = Some t \<and>
      token_status (unix_now_ms (CoreService.env_clock E)) (access_tokens (sv_app s)) t = Ok ()))"
    using run_command_effect by blast
  moreover have "\<not> accepts_on_endpoint cmd UiActivation"
    using fp by (cases cmd) (simp_all add: grants_trust_def accepts_on_endpoint_def endpoint_kind_of_def command_class_of_def)
  ultimately show ?thesis using cmd uid fp by blast
qed

end
