(* ===== verification/DaemonClient.thy ===== *)
theory DaemonClient
  imports IpcServer
begin

text \<open>
  The client of the local control socket, \<^verbatim>\<open>daemon/client.rs\<close>, on Unix.  One exchange opens a connection, writes one
  framed request, reads one framed response and checks that the response belongs to the request.  What
  is at the other end is a \<open>daemon_link\<close>: whether a connection can be opened, how many bytes the socket takes,
  and what the other end makes of the bytes written; \<open>service_link\<close> is the link to the connection loop
  of \<^verbatim>\<open>daemon/server.rs\<close>.  Reading and writing CBOR is an argument, as for the server.
\<close>

section \<open>Definitions\<close>

text \<open>The response format of earlier versions.\<close>

datatype legacy_result = LegacyOk local_ipc_response | LegacyErr ipc_error

record legacy_envelope =
  lg_proto_version :: nat
  lg_request_id :: string
  lg_command :: legacy_result

record client_codec =
  enc_request :: "wire_request \<Rightarrow> bytes option"
  dec_response :: "bytes \<Rightarrow> wire_response option"
  dec_legacy :: "bytes \<Rightarrow> legacy_envelope option"
  cl_ser :: "local_ipc_response \<Rightarrow> json"

datatype client_error =
    ConnectSocket | WriteRequest frame_error | ReadResponse frame_error | DecodeLegacy
  | ProtoMismatch nat | RequestIdMismatch string string
  | MissingAuthPayload | MissingPayloadAuth | DecodeGrant | IssueRefused string string | RevokeRefused string string

record 's daemon_link =
  dl_connects :: "'s \<Rightarrow> bool"
  dl_takes :: "nat option"
  dl_serve :: "bytes \<Rightarrow> 's \<Rightarrow> 's \<times> bytes"

definition decode_response :: "client_codec \<Rightarrow> bytes \<Rightarrow> client_error + wire_response" where
  "decode_response CC bs =
     (case decode_message (dec_response CC) bs of
        Inr r \<Rightarrow> Ok r
      | Inl _ \<Rightarrow>
          (case decode_message (dec_legacy CC) bs of
             Inl _ \<Rightarrow> Err DecodeLegacy
           | Inr env \<Rightarrow>
               Ok (case lg_command env of
                     LegacyOk resp \<Rightarrow> into_wire_response (cl_ser CC) resp (lg_request_id env) (lg_proto_version env)
                   | LegacyErr e \<Rightarrow> wire_error_response (lg_request_id env) (lg_proto_version env) e)))"

fun response_version :: "wire_response \<Rightarrow> nat" where
  "response_version (WireOk r) = ok_proto_version r"
| "response_version (WireErr r) = er_proto_version r"

definition validate_response :: "wire_request \<Rightarrow> wire_response \<Rightarrow> client_error + wire_response" where
  "validate_response rq r =
     (if response_version r \<noteq> LOCAL_IPC_PROTO_VERSION then Err (ProtoMismatch (response_version r))
      else if response_id r \<noteq> rq_request_id rq then Err (RequestIdMismatch (rq_request_id rq) (response_id r))
      else Ok r)"

text \<open>A request whose write fails leaves at most a part of a frame, which the other end never acts on.\<close>

definition send_envelope ::
    "client_codec \<Rightarrow> 's daemon_link \<Rightarrow> wire_request \<Rightarrow> 's \<Rightarrow> 's \<times> (client_error + wire_response)" where
  "send_envelope CC L rq s =
     (if \<not> dl_connects L s then (s, Err ConnectSocket)
      else case write_framed_message (enc_request CC) \<lparr>sent = [], peer_takes = dl_takes L\<rparr> rq of
        Inl e \<Rightarrow> (s, Err (WriteRequest e))
      | Inr out \<Rightarrow>
          (case dl_serve L (sent out) s of (s1, reply) \<Rightarrow>
             (s1, case read_frame_bytes reply of
                    Inl e \<Rightarrow> Err (ReadResponse e)
                  | Inr (fr, rest) \<Rightarrow>
                      (case decode_response CC fr of Inl e \<Rightarrow> Err e | Inr r \<Rightarrow> validate_response rq r))))"

definition auth_with :: "string \<Rightarrow> local_auth_context" where
  "auth_with token = \<lparr>ac_access_token = Some token\<rparr>"

definition send_authenticated ::
    "client_codec \<Rightarrow> 's daemon_link \<Rightarrow> string \<Rightarrow> local_ipc_command \<Rightarrow> string \<Rightarrow> 's \<Rightarrow> 's \<times> (client_error + wire_response)" where
  "send_authenticated CC L uuid cmd token = send_envelope CC L (to_wire_request cmd uuid (Some (auth_with token)))"

definition send_command ::
    "client_codec \<Rightarrow> 's daemon_link \<Rightarrow> string \<Rightarrow> local_ipc_command \<Rightarrow> 's \<Rightarrow> 's \<times> (client_error + wire_response)" where
  "send_command CC L uuid cmd = send_envelope CC L (to_wire_request cmd uuid None)"

text \<open>The access grant, as \<^verbatim>\<open>#[derive(Deserialize)]\<close> reads it.\<close>

definition grant_value :: "access_grant \<Rightarrow> json" where
  "grant_value g = JObj [(''access_token'', JStr (grant_token g)), (''expires_at_unix_ms'', u64_value (expires_at_unix_ms g)),
     (''refresh_after_unix_ms'', u64_value (refresh_after_unix_ms g))]"

definition grant_from :: "json option \<Rightarrow> json option \<Rightarrow> json option \<Rightarrow> access_grant option" where
  "grant_from t e r =
     Option.bind (Option.bind t de_string) (\<lambda>tok. Option.bind (Option.bind e (de_uint U64_MAX)) (\<lambda>ex.
     Option.bind (Option.bind r (de_uint U64_MAX)) (\<lambda>rf.
       Some \<lparr>expires_at_unix_ms = ex, refresh_after_unix_ms = rf, grant_token = tok\<rparr>)))"

definition de_grant :: "json \<Rightarrow> access_grant option" where
  "de_grant v =
     (case v of
        JObj obj \<Rightarrow> grant_from (map_of obj ''access_token'') (map_of obj ''expires_at_unix_ms'') (map_of obj ''refresh_after_unix_ms'')
      | JArr [t, e, r] \<Rightarrow> grant_from (Some t) (Some e) (Some r)
      | _ \<Rightarrow> None)"

definition json_get :: "string \<Rightarrow> json \<Rightarrow> json option" where
  "json_get k v = (case v of JObj obj \<Rightarrow> map_of obj k | _ \<Rightarrow> None)"

definition grant_of_response :: "wire_response \<Rightarrow> client_error + access_grant" where
  "grant_of_response r =
     (case r of
        WireOk ok \<Rightarrow>
          (case ok_payload ok of
             None \<Rightarrow> Err MissingAuthPayload
           | Some p \<Rightarrow>
               (case json_get ''auth'' p of
                  None \<Rightarrow> Err MissingPayloadAuth
                | Some a \<Rightarrow> (case de_grant a of None \<Rightarrow> Err DecodeGrant | Some g \<Rightarrow> Ok g)))
      | WireErr e \<Rightarrow> Err (IssueRefused (ie_message (er_error e)) (ie_code (er_error e))))"

definition issue_access_grant ::
    "client_codec \<Rightarrow> 's daemon_link \<Rightarrow> string \<Rightarrow> string option \<Rightarrow> 's \<Rightarrow> 's \<times> (client_error + access_grant)" where
  "issue_access_grant CC L uuid current s =
     (case send_envelope CC L (to_wire_request AuthIssue uuid (map_option auth_with current)) s of
        (s1, Inl e) \<Rightarrow> (s1, Err e)
      | (s1, Inr r) \<Rightarrow> (s1, grant_of_response r))"

definition revoke_access_grant ::
    "client_codec \<Rightarrow> 's daemon_link \<Rightarrow> string \<Rightarrow> string \<Rightarrow> 's \<Rightarrow> 's \<times> (client_error + unit)" where
  "revoke_access_grant CC L uuid token s =
     (case send_envelope CC L (to_wire_request AuthRevoke uuid (Some (auth_with token))) s of
        (s1, Inl e) \<Rightarrow> (s1, Err e)
      | (s1, Inr (WireOk _)) \<Rightarrow> (s1, Ok ())
      | (s1, Inr (WireErr e)) \<Rightarrow> (s1, Err (RevokeRefused (ie_message (er_error e)) (ie_code (er_error e)))))"

text \<open>The link to an endpoint of the server: a connection on which one request is sent and which is then closed.\<close>

definition endpoint_link ::
    "ipc_codec \<Rightarrow> core_env \<Rightarrow> endpoint_kind \<Rightarrow> peer_identity option \<Rightarrow> nat \<Rightarrow> service_state daemon_link" where
  "endpoint_link C E k peer uid =
     \<lparr>dl_connects = (\<lambda>s. True), dl_takes = None,
      dl_serve = (\<lambda>bs s. case handle_connection C (\<lambda>_. E) k peer uid 0 bs \<lparr>sent = [], peer_takes = None\<rparr> s of
        (s1, out, _) \<Rightarrow> (s1, sent out))\<rparr>"

definition service_link ::
    "ipc_codec \<Rightarrow> core_env \<Rightarrow> peer_identity option \<Rightarrow> nat \<Rightarrow> service_state daemon_link" where
  "service_link C E = endpoint_link C E Service"

text \<open>What the two ends rely on for one exchange: what one writes the other reads, and it fits into a frame.\<close>

definition codecs_agree :: "client_codec \<Rightarrow> ipc_codec \<Rightarrow> wire_request \<Rightarrow> wire_response \<Rightarrow> bool" where
  "codecs_agree CC C rq resp \<longleftrightarrow>
     (\<exists>bs. enc_request CC rq = Some bs \<and> length bs \<le> LOCAL_IPC_MAX_FRAME_LEN \<and> dec_request C bs = Some rq) \<and>
     (\<exists>bs. enc_response C resp = Some bs \<and> length bs \<le> LOCAL_IPC_MAX_FRAME_LEN \<and> dec_response CC bs = Some resp)"

section \<open>Facts\<close>

lemma grant_roundtrip:
  "expires_at_unix_ms g \<le> U64_MAX \<Longrightarrow> refresh_after_unix_ms g \<le> U64_MAX \<Longrightarrow> de_grant (grant_value g) = Some g"
  by (simp add: de_grant_def grant_value_def grant_from_def)

lemma run_command_version:
  "snd (run_command_for ser E k rq cmd s) = Returns r \<Longrightarrow> response_version r = rq_proto_version rq \<and> response_id r = rq_request_id rq"
  by (auto simp: run_command_for_def run_dispatch_def map_result_def Let_def wire_error_response_def into_wire_response_def
      split: if_splits prod.splits sum.splits run.splits)

lemma dispatch_request_version:
  assumes "snd (dispatch_request ser se E k peer uid rq s) = Returns r"
  shows "response_version r = rq_proto_version rq \<and> response_id r = rq_request_id rq"
  using assms run_command_version
  by (auto simp: dispatch_request_def Let_def wire_error_response_def split: option.splits if_splits sum.splits)

text \<open>One exchange with an endpoint is one dispatch of the request.\<close>

lemma send_to_endpoint:
  assumes codec: "codecs_agree CC C rq r" and version: "rq_proto_version rq = LOCAL_IPC_PROTO_VERSION"
    and req: "dispatch_request (ser_response C) (de_error_text C) E k peer uid rq s = (s1, Returns r)"
  shows "send_envelope CC (endpoint_link C E k peer uid) rq s = (s1, Ok r)"
proof -
  let ?new = "\<lparr>sent = [], peer_takes = None\<rparr>"
  obtain bs where bs: "enc_request CC rq = Some bs" "length bs \<le> LOCAL_IPC_MAX_FRAME_LEN" "dec_request C bs = Some rq"
    using codec by (auto simp: codecs_agree_def)
  obtain rs where rs: "enc_response C r = Some rs" "length rs \<le> LOCAL_IPC_MAX_FRAME_LEN" "dec_response CC rs = Some r"
    using codec by (auto simp: codecs_agree_def)
  have wr: "write_framed_message (enc_request CC) ?new rq = Ok (?new\<lparr>sent := framed bs\<rparr>)"
    using write_framed [of ?new "enc_request CC" rq bs] bs by simp
  have out: "write_framed_message (enc_response C) ?new r = Ok (?new\<lparr>sent := framed rs\<rparr>)"
    using write_framed [of ?new "enc_response C" r rs] rs by simp
  have "read_frame_bytes (framed bs) = Ok (bs, [])" "read_frame_bytes (framed rs) = Ok (rs, [])"
    using frame_of_bytes [of bs "[]"] frame_of_bytes [of rs "[]"] bs rs by (simp_all add: framed_def)
  moreover have "read_frame_bytes [] = Inl UnexpectedEof" by (simp add: read_frame_bytes_def read_exact_def)
  then have "handle_connection C envs k peer uid n [] out1 s1 = (s1, out1, PeerClosed)" for envs n out1
    by (subst handle_connection.simps) simp
  ultimately have "handle_connection C (\<lambda>_. E) k peer uid 0 (framed bs) ?new s = (s1, ?new\<lparr>sent := framed rs\<rparr>, PeerClosed)"
    by (subst handle_connection.simps) (simp add: answer_frame_def decode_message_def bs(3) req out)
  moreover have "validate_response rq r = Ok r"
    using dispatch_request_version [of "ser_response C" "de_error_text C" E k peer uid rq s r] req version
    by (simp add: validate_response_def)
  ultimately show ?thesis
    using wr \<open>read_frame_bytes (framed rs) = Ok (rs, [])\<close>
    by (simp add: send_envelope_def endpoint_link_def decode_response_def decode_message_def rs(3))
qed

lemmas send_to_service = send_to_endpoint [where k = Service, folded service_link_def]

end
