(* ===== verification/ControlPlane.thy ===== *)
theory ControlPlane
  imports DaemonClient
begin

text \<open>
  The commands of the user interface, \<^verbatim>\<open>commands.rs\<close>.  Depending on the control-plane mode a command is served
  by the application itself or forwarded to the daemon, with an access grant that is cached, renewed and
  asked for again when the daemon refuses it, and with retries when no connection can be made.  The state
  of the shell is the state of the application, the state at the other end of the socket, the cached grant,
  and the exchanges made so far; exchange number \<open>n\<close> meets the link, the time and the identifier of index \<open>n\<close>.
  The derived deserialisation of what a response carries is \<open>cp_de\<close>; texts of errors are arguments.
\<close>

section \<open>State\<close>

record 's shell =
  sh_local :: service_state
  sh_daemon :: 's
  sh_cached :: "access_grant option"
  sh_tick :: nat
  sh_exchanges :: "(wire_request \<times> (client_error + wire_response)) list"

record 's shell_env =
  cp_core :: core_env
  cp_env_mode :: "string option"
  cp_has_state :: bool
  cp_has_auth :: bool
  cp_cache_lock_ok :: bool
  cp_config_dir :: "string + unit"
  cp_link :: "nat \<Rightarrow> 's daemon_link"
  cp_now :: "nat \<Rightarrow> u64"
  cp_uuid :: "nat \<Rightarrow> string"
  cp_codec :: client_codec
  cp_client_text :: "client_error \<Rightarrow> string"
  cp_de :: "local_ipc_command \<Rightarrow> json \<Rightarrow> local_ipc_response option"
  cp_de_text :: "json \<Rightarrow> string"

definition DAEMON_CONTROL_PLANE_MODE :: string where "DAEMON_CONTROL_PLANE_MODE = ''daemon''"
definition IN_PROCESS_CONTROL_PLANE_MODE :: string where "IN_PROCESS_CONTROL_PLANE_MODE = ''in_process''"
definition DAEMON_PROXY_READ_RETRY_DELAYS_MS :: "u64 list" where "DAEMON_PROXY_READ_RETRY_DELAYS_MS = [0, 100, 250, 500]"
definition DAEMON_PROXY_WRITE_RETRY_DELAYS_MS :: "u64 list" where "DAEMON_PROXY_WRITE_RETRY_DELAYS_MS = [0]"
definition DAEMON_ACCESS_GRANT_EXPIRY_SKEW_MS :: u64 where "DAEMON_ACCESS_GRANT_EXPIRY_SKEW_MS = 5000"

section \<open>The mode\<close>

definition env_control_plane_mode :: "string option \<Rightarrow> string option" where
  "env_control_plane_mode raw =
     (case raw of None \<Rightarrow> None | Some v \<Rightarrow> (let m = to_ascii_lowercase (trim v) in if m = '''' then None else Some m))"

definition normalize_control_plane_mode :: "string option \<Rightarrow> string option" where
  "normalize_control_plane_mode v =
     (case map_option (\<lambda>raw. to_ascii_lowercase (trim raw)) v of
        Some m \<Rightarrow>
          (if m = DAEMON_CONTROL_PLANE_MODE then Some DAEMON_CONTROL_PLANE_MODE
           else if m = IN_PROCESS_CONTROL_PLANE_MODE then Some IN_PROCESS_CONTROL_PLANE_MODE
           else None)
      | None \<Rightarrow> None)"

definition control_plane_mode_from_sources :: "string option \<Rightarrow> string option \<Rightarrow> string" where
  "control_plane_mode_from_sources state_mode env_mode =
     (case normalize_control_plane_mode state_mode of
        Some m \<Rightarrow> m
      | None \<Rightarrow> (case normalize_control_plane_mode env_mode of Some m \<Rightarrow> m | None \<Rightarrow> IN_PROCESS_CONTROL_PLANE_MODE))"

definition control_plane_mode_for_app :: "'s shell_env \<Rightarrow> 's shell \<Rightarrow> string" where
  "control_plane_mode_for_app env sh =
     (let mode = pi_control_plane_mode (sv_process (sh_local sh));
          state_mode = (if cp_has_state env \<and> trim mode \<noteq> '''' then Some mode else None)
      in control_plane_mode_from_sources state_mode (env_control_plane_mode (cp_env_mode env)))"

definition should_proxy_via_daemon :: "'s shell_env \<Rightarrow> 's shell \<Rightarrow> bool" where
  "should_proxy_via_daemon env sh = (control_plane_mode_for_app env sh = DAEMON_CONTROL_PLANE_MODE)"

section \<open>The cached access grant\<close>

definition is_usable_at :: "access_grant \<Rightarrow> u64 \<Rightarrow> bool" where
  "is_usable_at g now = (sat_add now DAEMON_ACCESS_GRANT_EXPIRY_SKEW_MS < expires_at_unix_ms g)"

definition should_refresh_at :: "access_grant \<Rightarrow> u64 \<Rightarrow> bool" where
  "should_refresh_at g now = (sat_add now DAEMON_ACCESS_GRANT_EXPIRY_SKEW_MS \<ge> refresh_after_unix_ms g)"

definition auth_context :: "access_grant \<Rightarrow> local_auth_context" where
  "auth_context g = auth_with (grant_token g)"

definition daemon_ipc_auth_state :: "'s shell_env \<Rightarrow> string + unit" where
  "daemon_ipc_auth_state env =
     (if \<not> cp_has_auth env then Err ''daemon IPC auth state unavailable''
      else if \<not> cp_cache_lock_ok env then Err ''daemon IPC auth cache lock poisoned''
      else Ok ())"

definition cached_daemon_access_grant :: "'s shell_env \<Rightarrow> 's shell \<Rightarrow> string + access_grant option" where
  "cached_daemon_access_grant env sh =
     (case daemon_ipc_auth_state env of Inl e \<Rightarrow> Err e | Inr _ \<Rightarrow> Ok (sh_cached sh))"

definition set_cached_daemon_access_grant ::
    "'s shell_env \<Rightarrow> access_grant option \<Rightarrow> 's shell \<Rightarrow> 's shell \<times> (string + unit)" where
  "set_cached_daemon_access_grant env g sh =
     (case daemon_ipc_auth_state env of Inl e \<Rightarrow> (sh, Err e) | Inr _ \<Rightarrow> (sh\<lparr>sh_cached := g\<rparr>, Ok ()))"

definition clear_cached_daemon_access_grant :: "'s shell_env \<Rightarrow> 's shell \<Rightarrow> 's shell \<times> (string + unit)" where
  "clear_cached_daemon_access_grant env = set_cached_daemon_access_grant env None"

text \<open>One exchange with whatever is at the other end of the socket.\<close>

definition exchange :: "'s shell_env \<Rightarrow> wire_request \<Rightarrow> 's shell \<Rightarrow> 's shell \<times> (client_error + wire_response)" where
  "exchange env rq sh =
     (case send_envelope (cp_codec env) (cp_link env (sh_tick sh)) rq (sh_daemon sh) of
        (d, r) \<Rightarrow> (sh\<lparr>sh_daemon := d, sh_tick := sh_tick sh + 1, sh_exchanges := sh_exchanges sh @ [(rq, r)]\<rparr>, r))"

definition issue_daemon_access_grant ::
    "'s shell_env \<Rightarrow> string option \<Rightarrow> 's shell \<Rightarrow> 's shell \<times> (string + access_grant)" where
  "issue_daemon_access_grant env current sh =
     (case cp_config_dir env of
        Inl e \<Rightarrow> (sh, Err e)
      | Inr _ \<Rightarrow>
          (case exchange env (to_wire_request AuthIssue (cp_uuid env (sh_tick sh)) (map_option auth_with current)) sh of
             (sh1, r) \<Rightarrow>
               (case (case r of Inl e \<Rightarrow> Err e | Inr resp \<Rightarrow> grant_of_response resp) of
                  Inl e \<Rightarrow> (sh1, Err (''failed to issue daemon access token: '' @ cp_client_text env e))
                | Inr g \<Rightarrow>
                    (case set_cached_daemon_access_grant env (Some g) sh1 of
                       (sh2, Inl e) \<Rightarrow> (sh2, Err e) | (sh2, Inr _) \<Rightarrow> (sh2, Ok g)))))"

definition revoke_cached_daemon_access_grant :: "'s shell_env \<Rightarrow> 's shell \<Rightarrow> 's shell \<times> (string + unit)" where
  "revoke_cached_daemon_access_grant env sh =
     (case cached_daemon_access_grant env sh of
        Inl e \<Rightarrow> (sh, Err e)
      | Inr None \<Rightarrow> (sh, Ok ())
      | Inr (Some g) \<Rightarrow>
          (case clear_cached_daemon_access_grant env sh of
             (sh1, Inl e) \<Rightarrow> (sh1, Err e)
           | (sh1, Inr _) \<Rightarrow>
               (if \<not> should_proxy_via_daemon env sh1 then (sh1, Ok ())
                else case cp_config_dir env of
                  Inl e \<Rightarrow> (sh1, Err e)
                | Inr _ \<Rightarrow>
                    (case exchange env (to_wire_request AuthRevoke (cp_uuid env (sh_tick sh1)) (Some (auth_context g))) sh1 of
                       (sh2, Inl e) \<Rightarrow> (sh2, Err (''failed to revoke daemon access token: '' @ cp_client_text env e))
                     | (sh2, Inr (WireOk _)) \<Rightarrow> (sh2, Ok ())
                     | (sh2, Inr (WireErr e)) \<Rightarrow>
                         (sh2, Err (''failed to revoke daemon access token: '' @
                                    cp_client_text env (RevokeRefused (ie_message (er_error e)) (ie_code (er_error e)))))))))"

definition best_effort_revoke_cached_daemon_access_grant :: "'s shell_env \<Rightarrow> 's shell \<Rightarrow> 's shell" where
  "best_effort_revoke_cached_daemon_access_grant env sh =
     (if \<not> cp_has_auth env then sh else fst (revoke_cached_daemon_access_grant env sh))"

definition daemon_access_grant_for_command ::
    "'s shell_env \<Rightarrow> bool \<Rightarrow> 's shell \<Rightarrow> 's shell \<times> (string + access_grant)" where
  "daemon_access_grant_for_command env force sh =
     (let now = cp_now env (sh_tick sh) in
      case cached_daemon_access_grant env sh of
        Inl e \<Rightarrow> (sh, Err e)
      | Inr (Some g) \<Rightarrow>
          (if \<not> force \<and> is_usable_at g now \<and> \<not> should_refresh_at g now then (sh, Ok g)
           else if \<not> force \<and> is_usable_at g now
           then (case issue_daemon_access_grant env (Some (grant_token g)) sh of
                   (sh1, Inr fresh) \<Rightarrow> (sh1, Ok fresh) | (sh1, Inl _) \<Rightarrow> (sh1, Ok g))
           else issue_daemon_access_grant env None sh)
      | Inr None \<Rightarrow> issue_daemon_access_grant env None sh)"

section \<open>Forwarding\<close>

definition refusal_text :: "ipc_error \<Rightarrow> string" where
  "refusal_text e = ''daemon control-plane request failed: '' @ ie_message e @ '' ('' @ ie_code e @ '')''"

definition payload_from_response :: "wire_response \<Rightarrow> string + json" where
  "payload_from_response r =
     (case r of
        WireOk ok \<Rightarrow> Ok (case ok_payload ok of Some p \<Rightarrow> p | None \<Rightarrow> JNull)
      | WireErr e \<Rightarrow> Err (refusal_text (er_error e)))"

definition forward :: "'s shell_env \<Rightarrow> bool \<Rightarrow> local_ipc_command \<Rightarrow> 's shell \<Rightarrow> 's shell \<times> (string + (client_error + wire_response))" where
  "forward env retried cmd sh =
     (if requires_auth cmd
      then (case daemon_access_grant_for_command env retried sh of
              (sh1, Inl e) \<Rightarrow> (sh1, Err e)
            | (sh1, Inr g) \<Rightarrow>
                (case exchange env (to_wire_request cmd (cp_uuid env (sh_tick sh1)) (Some (auth_context g))) sh1 of
                   (sh2, r) \<Rightarrow> (sh2, Ok r)))
      else (case exchange env (to_wire_request cmd (cp_uuid env (sh_tick sh)) None) sh of (sh1, r) \<Rightarrow> (sh1, Ok r)))"

text \<open>
  The inner loop of one attempt: it ends with the result of the command, or without one when the connection
  failed; a refused grant is replaced once.
\<close>

datatype attempt_result = Finished "string + json" | NotConnected client_error

function attempt :: "'s shell_env \<Rightarrow> bool \<Rightarrow> local_ipc_command \<Rightarrow> 's shell \<Rightarrow> 's shell \<times> attempt_result" where
  "attempt env retried cmd sh =
     (case forward env retried cmd sh of
        (sh1, Inl e) \<Rightarrow> (sh1, Finished (Err e))
      | (sh1, Inr (Inl e)) \<Rightarrow> (sh1, NotConnected e)
      | (sh1, Inr (Inr (WireOk ok))) \<Rightarrow> (sh1, Finished (payload_from_response (WireOk ok)))
      | (sh1, Inr (Inr (WireErr e))) \<Rightarrow>
          (if requires_auth cmd \<and> ie_code (er_error e) = ''unauthorized'' \<and> \<not> retried
           then (case clear_cached_daemon_access_grant env sh1 of
                   (sh2, Inl t) \<Rightarrow> (sh2, Finished (Err t))
                 | (sh2, Inr _) \<Rightarrow> attempt env True cmd sh2)
           else (sh1, Finished (Err (refusal_text (er_error e))))))"
  by pat_completeness auto
termination
  by (relation "measure (\<lambda>(env, retried, cmd, sh). if retried then 0 else 1)") auto

declare attempt.simps [simp del]

fun attempts ::
    "'s shell_env \<Rightarrow> local_ipc_command \<Rightarrow> nat \<Rightarrow> u64 list \<Rightarrow> client_error option \<Rightarrow> 's shell \<Rightarrow> 's shell \<times> (string + json)" where
  "attempts env cmd n [] err sh =
     (sh, Err (''daemon control-plane connect failed after '' @ show_nat n @ '' attempt(s): '' @
               (case err of Some e \<Rightarrow> cp_client_text env e | None \<Rightarrow> ''unknown local IPC error'')))"
| "attempts env cmd n (delay # delays) err sh =
     (case attempt env False cmd sh of
        (sh1, Finished r) \<Rightarrow> (sh1, r)
      | (sh1, NotConnected e) \<Rightarrow> attempts env cmd n delays (Some e) sh1)"

definition proxy_command_payload_with_retries ::
    "'s shell_env \<Rightarrow> local_ipc_command \<Rightarrow> u64 list \<Rightarrow> 's shell \<Rightarrow> 's shell \<times> (string + json option)" where
  "proxy_command_payload_with_retries env cmd delays sh =
     (if \<not> should_proxy_via_daemon env sh then (sh, Ok None)
      else case cp_config_dir env of
        Inl e \<Rightarrow> (sh, Err e)
      | Inr _ \<Rightarrow>
          (case attempts env cmd (length delays) delays None sh of
             (sh1, Inl e) \<Rightarrow> (sh1, Err e) | (sh1, Inr p) \<Rightarrow> (sh1, Ok (Some p))))"

definition parse_payload :: "'s shell_env \<Rightarrow> local_ipc_command \<Rightarrow> json \<Rightarrow> string + local_ipc_response" where
  "parse_payload env cmd p =
     (case cp_de env cmd p of
        None \<Rightarrow> Err (''daemon response payload is invalid: '' @ cp_de_text env p) | Some r \<Rightarrow> Ok r)"

definition parse_payload_field :: "'s shell_env \<Rightarrow> local_ipc_command \<Rightarrow> string \<Rightarrow> json \<Rightarrow> string + local_ipc_response" where
  "parse_payload_field env cmd fld p =
     (case json_get fld p of
        None \<Rightarrow> Err (''daemon response missing payload.'' @ fld)
      | Some v \<Rightarrow>
          (case cp_de env cmd v of
             None \<Rightarrow> Err (''daemon response payload.'' @ fld @ '' is invalid: '' @ cp_de_text env v) | Some r \<Rightarrow> Ok r))"

definition proxy_payload ::
    "'s shell_env \<Rightarrow> u64 list \<Rightarrow> (json \<Rightarrow> string + local_ipc_response) \<Rightarrow> local_ipc_command \<Rightarrow> 's shell \<Rightarrow>
     's shell \<times> (string + local_ipc_response option)" where
  "proxy_payload env delays parse cmd sh =
     (case proxy_command_payload_with_retries env cmd delays sh of
        (sh1, Inl e) \<Rightarrow> (sh1, Err e)
      | (sh1, Inr None) \<Rightarrow> (sh1, Ok None)
      | (sh1, Inr (Some p)) \<Rightarrow> (sh1, case parse p of Inl e \<Rightarrow> Err e | Inr v \<Rightarrow> Ok (Some v)))"

definition proxy_read :: "'s shell_env \<Rightarrow> local_ipc_command \<Rightarrow> string \<Rightarrow> 's shell \<Rightarrow> 's shell \<times> (string + local_ipc_response option)" where
  "proxy_read env cmd fld = proxy_payload env DAEMON_PROXY_READ_RETRY_DELAYS_MS (parse_payload_field env cmd fld) cmd"

definition proxy_write_result ::
    "'s shell_env \<Rightarrow> local_ipc_command \<Rightarrow> string \<Rightarrow> 's shell \<Rightarrow> 's shell \<times> (string + local_ipc_response option)" where
  "proxy_write_result env cmd fld = proxy_payload env DAEMON_PROXY_WRITE_RETRY_DELAYS_MS (parse_payload_field env cmd fld) cmd"

definition proxy_ack :: "'s shell_env \<Rightarrow> local_ipc_command \<Rightarrow> 's shell \<Rightarrow> 's shell \<times> (string + bool)" where
  "proxy_ack env cmd sh =
     (case proxy_command_payload_with_retries env cmd DAEMON_PROXY_WRITE_RETRY_DELAYS_MS sh of
        (sh1, Inl e) \<Rightarrow> (sh1, Err e) | (sh1, Inr p) \<Rightarrow> (sh1, Ok (p \<noteq> None)))"

section \<open>Commands\<close>

text \<open>A command served by the application itself; its errors are shown as text.\<close>

definition run_local ::
    "'s shell_env \<Rightarrow> (service_state \<Rightarrow> service_state \<times> (core_error + local_ipc_response)) \<Rightarrow> 's shell \<Rightarrow>
     's shell \<times> (string + local_ipc_response)" where
  "run_local env f sh =
     (case f (sh_local sh) of
        (s1, r) \<Rightarrow> (sh\<lparr>sh_local := s1\<rparr>, case r of Inl e \<Rightarrow> Err (ce_text (cp_core env) e) | Inr v \<Rightarrow> Ok v))"

definition or_local ::
    "'s shell_env \<Rightarrow> (service_state \<Rightarrow> service_state \<times> (core_error + local_ipc_response)) \<Rightarrow>
     's shell \<times> (string + local_ipc_response option) \<Rightarrow> 's shell \<times> (string + local_ipc_response)" where
  "or_local env f x =
     (case x of
        (sh1, Inl e) \<Rightarrow> (sh1, Err e) | (sh1, Inr (Some v)) \<Rightarrow> (sh1, Ok v) | (sh1, Inr None) \<Rightarrow> run_local env f sh1)"

definition or_local_ack ::
    "'s shell_env \<Rightarrow> (service_state \<Rightarrow> service_state \<times> (core_error + local_ipc_response)) \<Rightarrow>
     's shell \<times> (string + bool) \<Rightarrow> 's shell \<times> (string + local_ipc_response)" where
  "or_local_ack env f x =
     (case x of
        (sh1, Inl e) \<Rightarrow> (sh1, Err e) | (sh1, Inr True) \<Rightarrow> (sh1, Ok Ack) | (sh1, Inr False) \<Rightarrow> run_local env f sh1)"

definition reads :: "(service_state \<Rightarrow> local_ipc_response) \<Rightarrow> service_state \<Rightarrow> service_state \<times> (core_error + local_ipc_response)" where
  "reads f s = (s, Ok (f s))"

definition acks_app ::
    "('e \<Rightarrow> core_error) \<Rightarrow> (app_state \<Rightarrow> app_state \<times> ('e + unit)) \<Rightarrow> service_state \<Rightarrow> service_state \<times> (core_error + local_ipc_response)" where
  "acks_app g f s = (case f (sv_app s) of (a, r) \<Rightarrow> (s\<lparr>sv_app := a\<rparr>, case r of Inl e \<Rightarrow> Err (g e) | Inr _ \<Rightarrow> Ok Ack))"

type_synonym 's ui_command = "'s shell_env \<Rightarrow> 's shell \<Rightarrow> 's shell \<times> (string + local_ipc_response)"

definition get_devices_cmd :: "'s ui_command" where
  "get_devices_cmd env sh =
     or_local env (reads (\<lambda>s. Devices (map (device_view_of \<circ> snd) (devices (discovery (sv_app s))))))
       (proxy_read env DiscoverList ''devices'' sh)"

definition get_trusted_peers_cmd :: "'s ui_command" where
  "get_trusted_peers_cmd env sh =
     or_local env (reads (\<lambda>s. TrustedPeers (map (trusted_peer_view_of \<circ> snd) (trusted_peers (sv_app s)))))
       (proxy_read env TrustList ''trusted_peers'' sh)"

definition get_pending_incoming_requests_cmd :: "'s ui_command" where
  "get_pending_incoming_requests_cmd env sh =
     or_local env (reads (\<lambda>s. PendingIncomingRequests (get_pending_incoming_requests (sv_app s))))
       (proxy_read env TransferPendingIncoming ''requests'' sh)"

definition get_control_plane_mode :: "'s shell_env \<Rightarrow> 's shell \<Rightarrow> string" where
  "get_control_plane_mode env sh = control_plane_mode_for_app env sh"

definition pair_device_cmd :: "string \<Rightarrow> 's ui_command" where
  "pair_device_cmd fp env sh =
     or_local_ack env (acks_app EService (pair_device (ce_env (cp_core env)) fp)) (proxy_ack env (TrustPair fp) sh)"

definition unpair_device_cmd :: "string \<Rightarrow> 's ui_command" where
  "unpair_device_cmd fp env sh =
     or_local_ack env (acks_app EService (unpair_device (ce_env (cp_core env)) fp)) (proxy_ack env (TrustUnpair fp) sh)"

definition set_trusted_alias_cmd :: "string \<Rightarrow> string option \<Rightarrow> 's ui_command" where
  "set_trusted_alias_cmd fp a env sh =
     or_local_ack env (acks_app EService (set_trusted_alias (ce_env (cp_core env)) fp a)) (proxy_ack env (TrustSetAlias fp a) sh)"

definition confirm_trusted_peer_verification_cmd :: "string \<Rightarrow> trust_verification_method \<Rightarrow> bool \<Rightarrow> 's ui_command" where
  "confirm_trusted_peer_verification_cmd fp m b env sh =
     or_local_ack env (acks_app EService (confirm_trusted_peer_verification (ce_env (cp_core env)) fp m b))
       (proxy_ack env (TrustConfirmVerification fp m b) sh)"

definition send_files_cmd :: "string \<Rightarrow> string list \<Rightarrow> 's ui_command" where
  "send_files_cmd fp ps env sh =
     or_local_ack env (acks_app ESend (send_to_peer (cp_core env) fp ps)) (proxy_ack env (TransferSend fp ps) sh)"

definition connect_by_address_cmd :: "string \<Rightarrow> 's ui_command" where
  "connect_by_address_cmd address env sh =
     or_local env (\<lambda>s. case connect_by_address (cp_core env) address (sv_app s) of
         (a, r) \<Rightarrow> (s\<lparr>sv_app := a\<rparr>, case r of Inl e \<Rightarrow> Err e | Inr x \<Rightarrow> Ok (ConnectByAddress x)))
       (proxy_write_result env (DiscoverConnectByAddress address) ''result'' sh)"

definition accept_transfer_cmd :: "string \<Rightarrow> string \<Rightarrow> 's ui_command" where
  "accept_transfer_cmd tid nid env sh =
     or_local_ack env (acks_app EControl (answer_transfer (\<lambda>st. accept_transfer (CoreService.env_clock (cp_core env)) (env_has_host (cp_core env)) st tid nid)))
       (proxy_ack env (TransferAccept tid nid) sh)"

definition accept_and_pair_transfer_cmd :: "string \<Rightarrow> string \<Rightarrow> string \<Rightarrow> 's ui_command" where
  "accept_and_pair_transfer_cmd tid nid fp env sh =
     (case accept_transfer_cmd tid nid env sh of (sh1, Inl e) \<Rightarrow> (sh1, Err e) | (sh1, Inr _) \<Rightarrow> pair_device_cmd fp env sh1)"

definition reject_transfer_cmd :: "string \<Rightarrow> string \<Rightarrow> 's ui_command" where
  "reject_transfer_cmd tid nid env sh =
     or_local_ack env (acks_app EControl (answer_transfer (\<lambda>st. reject_transfer (CoreService.env_clock (cp_core env)) (env_has_host (cp_core env)) st tid nid)))
       (proxy_ack env (TransferReject tid nid) sh)"

definition cancel_transfer_cmd :: "string \<Rightarrow> 's ui_command" where
  "cancel_transfer_cmd tid env sh =
     or_local_ack env (acks_app id (cancel_transfer (cp_core env) tid)) (proxy_ack env (TransferCancel tid) sh)"

definition cancel_all_transfers_cmd :: "'s ui_command" where
  "cancel_all_transfers_cmd env sh =
     or_local env (\<lambda>s. case cancel_all_transfers (CoreService.env_clock (cp_core env)) (CoreService.env_lock_ok (cp_core env))
           (env_has_host (cp_core env)) (sv_app s) of (a, n) \<Rightarrow> (s\<lparr>sv_app := a\<rparr>, Ok (CancelledTransfers n)))
       (proxy_write_result env TransferCancelAll ''count'' sh)"

definition retry_transfer_cmd :: "string \<Rightarrow> 's ui_command" where
  "retry_transfer_cmd tid env sh =
     or_local_ack env (acks_app id (retry_transfer (cp_core env) tid)) (proxy_ack env (TransferRetry tid) sh)"

definition get_app_config_cmd :: "'s ui_command" where
  "get_app_config_cmd env sh =
     or_local env (reads (\<lambda>s. AppConfig (config (sv_app s)))) (proxy_read env ConfigGet ''config'' sh)"

definition get_local_identity_cmd :: "'s ui_command" where
  "get_local_identity_cmd env sh =
     or_local env (reads (\<lambda>s. LocalIdentity (local_identity_view_of (id_fingerprint (sv_identity s)) (device_name (config (sv_app s)))
         (pi_local_port (sv_process s))))) (proxy_read env AppGetLocalIdentity ''identity'' sh)"

definition get_local_ble_assist_capsule_cmd :: "'s ui_command" where
  "get_local_ble_assist_capsule_cmd env sh =
     or_local env (\<lambda>s. (s, case build_ble_assist_capsule (ce_lib (cp_core env)) (sv_identity s)
           (unix_now_ms (CoreService.env_clock (cp_core env))) of Inl e \<Rightarrow> Err (EBle e) | Inr c \<Rightarrow> Ok (BleAssistCapsule c)))
       (proxy_read env AppGetBleAssistCapsule ''capsule'' sh)"

definition ingest_ble_assist_capsule_cmd :: "ble_capsule \<Rightarrow> string option \<Rightarrow> 's ui_command" where
  "ingest_ble_assist_capsule_cmd c src env sh =
     or_local_ack env (\<lambda>s. case ingest_ble_assist_capsule (cp_core env) c src s of
         (s1, r) \<Rightarrow> (s1, case r of Inl e \<Rightarrow> Err (EBle e) | Inr _ \<Rightarrow> Ok Ack))
       (proxy_ack env (AppIngestBleAssistCapsule c src) sh)"

definition get_transfers_cmd :: "'s ui_command" where
  "get_transfers_cmd env sh =
     or_local env (reads (\<lambda>s. TransfersList (map (transfer_view_of \<circ> snd) (transfers (sv_app s)))))
       (proxy_read env TransferList ''transfers'' sh)"

definition get_transfer_cmd :: "string \<Rightarrow> 's ui_command" where
  "get_transfer_cmd tid env sh =
     or_local env (reads (\<lambda>s. TransferOne (map_option transfer_view_of (map_of (transfers (sv_app s)) tid))))
       (proxy_read env (TransferGet tid) ''transfer'' sh)"

text \<open>A read of the database behind its lock.\<close>

definition locked :: "'s shell_env \<Rightarrow> (app_state \<Rightarrow> core_error + local_ipc_response) \<Rightarrow> service_state \<Rightarrow>
    service_state \<times> (core_error + local_ipc_response)" where
  "locked env f s = (s, if CoreService.env_lock_ok (cp_core env) then f (sv_app s) else Err (EText ''DB lock poisoned''))"

definition get_transfer_history_cmd :: "u32 \<Rightarrow> u32 \<Rightarrow> 's ui_command" where
  "get_transfer_history_cmd limit skip env sh =
     or_local env (locked env (\<lambda>st. case get_history (history_db st) (unat limit) (unat skip) of
         Inl e \<Rightarrow> Err (EHistory e) | Inr ts \<Rightarrow> Ok (HistoryList (map transfer_view_of ts))))
       (proxy_read env (TransferHistory limit skip) ''history'' sh)"

definition get_security_events_cmd :: "u32 \<Rightarrow> u32 \<Rightarrow> 's ui_command" where
  "get_security_events_cmd limit skip env sh =
     or_local env (locked env (\<lambda>st. Ok (SecurityEvents (get_security_events (security_db st) (unat limit) (unat skip)))))
       (proxy_read env (SecurityGetEvents limit skip) ''events'' sh)"

definition get_transfer_metrics_cmd :: "'s ui_command" where
  "get_transfer_metrics_cmd env sh =
     or_local env (locked env (\<lambda>st. case get_transfer_metrics (ce_average (cp_core env)) (history_db st) of
         Inl e \<Rightarrow> Err (EHistory e) | Inr m \<Rightarrow> Ok (TransferMetrics m)))
       (proxy_read env TransferGetMetrics ''metrics'' sh)"

definition get_security_posture_cmd :: "'s ui_command" where
  "get_security_posture_cmd env sh =
     or_local env (reads (\<lambda>s. SecurityPosture (JObj [(''secure_store_available'', JBool (ce_secure_store (cp_core env)))])))
       (proxy_read env SecurityGetPosture ''posture'' sh)"

definition get_runtime_status_cmd :: "'s ui_command" where
  "get_runtime_status_cmd env sh =
     or_local env (reads (\<lambda>s. RuntimeStatus (runtime_status_of (sv_process s) (sv_app s))))
       (proxy_read env AppGetRuntimeStatus ''runtime_status'' sh)"

definition get_runtime_events_cmd :: "u64 \<Rightarrow> u32 \<Rightarrow> 's ui_command" where
  "get_runtime_events_cmd after_seq limit env sh =
     or_local env (\<lambda>s. case runtime_events_since (ce_feed_db_ok (cp_core env)) (unix_now_ms (CoreService.env_clock (cp_core env)))
           after_seq (unat limit) (sv_feed s) of (fd, x) \<Rightarrow> (s\<lparr>sv_feed := fd\<rparr>, Ok (RuntimeEvents x)))
       (proxy_payload env DAEMON_PROXY_READ_RETRY_DELAYS_MS (parse_payload env (AppGetEventFeed after_seq limit))
          (AppGetEventFeed after_seq limit) sh)"

definition get_runtime_event_checkpoint_cmd :: "string \<Rightarrow> 's ui_command" where
  "get_runtime_event_checkpoint_cmd cid env sh =
     or_local env (\<lambda>s. case runtime_event_checkpoint (ce_feed_db_ok (cp_core env)) (unix_now_ms (CoreService.env_clock (cp_core env)))
           cid (sv_feed s) of
         (fd, r) \<Rightarrow> (s\<lparr>sv_feed := fd\<rparr>, case r of Inl e \<Rightarrow> Err (EFeed e) | Inr c \<Rightarrow> Ok (RuntimeEventCheckpoint c)))
       (proxy_read env (AppGetEventCheckpoint cid) ''checkpoint'' sh)"

text \<open>The command answers \<^verbatim>\<open>true\<close>, which stands for an acknowledgement here.\<close>

definition set_runtime_event_checkpoint_cmd :: "string \<Rightarrow> string \<Rightarrow> u64 \<Rightarrow> 's ui_command" where
  "set_runtime_event_checkpoint_cmd cid g q env sh =
     or_local_ack env (\<lambda>s. case save_runtime_event_checkpoint (ce_feed_db_ok (cp_core env)) (unix_now_ms (CoreService.env_clock (cp_core env)))
           cid g q (sv_feed s) of
         (fd, r) \<Rightarrow> (s\<lparr>sv_feed := fd\<rparr>, case r of Inl e \<Rightarrow> Err (EFeed e) | Inr _ \<Rightarrow> Ok Ack))
       (proxy_ack env (AppSetEventCheckpoint cid g q) sh)"

definition get_discovery_diagnostics_cmd :: "'s ui_command" where
  "get_discovery_diagnostics_cmd env sh =
     or_local env (\<lambda>s. let s1 = collect_diagnostics (cp_core env) s in (s1, Ok (DiscoveryDiagnostics (ce_report (cp_core env) s1))))
       (proxy_read env AppGetDiscoveryDiagnostics ''diagnostics'' sh)"

definition config_of :: "local_ipc_response \<Rightarrow> app_config" where
  "config_of r = (case r of AppConfig c \<Rightarrow> c | _ \<Rightarrow> default_app_config)"

definition set_config_local :: "'s shell_env \<Rightarrow> app_config \<Rightarrow> service_state \<Rightarrow> service_state \<times> (core_error + local_ipc_response)" where
  "set_config_local env cfg s =
     (case apply_config (cp_core env) cfg s of (s1, r) \<Rightarrow> (s1, case r of Inl e \<Rightarrow> Err (EService e) | Inr _ \<Rightarrow> Ok Ack))"

text \<open>
  The configuration: after it is stored, the registration for launch at login is updated (\<open>sync\<close>), and when that
  fails the previous configuration is put back.  An error while it is put back through the daemon is
  returned in place of the error of the registration.
\<close>

definition set_app_config_cmd :: "(bool \<Rightarrow> string + unit) \<Rightarrow> app_config \<Rightarrow> 's ui_command" where
  "set_app_config_cmd sync cfg env sh =
     (case get_app_config_cmd env sh of
        (sh1, Inl e) \<Rightarrow> (sh1, Err e)
      | (sh1, Inr r) \<Rightarrow>
          (let previous = config_of r;
               finish = (\<lambda>persisted sh2.
                 if launch_at_login previous = launch_at_login cfg then (sh2, Ok Ack)
                 else case sync (launch_at_login cfg) of
                   Inr _ \<Rightarrow> (sh2, Ok Ack)
                 | Inl e \<Rightarrow>
                     (let failed = Err (''failed to update launch-at-login registration: '' @ e) in
                      if persisted
                      then (case proxy_ack env (ConfigSet previous) sh2 of
                              (sh3, Inl e2) \<Rightarrow> (sh3, Err e2) | (sh3, Inr _) \<Rightarrow> (sh3, failed))
                      else (fst (run_local env (set_config_local env previous) sh2), failed)))
           in case proxy_ack env (ConfigSet cfg) sh1 of
                (sh2, Inl e) \<Rightarrow> (sh2, Err e)
              | (sh2, Inr True) \<Rightarrow> finish True sh2
              | (sh2, Inr False) \<Rightarrow>
                  (case run_local env (set_config_local env cfg) sh2 of
                     (sh3, Inl e) \<Rightarrow> (sh3, Err e) | (sh3, Inr _) \<Rightarrow> finish False sh3)))"

text \<open>The directory whose content is shown for a transfer.\<close>

definition open_transfer_folder_path :: "string \<Rightarrow> string option \<Rightarrow> string option \<Rightarrow> 's shell_env \<Rightarrow> 's shell \<Rightarrow> 's shell \<times> (string + string)" where
  "open_transfer_folder_path tid host_dir home env sh =
     (case get_app_config_cmd env sh of
        (sh1, Inl e) \<Rightarrow> (sh1, Err e)
      | (sh1, Inr r) \<Rightarrow>
          (let base = (case download_dir (config_of r) of
                 Some d \<Rightarrow> d
               | None \<Rightarrow> (case host_dir of Some d \<Rightarrow> d
                   | None \<Rightarrow> path_join (case home of Some h \<Rightarrow> h | None \<Rightarrow> ''/tmp'') ''Downloads''))
           in (sh1, Ok (path_join (path_join base ''DashDrop'') tid))))"

text \<open>The command of the user interface behind each command of the protocol that has one and no further effect.\<close>

definition invoke :: "local_ipc_command \<Rightarrow> 's ui_command option" where
  "invoke cmd =
     (case cmd of
        DiscoverList \<Rightarrow> Some get_devices_cmd | DiscoverConnectByAddress a \<Rightarrow> Some (connect_by_address_cmd a)
      | TrustList \<Rightarrow> Some get_trusted_peers_cmd | TrustPair fp \<Rightarrow> Some (pair_device_cmd fp)
      | TrustUnpair fp \<Rightarrow> Some (unpair_device_cmd fp) | TrustSetAlias fp a \<Rightarrow> Some (set_trusted_alias_cmd fp a)
      | TrustConfirmVerification fp m b \<Rightarrow> Some (confirm_trusted_peer_verification_cmd fp m b)
      | ConfigGet \<Rightarrow> Some get_app_config_cmd | TransferSend fp ps \<Rightarrow> Some (send_files_cmd fp ps)
      | TransferAccept t n \<Rightarrow> Some (accept_transfer_cmd t n) | TransferReject t n \<Rightarrow> Some (reject_transfer_cmd t n)
      | TransferCancel t \<Rightarrow> Some (cancel_transfer_cmd t) | TransferCancelAll \<Rightarrow> Some cancel_all_transfers_cmd
      | TransferRetry t \<Rightarrow> Some (retry_transfer_cmd t) | TransferList \<Rightarrow> Some get_transfers_cmd
      | TransferGet t \<Rightarrow> Some (get_transfer_cmd t) | TransferHistory l p \<Rightarrow> Some (get_transfer_history_cmd l p)
      | TransferPendingIncoming \<Rightarrow> Some get_pending_incoming_requests_cmd
      | AppGetLocalIdentity \<Rightarrow> Some get_local_identity_cmd
      | AppGetBleAssistCapsule \<Rightarrow> Some get_local_ble_assist_capsule_cmd
      | AppIngestBleAssistCapsule c src \<Rightarrow> Some (ingest_ble_assist_capsule_cmd c src)
      | AppGetRuntimeStatus \<Rightarrow> Some get_runtime_status_cmd
      | AppGetDiscoveryDiagnostics \<Rightarrow> Some get_discovery_diagnostics_cmd
      | AppGetEventCheckpoint c \<Rightarrow> Some (get_runtime_event_checkpoint_cmd c)
      | AppGetEventFeed a l \<Rightarrow> Some (get_runtime_events_cmd a l)
      | AppSetEventCheckpoint c g q \<Rightarrow> Some (set_runtime_event_checkpoint_cmd c g q)
      | SecurityGetEvents l p \<Rightarrow> Some (get_security_events_cmd l p) | TransferGetMetrics \<Rightarrow> Some get_transfer_metrics_cmd
      | SecurityGetPosture \<Rightarrow> Some get_security_posture_cmd
      | _ \<Rightarrow> None)"

text \<open>
  What the service answers to a command: the response, or the error of the command as text; and what the
  user interface shows of the outcome, with \<open>f\<close> the text of an error.
\<close>

definition wire_answer :: "ipc_codec \<Rightarrow> core_env \<Rightarrow> string \<Rightarrow> core_error + local_ipc_response \<Rightarrow> wire_response" where
  "wire_answer C E rid out =
     (case out of
        Inr r \<Rightarrow> into_wire_response (ser_response C) r rid LOCAL_IPC_PROTO_VERSION
      | Inl e \<Rightarrow> wire_error_response rid LOCAL_IPC_PROTO_VERSION (dispatch_failed (ce_text E e)))"

definition shown :: "(core_error \<Rightarrow> string) \<Rightarrow> core_error + local_ipc_response \<Rightarrow> string + local_ipc_response" where
  "shown f out = (case out of Inr v \<Rightarrow> Ok v | Inl e \<Rightarrow> Err (f e))"

definition forwarded_error :: "core_env \<Rightarrow> core_error \<Rightarrow> string" where
  "forwarded_error E e = refusal_text (dispatch_failed (ce_text E e))"

text \<open>The state of a service after it checked a token: the tokens that have expired are gone.\<close>

definition token_checked :: "core_env \<Rightarrow> service_state \<Rightarrow> service_state" where
  "token_checked E s = s\<lparr>sv_app := (sv_app s)\<lparr>access_tokens := retain_live (unix_now_ms (CoreService.env_clock E)) (access_tokens (sv_app s))\<rparr>\<rparr>"

text \<open>
  A shell in daemon mode with a grant that needs no renewal, and a daemon with its own environment \<open>E\<close> that
  runs for the same user \<open>uid\<close>, whose socket reports the peer \<open>p\<close>, that reads what the shell writes, has its answer
  read by the shell, and holds the grant's token, not yet expired.
\<close>

definition daemon_ready ::
    "service_state shell_env \<Rightarrow> service_state shell \<Rightarrow> ipc_codec \<Rightarrow> core_env \<Rightarrow> peer_identity \<Rightarrow> nat \<Rightarrow> local_ipc_command \<Rightarrow>
     core_error + local_ipc_response \<Rightarrow> access_grant \<Rightarrow> bool" where
  "daemon_ready env sh C E p uid cmd out g \<longleftrightarrow>
     should_proxy_via_daemon env sh \<and> cp_config_dir env = Ok () \<and> daemon_ipc_auth_state env = Ok () \<and>
     sh_cached sh = Some g \<and> is_usable_at g (cp_now env (sh_tick sh)) \<and> \<not> should_refresh_at g (cp_now env (sh_tick sh)) \<and>
     cp_link env (sh_tick sh) = service_link C E (Some p) uid \<and> peer_uid p = uid \<and>
     codecs_agree (cp_codec env) C (to_wire_request cmd (cp_uuid env (sh_tick sh)) (Some (auth_context g)))
       (wire_answer C E (cp_uuid env (sh_tick sh)) out) \<and>
     non_blank (Some (grant_token g)) = Some (grant_token g) \<and>
     token_status (unix_now_ms (CoreService.env_clock E)) (access_tokens (sv_app (sh_daemon sh))) (grant_token g) = Ok ()"

definition text_result :: "core_env \<Rightarrow> (core_error + local_ipc_response) run \<Rightarrow> string + local_ipc_response" where
  "text_result E r = (case r of Returns (Inr v) \<Rightarrow> Ok v | Returns (Inl e) \<Rightarrow> Err (ce_text E e) | Panics \<Rightarrow> Err [])"

text \<open>An exchange of the command that may have had an effect: it was not answered with a refusal of the token.\<close>

definition refused :: "client_error + wire_response \<Rightarrow> bool" where
  "refused x = (case x of Inr (WireErr e) \<Rightarrow> ie_code (er_error e) = ''unauthorized'' | _ \<Rightarrow> False)"

definition acted :: "local_ipc_command \<Rightarrow> wire_request \<times> (client_error + wire_response) \<Rightarrow> bool" where
  "acted cmd x = (rq_command (fst x) = command_name cmd \<and> \<not> refused (snd x))"

definition extends :: "local_ipc_command \<Rightarrow> nat \<Rightarrow> nat \<Rightarrow> 's shell \<Rightarrow> 's shell \<Rightarrow> bool" where
  "extends cmd n k sh sh' \<longleftrightarrow>
     (\<exists>log. sh_exchanges sh' = sh_exchanges sh @ log \<and> length log \<le> n \<and> length (filter (acted cmd) log) \<le> k)"

text \<open>Concrete inputs: reading the configuration, here and through the daemon.\<close>

definition sample_grant :: access_grant where
  "sample_grant = \<lparr>expires_at_unix_ms = 900000, refresh_after_unix_ms = 500000, grant_token = ''tok''\<rparr>"

definition config_request :: wire_request where
  "config_request = to_wire_request ConfigGet ''a'' (Some (auth_context sample_grant))"

definition config_codec :: ipc_codec where
  "config_codec = \<lparr>dec_request = (\<lambda>_. Some config_request), enc_response = (\<lambda>_. Some [7]), dec_error_text = (\<lambda>_. ''bad''),
     ser_response = (\<lambda>_. JNull), de_error_text = (\<lambda>_ _. ''bad'')\<rparr>"

definition sample_shell :: "string \<Rightarrow> service_state shell" where
  "sample_shell mode = \<lparr>sh_local = sample_state\<lparr>sv_process := initial_process_info\<lparr>pi_control_plane_mode := mode\<rparr>\<rparr>,
     sh_daemon = sample_state\<lparr>sv_process := initial_process_info\<rparr>, sh_cached = Some sample_grant, sh_tick = 0, sh_exchanges = []\<rparr>"

text \<open>The daemon runs without a window, so no event of a command reaches one there.\<close>

definition sample_daemon_env :: core_env where
  "sample_daemon_env = sample_core_env\<lparr>ce_env := (ce_env sample_core_env)\<lparr>se_has_host := False\<rparr>\<rparr>"

definition sample_shell_env :: "service_state shell_env" where
  "sample_shell_env = \<lparr>cp_core = sample_core_env, cp_env_mode = None, cp_has_state = True, cp_has_auth = True, cp_cache_lock_ok = True,
     cp_config_dir = Ok (), cp_link = (\<lambda>_. service_link config_codec sample_daemon_env (Some \<lparr>peer_uid = 7, peer_pid = None\<rparr>) 7), cp_now = (\<lambda>_. 100000), cp_uuid = (\<lambda>_. ''a''),
     cp_codec = \<lparr>enc_request = (\<lambda>_. Some [1]),
       dec_response = (\<lambda>_. Some (into_wire_response (\<lambda>_. JNull) (AppConfig (config (sv_app sample_state))) ''a'' LOCAL_IPC_PROTO_VERSION)),
       dec_legacy = (\<lambda>_. None), cl_ser = (\<lambda>_. JNull)\<rparr>,
     cp_client_text = (\<lambda>_. ''e''), cp_de = (\<lambda>_ _. Some (AppConfig (config (sv_app sample_state)))), cp_de_text = (\<lambda>_. ''bad'')\<rparr>"


section \<open>Facts\<close>

lemma not_proxied:
  assumes "\<not> should_proxy_via_daemon env sh"
  shows "proxy_command_payload_with_retries env cmd ds sh = (sh, Ok None)" "proxy_payload env ds parse cmd sh = (sh, Ok None)"
    "proxy_read env cmd fld sh = (sh, Ok None)" "proxy_write_result env cmd fld sh = (sh, Ok None)"
    "proxy_ack env cmd sh = (sh, Ok False)"
  using assms by (simp_all add: proxy_command_payload_with_retries_def proxy_payload_def proxy_read_def proxy_write_result_def proxy_ack_def)

text \<open>In the application itself, a command of the user interface is the dispatch of its protocol command.\<close>

lemmas command_defs = get_devices_cmd_def connect_by_address_cmd_def get_trusted_peers_cmd_def pair_device_cmd_def
  unpair_device_cmd_def set_trusted_alias_cmd_def confirm_trusted_peer_verification_cmd_def get_app_config_cmd_def
  send_files_cmd_def accept_transfer_cmd_def reject_transfer_cmd_def cancel_transfer_cmd_def cancel_all_transfers_cmd_def
  retry_transfer_cmd_def get_transfers_cmd_def get_transfer_cmd_def get_transfer_history_cmd_def
  get_pending_incoming_requests_cmd_def get_local_identity_cmd_def get_local_ble_assist_capsule_cmd_def
  ingest_ble_assist_capsule_cmd_def get_runtime_status_cmd_def get_discovery_diagnostics_cmd_def
  get_runtime_event_checkpoint_cmd_def get_runtime_events_cmd_def set_runtime_event_checkpoint_cmd_def
  get_security_events_cmd_def get_transfer_metrics_cmd_def get_security_posture_cmd_def

lemma in_process_dispatch:
  assumes "\<not> should_proxy_via_daemon env sh" "invoke cmd = Some c"
  shows "c env sh = (sh\<lparr>sh_local := fst (CoreService.dispatch (cp_core env) cmd (sh_local sh))\<rparr>,
      text_result (cp_core env) (snd (CoreService.dispatch (cp_core env) cmd (sh_local sh))))"
  using assms(2)
  by (cases cmd)
    (auto simp: invoke_def command_defs not_proxied [OF assms(1)] or_local_def or_local_ack_def run_local_def reads_def acks_app_def
      CoreService.dispatch_def Let_def text_result_def map_result_def acked_def replied_def CoreService.on_app_def on_feed_def
      with_db_def history_response_def metrics_response_def locked_def issue_grant_def
      split: prod.split sum.split)

text \<open>A request with the token is dispatched, and its exchange gives the response.\<close>

lemma request_dispatched:
  assumes ready: "daemon_ready env sh C E p uid cmd out g" and auth: "requires_auth cmd" "command_typed cmd" "accepts_on_endpoint cmd Service"
    and disp: "CoreService.dispatch E cmd (token_checked E (sh_daemon sh)) = (s2, Returns out)"
  shows "dispatch_request (ser_response C) (de_error_text C) E Service (Some p) uid
      (to_wire_request cmd rid (Some (auth_context g))) (sh_daemon sh) = (s2, Returns (wire_answer C E rid out))"
proof -
  let ?rq = "to_wire_request cmd rid (Some (auth_context g))" and ?s = "sh_daemon sh"
  have "from_wire_request (de_error_text C) ?rq = Ok cmd"
    using from_name_payload [OF auth(2)] by (simp add: from_wire_request_def to_wire_request_def)
  then have eq: "dispatch_request (ser_response C) (de_error_text C) E Service (Some p) uid ?rq ?s = run_command_for (ser_response C) E Service ?rq cmd ?s"
    using ready by (simp add: dispatch_request_def daemon_ready_def Let_def)
  have "check_token E (Some (grant_token g)) ?s = (token_checked E ?s, Ok ())"
    using ready by (simp add: check_token_def CoreService.on_app_def validate_local_ipc_access_token_def daemon_ready_def token_checked_def)
  moreover have "cmd \<noteq> AuthIssue" "cmd \<noteq> AuthRevoke"
    using auth(1) by (auto simp: requires_auth_def command_class_of_def)
  ultimately show ?thesis
    using auth disp unfolding eq
    by (simp add: run_command_for_def request_token_def to_wire_request_def auth_context_def auth_with_def Let_def run_dispatch_def
        map_result_def wire_answer_def split: sum.split)
qed

lemma forwarded_payload:
  assumes ready: "daemon_ready env sh C E p uid cmd out g" and auth: "requires_auth cmd" "command_typed cmd" "accepts_on_endpoint cmd Service"
    and disp: "CoreService.dispatch E cmd (token_checked E (sh_daemon sh)) = (s2, Returns out)"
  shows "\<exists>sh1. proxy_command_payload_with_retries env cmd (d # ds) sh =
      (sh1, case out of
         Inr r \<Rightarrow> Ok (Some (case response_payload (ser_response C) r of Some p \<Rightarrow> p | None \<Rightarrow> JNull))
       | Inl e \<Rightarrow> Err (forwarded_error E e)) \<and> sh_daemon sh1 = s2 \<and> sh_local sh1 = sh_local sh"
proof -
  let ?rid = "cp_uuid env (sh_tick sh)"
  let ?rq = "to_wire_request cmd ?rid (Some (auth_context g))"
  let ?resp = "wire_answer C E ?rid out"
  have "send_envelope (cp_codec env) (cp_link env (sh_tick sh)) ?rq (sh_daemon sh) = (s2, Ok ?resp)"
    using send_to_service [OF _ _ request_dispatched [OF ready auth disp], of "cp_codec env" ?rid] ready
    by (simp add: daemon_ready_def to_wire_request_def)
  then have ex: "exchange env ?rq sh =
      (sh\<lparr>sh_daemon := s2, sh_tick := sh_tick sh + 1, sh_exchanges := sh_exchanges sh @ [(?rq, Ok ?resp)]\<rparr>, Ok ?resp)"
    by (simp add: exchange_def)
  have "daemon_access_grant_for_command env False sh = (sh, Ok g)"
    using ready by (simp add: daemon_access_grant_for_command_def cached_daemon_access_grant_def daemon_ready_def Let_def)
  then have "\<exists>sh1. attempt env False cmd sh =
      (sh1, Finished (case out of Inr r \<Rightarrow> Ok (case response_payload (ser_response C) r of Some p \<Rightarrow> p | None \<Rightarrow> JNull)
         | Inl e \<Rightarrow> Err (forwarded_error E e))) \<and> sh_daemon sh1 = s2 \<and> sh_local sh1 = sh_local sh"
    by (subst attempt.simps)
      (auto simp: forward_def auth ex wire_answer_def into_wire_response_def wire_error_response_def dispatch_failed_def
        forwarded_error_def payload_from_response_def split: sum.split)
  then show ?thesis using ready
    by (auto simp: proxy_command_payload_with_retries_def daemon_ready_def split: sum.split)
qed

text \<open>The commands that are forwarded, the field their response is in, and the response itself.\<close>

lemma invoked_auth:
  "invoke cmd = Some c \<Longrightarrow> requires_auth cmd \<and> accepts_on_endpoint cmd Service"
  by (cases cmd) (simp_all add: invoke_def requires_auth_def accepts_on_endpoint_def endpoint_kind_of_def command_class_of_def)

lemma forwarded_result:
  assumes ready: "daemon_ready env sh C E p uid cmd out g" and inv: "invoke cmd = Some c" and typed: "command_typed cmd"
    and disp: "CoreService.dispatch E cmd (token_checked E (sh_daemon sh)) = (s2, Returns out)"
    and de: "\<forall>r. out = Ok r \<longrightarrow> cp_de env cmd (ser_response C r) = Some r"
  shows "\<exists>sh1. c env sh = (sh1, shown (forwarded_error E) out) \<and> sh_daemon sh1 = s2 \<and> sh_local sh1 = sh_local sh"
proof -
  define pay where "pay = (case out of
         Inr r \<Rightarrow> Ok (Some (case response_payload (ser_response C) r of Some p \<Rightarrow> p | None \<Rightarrow> JNull))
       | Inl e \<Rightarrow> Err (forwarded_error E e))"
  have fw: "\<exists>sh1. proxy_command_payload_with_retries env cmd delays sh = (sh1, pay) \<and> sh_daemon sh1 = s2 \<and> sh_local sh1 = sh_local sh"
    if "delays \<noteq> []" for delays
    using forwarded_payload [OF ready _ typed _ disp] invoked_auth [OF inv] that by (cases delays) (auto simp: pay_def)
  obtain shr where rd: "proxy_command_payload_with_retries env cmd DAEMON_PROXY_READ_RETRY_DELAYS_MS sh = (shr, pay)"
      "sh_daemon shr = s2" "sh_local shr = sh_local sh"
    using fw [of DAEMON_PROXY_READ_RETRY_DELAYS_MS] by (auto simp: DAEMON_PROXY_READ_RETRY_DELAYS_MS_def)
  obtain shw where wr: "proxy_command_payload_with_retries env cmd DAEMON_PROXY_WRITE_RETRY_DELAYS_MS sh = (shw, pay)"
      "sh_daemon shw = s2" "sh_local shw = sh_local sh"
    using fw [of DAEMON_PROXY_WRITE_RETRY_DELAYS_MS] by (auto simp: DAEMON_PROXY_WRITE_RETRY_DELAYS_MS_def)
  note defs = invoke_def command_defs or_local_def or_local_ack_def proxy_read_def proxy_write_result_def proxy_ack_def
    proxy_payload_def
  show ?thesis
  proof (cases out)
    case (Inl e)
    then have "pay = Err (forwarded_error E e)" by (simp add: pay_def)
    then show ?thesis using inv rd wr Inl by (cases cmd) (auto simp: defs shown_def)
  next
    case (Inr r)
    have de': "cp_de env cmd (ser_response C r) = Some r" using de Inr by simp
    have p: "pay = Ok (Some (case response_payload (ser_response C) r of Some p \<Rightarrow> p | None \<Rightarrow> JNull))" by (simp add: pay_def Inr)
    have "\<exists>sh1. c env sh = (sh1, Ok r) \<and> sh_daemon sh1 = s2 \<and> sh_local sh1 = sh_local sh"
      using inv disp rd wr de' unfolding p Inr
      by (cases cmd)
        (auto simp: defs parse_payload_field_def parse_payload_def json_get_def response_payload_def response_key_def
          CoreService.dispatch_def Let_def map_result_run with_db_def history_response_def metrics_response_def
          dest!: acked_ok replied_ok split: if_splits sum.splits)
    then show ?thesis by (simp add: shown_def Inr)
  qed
qed

subsection \<open>The exchanges of a forwarded command\<close>

lemma extends_refl [simp]: "extends cmd n k sh sh"
  by (simp add: extends_def)

lemma extends_trans: "extends cmd n k a b \<Longrightarrow> extends cmd m l b c \<Longrightarrow> n + m \<le> n' \<Longrightarrow> k + l \<le> k' \<Longrightarrow> extends cmd n' k' a c"
  unfolding extends_def by (elim exE conjE) (rule exI, auto)

lemma extends_mono: "extends cmd n k a b \<Longrightarrow> n \<le> n' \<Longrightarrow> k \<le> k' \<Longrightarrow> extends cmd n' k' a b"
  by (auto simp: extends_def intro: order_trans)

lemma exchange_extends:
  "exchange env rq sh = (sh1, x) \<Longrightarrow> extends cmd 1 (if acted cmd (rq, x) then 1 else 0) sh sh1"
  by (auto simp: exchange_def extends_def split: prod.splits)

lemma cached_extends: "set_cached_daemon_access_grant env g sh1 = (sh2, r) \<Longrightarrow> sh_exchanges sh2 = sh_exchanges sh1"
  by (auto simp: set_cached_daemon_access_grant_def split: sum.splits)

lemma auth_name: "requires_auth cmd \<Longrightarrow> command_name cmd \<noteq> ''auth/issue''"
  by (cases cmd) (simp_all add: requires_auth_def command_class_of_def)

lemma issue_extends:
  assumes "requires_auth cmd" shows "extends cmd 1 0 sh (fst (issue_daemon_access_grant env current sh))"
proof (cases "cp_config_dir env")
  case (Inr u)
  let ?rq = "to_wire_request AuthIssue (cp_uuid env (sh_tick sh)) (map_option auth_with current)"
  obtain sh1 x where ex: "exchange env ?rq sh = (sh1, x)" by fastforce
  have "\<not> acted cmd (?rq, x)" using auth_name [OF assms] by (auto simp: acted_def to_wire_request_def)
  then have e: "extends cmd 1 0 sh sh1" using exchange_extends [OF ex, of cmd] by simp
  have "sh_exchanges (fst (issue_daemon_access_grant env current sh)) = sh_exchanges sh1"
    using Inr ex by (auto simp: issue_daemon_access_grant_def dest: cached_extends split: sum.splits prod.splits)
  then show ?thesis using e by (simp add: extends_def)
qed (simp add: issue_daemon_access_grant_def)

lemma grant_extends:
  assumes "requires_auth cmd" shows "extends cmd 1 0 sh (fst (daemon_access_grant_for_command env force sh))"
  using issue_extends [OF assms, of sh env]
  by (auto simp: daemon_access_grant_for_command_def Let_def split: sum.split option.split prod.split) (metis fst_conv)+

lemma forward_extends:
  assumes "forward env retried cmd sh = (sh1, r)" "requires_auth cmd"
  shows "extends cmd 2 (case r of Inr x \<Rightarrow> if refused x then 0 else 1 | Inl _ \<Rightarrow> 0) sh sh1"
proof -
  obtain sh2 g where gr: "daemon_access_grant_for_command env retried sh = (sh2, g)" by fastforce
  then have e: "extends cmd 1 0 sh sh2" using grant_extends [OF assms(2), of sh env retried] by simp
  show ?thesis
  proof (cases g)
    case (Inl t)
    then show ?thesis using assms gr e by (auto simp: forward_def intro: extends_mono)
  next
    case (Inr a)
    let ?rq = "to_wire_request cmd (cp_uuid env (sh_tick sh2)) (Some (auth_context a))"
    obtain x where ex: "exchange env ?rq sh2 = (sh1, x)" "r = Inr x"
      using assms gr Inr by (auto simp: forward_def split: prod.splits)
    have "acted cmd (?rq, x) = (\<not> refused x)" by (simp add: acted_def to_wire_request_def)
    with exchange_extends [OF ex(1), of cmd] e show ?thesis
      by (auto simp: ex(2) intro: extends_trans [where n = 1 and m = 1])
  qed
qed

lemma attempt_stops:
  assumes "forward env retried cmd sh = (sh1, r)"
    and "\<nexists>e. r = Inr (Inr (WireErr e)) \<and> ie_code (er_error e) = ''unauthorized'' \<and> \<not> retried"
  shows "fst (attempt env retried cmd sh) = sh1"
  using assms by (subst attempt.simps) (auto split: sum.split wire_response.split)

lemma attempt_extends:
  "requires_auth cmd \<Longrightarrow> extends cmd (if retried then 2 else 4) 1 sh (fst (attempt env retried cmd sh))"
proof (induction env retried cmd sh rule: attempt.induct)
  case (1 env retried cmd sh)
  obtain sh1 r where fw: "forward env retried cmd sh = (sh1, r)" by fastforce
  note ext = forward_extends [OF fw 1(2)]
  consider (again) e where "r = Inr (Inr (WireErr e))" "ie_code (er_error e) = ''unauthorized''" "\<not> retried"
    | (stop) "fst (attempt env retried cmd sh) = sh1"
    using attempt_stops [OF fw] by blast
  then show ?case
  proof cases
    case stop
    then show ?thesis using ext by (auto intro: extends_mono split: sum.splits if_splits)
  next
    case again
    then have e1: "extends cmd 2 0 sh sh1" using ext by (simp add: refused_def)
    obtain sh2 c where cl: "clear_cached_daemon_access_grant env sh1 = (sh2, c)" by fastforce
    then have e2: "extends cmd 0 0 sh1 sh2" by (auto simp: clear_cached_daemon_access_grant_def extends_def dest: cached_extends)
    have e: "extends cmd 2 0 sh sh2" using e1 e2 by (rule extends_trans) simp_all
    show ?thesis
    proof (cases c)
      case (Inl t)
      then show ?thesis using fw again cl e 1(2) by (subst attempt.simps) (auto intro: extends_mono)
    next
      case (Inr u)
      have "extends cmd 2 1 sh2 (fst (attempt env True cmd sh2))"
        using 1 fw again cl Inr by fastforce
      then have "extends cmd 4 1 sh (fst (attempt env True cmd sh2))" using e by (auto intro: extends_trans)
      then show ?thesis using fw again cl Inr 1(2) by (subst attempt.simps) auto
    qed
  qed
qed

lemma attempts_extends:
  "requires_auth cmd \<Longrightarrow> extends cmd (4 * length delays) (length delays) sh (fst (attempts env cmd n delays err sh))"
proof (induction delays arbitrary: sh err)
  case (Cons d delays)
  obtain sh1 r where at: "attempt env False cmd sh = (sh1, r)" by fastforce
  then have e: "extends cmd 4 1 sh sh1" using attempt_extends [OF Cons.prems, of False sh env] by simp
  show ?case
  proof (cases r)
    case (Finished x)
    then show ?thesis using at e by (auto intro: extends_mono)
  next
    case (NotConnected y)
    then show ?thesis using at extends_trans [OF e Cons.IH [OF Cons.prems, of sh1 "Some y"]] by simp
  qed
qed simp

section \<open>Properties\<close>

text \<open>
  C19: The two control planes run the same command.  Take one of the commands of the user interface that \<open>invoke\<close>
  lists (all that have a protocol command of their own and no effect besides; storing the configuration,
  accepting with pairing and showing a folder are made of several).  In process, it is the dispatch of its
  protocol command on the application's state and in the application's environment (a send it starts counted
  in); the outcome is returned, an error as its text.  In daemon mode it is the dispatch of the same protocol command on the daemon's state, in
  the daemon's own environment, after the daemon dropped the tokens that have expired; the same outcome is
  returned, an error as the text of the refusal that carries it, and the application's own state is left alone.
  The second part needs a grant that is neither expired nor due for renewal and whose token the daemon holds, a
  socket that reports the daemon's own user as the peer, a request and an answer that fit into a frame and that
  the other end reads as written, and a response that the shell reads back from its serialisation.  The
  daemon's environment may differ from the application's: a daemon has no window to send events to.
\<close>
theorem control_plane_transparent:
  assumes "invoke cmd = Some c" and "command_typed cmd"
    and "\<not> should_proxy_via_daemon env sh" and "CoreService.dispatch (cp_core env) cmd (sh_local sh) = (s1, Returns out1)"
    and "daemon_ready env' sh' C E p uid cmd out2 g"
    and "CoreService.dispatch E cmd (token_checked E (sh_daemon sh')) = (s2, Returns out2)"
    and "\<forall>r. out2 = Ok r \<longrightarrow> cp_de env' cmd (ser_response C r) = Some r"
  shows "c env sh = (sh\<lparr>sh_local := s1\<rparr>, shown (ce_text (cp_core env)) out1) \<and>
    (\<exists>sh1'. c env' sh' = (sh1', shown (forwarded_error E) out2) \<and> sh_daemon sh1' = s2 \<and> sh_local sh1' = sh_local sh')"
  using in_process_dispatch [OF assms(3,1)] assms(4) forwarded_result [OF assms(5,1,2,6,7)]
  by (simp add: text_result_def shown_def split: sum.split)

theorem control_plane_transparent_witness:
  "get_app_config_cmd sample_shell_env (sample_shell ''in_process'') =
     (sample_shell ''in_process'', Ok (AppConfig (config (sv_app sample_state)))) \<and>
   (\<exists>sh1'. get_app_config_cmd sample_shell_env (sample_shell ''daemon'') = (sh1', Ok (AppConfig (config (sv_app sample_state)))) \<and>
     sh_daemon sh1' = sh_daemon (sample_shell ''daemon'') \<and> sh_local sh1' = sh_local (sample_shell ''daemon''))"
proof -
  let ?c = "AppConfig (config (sv_app sample_state))" and ?p = "\<lparr>peer_uid = 7, peer_pid = None\<rparr>"
  have modes: "control_plane_mode_from_sources (Some ''daemon'') None = ''daemon''"
      "control_plane_mode_from_sources (Some ''in_process'') None = ''in_process''"
      "trim ''daemon'' \<noteq> ''''" "trim ''in_process'' \<noteq> ''''" "trim ''tok'' \<noteq> ''''" by code_simp+
  have here: "\<not> should_proxy_via_daemon sample_shell_env (sample_shell ''in_process'')"
    and there: "should_proxy_via_daemon sample_shell_env (sample_shell ''daemon'')"
    by (simp_all add: should_proxy_via_daemon_def control_plane_mode_for_app_def sample_shell_env_def sample_shell_def modes
        env_control_plane_mode_def DAEMON_CONTROL_PLANE_MODE_def)
  have now: "unix_now_ms (CoreService.env_clock sample_daemon_env) = unix_now_ms (CoreService.env_clock sample_core_env)"
    by (simp add: sample_daemon_env_def CoreService.env_clock_def)
  have ready: "daemon_ready sample_shell_env (sample_shell ''daemon'') config_codec sample_daemon_env ?p 7 ConfigGet (Ok ?c) sample_grant"
    unfolding daemon_ready_def now
    by (simp add: there, simp add: sample_shell_env_def sample_shell_def daemon_ipc_auth_state_def is_usable_at_def
        should_refresh_at_def sample_grant_def DAEMON_ACCESS_GRANT_EXPIRY_SKEW_MS_def sat_add_def U64_MAX_def codecs_agree_def
        config_codec_def config_request_def LOCAL_IPC_MAX_FRAME_LEN_def non_blank_def modes token_status_def sample_state_def
        sample_core_env_def CoreService.env_clock_def sample_service_env_def sample_clock_def wire_answer_def)
  have checked: "token_checked sample_daemon_env (sh_daemon (sample_shell ''daemon'')) = sh_daemon (sample_shell ''daemon'')"
    unfolding token_checked_def now
    by (simp add: sample_shell_def sample_state_def sample_core_env_def CoreService.env_clock_def sample_service_env_def
        sample_clock_def retain_live_def)
  have inv: "invoke ConfigGet = Some get_app_config_cmd" by (simp add: invoke_def)
  have run: "CoreService.dispatch E ConfigGet s = (s, Returns (Ok (AppConfig (config (sv_app s)))))" for E s
    by (simp add: CoreService.dispatch_def)
  have de: "\<forall>r. Ok ?c = Ok r \<longrightarrow> cp_de sample_shell_env ConfigGet (ser_response config_codec r) = Some r"
    by (simp add: sample_shell_env_def)
  have same: "sv_app (sh_daemon (sample_shell m)) = sv_app sample_state" "sv_app (sh_local (sample_shell m)) = sv_app sample_state" for m
    by (simp_all add: sample_shell_def)
  have "command_typed ConfigGet" by simp
  from control_plane_transparent [OF inv this here run ready _ de, of "sh_daemon (sample_shell ''daemon'')"]
  show ?thesis by (simp add: checked run same shown_def)
qed

text \<open>
  C20: Forwarding ends, and a write is acted on at most once.  Whatever the daemon and the socket do, a forwarded
  command makes at most four exchanges per entry of its list of delays (one delay for writes, four for
  reads), those for new grants included, and at most one exchange per delay carries the command and is not
  answered by a refusal of its token.
\<close>
theorem forwarding_bounded:
  assumes "requires_auth cmd"
  shows "\<exists>log. sh_exchanges (fst (proxy_command_payload_with_retries env cmd delays sh)) = sh_exchanges sh @ log \<and>
     length log \<le> 4 * length delays \<and> length (filter (acted cmd) log) \<le> length delays"
proof -
  have "extends cmd (4 * length delays) (length delays) sh (fst (proxy_command_payload_with_retries env cmd delays sh))"
    using attempts_extends [OF assms, of delays sh env "length delays" None]
    by (auto simp: proxy_command_payload_with_retries_def split: sum.split prod.split)
  then show ?thesis by (simp add: extends_def)
qed

theorem forwarding_bounded_witness:
  "\<exists>log. sh_exchanges (fst (proxy_command_payload_with_retries sample_shell_env (TrustPair ''f'') DAEMON_PROXY_WRITE_RETRY_DELAYS_MS
      (sample_shell ''daemon''))) = log \<and> length log \<le> 4 \<and> length (filter (acted (TrustPair ''f'')) log) \<le> 1"
proof -
  have "requires_auth (TrustPair ''f'')" by (simp add: requires_auth_def command_class_of_def)
  from forwarding_bounded [OF this, of sample_shell_env DAEMON_PROXY_WRITE_RETRY_DELAYS_MS "sample_shell ''daemon''"]
  show ?thesis by (simp add: DAEMON_PROXY_WRITE_RETRY_DELAYS_MS_def sample_shell_def)
qed

end
