(* ===== verification/RunningNode.thy ===== *)
theory RunningNode
  imports Footprint ControlPlane
begin

text \<open>
  The running program as a state machine: the tasks that \<^verbatim>\<open>lib.rs\<close>, \<^verbatim>\<open>runtime/supervisor.rs\<close>, \<^verbatim>\<open>transport/server.rs\<close> and
  \<^verbatim>\<open>daemon/server.rs\<close> spawn all work on one \<^verbatim>\<open>AppState\<close>, and so do the commands of the user interface when the
  application serves them itself.  A run is a sequence of their operations.  A step is one request on the local
  control socket, one command of the user interface in process, one incoming connection, one event of the
  discovery, one round of a maintenance loop, one write of the progress worker, or one event recorded in the
  feed.  Steps are not cut further: what happens while a transfer waits for the network is part of its own
  step, and an operation of the discovery that takes the lock of the devices and then the one of the session
  index is one step too, so states between the two locks are not states of this machine.
\<close>

section \<open>State\<close>

record node =
  nd_service :: service_state
  nd_offer_limits :: "string limit_table"
  nd_conn_limits :: "string limit_table"
  nd_ip_limits :: "ip_addr limit_table"
  nd_fp_alerts :: "string \<rightharpoonup> u64"

definition node_app :: "node \<Rightarrow> app_state" where
  "node_app n = sv_app (nd_service n)"

definition with_app :: "(app_state \<Rightarrow> app_state) \<Rightarrow> node \<Rightarrow> node" where
  "with_app f n = n\<lparr>nd_service := (nd_service n)\<lparr>sv_app := f (node_app n)\<rparr>\<rparr>"

text \<open>What an incoming connection sees of the node, and the node after it.\<close>

definition net_of :: "node \<Rightarrow> net_state" where
  "net_of n = \<lparr>ns_world = \<lparr>app = node_app n, fsys = sv_files (nd_service n), acks = []\<rparr>, offer_limits = nd_offer_limits n,
     conn_limits = nd_conn_limits n, ip_limits = nd_ip_limits n, fp_alerts = nd_fp_alerts n\<rparr>"

definition put_net :: "net_state \<Rightarrow> node \<Rightarrow> node" where
  "put_net ns n = n\<lparr>nd_service := (nd_service n)\<lparr>sv_app := app (ns_world ns), sv_files := fsys (ns_world ns)\<rparr>,
     nd_offer_limits := offer_limits ns, nd_conn_limits := conn_limits ns, nd_ip_limits := ip_limits ns,
     nd_fp_alerts := fp_alerts ns\<rparr>"

section \<open>Steps\<close>

record local_request =
  lr_ser :: "local_ipc_response \<Rightarrow> json"
  lr_text :: "string \<Rightarrow> json \<Rightarrow> string"
  lr_env :: core_env
  lr_endpoint :: endpoint_kind
  lr_peer :: "peer_identity option"
  lr_uid :: nat
  lr_request :: wire_request

record connection =
  cx_hash :: "bytes \<Rightarrow> hash"
  cx_show_msg :: "dash_message \<Rightarrow> string"
  cx_show_err :: "codec_error \<Rightarrow> string"
  cx_faults :: io_faults
  cx_incoming :: incoming

text \<open>
  A call of the user interface: the environment of the shell, and the shell around the state of the node.
  In process there is nothing at the other end of the socket.
\<close>

record ui_call =
  ui_env :: "unit shell_env"
  ui_shell :: "unit shell"

datatype node_event =
    LocalRequest local_request
  | UiCommand ui_call local_ipc_command
  | UiConfig ui_call "bool \<Rightarrow> string + unit" app_config
  | Connection connection
  | Discovered discovery_op
  | Cleanup u64
  | Notifications clock "string \<Rightarrow> string"
  | IdleCheck u64
  | ProgressSaved u64 transfer_task
  | Recorded nat bool string string

definition serve :: "local_request \<Rightarrow> service_state \<Rightarrow> service_state" where
  "serve r s = fst (dispatch_request (lr_ser r) (lr_text r) (lr_env r) (lr_endpoint r) (lr_peer r) (lr_uid r) (lr_request r) s)"

definition call_shell :: "ui_call \<Rightarrow> node \<Rightarrow> unit shell" where
  "call_shell u n = (ui_shell u)\<lparr>sh_local := nd_service n\<rparr>"

definition in_process :: "ui_call \<Rightarrow> node \<Rightarrow> bool" where
  "in_process u n \<longleftrightarrow> \<not> should_proxy_via_daemon (ui_env u) (call_shell u n)"

definition run_ui :: "ui_call \<Rightarrow> unit ui_command \<Rightarrow> node \<Rightarrow> node" where
  "run_ui u c n = n\<lparr>nd_service := sh_local (fst (c (ui_env u) (call_shell u n)))\<rparr>"

definition connection_result :: "connection \<Rightarrow> node \<Rightarrow> incoming_result" where
  "connection_result c n = accept_connection (cx_hash c) (cx_show_msg c) (cx_show_err c) (cx_faults c) (cx_incoming c) (net_of n)"

text \<open>A discovery task consults the trust table that the node has.\<close>

fun reads_trust :: "discovery_op \<Rightarrow> trust_table \<Rightarrow> bool" where
  "reads_trust (ServiceResolved clk tbl own info lookup dns) t = (tbl = t)"
| "reads_trust (BeaconReceived clk tbl own parsed src src_text) t = (tbl = t)"
| "reads_trust _ t = True"

inductive node_step :: "node_event \<Rightarrow> node \<Rightarrow> node \<Rightarrow> bool" where
  local_request: "node_step (LocalRequest r) n (n\<lparr>nd_service := serve r (nd_service n)\<rparr>)"
| ui_command: "invoke cmd = Some c \<Longrightarrow> in_process u n \<Longrightarrow> node_step (UiCommand u cmd) n (run_ui u c n)"
| ui_config: "in_process u n \<Longrightarrow> node_step (UiConfig u sync cfg) n (run_ui u (set_app_config_cmd sync cfg) n)"
| connection: "node_step (Connection c) n (put_net (ir_state (connection_result c n)) n)"
| discovered: "reads_trust op (trusted_peers (node_app n)) \<Longrightarrow>
    node_step (Discovered op) n (with_app (\<lambda>st. st\<lparr>discovery := discovery_step op (discovery st)\<rparr>) n)"
| cleanup: "node_step (Cleanup now) n (with_app (memory_cleanup now) n)"
| notify: "node_step (Notifications clk uuid) n (with_app (notification_maintenance clk uuid) n)"
| idle_check: "node_step (IdleCheck now) n (with_app (\<lambda>st. fst (headless_idle_blockers now st)) n)"
| progress_saved: "schedule t \<in> set (persist_log (node_app n)) \<or> flush_now t \<in> set (persist_log (node_app n)) \<Longrightarrow>
    node_step (ProgressSaved now t) n (with_app (\<lambda>st. st\<lparr>history_db := save_step now (history_db st) (progress_snapshot t)\<rparr>) n)"
| event_recorded: "node_step (Recorded now works ev payload) n
    (n\<lparr>nd_service := (nd_service n)\<lparr>sv_feed := fst (record_runtime_event now works ev payload (sv_feed (nd_service n)))\<rparr>\<rparr>)"

inductive node_run :: "node \<Rightarrow> node_event list \<Rightarrow> node \<Rightarrow> bool" where
  started: "node_run n [] n"
| continued: "node_run n es m \<Longrightarrow> node_step e m m' \<Longrightarrow> node_run n (es @ [e]) m'"

inductive_cases node_stepE: "node_step e n n'"

text \<open>A node as \<^verbatim>\<open>initialize_state_at\<close> leaves it: the trust table is read from the database, the rest is empty.\<close>

definition booted :: "node \<Rightarrow> bool" where
  "booted n \<longleftrightarrow> (\<exists>nm legacy cfg rows. trusted_peers (node_app n) = fst (snd (initialize_state nm legacy cfg rows))) \<and>
     discovery (node_app n) = empty_discovery \<and> access_tokens (node_app n) = [] \<and> table_ok (history_db (node_app n))"

text \<open>
  An operation that may add trust for a fingerprint: a command of the user interface, or a request from the
  same user at a node that holds its token.
\<close>

definition authorized_grant :: "string \<Rightarrow> node_event \<Rightarrow> node \<Rightarrow> bool" where
  "authorized_grant fp e n \<longleftrightarrow>
     (case e of
        LocalRequest r \<Rightarrow>
          (case from_wire_request (lr_text r) (lr_request r) of
             Inl _ \<Rightarrow> False
           | Inr cmd \<Rightarrow> fp \<in> grants_trust cmd) \<and>
          (case request_token (lr_request r) of
             None \<Rightarrow> False
           | Some t \<Rightarrow> token_status (unix_now_ms (CoreService.env_clock (lr_env r))) (access_tokens (node_app n)) t = Ok ()) \<and>
          (case lr_peer r of Some p \<Rightarrow> peer_uid p = lr_uid r | None \<Rightarrow> True)
      | UiCommand u cmd \<Rightarrow> in_process u n \<and> fp \<in> grants_trust cmd
      | _ \<Rightarrow> False)"

text \<open>Concrete inputs: a node with an access token, and a request with it to pair a peer.\<close>

definition sample_node :: node where
  "sample_node = \<lparr>nd_service = sample_state\<lparr>sv_app := (sv_app sample_state)\<lparr>config := sample_config\<lparr>auto_accept_trusted_only := True\<rparr>\<rparr>\<rparr>,
     nd_offer_limits = Map.empty, nd_conn_limits = Map.empty, nd_ip_limits = Map.empty, nd_fp_alerts = Map.empty\<rparr>"

definition pair_request :: local_request where
  "pair_request = \<lparr>lr_ser = (\<lambda>_. JNull), lr_text = (\<lambda>_ _. ''bad''), lr_env = sample_core_env, lr_endpoint = Service,
     lr_peer = Some \<lparr>peer_uid = 7, peer_pid = None\<rparr>, lr_uid = 7,
     lr_request = to_wire_request (TrustPair ''f'') ''1'' (Some \<lparr>ac_access_token = Some ''tok''\<rparr>)\<rparr>"

definition paired_node :: node where
  "paired_node = sample_node\<lparr>nd_service := serve pair_request (nd_service sample_node)\<rparr>"

definition fresh_node :: node where
  "fresh_node = with_app (\<lambda>st. st\<lparr>access_tokens := []\<rparr>) sample_node"

definition sample_conn :: connection where
  "sample_conn = \<lparr>cx_hash = (\<lambda>b. b), cx_show_msg = (\<lambda>_. []), cx_show_err = (\<lambda>_. []), cx_faults = no_faults, cx_incoming = sample_incoming\<rparr>"

section \<open>Facts\<close>

lemma node_app_simps [simp]:
  "node_app (with_app f n) = f (node_app n)" "node_app (n\<lparr>nd_service := s\<rparr>) = sv_app s"
  "node_app (put_net ns n) = app (ns_world ns)" "app (ns_world (net_of n)) = node_app n"
  by (simp_all add: with_app_def node_app_def put_net_def net_of_def)

text \<open>What the commands of the user interface do to the trust table, in process.\<close>

lemma ui_command_limited:
  assumes "invoke cmd = Some c" and "in_process u n"
  shows "trust_limited (grants_trust cmd) (node_app n) (node_app (run_ui u c n))"
proof -
  have "fst (c (ui_env u) (call_shell u n)) =
      (call_shell u n)\<lparr>sh_local := fst (CoreService.dispatch (cp_core (ui_env u)) cmd (nd_service n))\<rparr>"
    using in_process_dispatch [OF _ assms(1)] assms(2) by (simp add: in_process_def call_shell_def)
  then show ?thesis using dispatch_limited by (simp add: run_ui_def node_app_def)
qed

lemma limited_trans: "trust_limited fps a b \<Longrightarrow> trust_limited fps b c \<Longrightarrow> trust_limited fps a c"
  by (auto simp: trust_limited_def)

lemma set_config_limited: "trust_limited fps (sv_app s) (sv_app (fst (set_config_local env cfg s)))"
  using config_limited by (simp add: set_config_local_def apply_config_def case_prod_beta)

lemma ui_config_limited:
  assumes "in_process u n"
  shows "trust_limited {} (node_app n) (node_app (run_ui u (set_app_config_cmd sync cfg) n))"
proof -
  have here: "\<not> should_proxy_via_daemon (ui_env u) (call_shell u n)" using assms by (simp add: in_process_def)
  let ?sh = "call_shell u n" and ?env = "ui_env u"
  obtain s1 r where set: "set_config_local ?env cfg (nd_service n) = (s1, r)" by fastforce
  have "sv_app (sh_local (fst (set_app_config_cmd sync cfg ?env ?sh))) \<in>
      insert (sv_app s1) (range (\<lambda>old. sv_app (fst (set_config_local ?env old s1))))"
    using set not_proxied [OF here]
    by (simp add: set_app_config_cmd_def get_app_config_cmd_def or_local_def run_local_def reads_def call_shell_def Let_def
        case_prod_beta split: sum.split)
  moreover have "trust_limited {} (node_app n) (sv_app s1)"
    using set_config_limited [of "{}" "nd_service n" ?env cfg] set by (simp add: node_app_def)
  moreover have "trust_limited {} (sv_app s1) (sv_app (fst (set_config_local ?env old s1)))" for old
    by (rule set_config_limited)
  ultimately show ?thesis by (auto simp: run_ui_def intro: limited_trans)
qed

text \<open>One step keeps the invariant, and only an authorized operation adds trust.\<close>

lemma step_limited:
  assumes "node_step e n n'"
  shows "\<exists>fps. trust_limited fps (node_app n) (node_app n') \<and> (\<forall>fp \<in> fps. (\<exists>r. e = LocalRequest r) \<or> authorized_grant fp e n)"
  using assms
proof cases
  case (local_request r)
  then show ?thesis using request_limited [OF refl] by (fastforce simp: serve_def node_app_def)
next
  case (ui_command cmd c u)
  then show ?thesis using ui_command_limited by (fastforce simp: authorized_grant_def)
next
  case (ui_config u sync cfg)
  then show ?thesis using ui_config_limited by blast
next
  case (connection c)
  then have "steady (node_app n) (node_app n')"
    using accept_connection_steady [of "node_app n" "net_of n"] by (simp add: connection_result_def steady_refl)
  then show ?thesis using steady_limited by blast
next
  case (discovered op)
  then have "trust_limited {} (node_app n) (node_app n')"
    by (auto intro!: limited_discovery discovery_step_ok)
  then show ?thesis by blast
next
  case (idle_check now)
  then show ?thesis using blockers_limited [of "{}" "node_app n"] by auto
next
  case (progress_saved t now)
  then have "steady (node_app n) (node_app n')" by (auto intro!: steady_history save_step_table_ok steady_refl)
  then show ?thesis using steady_limited by blast
next
  case (event_recorded now works ev payload)
  then have "node_app n' = node_app n" by (simp add: node_app_def)
  then show ?thesis using limited_refl by fastforce
qed (auto intro!: exI [of _ "{}"] steady_limited steady_intros)

lemma step_ok: "node_step e n n' \<Longrightarrow> app_ok (node_app n) \<Longrightarrow> app_ok (node_app n')"
  using step_limited by (fastforce simp: trust_limited_def)

lemma step_new_trust:
  assumes "node_step e n n'" and new: "is_active_trust (trusted_peers (node_app n')) fp"
    and old: "\<not> is_active_trust (trusted_peers (node_app n)) fp"
  shows "authorized_grant fp e n"
proof (cases "\<exists>r. e = LocalRequest r")
  case False
  then show ?thesis using step_limited [OF assms(1)] new old by (fastforce simp: trust_limited_def)
next
  case True
  then obtain r where e: "e = LocalRequest r" by blast
  then have "node_app n' = sv_app (serve r (nd_service n))" using assms(1) by (auto elim: node_stepE)
  then show ?thesis
    using request_new_trust [of "lr_ser r" "lr_text r" "lr_env r" "lr_endpoint r" "lr_peer r" "lr_uid r" "lr_request r" "nd_service n" fp]
      new old e by (auto simp: authorized_grant_def serve_def node_app_def)
qed

text \<open>A connection that is accepted without the user's answer comes from an actively trusted peer that proved its fingerprint.\<close>

lemma silent_accept_trusted:
  assumes "Accept p \<in> set (ir_control (connection_result c n))" and "env_response (in_env (cx_incoming c)) \<noteq> Responded True"
  shows "\<exists>fp. in_cert (cx_incoming c) = Some fp \<and> is_active_trust (trusted_peers (node_app n)) fp"
proof -
  obtain ns where "Accept p \<in> set (ir_control (check_identity (cx_hash c) (cx_show_msg c) (cx_show_err c) (cx_faults c) (cx_incoming c) ns))"
    and "ns_world ns = ns_world (net_of n)"
    using assms(1) unfolding connection_result_def
    by (fastforce simp: accept_connection_def handle_incoming_def close_conn_def Let_def case_prod_beta
        split: option.splits if_splits)
  then show ?thesis using check_identity_accepts assms(2) by (fastforce simp: auto_accept_allowed_def)
qed

lemma boot_keys_ok: "trust_keys_ok (trust_table_of ps)"
proof -
  have "trust_keys_ok tbl \<Longrightarrow> trust_keys_ok (fold (\<lambda>p. AList.update (fingerprint p) p) ps tbl)" for tbl
    by (induction ps arbitrary: tbl) (simp_all add: update_keys_ok)
  then show ?thesis by (simp add: trust_table_of_def trust_keys_ok_def)
qed

lemma booted_ok: "booted n \<Longrightarrow> app_ok (node_app n)"
  using boot_keys_ok reachable_ok [of "[]"]
  by (auto simp: booted_def app_ok_def initialize_state_def Let_def case_prod_beta table_distinct_def)

subsection \<open>The concrete inputs\<close>

lemma pair_request_command: "from_wire_request (lr_text pair_request) (lr_request pair_request) = Ok (TrustPair ''f'')"
  unfolding from_wire_request_def using from_name_payload [of "TrustPair ''f''"]
  by (simp add: pair_request_def to_wire_request_def)

lemma paired_app:
  "node_app paired_node = fst (pair_device sample_service_env ''f'' (node_app sample_node))"
proof -
  have t: "trim ''tok'' = ''tok''" by code_simp
  have "serve pair_request (nd_service sample_node) = fst (run_command_for (\<lambda>_. JNull) sample_core_env Service (lr_request pair_request)
      (TrustPair ''f'') (nd_service sample_node))"
    using pair_request_command unfolding serve_def dispatch_request_def Let_def by (simp add: pair_request_def)
  moreover have "fst (run_command_for (\<lambda>_. JNull) sample_core_env Service (lr_request pair_request) (TrustPair ''f'') (nd_service sample_node))
      = (nd_service sample_node)\<lparr>sv_app := fst (pair_device sample_service_env ''f'' (node_app sample_node))\<rparr>"
    by (simp add: run_command_for_def pair_request_def accepts_on_endpoint_def endpoint_kind_of_def
        command_class_of_def requires_auth_def check_token_def CoreService.on_app_def validate_local_ipc_access_token_def
        request_token_def to_wire_request_def non_blank_def t token_status_def sample_node_def sample_state_def node_app_def
        sample_core_env_def CoreService.env_clock_def sample_service_env_def sample_clock_def run_dispatch_def map_result_def
        CoreService.dispatch_def sample_app_def case_prod_beta retain_live_def Let_def)
  ultimately show ?thesis by (simp add: paired_node_def)
qed

lemma paired_active: "is_active_trust (trusted_peers (node_app paired_node)) ''f''"
  unfolding paired_app
  by (simp add: sample_node_def sample_state_def node_app_def sample_app_def pair_device_def set_device_trusted_def empty_discovery_def
      persist_then_def persist_runtime_state_def replace_trusted_peers_def add_trust_def host_event_def sample_service_env_def
      is_active_trust_def allows_sensitive_send_def Let_def case_prod_beta split: prod.split sum.split)

lemma sample_inactive: "\<not> is_active_trust (trusted_peers (node_app sample_node)) fp"
  by (simp add: sample_node_def sample_state_def node_app_def sample_app_def is_active_trust_def)

lemma pairing_run: "node_run sample_node [LocalRequest pair_request] paired_node"
  using continued [OF started local_request, of sample_node pair_request] by (simp add: paired_node_def)

lemma paired_fields:
  "config (node_app paired_node) = sample_config\<lparr>auto_accept_trusted_only := True\<rparr>" "devices (discovery (node_app paired_node)) = []"
  "nd_offer_limits paired_node = Map.empty" "nd_conn_limits paired_node = Map.empty" "nd_ip_limits paired_node = Map.empty"
  unfolding paired_app
  by (simp_all add: paired_node_def sample_node_def sample_state_def node_app_def sample_app_def pair_device_def set_device_trusted_def
      empty_discovery_def persist_then_def persist_runtime_state_def replace_trusted_peers_def add_trust_def insert_peer_def
      peer_fits_def host_event_def sample_service_env_def sample_clock_def I64_MAX_def Let_def)

lemma paired_connection_accepted: "\<exists>p. Accept p \<in> set (ir_control (connection_result sample_conn paired_node))"
proof -
  let ?h = "\<lambda>b :: bytes. b" and ?e = "\<lambda>_ :: codec_error. []" and ?m = "\<lambda>_ :: dash_message. []"
  let ?ns = "(net_of paired_node)\<lparr>ip_limits := [IPv4 3232235778 \<mapsto> (1, 7)], conn_limits := [''f'' \<mapsto> (1, 7)]\<rparr>"
  let ?env = "sample_offer_env\<lparr>env_peer_fp := ''f'', env_peer_authenticated := True, env_version := 1\<rparr>"
  note samples = sample_incoming_def sample_offer_def sample_offer_env_def sample_clock_def
  have trusted: "is_trusted (trusted_peers (node_app paired_node)) ''f''"
    using paired_active by (auto simp: is_active_trust_def is_trusted_def split: option.splits)
  have limits: "offer_limits (net_of paired_node) = Map.empty" "conn_limits (net_of paired_node) = Map.empty"
      "ip_limits (net_of paired_node) = Map.empty" by (simp_all add: net_of_def paired_fields)
  have "\<exists>p. Accept p \<in> set (res_control (handle_offer ?h ?e no_faults ?env sample_offer (ns_world ?ns)))"
    by (rule handle_offer_auto_accepts) (simp_all add: samples auto_accept_allowed_def paired_active paired_fields sufficient_space_def)
  moreover have "ir_control (admit_offer ?h ?e no_faults sample_incoming 1 sample_offer ?ns) =
      our_hello # res_control (handle_offer ?h ?e no_faults ?env sample_offer (ns_world ?ns))"
  proof -
    have "trim ''f'' \<noteq> ''''" by code_simp
    then show ?thesis
      by (simp add: admit_offer_def answer_def fail_def check_offer_rate_limit_def offer_limit_def samples trusted limits
          OFFER_RATE_LIMIT_TRUSTED_PER_MIN_def Let_def)
  qed
  moreover have "exchange_hello ?h ?m ?e no_faults sample_incoming ?ns = admit_offer ?h ?e no_faults sample_incoming 1 sample_offer ?ns"
    by (simp add: exchange_hello_def await_offer_def sample_incoming_def our_hello_def WIRE_VERSION_def SUPPORTED_VERSIONS_def
        negotiate_version_def Let_def)
  moreover have "handle_incoming ?h ?m ?e no_faults sample_incoming ((net_of paired_node)\<lparr>ip_limits := [IPv4 3232235778 \<mapsto> (1, 7)]\<rparr>) =
      exchange_hello ?h ?m ?e no_faults sample_incoming ?ns"
    by (simp add: handle_incoming_def check_identity_def samples check_connection_rate_limit_def connection_limit_def
        CONNECTION_RATE_LIMIT_TRUSTED_PER_MIN_def trusted limits paired_fields Let_def)
  moreover have "ir_control (connection_result sample_conn paired_node) =
      ir_control (handle_incoming ?h ?m ?e no_faults sample_incoming ((net_of paired_node)\<lparr>ip_limits := [IPv4 3232235778 \<mapsto> (1, 7)]\<rparr>))"
    unfolding connection_result_def sample_conn_def connection.simps
    by (rule accept_connection_control) (simp_all add: samples limits ip_rate_limited_def U32_MAX_def
        INCOMING_IP_RATE_LIMIT_MAX_PER_WINDOW_def)
  ultimately show ?thesis by (metis list.set_intros(2))
qed

text \<open>The induction behind the properties on trust.\<close>

lemma new_trust_granted:
  assumes "node_run n es n'" and "is_active_trust (trusted_peers (node_app n')) fp"
    and "\<not> is_active_trust (trusted_peers (node_app n)) fp"
  shows "\<exists>before e later m. es = before @ e # later \<and> node_run n before m \<and> authorized_grant fp e m"
  using assms
proof (induction rule: node_run.induct)
  case (continued n es m e m')
  show ?case
  proof (cases "is_active_trust (trusted_peers (node_app m)) fp")
    case True
    then show ?thesis using continued.IH continued.prems(2) by fastforce
  next
    case False
    then show ?thesis using step_new_trust [OF continued.hyps(2)] continued by blast
  qed
qed simp

section \<open>Properties\<close>

text \<open>
  In every state a booted node reaches by these steps, each trusted peer is stored once and under its own
  fingerprint, the discovered devices and their session index are consistent, no access token is stored
  twice, and the history has one row per transfer.
\<close>
theorem reachable_tables_ok:
  assumes "booted n" and "node_run n es n'"
  shows "app_ok (node_app n')"
  using assms(2,1)
proof (induction rule: node_run.induct)
  case (started n)
  then show ?case by (rule booted_ok)
next
  case (continued n es m e m')
  then show ?case using step_ok by blast
qed

theorem reachable_tables_ok_witness:
  "\<exists>n'. node_run fresh_node [Cleanup 5, LocalRequest pair_request] n' \<and> app_ok (node_app n')"
proof -
  have "\<exists>nm legacy cfg rows. [] = fst (snd (initialize_state nm legacy cfg rows))"
    by (rule exI [of _ "''id''"], rule exI [of _ None], rule exI [of _ None], rule exI [of _ "[]"])
      (simp add: initialize_state_def import_legacy_def trust_table_of_def load_trusted_peers_def Let_def)
  then have boot: "booted fresh_node"
    by (simp add: booted_def fresh_node_def sample_node_def sample_state_def node_app_def sample_app_def with_app_def table_ok_def)
  have "node_run fresh_node ([] @ [Cleanup 5]) (with_app (memory_cleanup 5) fresh_node)"
    by (rule continued [OF started cleanup])
  from continued [OF this local_request, of pair_request]
  obtain n' where "node_run fresh_node [Cleanup 5, LocalRequest pair_request] n'" by auto
  then show ?thesis using reachable_tables_ok [OF boot] by blast
qed

text \<open>
  C4: Trust is never gained from the network, and nothing is accepted silently without it.  Take a run of the
  node, made of the steps of \<open>node_step\<close> (each operation is one step), and a connection at its end that is
  answered with \<^verbatim>\<open>Accept\<close> although the user did not agree to it.  Then the connection proved the fingerprint of
  an actively trusted peer, and unless that peer was trusted at the start, one of the steps of the run is
  for exactly that peer (to pair it, or to confirm its verification) and is either a command given in the
  application's own user interface, when the application serves its commands in process, or a request on the
  local control socket from the user the service runs as, with an access token that is valid when the request
  arrives.  No sequence of connections, transfers, discovery packets, other commands or maintenance rounds
  does it.
\<close>
theorem silent_accept_needs_local_command:
  assumes "node_run n es n'" and "Accept p \<in> set (ir_control (connection_result c n'))"
    and "env_response (in_env (cx_incoming c)) \<noteq> Responded True"
  shows "\<exists>fp. in_cert (cx_incoming c) = Some fp \<and> is_active_trust (trusted_peers (node_app n')) fp \<and>
    (is_active_trust (trusted_peers (node_app n)) fp \<or>
     (\<exists>before e later m. es = before @ e # later \<and> node_run n before m \<and> authorized_grant fp e m))"
  using silent_accept_trusted [OF assms(2,3)] new_trust_granted [OF assms(1)] by blast

theorem silent_accept_needs_local_command_witness:
  "authorized_grant ''f'' (LocalRequest pair_request) sample_node"
proof -
  obtain p where "Accept p \<in> set (ir_control (connection_result sample_conn paired_node))"
    using paired_connection_accepted by blast
  from silent_accept_needs_local_command [OF pairing_run this] sample_inactive
  obtain before e later m where split: "[LocalRequest pair_request] = before @ e # later" and run: "node_run sample_node before m"
    and grant: "authorized_grant ''f'' e m"
    by (auto simp: sample_conn_def sample_incoming_def sample_offer_env_def)
  from split have "before = []" "e = LocalRequest pair_request" by (auto simp: Cons_eq_append_conv)
  moreover from run calculation have "m = sample_node" by (auto elim: node_run.cases)
  ultimately show ?thesis using grant by simp
qed

end
