(* ===== verification/IpcSockets.thy ===== *)
theory IpcSockets
  imports IpcServer
begin

text \<open>
  The Unix sockets of the local IPC server, from \<^verbatim>\<open>daemon/server.rs\<close>, and the start of the runtime around
  them, from \<^verbatim>\<open>runtime/supervisor.rs\<close>.  The part of the file system that matters is a map from paths to
  nodes; a socket node names the listener that was bound to it, and a listener may be gone while its node
  stays.  Every call of the operating system may fail; \<open>socket_calls\<close> says which ones do, and with which text.
\<close>

section \<open>Definitions\<close>

subsection \<open>Sockets in the file system\<close>

text \<open>\<open>LinkNode\<close> is a symbolic link and says whether its target exists.  The numbers are listener and permission bits.\<close>

datatype fs_node = DirNode nat | SocketNode nat nat | OtherNode | LinkNode bool

record socket_fs =
  sf_node :: "path \<Rightarrow> fs_node option"
  sf_alive :: "nat set"
  sf_next :: nat

record socket_calls =
  sx_create_dir :: "string option"
  sx_chmod_dir :: "string option"
  sx_metadata :: "string option"
  sx_remove :: "string option"
  sx_bind :: "string option"
  sx_chmod :: "string option"
  sx_nonblocking :: "string option"
  sx_from_std :: "string option"
  sx_default_mode :: nat

definition put_node :: "path \<Rightarrow> fs_node \<Rightarrow> socket_fs \<Rightarrow> socket_fs" where
  "put_node p n fs = fs\<lparr>sf_node := (sf_node fs)(p \<mapsto> n)\<rparr>"

definition path_exists :: "socket_fs \<Rightarrow> path \<Rightarrow> bool" where
  "path_exists fs p \<longleftrightarrow> (case sf_node fs p of None \<Rightarrow> False | Some (LinkNode target) \<Rightarrow> target | Some _ \<Rightarrow> True)"

text \<open>Unlinking removes anything but a directory.\<close>

definition unlink :: "path \<Rightarrow> socket_fs \<Rightarrow> socket_fs" where
  "unlink p fs = (case sf_node fs p of Some (DirNode _) \<Rightarrow> fs | _ \<Rightarrow> fs\<lparr>sf_node := (sf_node fs)(p := None)\<rparr>)"

definition close_listener :: "nat \<Rightarrow> socket_fs \<Rightarrow> socket_fs" where
  "close_listener i fs = fs\<lparr>sf_alive := sf_alive fs - {i}\<rparr>"

text \<open>An error with its context, as \<^verbatim>\<open>anyhow\<close> prints the chain.\<close>

definition with_context :: "string \<Rightarrow> string \<Rightarrow> string \<Rightarrow> string" where
  "with_context what p e = what @ '' '' @ p @ '': '' @ e"

fun component_text :: "component \<Rightarrow> string" where
  "component_text RootDir = []"
| "component_text CurDir = ''.''"
| "component_text ParentDir = ''..''"
| "component_text (Normal n) = n"

definition show_path :: "path \<Rightarrow> string" where
  "show_path p = (if p = [RootDir] then [slash] else join_with [slash] (map component_text p))"

text \<open>A dangling link is in the way of a new directory.\<close>

definition prepare_dir :: "socket_calls \<Rightarrow> path \<Rightarrow> socket_fs \<Rightarrow> socket_fs \<times> (string + unit)" where
  "prepare_dir X parent fs =
     (if path_exists fs parent then (fs, Ok ())
      else case (if sf_node fs parent = None then sx_create_dir X else Some ''File exists'') of
        Some e \<Rightarrow> (fs, Err (with_context ''create local IPC runtime dir'' (show_path parent) e))
      | None \<Rightarrow>
          (case sx_chmod_dir X of
             Some e \<Rightarrow> (put_node parent (DirNode (sx_default_mode X)) fs, Err (with_context ''chmod local IPC runtime dir'' (show_path parent) e))
           | None \<Rightarrow> (put_node parent (DirNode 0x1C0) fs, Ok ())))"

definition clear_stale :: "socket_calls \<Rightarrow> string \<Rightarrow> path \<Rightarrow> socket_fs \<Rightarrow> socket_fs \<times> (string + unit)" where
  "clear_stale X shown p fs =
     (if \<not> path_exists fs p then (fs, Ok ())
      else case sx_metadata X of
        Some e \<Rightarrow> (fs, Err (with_context ''read existing local IPC socket'' shown e))
      | None \<Rightarrow>
          (case sf_node fs p of
             Some (SocketNode _ _) \<Rightarrow>
               (case sx_remove X of
                  Some e \<Rightarrow> (fs, Err (with_context ''remove stale local IPC socket'' shown e))
                | None \<Rightarrow> (unlink p fs, Ok ()))
           | _ \<Rightarrow> (fs, Err (''refusing to replace non-socket local IPC path '' @ shown))))"

text \<open>
  Binding fails on a path that is taken.  A failure after the binding drops the listener; its node stays.
\<close>

definition open_listener :: "socket_calls \<Rightarrow> string \<Rightarrow> path \<Rightarrow> socket_fs \<Rightarrow> socket_fs \<times> (string + nat)" where
  "open_listener X shown p fs =
     (case (if sf_node fs p = None then sx_bind X else Some ''Address already in use'') of
        Some e \<Rightarrow> (fs, Err (with_context ''bind local IPC socket'' shown e))
      | None \<Rightarrow>
          (let i = sf_next fs; fs1 = fs\<lparr>sf_next := i + 1\<rparr> in
           case sx_chmod X of
             Some e \<Rightarrow> (put_node p (SocketNode i (sx_default_mode X)) fs1, Err (with_context ''chmod local IPC socket'' shown e))
           | None \<Rightarrow>
               (let fs2 = put_node p (SocketNode i 0x180) fs1 in
                case sx_nonblocking X of
                  Some e \<Rightarrow> (fs2, Err (with_context ''configure local IPC socket as nonblocking'' shown e))
                | None \<Rightarrow> (fs2\<lparr>sf_alive := insert i (sf_alive fs2)\<rparr>, Ok i))))"

definition bind_unix_listener :: "socket_calls \<Rightarrow> string \<Rightarrow> socket_fs \<Rightarrow> socket_fs \<times> (string + nat)" where
  "bind_unix_listener X endpoint fs =
     (let p = components endpoint in
      case path_parent p of
        None \<Rightarrow> (fs, Err (''local IPC socket path has no parent: '' @ endpoint))
      | Some parent \<Rightarrow>
          (case prepare_dir X parent fs of
             (fs1, Inl e) \<Rightarrow> (fs1, Err e)
           | (fs1, Inr _) \<Rightarrow>
               (case clear_stale X endpoint p fs1 of
                  (fs2, Inl e) \<Rightarrow> (fs2, Err e)
                | (fs2, Inr _) \<Rightarrow> open_listener X endpoint p fs2)))"

text \<open>The result of \<^verbatim>\<open>remove_file\<close> is ignored; \<open>removes\<close> says whether the call works.\<close>

definition cleanup_endpoint :: "bool \<Rightarrow> string \<Rightarrow> socket_fs \<Rightarrow> socket_fs" where
  "cleanup_endpoint removes endpoint fs = (if removes then unlink (components endpoint) fs else fs)"

subsection \<open>The server\<close>

text \<open>Where the endpoints lie: the hash, the runtime directory of the session and the temporary directories.\<close>

record socket_env =
  sk_blake3 :: "bytes \<Rightarrow> string"
  sk_runtime_dir :: "string option"
  sk_tmp_exists :: bool
  sk_temp_dir :: string
  sk_calls :: socket_calls

definition endpoint_path :: "socket_env \<Rightarrow> string \<Rightarrow> endpoint_kind \<Rightarrow> string" where
  "endpoint_path K = resolve_local_ipc_endpoint_for_kind (sk_blake3 K) (sk_runtime_dir K) (sk_tmp_exists K) (sk_temp_dir K)"

record server_handle =
  ih_endpoint :: string
  ih_kind :: endpoint_kind
  ih_listener :: nat

text \<open>
  The conversion of the listener happens in the task that \<^verbatim>\<open>spawn\<close> starts: when it fails the handle is returned all the
  same and nothing listens.
\<close>

definition spawn_server :: "socket_env \<Rightarrow> string \<Rightarrow> endpoint_kind \<Rightarrow> socket_fs \<Rightarrow> socket_fs \<times> (string + server_handle)" where
  "spawn_server K config_dir k fs =
     (let endpoint = endpoint_path K config_dir k in
      case bind_unix_listener (sk_calls K) endpoint fs of
        (fs1, Inl e) \<Rightarrow> (fs1, Err e)
      | (fs1, Inr i) \<Rightarrow>
          (case sx_from_std (sk_calls K) of
             Some _ \<Rightarrow> cleanup_endpoint (sx_remove (sk_calls K) = None) endpoint (close_listener i fs1)
           | None \<Rightarrow> fs1,
           Ok \<lparr>ih_endpoint = endpoint, ih_kind = k, ih_listener = i\<rparr>))"

text \<open>
  Shutting the server down, or dropping its handle: the task ends and the path is removed, when that works.
  \<open>stop_server\<close> is the case in which it works.
\<close>

definition stop_server_with :: "bool \<Rightarrow> server_handle \<Rightarrow> socket_fs \<Rightarrow> socket_fs" where
  "stop_server_with removes h fs = cleanup_endpoint removes (ih_endpoint h) (close_listener (ih_listener h) fs)"

definition stop_server :: "server_handle \<Rightarrow> socket_fs \<Rightarrow> socket_fs" where
  "stop_server = stop_server_with True"

text \<open>The listener that a client of the path reaches.\<close>

definition reached :: "socket_fs \<Rightarrow> string \<Rightarrow> nat option" where
  "reached fs endpoint =
     (case sf_node fs (components endpoint) of
        Some (SocketNode i _) \<Rightarrow> if i \<in> sf_alive fs then Some i else None
      | _ \<Rightarrow> None)"

text \<open>A connection is served only when the credentials of the other end can be read.\<close>

definition handle_unix_connection ::
    "string + peer_identity \<Rightarrow> ipc_codec \<Rightarrow> (nat \<Rightarrow> core_env) \<Rightarrow> endpoint_kind \<Rightarrow> nat \<Rightarrow> bytes \<Rightarrow> send_stream \<Rightarrow> service_state \<Rightarrow>
     service_state \<times> send_stream \<times> (string + conn_end)" where
  "handle_unix_connection cred C envs k uid inp out s =
     (case cred of
        Inl e \<Rightarrow> (s, out, Err (''read local IPC peer credentials: '' @ e))
      | Inr peer \<Rightarrow> (case handle_connection C envs k (Some peer) uid 0 inp out s of (s1, out1, how) \<Rightarrow> (s1, out1, Ok how)))"

subsection \<open>The supervisor\<close>

datatype background_task = NetworkRuntime | MemoryCleanup | NotificationMaintenance

record runtime_handle =
  rh_server :: server_handle
  rh_network_runtime_enabled :: bool
  rh_tasks :: "background_task list"

text \<open>The tasks run beside the caller; the start itself only binds the endpoint.\<close>

definition start_runtime_supervisor :: "socket_env \<Rightarrow> string \<Rightarrow> socket_fs \<Rightarrow> socket_fs \<times> (string + runtime_handle)" where
  "start_runtime_supervisor K config_dir fs =
     (case spawn_server K config_dir Service fs of
        (fs1, Inl e) \<Rightarrow> (fs1, Err e)
      | (fs1, Inr h) \<Rightarrow>
          (fs1, Ok \<lparr>rh_server = h, rh_network_runtime_enabled = True,
             rh_tasks = [NetworkRuntime, MemoryCleanup, NotificationMaintenance]\<rparr>))"

text \<open>A node that is neither absent nor a socket survives every call.\<close>

definition keeps_others :: "socket_fs \<Rightarrow> socket_fs \<Rightarrow> bool" where
  "keeps_others fs fs1 \<longleftrightarrow> (\<forall>p n. sf_node fs p = Some n \<and> (\<forall>i m. n \<noteq> SocketNode i m) \<longrightarrow> sf_node fs1 p = Some n)"

subsection \<open>Concrete inputs\<close>

definition all_calls_work :: socket_calls where
  "all_calls_work = \<lparr>sx_create_dir = None, sx_chmod_dir = None, sx_metadata = None, sx_remove = None, sx_bind = None, sx_chmod = None,
     sx_nonblocking = None, sx_from_std = None, sx_default_mode = 0x1FD\<rparr>"

definition sample_sockets :: socket_env where
  "sample_sockets = \<lparr>sk_blake3 = (\<lambda>_. ''0a1b2c3d4e5f6789''), sk_runtime_dir = Some ''/run/user/1'', sk_tmp_exists = True, sk_temp_dir = ''/var/tmp'',
     sk_calls = all_calls_work\<rparr>"

definition no_sockets :: socket_fs where
  "no_sockets = \<lparr>sf_node = Map.empty, sf_alive = {}, sf_next = 0\<rparr>"

section \<open>Facts\<close>

lemmas socket_ops = put_node_def unlink_def close_listener_def cleanup_endpoint_def

lemma keeps_others_refl [simp]: "keeps_others fs fs"
  by (simp add: keeps_others_def)

lemma keeps_others_trans [trans]: "keeps_others a b \<Longrightarrow> keeps_others b c \<Longrightarrow> keeps_others a c"
  by (auto simp: keeps_others_def)

lemma put_keeps: "sf_node fs p = None \<Longrightarrow> keeps_others fs (put_node p n fs)"
  by (auto simp: keeps_others_def put_node_def)

lemma prepare_dir_keeps: "keeps_others fs (fst (prepare_dir X parent fs))"
  by (auto simp: prepare_dir_def put_keeps split: option.splits)

lemma clear_stale_keeps: "keeps_others fs (fst (clear_stale X shown p fs))"
  by (auto simp: clear_stale_def keeps_others_def unlink_def split: option.splits fs_node.splits)

lemma open_listener_keeps: "keeps_others fs (fst (open_listener X shown p fs))"
  by (auto simp: open_listener_def Let_def keeps_others_def put_node_def split: option.splits if_splits)

lemma bind_keeps: "keeps_others fs (fst (bind_unix_listener X ep fs))"
proof (cases "path_parent (components ep)")
  case (Some parent)
  obtain fs1 r1 where 1: "prepare_dir X parent fs = (fs1, r1)" by fastforce
  obtain fs2 r2 where 2: "clear_stale X ep (components ep) fs1 = (fs2, r2)" by fastforce
  have k: "keeps_others fs fs1" "keeps_others fs1 fs2" "keeps_others fs2 (fst (open_listener X ep (components ep) fs2))"
    using prepare_dir_keeps [of fs X parent] clear_stale_keeps [of fs1 X ep "components ep"] open_listener_keeps 1 2 by simp_all
  then show ?thesis using Some 1 2 keeps_others_trans [OF k(1,2)] keeps_others_trans [OF keeps_others_trans [OF k(1,2)] k(3)]
    by (simp add: bind_unix_listener_def Let_def split: sum.split)
qed (simp add: bind_unix_listener_def)

lemma next_prepare [simp]: "sf_next (fst (prepare_dir X parent fs)) = sf_next fs" "sf_alive (fst (prepare_dir X parent fs)) = sf_alive fs"
  by (simp_all add: prepare_dir_def put_node_def split: option.split)

lemma next_clear [simp]: "sf_next (fst (clear_stale X shown p fs)) = sf_next fs" "sf_alive (fst (clear_stale X shown p fs)) = sf_alive fs"
  by (simp_all add: clear_stale_def unlink_def split: option.split fs_node.split)

lemma bind_ok:
  assumes "bind_unix_listener X ep fs = (fs1, Ok i)"
  shows "i = sf_next fs" and "sf_next fs1 = Suc (sf_next fs)" and "sf_alive fs1 = insert i (sf_alive fs)"
    and "sf_node fs1 (components ep) = Some (SocketNode i 0x180)"
proof -
  let ?p = "components ep"
  obtain parent where pp: "path_parent ?p = Some parent" using assms by (auto simp: bind_unix_listener_def Let_def split: option.splits)
  obtain fsa ra where a: "prepare_dir X parent fs = (fsa, ra)" by fastforce
  obtain fsb rb where b: "clear_stale X ep ?p fsa = (fsb, rb)" by fastforce
  have opened: "open_listener X ep ?p fsb = (fs1, Ok i)"
    using assms pp a b by (simp add: bind_unix_listener_def Let_def split: sum.splits)
  have same: "sf_next fsb = sf_next fs" "sf_alive fsb = sf_alive fs"
    using next_prepare [of X parent fs] next_clear [of X ep ?p fsa] a b by simp_all
  show "i = sf_next fs" "sf_next fs1 = Suc (sf_next fs)" "sf_alive fs1 = insert i (sf_alive fs)"
      "sf_node fs1 (components ep) = Some (SocketNode i 0x180)"
    using opened same by (auto simp: open_listener_def Let_def put_node_def split: option.splits if_splits)
qed

lemma spawn_ok:
  assumes "spawn_server K dir k fs = (fs1, Ok h)" and "sx_from_std (sk_calls K) = None"
  shows "bind_unix_listener (sk_calls K) (endpoint_path K dir k) fs = (fs1, Ok (ih_listener h))"
    and "ih_endpoint h = endpoint_path K dir k" and "ih_kind h = k"
  using assms by (auto simp: spawn_server_def Let_def split: prod.splits sum.splits)

lemma spawn_keeps: "keeps_others fs (fst (spawn_server K dir k fs))"
proof -
  let ?ep = "endpoint_path K dir k"
  obtain fs1 r where b: "bind_unix_listener (sk_calls K) ?ep fs = (fs1, r)" by fastforce
  have k: "keeps_others fs fs1" using bind_keeps [of fs "sk_calls K" ?ep] b by simp
  show ?thesis
  proof (cases r)
    case (Inr i)
    then have "sf_node fs1 (components ?ep) = Some (SocketNode i 0x180)" using bind_ok(4) [of "sk_calls K" ?ep fs fs1 i] b by simp
    then have "keeps_others fs1 (cleanup_endpoint (sx_remove (sk_calls K) = None) ?ep (close_listener i fs1))"
      by (auto simp: keeps_others_def socket_ops)
    from keeps_others_trans [OF k this] show ?thesis using b Inr k by (simp add: spawn_server_def Let_def split: option.split)
  qed (use b k in \<open>simp add: spawn_server_def Let_def\<close>)
qed

lemma reached_stop [simp]: "reached (stop_server h fs) (ih_endpoint h) = None"
  by (auto simp: reached_def stop_server_def stop_server_with_def socket_ops split: option.split fs_node.split)

lemma alive_stop [simp]: "sf_alive (stop_server h fs) = sf_alive fs - {ih_listener h}"
  by (simp add: stop_server_def stop_server_with_def socket_ops split: option.split fs_node.split)

text \<open>When every call works, a server starts on a free path and also on one that another server holds.\<close>

lemma parent_differs: "path_parent p = Some q \<Longrightarrow> q \<noteq> p"
  by (auto simp: path_parent_def split: if_splits) (metis append_butlast_last_id append_self_conv not_Cons_self2)

lemma bind_works:
  assumes "path_parent (components ep) = Some parent" and "sf_node fs parent = None \<or> (\<exists>m. sf_node fs parent = Some (DirNode m))"
    and "sf_node fs (components ep) = None \<or> (\<exists>i m. sf_node fs (components ep) = Some (SocketNode i m))"
  shows "\<exists>fs1 i. bind_unix_listener all_calls_work ep fs = (fs1, Ok i) \<and> (\<exists>m. sf_node fs1 parent = Some (DirNode m))"
  using assms parent_differs [OF assms(1)]
  by (auto simp: bind_unix_listener_def Let_def prepare_dir_def clear_stale_def open_listener_def path_exists_def put_node_def unlink_def
      all_calls_work_def)

lemma sample_spawn:
  "\<exists>h. snd (spawn_server sample_sockets ''/c'' Service no_sockets) = Ok h"
  "\<exists>h. snd (spawn_server sample_sockets ''/c'' Service (fst (spawn_server sample_sockets ''/c'' Service no_sockets))) = Ok h"
proof -
  let ?ep = "endpoint_path sample_sockets ''/c'' Service"
  let ?parent = "[RootDir, Normal ''run'', Normal ''user'', Normal ''1'']"
  have p: "path_parent (components ?ep) = Some ?parent" by code_simp
  have calls: "sk_calls sample_sockets = all_calls_work" "sx_from_std all_calls_work = None"
    by (simp_all add: sample_sockets_def all_calls_work_def)
  obtain fs1 i where 1: "bind_unix_listener all_calls_work ?ep no_sockets = (fs1, Ok i)" "\<exists>m. sf_node fs1 ?parent = Some (DirNode m)"
    using bind_works [OF p, of no_sockets] by (auto simp: no_sockets_def)
  moreover obtain fs2 j where "bind_unix_listener all_calls_work ?ep fs1 = (fs2, Ok j)"
    using bind_works [OF p, of fs1] 1 bind_ok(4) [OF 1(1)] by blast
  ultimately show "\<exists>h. snd (spawn_server sample_sockets ''/c'' Service no_sockets) = Ok h"
    "\<exists>h. snd (spawn_server sample_sockets ''/c'' Service (fst (spawn_server sample_sockets ''/c'' Service no_sockets))) = Ok h"
    by (simp_all add: spawn_server_def Let_def calls)
qed

section \<open>Properties\<close>

text \<open>
  A server that starts is the one clients of its endpoint reach, its socket is open to its owner only, and the
  start, whether it succeeds or not, removes or replaces nothing in the file system but a socket; a
  stopped server is not reached any more.
\<close>

theorem server_endpoint_owned:
  "keeps_others fs (fst (spawn_server K dir k fs)) \<and>
   (spawn_server K dir k fs = (fs1, Ok h) \<and> sx_from_std (sk_calls K) = None \<longrightarrow>
      ih_endpoint h = endpoint_path K dir k \<and> reached fs1 (endpoint_path K dir k) = Some (ih_listener h) \<and>
      sf_node fs1 (components (endpoint_path K dir k)) = Some (SocketNode (ih_listener h) 0x180) \<and>
      reached (stop_server h fs1) (endpoint_path K dir k) = None)"
proof -
  have "reached fs1 (endpoint_path K dir k) = Some (ih_listener h) \<and>
      sf_node fs1 (components (endpoint_path K dir k)) = Some (SocketNode (ih_listener h) 0x180) \<and>
      reached (stop_server h fs1) (endpoint_path K dir k) = None \<and> ih_endpoint h = endpoint_path K dir k"
    if "spawn_server K dir k fs = (fs1, Ok h)" "sx_from_std (sk_calls K) = None"
    using spawn_ok [OF that] bind_ok(3,4) [OF spawn_ok(1) [OF that]] reached_stop [of h fs1] by (simp add: reached_def)
  then show ?thesis using spawn_keeps by blast
qed

theorem server_endpoint_owned_witness:
  "\<exists>fs1 h. spawn_server sample_sockets ''/c'' Service no_sockets = (fs1, Ok h) \<and>
     reached fs1 (endpoint_path sample_sockets ''/c'' Service) = Some (ih_listener h)"
proof -
  obtain fs1 r where s: "spawn_server sample_sockets ''/c'' Service no_sockets = (fs1, r)" by fastforce
  then have "\<exists>h. r = Ok h" using sample_spawn(1) by simp
  then obtain h where h: "r = Ok h" by blast
  from server_endpoint_owned [of no_sockets sample_sockets "''/c''" Service fs1 h] s h show ?thesis
    by (simp add: sample_sockets_def all_calls_work_def)
qed

text \<open>
  C40: Two servers for the same directory: the start of the second one takes the endpoint away from the first, which goes
  on unreached, and when the first one then stops, with a \<^verbatim>\<open>remove_file\<close> that works, it removes the socket of the
  second, which runs on and can no longer be reached.
\<close>

theorem second_server_orphaned:
  assumes "sx_from_std (sk_calls K) = None" and "spawn_server K dir k fs = (fs1, Ok a)" and "spawn_server K dir k fs1 = (fs2, Ok b)"
  shows "reached fs1 (endpoint_path K dir k) = Some (ih_listener a) \<and>
     reached fs2 (endpoint_path K dir k) = Some (ih_listener b) \<and> ih_listener a \<noteq> ih_listener b \<and> ih_listener a \<in> sf_alive fs2 \<and>
     reached (stop_server a fs2) (endpoint_path K dir k) = None \<and> ih_listener b \<in> sf_alive (stop_server a fs2)"
proof -
  note A = spawn_ok [OF assms(2,1)] and B = spawn_ok [OF assms(3,1)]
  note bA = bind_ok [OF A(1)] and bB = bind_ok [OF B(1)]
  have "reached (stop_server a fs2) (endpoint_path K dir k) = None" using reached_stop [of a fs2] A(2) by simp
  then show ?thesis using bA bB by (simp add: reached_def)
qed

theorem second_server_orphaned_witness:
  "\<exists>fs1 fs2 a b. spawn_server sample_sockets ''/c'' Service no_sockets = (fs1, Ok a) \<and>
     spawn_server sample_sockets ''/c'' Service fs1 = (fs2, Ok b) \<and>
     reached (stop_server a fs2) (endpoint_path sample_sockets ''/c'' Service) = None \<and> ih_listener b \<in> sf_alive (stop_server a fs2)"
proof -
  obtain fs1 r where s: "spawn_server sample_sockets ''/c'' Service no_sockets = (fs1, r)" by fastforce
  obtain fs2 r2 where s2: "spawn_server sample_sockets ''/c'' Service fs1 = (fs2, r2)" by fastforce
  obtain a b where ab: "r = Ok a" "r2 = Ok b" using sample_spawn s s2 by fastforce
  have "sx_from_std (sk_calls sample_sockets) = None" by (simp add: sample_sockets_def all_calls_work_def)
  from second_server_orphaned [OF this s [unfolded ab] s2 [unfolded ab]] s s2 ab show ?thesis by blast
qed

end
