(* ===== verification/HeadlessDaemon.thy ===== *)
theory HeadlessDaemon
  imports IpcSockets
begin

text \<open>
  The daemon without a user interface, from \<^verbatim>\<open>lib.rs\<close>: the time-out of the environment, the loop that ends the process
  after a period without work, and the run around it.  At each tick of a two-second interval the loop checks whether something
  blocks the exit; check number \<open>n\<close> meets what the other tasks of the process made of the state meanwhile, and
  reads the clocks several times: \<open>id_instant n r\<close> and \<open>id_unix n r\<close> are the readings of number \<open>r\<close>, in nanoseconds
  and in milliseconds.  Nothing is assumed of the readings in the definitions: the interval of the loop lets late
  ticks follow each other at once.  The loop is a partial function: it need not return.
\<close>

section \<open>Definitions\<close>

text \<open>\<^verbatim>\<open>str::parse::<u64>\<close>: an optional plus sign and at least one digit, within the range of the type.\<close>

definition is_digit :: "char \<Rightarrow> bool" where
  "is_digit c \<longleftrightarrow> of_char c \<ge> (48 :: nat) \<and> of_char c \<le> (57 :: nat)"

definition parse_u64 :: "string \<Rightarrow> u64 option" where
  "parse_u64 s =
     (let ds = (case s of CHR ''+'' # rest \<Rightarrow> rest | _ \<Rightarrow> s) in
      if ds = [] \<or> \<not> list_all is_digit ds \<or> read_nat ds > U64_MAX then None else Some (read_nat ds))"

definition headless_idle_exit_timeout_secs_from_env :: "string option \<Rightarrow> u64 option" where
  "headless_idle_exit_timeout_secs_from_env raw =
     (case Option.bind raw (\<lambda>v. parse_u64 (trim v)) of
        Some secs \<Rightarrow> (if secs > 0 then Some secs else None)
      | None \<Rightarrow> None)"

record idle_env =
  id_meanwhile :: "nat \<Rightarrow> service_state \<Rightarrow> service_state"
  id_instant :: "nat \<Rightarrow> nat \<Rightarrow> nat"
  id_unix :: "nat \<Rightarrow> nat \<Rightarrow> u64"
  id_db_ok :: "nat \<Rightarrow> bool"

definition nanos :: "u64 \<Rightarrow> nat" where
  "nanos secs = secs * 1000000000"

definition quoted :: "string \<Rightarrow> string" where
  "quoted s = CHR 0x22 # s @ [CHR 0x22]"

definition shutdown_payload :: "u64 \<Rightarrow> string" where
  "shutdown_payload T = ''{'' @ quoted ''reason'' @ '':'' @ quoted ''idle_timeout_elapsed'' @ '','' @ quoted ''timeout_secs'' @
     '':'' @ show_nat T @ ''}''"

definition on_process :: "(process_info \<Rightarrow> process_info) \<Rightarrow> service_state \<Rightarrow> service_state" where
  "on_process f s = s\<lparr>sv_process := f (sv_process s)\<rparr>"

text \<open>The end of the loop: the status and the last event.\<close>

definition announce_shutdown :: "idle_env \<Rightarrow> u64 \<Rightarrow> nat \<Rightarrow> service_state \<Rightarrow> service_state" where
  "announce_shutdown env T n s =
     (let s1 = on_process (\<lambda>p. p\<lparr>pi_daemon_status := ''headless_idle_shutdown''\<rparr>) s in
      s1\<lparr>sv_feed := fst (record_runtime_event (id_unix env n 2) (id_db_ok env n) ''daemon_idle_shutdown_triggered''
           (shutdown_payload T) (sv_feed s1))\<rparr>)"

text \<open>One pass: the state after it, since when the daemon is idle, and whether the loop returns.\<close>

definition idle_check ::
    "idle_env \<Rightarrow> u64 \<Rightarrow> nat \<Rightarrow> nat option \<Rightarrow> service_state \<Rightarrow> service_state \<times> nat option \<times> bool" where
  "idle_check env T n started s =
     (let s0 = id_meanwhile env n s;
          (st, blockers) = headless_idle_blockers (id_unix env n 0) (sv_app s0);
          s1 = s0\<lparr>sv_app := st\<rparr>
      in if blockers = []
         then (let since = (case started of Some t \<Rightarrow> t | None \<Rightarrow> id_instant env n 0);
                   remaining = sat_sub (nanos T) (sat_sub (id_instant env n 1) since);
                   till = sat_add (id_unix env n 1) (min (remaining div 1000000) U64_MAX);
                   s2 = on_process (set_daemon_idle_monitor_state True (Some T) (Some till) []) s1
               in if sat_sub (id_instant env n 2) since \<ge> nanos T
                  then (announce_shutdown env T n s2, Some since, True) else (s2, Some since, False))
         else (on_process (set_daemon_idle_monitor_state True (Some T) None blockers) s1, None, False))"

partial_function (option) await_headless_idle_shutdown ::
    "idle_env \<Rightarrow> u64 \<Rightarrow> nat \<Rightarrow> nat option \<Rightarrow> service_state \<Rightarrow> (nat \<times> service_state) option" where
  "await_headless_idle_shutdown env T n started s =
     (case idle_check env T n started s of
        (s1, started1, finished) \<Rightarrow>
          (if finished then Some (n, s1) else await_headless_idle_shutdown env T (n + 1) started1 s1))"

text \<open>The same loop up to a signal that comes before pass number \<open>n + k\<close>; \<open>Inl\<close> is the state when it comes.\<close>

primrec idle_until :: "idle_env \<Rightarrow> u64 \<Rightarrow> nat \<Rightarrow> nat \<Rightarrow> nat option \<Rightarrow> service_state \<Rightarrow> service_state + service_state" where
  "idle_until env T 0 n started s = Inl s"
| "idle_until env T (Suc k) n started s =
     (case idle_check env T n started s of
        (s1, started1, finished) \<Rightarrow> (if finished then Inr s1 else idle_until env T k (n + 1) started1 s1))"

section \<open>The run of the daemon\<close>

text \<open>
  What the run meets: the directories of the environment, the state that \<^verbatim>\<open>initialize_state_at\<close> reads from the
  directory, the sockets, the variable with the time-out, and the
  interrupt signal: never, or before some pass, with the result of waiting for it.
\<close>

record headless_env =
  hl_override :: "string option"
  hl_xdg :: "string option"
  hl_home :: "string option"
  hl_initialize :: "string \<Rightarrow> string + service_state"
  hl_sockets :: socket_env
  hl_idle_var :: "string option"
  hl_signal :: "(nat \<times> (string + unit)) option"
  hl_idle :: idle_env

datatype headless_error = NoConfigDir | InitFailed string | StartFailed string | SignalFailed string

definition headless_ready :: "service_state \<Rightarrow> service_state" where
  "headless_ready =
     on_process (\<lambda>p. p\<lparr>pi_control_plane_mode := ''daemon'', pi_requested_control_plane_mode := ''daemon'',
       pi_runtime_profile := ''headless'', pi_daemon_status := ''headless_active'', pi_daemon_connect_attempts := 0,
       pi_daemon_connect_strategy := ''headless_direct''\<rparr>)"

definition start_idle_monitor :: "u64 option \<Rightarrow> u64 \<Rightarrow> service_state \<Rightarrow> service_state" where
  "start_idle_monitor timeout now s =
     (case timeout of
        Some T \<Rightarrow>
          (case headless_idle_blockers now (sv_app s) of
             (st, blockers) \<Rightarrow> on_process (set_daemon_idle_monitor_state True (Some T) None blockers) (s\<lparr>sv_app := st\<rparr>))
      | None \<Rightarrow> on_process (set_daemon_idle_monitor_state False None None []) s)"

definition wait_for_shutdown :: "headless_env \<Rightarrow> u64 option \<Rightarrow> service_state \<Rightarrow> (headless_error + service_state) option" where
  "wait_for_shutdown H timeout s =
     (let signalled = (\<lambda>r s1. case r of Inl e \<Rightarrow> Err (SignalFailed e) | Inr _ \<Rightarrow> Ok s1) in
      case (timeout, hl_signal H) of
        (None, None) \<Rightarrow> None
      | (None, Some (_, r)) \<Rightarrow> Some (signalled r s)
      | (Some T, None) \<Rightarrow>
          (case await_headless_idle_shutdown (hl_idle H) T 0 None s of None \<Rightarrow> None | Some (_, s1) \<Rightarrow> Some (Ok s1))
      | (Some T, Some (k, r)) \<Rightarrow>
          Some (case idle_until (hl_idle H) T k 0 None s of Inl s1 \<Rightarrow> signalled r s1 | Inr s1 \<Rightarrow> Ok s1))"

text \<open>The handle of the runtime is dropped when the run returns; the tasks it started act on the state through \<open>id_meanwhile\<close>.\<close>

definition run_headless_daemon :: "headless_env \<Rightarrow> u64 \<Rightarrow> socket_fs \<Rightarrow> (socket_fs \<times> (headless_error + service_state)) option" where
  "run_headless_daemon H now fs =
     (case resolve_headless_config_dir (hl_override H) (hl_xdg H) (hl_home H) of
        None \<Rightarrow> Some (fs, Err NoConfigDir)
      | Some dir \<Rightarrow>
          (case hl_initialize H dir of
             Inl e \<Rightarrow> Some (fs, Err (InitFailed e))
           | Inr s \<Rightarrow>
               (case start_runtime_supervisor (hl_sockets H) dir fs of
                  (fs1, Inl e) \<Rightarrow> Some (fs1, Err (StartFailed e))
                | (fs1, Inr handle) \<Rightarrow>
                    (let timeout = headless_idle_exit_timeout_secs_from_env (hl_idle_var H) in
                     map_option (Pair (stop_server_with (sx_remove (sk_calls (hl_sockets H)) = None) (rh_server handle) fs1))
                       (wait_for_shutdown H timeout (start_idle_monitor timeout now (headless_ready s)))))))"

section \<open>The passes of the loop\<close>

text \<open>The state and the idle time stamp before pass \<open>n\<close> of a loop that did not return before.\<close>

primrec idle_trace :: "idle_env \<Rightarrow> u64 \<Rightarrow> service_state \<Rightarrow> nat \<Rightarrow> service_state \<times> nat option" where
  "idle_trace env T s 0 = (s, None)"
| "idle_trace env T s (Suc n) =
     (case idle_trace env T s n of (s1, started) \<Rightarrow>
        (case idle_check env T n started s1 of (s2, started2, _) \<Rightarrow> (s2, started2)))"

definition finishes :: "idle_env \<Rightarrow> u64 \<Rightarrow> service_state \<Rightarrow> nat \<Rightarrow> bool" where
  "finishes env T s n = (case idle_trace env T s n of (s1, started) \<Rightarrow> snd (snd (idle_check env T n started s1)))"

text \<open>The shared state that pass \<open>n\<close> looks at, and whether nothing there keeps the daemon alive.\<close>

definition seen_app :: "idle_env \<Rightarrow> u64 \<Rightarrow> service_state \<Rightarrow> nat \<Rightarrow> app_state" where
  "seen_app env T s n = sv_app (id_meanwhile env n (fst (idle_trace env T s n)))"

definition no_work :: "u64 \<Rightarrow> app_state \<Rightarrow> bool" where
  "no_work now st \<longleftrightarrow>
     list_all (\<lambda>(k, r). expires_at_unix_ms r \<le> now) (access_tokens st) \<and> list_all (\<lambda>(i, t). is_terminal (status t)) (transfers st)"

text \<open>What other tasks do to a daemon that nobody uses: no grant is issued and no transfer is started.\<close>

definition unused :: "(service_state \<Rightarrow> service_state) \<Rightarrow> bool" where
  "unused f \<longleftrightarrow>
     (\<forall>s. set (access_tokens (sv_app (f s))) \<subseteq> set (access_tokens (sv_app s)) \<and>
          (list_all (\<lambda>(i, t). is_terminal (status t)) (transfers (sv_app s)) \<longrightarrow>
           list_all (\<lambda>(i, t). is_terminal (status t)) (transfers (sv_app (f s)))))"

definition calm_env :: idle_env where
  "calm_env = \<lparr>id_meanwhile = (\<lambda>_. id), id_instant = (\<lambda>n _. 5 + n * 2000000000), id_unix = (\<lambda>n _. 899000 + 2000 * n), id_db_ok = (\<lambda>_. False)\<rparr>"

section \<open>Facts\<close>

declare idle_trace.simps(2) [simp del]

lemmas check_defs = idle_check_def Let_def case_prod_beta

lemma no_blockers_iff: "snd (headless_idle_blockers now st) = [] \<longleftrightarrow> no_work now st"
  by (simp add: idle_iff_no_work no_work_def)

lemma announce_app [simp]: "sv_app (announce_shutdown env T n s) = sv_app s"
  by (simp add: announce_shutdown_def Let_def on_process_def)

lemma on_process_app [simp]: "sv_app (on_process f s) = sv_app s"
  by (simp add: on_process_def)

lemma check_app:
  "sv_app (fst (idle_check env T n started s)) = fst (headless_idle_blockers (id_unix env n 0) (sv_app (id_meanwhile env n s)))"
  by (simp add: check_defs)

lemma check_started:
  "fst (snd (idle_check env T n started s)) =
     (if no_work (id_unix env n 0) (sv_app (id_meanwhile env n s))
      then Some (case started of Some t \<Rightarrow> t | None \<Rightarrow> id_instant env n 0) else None)"
  by (simp add: check_defs flip: no_blockers_iff)

lemma check_finished:
  "snd (snd (idle_check env T n started s)) \<longleftrightarrow>
     no_work (id_unix env n 0) (sv_app (id_meanwhile env n s)) \<and>
     nanos T \<le> sat_sub (id_instant env n 2) (case started of Some t \<Rightarrow> t | None \<Rightarrow> id_instant env n 0)"
  by (simp add: check_defs flip: no_blockers_iff)

lemma check_announces:
  "snd (snd (idle_check env T n started s)) \<Longrightarrow> pi_daemon_status (sv_process (fst (idle_check env T n started s))) = ''headless_idle_shutdown''"
  by (auto simp: check_defs announce_shutdown_def on_process_def split: if_splits)

lemma trace_Suc:
  "fst (idle_trace env T s (Suc n)) = fst (idle_check env T n (snd (idle_trace env T s n)) (fst (idle_trace env T s n)))"
  "snd (idle_trace env T s (Suc n)) = fst (snd (idle_check env T n (snd (idle_trace env T s n)) (fst (idle_trace env T s n))))"
  by (simp_all add: idle_trace.simps(2) case_prod_beta)

lemma finishes_check:
  "finishes env T s n = snd (snd (idle_check env T n (snd (idle_trace env T s n)) (fst (idle_trace env T s n))))"
  by (simp add: finishes_def case_prod_beta)

lemma trace_started:
  "snd (idle_trace env T s (Suc n)) =
     (if no_work (id_unix env n 0) (seen_app env T s n)
      then Some (case snd (idle_trace env T s n) of Some t \<Rightarrow> t | None \<Rightarrow> id_instant env n 0) else None)"
  by (simp add: trace_Suc check_started seen_app_def)

lemma finishes_iff:
  "finishes env T s n \<longleftrightarrow>
     no_work (id_unix env n 0) (seen_app env T s n) \<and>
     nanos T \<le> sat_sub (id_instant env n 2) (case snd (idle_trace env T s n) of Some t \<Rightarrow> t | None \<Rightarrow> id_instant env n 0)"
  by (simp add: finishes_check check_finished seen_app_def)

text \<open>The time stamp is the start of the current period without work.\<close>

lemma started_since:
  "snd (idle_trace env T s n) = Some t \<Longrightarrow>
     \<exists>m<n. t = id_instant env m 0 \<and> (\<forall>i. m \<le> i \<and> i < n \<longrightarrow> no_work (id_unix env i 0) (seen_app env T s i))"
proof (induction n arbitrary: t)
  case (Suc n)
  then have here: "no_work (id_unix env n 0) (seen_app env T s n)"
    and t: "t = (case snd (idle_trace env T s n) of Some t \<Rightarrow> t | None \<Rightarrow> id_instant env n 0)"
    by (simp_all add: trace_started split: if_splits)
  show ?case
  proof (cases "snd (idle_trace env T s n)")
    case None
    then show ?thesis using here t by (intro exI [of _ n]) (auto simp: less_Suc_eq)
  next
    case (Some u)
    from Suc.IH [OF Some] here show ?thesis using t Some
      by (metis less_Suc_eq option.simps(5))
  qed
qed simp

lemma started_by:
  assumes "\<And>i. m \<le> i \<Longrightarrow> i < n \<Longrightarrow> no_work (id_unix env i 0) (seen_app env T s i)" and "m < n"
  shows "\<exists>j\<le>m. snd (idle_trace env T s n) = Some (id_instant env j 0)"
  using assms
proof (induction n)
  case (Suc n)
  have w: "no_work (id_unix env n 0) (seen_app env T s n)" using Suc.prems by simp
  show ?case
  proof (cases "m = n")
    case True
    then show ?thesis using w started_since [of env T s n]
      by (cases "snd (idle_trace env T s n)") (auto simp: trace_started intro: less_imp_le)
  next
    case False
    then have "m < n" using Suc.prems(2) by simp
    with Suc.IH Suc.prems(1) obtain j where "j \<le> m" "snd (idle_trace env T s n) = Some (id_instant env j 0)" by force
    then show ?thesis using w by (auto simp: trace_started)
  qed
qed simp

text \<open>The loop returns at its first finishing pass, and only there.\<close>

lemma await_skips:
  "(\<And>i. i < k \<Longrightarrow> \<not> finishes env T s i) \<Longrightarrow>
   await_headless_idle_shutdown env T 0 None s =
   await_headless_idle_shutdown env T k (snd (idle_trace env T s k)) (fst (idle_trace env T s k))"
proof (induction k)
  case (Suc k)
  then have "\<not> snd (snd (idle_check env T k (snd (idle_trace env T s k)) (fst (idle_trace env T s k))))"
    by (simp add: finishes_check)
  moreover have "await_headless_idle_shutdown env T 0 None s =
      await_headless_idle_shutdown env T k (snd (idle_trace env T s k)) (fst (idle_trace env T s k))"
    using Suc by simp
  ultimately show ?case
    by (subst (asm) (2) await_headless_idle_shutdown.simps) (simp add: case_prod_beta trace_Suc)
qed simp

lemma await_finishes:
  assumes "\<And>i. i < n \<Longrightarrow> \<not> finishes env T s i" and "finishes env T s n"
  shows "await_headless_idle_shutdown env T 0 None s = Some (n, fst (idle_trace env T s (Suc n)))"
  using await_skips [OF assms(1)] assms(2)
  by (subst (asm) (2) await_headless_idle_shutdown.simps) (simp add: case_prod_beta trace_Suc finishes_check)

lemma await_finishes_somewhere:
  "await_headless_idle_shutdown env T k started u = Some r \<Longrightarrow> started = snd (idle_trace env T s k) \<Longrightarrow>
   u = fst (idle_trace env T s k) \<Longrightarrow> \<exists>i. finishes env T s i"
proof (induction env T k started u r rule: await_headless_idle_shutdown.raw_induct [rotated, consumes 1, case_names step])
  case (step f env T k started u r)
  let ?c = "idle_check env T k started u"
  show ?case
  proof (cases "snd (snd ?c)")
    case True
    then show ?thesis using step(3,4) by (auto simp: finishes_check)
  next
    case False
    then have "f env T (k + 1) (fst (snd ?c)) (fst ?c) = Some r" using step(2) by (simp add: case_prod_beta)
    then show ?thesis by (rule step(1)) (simp_all add: trace_Suc step(3,4))
  qed
qed

lemma await_Some:
  assumes "await_headless_idle_shutdown env T 0 None s = Some (n, s1)"
  shows "finishes env T s n" and "s1 = fst (idle_trace env T s (Suc n))"
proof -
  have "\<exists>i. finishes env T s i" by (rule await_finishes_somewhere [OF assms]) simp_all
  then obtain i where i: "finishes env T s i" "\<And>j. j < i \<Longrightarrow> \<not> finishes env T s j"
    by (metis exists_least_iff)
  from await_finishes [OF i(2,1)] assms i(1) show "finishes env T s n" "s1 = fst (idle_trace env T s (Suc n))" by auto
qed

text \<open>Nothing blocks the exit once nobody uses the daemon and the last grant has run out.\<close>

lemma blockers_app:
  "set (access_tokens (fst (headless_idle_blockers now st))) \<subseteq> set (access_tokens st)"
  "transfers (fst (headless_idle_blockers now st)) = transfers st"
  by (auto simp: headless_idle_blockers_def active_local_ipc_access_grant_count_def retain_live_def Let_def)

lemma unused_trace:
  assumes "\<And>i. k \<le> i \<Longrightarrow> unused (id_meanwhile env i)"
    and "list_all (\<lambda>(i, t). is_terminal (status t)) (transfers (sv_app (fst (idle_trace env T s k))))"
  shows "set (access_tokens (sv_app (fst (idle_trace env T s (k + d))))) \<subseteq> set (access_tokens (sv_app (fst (idle_trace env T s k)))) \<and>
    list_all (\<lambda>(i, t). is_terminal (status t)) (transfers (sv_app (fst (idle_trace env T s (k + d)))))"
proof (induction d)
  case (Suc d)
  have "unused (id_meanwhile env (k + d))" using assms(1) by simp
  with Suc.IH show ?case
    unfolding add_Suc_right trace_Suc check_app unused_def blockers_app(2)
    using blockers_app(1) [of "id_unix env (k + d) 0" "sv_app (id_meanwhile env (k + d) (fst (idle_trace env T s (k + d))))"]
    by blast
qed (simp add: assms(2))

lemma unused_no_work:
  assumes "\<And>i. k \<le> i \<Longrightarrow> unused (id_meanwhile env i)"
    and "list_all (\<lambda>(i, t). is_terminal (status t)) (transfers (sv_app (fst (idle_trace env T s k))))"
    and "\<And>x r. (x, r) \<in> set (access_tokens (sv_app (fst (idle_trace env T s k)))) \<Longrightarrow> expires_at_unix_ms r \<le> id_unix env n 0"
    and "k \<le> n"
  shows "no_work (id_unix env n 0) (seen_app env T s n)"
proof -
  let ?s = "fst (idle_trace env T s n)"
  have "set (access_tokens (sv_app ?s)) \<subseteq> set (access_tokens (sv_app (fst (idle_trace env T s k))))"
    "list_all (\<lambda>(i, t). is_terminal (status t)) (transfers (sv_app ?s))"
    using unused_trace [OF assms(1,2), of "n - k"] assms(4) by auto
  moreover have "unused (id_meanwhile env n)" using assms(1,4) by simp
  ultimately show ?thesis using assms(3) unfolding no_work_def seen_app_def unused_def list_all_iff by fastforce
qed

section \<open>Properties\<close>

text \<open>
  C34: The daemon ends itself only when it is idle: when the loop returns, there is a period without work that
  lasted for at least the time-out, and at every check in this period, the last one included, no access grant
  was live and no transfer was a draft, waiting for acceptance or running.
\<close>

theorem idle_exit_only_when_idle:
  assumes "await_headless_idle_shutdown env T 0 None s = Some (n, s')"
  shows "\<exists>m\<le>n. nanos T \<le> sat_sub (id_instant env n 2) (id_instant env m 0) \<and>
     (\<forall>i. m \<le> i \<and> i \<le> n \<longrightarrow> no_work (id_unix env i 0) (seen_app env T s i)) \<and>
     pi_daemon_status (sv_process s') = ''headless_idle_shutdown''"
proof -
  note f = await_Some [OF assms]
  have st: "pi_daemon_status (sv_process s') = ''headless_idle_shutdown''"
    using f check_announces by (simp add: trace_Suc finishes_check)
  show ?thesis
  proof (cases "snd (idle_trace env T s n)")
    case None
    then show ?thesis using f(1) st by (intro exI [of _ n]) (auto simp: finishes_iff dest: antisym)
  next
    case (Some t)
    with started_since [OF Some] f(1) st show ?thesis
      by (auto simp: finishes_iff) (metis le_neq_implies_less less_imp_le)
  qed
qed

theorem idle_exit_only_when_idle_witness:
  "\<exists>n s' m. await_headless_idle_shutdown calm_env 1 0 None (sample_state\<lparr>sv_app := sample_app\<rparr>) = Some (n, s') \<and> m \<le> n \<and>
     nanos 1 \<le> sat_sub (id_instant calm_env n 2) (id_instant calm_env m 0) \<and> pi_daemon_status (sv_process s') = ''headless_idle_shutdown''"
proof -
  let ?s = "sample_state\<lparr>sv_app := sample_app\<rparr>"
  have w: "no_work (id_unix calm_env n 0) (seen_app calm_env 1 ?s n)" for n
    by (rule unused_no_work [where k = 0]) (simp_all add: calm_env_def unused_def sample_app_def)
  have t: "snd (idle_trace calm_env 1 ?s 1) = Some (id_instant calm_env 0 0)"
    using w [of 0] trace_started [of calm_env 1 ?s 0] by simp
  have "\<not> finishes calm_env 1 ?s 0" "finishes calm_env 1 ?s 1"
    using w [of 1] t by (simp_all add: finishes_iff) (simp_all add: calm_env_def nanos_def sat_sub_def)
  then have run: "await_headless_idle_shutdown calm_env 1 0 None ?s = Some (1, fst (idle_trace calm_env 1 ?s (Suc 1)))"
    by (intro await_finishes) (simp_all add: less_Suc_eq)
  from idle_exit_only_when_idle [OF run] run show ?thesis by blast
qed

text \<open>
  C35: An abandoned daemon ends: when from some check on nobody asks for a grant or starts a transfer and all
  transfers are over, and from check \<open>m\<close> on the wall clock has passed the expiry of the grants that are left, the
  loop returns, and at the latest at the first check after \<open>m\<close> that is made the time-out or more after check
  \<open>m\<close>.  Of the two-second interval only this is used: the clock of the checks does not run backwards, and tick
  number \<open>n\<close> never comes before \<open>n\<close> periods have passed since the interval was made.  Ticks that are late may
  come in a burst, so nothing is said on the number of checks.
\<close>

theorem abandoned_daemon_exits:
  assumes "\<And>i. k \<le> i \<Longrightarrow> unused (id_meanwhile env i)"
    and "list_all (\<lambda>(i, t). is_terminal (status t)) (transfers (sv_app (fst (idle_trace env T s k))))"
    and "\<And>x r n. (x, r) \<in> set (access_tokens (sv_app (fst (idle_trace env T s k)))) \<Longrightarrow> m \<le> n \<Longrightarrow>
       expires_at_unix_ms r \<le> id_unix env n 0"
    and "k \<le> m"
    and "\<And>i j. i \<le> j \<Longrightarrow> id_instant env i 0 \<le> id_instant env j 0" and "\<And>i. id_instant env i 0 \<le> id_instant env i 2"
    and "\<And>i. start + i * nanos 2 \<le> id_instant env i 0"
  shows "\<exists>n s'. await_headless_idle_shutdown env T 0 None s = Some (n, s') \<and>
    (\<forall>i. m < i \<and> id_instant env m 0 + nanos T \<le> id_instant env i 2 \<longrightarrow> n \<le> i)"
proof -
  have w: "no_work (id_unix env i 0) (seen_app env T s i)" if "m \<le> i" for i
    using unused_no_work [OF assms(1,2), of i] assms(3) le_trans [OF assms(4) that] that by blast
  have late: "finishes env T s i" if "m < i" "id_instant env m 0 + nanos T \<le> id_instant env i 2" for i
  proof -
    obtain j where "j \<le> m" "snd (idle_trace env T s i) = Some (id_instant env j 0)"
      using started_by [of m i env T s] w \<open>m < i\<close> by auto
    then show ?thesis using w [of i] that assms(5) [of j m] by (simp add: finishes_iff sat_sub_def)
  qed
  define i where "i = Suc m + id_instant env m 0 + nanos T"
  have "i \<le> i * nanos 2" by (simp add: nanos_def)
  also have "\<dots> \<le> id_instant env i 2" using assms(7) [of i] assms(6) [of i] by linarith
  finally have "finishes env T s i" by (intro late) (simp_all add: i_def)
  then obtain n where n: "finishes env T s n" "\<And>j. j < n \<Longrightarrow> \<not> finishes env T s j" by (metis exists_least_iff)
  from await_finishes [OF n(2,1)] show ?thesis using late n(2) by (meson leI)
qed

theorem abandoned_daemon_exits_witness:
  "\<exists>n s'. await_headless_idle_shutdown calm_env 3 0 None sample_state = Some (n, s') \<and> n \<le> 3"
proof -
  have "\<exists>n s'. await_headless_idle_shutdown calm_env 3 0 None sample_state = Some (n, s') \<and>
    (\<forall>i. 1 < i \<and> id_instant calm_env 1 0 + nanos 3 \<le> id_instant calm_env i 2 \<longrightarrow> n \<le> i)"
  proof (rule abandoned_daemon_exits [where k = 0 and start = 0])
    show "unused (id_meanwhile calm_env i)" for i by (simp add: unused_def calm_env_def)
  qed (auto simp: calm_env_def sample_state_def sample_app_def nanos_def)
  moreover have "id_instant calm_env 1 0 + nanos 3 \<le> id_instant calm_env 3 2" by (simp add: calm_env_def nanos_def)
  ultimately show ?thesis by (metis one_less_numeral_iff semiring_norm(77))
qed

end
