(* ===== verification/Startup.thy ===== *)
theory Startup
  imports ControlPlane HeadlessDaemon
begin

text \<open>
  The start of the application shell, from \<^verbatim>\<open>lib.rs\<close> and \<^verbatim>\<open>runtime/supervisor.rs\<close>: a launch is handed over to an instance
  that already runs, or the daemon is looked for, started or built, the control-plane mode is decided and
  recorded, and the runtime is started in this process when no daemon answers.  The state of the running
  instance, of the daemon and of the process are passed along.  What the operating system and \<^verbatim>\<open>cargo\<close> answer, and
  what the other end of a socket is, are arguments; paths and file names are those of Unix.
\<close>

section \<open>The requested mode\<close>

datatype requested_mode = InProcess | Daemon

fun as_env_value :: "requested_mode \<Rightarrow> string" where
  "as_env_value InProcess = ''in_process''"
| "as_env_value Daemon = ''daemon''"

definition runtime_profile_name :: "bool \<Rightarrow> string" where
  "runtime_profile_name dev = (if dev then ''dev'' else ''packaged'')"

definition default_requested_control_plane_mode :: "bool \<Rightarrow> requested_mode" where
  "default_requested_control_plane_mode dev = (if dev then InProcess else Daemon)"

definition requested_control_plane_mode :: "bool \<Rightarrow> string option \<Rightarrow> requested_mode" where
  "requested_control_plane_mode dev var =
     (case map_option (\<lambda>v. to_ascii_lowercase (trim v)) var of
        Some m \<Rightarrow>
          (if m = ''daemon'' then Daemon else if m = ''in_process'' then InProcess
           else default_requested_control_plane_mode dev)
      | None \<Rightarrow> default_requested_control_plane_mode dev)"

definition daemon_control_plane_mode_from_sources :: "string option \<Rightarrow> string option \<Rightarrow> bool" where
  "daemon_control_plane_mode_from_sources state_mode env_mode =
     (let normalized = (\<lambda>v. case map_option (\<lambda>raw. to_ascii_lowercase (trim raw)) v of
            Some m \<Rightarrow> (if m = ''daemon'' then Some m else if m = ''in_process'' then Some m else None)
          | None \<Rightarrow> None)
      in (case normalized state_mode of Some m \<Rightarrow> Some m | None \<Rightarrow> normalized env_mode) = Some ''daemon'')"

definition daemon_control_plane_mode_enabled :: "'s shell_env \<Rightarrow> 's shell \<Rightarrow> bool" where
  "daemon_control_plane_mode_enabled env sh =
     (let m = to_ascii_lowercase (trim (pi_control_plane_mode (sv_process (sh_local sh))));
          state_mode = (if cp_has_state env \<and> m \<noteq> '''' then Some m else None)
      in daemon_control_plane_mode_from_sources state_mode (map_option (\<lambda>v. to_ascii_lowercase (trim v)) (cp_env_mode env)))"

section \<open>The daemon binary\<close>

definition daemon_binary_name_prefix :: string where
  "daemon_binary_name_prefix = ''dashdropd''"

definition daemon_binary_name_candidates :: "string option \<Rightarrow> string option \<Rightarrow> string list" where
  "daemon_binary_name_candidates tauri_triple target =
     daemon_binary_name_prefix #
     (case (case tauri_triple of Some t \<Rightarrow> Some t | None \<Rightarrow> target) of
        Some t \<Rightarrow> [daemon_binary_name_prefix @ ''-'' @ t] | None \<Rightarrow> [])"

definition push_unique_path :: "string \<Rightarrow> string list \<Rightarrow> string list" where
  "push_unique_path p ds = (if p \<in> set ds then ds else ds @ [p])"

definition append_dev_daemon_search_directories :: "string option \<Rightarrow> string \<Rightarrow> string list \<Rightarrow> string list" where
  "append_dev_daemon_search_directories current_dir manifest_dir ds =
     (let own = fold push_unique_path
            [path_join manifest_dir ''binaries'', path_join (path_join manifest_dir ''target'') ''debug'',
             path_join (path_join manifest_dir ''target'') ''release''] ds
      in case current_dir of
           None \<Rightarrow> own
         | Some c \<Rightarrow>
             fold push_unique_path
               [path_join c ''binaries'', path_join (path_join c ''target'') ''debug'', path_join (path_join c ''target'') ''release'',
                path_join (path_join c ''src-tauri'') ''binaries'',
                path_join (path_join (path_join c ''src-tauri'') ''target'') ''debug'',
                path_join (path_join (path_join c ''src-tauri'') ''target'') ''release''] own)"

text \<open>
  What is seen of the file system: whether a path exists, and the entries of a directory with their path,
  their name when it is valid text, and whether they are files.
\<close>

record dir_view =
  dv_exists :: "string \<Rightarrow> bool"
  dv_entries :: "string \<Rightarrow> (string \<times> string option \<times> bool) list option"

definition is_daemon_name :: "string \<Rightarrow> bool" where
  "is_daemon_name n \<longleftrightarrow> n = daemon_binary_name_prefix \<or> n = daemon_binary_name_prefix @ ''.exe'' \<or>
     starts_with n (daemon_binary_name_prefix @ ''-'')"

fun first_binary :: "(string \<times> string option \<times> bool) list \<Rightarrow> string option" where
  "first_binary [] = None"
| "first_binary ((p, nm, regular) # es) =
     (if \<not> regular then first_binary es
      else case nm of
        None \<Rightarrow> first_binary es
      | Some n \<Rightarrow> (if is_daemon_name n then Some p else first_binary es))"

definition resolve_daemon_binary_from_directory :: "dir_view \<Rightarrow> string option \<Rightarrow> string option \<Rightarrow> string \<Rightarrow> string option" where
  "resolve_daemon_binary_from_directory V tauri_triple target dir =
     (case find (dv_exists V) (map (path_join dir) (daemon_binary_name_candidates tauri_triple target)) of
        Some p \<Rightarrow> Some p
      | None \<Rightarrow> (case dv_entries V dir of None \<Rightarrow> None | Some es \<Rightarrow> first_binary es))"

section \<open>The daemon service\<close>

text \<open>What a launch meets; probe number \<open>n\<close> meets the link and the request id of index \<open>n\<close>.\<close>

record 's launch_env =
  la_dev :: bool
  la_triple :: "string option"
  la_target :: "string option"
  la_exe_dir :: "string option"
  la_resource_dir :: "string option"
  la_current_dir :: "string option"
  la_manifest_dir :: string
  la_files :: dir_view
  la_cargo :: "string + bool"
  la_exists_built :: bool
  la_codec :: client_codec
  la_link :: "nat \<Rightarrow> 's daemon_link"
  la_uuid :: "nat \<Rightarrow> string"
  la_spawn :: "string \<Rightarrow> 's \<Rightarrow> 's \<times> (string + unit)"

definition daemon_search_directories :: "'s launch_env \<Rightarrow> string list" where
  "daemon_search_directories L =
     (let ds = fold push_unique_path (case la_exe_dir L of Some d \<Rightarrow> [d] | None \<Rightarrow> []) [];
          ds1 = fold push_unique_path (case la_resource_dir L of Some d \<Rightarrow> [d] | None \<Rightarrow> []) ds
      in if la_dev L then append_dev_daemon_search_directories (la_current_dir L) (la_manifest_dir L) ds1 else ds1)"

fun find_in_directories :: "(string \<Rightarrow> string option) \<Rightarrow> string list \<Rightarrow> string option" where
  "find_in_directories f [] = None"
| "find_in_directories f (d # ds) = (case f d of Some p \<Rightarrow> Some p | None \<Rightarrow> find_in_directories f ds)"

definition resolve_daemon_binary_path :: "'s launch_env \<Rightarrow> string option" where
  "resolve_daemon_binary_path L =
     find_in_directories (resolve_daemon_binary_from_directory (la_files L) (la_triple L) (la_target L)) (daemon_search_directories L)"

definition build_dev_daemon_binary :: "'s launch_env \<Rightarrow> string + string option" where
  "build_dev_daemon_binary L =
     (if \<not> la_dev L then Ok None
      else (let binary = path_join (path_join (path_join (la_manifest_dir L) ''target'') ''debug'') daemon_binary_name_prefix in
            if dv_exists (la_files L) binary then Ok (Some binary)
            else case la_cargo L of
              Inl e \<Rightarrow> Err (''failed to start cargo build for dashdropd: '' @ e)
            | Inr success \<Rightarrow>
                (if \<not> success then Err ''cargo build --bin dashdropd failed''
                 else Ok (if la_exists_built L then Some binary else None))))"

text \<open>A probe counts any response as an answer, also one that refuses the request.\<close>

fun probe_daemon_service :: "'s launch_env \<Rightarrow> u64 list \<Rightarrow> nat \<Rightarrow> 's \<Rightarrow> 's \<times> bool \<times> nat" where
  "probe_daemon_service L [] n d = (d, False, 0)"
| "probe_daemon_service L (delay # delays) n d =
     (case send_command (la_codec L) (la_link L n) (la_uuid L n) AuthIssue d of
        (d1, Inr _) \<Rightarrow> (d1, True, 1)
      | (d1, Inl _) \<Rightarrow> (case probe_daemon_service L delays (n + 1) d1 of (d2, ok, k) \<Rightarrow> (d2, ok, k + 1)))"

record daemon_resolution =
  dr_available :: bool
  dr_binary_path :: "string option"
  dr_status :: string
  dr_connect_attempts :: nat
  dr_connect_strategy :: string

definition existing_delays :: "u64 list" where "existing_delays = [0, 120, 250, 500, 800]"
definition spawn_delays :: "u64 list" where "spawn_delays = [120, 180, 300, 450, 700, 1000, 1400, 1900, 2500]"

text \<open>A binary is started and the daemon is waited for; the three texts are the statuses of the outcomes.\<close>

definition spawn_and_probe ::
    "'s launch_env \<Rightarrow> string \<Rightarrow> nat \<Rightarrow> string \<Rightarrow> string \<Rightarrow> string \<Rightarrow> string \<Rightarrow> 's \<Rightarrow> 's \<times> daemon_resolution" where
  "spawn_and_probe L binary before strategy spawned timeout unspawned d =
     (case la_spawn L binary d of
        (d1, Inl _) \<Rightarrow>
          (d1, \<lparr>dr_available = False, dr_binary_path = Some binary, dr_status = unspawned, dr_connect_attempts = before,
                dr_connect_strategy = strategy\<rparr>)
      | (d1, Inr _) \<Rightarrow>
          (case probe_daemon_service L spawn_delays before d1 of (d2, ok, k) \<Rightarrow>
             (d2, \<lparr>dr_available = ok, dr_binary_path = Some binary, dr_status = (if ok then spawned else timeout),
                   dr_connect_attempts = before + k, dr_connect_strategy = strategy\<rparr>)))"

definition ensure_daemon_service_available :: "'s launch_env \<Rightarrow> requested_mode \<Rightarrow> 's \<Rightarrow> 's \<times> daemon_resolution" where
  "ensure_daemon_service_available L requested d =
     (if requested = InProcess
      then (d, \<lparr>dr_available = False, dr_binary_path = None, dr_status = ''disabled'', dr_connect_attempts = 0,
                dr_connect_strategy = ''in_process_only''\<rparr>)
      else (let binary = resolve_daemon_binary_path L in
            case probe_daemon_service L existing_delays 0 d of (d1, ok, k) \<Rightarrow>
              (if ok
               then (d1, \<lparr>dr_available = True, dr_binary_path = binary,
                          dr_status = (if k \<le> 1 then ''connected_existing'' else ''connected_after_retry''),
                          dr_connect_attempts = k, dr_connect_strategy = ''attach_existing''\<rparr>)
               else case binary of
                 Some b \<Rightarrow> spawn_and_probe L b k ''spawn_sidecar'' ''spawned'' ''spawn_timeout'' ''spawn_failed'' d1
               | None \<Rightarrow>
                   (case build_dev_daemon_binary L of
                      Inr (Some b) \<Rightarrow>
                        spawn_and_probe L b k ''build_and_spawn'' ''spawned_built'' ''spawn_timeout_after_build'' ''spawn_failed_after_build'' d1
                    | Inr None \<Rightarrow>
                        (d1, \<lparr>dr_available = False, dr_binary_path = None, dr_status = ''binary_missing'', dr_connect_attempts = k,
                              dr_connect_strategy = ''binary_missing''\<rparr>)
                    | Inl _ \<Rightarrow>
                        (d1, \<lparr>dr_available = False, dr_binary_path = None, dr_status = ''build_failed'', dr_connect_attempts = k,
                              dr_connect_strategy = ''build_and_spawn''\<rparr>)))))"

section \<open>The set-up\<close>

definition daemon_status_text :: "bool \<Rightarrow> requested_mode \<Rightarrow> requested_mode \<Rightarrow> daemon_resolution \<Rightarrow> string" where
  "daemon_status_text dev requested actual r =
     (if actual = Daemon then dr_status r
      else if requested = Daemon then ''fallback:'' @ dr_status r
      else if runtime_profile_name dev = ''dev'' then ''dev_default_in_process''
      else ''in_process'')"

definition record_modes :: "bool \<Rightarrow> requested_mode \<Rightarrow> requested_mode \<Rightarrow> daemon_resolution \<Rightarrow> service_state \<Rightarrow> service_state" where
  "record_modes dev requested actual r =
     on_process (\<lambda>p. p\<lparr>pi_requested_control_plane_mode := as_env_value requested, pi_control_plane_mode := as_env_value actual,
       pi_runtime_profile := runtime_profile_name dev, pi_daemon_status := daemon_status_text dev requested actual r,
       pi_daemon_connect_attempts := dr_connect_attempts r, pi_daemon_connect_strategy := dr_connect_strategy r,
       pi_daemon_binary_path := dr_binary_path r\<rparr>)"

definition on_sv_app :: "(app_state \<Rightarrow> app_state) \<Rightarrow> service_state \<Rightarrow> service_state" where
  "on_sv_app f s = s\<lparr>sv_app := f (sv_app s)\<rparr>"

definition note_key_storage :: "core_env \<Rightarrow> bool \<Rightarrow> service_state \<Rightarrow> service_state" where
  "note_key_storage E secure s =
     (if secure then s
      else on_sv_app (\<lambda>st.
        (let st1 = fst (emit_json E ''system_error''
               [''security'', ''System secure key store unavailable. Falling back to local key file storage.''] st)
         in if CoreService.env_lock_ok E
            then st1\<lparr>security_db := log_security_event (unix_now (CoreService.env_clock E)) ''key_storage_degraded'' ''startup''
                   (Some (id_fingerprint (sv_identity s))) ''secure key store unavailable; using local key file storage'' (security_db st1)\<rparr>
            else st1)) s)"

definition startup_warning :: "requested_mode \<Rightarrow> daemon_resolution \<Rightarrow> (string \<times> string) option" where
  "startup_warning requested r =
     (if requested = Daemon \<and> dr_binary_path r = None
      then Some (''DAEMON_BINARY_MISSING'',
        ''DashDrop was asked to start in daemon mode, but no dashdropd sidecar was found. Falling back to in-process control plane.'')
      else if dr_binary_path r \<noteq> None
      then Some (''DAEMON_CONTROL_PLANE_FALLBACK'',
        ''DashDrop found a daemon sidecar but stayed on the in-process control plane (status: '' @ dr_status r @ '').'')
      else None)"

definition emit_daemon_startup_warning ::
    "core_env \<Rightarrow> requested_mode \<Rightarrow> requested_mode \<Rightarrow> daemon_resolution \<Rightarrow> app_state \<Rightarrow> app_state" where
  "emit_daemon_startup_warning E requested actual r st =
     (if actual = Daemon then st
      else case startup_warning requested r of
        None \<Rightarrow> st
      | Some (code, message) \<Rightarrow>
          fst (emit_json E ''system_error''
            ([code, ''daemon_control_plane'', message, dr_status r, show_nat (dr_connect_attempts r), dr_connect_strategy r]
             @ (case dr_binary_path r of Some p \<Rightarrow> [p] | None \<Rightarrow> [])) st))"

definition dispatch_startup_share :: "core_env \<Rightarrow> string list \<Rightarrow> app_state \<Rightarrow> app_state" where
  "dispatch_startup_share E paths st =
     (if paths = [] \<or> \<not> env_has_host E then st
      else fst (emit_json E ''external_share_received'' (paths @ [''startup_args'']) st))"

definition dispatch_startup_pairing_links :: "core_env \<Rightarrow> string list \<Rightarrow> app_state \<Rightarrow> app_state" where
  "dispatch_startup_pairing_links E links st =
     (if links = [] \<or> \<not> env_has_host E then st
      else fold (\<lambda>l st. fst (emit_json E ''pairing_link_received'' [l, ''startup_args''] st)) links st)"

definition dispatch_startup :: "core_env \<Rightarrow> string list \<Rightarrow> string list \<Rightarrow> service_state \<Rightarrow> service_state" where
  "dispatch_startup E paths links = on_sv_app (\<lambda>st. dispatch_startup_pairing_links E links (dispatch_startup_share E paths st))"

text \<open>A launch and what it meets: \<open>'u\<close> is the state of the running instance, \<open>'d\<close> that of the daemon.\<close>

record ('u, 'd) setup_env =
  su_base_dir :: "string + string"
  su_override :: "string option"
  su_args :: "string list"
  su_canonicalize :: "string \<Rightarrow> string option"
  su_current_dir :: "string option"
  su_env_mode :: "string option"
  su_codec :: client_codec
  su_ui_link :: "'u daemon_link"
  su_ui_uuid :: string
  su_launch :: "'d launch_env"
  su_initialize :: "string \<Rightarrow> string + service_state"
  su_secure_store :: bool
  su_core :: core_env
  su_sockets :: socket_env

datatype setup_end =
  SetupFailed string | HandedOff | Attached server_handle | ActivationUnavailable string
  | RuntimeStarted runtime_handle | RuntimeUnavailable string

record ('u, 'd) setup_result =
  sr_end :: setup_end
  sr_instance :: 'u
  sr_daemon :: 'd
  sr_state :: "service_state option"
  sr_env_mode :: "string option"
  sr_sockets :: socket_fs

text \<open>\<^verbatim>\<open>std::env::args\<close> panics on an argument that is not valid text.\<close>

definition pairing_links_from_args :: "string list \<Rightarrow> string list run" where
  "pairing_links_from_args args = (if list_all (\<lambda>a. utf8_valid (byte_vals a)) args then Returns (collect_pairing_links args) else Panics)"

text \<open>The hand-over counts any response as a success, also one that refuses the request.\<close>

definition handoff_to_running_ui_instance :: "('u, 'd) setup_env \<Rightarrow> string list \<Rightarrow> string list \<Rightarrow> 'u \<Rightarrow> 'u \<times> bool" where
  "handoff_to_running_ui_instance env paths links u =
     (case send_command (su_codec env) (su_ui_link env) (su_ui_uuid env) (AppActivate paths links) u of
        (u1, Inr _) \<Rightarrow> (u1, True) | (u1, Inl _) \<Rightarrow> (u1, False))"

definition startup_error :: "string \<Rightarrow> string \<Rightarrow> string" where
  "startup_error what e = what @ [CHR 0x0A, CHR 0x0A] @ e"

text \<open>The runtime of this process, or the attachment to the daemon, once the state is initialised.\<close>

definition start_control_plane ::
    "('u, 'd) setup_env \<Rightarrow> requested_mode \<Rightarrow> string \<Rightarrow> string list \<Rightarrow> string list \<Rightarrow> socket_fs \<Rightarrow> service_state \<Rightarrow>
     service_state \<times> socket_fs \<times> setup_end" where
  "start_control_plane env actual dir paths links fs s =
     (let failed = (\<lambda>code subsystem text. on_sv_app (\<lambda>st. fst (emit_json (su_core env) ''system_error'' [code, subsystem, text] st)) s) in
      if actual = Daemon
      then (case spawn_server (su_sockets env) dir UiActivation fs of
              (fs1, Inr h) \<Rightarrow> (dispatch_startup (su_core env) paths links s, fs1, Attached h)
            | (fs1, Inl e) \<Rightarrow>
                (failed ''UI_ACTIVATION_SERVER_START_FAILED'' ''ui_activation'' (''UI activation handoff unavailable: '' @ e), fs1,
                 ActivationUnavailable e))
      else (case start_runtime_supervisor (su_sockets env) dir fs of
              (fs1, Inr h) \<Rightarrow> (dispatch_startup (su_core env) paths links s, fs1, RuntimeStarted h)
            | (fs1, Inl e) \<Rightarrow>
                (failed ''RUNTIME_SUPERVISOR_START_FAILED'' ''runtime_supervisor'' (''Runtime supervisor unavailable: '' @ e), fs1,
                 RuntimeUnavailable e)))"

text \<open>
  The entry that starts the application at login is brought into line on the way (the theory \<^verbatim>\<open>Autostart\<close>); an error there is
  only logged.
\<close>

definition start_shell ::
    "('u, 'd) setup_env \<Rightarrow> string \<Rightarrow> string list \<Rightarrow> string list \<Rightarrow> 'u \<Rightarrow> 'd \<Rightarrow> socket_fs \<Rightarrow> ('u, 'd) setup_result" where
  "start_shell env dir paths links u d fs =
     (let requested = requested_control_plane_mode (la_dev (su_launch env)) (su_env_mode env) in
      case ensure_daemon_service_available (su_launch env) requested d of (d1, r) \<Rightarrow>
        (let actual = (if dr_available r then Daemon else InProcess);
             var = Some (as_env_value actual)
         in case su_initialize env dir of
              Inl e \<Rightarrow>
                \<lparr>sr_end = SetupFailed (startup_error ''Failed to initialize application runtime.'' e), sr_instance = u, sr_daemon = d1,
                 sr_state = None, sr_env_mode = var, sr_sockets = fs\<rparr>
            | Inr s \<Rightarrow>
                (let s1 = note_key_storage (su_core env) (su_secure_store env)
                       (record_modes (la_dev (su_launch env)) requested actual r s);
                     s2 = on_sv_app (emit_daemon_startup_warning (su_core env) requested actual r) s1
                 in case start_control_plane env actual dir paths links fs s2 of (s3, fs1, how) \<Rightarrow>
                      \<lparr>sr_end = how, sr_instance = u, sr_daemon = d1, sr_state = Some s3, sr_env_mode = var, sr_sockets = fs1\<rparr>)))"

definition run_setup :: "('u, 'd) setup_env \<Rightarrow> 'u \<Rightarrow> 'd \<Rightarrow> socket_fs \<Rightarrow> ('u, 'd) setup_result run" where
  "run_setup env u d fs =
     (let fails = (\<lambda>e. Returns \<lparr>sr_end = SetupFailed (startup_error ''Failed to resolve configuration directory.'' e), sr_instance = u,
            sr_daemon = d, sr_state = None, sr_env_mode = su_env_mode env, sr_sockets = fs\<rparr>)
      in case su_base_dir env of
           Inl e \<Rightarrow> fails e
         | Inr base \<Rightarrow>
             (case resolve_config_dir_from_base (su_override env) (Some base) of
                None \<Rightarrow> fails ''''
              | Some dir \<Rightarrow>
                  (case collect_external_share_paths (su_canonicalize env) (su_current_dir env) (su_args env) of
                     Panics \<Rightarrow> Panics
                   | Returns paths \<Rightarrow>
                       (case pairing_links_from_args (su_args env) of
                          Panics \<Rightarrow> Panics
                        | Returns links \<Rightarrow>
                            (case handoff_to_running_ui_instance env paths links u of (u1, handed) \<Rightarrow>
                               Returns (if handed
                                 then \<lparr>sr_end = HandedOff, sr_instance = u1, sr_daemon = d, sr_state = None, sr_env_mode = su_env_mode env,
                                       sr_sockets = fs\<rparr>
                                 else start_shell env dir paths links u1 d fs))))))"

section \<open>What the set-up promises\<close>

text \<open>Some probe got a response.\<close>

definition daemon_answered :: "'d launch_env \<Rightarrow> bool" where
  "daemon_answered L \<longleftrightarrow> (\<exists>n d d' resp. send_command (la_codec L) (la_link L n) (la_uuid L n) AuthIssue d = (d', Ok resp))"

text \<open>The ends in which the shell uses a daemon.\<close>

definition attached :: "setup_end \<Rightarrow> bool" where
  "attached e \<longleftrightarrow> (case e of Attached _ \<Rightarrow> True | ActivationUnavailable _ \<Rightarrow> True | _ \<Rightarrow> False)"

definition activation_events :: "string list \<Rightarrow> string list \<Rightarrow> ui_event list" where
  "activation_events ps links =
     (if ps = [] then [] else [EvHost ''external_share_received'' (ps @ [''app_activate''])]) @
     map (\<lambda>l. EvHost ''pairing_link_received'' [l, ''app_activate'']) links @ [EvHost ''app_window_revealed'' [''runtime_host'']]"

text \<open>A launch with one path to share, beside an instance that runs and without a daemon.\<close>

definition host_core_env :: core_env where
  "host_core_env = sample_core_env\<lparr>ce_env := sample_service_env\<lparr>se_has_host := True\<rparr>\<rparr>"

definition activate_request :: wire_request where
  "activate_request = to_wire_request (AppActivate [''/tmp/x''] []) ''a'' None"

definition activate_codec :: ipc_codec where
  "activate_codec = config_codec\<lparr>dec_request := (\<lambda>_. Some activate_request)\<rparr>"

definition sample_launch :: "service_state launch_env" where
  "sample_launch = \<lparr>la_dev = False, la_triple = None, la_target = None, la_exe_dir = Some ''/usr/bin'', la_resource_dir = None,
     la_current_dir = None, la_manifest_dir = ''/m'', la_files = \<lparr>dv_exists = (\<lambda>_. False), dv_entries = (\<lambda>_. None)\<rparr>,
     la_cargo = Err ''e'', la_exists_built = False, la_codec = cp_codec sample_shell_env,
     la_link = (\<lambda>_. \<lparr>dl_connects = (\<lambda>_. False), dl_takes = None, dl_serve = (\<lambda>_ s. (s, []))\<rparr>), la_uuid = (\<lambda>_. ''a''),
     la_spawn = (\<lambda>_ d. (d, Err ''e''))\<rparr>"

definition sample_user :: peer_identity where
  "sample_user = \<lparr>peer_uid = 7, peer_pid = None\<rparr>"

definition sample_setup :: "bool \<Rightarrow> (service_state, service_state) setup_env" where
  "sample_setup running = \<lparr>su_base_dir = Ok ''/c'', su_override = None, su_args = [''/tmp/x''], su_canonicalize = Some, su_current_dir = None,
     su_env_mode = None,
     su_codec = (cp_codec sample_shell_env)\<lparr>dec_response := (\<lambda>_. Some (into_wire_response (\<lambda>_. JNull) Ack ''a'' LOCAL_IPC_PROTO_VERSION))\<rparr>,
     su_ui_link = (if running then endpoint_link activate_codec host_core_env UiActivation (Some sample_user) (peer_uid sample_user) else la_link sample_launch 0),
     su_ui_uuid = ''a'', su_launch = sample_launch, su_initialize = (\<lambda>_. Ok sample_state), su_secure_store = True, su_core = host_core_env,
     su_sockets = sample_sockets\<rparr>"

section \<open>Facts\<close>

lemma on_sv_app_process [simp]: "sv_process (on_sv_app f s) = sv_process s"
  by (simp add: on_sv_app_def)

lemma note_key_storage_process [simp]: "sv_process (note_key_storage E secure s) = sv_process s"
  by (simp add: note_key_storage_def)

lemma dispatch_startup_process [simp]: "sv_process (dispatch_startup E paths links s) = sv_process s"
  by (simp add: dispatch_startup_def)

text \<open>The two places that decide the mode agree.\<close>

lemma lower_trim [simp]: "to_ascii_lowercase (trim (to_ascii_lowercase (trim s))) = to_ascii_lowercase (trim s)"
  by (simp add: trim_lower)

lemma lower_empty [simp]: "to_ascii_lowercase s = '''' \<longleftrightarrow> s = ''''"
  by (simp add: to_ascii_lowercase_def)

lemma modes_agree: "daemon_control_plane_mode_enabled env sh = should_proxy_via_daemon env sh"
proof -
  define pick where "pick m = (if m = ''daemon'' then Some m else if m = ''in_process'' then Some m else None)" for m
  have norm: "normalize_control_plane_mode v = Option.bind v (\<lambda>raw. pick (to_ascii_lowercase (trim raw)))" for v
    by (auto simp: normalize_control_plane_mode_def DAEMON_CONTROL_PLANE_MODE_def IN_PROCESS_CONTROL_PLANE_MODE_def pick_def split: option.split)
  have var: "normalize_control_plane_mode (map_option (\<lambda>v. to_ascii_lowercase (trim v)) v) = normalize_control_plane_mode (env_control_plane_mode v)" for v
  proof (cases v)
    case (Some x)
    have "pick (to_ascii_lowercase []) = None" by (simp add: pick_def to_ascii_lowercase_def)
    then show ?thesis unfolding norm Some
      by (simp add: env_control_plane_mode_def Let_def)
  qed (simp add: env_control_plane_mode_def)
  have state: "normalize_control_plane_mode (Some (to_ascii_lowercase (trim v))) = normalize_control_plane_mode (Some v)" for v
    unfolding norm by (simp only: bind.simps lower_trim)
  have src: "daemon_control_plane_mode_from_sources a b = (control_plane_mode_from_sources a b = ''daemon'')" for a b
  proof -
    have "(case map_option (\<lambda>raw. to_ascii_lowercase (trim raw)) v of
         Some m \<Rightarrow> (if m = ''daemon'' then Some m else if m = ''in_process'' then Some m else None) | None \<Rightarrow> None) = normalize_control_plane_mode v" for v
      unfolding norm by (cases v) (simp_all add: pick_def)
    then show ?thesis
      unfolding daemon_control_plane_mode_from_sources_def Let_def control_plane_mode_from_sources_def
      by (simp add: IN_PROCESS_CONTROL_PLANE_MODE_def split: option.split)
  qed
  show ?thesis
    unfolding daemon_control_plane_mode_enabled_def should_proxy_via_daemon_def control_plane_mode_for_app_def Let_def src
      DAEMON_CONTROL_PLANE_MODE_def control_plane_mode_from_sources_def var
    by (simp add: state)
qed

lemma mode_of_value:
  assumes "cp_has_state e" and "pi_control_plane_mode (sv_process (sh_local sh)) = as_env_value m"
  shows "should_proxy_via_daemon e sh \<longleftrightarrow> m = Daemon"
proof -
  have modes: "control_plane_mode_from_sources (Some ''daemon'') v = ''daemon''"
      "control_plane_mode_from_sources (Some ''in_process'') v = ''in_process''"
      "trim ''daemon'' \<noteq> ''''" "trim ''in_process'' \<noteq> ''''" for v
    by (simp_all add: control_plane_mode_from_sources_def normalize_control_plane_mode_def) code_simp+
  show ?thesis using assms
    by (cases m) (simp_all add: should_proxy_via_daemon_def control_plane_mode_for_app_def modes DAEMON_CONTROL_PLANE_MODE_def)
qed

text \<open>Every answer of a probe comes from an exchange, and the probes are bounded.\<close>

lemma probe_bounded: "snd (snd (probe_daemon_service L ds n d)) \<le> length ds"
  by (induction L ds n d rule: probe_daemon_service.induct) (auto split: prod.splits sum.splits)

lemma probe_answered: "fst (snd (probe_daemon_service L ds n d)) \<Longrightarrow> daemon_answered L"
  by (induction L ds n d rule: probe_daemon_service.induct) (auto simp: daemon_answered_def split: prod.splits sum.splits)

lemma spawn_and_probe_bounded:
  "dr_connect_attempts (snd (spawn_and_probe L b k x1 x2 x3 x4 d)) \<le> k + 9"
  "dr_available (snd (spawn_and_probe L b k x1 x2 x3 x4 d)) \<Longrightarrow> daemon_answered L"
proof -
  obtain d1 r where sp: "la_spawn L b d = (d1, r)" by fastforce
  obtain d2 ok n where p: "probe_daemon_service L spawn_delays k d1 = (d2, ok, n)" by (metis prod_cases3)
  have "n \<le> 9" "ok \<Longrightarrow> daemon_answered L"
    using probe_bounded [of L spawn_delays k d1] probe_answered [of L spawn_delays k d1] p by (simp_all add: spawn_delays_def)
  then show "dr_connect_attempts (snd (spawn_and_probe L b k x1 x2 x3 x4 d)) \<le> k + 9"
      "dr_available (snd (spawn_and_probe L b k x1 x2 x3 x4 d)) \<Longrightarrow> daemon_answered L"
    using sp p by (cases r; simp add: spawn_and_probe_def)+
qed

lemma ensure_bounded: "dr_connect_attempts (snd (ensure_daemon_service_available L m d)) \<le> 14"
proof -
  obtain d1 ok k where p: "probe_daemon_service L existing_delays 0 d = (d1, ok, k)" by (metis prod_cases3)
  have k: "k \<le> 5" using probe_bounded [of L existing_delays 0 d] p by (simp add: existing_delays_def)
  have "dr_connect_attempts (snd (spawn_and_probe L b k x1 x2 x3 x4 d1)) \<le> 14" for b x1 x2 x3 x4
    using spawn_and_probe_bounded(1) [of L b k x1 x2 x3 x4 d1] k by linarith
  then show ?thesis using p k by (auto simp: ensure_daemon_service_available_def Let_def split: option.split sum.split)
qed

lemma ensure_answered:
  assumes "dr_available (snd (ensure_daemon_service_available L m d))"
  shows "m = Daemon" and "daemon_answered L"
proof -
  show "m = Daemon" using assms by (cases m) (simp_all add: ensure_daemon_service_available_def)
  obtain d1 ok k where p: "probe_daemon_service L existing_delays 0 d = (d1, ok, k)" by (metis prod_cases3)
  have "ok \<Longrightarrow> daemon_answered L" using probe_answered [of L existing_delays 0 d] p by simp
  then show "daemon_answered L" using assms p spawn_and_probe_bounded(2)
    by (fastforce simp: ensure_daemon_service_available_def Let_def split: if_splits option.splits sum.splits)
qed

text \<open>What the end of the set-up says about the mode.\<close>

lemma start_control_plane_modes:
  assumes "start_control_plane env actual dir paths links fs s = (s1, fs1, how)"
  shows "attached how \<longleftrightarrow> actual = Daemon" and "sv_process s1 = sv_process s"
  using assms by (auto simp: start_control_plane_def attached_def Let_def split: if_splits sum.splits prod.splits)

lemma start_shell_modes:
  assumes "sr_state (start_shell env dir paths links u d fs) = Some s"
  shows "\<exists>actual. pi_control_plane_mode (sv_process s) = as_env_value actual \<and>
     sr_env_mode (start_shell env dir paths links u d fs) = Some (as_env_value actual) \<and>
     (attached (sr_end (start_shell env dir paths links u d fs)) \<longleftrightarrow> actual = Daemon) \<and>
     (actual = Daemon \<longrightarrow> daemon_answered (su_launch env)) \<and> pi_daemon_connect_attempts (sv_process s) \<le> 14"
proof -
  define req where "req = requested_control_plane_mode (la_dev (su_launch env)) (su_env_mode env)"
  obtain d1 r where r: "ensure_daemon_service_available (su_launch env) req d = (d1, r)" by fastforce
  define actual where "actual = (if dr_available r then Daemon else InProcess)"
  obtain s0 where s0: "su_initialize env dir = Inr s0"
    using assms r by (auto simp: start_shell_def Let_def req_def [symmetric] split: sum.splits)
  define s2 where "s2 = on_sv_app (emit_daemon_startup_warning (su_core env) req actual r)
      (note_key_storage (su_core env) (su_secure_store env) (record_modes (la_dev (su_launch env)) req actual r s0))"
  obtain s3 fs1 how where go: "start_control_plane env actual dir paths links fs s2 = (s3, fs1, how)" by (metis prod_cases3)
  have res: "start_shell env dir paths links u d fs =
      \<lparr>sr_end = how, sr_instance = u, sr_daemon = d1, sr_state = Some s3, sr_env_mode = Some (as_env_value actual),
       sr_sockets = fs1\<rparr>"
    using r s0 go unfolding start_shell_def Let_def req_def [symmetric] s2_def actual_def by simp
  have "pi_control_plane_mode (sv_process s2) = as_env_value actual" "pi_daemon_connect_attempts (sv_process s2) = dr_connect_attempts r"
    by (simp_all add: s2_def record_modes_def on_process_def)
  moreover have "dr_connect_attempts r \<le> 14" using ensure_bounded [of "su_launch env" req d] r by simp
  moreover have "actual = Daemon \<Longrightarrow> daemon_answered (su_launch env)"
    using ensure_answered(2) [of "su_launch env" req d] r by (simp add: actual_def split: if_splits)
  ultimately show ?thesis using start_control_plane_modes [OF go] assms res by auto
qed

lemma run_setup_cases:
  assumes "run_setup env u d fs = Returns r" and "sr_state r = Some s"
  shows "\<exists>dir paths links u1. r = start_shell env dir paths links u1 d fs"
  using assms by (auto simp: run_setup_def Let_def split: sum.splits option.splits run.splits prod.splits if_splits)

text \<open>The events of an activation that reaches the running instance.\<close>

lemma emit_links_log:
  assumes "\<And>ev. ce_emit E ev = Ok ()"
  shows "emit_links E ls st = (st\<lparr>ui_log := ui_log st @ map (\<lambda>l. EvHost ''pairing_link_received'' [l, ''app_activate'']) ls\<rparr>, Ok ())"
  by (induction ls arbitrary: st) (simp_all add: emit_json_def AppState.emit_def assms)

lemma activate_app_log:
  assumes "env_has_host E" and "\<And>ev. ce_emit E ev = Ok ()" and "ce_reveal E = Ok ()"
    and "collect_external_share_paths (ce_canonicalize E) (ce_current_dir E) paths = Returns ps"
  shows "activate_app E paths links st = (st\<lparr>ui_log := ui_log st @ activation_events ps links\<rparr>, Returns (Ok ()))"
  using assms
  by (simp add: activate_app_def emit_external_share_payload_def emit_json_def AppState.emit_def emit_links_log reveal_main_window_def
      activation_events_def)

lemma activation_dispatched:
  assumes "env_has_host E" and "\<And>ev. ce_emit E ev = Ok ()" and "ce_reveal E = Ok ()"
    and "collect_external_share_paths (ce_canonicalize E) (ce_current_dir E) paths = Returns ps"
  shows "dispatch_request ser se E UiActivation (Some p) (peer_uid p) (to_wire_request (AppActivate paths links) rid None) u =
     (on_sv_app (\<lambda>st. st\<lparr>ui_log := ui_log st @ activation_events ps links\<rparr>) u, Returns (into_wire_response ser Ack rid LOCAL_IPC_PROTO_VERSION))"
proof -
  let ?cmd = "AppActivate paths links"
  have "from_wire_request se (to_wire_request ?cmd rid None) = Ok ?cmd"
    using from_name_payload [of ?cmd se] by (simp add: from_wire_request_def to_wire_request_def)
  moreover have "CoreService.dispatch E ?cmd u = (on_sv_app (\<lambda>st. st\<lparr>ui_log := ui_log st @ activation_events ps links\<rparr>) u, Returns (Ok Ack))"
    by (simp add: CoreService.dispatch_def Let_def CoreService.on_app_def activate_app_log [OF assms] map_result_def on_sv_app_def acked_def)
  ultimately show ?thesis
    by (simp add: dispatch_request_def run_command_for_def Let_def accepts_on_endpoint_def endpoint_kind_of_def command_class_of_def
        requires_auth_def run_dispatch_def map_result_def to_wire_request_def)
qed

lemma handoff_sent:
  assumes "su_ui_link env = endpoint_link C E UiActivation (Some p) (peer_uid p)"
    and "codecs_agree (su_codec env) C (to_wire_request (AppActivate paths links) (su_ui_uuid env) None) r"
    and "dispatch_request (ser_response C) (de_error_text C) E UiActivation (Some p) (peer_uid p)
           (to_wire_request (AppActivate paths links) (su_ui_uuid env) None) u = (u1, Returns r)"
  shows "handoff_to_running_ui_instance env paths links u = (u1, True)"
proof -
  let ?rq = "to_wire_request (AppActivate paths links) (su_ui_uuid env) None"
  have "send_envelope (su_codec env) (endpoint_link C E UiActivation (Some p) (peer_uid p)) ?rq u = (u1, Ok r)"
    by (rule send_to_endpoint [OF assms(2) _ assms(3)]) (simp add: to_wire_request_def)
  then show ?thesis by (simp add: handoff_to_running_ui_instance_def send_command_def assms(1))
qed

section \<open>Properties\<close>

text \<open>
  C21: After a start that was not handed over there is exactly one control plane: the commands of the user
  interface are forwarded exactly when the shell attached itself to a daemon, both places that decide the mode
  and the environment variable say the same, a daemon answered a probe before the shell attached itself, and
  no more than fourteen probes were made.
\<close>

theorem commands_follow_startup:
  assumes "run_setup env u d fs = Returns r" and "sr_state r = Some s" and "cp_has_state e" and "sh_local sh = s"
  shows "(should_proxy_via_daemon e sh \<longleftrightarrow> attached (sr_end r)) \<and>
     daemon_control_plane_mode_enabled e sh = should_proxy_via_daemon e sh \<and>
     sr_env_mode r = Some (pi_control_plane_mode (sv_process s)) \<and>
     (attached (sr_end r) \<longrightarrow> daemon_answered (su_launch env)) \<and> pi_daemon_connect_attempts (sv_process s) \<le> 14"
proof -
  obtain dir paths links u1 where r: "r = start_shell env dir paths links u1 d fs" using run_setup_cases [OF assms(1,2)] by blast
  obtain actual where a: "pi_control_plane_mode (sv_process s) = as_env_value actual" "sr_env_mode r = Some (as_env_value actual)"
    "attached (sr_end r) \<longleftrightarrow> actual = Daemon" "actual = Daemon \<longrightarrow> daemon_answered (su_launch env)" "pi_daemon_connect_attempts (sv_process s) \<le> 14"
    using start_shell_modes [of env dir paths links u1 d fs s] assms(2) unfolding r by blast
  have "should_proxy_via_daemon e sh \<longleftrightarrow> actual = Daemon" by (rule mode_of_value [OF assms(3)]) (simp add: assms(4) a(1))
  then show ?thesis using a modes_agree [of e sh] by simp
qed

theorem commands_follow_startup_witness:
  "\<exists>r s. run_setup (sample_setup False) sample_state sample_state no_sockets = Returns r \<and> sr_state r = Some s \<and>
     \<not> should_proxy_via_daemon sample_shell_env (sample_shell ''daemon''\<lparr>sh_local := s\<rparr>) \<and>
     pi_daemon_connect_attempts (sv_process s) \<le> 14"
proof -
  let ?r = "start_shell (sample_setup False) ''/c/dashdrop'' [''/tmp/x''] [] sample_state sample_state no_sockets"
  have links: "pairing_links_from_args [''/tmp/x''] = Returns []" by code_simp
  have paths: "collect_external_share_paths Some None [''/tmp/x''] = Returns [''/tmp/x'']" by code_simp
  have dir: "resolve_config_dir_from_base None (Some ''/c'') = Some ''/c/dashdrop''" by code_simp
  have "handoff_to_running_ui_instance (sample_setup False) [''/tmp/x''] [] sample_state = (sample_state, False)"
    by (simp add: handoff_to_running_ui_instance_def send_command_def send_envelope_def sample_setup_def sample_launch_def)
  then have run: "run_setup (sample_setup False) sample_state sample_state no_sockets = Returns ?r"
    using links paths dir by (simp add: run_setup_def Let_def) (simp add: sample_setup_def)
  have "\<not> dr_available (snd (ensure_daemon_service_available sample_launch m sample_state))" for m
    using ensure_answered(2) [of sample_launch m sample_state]
    by (auto simp: daemon_answered_def sample_launch_def send_command_def send_envelope_def)
  then have "\<exists>s. sr_state ?r = Some s \<and> \<not> attached (sr_end ?r)"
    by (simp add: start_shell_def Let_def case_prod_beta sample_setup_def start_control_plane_def attached_def split: sum.split)
  then obtain s where s: "sr_state ?r = Some s" "\<not> attached (sr_end ?r)" by blast
  from commands_follow_startup [OF run s(1), of sample_shell_env "sample_shell ''daemon''\<lparr>sh_local := s\<rparr>"] s run
  show ?thesis by (auto simp: sample_shell_env_def)
qed

text \<open>
  C22: A second launch beside a running instance that takes the hand-over delivers what it was given: the
  running instance receives the shared paths and the pairing links and shows its window, and the new process
  ends without looking for or starting a daemon and without a runtime of its own.  The running instance takes
  it when it serves the activation endpoint, which only an instance attached to a daemon does, for the same
  user, has a window, and its events and the reveal of the window work; the new process must know its
  configuration directory, its arguments must be valid text that collecting the paths does not panic on, and the
  request and the answer must fit into a frame and be read as written.  Beside an instance that serves its
  commands in process, or when the running instance answers with an error, nothing of this is claimed.
\<close>

theorem handoff_delivers:
  assumes "su_base_dir env = Ok base" and "list_all (\<lambda>a. utf8_valid (byte_vals a)) (su_args env)"
    and "collect_external_share_paths (su_canonicalize env) (su_current_dir env) (su_args env) = Returns paths"
    and "su_ui_link env = endpoint_link C E UiActivation (Some p) (peer_uid p)"
    and "codecs_agree (su_codec env) C (to_wire_request (AppActivate paths (collect_pairing_links (su_args env))) (su_ui_uuid env) None)
           (into_wire_response (ser_response C) Ack (su_ui_uuid env) LOCAL_IPC_PROTO_VERSION)"
    and "env_has_host E" and "\<And>ev. ce_emit E ev = Ok ()" and "ce_reveal E = Ok ()"
    and "collect_external_share_paths (ce_canonicalize E) (ce_current_dir E) paths = Returns ps"
  shows "run_setup env u d fs = Returns
     \<lparr>sr_end = HandedOff,
      sr_instance = on_sv_app (\<lambda>st. st\<lparr>ui_log := ui_log st @ activation_events ps (collect_pairing_links (su_args env))\<rparr>) u,
      sr_daemon = d, sr_state = None, sr_env_mode = su_env_mode env, sr_sockets = fs\<rparr>"
proof -
  note sent = handoff_sent [OF assms(4,5) activation_dispatched [OF assms(6-9)]]
  obtain dir where "resolve_config_dir_from_base (su_override env) (Some base) = Some dir"
    by (cases "su_override env") (simp_all add: resolve_config_dir_from_base_def)
  then show ?thesis using assms(1-3) sent by (simp add: run_setup_def pairing_links_from_args_def Let_def)
qed

theorem handoff_delivers_witness:
  "run_setup (sample_setup True) sample_state sample_state no_sockets = Returns
     \<lparr>sr_end = HandedOff,
      sr_instance = on_sv_app (\<lambda>st. st\<lparr>ui_log := ui_log st @ activation_events [''/tmp/x''] []\<rparr>) sample_state,
      sr_daemon = sample_state, sr_state = None, sr_env_mode = None, sr_sockets = no_sockets\<rparr>"
proof -
  have args: "su_args (sample_setup True) = [''/tmp/x'']" "su_canonicalize (sample_setup True) = Some" "su_current_dir (sample_setup True) = None"
      "su_ui_uuid (sample_setup True) = ''a''" "su_env_mode (sample_setup True) = None"
    by (simp_all add: sample_setup_def)
  have links: "collect_pairing_links [''/tmp/x''] = []" and paths: "collect_external_share_paths Some None [''/tmp/x''] = Returns [''/tmp/x'']"
    and utf: "list_all (\<lambda>a. utf8_valid (byte_vals a)) [''/tmp/x'']" by code_simp+
  have codec: "codecs_agree (su_codec (sample_setup True)) activate_codec activate_request
      (into_wire_response (ser_response activate_codec) Ack ''a'' LOCAL_IPC_PROTO_VERSION)"
    by (simp add: codecs_agree_def sample_setup_def sample_shell_env_def activate_codec_def config_codec_def LOCAL_IPC_MAX_FRAME_LEN_def)
  have host: "env_has_host host_core_env" "\<And>ev. ce_emit host_core_env ev = Ok ()" "ce_reveal host_core_env = Ok ()"
    "ce_canonicalize host_core_env = Some" "ce_current_dir host_core_env = None"
    by (simp_all add: host_core_env_def sample_core_env_def env_has_host_def)
  have "su_ui_link (sample_setup True) = endpoint_link activate_codec host_core_env UiActivation (Some sample_user) (peer_uid sample_user)" "su_base_dir (sample_setup True) = Ok ''/c''"
    by (simp_all add: sample_setup_def)
  from handoff_delivers [of "sample_setup True" "''/c''" "[''/tmp/x'']" activate_codec host_core_env sample_user "[''/tmp/x'']" sample_state sample_state no_sockets,
      unfolded args links, OF this(2) utf paths this(1) codec [unfolded activate_request_def] host(1,2,3)]
  show ?thesis using paths by (simp add: host args links)
qed

end
