(* ===== verification/Tray.thy ===== *)
theory Tray
  imports Prelude
begin

text \<open>
  The tray icon and the main window of the application shell, from \<^verbatim>\<open>lib.rs\<close>: the texts and the state of the menu for
  what needs attention, the tooltip and the badge, the effects of a menu entry, pairing links that the desktop
  opens, and the request to close the window, which only hides it.  Effects on the windowing system are listed;
  text is UTF-8.
\<close>

section \<open>Effects\<close>

datatype shell_effect = ShowWindow | EmitEvent string "(string \<times> string) list" | ExitApp nat

definition APP_WINDOW_REVEALED_EVENT :: string where "APP_WINDOW_REVEALED_EVENT = ''app_window_revealed''"
definition APP_NAVIGATION_REQUESTED_EVENT :: string where "APP_NAVIGATION_REQUESTED_EVENT = ''app_navigation_requested''"
definition PAIRING_LINK_RECEIVED_EVENT :: string where "PAIRING_LINK_RECEIVED_EVENT = ''pairing_link_received''"
definition DASHDROP_PAIRING_DEEP_LINK_PREFIX :: string where "DASHDROP_PAIRING_DEEP_LINK_PREFIX = ''dashdrop://pair?''"

definition reveal_window :: "bool \<Rightarrow> shell_effect list" where
  "reveal_window has_window =
     (if has_window then [ShowWindow] else []) @ [EmitEvent APP_WINDOW_REVEALED_EVENT [(''source'', ''reopen'')]]"

definition emit_app_navigation_requested :: "string \<Rightarrow> string \<Rightarrow> shell_effect list" where
  "emit_app_navigation_requested goal source = [EmitEvent APP_NAVIGATION_REQUESTED_EVENT [(''target'', goal), (''source'', source)]]"

definition handle_tray_navigation_request :: "bool \<Rightarrow> string \<Rightarrow> shell_effect list" where
  "handle_tray_navigation_request has_window goal = reveal_window has_window @ emit_app_navigation_requested goal ''tray_menu''"

definition handle_tray_menu_event :: "bool \<Rightarrow> string \<Rightarrow> shell_effect list" where
  "handle_tray_menu_event w menu_id =
     (if menu_id = ''tray_show'' then reveal_window w
      else if menu_id = ''tray_review_attention'' then handle_tray_navigation_request w ''Transfers''
      else if menu_id = ''tray_nearby'' then handle_tray_navigation_request w ''Nearby''
      else if menu_id = ''tray_transfers'' then handle_tray_navigation_request w ''Transfers''
      else if menu_id = ''tray_history'' then handle_tray_navigation_request w ''History''
      else if menu_id = ''tray_trusted_devices'' then handle_tray_navigation_request w ''TrustedDevices''
      else if menu_id = ''tray_security_events'' then handle_tray_navigation_request w ''SecurityEvents''
      else if menu_id = ''tray_settings'' then handle_tray_navigation_request w ''Settings''
      else if menu_id = ''tray_quit'' then [ExitApp 0]
      else [])"

definition collect_pairing_links_from_url_strings :: "string list \<Rightarrow> string list" where
  "collect_pairing_links_from_url_strings urls = filter (\<lambda>v. starts_with v DASHDROP_PAIRING_DEEP_LINK_PREFIX) (map trim urls)"

definition emit_pairing_link_received :: "bool \<Rightarrow> string list \<Rightarrow> string \<Rightarrow> shell_effect list" where
  "emit_pairing_link_received w links source =
     (if links = [] then []
      else map (\<lambda>l. EmitEvent PAIRING_LINK_RECEIVED_EVENT [(''pairing_link'', l), (''source'', source)]) links @ reveal_window w)"

section \<open>The menu\<close>

record tray_attention =
  pending_incoming_count :: u32
  active_transfer_count :: u32
  recent_failure_count :: u32
  notifications_degraded :: bool

record menu_item =
  mi_id :: string
  mi_text :: string
  mi_enabled :: bool

datatype menu_entry = Item menu_item | Separator

definition show_u32 :: "u32 \<Rightarrow> string" where "show_u32 n = show_nat (unat n)"

definition bullet :: string where "bullet = [CHR 0x20, CHR 0xE2, CHR 0x80, CHR 0xA2, CHR 0x20]"

definition plural :: "u32 \<Rightarrow> string" where "plural n = (if n = 1 then '''' else ''s'')"

definition has_attention :: "tray_attention \<Rightarrow> bool" where
  "has_attention a \<longleftrightarrow> pending_incoming_count a > 0 \<or> active_transfer_count a > 0 \<or> recent_failure_count a > 0"

definition failures_text :: "tray_attention \<Rightarrow> string" where
  "failures_text a =
     ''Recent Issues: '' @ show_u32 (recent_failure_count a) @ (if notifications_degraded a then bullet @ ''notifications degraded'' else '''')"

definition review_text :: "tray_attention \<Rightarrow> string" where
  "review_text a =
     (if pending_incoming_count a > 0
      then ''Review '' @ show_u32 (pending_incoming_count a) @ '' Pending Request'' @ plural (pending_incoming_count a)
      else if recent_failure_count a > 0
      then ''Review '' @ show_u32 (recent_failure_count a) @ '' Recent Issue'' @ plural (recent_failure_count a)
      else if active_transfer_count a > 0
      then ''View '' @ show_u32 (active_transfer_count a) @ '' Active Transfer'' @ plural (active_transfer_count a)
      else ''No Pending Attention'')"

definition transfers_text :: "tray_attention \<Rightarrow> string" where
  "transfers_text a =
     (if pending_incoming_count a > 0 \<or> recent_failure_count a > 0
      then ''Transfers'' @ bullet @ show_u32 (pending_incoming_count a) @ '' pending / '' @ show_u32 (recent_failure_count a) @
           '' issue'' @ plural (recent_failure_count a)
      else if active_transfer_count a > 0 then ''Transfers'' @ bullet @ show_u32 (active_transfer_count a) @ '' active''
      else ''Transfers'')"

definition entry :: "string \<Rightarrow> string \<Rightarrow> bool \<Rightarrow> menu_entry" where
  "entry i t on = Item \<lparr>mi_id = i, mi_text = t, mi_enabled = on\<rparr>"

definition build_tray_menu :: "tray_attention \<Rightarrow> menu_entry list" where
  "build_tray_menu a =
     [entry ''tray_summary_incoming'' (''Pending Incoming: '' @ show_u32 (pending_incoming_count a)) False,
      entry ''tray_summary_active'' (''Active Transfers: '' @ show_u32 (active_transfer_count a)) False,
      entry ''tray_summary_failures'' (failures_text a) False,
      entry ''tray_review_attention'' (review_text a) (has_attention a),
      Separator,
      entry ''tray_show'' ''Show DashDrop'' True,
      Separator,
      entry ''tray_nearby'' ''Nearby'' True,
      entry ''tray_transfers'' (transfers_text a) True,
      entry ''tray_history'' ''History'' True,
      entry ''tray_trusted_devices'' ''Trusted Devices'' True,
      entry ''tray_security_events'' ''Security Events'' True,
      entry ''tray_settings'' ''Settings'' True,
      Separator,
      entry ''tray_quit'' ''Quit DashDrop'' True]"

text \<open>The tooltip and the badge of the icon; \<^verbatim>\<open>saturating_add\<close> at 32 bits.\<close>

definition tooltip_parts :: "tray_attention \<Rightarrow> string list" where
  "tooltip_parts a =
     (if pending_incoming_count a > 0
      then [show_u32 (pending_incoming_count a) @ '' pending incoming transfer'' @ plural (pending_incoming_count a)] else []) @
     (if active_transfer_count a > 0
      then [show_u32 (active_transfer_count a) @ '' active transfer'' @ plural (active_transfer_count a)] else []) @
     (if recent_failure_count a > 0
      then [show_u32 (recent_failure_count a) @ '' recent issue'' @ plural (recent_failure_count a)] else []) @
     (if notifications_degraded a then [''notifications degraded''] else [])"

definition tray_tooltip :: "tray_attention \<Rightarrow> string" where
  "tray_tooltip a = (if tooltip_parts a = [] then ''DashDrop'' else ''DashDrop'' @ bullet @ join_with bullet (tooltip_parts a))"

definition sat_add_u32 :: "u32 \<Rightarrow> u32 \<Rightarrow> u32" where
  "sat_add_u32 x y = (if unat x + unat y < 2 ^ 32 then x + y else - 1)"

definition attention_count :: "tray_attention \<Rightarrow> u32" where
  "attention_count a = sat_add_u32 (sat_add_u32 (pending_incoming_count a) (active_transfer_count a)) (recent_failure_count a)"

definition tray_title :: "tray_attention \<Rightarrow> string option" where
  "tray_title a = (if attention_count a > 0 then Some (show_u32 (attention_count a)) else None)"

record tray =
  tray_tip :: string
  tray_badge :: "string option"
  tray_menu :: "menu_entry list"

text \<open>
  The update of the icon, when there is one: an error of the tooltip or the menu ends it, one of the badge is
  ignored.
\<close>

definition update_tray_attention ::
    "tray_attention \<Rightarrow> string + unit \<Rightarrow> bool \<Rightarrow> string + unit \<Rightarrow> string + unit \<Rightarrow> tray option \<Rightarrow> tray option \<times> (string + unit)" where
  "update_tray_attention a tip_result badge_ok build_result menu_result icon =
     (case icon of
        None \<Rightarrow> (None, Ok ())
      | Some t \<Rightarrow>
          (case tip_result of
             Inl e \<Rightarrow> (Some t, Err (''failed to update tray tooltip: '' @ e))
           | Inr _ \<Rightarrow>
               (let t1 = t\<lparr>tray_tip := tray_tooltip a\<rparr>;
                    t2 = (if badge_ok then t1\<lparr>tray_badge := tray_title a\<rparr> else t1)
                in case build_result of
                     Inl e \<Rightarrow> (Some t2, Err (''failed to build tray menu: '' @ e))
                   | Inr _ \<Rightarrow>
                       (case menu_result of
                          Inl e \<Rightarrow> (Some t2, Err (''failed to update tray menu: '' @ e))
                        | Inr _ \<Rightarrow> (Some (t2\<lparr>tray_menu := build_tray_menu a\<rparr>), Ok ())))))"

section \<open>The main window\<close>

text \<open>A request to close: \<open>notice\<close> says whether the note that the application goes on was already shown.\<close>

record close_result =
  cl_prevented :: bool
  cl_hidden :: bool
  cl_notice :: bool
  cl_effects :: "shell_effect list"

definition close_requested :: "string \<Rightarrow> bool \<Rightarrow> bool \<Rightarrow> bool \<Rightarrow> bool \<Rightarrow> close_result" where
  "close_requested label hides has_state lock_ok notice =
     (if label \<noteq> ''main'' then \<lparr>cl_prevented = False, cl_hidden = False, cl_notice = notice, cl_effects = []\<rparr>
      else if \<not> hides \<or> \<not> has_state \<or> \<not> lock_ok \<or> notice
      then \<lparr>cl_prevented = True, cl_hidden = hides, cl_notice = notice, cl_effects = []\<rparr>
      else \<lparr>cl_prevented = True, cl_hidden = True, cl_notice = True,
            cl_effects = [EmitEvent ''system_error'' [(''code'', ''APP_HIDDEN_TO_TRAY''), (''subsystem'', ''ui_shell''),
              (''message'', ''DashDrop is still running in the background. Click the tray icon to reopen.'')]]\<rparr>)"

section \<open>Facts\<close>

lemma sat_add_u32_unat: "unat (sat_add_u32 x y) = min (unat x + unat y) (2 ^ 32 - 1)"
proof (cases "unat x + unat y < 2 ^ 32")
  case True
  then show ?thesis by (simp add: sat_add_u32_def unat_word_ariths)
next
  case False
  moreover have "unat (- 1 :: u32) = 2 ^ 32 - 1" by (simp add: unsigned_minus_1_eq_mask mask_eq_exp_minus_1)
  ultimately show ?thesis by (simp add: sat_add_u32_def)
qed

lemma badge_shown_iff: "tray_title a \<noteq> None \<longleftrightarrow> has_attention a"
proof -
  have "attention_count a > 0 \<longleftrightarrow> unat (attention_count a) > 0" by (simp add: word_less_nat_alt)
  also have "\<dots> \<longleftrightarrow> has_attention a"
    by (auto simp: attention_count_def sat_add_u32_unat has_attention_def word_less_nat_alt min_def)
  finally show ?thesis by (simp add: tray_title_def)
qed

text \<open>
  No entry of the menu is dead: the entries are distinct, each entry that can be chosen has an effect, and an
  entry without an effect cannot be chosen; the entry to review what needs attention can be chosen exactly when
  the icon has a badge.
\<close>

theorem tray_menu_live:
  "distinct (map mi_id [i. Item i \<leftarrow> build_tray_menu a]) \<and>
   (\<forall>i. Item i \<in> set (build_tray_menu a) \<longrightarrow> mi_enabled i \<longrightarrow> handle_tray_menu_event w (mi_id i) \<noteq> []) \<and>
   (\<forall>i. Item i \<in> set (build_tray_menu a) \<longrightarrow> mi_id i = ''tray_review_attention'' \<longrightarrow> (mi_enabled i \<longleftrightarrow> tray_title a \<noteq> None))"
  unfolding badge_shown_iff
  by (auto simp: build_tray_menu_def entry_def handle_tray_menu_event_def handle_tray_navigation_request_def reveal_window_def
      emit_app_navigation_requested_def)

theorem tray_menu_live_witness:
  "handle_tray_menu_event True ''tray_quit'' \<noteq> []"
  using tray_menu_live [of "\<lparr>pending_incoming_count = 0, active_transfer_count = 0, recent_failure_count = 0, notifications_degraded = False\<rparr>" True]
  by (auto simp: build_tray_menu_def entry_def)

text \<open>Closing the main window never ends the process, and the note about it is shown once however often it is closed.\<close>

primrec closes :: "(bool \<times> bool \<times> bool) list \<Rightarrow> bool \<Rightarrow> close_result list" where
  "closes [] notice = []"
| "closes (c # cs) notice =
     (case c of (hides, has_state, lock_ok) \<Rightarrow>
        (let r = close_requested ''main'' hides has_state lock_ok notice in r # closes cs (cl_notice r)))"

lemma closes_noted: "list_all (\<lambda>r. cl_prevented r \<and> cl_effects r = []) (closes cs True)"
  by (induction cs) (auto simp: close_requested_def Let_def)

theorem close_hides_and_notes_once:
  "list_all cl_prevented (closes cs False) \<and> length (concat (map cl_effects (closes cs False))) \<le> 1"
proof (induction cs)
  case (Cons c cs)
  have quiet: "concat (map cl_effects (closes cs True)) = []" using closes_noted [of cs] by (simp add: list_all_iff)
  have prevented: "list_all cl_prevented (closes cs True)" using closes_noted [of cs] by (auto simp: list_all_iff)
  show ?case using Cons quiet prevented by (cases c) (auto simp: close_requested_def Let_def)
qed simp

end
