(* ===== verification/Autostart.thy ===== *)
theory Autostart
  imports Paths Trimming
begin

text \<open>
  The registration for launch at login, \<^verbatim>\<open>runtime/autostart.rs\<close>, on Linux and macOS: where the entry is stored, what it
  says, and how it is brought in line with the setting.  The files are a map from paths to their content; the
  results of creating the directory, writing and removing are arguments.  The registry of Windows is not part
  of it.
\<close>

section \<open>Escaping\<close>

text \<open>\<^verbatim>\<open>str::replace\<close> with a character to look for.\<close>

definition replace_char :: "char \<Rightarrow> string \<Rightarrow> string \<Rightarrow> string" where
  "replace_char c by_str s = concat (map (\<lambda>x. if x = c then by_str else [x]) s)"

definition quote_char :: char where "quote_char = CHR 0x22"
definition apos_char :: char where "apos_char = CHR 0x27"
definition backslash :: char where "backslash = CHR 0x5C"
definition newline :: string where "newline = [CHR 0x0A]"

definition xml_escape :: "string \<Rightarrow> string" where
  "xml_escape s =
     replace_char apos_char ''&apos;'' (replace_char quote_char ''&quot;'' (replace_char CHR ''>'' ''&gt;''
       (replace_char CHR ''<'' ''&lt;'' (replace_char CHR ''&'' ''&amp;'' s))))"

definition desktop_exec_escape :: "string \<Rightarrow> string" where
  "desktop_exec_escape path =
     (let escaped = replace_char quote_char [backslash, quote_char] (replace_char backslash [backslash, backslash] path)
      in [quote_char] @ escaped @ [quote_char])"

definition windows_command_escape :: "string \<Rightarrow> string" where
  "windows_command_escape path = [quote_char] @ path @ [quote_char]"

section \<open>Entries\<close>

definition render_desktop_entry :: "string \<Rightarrow> string \<Rightarrow> string" where
  "render_desktop_entry identifier executable =
     ''[Desktop Entry]'' @ newline @ ''Type=Application'' @ newline @ ''Version=1.0'' @ newline @ ''Name=DashDrop'' @ newline @
     ''Comment=Start DashDrop automatically when you sign in'' @ newline @ ''Exec='' @ desktop_exec_escape executable @ newline @
     ''Terminal=false'' @ newline @ ''Hidden=false'' @ newline @ ''X-GNOME-Autostart-enabled=true'' @ newline @
     ''StartupNotify=false'' @ newline @ ''X-DashDrop-Identifier='' @ identifier @ newline"

definition quoted_text :: "string \<Rightarrow> string" where
  "quoted_text s = [quote_char] @ s @ [quote_char]"

definition render_launch_agent_plist :: "string \<Rightarrow> string \<Rightarrow> string" where
  "render_launch_agent_plist identifier executable =
     ''<?xml version='' @ quoted_text ''1.0'' @ '' encoding='' @ quoted_text ''UTF-8'' @ ''?>'' @ newline @
     ''<!DOCTYPE plist PUBLIC '' @ quoted_text ''-//Apple//DTD PLIST 1.0//EN'' @ '' '' @
       quoted_text ''http://www.apple.com/DTDs/PropertyList-1.0.dtd'' @ ''>'' @ newline @
     ''<plist version='' @ quoted_text ''1.0'' @ ''>'' @ newline @
     ''  <dict>'' @ newline @
     ''    <key>Label</key>'' @ newline @
     ''    <string>'' @ identifier @ ''</string>'' @ newline @
     ''    <key>ProgramArguments</key>'' @ newline @
     ''    <array>'' @ newline @
     ''      <string>'' @ xml_escape executable @ ''</string>'' @ newline @
     ''    </array>'' @ newline @
     ''    <key>RunAtLoad</key>'' @ newline @
     ''    <true/>'' @ newline @
     ''    <key>KeepAlive</key>'' @ newline @
     ''    <false/>'' @ newline @
     ''  </dict>'' @ newline @
     ''</plist>'' @ newline"

section \<open>Paths\<close>

definition user_home_dir :: "string option \<Rightarrow> string + string" where
  "user_home_dir home = (case home of Some h \<Rightarrow> Ok h | None \<Rightarrow> Err ''HOME is not set'')"

text \<open>
  The argument of \<^verbatim>\<open>unwrap_or\<close> is evaluated first, so a missing home directory is an error also when the
  configuration directory is given.
\<close>

definition xdg_autostart_path :: "string option \<Rightarrow> string option \<Rightarrow> string \<Rightarrow> string + string" where
  "xdg_autostart_path xdg home identifier =
     (case user_home_dir home of
        Inl e \<Rightarrow> Err e
      | Inr h \<Rightarrow>
          (let base = (case xdg of Some x \<Rightarrow> x | None \<Rightarrow> path_join h ''.config'')
           in Ok (path_join (path_join base ''autostart'') (identifier @ ''.desktop''))))"

definition launch_agent_path :: "string option \<Rightarrow> string \<Rightarrow> string + string" where
  "launch_agent_path home identifier =
     (case user_home_dir home of
        Inl e \<Rightarrow> Err e
      | Inr h \<Rightarrow> Ok (path_join (path_join h ''Library/LaunchAgents'') (identifier @ ''.plist'')))"

section \<open>Synchronisation\<close>

type_synonym entry_files = "string \<Rightarrow> string option"

record sync_io =
  io_mkdir :: "string + unit"
  io_write :: "string + unit"
  io_remove :: "string + unit"

text \<open>The common shape of both platforms; \<open>what\<close> names the entry in the texts of errors.\<close>

definition sync_entry ::
    "sync_io \<Rightarrow> string \<Rightarrow> string + string \<Rightarrow> string \<Rightarrow> bool \<Rightarrow> entry_files \<Rightarrow> entry_files \<times> (string + unit)" where
  "sync_entry io what where_to content enabled fs =
     (case where_to of
        Inl e \<Rightarrow> (fs, Err e)
      | Inr path \<Rightarrow>
          (if enabled
           then (case io_mkdir io of
                   Inl e \<Rightarrow> (fs, Err (''failed to create startup directory '' @ e))
                 | Inr _ \<Rightarrow>
                     (case io_write io of
                        Inl e \<Rightarrow> (fs, Err (''failed to write '' @ what @ '' '' @ path @ '': '' @ e))
                      | Inr _ \<Rightarrow> (fs(path \<mapsto> content), Ok ())))
           else if fs path \<noteq> None
           then (case io_remove io of
                   Inl e \<Rightarrow> (fs, Err (''failed to remove '' @ what @ '' '' @ path @ '': '' @ e))
                 | Inr _ \<Rightarrow> (fs(path := None), Ok ()))
           else (fs, Ok ())))"

definition sync_linux_autostart_entry ::
    "sync_io \<Rightarrow> string option \<Rightarrow> string option \<Rightarrow> string \<Rightarrow> string \<Rightarrow> bool \<Rightarrow> entry_files \<Rightarrow> entry_files \<times> (string + unit)" where
  "sync_linux_autostart_entry io xdg home identifier executable enabled =
     sync_entry io ''autostart desktop entry'' (xdg_autostart_path xdg home identifier) (render_desktop_entry identifier executable) enabled"

definition sync_macos_launch_agent ::
    "sync_io \<Rightarrow> string option \<Rightarrow> string \<Rightarrow> string \<Rightarrow> bool \<Rightarrow> entry_files \<Rightarrow> entry_files \<times> (string + unit)" where
  "sync_macos_launch_agent io home identifier executable enabled =
     sync_entry io ''launch agent'' (launch_agent_path home identifier) (render_launch_agent_plist identifier executable) enabled"

datatype desktop = LinuxDesktop | MacDesktop

definition sync_launch_at_login ::
    "desktop \<Rightarrow> sync_io \<Rightarrow> string option \<Rightarrow> string option \<Rightarrow> string + string \<Rightarrow> string \<Rightarrow> bool \<Rightarrow> entry_files \<Rightarrow> entry_files \<times> (string + unit)" where
  "sync_launch_at_login dt io xdg home current_exe identifier enabled fs =
     (case current_exe of
        Inl e \<Rightarrow> (fs, Err (''failed to resolve current executable: '' @ e))
      | Inr exe \<Rightarrow>
          (case dt of
             LinuxDesktop \<Rightarrow> sync_linux_autostart_entry io xdg home identifier exe enabled fs
           | MacDesktop \<Rightarrow> sync_macos_launch_agent io home identifier exe enabled fs))"

section \<open>Reading the entries back\<close>

text \<open>A quoted argument as the desktop reads it: up to the closing quote, a backslash protects the next character.\<close>

fun unquote_tail :: "string \<Rightarrow> string option" where
  "unquote_tail [] = None"
| "unquote_tail (c # s) =
     (if c = quote_char then Some []
      else if c = backslash
      then (case s of [] \<Rightarrow> None | x # r \<Rightarrow> map_option ((#) x) (unquote_tail r))
      else map_option ((#) c) (unquote_tail s))"

definition unquote_arg :: "string \<Rightarrow> string option" where
  "unquote_arg s = (case s of c # r \<Rightarrow> (if c = quote_char then unquote_tail r else None) | [] \<Rightarrow> None)"

text \<open>Text of an XML element: the five predefined entities.\<close>

definition entities :: "(string \<times> char) list" where
  "entities = [(''&amp;'', CHR ''&''), (''&lt;'', CHR ''<''), (''&gt;'', CHR ''>''), (''&quot;'', quote_char), (''&apos;'', apos_char)]"

fun xml_text :: "nat \<Rightarrow> string \<Rightarrow> string option" where
  "xml_text fuel [] = Some []"
| "xml_text 0 s = None"
| "xml_text (Suc fuel) (c # s) =
     (if c = CHR ''&''
      then (case find (\<lambda>(e, x). starts_with (c # s) e) entities of
              None \<Rightarrow> None
            | Some (e, x) \<Rightarrow> map_option ((#) x) (xml_text fuel (drop (length e) (c # s))))
      else if c = CHR ''<'' then None
      else map_option ((#) c) (xml_text fuel s))"

text \<open>The escape of one character.\<close>

definition xml_esc :: "char \<Rightarrow> string" where
  "xml_esc c =
     (if c = CHR ''&'' then ''&amp;'' else if c = CHR ''<'' then ''&lt;'' else if c = CHR ''>'' then ''&gt;''
      else if c = quote_char then ''&quot;'' else if c = apos_char then ''&apos;'' else [c])"

definition desktop_esc :: "char \<Rightarrow> string" where
  "desktop_esc c = (if c = backslash then [backslash, backslash] else if c = quote_char then [backslash, quote_char] else [c])"

definition good_io :: sync_io where
  "good_io = \<lparr>io_mkdir = Ok (), io_write = Ok (), io_remove = Ok ()\<rparr>"

definition entry_path :: "desktop \<Rightarrow> string option \<Rightarrow> string option \<Rightarrow> string \<Rightarrow> string + string" where
  "entry_path dt xdg home identifier =
     (case dt of LinuxDesktop \<Rightarrow> xdg_autostart_path xdg home identifier | MacDesktop \<Rightarrow> launch_agent_path home identifier)"

definition reads_back :: "desktop \<Rightarrow> string \<Rightarrow> string \<Rightarrow> bool" where
  "reads_back dt arg exe \<longleftrightarrow>
     (case dt of LinuxDesktop \<Rightarrow> unquote_arg arg = Some exe | MacDesktop \<Rightarrow> xml_text (length arg) arg = Some exe)"


section \<open>Facts\<close>

lemma replace_char_append [simp]: "replace_char c b (s @ t) = replace_char c b s @ replace_char c b t"
  by (simp add: replace_char_def)

lemma replace_char_Nil [simp]: "replace_char c b [] = []"
  by (simp add: replace_char_def)

lemma replace_char_Cons: "replace_char c b (x # s) = (if x = c then b else [x]) @ replace_char c b s"
  by (simp add: replace_char_def)

text \<open>The passes over the text amount to one pass that escapes each character.\<close>

lemma xml_escape_once: "xml_escape s = concat (map xml_esc s)"
proof (induction s)
  case (Cons c s)
  have "xml_escape (c # s) = xml_escape [c] @ xml_escape s"
    using replace_char_append by (metis append_Cons append_Nil xml_escape_def)
  moreover have "xml_escape [c] = xml_esc c"
    by (simp add: xml_escape_def xml_esc_def replace_char_Cons quote_char_def apos_char_def)
  ultimately show ?case using Cons by simp
qed (simp add: xml_escape_def)

lemma desktop_escape_once: "desktop_exec_escape s = [quote_char] @ concat (map desktop_esc s) @ [quote_char]"
proof -
  have "replace_char quote_char [backslash, quote_char] (replace_char backslash [backslash, backslash] s) = concat (map desktop_esc s)"
    by (induction s) (simp_all add: replace_char_Cons desktop_esc_def quote_char_def backslash_def)
  then show ?thesis by (simp add: desktop_exec_escape_def)
qed

lemma unquote_desktop: "unquote_arg (desktop_exec_escape p) = Some p"
proof -
  have "unquote_tail (concat (map desktop_esc p) @ [quote_char]) = Some p"
    by (induction p) (simp_all add: desktop_esc_def quote_char_def backslash_def)
  then show ?thesis by (simp add: desktop_escape_once unquote_arg_def)
qed

lemma xml_text_escape: "length (xml_escape p) \<le> fuel \<Longrightarrow> xml_text fuel (xml_escape p) = Some p"
proof (induction p arbitrary: fuel)
  case (Cons c p)
  then obtain n where n: "fuel = Suc n" "length (xml_escape p) \<le> n"
    by (cases fuel) (auto simp: xml_escape_once xml_esc_def split: if_splits)
  have "xml_text n (xml_escape p) = Some p" by (rule Cons.IH [OF n(2)])
  then show ?case unfolding n(1)
    by (simp add: xml_escape_once xml_esc_def entities_def starts_with_def quote_char_def apos_char_def)
qed (simp add: xml_escape_once)

lemma entry_names_executable:
  "\<exists>pre arg post. render_desktop_entry identifier exe = pre @ arg @ post \<and> reads_back LinuxDesktop arg exe"
  "\<exists>pre arg post. render_launch_agent_plist identifier exe = pre @ arg @ post \<and> reads_back MacDesktop arg exe"
proof -
  have reads_desktop: "reads_back LinuxDesktop (desktop_exec_escape exe) exe" by (simp add: reads_back_def unquote_desktop)
  have reads_plist: "reads_back MacDesktop (xml_escape exe) exe" by (simp add: reads_back_def xml_text_escape)
  have "\<exists>pre post. render_desktop_entry identifier exe = pre @ desktop_exec_escape exe @ post"
    unfolding render_desktop_entry_def by (metis append.assoc)
  then show "\<exists>pre arg post. render_desktop_entry identifier exe = pre @ arg @ post \<and> reads_back LinuxDesktop arg exe"
    using reads_desktop by blast
  have "\<exists>pre post. render_launch_agent_plist identifier exe = pre @ xml_escape exe @ post"
    unfolding render_launch_agent_plist_def by (metis append.assoc)
  then show "\<exists>pre arg post. render_launch_agent_plist identifier exe = pre @ arg @ post \<and> reads_back MacDesktop arg exe"
    using reads_plist by blast
qed

lemma sync_entry_result:
  assumes "sync_entry io what (Ok path) content enabled fs = (fs', r)"
  shows "(r = Ok () \<longrightarrow> fs' path = (if enabled then Some content else None)) \<and> (\<forall>q. q \<noteq> path \<longrightarrow> fs' q = fs q) \<and> (r \<noteq> Ok () \<longrightarrow> fs' = fs)"
  using assms by (auto simp: sync_entry_def split: if_splits sum.splits)

section \<open>Properties\<close>

text \<open>
  A synchronisation that succeeds leaves the registration as the setting says: with launch at login there is an
  entry in which the desktop reads exactly the path of the executable, whatever characters it contains, and
  without it there is none; a failure changes nothing, and no other file is touched.
\<close>

theorem launch_entry_follows_setting:
  assumes "sync_launch_at_login dt io xdg home (Ok exe) identifier enabled fs = (fs', r)" and "entry_path dt xdg home identifier = Ok path"
  shows "(r = Ok () \<longrightarrow> (if enabled then \<exists>pre arg post. fs' path = Some (pre @ arg @ post) \<and> reads_back dt arg exe else fs' path = None)) \<and>
     (r \<noteq> Ok () \<longrightarrow> fs' = fs) \<and> (\<forall>q. q \<noteq> path \<longrightarrow> fs' q = fs q)"
proof (cases dt)
  case LinuxDesktop
  then have "sync_entry io ''autostart desktop entry'' (Ok path) (render_desktop_entry identifier exe) enabled fs = (fs', r)"
    using assms by (simp add: sync_launch_at_login_def sync_linux_autostart_entry_def entry_path_def)
  from sync_entry_result [OF this] show ?thesis using entry_names_executable(1) LinuxDesktop by auto
next
  case MacDesktop
  then have "sync_entry io ''launch agent'' (Ok path) (render_launch_agent_plist identifier exe) enabled fs = (fs', r)"
    using assms by (simp add: sync_launch_at_login_def sync_macos_launch_agent_def entry_path_def)
  from sync_entry_result [OF this] show ?thesis using entry_names_executable(2) MacDesktop by auto
qed

theorem launch_entry_follows_setting_witness:
  "\<exists>fs'. sync_launch_at_login LinuxDesktop good_io None (Some ''/h'') (Ok ''/a b'') ''i'' True (\<lambda>_. None) = (fs', Ok ()) \<and>
     (\<exists>pre arg post. fs' ''/h/.config/autostart/i.desktop'' = Some (pre @ arg @ post) \<and> reads_back LinuxDesktop arg ''/a b'')"
proof -
  have path: "entry_path LinuxDesktop None (Some ''/h'') ''i'' = Ok ''/h/.config/autostart/i.desktop''" by code_simp
  obtain fs' r where run: "sync_launch_at_login LinuxDesktop good_io None (Some ''/h'') (Ok ''/a b'') ''i'' True (\<lambda>_. None) = (fs', r)" by fastforce
  moreover have "r = Ok ()"
    using run path by (auto simp: sync_launch_at_login_def sync_linux_autostart_entry_def sync_entry_def entry_path_def good_io_def)
  ultimately show ?thesis using launch_entry_follows_setting [OF run path] by auto
qed

end
