(* ===== verification/Announce.thy ===== *)
theory Announce
  imports HeadlessDaemon "HOL-Library.Char_ord" "HOL-Library.List_Lexorder"
begin

text \<open>
  How a node makes itself reachable and known: the UDP listener with its fallbacks (\<^verbatim>\<open>transport/server.rs\<close>), the mDNS
  registration (\<^verbatim>\<open>discovery/service.rs\<close>), the beacons it broadcasts and how often (\<^verbatim>\<open>discovery/beacon.rs\<close>), and the order in
  which the runtime starts them (\<^verbatim>\<open>runtime/supervisor.rs\<close>).  Binding a socket, the mDNS library, the interfaces of the
  machine, files and command output are arguments.  Text is UTF-8, one byte per character of the model.
\<close>

section \<open>Platform\<close>

datatype os = MacOs | WindowsOs | LinuxOs | AndroidOs | IosOs | OtherOs

fun platform_current :: "os \<Rightarrow> string" where
  "platform_current MacOs = ''Mac''"
| "platform_current WindowsOs = ''Windows''"
| "platform_current LinuxOs = ''Linux''"
| "platform_current AndroidOs = ''Android''"
| "platform_current IosOs = ''Ios''"
| "platform_current OtherOs = ''Unknown''"

section \<open>The listener\<close>

definition PREFERRED_QUIC_PORT :: nat where "PREFERRED_QUIC_PORT = 53319"

record listener_binding =
  lb_port :: nat
  lb_mode :: string
  lb_port_mode :: string

text \<open>\<open>dual\<close> and \<open>v4\<close> bind a socket to a port, port 0 asking for a free one, and return the port.\<close>

definition bind_server_socket_with_preferred_port ::
    "(nat \<Rightarrow> string + nat) \<Rightarrow> (nat \<Rightarrow> string + nat) \<Rightarrow> nat \<Rightarrow> string + listener_binding" where
  "bind_server_socket_with_preferred_port dual v4 preferred =
     (case dual preferred of
        Inr p \<Rightarrow> Ok \<lparr>lb_port = p, lb_mode = ''dual_stack'', lb_port_mode = ''fixed''\<rparr>
      | Inl e \<Rightarrow>
          (case v4 preferred of
             Inr p \<Rightarrow> Ok \<lparr>lb_port = p, lb_mode = ''ipv4_only_fallback'', lb_port_mode = ''fixed''\<rparr>
           | Inl _ \<Rightarrow>
               (case dual 0 of
                  Inr p \<Rightarrow> Ok \<lparr>lb_port = p, lb_mode = ''dual_stack'', lb_port_mode = ''fallback_random''\<rparr>
                | Inl _ \<Rightarrow>
                    (case v4 0 of
                       Inr p \<Rightarrow> Ok \<lparr>lb_port = p, lb_mode = ''ipv4_only_fallback'', lb_port_mode = ''fallback_random''\<rparr>
                     | Inl _ \<Rightarrow> Err e))))"

definition bind_server_socket :: "(nat \<Rightarrow> string + nat) \<Rightarrow> (nat \<Rightarrow> string + nat) \<Rightarrow> string + listener_binding" where
  "bind_server_socket dual v4 = bind_server_socket_with_preferred_port dual v4 PREFERRED_QUIC_PORT"

definition listener_addrs_for_mode :: "string \<Rightarrow> nat \<Rightarrow> string list" where
  "listener_addrs_for_mode mode port =
     (if mode = ''dual_stack'' then [''[::]:'' @ show_nat port, ''0.0.0.0:'' @ show_nat port] else [''0.0.0.0:'' @ show_nat port])"

text \<open>What the node has announced so far, beside what \<open>process_info\<close> holds.\<close>

record network_state =
  nw_process :: process_info
  nw_listener_mode :: string
  nw_listener_addrs :: "string list"
  nw_endpoint_set :: bool
  nw_interface_policy :: string
  nw_enabled_interfaces :: "string list"

text \<open>\<open>tls\<close> stands for the TLS and transport configuration, \<open>endpoint\<close> for the QUIC endpoint on the socket.\<close>

definition start_server ::
    "string + unit \<Rightarrow> (nat \<Rightarrow> string + nat) \<Rightarrow> (nat \<Rightarrow> string + nat) \<Rightarrow> string + unit \<Rightarrow> network_state \<Rightarrow> network_state \<times> (string + nat)" where
  "start_server tls dual v4 endpoint nw =
     (case tls of
        Inl e \<Rightarrow> (nw, Err e)
      | Inr _ \<Rightarrow>
          (case bind_server_socket dual v4 of
             Inl e \<Rightarrow> (nw, Err e)
           | Inr b \<Rightarrow>
               (case endpoint of
                  Inl e \<Rightarrow> (nw, Err e)
                | Inr _ \<Rightarrow>
                    (let nw1 = nw\<lparr>nw_process := (nw_process nw)\<lparr>pi_local_port := lb_port b, pi_listener_port_mode := lb_port_mode b,
                           pi_firewall_rule_state := ''unknown''\<rparr>,
                           nw_listener_mode := lb_mode b, nw_listener_addrs := listener_addrs_for_mode (lb_mode b) (lb_port b)\<rparr>
                     in if nw_endpoint_set nw then (nw1, Err ''endpoint already set'')
                        else (nw1\<lparr>nw_endpoint_set := True\<rparr>, Ok (lb_port b))))))"

section \<open>Interfaces\<close>

datatype if_address = IfV4 "32 word" "32 word option" | IfV6 "128 word"

record interface =
  if_name :: string
  if_addr :: if_address

fun if_ip :: "if_address \<Rightarrow> ip_addr" where
  "if_ip (IfV4 a b) = IPv4 a"
| "if_ip (IfV6 a) = IPv6 a"

definition if_is_loopback :: "interface \<Rightarrow> bool" where
  "if_is_loopback i = is_loopback (if_ip (if_addr i))"

definition is_virtual_or_filtered_interface :: "string \<Rightarrow> bool" where
  "is_virtual_or_filtered_interface nm =
     (let n = to_ascii_lowercase nm in
      list_ex (starts_with n) [''utun'', ''awdl'', ''llw'', ''lo'', ''docker'', ''veth'', ''vmnet''] \<or>
      list_ex (contains_str n) [''loopback'', ''vmware'', ''virtualbox'', ''vethernet'', ''tailscale'', ''zerotier'', ''wireguard'',
        ''npcap'', ''bridge'', ''tap'', ''tun''])"

record interface_stats =
  is_is_loopback :: bool
  is_has_ipv4_lan :: bool
  is_has_ipv6_non_link_local :: bool

definition ipv4_link_local :: "32 word \<Rightarrow> bool" where
  "ipv4_link_local a = (drop_bit 16 a = 43518)"

definition add_interface :: "interface \<Rightarrow> interface_stats \<Rightarrow> interface_stats" where
  "add_interface i st =
     (let st1 = st\<lparr>is_is_loopback := is_is_loopback st \<or> if_is_loopback i\<rparr> in
      case if_addr i of
        IfV4 a _ \<Rightarrow> (if \<not> is_loopback (IPv4 a) \<and> \<not> ipv4_link_local a then st1\<lparr>is_has_ipv4_lan := True\<rparr> else st1)
      | IfV6 a \<Rightarrow> (if \<not> is_loopback (IPv6 a) \<and> \<not> is_unicast_link_local a then st1\<lparr>is_has_ipv6_non_link_local := True\<rparr> else st1))"

definition no_stats :: interface_stats where
  "no_stats = \<lparr>is_is_loopback = False, is_has_ipv4_lan = False, is_has_ipv6_non_link_local = False\<rparr>"

text \<open>The ordered map by name: its keys in order, each with what was gathered under it.\<close>

definition interface_names :: "interface list \<Rightarrow> string list" where
  "interface_names ifs = sort (remdups (map if_name ifs))"

definition stats_of :: "interface list \<Rightarrow> string \<Rightarrow> interface_stats" where
  "stats_of ifs n = fold add_interface (filter (\<lambda>i. if_name i = n) ifs) no_stats"

definition usable_interface :: "interface list \<Rightarrow> string \<Rightarrow> bool" where
  "usable_interface ifs n \<longleftrightarrow> \<not> is_is_loopback (stats_of ifs n) \<and> \<not> is_virtual_or_filtered_interface n"

definition select_preferred_mdns_interfaces :: "interface list option \<Rightarrow> string list" where
  "select_preferred_mdns_interfaces found =
     (case found of
        None \<Rightarrow> []
      | Some ifs \<Rightarrow>
          (let preferred = filter (\<lambda>n. usable_interface ifs n \<and>
                 (is_has_ipv4_lan (stats_of ifs n) \<or> is_has_ipv6_non_link_local (stats_of ifs n))) (interface_names ifs)
           in if preferred = [] then filter (usable_interface ifs) (interface_names ifs) else preferred))"

section \<open>Registration\<close>

text \<open>
  The characters of a text: \<^verbatim>\<open>chars().map(f)\<close> where \<open>f\<close> sends every character beyond ASCII to the same result sees
  each such character once, at its first byte.
\<close>

definition char_heads :: "string \<Rightarrow> string" where
  "char_heads s = filter (\<lambda>c. \<not> is_cont (of_char c)) s"

definition is_ascii_alphanumeric :: "char \<Rightarrow> bool" where
  "is_ascii_alphanumeric c =
     (let n = (of_char c :: nat) in (48 \<le> n \<and> n \<le> 57) \<or> (65 \<le> n \<and> n \<le> 90) \<or> (97 \<le> n \<and> n \<le> 122))"

definition trim_dashes :: "string \<Rightarrow> string" where
  "trim_dashes s = rev (dropWhile (\<lambda>c. c = CHR ''-'') (rev (dropWhile (\<lambda>c. c = CHR ''-'') s)))"

definition sanitize_mdns_instance_name :: "string \<Rightarrow> string" where
  "sanitize_mdns_instance_name nm =
     (let s = trim_dashes (map (\<lambda>c. if is_ascii_alphanumeric c \<or> c = CHR ''-'' then c else CHR ''-'') (char_heads nm))
      in if s = [] then ''DashDrop'' else s)"

text \<open>\<^verbatim>\<open>chars().take(n)\<close>: up to the first byte of character number \<open>n\<close>.\<close>

fun take_chars :: "nat \<Rightarrow> string \<Rightarrow> string" where
  "take_chars n [] = []"
| "take_chars 0 (c # s) = (if is_cont (of_char c) then c # take_chars 0 s else [])"
| "take_chars (Suc n) (c # s) = (if is_cont (of_char c) then c # take_chars (Suc n) s else c # take_chars n s)"

text \<open>\<^verbatim>\<open>String::truncate\<close> panics inside a character.\<close>

definition truncate_63 :: "string \<Rightarrow> string run" where
  "truncate_63 s = (if \<not> is_char_boundary s 63 then Panics else Returns (take 63 s))"

definition sanitize_mdns_host_label :: "string \<Rightarrow> string \<Rightarrow> string run" where
  "sanitize_mdns_host_label nm fp =
     (let base0 = trim_dashes (map (\<lambda>c. if is_ascii_alphanumeric c then ascii_lower c else CHR ''-'') (char_heads nm));
          base = (if base0 = [] then ''dashdrop'' else base0);
          label = base @ ''-'' @ to_ascii_lowercase (take_chars 8 fp);
          named = (\<lambda>l. if l = [] then ''dashdrop'' else l)
      in if length label > 63
         then (case truncate_63 label of Panics \<Rightarrow> Panics | Returns t \<Rightarrow> Returns (named (trim_dashes t)))
         else Returns (named label))"

record mdns_service =
  ms_type :: string
  ms_instance :: string
  ms_host :: string
  ms_port :: nat
  ms_properties :: "(string \<times> string) list"

definition SERVICE_TYPE :: string where "SERVICE_TYPE = ''_dashdrop._udp.local.''"

text \<open>What the node tells about itself; \<open>uuid\<close> is the fresh session id.\<close>

definition announced_service :: "os \<Rightarrow> string \<Rightarrow> service_state \<Rightarrow> mdns_service run" where
  "announced_service o_s uuid s =
     (let fp = id_fingerprint (sv_identity s); nm = device_name (config (sv_app s)) in
      case sanitize_mdns_host_label nm fp of
        Panics \<Rightarrow> Panics
      | Returns label \<Rightarrow>
          Returns \<lparr>ms_type = SERVICE_TYPE, ms_instance = sanitize_mdns_instance_name nm, ms_host = label @ ''.local.'',
            ms_port = pi_local_port (sv_process s),
            ms_properties = [(''id'', uuid), (''name'', nm), (''fp'', fp), (''platform'', platform_current o_s), (''caps'', ''file'')]\<rparr>)"

text \<open>The mDNS library: filters on interfaces, building a service with its full name, registering it.\<close>

record mdns_lib =
  md_disable_all :: "string + unit"
  md_enable :: "string \<Rightarrow> string + unit"
  md_build :: "mdns_service \<Rightarrow> string + string"
  md_register :: "string + unit"

definition set_interface_policy :: "string \<Rightarrow> string list \<Rightarrow> network_state \<Rightarrow> network_state" where
  "set_interface_policy policy ifs nw = nw\<lparr>nw_interface_policy := policy, nw_enabled_interfaces := ifs\<rparr>"

definition configure_mdns_interfaces :: "mdns_lib \<Rightarrow> interface list option \<Rightarrow> network_state \<Rightarrow> network_state" where
  "configure_mdns_interfaces M found nw =
     (let selected = select_preferred_mdns_interfaces found in
      if selected = [] then set_interface_policy ''all'' [] nw
      else case md_disable_all M of
        Inl _ \<Rightarrow> set_interface_policy ''all_fallback'' [] nw
      | Inr _ \<Rightarrow>
          (if list_all (\<lambda>n. md_enable M n = Ok ()) selected then set_interface_policy ''filtered'' selected nw
           else set_interface_policy ''all_fallback'' [] nw))"

definition register_on_daemon ::
    "mdns_lib \<Rightarrow> interface list option \<Rightarrow> mdns_service run \<Rightarrow> network_state \<Rightarrow> network_state \<times> (string + unit) run" where
  "register_on_daemon M found svc nw =
     (let nw1 = configure_mdns_interfaces M found nw in
      case svc of
        Panics \<Rightarrow> (nw1, Panics)
      | Returns service \<Rightarrow>
          (case md_build M service of
             Inl e \<Rightarrow> (nw1, Returns (Err e))
           | Inr fullname \<Rightarrow>
               (case md_register M of
                  Inl e \<Rightarrow> (nw1, Returns (Err e))
                | Inr _ \<Rightarrow>
                    (nw1\<lparr>nw_process := (nw_process nw1)\<lparr>pi_mdns_service_fullname := Some fullname\<rparr>\<rparr>, Returns (Ok ())))))"

definition reregister_service ::
    "mdns_lib option \<Rightarrow> interface list option \<Rightarrow> mdns_service run \<Rightarrow> network_state \<Rightarrow> network_state \<times> (string + unit) run" where
  "reregister_service daemon found svc nw =
     (case daemon of
        None \<Rightarrow> (nw, Returns (Err ''mDNS daemon not initialized''))
      | Some M \<Rightarrow> register_on_daemon M found svc nw)"

text \<open>What a browser on the network resolves a registration to.\<close>

text \<open>
  The mDNS library is an argument: what a browser resolves is any \<open>service_info\<close> that has the registered properties
  and the registered port.  \<open>resolved_service\<close> is one such answer.
\<close>

definition carries :: "mdns_service \<Rightarrow> service_info \<Rightarrow> bool" where
  "carries m info \<longleftrightarrow>
     list_all (\<lambda>(k, v). map_of (si_properties info) k = Some v) (ms_properties m) \<and> si_port info = ms_port m"

definition resolved_service :: "mdns_service \<Rightarrow> string \<Rightarrow> ip_addr list \<Rightarrow> service_info" where
  "resolved_service m fullname ips =
     \<lparr>si_properties = ms_properties m, si_fullname = fullname, si_hostname = ms_host m, si_port = ms_port m, si_addresses = ips\<rparr>"

section \<open>Beacons\<close>

definition DISCOVERY_BEACON_PORT :: nat where "DISCOVERY_BEACON_PORT = 53318"

datatype power_profile = Ac | Battery | LowPower

definition parse_power_profile :: "string \<Rightarrow> power_profile option" where
  "parse_power_profile raw =
     (let r = to_ascii_lowercase (trim raw) in
      if r \<in> {''ac'', ''plugged'', ''plugged_in''} then Some Ac
      else if r \<in> {''battery'', ''discharging''} then Some Battery
      else if r \<in> {''low_power'', ''low-power'', ''low power'', ''powersaver'', ''power_saver''} then Some LowPower
      else None)"

fun beacon_interval_secs_for_profile :: "power_profile \<Rightarrow> u64" where
  "beacon_interval_secs_for_profile Ac = 3"
| "beacon_interval_secs_for_profile Battery = 6"
| "beacon_interval_secs_for_profile LowPower = 12"

definition current_power_profile :: "string option \<Rightarrow> power_profile option \<Rightarrow> power_profile" where
  "current_power_profile var detected =
     (case Option.bind var parse_power_profile of
        Some p \<Rightarrow> p
      | None \<Rightarrow> (case detected of Some p \<Rightarrow> p | None \<Rightarrow> Ac))"

text \<open>Linux: \<open>ctl\<close> is the output of \<^verbatim>\<open>powerprofilesctl\<close>, \<open>entries\<close> the power supplies with a reader of their files.\<close>

definition read_linux_powerprofilesctl :: "string option \<Rightarrow> power_profile option" where
  "read_linux_powerprofilesctl ctl =
     (case ctl of
        None \<Rightarrow> None
      | Some out \<Rightarrow> (if to_ascii_lowercase (trim out) \<in> {''power-saver'', ''power saver''} then Some LowPower else None))"

definition parse_u8 :: "string \<Rightarrow> nat option" where
  "parse_u8 s = (case parse_u64 s of Some n \<Rightarrow> (if n \<le> 255 then Some n else None) | None \<Rightarrow> None)"

record supply_scan =
  sc_on_ac :: bool
  sc_battery_present :: bool
  sc_battery_low :: bool

definition scan_supply :: "(string \<Rightarrow> string option) \<Rightarrow> supply_scan \<Rightarrow> supply_scan" where
  "scan_supply rd sc =
     (let trimmed = (\<lambda>f. map_option trim (rd f)) in
      case trimmed ''type'' of
        None \<Rightarrow> sc
      | Some t \<Rightarrow>
          (if t \<in> {''Mains'', ''USB'', ''USB_C''}
           then (if trimmed ''online'' = Some ''1'' then sc\<lparr>sc_on_ac := True\<rparr> else sc)
           else if t = ''Battery''
           then (let sc1 = sc\<lparr>sc_battery_present := True\<rparr>;
                     st = to_ascii_lowercase (case trimmed ''status'' of Some x \<Rightarrow> x | None \<Rightarrow> '''');
                     capacity = Option.bind (trimmed ''capacity'') parse_u8
                 in if contains_str st ''discharging'' \<and> (case capacity of Some n \<Rightarrow> n \<le> 20 | None \<Rightarrow> False)
                    then sc1\<lparr>sc_battery_low := True\<rparr> else sc1)
           else sc))"

definition parse_linux_power_profile :: "(string \<Rightarrow> string option) list option \<Rightarrow> power_profile option" where
  "parse_linux_power_profile entries =
     (case entries of
        None \<Rightarrow> None
      | Some es \<Rightarrow>
          (let sc = fold scan_supply es \<lparr>sc_on_ac = False, sc_battery_present = False, sc_battery_low = False\<rparr> in
           if sc_battery_low sc then Some LowPower
           else if sc_on_ac sc then Some Ac
           else if sc_battery_present sc then Some Battery
           else None))"

definition detect_linux_power_profile :: "string option \<Rightarrow> (string \<Rightarrow> string option) list option \<Rightarrow> power_profile option" where
  "detect_linux_power_profile ctl entries =
     (case read_linux_powerprofilesctl ctl of Some p \<Rightarrow> Some p | None \<Rightarrow> parse_linux_power_profile entries)"

text \<open>Windows: the output of \<^verbatim>\<open>powercfg\<close> and of the battery query.\<close>

definition parse_windows_power_profile :: "string option \<Rightarrow> string option \<Rightarrow> power_profile option" where
  "parse_windows_power_profile scheme_output battery_output =
     (let text = (\<lambda>v. to_ascii_lowercase (case v of Some x \<Rightarrow> x | None \<Rightarrow> ''''));
          scheme = text scheme_output; battery = text battery_output
      in if contains_str scheme ''power saver'' \<or> contains_str scheme ''battery saver'' then Some LowPower
         else if contains_str battery ''batterystatus=1'' then Some Battery
         else if list_ex (contains_str battery) [''batterystatus=2'', ''batterystatus=6'', ''batterystatus=7'', ''batterystatus=8'', ''batterystatus=9'']
         then Some Ac
         else None)"

text \<open>
  macOS: the output of \<^verbatim>\<open>pmset -g batt\<close> and of \<^verbatim>\<open>pmset -g\<close>.  A command gives no output when it cannot be run, when it fails or
  when its output is not UTF-8.
\<close>

definition run_command_output :: "(bool \<times> string) option \<Rightarrow> string option" where
  "run_command_output output =
     (case output of
        None \<Rightarrow> None
      | Some (success, stdout) \<Rightarrow> (if success \<and> utf8_valid (byte_vals stdout) then Some stdout else None))"

definition low_power_mode_enabled :: "string \<Rightarrow> bool" where
  "low_power_mode_enabled settings_output =
     list_ex (\<lambda>line. let n = to_ascii_lowercase (trim line) in
         n = ''lowpowermode 1'' \<or> ends_with n ''lowpowermode 1'' \<or> contains_str n ''low power mode: on'' \<or> contains_str n ''low power mode: 1'')
       (split_on (CHR 0x0A) settings_output)"

definition parse_macos_power_profile :: "string option \<Rightarrow> string option \<Rightarrow> power_profile option" where
  "parse_macos_power_profile batt_output settings_output =
     (if (case settings_output of Some s \<Rightarrow> low_power_mode_enabled s | None \<Rightarrow> False) then Some LowPower
      else case batt_output of
        None \<Rightarrow> None
      | Some b \<Rightarrow>
          (let batt = to_ascii_lowercase b in
           if contains_str batt ''battery power'' then Some Battery
           else if contains_str batt ''ac power'' \<or> contains_str batt ''charged'' \<or> contains_str batt ''charging'' then Some Ac
           else None))"

text \<open>What the detection of each system reads.\<close>

datatype power_source =
    MacPower "(bool \<times> string) option" "(bool \<times> string) option"
  | LinuxPower "(bool \<times> string) option" "(string \<Rightarrow> string option) list option"
  | WindowsPower "(bool \<times> string) option" "(bool \<times> string) option"
  | OtherPower

fun detect_power_profile :: "power_source \<Rightarrow> power_profile option" where
  "detect_power_profile (MacPower batt settings) = parse_macos_power_profile (run_command_output batt) (run_command_output settings)"
| "detect_power_profile (LinuxPower ctl entries) = detect_linux_power_profile (run_command_output ctl) entries"
| "detect_power_profile (WindowsPower scheme battery) = parse_windows_power_profile (run_command_output scheme) (run_command_output battery)"
| "detect_power_profile OtherPower = None"

record beacon_cadence =
  bc_power_profile :: power_profile
  bc_interval_secs :: u64

definition current_beacon_cadence :: "string option \<Rightarrow> power_source \<Rightarrow> beacon_cadence" where
  "current_beacon_cadence var src =
     (let p = current_power_profile var (detect_power_profile src)
      in \<lparr>bc_power_profile = p, bc_interval_secs = beacon_interval_secs_for_profile p\<rparr>)"

definition local_broadcast_targets :: "interface list option \<Rightarrow> socket_addr list" where
  "local_broadcast_targets found =
     retain_unseen [] (SockV4 (- 1) DISCOVERY_BEACON_PORT #
       (case found of
          None \<Rightarrow> []
        | Some ifs \<Rightarrow>
            concat (map (\<lambda>i. if if_is_loopback i \<or> is_virtual_or_filtered_interface (if_name i) then []
                else case if_addr i of IfV4 a (Some b) \<Rightarrow> [SockV4 b DISCOVERY_BEACON_PORT] | _ \<Rightarrow> []) ifs)))"

text \<open>The name in a beacon is the one of the identity, not that of the configuration.\<close>

definition build_beacon_packet :: "os \<Rightarrow> string \<Rightarrow> u64 \<Rightarrow> string \<Rightarrow> nat \<Rightarrow> service_state \<Rightarrow> beacon_packet" where
  "build_beacon_packet o_s identity_name now instance_id port s =
     \<lparr>bp_kind = BEACON_KIND, bp_fp = id_fingerprint (sv_identity s), bp_name = identity_name,
      bp_platform = platform_current o_s, bp_port = port, bp_instance_id = instance_id, bp_ts = now\<rparr>"

text \<open>One pass of the sender: the datagrams it sends and the counters; \<open>ser\<close> writes the packet, \<open>sends\<close> is the socket.\<close>

definition beacon_tick ::
    "os \<Rightarrow> string \<Rightarrow> u64 \<Rightarrow> string \<Rightarrow> (beacon_packet \<Rightarrow> bytes option) \<Rightarrow> (socket_addr \<Rightarrow> bool) \<Rightarrow> interface list option \<Rightarrow>
     service_state \<Rightarrow> service_state \<times> (socket_addr \<times> bytes) list" where
  "beacon_tick o_s identity_name now instance_id ser sends found s =
     (let port = pi_local_port (sv_process s);
          bump = (\<lambda>f s. s\<lparr>sv_app := (sv_app s)\<lparr>discovery := f (discovery (sv_app s))\<rparr>\<rparr>)
      in if port = 0 then (s, [])
         else case ser (build_beacon_packet o_s identity_name now instance_id port s) of
           None \<Rightarrow> (bump (bump_discovery_failure ''beacon_serialize_failed'') s, [])
         | Some payload \<Rightarrow>
             (let targets = local_broadcast_targets found;
                  s1 = fold (\<lambda>t. if sends t then id else bump (bump_discovery_failure ''beacon_send_failed'')) targets s
              in (bump (bump_discovery_event ''beacon_sent'') s1, map (\<lambda>t. (t, payload)) (filter sends targets))))"

section \<open>The network runtime\<close>

text \<open>What is running after the start, with the errors reported to the host: code, subsystem and message.\<close>

record network_run =
  nr_port :: "nat option"
  nr_mdns :: bool
  nr_browser :: bool
  nr_beacon :: bool
  nr_ble :: bool
  nr_errors :: "(string \<times> string \<times> string) list"

definition start_network_runtime ::
    "string + nat \<Rightarrow> string + unit \<Rightarrow> string + unit \<Rightarrow> string + unit \<Rightarrow> network_run" where
  "start_network_runtime server mdns browser beacon =
     (case server of
        Inl e \<Rightarrow>
          \<lparr>nr_port = None, nr_mdns = False, nr_browser = False, nr_beacon = False, nr_ble = False,
           nr_errors = [(''QUIC_SERVER_START_FAILED'', ''quic_server'', ''Failed to start network listener: '' @ e)]\<rparr>
      | Inr p \<Rightarrow>
          (let mdns_errors = (case mdns of
                 Inl e \<Rightarrow> [(''MDNS_REGISTER_FAILED'', ''mdns'', ''Device discovery unavailable: '' @ e @ ''. Other devices won't see you.'')]
               | Inr _ \<Rightarrow>
                   (case browser of
                      Inl e \<Rightarrow> [(''MDNS_BROWSER_FAILED'', ''mdns_browser'', ''Scanning for nearby devices failed: '' @ e)]
                    | Inr _ \<Rightarrow> []));
               beacon_errors = (case beacon of
                 Inl e \<Rightarrow> [(''BEACON_DISCOVERY_FAILED'', ''beacon_discovery'', ''Fallback local discovery failed: '' @ e)]
               | Inr _ \<Rightarrow> [])
           in \<lparr>nr_port = Some p, nr_mdns = (mdns = Ok ()), nr_browser = (mdns = Ok () \<and> browser = Ok ()), nr_beacon = (beacon = Ok ()),
               nr_ble = True, nr_errors = mdns_errors @ beacon_errors\<rparr>))"

text \<open>Concrete inputs of the witnesses.\<close>

definition running_state :: service_state where
  "running_state = sample_state\<lparr>sv_process := initial_process_info\<lparr>pi_local_port := 53319\<rparr>,
     sv_identity := (sv_identity sample_state)\<lparr>id_fingerprint := ''aB3''\<rparr>\<rparr>"

section \<open>Facts\<close>

subsection \<open>The listener\<close>

text \<open>The fixed port is used when it can be bound at all, and only four failures are an error.\<close>

lemma bind_server_socket_cases:
  "(\<exists>b. bind_server_socket_with_preferred_port dual v4 p = Ok b \<and>
      (lb_port_mode b = ''fixed'' \<longleftrightarrow> (\<exists>q. dual p = Ok q \<or> v4 p = Ok q))) \<longleftrightarrow>
   (\<exists>q. dual p = Ok q \<or> v4 p = Ok q \<or> dual 0 = Ok q \<or> v4 0 = Ok q)"
  by (auto simp: bind_server_socket_with_preferred_port_def split: sum.splits)

subsection \<open>Names\<close>

definition label_char :: "char \<Rightarrow> bool" where
  "label_char c = (let n = (of_char c :: nat) in (48 \<le> n \<and> n \<le> 57) \<or> (97 \<le> n \<and> n \<le> 122) \<or> n = 45)"

lemma label_char_ascii: "label_char c \<Longrightarrow> \<not> is_cont (of_char c)"
  by (auto simp: label_char_def is_cont_def Let_def)

lemma label_char_dash [simp]: "label_char CHR ''-''"
  by (simp add: label_char_def)

lemma lower_label_char: "is_ascii_alphanumeric c \<Longrightarrow> label_char (ascii_lower c) \<and> ascii_lower c \<noteq> CHR ''-''"
proof -
  assume a: "is_ascii_alphanumeric c"
  then have "(of_char (ascii_lower c) :: nat) \<noteq> 45 \<and> label_char (ascii_lower c)"
    by (auto simp: is_ascii_alphanumeric_def label_char_def ascii_lower_def Let_def of_char_of)
  moreover have "(of_char (CHR ''-'') :: nat) = 45" by simp
  ultimately show ?thesis by metis
qed

lemma trim_dashes_set: "set (trim_dashes s) \<subseteq> set s"
proof -
  have "set (dropWhile P xs) \<subseteq> set xs" for P and xs :: "char list" by (auto dest: set_dropWhileD)
  then show ?thesis unfolding trim_dashes_def by (metis set_rev subset_trans)
qed

lemma drop_both_ends:
  assumes "rev (dropWhile P (rev (dropWhile P s))) \<noteq> []"
  shows "\<not> P (hd (rev (dropWhile P (rev (dropWhile P s)))))" and "\<not> P (List.last (rev (dropWhile P (rev (dropWhile P s)))))"
proof -
  define a where "a = dropWhile P s"
  have ne: "dropWhile P (rev a) \<noteq> []" using assms by (simp add: a_def)
  show "\<not> P (List.last (rev (dropWhile P (rev (dropWhile P s)))))"
    using hd_dropWhile [OF ne] ne by (simp add: a_def last_rev)
  have ane: "a \<noteq> []" using ne by auto
  obtain k where k: "rev (dropWhile P (rev a)) = take k a" by (metis dropWhile_eq_drop rev_drop rev_rev_ident)
  then have "0 < k" using ne by (cases k) auto
  then have "hd (rev (dropWhile P (rev a))) = hd a" using k by (simp add: hd_take)
  then show "\<not> P (hd (rev (dropWhile P (rev (dropWhile P s)))))" using hd_dropWhile [of P s] ane by (simp add: a_def)
qed

lemma drop_both_nonempty:
  assumes "c \<in> set s" and "\<not> P c"
  shows "rev (dropWhile P (rev (dropWhile P s))) \<noteq> []"
proof -
  have a: "dropWhile P s \<noteq> []" using assms by (auto simp: dropWhile_eq_Nil_conv)
  then have "\<not> P (hd (dropWhile P s))" by (rule hd_dropWhile)
  then show ?thesis using hd_in_set [OF a] by (auto simp: dropWhile_eq_Nil_conv)
qed

lemmas trim_dashes_ends = drop_both_ends [where P = "\<lambda>c. c = CHR ''-''", folded trim_dashes_def]
lemmas trim_dashes_nonempty = drop_both_nonempty [where P = "\<lambda>c. c = CHR ''-''", folded trim_dashes_def]

lemma trim_dashes_length: "length (trim_dashes s) \<le> length s"
  unfolding trim_dashes_def using length_dropWhile_le by (metis length_rev le_trans)

text \<open>The shape of a label of the domain name system.\<close>

definition dns_label :: "string \<Rightarrow> bool" where
  "dns_label l \<longleftrightarrow> l \<noteq> [] \<and> length l \<le> 63 \<and> list_all label_char l \<and> hd l \<noteq> CHR ''-'' \<and> List.last l \<noteq> CHR ''-''"

lemma host_base:
  defines "base nm \<equiv> (let b = trim_dashes (map (\<lambda>c. if is_ascii_alphanumeric c then ascii_lower c else CHR ''-'') (char_heads nm))
     in if b = [] then ''dashdrop'' else b)"
  shows "base nm \<noteq> [] \<and> list_all label_char (base nm) \<and> hd (base nm) \<noteq> CHR ''-''"
proof -
  let ?m = "map (\<lambda>c. if is_ascii_alphanumeric c then ascii_lower c else CHR ''-'') (char_heads nm)"
  have "list_all label_char ?m" using lower_label_char by (auto simp: list_all_iff)
  then have "list_all label_char (trim_dashes ?m)" using trim_dashes_set [of ?m] by (auto simp: list_all_iff)
  moreover have "list_all label_char ''dashdrop''" by (simp add: label_char_def)
  ultimately show ?thesis using trim_dashes_ends(1) [of ?m] by (auto simp: base_def Let_def)
qed

subsection \<open>Discovery by a peer\<close>

lemma platform_roundtrip:
  "platform_from (platform_current o_s) =
     (case o_s of MacOs \<Rightarrow> Mac | WindowsOs \<Rightarrow> Windows | LinuxOs \<Rightarrow> Linux | AndroidOs \<Rightarrow> Android | IosOs \<Rightarrow> Ios | OtherOs \<Rightarrow> UnknownPlatform)"
  by (cases o_s; simp) code_simp+

lemma sort_dedupe_set: "set (sort_dedupe_addrs xs) = set xs"
  by (simp add: sort_dedupe_addrs_def set_retain_unseen)

lemma upsert_device_stored:
  "\<exists>d. map_of (devices (upsert_device clk tbl fp nm plat sid keys addrs raw usable host port ds)) fp = Some d \<and>
     map_of (dv_sessions d) sid = Some \<lparr>ss_id = sid, ss_addrs = addrs, ss_last_seen_unix = unix_now clk, ss_last_seen_instant = instant_now clk\<rparr> \<and>
     dv_reachability d \<noteq> Offline \<and> dv_reachability d \<noteq> OfflineCandidate \<and>
     (map_of (devices ds) fp = None \<longrightarrow> dv_name d = nm \<and> dv_platform d = plat)"
proof -
  define old where "old = (case map_of (devices ds) fp of Some d0 \<Rightarrow> d0 | None \<Rightarrow> new_device fp nm plat (is_trusted tbl fp))"
  define d where "d = see_device clk (is_trusted tbl fp) sid addrs raw usable host port old"
  have "AList.update sid x (dv_sessions old) \<noteq> []" for x by (cases "dv_sessions old") auto
  then have "map_of (dv_sessions d) sid =
        Some \<lparr>ss_id = sid, ss_addrs = addrs, ss_last_seen_unix = unix_now clk, ss_last_seen_instant = instant_now clk\<rparr>"
      "dv_reachability d \<noteq> Offline" "dv_reachability d \<noteq> OfflineCandidate" "dv_name d = dv_name old" "dv_platform d = dv_platform old"
    by (simp_all add: d_def see_device_def Let_def update_conv')
  moreover have "map_of (devices (upsert_device clk tbl fp nm plat sid keys addrs raw usable host port ds)) fp = Some d"
    unfolding upsert_device_def Let_def old_def [symmetric] d_def [symmetric]
    by (simp add: emit_device_def record_device_visibility_def Let_def update_conv' split: option.split prod.split)
  moreover have "map_of (devices ds) fp = None \<Longrightarrow> dv_name old = nm \<and> dv_platform old = plat" by (simp add: old_def new_device_def)
  ultimately show ?thesis by simp
qed

section \<open>Properties\<close>

text \<open>
  The host name that a node registers is a label of the domain name system whatever the device is called, as
  long as its fingerprint starts with letters and digits: it is not empty, has at most 63 characters, consists
  of lower-case letters, digits and dashes, and neither starts nor ends with a dash; nothing panics.
\<close>

theorem host_label_is_dns_label:
  assumes "list_all is_ascii_alphanumeric (take_chars 8 fp)" and "take_chars 8 fp \<noteq> []"
  shows "\<exists>l. sanitize_mdns_host_label nm fp = Returns l \<and> dns_label l"
proof -
  define base where "base = (let b = trim_dashes (map (\<lambda>c. if is_ascii_alphanumeric c then ascii_lower c else CHR ''-'') (char_heads nm))
     in if b = [] then ''dashdrop'' else b)"
  define sfx where "sfx = to_ascii_lowercase (take_chars 8 fp)"
  define label where "label = base @ ''-'' @ sfx"
  have base: "base \<noteq> []" "list_all label_char base" "hd base \<noteq> CHR ''-''" using host_base [of nm] by (simp_all add: base_def)
  have sfx: "list_all label_char sfx" "List.last sfx \<noteq> CHR ''-''" "sfx \<noteq> []"
    using assms lower_label_char by (auto simp: sfx_def to_ascii_lowercase_def list_all_iff last_map)
  have label: "list_all label_char label" "hd label \<noteq> CHR ''-''" "List.last label \<noteq> CHR ''-''" "label \<noteq> []"
    using base sfx by (simp_all add: label_def)
  have form: "sanitize_mdns_host_label nm fp =
      (if length label > 63
       then (case truncate_63 label of Panics \<Rightarrow> Panics | Returns t \<Rightarrow> Returns (if trim_dashes t = [] then ''dashdrop'' else trim_dashes t))
       else Returns (if label = [] then ''dashdrop'' else label))"
    by (simp add: sanitize_mdns_host_label_def Let_def base_def sfx_def label_def)
  show ?thesis
  proof (cases "length label > 63")
    case True
    let ?t = "take 63 label"
    have "truncate_63 label = Returns ?t"
      using True label(1) label_char_ascii by (simp add: truncate_63_def is_char_boundary_def list_all_length)
    moreover have tne: "?t \<noteq> []" using label(4) by simp
    have "hd ?t \<in> set ?t" "hd ?t \<noteq> CHR ''-''" using hd_in_set [OF tne] label(2) by (simp_all add: hd_take)
    then have ne: "trim_dashes ?t \<noteq> []" using trim_dashes_nonempty by blast
    moreover have "list_all label_char (trim_dashes ?t)"
      using trim_dashes_set [of ?t] label(1) set_take_subset [of 63 label] by (auto simp: list_all_iff)
    moreover have "length (trim_dashes ?t) \<le> 63" using trim_dashes_length [of ?t] by simp
    ultimately show ?thesis using True trim_dashes_ends [OF ne] by (simp add: form dns_label_def)
  next
    case False
    then show ?thesis using label by (simp add: form dns_label_def)
  qed
qed

theorem host_label_is_dns_label_witness:
  "\<exists>l. sanitize_mdns_host_label [CHR 0xC3, CHR 0xA9] ''aB3'' = Returns l \<and> dns_label l"
  by (rule host_label_is_dns_label) code_simp+

text \<open>
  C29: A node that registers itself is discovered: a peer that resolves the registration, with the registered
  properties and port, and finds an address it can use stores the node under its fingerprint, not offline, with a
  session that has this address at the port the node listens on; a node it had not seen before has the name
  and the platform the node announces.
\<close>

theorem announced_node_discovered:
  assumes "announced_service o_s uuid s = Returns m" and "uuid \<noteq> ''''"
    and "id_fingerprint (sv_identity s) \<noteq> ''''" and "id_fingerprint (sv_identity s) \<noteq> own"
    and "carries m info" and "ip \<in> set (si_addresses info)"
    and "is_usable_peer_addr (socket_addr_new ip (pi_local_port (sv_process s)))"
  shows "\<exists>d ss. map_of (devices (fst (handle_resolved clk tbl own info lookup dns ds)))
        (id_fingerprint (sv_identity s)) = Some d \<and>
     dv_reachability d \<noteq> Offline \<and> map_of (dv_sessions d) uuid = Some ss \<and>
     socket_addr_new ip (pi_local_port (sv_process s)) \<in> set (ss_addrs ss) \<and>
     (map_of (devices ds) (id_fingerprint (sv_identity s)) = None \<longrightarrow>
        dv_platform d = platform_from (platform_current o_s) \<and>
        (device_name (config (sv_app s)) \<noteq> '''' \<longrightarrow> dv_name d = device_name (config (sv_app s))))"
proof -
  let ?fp = "id_fingerprint (sv_identity s)" and ?nm = "device_name (config (sv_app s))" and ?p = "pi_local_port (sv_process s)"
  let ?info = info
  have m: "ms_properties m = [(''id'', uuid), (''name'', ?nm), (''fp'', ?fp), (''platform'', platform_current o_s), (''caps'', ''file'')]" "ms_port m = ?p"
    using assms(1) by (auto simp: announced_service_def Let_def split: run.splits)
  have props: "map_of (si_properties ?info) ''fp'' = Some ?fp" "map_of (si_properties ?info) ''id'' = Some uuid"
      "map_of (si_properties ?info) ''name'' = Some ?nm" "map_of (si_properties ?info) ''platform'' = Some (platform_current o_s)"
    and port: "si_port info = ?p" using assms(5) by (simp_all add: carries_def m)
  define addrs where "addrs = sort_dedupe_addrs (filter is_usable_peer_addr (map (\<lambda>ip. socket_addr_new ip ?p) (si_addresses info)))"
  have raw: "filter is_usable_peer_addr (map (\<lambda>ip. socket_addr_new ip ?p) (si_addresses info)) \<noteq> []" using assms(6,7) by (auto simp: filter_empty_conv)
  have mem: "socket_addr_new ip ?p \<in> set addrs" using assms(6,7) by (simp add: addrs_def sort_dedupe_set)
  then have "addrs \<noteq> []" by auto
  then have res: "resolve_addrs ?info lookup dns ds = (ds, addrs)"
    using raw by (simp add: resolve_addrs_def Let_def port addrs_def)
  have "fst (handle_resolved clk tbl own ?info lookup dns ds) =
      upsert_device clk tbl ?fp (if ?nm = '''' then si_hostname ?info else ?nm) (platform_from (platform_current o_s)) uuid
        [uuid, si_fullname ?info] addrs (length (si_addresses ?info)) (length addrs) (si_hostname ?info) (si_port ?info) ds"
    using assms(2-4) props unfolding handle_resolved_def Let_def nonempty_property_def res by simp
  then show ?thesis
    using upsert_device_stored [of clk tbl ?fp "if ?nm = '''' then si_hostname ?info else ?nm" "platform_from (platform_current o_s)" uuid
        "[uuid, si_fullname ?info]" addrs "length (si_addresses ?info)" "length addrs" "si_hostname ?info" "si_port ?info" ds] mem
    by auto
qed

theorem announced_node_discovered_witness:
  "\<exists>m d ss. announced_service LinuxOs ''u'' running_state = Returns m \<and>
     map_of (devices (fst (handle_resolved sample_clock [] ''own'' (resolved_service m ''x'' [IPv4 3232235778]) NoDaemon None empty_discovery))) ''aB3'' = Some d \<and>
     map_of (dv_sessions d) ''u'' = Some ss \<and> SockV4 3232235778 53319 \<in> set (ss_addrs ss)"
proof -
  have id: "id_fingerprint (sv_identity running_state) = ''aB3''" "pi_local_port (sv_process running_state) = 53319"
    by (simp_all add: running_state_def)
  have "sanitize_mdns_host_label ''DashDrop Device'' ''aB3'' = Returns ''dashdrop-device-ab3''" by code_simp
  then have "sanitize_mdns_host_label (device_name (config (sv_app running_state))) ''aB3'' = Returns ''dashdrop-device-ab3''"
    by (simp add: running_state_def sample_state_def sample_app_def sample_config_def)
  then obtain m where m: "announced_service LinuxOs ''u'' running_state = Returns m"
    by (auto simp: announced_service_def id Let_def)
  have usable: "is_usable_peer_addr (socket_addr_new (IPv4 3232235778) 53319)" by code_simp
  let ?info = "resolved_service m ''x'' [IPv4 3232235778]"
  have "carries m ?info" "IPv4 3232235778 \<in> set (si_addresses ?info)"
    using m by (auto simp: carries_def resolved_service_def announced_service_def Let_def split: run.splits)
  from announced_node_discovered [OF m _ _ _ this, of "''own''" sample_clock "[]" NoDaemon None empty_discovery,
      unfolded id] usable m show ?thesis by auto
qed

text \<open>
  The same holds for beacons: every datagram that a pass of the sender puts on the network makes a peer that can
  use its source address store the node with that address at the port the node listens on.
\<close>

theorem beacon_node_discovered:
  assumes "(t, payload) \<in> set (snd (beacon_tick o_s identity_name now instance_id ser sends found s))"
    and "\<And>pkt bs. ser pkt = Some bs \<Longrightarrow> parse bs = Some pkt"
    and "id_fingerprint (sv_identity s) \<noteq> own" and "is_usable_peer_addr (socket_addr_new src (pi_local_port (sv_process s)))"
  shows "\<exists>d ss. map_of (devices (fst (receive_beacon clk tbl own (parse payload) src src_text ds))) (id_fingerprint (sv_identity s)) = Some d \<and>
     dv_reachability d \<noteq> Offline \<and> map_of (dv_sessions d) (''beacon:'' @ instance_id) = Some ss \<and>
     ss_addrs ss = [socket_addr_new src (pi_local_port (sv_process s))]"
proof -
  let ?pkt = "build_beacon_packet o_s identity_name now instance_id (pi_local_port (sv_process s)) s"
  have "ser ?pkt = Some payload"
    using assms(1) by (auto simp: beacon_tick_def Let_def split: if_splits option.splits)
  then have parsed: "parse payload = Some ?pkt" by (rule assms(2))
  have "fst (receive_beacon clk tbl own (parse payload) src src_text ds) =
      fst (upsert_from_beacon clk tbl ?pkt src_text (socket_addr_new src (pi_local_port (sv_process s))) (bump_discovery_event ''beacon_received'' ds))"
    using assms(3,4) by (simp add: receive_beacon_def parsed build_beacon_packet_def Let_def case_prod_beta)
  then show ?thesis
    using upsert_device_stored [of clk tbl "id_fingerprint (sv_identity s)" "bp_name ?pkt" "platform_from (bp_platform ?pkt)"
        "''beacon:'' @ instance_id" "[''beacon:'' @ instance_id]" "[socket_addr_new src (pi_local_port (sv_process s))]" 1 1 src_text
        "pi_local_port (sv_process s)" "bump_discovery_event ''beacon_received'' ds"]
    by (auto simp: upsert_from_beacon_def build_beacon_packet_def Let_def)
qed

theorem beacon_node_discovered_witness:
  "\<exists>d. map_of (devices (fst (receive_beacon sample_clock [] ''own'' (Some (build_beacon_packet LinuxOs ''n'' 7 ''i'' 53319 running_state))
     (IPv4 3232235778) ''ip'' empty_discovery))) ''aB3'' = Some d"
proof -
  let ?ser = "\<lambda>p. if p = build_beacon_packet LinuxOs ''n'' 7 ''i'' 53319 running_state then Some [] else None"
  let ?parse = "\<lambda>b. Some (build_beacon_packet LinuxOs ''n'' 7 ''i'' 53319 running_state)"
  have usable: "is_usable_peer_addr (socket_addr_new (IPv4 3232235778) 53319)" by code_simp
  have id: "id_fingerprint (sv_identity running_state) = ''aB3''" "pi_local_port (sv_process running_state) = 53319"
    by (simp_all add: running_state_def)
  have "(SockV4 (- 1) DISCOVERY_BEACON_PORT, []) \<in> set (snd (beacon_tick LinuxOs ''n'' 7 ''i'' ?ser (\<lambda>_. True) None running_state))"
    by (simp add: beacon_tick_def Let_def id local_broadcast_targets_def)
  moreover have "?parse bs = Some pkt" if "?ser pkt = Some bs" for pkt bs using that by (simp split: if_splits)
  ultimately have "\<exists>d ss. map_of (devices (fst (receive_beacon sample_clock [] ''own'' (?parse []) (IPv4 3232235778) ''ip'' empty_discovery)))
      (id_fingerprint (sv_identity running_state)) = Some d \<and> dv_reachability d \<noteq> Offline \<and>
      map_of (dv_sessions d) (''beacon:'' @ ''i'') = Some ss \<and> ss_addrs ss = [socket_addr_new (IPv4 3232235778) (pi_local_port (sv_process running_state))]"
    by (rule beacon_node_discovered) (simp_all add: id usable [simplified])
  then show ?thesis by (auto simp: id)
qed

end
