(* ===== verification/BrowserTask.thy ===== *)
theory BrowserTask
  imports Discovery
begin

text \<open>
  The task of \<^verbatim>\<open>discovery/browser.rs\<close> that receives the events of the mDNS library.  One pass waits up to five seconds
  for an event; a closed channel or a failed helper thread makes it pause and browse again, with a pause that doubles
  from a tenth of a second up to five seconds.  When browsing again fails the task keeps the receiver it has: one
  whose channel is closed reports that again in the next pass.  The library is an argument: what the channel
  delivers to each pass while it is open, and whether browsing again works.
\<close>

section \<open>Definitions\<close>

record browser_status =
  bs_active :: bool
  bs_restart_count :: u64
  bs_last_disconnect_at :: "u64 option"

definition initial_browser_status :: browser_status where
  "initial_browser_status = \<lparr>bs_active = False, bs_restart_count = 0, bs_last_disconnect_at = None\<rparr>"

datatype browse_event =
    SearchStarted string
  | Resolved clock trust_table service_info hostname_lookup "socket_addr list option"
  | Removed string
  | OtherEvent
  | RecvTimeout
  | Disconnected

text \<open>
  What one pass meets: whether the helper thread ends without a panic, what the channel of the receiver delivers
  if it was not found closed before, the time, and the outcome of browsing again, when it is tried.
\<close>

record browser_input =
  bi_thread_ok :: bool
  bi_event :: browse_event
  bi_now :: u64
  bi_browse_ok :: bool

datatype follow_up = Probe string "socket_addr list" | RemoveLater string string u64

text \<open>The receiver is kept as whether its channel was found closed.\<close>

record browser_task =
  bt_status :: browser_status
  bt_receiver_closed :: bool
  bt_last_search_started :: "string option"
  bt_backoff_ms :: u64
  bt_slept :: "u64 list"
  bt_discovery :: discovery_state
  bt_spawned :: "follow_up list"

definition on_discovery :: "(discovery_state \<Rightarrow> discovery_state) \<Rightarrow> browser_task \<Rightarrow> browser_task" where
  "on_discovery f b = b\<lparr>bt_discovery := f (bt_discovery b)\<rparr>"

definition set_active :: "bool \<Rightarrow> browser_task \<Rightarrow> browser_task" where
  "set_active a b = b\<lparr>bt_status := (bt_status b)\<lparr>bs_active := a\<rparr>\<rparr>"

text \<open>A closed channel stays closed.\<close>

definition recv_timeout :: "browser_input \<Rightarrow> browser_task \<Rightarrow> browse_event" where
  "recv_timeout x b = (if bt_receiver_closed b then Disconnected else bi_event x)"

text \<open>The pause and the new attempt.\<close>

definition browse_again :: "bool \<Rightarrow> browser_task \<Rightarrow> browser_task" where
  "browse_again ok b =
     (let b1 = b\<lparr>bt_slept := bt_slept b @ [bt_backoff_ms b]\<rparr> in
      if ok
      then set_active True (on_discovery (bump_discovery_event ''browser_restarted'')
        (b1\<lparr>bt_receiver_closed := False, bt_backoff_ms := 100\<rparr>))
      else on_discovery (bump_discovery_failure ''browser_restart_failed'')
        (b1\<lparr>bt_backoff_ms := min (min (bt_backoff_ms b1 * 2) U64_MAX) 5000\<rparr>))"

definition note_disconnect :: "u64 \<Rightarrow> browser_task \<Rightarrow> browser_task" where
  "note_disconnect t b =
     (on_discovery (bump_discovery_failure ''browser_channel_disconnected'') b)\<lparr>bt_receiver_closed := True, bt_status :=
        \<lparr>bs_active = False, bs_restart_count = sat_add (bs_restart_count (bt_status b)) 1, bs_last_disconnect_at = Some t\<rparr>\<rparr>"

definition note_join_error :: "browser_task \<Rightarrow> browser_task" where
  "note_join_error b = set_active False (on_discovery (bump_discovery_failure ''browser_spawn_blocking_join_error'') b)"

fun handle_event :: "string \<Rightarrow> browse_event \<Rightarrow> browser_input \<Rightarrow> browser_task \<Rightarrow> browser_task" where
  "handle_event own (SearchStarted p) x b =
     on_discovery (bump_discovery_event ''search_started'') (b\<lparr>bt_last_search_started := Some p\<rparr>)"
| "handle_event own (Resolved clk tbl info lookup dns) x b =
     (case handle_resolved clk tbl own info lookup dns (bump_discovery_event ''service_resolved'' (bt_discovery b)) of
        (ds, probe) \<Rightarrow> b\<lparr>bt_backoff_ms := 100, bt_discovery := ds,
          bt_spawned := bt_spawned b @ (case probe of Some (fp, addrs) \<Rightarrow> [Probe fp addrs] | None \<Rightarrow> [])\<rparr>)"
| "handle_event own (Removed key) x b =
     (case handle_removed key (bump_discovery_event ''service_removed'' (bt_discovery b)) of
        (ds, later) \<Rightarrow> b\<lparr>bt_backoff_ms := 100, bt_discovery := ds,
          bt_spawned := bt_spawned b @ (case later of Some (fp, sid, seen) \<Rightarrow> [RemoveLater fp sid seen] | None \<Rightarrow> [])\<rparr>)"
| "handle_event own OtherEvent x b = b"
| "handle_event own RecvTimeout x b = b"
| "handle_event own Disconnected x b = browse_again (bi_browse_ok x) (note_disconnect (bi_now x) b)"

definition browser_pass :: "string \<Rightarrow> browser_input \<Rightarrow> browser_task \<Rightarrow> browser_task" where
  "browser_pass own x b =
     (if bi_thread_ok x then handle_event own (recv_timeout x b) x b
      else browse_again (bi_browse_ok x) (note_join_error b))"

text \<open>The start of the task, when the first call to browse worked.\<close>

definition start_browser :: "browser_status \<Rightarrow> discovery_state \<Rightarrow> browser_task" where
  "start_browser st ds = set_active True
     \<lparr>bt_status = st, bt_receiver_closed = False, bt_last_search_started = None, bt_backoff_ms = 100, bt_slept = [],
      bt_discovery = ds, bt_spawned = []\<rparr>"

fun run_browser :: "string \<Rightarrow> browser_input list \<Rightarrow> browser_task \<Rightarrow> browser_task" where
  "run_browser own [] b = b"
| "run_browser own (x # xs) b = run_browser own xs (browser_pass own x b)"

section \<open>What the passes meet\<close>

text \<open>The outcomes of the attempts to browse again.\<close>

definition attempt_outcome :: "browser_input \<Rightarrow> browser_task \<Rightarrow> bool list" where
  "attempt_outcome x b = (if bi_thread_ok x \<and> recv_timeout x b \<noteq> Disconnected then [] else [bi_browse_ok x])"

fun attempt_outcomes :: "string \<Rightarrow> browser_input list \<Rightarrow> browser_task \<Rightarrow> bool list" where
  "attempt_outcomes own [] b = []"
| "attempt_outcomes own (x # xs) b = attempt_outcome x b @ attempt_outcomes own xs (browser_pass own x b)"

text \<open>The passes that find the channel closed, and those among them that find it closed for the first time.\<close>

definition finds_closed :: "browser_input \<Rightarrow> browser_task \<Rightarrow> bool" where
  "finds_closed x b \<longleftrightarrow> bi_thread_ok x \<and> recv_timeout x b = Disconnected"

fun closed_receives :: "string \<Rightarrow> browser_input list \<Rightarrow> browser_task \<Rightarrow> nat" where
  "closed_receives own [] b = 0"
| "closed_receives own (x # xs) b = (if finds_closed x b then 1 else 0) + closed_receives own xs (browser_pass own x b)"

fun lost_channels :: "string \<Rightarrow> browser_input list \<Rightarrow> browser_task \<Rightarrow> nat" where
  "lost_channels own [] b = 0"
| "lost_channels own (x # xs) b =
     (if finds_closed x b \<and> \<not> bt_receiver_closed b then 1 else 0) + lost_channels own xs (browser_pass own x b)"

definition pause_ok :: "u64 \<Rightarrow> bool" where
  "pause_ok ms \<longleftrightarrow> 100 \<le> ms \<and> ms \<le> 5000"

definition pauses_ok :: "browser_task \<Rightarrow> bool" where
  "pauses_ok b \<longleftrightarrow> list_all pause_ok (bt_slept b) \<and> pause_ok (bt_backoff_ms b)"

text \<open>A receiver whose channel was found closed is never reported as active.\<close>

definition status_ok :: "browser_task \<Rightarrow> bool" where
  "status_ok b \<longleftrightarrow> (bt_receiver_closed b \<longrightarrow> \<not> bs_active (bt_status b)) \<and> bs_restart_count (bt_status b) \<le> U64_MAX"

text \<open>An input that finds the channel closed and fails to browse again.\<close>

definition failing_input :: "u64 \<Rightarrow> browser_input" where
  "failing_input t = \<lparr>bi_thread_ok = True, bi_event = Disconnected, bi_now = t, bi_browse_ok = False\<rparr>"

section \<open>Facts\<close>

lemma run_browser_append: "run_browser own (xs @ ys) b = run_browser own ys (run_browser own xs b)"
  by (induction xs arbitrary: b) simp_all

lemma browse_again_fields:
  "bs_active (bt_status (browse_again ok b)) = (ok \<or> bs_active (bt_status b))"
  "bs_restart_count (bt_status (browse_again ok b)) = bs_restart_count (bt_status b)"
  "bt_receiver_closed (browse_again ok b) = (\<not> ok \<and> bt_receiver_closed b)"
  "bt_slept (browse_again ok b) = bt_slept b @ [bt_backoff_ms b]"
  "bt_backoff_ms (browse_again ok b) = (if ok then 100 else min (bt_backoff_ms b * 2) 5000)"
  "discovery_ok (bt_discovery (browse_again ok b)) = discovery_ok (bt_discovery b)"
  by (simp_all add: browse_again_def Let_def set_active_def on_discovery_def U64_MAX_def min_def)

lemma note_fields:
  "\<not> bs_active (bt_status (note_disconnect t b))" "\<not> bs_active (bt_status (note_join_error b))"
  "bs_restart_count (bt_status (note_disconnect t b)) = sat_add (bs_restart_count (bt_status b)) 1"
  "bs_restart_count (bt_status (note_join_error b)) = bs_restart_count (bt_status b)"
  "bt_receiver_closed (note_disconnect t b)" "bt_receiver_closed (note_join_error b) = bt_receiver_closed b"
  "bt_slept (note_disconnect t b) = bt_slept b" "bt_slept (note_join_error b) = bt_slept b"
  "bt_backoff_ms (note_disconnect t b) = bt_backoff_ms b" "bt_backoff_ms (note_join_error b) = bt_backoff_ms b"
  "discovery_ok (bt_discovery (note_disconnect t b)) = discovery_ok (bt_discovery b)"
  "discovery_ok (bt_discovery (note_join_error b)) = discovery_ok (bt_discovery b)"
  by (simp_all add: note_disconnect_def note_join_error_def set_active_def on_discovery_def)

lemmas pass_fields = browser_pass_def browse_again_fields note_fields

lemma event_fields:
  assumes "e \<noteq> Disconnected"
  shows "bt_status (handle_event own e x b) = bt_status b" "bt_receiver_closed (handle_event own e x b) = bt_receiver_closed b"
    "bt_slept (handle_event own e x b) = bt_slept b" "bt_backoff_ms (handle_event own e x b) \<in> {100, bt_backoff_ms b}"
  using assms by (cases e; simp add: on_discovery_def split: prod.split)+

text \<open>A pass in the three cases: an event, a closed channel, a failed thread.\<close>

lemma pass_cases:
  obtains (event) e where "e \<noteq> Disconnected" "browser_pass own x b = handle_event own e x b" "attempt_outcome x b = []"
      "\<not> finds_closed x b" "\<not> bt_receiver_closed b"
  | (closed) "browser_pass own x b = browse_again (bi_browse_ok x) (note_disconnect (bi_now x) b)"
      "attempt_outcome x b = [bi_browse_ok x]" "finds_closed x b"
  | (thread) "browser_pass own x b = browse_again (bi_browse_ok x) (note_join_error b)"
      "attempt_outcome x b = [bi_browse_ok x]" "\<not> finds_closed x b"
proof (cases "bi_thread_ok x")
  case True
  then show ?thesis
    using that by (cases "recv_timeout x b = Disconnected")
      (auto simp: browser_pass_def attempt_outcome_def finds_closed_def recv_timeout_def split: if_splits)
next
  case False
  then show ?thesis using that by (simp add: browser_pass_def attempt_outcome_def finds_closed_def)
qed

lemma pass_pauses: "pauses_ok b \<Longrightarrow> pauses_ok (browser_pass own x b)"
proof (cases own x b rule: pass_cases)
  case (event e)
  assume "pauses_ok b"
  with event event_fields(3,4) [of e own x b] show ?thesis by (auto simp: pauses_ok_def pause_ok_def)
qed (simp_all add: browse_again_fields note_fields pauses_ok_def pause_ok_def)

lemma pass_active:
  "bs_active (bt_status (browser_pass own x b)) = last (bs_active (bt_status b) # attempt_outcome x b)"
  by (cases own x b rule: pass_cases) (simp_all add: event_fields browse_again_fields note_fields)

lemma pass_count:
  "bs_restart_count (bt_status (browser_pass own x b)) =
     (if finds_closed x b then sat_add (bs_restart_count (bt_status b)) 1 else bs_restart_count (bt_status b))"
  by (cases own x b rule: pass_cases) (simp_all add: event_fields browse_again_fields note_fields)

lemma pass_status: "status_ok b \<Longrightarrow> status_ok (browser_pass own x b)"
  by (cases own x b rule: pass_cases)
    (simp_all add: status_ok_def event_fields browse_again_fields note_fields sat_add_def)

lemma event_discovery: "discovery_ok (bt_discovery b) \<Longrightarrow> e \<noteq> Disconnected \<Longrightarrow> discovery_ok (bt_discovery (handle_event own e x b))"
proof (cases e)
  case (Resolved clk tbl info lookup dns)
  assume "discovery_ok (bt_discovery b)"
  then have "discovery_ok (discovery_step (ServiceResolved clk tbl own info lookup dns) (bump_discovery_event ''service_resolved'' (bt_discovery b)))"
    by (intro discovery_step_ok) simp
  then show ?thesis using Resolved by (auto split: prod.split)
next
  case (Removed key)
  assume "discovery_ok (bt_discovery b)"
  then have "discovery_ok (discovery_step (ServiceRemoved key) (bump_discovery_event ''service_removed'' (bt_discovery b)))"
    by (intro discovery_step_ok) simp
  then show ?thesis using Removed by (auto split: prod.split)
qed (simp_all add: on_discovery_def)

lemma pass_discovery: "discovery_ok (bt_discovery b) \<Longrightarrow> discovery_ok (bt_discovery (browser_pass own x b))"
  by (cases own x b rule: pass_cases) (simp_all add: event_discovery browse_again_fields note_fields)

lemma run_keeps:
  "status_ok b \<and> pauses_ok b \<and> discovery_ok (bt_discovery b) \<Longrightarrow>
     status_ok (run_browser own xs b) \<and> pauses_ok (run_browser own xs b) \<and> discovery_ok (bt_discovery (run_browser own xs b))"
  by (induction xs arbitrary: b) (simp_all add: pass_status pass_pauses pass_discovery)

lemma run_active:
  "bs_active (bt_status (run_browser own xs b)) = last (bs_active (bt_status b) # attempt_outcomes own xs b)"
  by (induction xs arbitrary: b) (auto simp: pass_active)

lemma run_count:
  "bs_restart_count (bt_status b) \<le> U64_MAX \<Longrightarrow>
     bs_restart_count (bt_status (run_browser own xs b)) = min (bs_restart_count (bt_status b) + closed_receives own xs b) U64_MAX"
  by (induction xs arbitrary: b) (auto simp: pass_count sat_add_def min_def)

text \<open>Each lost channel is found closed once, and again after each failed attempt at most.\<close>

lemma closed_receives_bounds:
  "lost_channels own xs b \<le> closed_receives own xs b"
  "closed_receives own xs b \<le>
     lost_channels own xs b + length (filter Not (attempt_outcomes own xs b)) + (if bt_receiver_closed b then 1 else 0)"
proof (induction xs arbitrary: b)
  case (Cons x xs)
  case 1
  then show ?case using Cons(1) [of "browser_pass own x b"] by simp
next
  case (Cons x xs)
  case 2
  let ?b = "browser_pass own x b"
  note ih = Cons(2) [of ?b]
  show ?case
    by (cases own x b rule: pass_cases)
      (use ih in \<open>auto simp: event_fields browse_again_fields note_fields split: if_splits\<close>)
qed simp_all

section \<open>Properties\<close>

text \<open>
  C30: The status of the browser tells what its passes met, whatever the mDNS library delivers.  After each pass the
  status is active exactly when the last attempt to browse worked (the first one counted in), and it is never
  active with a receiver whose channel was found closed; within a pass it is inactive from the failure until
  browsing again has worked, so also during the pause.  The restart counter is the number of passes that
  found the channel closed (up to the largest number): at least the number of channels lost, and at most that
  number plus the number of attempts to browse again that failed, since the task keeps the closed
  receiver after such an attempt.  Every pause lies between a tenth of a second and five seconds, and the
  invariant of the discovery table holds.
\<close>

theorem browser_status_truthful:
  assumes "discovery_ok ds"
  shows "let b0 = start_browser initial_browser_status ds; b = run_browser own xs b0; outcomes = attempt_outcomes own xs b0 in
     bs_active (bt_status b) = last (True # outcomes) \<and> (bt_receiver_closed b \<longrightarrow> \<not> bs_active (bt_status b)) \<and>
     \<not> bs_active (bt_status (note_disconnect t b)) \<and> \<not> bs_active (bt_status (note_join_error b)) \<and>
     bs_restart_count (bt_status b) = min (closed_receives own xs b0) U64_MAX \<and>
     lost_channels own xs b0 \<le> closed_receives own xs b0 \<and>
     closed_receives own xs b0 \<le> lost_channels own xs b0 + length (filter Not outcomes) \<and>
     list_all pause_ok (bt_slept b) \<and> pause_ok (bt_backoff_ms b) \<and> discovery_ok (bt_discovery b)"
proof -
  let ?b = "start_browser initial_browser_status ds"
  have b: "bs_active (bt_status ?b)" "bs_restart_count (bt_status ?b) = 0" "\<not> bt_receiver_closed ?b" "pauses_ok ?b"
      "bt_discovery ?b = ds"
    by (simp_all add: start_browser_def set_active_def initial_browser_status_def pauses_ok_def pause_ok_def)
  then have "status_ok ?b" by (simp add: status_ok_def)
  then have k: "status_ok (run_browser own xs ?b)" "pauses_ok (run_browser own xs ?b)" "discovery_ok (bt_discovery (run_browser own xs ?b))"
    using run_keeps [of ?b own xs] b assms by auto
  show ?thesis
    unfolding Let_def run_active
    using k b closed_receives_bounds [of own xs ?b] run_count [of ?b own xs]
    by (simp add: status_ok_def pauses_ok_def note_fields run_active)
qed

theorem browser_status_truthful_witness:
  "let b0 = start_browser initial_browser_status empty_discovery;
       xs = [failing_input 7, failing_input 8, (failing_input 9)\<lparr>bi_browse_ok := True\<rparr>]; b = run_browser ''me'' xs b0 in
     bs_active (bt_status b) \<and> bs_restart_count (bt_status b) = 3 \<and> lost_channels ''me'' xs b0 = 1 \<and> list_all pause_ok (bt_slept b)"
proof -
  let ?b = "start_browser initial_browser_status empty_discovery"
  let ?xs = "[failing_input 7, failing_input 8, (failing_input 9)\<lparr>bi_browse_ok := True\<rparr>]"
  have e: "discovery_ok empty_discovery" by (simp add: discovery_ok_def empty_discovery_def)
  note defs = failing_input_def attempt_outcome_def finds_closed_def recv_timeout_def pass_fields start_browser_def set_active_def
  have "attempt_outcomes ''me'' ?xs ?b = [False, False, True]" "closed_receives ''me'' ?xs ?b = 3" "lost_channels ''me'' ?xs ?b = 1"
    by (simp_all add: defs)
  then show ?thesis using browser_status_truthful [OF e, of "''me''" ?xs] by (simp add: Let_def U64_MAX_def)
qed

text \<open>
  The pauses of attempts that keep failing double up to the limit: the pause before attempt number \<open>k\<close> is \<open>100 * 2 ^ k\<close> milliseconds, at most 5000.
\<close>

theorem failing_restarts_back_off:
  "bt_slept (run_browser own (map failing_input ts) (start_browser st ds)) = map (\<lambda>k. min (100 * 2 ^ k) 5000) [0..<length ts]"
proof -
  let ?run = "\<lambda>ts. run_browser own (map failing_input ts) (start_browser st ds)"
  have "bt_slept (?run ts) = map (\<lambda>k. min (100 * 2 ^ k) 5000) [0..<length ts] \<and> bt_backoff_ms (?run ts) = min (100 * 2 ^ length ts) 5000"
  proof (induction ts rule: rev_induct)
    case Nil
    then show ?case by (simp add: start_browser_def set_active_def)
  next
    case (snoc t ts)
    have "min (min (100 * 2 ^ length ts) 5000 * 2) 5000 = min (100 * 2 ^ Suc (length ts)) (5000 :: nat)" by (simp add: min_def)
    then show ?case using snoc
      by (simp add: run_browser_append pass_fields failing_input_def recv_timeout_def)
  qed
  then show ?thesis by blast
qed

end
