(* ===== verification/Diagnostics.thy ===== *)
theory Diagnostics
  imports Announce BrowserTask
begin

text \<open>
  The diagnostics report of \<^verbatim>\<open>commands.rs\<close>: what the links of this device can do, the replay window of the runtime
  events with one row for each consumer, the discovered devices, the network interfaces, and the hints for the user
  that are derived from the counters.  A JSON object of the report is a record with a field for each key; addresses
  are kept as values instead of texts.  The parts that only repeat state kept elsewhere (service levels, counters of
  the progress worker) are not repeated here.
\<close>

section \<open>Definitions\<close>

subsection \<open>Link capabilities\<close>

definition env_flag :: "(string \<Rightarrow> string option) \<Rightarrow> string \<Rightarrow> bool option" where
  "env_flag vars key =
     (case vars key of
        None \<Rightarrow> None
      | Some v \<Rightarrow>
          (let n = to_ascii_lowercase (trim v) in
           if n \<in> {''1'', ''true'', ''yes'', ''on''} then Some True
           else if n \<in> {''0'', ''false'', ''no'', ''off''} then Some False else None))"

definition flag_or :: "bool \<Rightarrow> bool option \<Rightarrow> bool" where
  "flag_or d f = (case f of Some b \<Rightarrow> b | None \<Rightarrow> d)"

record link_capabilities =
  lc_ble_baseline_enabled :: bool
  lc_ble_supported :: bool
  lc_ble_permission_state :: string
  lc_ble_runtime_available :: bool
  lc_single_radio_risk :: bool
  lc_softap_capable :: bool
  lc_p2p_capable :: bool
  lc_rolling_identifier_mode :: string
  lc_ephemeral_capsule_mode :: string
  lc_fallback_mode :: string
  lc_status :: ble_runtime_status
  lc_recent_capsules :: "ble_observation list"

text \<open>\<open>debug\<close> is \<^verbatim>\<open>cfg!(debug_assertions)\<close>.  The capsules are added by the report, which knows the observations.\<close>

definition build_link_capabilities :: "(string \<Rightarrow> string option) \<Rightarrow> bool \<Rightarrow> string \<Rightarrow> ble_runtime_status \<Rightarrow> link_capabilities" where
  "build_link_capabilities vars debug own st =
     (let baseline = flag_or debug (env_flag vars ''DASHDROP_BLE_BASELINE_ENABLED'');
          supported = (own \<in> {''Mac'', ''Windows'', ''Linux''});
          provider_ready = (br_scanner_state st \<in> {''hardware_ready_scaffold'', ''observing_capsules'', ''bridge_snapshot_ready'',
            ''bridge_scanning'', ''bridge_authorized_idle''})
      in \<lparr>lc_ble_baseline_enabled = baseline, lc_ble_supported = supported,
          lc_ble_permission_state = (case br_permission_state st of
            Some p \<Rightarrow> p | None \<Rightarrow> if supported then ''not_requested'' else ''not_supported''),
          lc_ble_runtime_available = (baseline \<and> supported \<and>
            (flag_or False (env_flag vars ''DASHDROP_BLE_RUNTIME_AVAILABLE'') \<or> provider_ready \<or>
             br_last_bridge_snapshot_at_unix_ms st \<noteq> None)),
          lc_single_radio_risk = flag_or False (env_flag vars ''DASHDROP_SINGLE_RADIO_RISK''),
          lc_softap_capable = (own \<in> {''Windows'', ''Linux''} \<and> flag_or False (env_flag vars ''DASHDROP_SOFTAP_CAPABLE'')),
          lc_p2p_capable = (supported \<and> flag_or False (env_flag vars ''DASHDROP_P2P_CAPABLE'')),
          lc_rolling_identifier_mode = (if baseline then ''planned_ephemeral'' else ''disabled''),
          lc_ephemeral_capsule_mode = (if baseline then ''diagnostics_only'' else ''disabled''),
          lc_fallback_mode = ''qr_or_short_code'', lc_status = st, lc_recent_capsules = []\<rparr>)"

subsection \<open>Checkpoints of the consumers\<close>

record checkpoint_row =
  rw_consumer_id :: string
  rw_generation :: string
  rw_seq :: nat
  rw_updated_at_unix_ms :: nat
  rw_lease_expires_at_unix_ms :: nat
  rw_age_ms :: nat
  rw_lag_events :: nat
  rw_lifecycle_state :: string
  rw_recovery_state :: string
  rw_recovery_hint :: "string option"
  rw_oldest_recoverable_seq :: "nat option"
  rw_retention_cutoff_reason :: string
  rw_persisted_journal_health :: string
  rw_consumer_recovery_mode :: string
  rw_recovery_safety :: string
  rw_current_oldest_available_seq :: "nat option"
  rw_current_latest_available_seq :: "nat option"
  rw_current_compaction_watermark_seq :: "nat option"
  rw_current_compaction_watermark_segment_id :: "nat option"

definition lifecycle_state :: "nat \<Rightarrow> string" where
  "lifecycle_state age =
     (if age \<le> RUNTIME_EVENT_CHECKPOINT_ACTIVE_THRESHOLD_MS then ''active''
      else if age \<le> RUNTIME_EVENT_CHECKPOINT_STALE_THRESHOLD_MS then ''idle'' else ''stale'')"

definition recovery_state :: "string \<Rightarrow> nat \<Rightarrow> nat option \<Rightarrow> nat option \<Rightarrow> checkpoint \<Rightarrow> string" where
  "recovery_state g newest memory_oldest persisted_oldest c =
     (if c_generation c \<noteq> g then ''resync_required''
      else if newest = 0 \<or> c_seq c \<ge> newest then ''up_to_date''
      else if (case memory_oldest of Some m \<Rightarrow> c_seq c \<ge> sat_sub m 1 | None \<Rightarrow> True) then ''hot_window''
      else if (case persisted_oldest of Some m \<Rightarrow> c_seq c \<ge> sat_sub m 1 | None \<Rightarrow> True) then ''persisted_catch_up''
      else ''resync_required'')"

definition runtime_event_checkpoint_diagnostics ::
    "checkpoint \<Rightarrow> string \<Rightarrow> nat \<Rightarrow> nat option \<Rightarrow> nat option \<Rightarrow> nat option \<Rightarrow> string \<Rightarrow> string \<Rightarrow> nat \<Rightarrow> checkpoint_row" where
  "runtime_event_checkpoint_diagnostics c g newest memory_oldest persisted_oldest oldest_recoverable cutoff_reason health now =
     (let age = sat_sub now (updated_at_unix_ms c);
          recovery = recovery_state g newest memory_oldest persisted_oldest c
      in \<lparr>rw_consumer_id = consumer_id c, rw_generation = c_generation c, rw_seq = c_seq c, rw_updated_at_unix_ms = updated_at_unix_ms c,
          rw_lease_expires_at_unix_ms = sat_add (updated_at_unix_ms c) RUNTIME_EVENT_CHECKPOINT_ACTIVE_THRESHOLD_MS,
          rw_age_ms = age, rw_lag_events = (if c_generation c = g then sat_sub newest (c_seq c) else newest),
          rw_lifecycle_state = lifecycle_state age, rw_recovery_state = recovery, rw_recovery_hint = recovery_hint c,
          rw_oldest_recoverable_seq = oldest_recoverable, rw_retention_cutoff_reason = cutoff_reason,
          rw_persisted_journal_health = health,
          rw_consumer_recovery_mode = (if recovery = ''resync_required'' then ''authoritative_refresh'' else ''incremental_catch_up''),
          rw_recovery_safety = (if c_generation c \<noteq> g then ''generation_mismatch''
            else if recovery = ''resync_required'' then ''authoritative_refresh_required'' else ''safe_incremental''),
          rw_current_oldest_available_seq = current_oldest_available_seq c,
          rw_current_latest_available_seq = current_latest_available_seq c,
          rw_current_compaction_watermark_seq = current_compaction_watermark_seq c,
          rw_current_compaction_watermark_segment_id = current_compaction_watermark_segment_id c\<rparr>)"

subsection \<open>The replay window\<close>

record replay_report =
  rp_generation :: string
  rp_latest_seq :: nat
  rp_memory_window_len :: nat
  rp_memory_oldest_seq :: "nat option"
  rp_stats :: "journal_stats option"
  rp_persisted_window_len :: nat
  rp_persisted_oldest_seq :: "nat option"
  rp_oldest_recoverable_seq :: "nat option"
  rp_persisted_baseline_oldest_seq :: "nat option"
  rp_persisted_max_oldest_seq :: "nat option"
  rp_retention_mode :: string
  rp_retention_cutoff_reason :: string
  rp_persisted_journal_health :: string
  rp_retention_pinned_checkpoint_count :: nat
  rp_oldest_retention_pinned_checkpoint_seq :: "nat option"
  rp_active_checkpoint_count :: nat
  rp_idle_checkpoint_count :: nat
  rp_stale_checkpoint_count :: nat
  rp_resync_required_checkpoint_count :: nat
  rp_metrics :: replay_metrics
  rp_checkpoints :: "checkpoint_row list"

text \<open>The oldest number that a window of \<open>capacity\<close> events up to \<open>newest\<close> reaches.\<close>

definition window_oldest :: "nat \<Rightarrow> nat \<Rightarrow> nat option" where
  "window_oldest capacity newest = (if newest = 0 then None else Some (max (sat_sub newest (capacity - 1)) 1))"

definition retention_mode :: "nat option \<Rightarrow> nat option \<Rightarrow> nat option \<Rightarrow> string" where
  "retention_mode persisted_oldest baseline_oldest max_oldest =
     (case (persisted_oldest, baseline_oldest) of
        (None, _) \<Rightarrow> ''empty''
      | (Some s, Some b) \<Rightarrow>
          (if s < b then (if max_oldest = Some s then ''checkpoint_pinned_max_capped'' else ''checkpoint_pinned'') else ''baseline'')
      | _ \<Rightarrow> ''baseline'')"

definition retention_cutoff_reason :: "string \<Rightarrow> string" where
  "retention_cutoff_reason mode =
     (if mode = ''empty'' then ''journal_empty''
      else if mode = ''checkpoint_pinned_max_capped'' then ''checkpoint_pinned_max_capacity''
      else if mode = ''checkpoint_pinned'' then ''checkpoint_pinned'' else ''baseline_capacity'')"

definition minimum :: "nat list \<Rightarrow> nat option" where
  "minimum ns = (if ns = [] then None else Some (Min (set ns)))"

definition count_rows :: "(checkpoint_row \<Rightarrow> bool) \<Rightarrow> checkpoint_row list \<Rightarrow> nat" where
  "count_rows P rows = length (filter P rows)"

text \<open>
  The numbers are read before the checkpoints are refreshed, and the statistics of the journal afterwards.  A database
  that does not answer gives no checkpoints and no statistics.
\<close>

definition runtime_event_replay :: "bool \<Rightarrow> nat \<Rightarrow> feed_state \<Rightarrow> feed_state \<times> replay_report" where
  "runtime_event_replay db now st =
     (let memory_oldest = memory_oldest_seq st; newest = fs_seq st; persisted_oldest = persisted_oldest_seq st;
          metrics0 = fs_metrics st;
          (st1, found) = runtime_event_checkpoints db now st;
          checkpoints = (case found of Inl _ \<Rightarrow> [] | Inr cs \<Rightarrow> cs);
          (st2, stats) = (if db then (case load_runtime_event_journal_stats (fs_journal st1) of
            (j, x) \<Rightarrow> (st1\<lparr>fs_journal := j\<rparr>, Some x)) else (st1, None));
          pinned = filter (\<lambda>c. c_generation c = fs_generation st \<and>
            sat_sub now (updated_at_unix_ms c) \<le> RUNTIME_EVENT_CHECKPOINT_STALE_THRESHOLD_MS) checkpoints;
          recoverable = opt_or persisted_oldest memory_oldest;
          baseline = window_oldest RUNTIME_EVENT_PERSISTED_JOURNAL_CAPACITY newest;
          most = window_oldest RUNTIME_EVENT_PERSISTED_JOURNAL_MAX_CAPACITY newest;
          mode = retention_mode persisted_oldest baseline most;
          health = (if stats = None then ''unavailable'' else if newest = 0 then ''empty'' else ''available'');
          reason = retention_cutoff_reason mode;
          rows = map (\<lambda>c. runtime_event_checkpoint_diagnostics c (fs_generation st) newest memory_oldest persisted_oldest
            recoverable reason health now) checkpoints
      in (st2, \<lparr>rp_generation = fs_generation st, rp_latest_seq = newest, rp_memory_window_len = length (fs_feed st),
           rp_memory_oldest_seq = memory_oldest, rp_stats = stats,
           rp_persisted_window_len = (case persisted_oldest of Some s \<Rightarrow> sat_add (sat_sub newest s) 1 | None \<Rightarrow> 0),
           rp_persisted_oldest_seq = persisted_oldest, rp_oldest_recoverable_seq = recoverable,
           rp_persisted_baseline_oldest_seq = baseline, rp_persisted_max_oldest_seq = most, rp_retention_mode = mode,
           rp_retention_cutoff_reason = reason, rp_persisted_journal_health = health,
           rp_retention_pinned_checkpoint_count = length pinned,
           rp_oldest_retention_pinned_checkpoint_seq = minimum (map c_seq pinned),
           rp_active_checkpoint_count = count_rows (\<lambda>r. rw_lifecycle_state r = ''active'') rows,
           rp_idle_checkpoint_count = count_rows (\<lambda>r. rw_lifecycle_state r = ''idle'') rows,
           rp_stale_checkpoint_count = count_rows (\<lambda>r. rw_lifecycle_state r = ''stale'') rows,
           rp_resync_required_checkpoint_count = count_rows (\<lambda>r. rw_recovery_state r = ''resync_required'') rows,
           rp_metrics = metrics0, rp_checkpoints = rows\<rparr>))"

subsection \<open>Devices and interfaces\<close>

fun scope_less_link_local :: "socket_addr \<Rightarrow> bool" where
  "scope_less_link_local (SockV4 a p) = False"
| "scope_less_link_local (SockV6 a p s) = (is_unicast_link_local a \<and> s = 0)"

record device_row =
  dr_device :: device_info
  dr_session_count :: nat
  dr_best_addrs :: "socket_addr list"
  dr_scope_less_link_local_ipv6_count :: nat
  dr_sessions :: "session_view list"

text \<open>The fields of the device are copied; the sessions are sorted by the time they were last seen, the newest first.\<close>

definition discovery_device_row :: "device_info \<Rightarrow> device_row" where
  "discovery_device_row d =
     \<lparr>dr_device = d, dr_session_count = length (dv_sessions d),
      dr_best_addrs = (case best_addrs d of Some as \<Rightarrow> as | None \<Rightarrow> []),
      dr_scope_less_link_local_ipv6_count = length (filter scope_less_link_local (concat (map (ss_addrs \<circ> snd) (dv_sessions d)))),
      dr_sessions = sort_key (\<lambda>s. - int (sv_last_seen_unix s)) (map (session_view_of \<circ> snd) (dv_sessions d))\<rparr>"

record interface_row =
  ir_name :: string
  ir_is_loopback :: bool
  ir_ipv4 :: "ip_addr list"
  ir_ipv6 :: "ip_addr list"

definition push_new :: "'a \<Rightarrow> 'a list \<Rightarrow> 'a list" where
  "push_new x xs = (if x \<in> set xs then xs else xs @ [x])"

definition add_address :: "interface \<Rightarrow> interface_row \<Rightarrow> interface_row" where
  "add_address i r =
     (let r1 = r\<lparr>ir_is_loopback := ir_is_loopback r \<or> if_is_loopback i\<rparr> in
      case if_ip (if_addr i) of
        IPv4 a \<Rightarrow> r1\<lparr>ir_ipv4 := push_new (IPv4 a) (ir_ipv4 r1)\<rparr>
      | IPv6 a \<Rightarrow> r1\<lparr>ir_ipv6 := push_new (IPv6 a) (ir_ipv6 r1)\<rparr>)"

definition collect_network_interfaces :: "interface list option \<Rightarrow> interface_row list" where
  "collect_network_interfaces found =
     (case found of
        None \<Rightarrow> []
      | Some ifs \<Rightarrow> map (\<lambda>n. fold add_address (filter (\<lambda>i. if_name i = n) ifs)
            \<lparr>ir_name = n, ir_is_loopback = False, ir_ipv4 = [], ir_ipv6 = []\<rparr>) (interface_names ifs))"

subsection \<open>Hints\<close>

record hint_context =
  hc_own_platform :: string
  hc_mdns_daemon_initialized :: bool
  hc_browser_active :: bool
  hc_browser_restart_count :: u64
  hc_search_started_events :: u64
  hc_resolved_events :: u64
  hc_reachable_devices :: nat
  hc_listener_mode :: string
  hc_listener_port_mode :: string
  hc_firewall_rule_state :: string
  hc_local_port :: nat
  hc_ipv6_only_candidates :: nat
  hc_resolved_no_usable_addrs :: u64
  hc_scope_less_link_local_peers :: nat
  hc_stale_session_pruned :: u64
  hc_beacon_sent :: u64
  hc_beacon_received :: u64
  hc_device_rows_empty :: bool
  hc_self_filtered :: u64
  hc_resolved_missing_fp_txt :: u64

definition windows_non_admin_firewall_hint :: "nat \<Rightarrow> string \<Rightarrow> string" where
  "windows_non_admin_firewall_hint port mode =
     (if mode = ''fallback_random'' \<and> port > 0 \<and> port \<noteq> 53319
      then ''DashDrop is running without Windows administrator rights, so firewall rules were not managed automatically. Allow the Windows Defender Firewall prompt if shown, or manually add inbound UDP allow rules for DashDrop and ports 53319 and ''
        @ show_nat port @ ''.''
      else ''DashDrop is running without Windows administrator rights, so firewall rules were not managed automatically. Allow the Windows Defender Firewall prompt if shown, or manually add an inbound UDP allow rule for DashDrop and port 53319.'')"

definition when_hint :: "bool \<Rightarrow> string \<Rightarrow> string list" where
  "when_hint b t = (if b then [t] else [])"

definition build_discovery_quick_hints :: "hint_context \<Rightarrow> string list" where
  "build_discovery_quick_hints ctx =
     when_hint (\<not> hc_mdns_daemon_initialized ctx)
       ''Local mDNS responder is not fully initialized; this device may not be discoverable.'' @
     when_hint (\<not> hc_browser_active ctx)
       ''mDNS browser is currently inactive and auto-restarting; discovery may be temporarily stale.'' @
     (if hc_search_started_events ctx = 0 \<and> hc_browser_restart_count ctx = 0
      then [''mDNS browser has not reported SearchStarted; check local-network permission and multicast interface availability.'']
      else when_hint (hc_resolved_events ctx = 0)
        ''No peers resolved from mDNS browse yet; likely multicast traffic is blocked across firewall/VLAN/subnet. Automatic discovery is not expected to cross VLAN/subnet boundaries by default, so use Connect by Address for a manual host:port path.'') @
     when_hint (hc_resolved_events ctx > 0 \<and> hc_reachable_devices ctx = 0)
       ''Peers were discovered but none are probe-reachable; verify firewall rules for UDP listener port and QUIC traffic.'' @
     when_hint (hc_listener_port_mode ctx = ''fallback_random'' \<and> hc_local_port ctx > 0)
       (''Preferred QUIC port 53319 is unavailable on this host, so DashDrop is listening on UDP '' @ show_nat (hc_local_port ctx) @ '' for this session.'') @
     (if hc_listener_mode ctx = ''ipv4_only_fallback''
      then ''Listener is running in IPv4-only fallback mode; IPv6-only peers may fail to connect.'' #
        when_hint (hc_ipv6_only_candidates ctx > 0)
          ''Some discovered peers currently advertise IPv6-only candidate addresses while listener is IPv4-only.''
      else []) @
     when_hint (hc_resolved_no_usable_addrs ctx > 0)
       ''Some peers resolved without usable addresses; inspect virtual adapters/VPN interfaces and peer IP advertisement, or fall back to Connect by Address on a known LAN endpoint.'' @
     when_hint (hc_scope_less_link_local_peers ctx > 0)
       ''Some peers are advertising scope-less IPv6 link-local addresses (fe80:: without interface scope); these are often not connectable across platforms.'' @
     when_hint (hc_stale_session_pruned ctx > 0)
       ''Stale discovery sessions were pruned locally; if peers keep flapping, compare diagnostics from both ends for mDNS remove/resolved parity.'' @
     (if hc_beacon_sent ctx > 0 \<and> hc_beacon_received ctx = 0 \<and> hc_resolved_events ctx = 0
      then [''No inbound discovery packets seen from mDNS or UDP beacon; check AP isolation, VLAN segmentation, or host firewall multicast/broadcast rules. If the peers are on different subnets, use Connect by Address instead of waiting for Nearby.'']
      else when_hint (hc_beacon_received ctx > 0 \<and> hc_resolved_events ctx = 0)
        ''UDP beacon fallback is receiving peers while mDNS is silent; mDNS multicast is likely blocked on this network. Nearby discovery may stay partial until you use Connect by Address or adjust multicast policy.'') @
     when_hint (hc_resolved_events ctx > 0 \<and> hc_device_rows_empty ctx \<and> hc_self_filtered ctx \<ge> hc_resolved_events ctx)
       ''mDNS resolved only self-advertisements on this host; no remote DashDrop peers observed.'' @
     when_hint (hc_resolved_missing_fp_txt ctx > 0)
       ''Some _dashdrop records were missing fp TXT; verify both peers run compatible builds and advertise required TXT keys.'' @
     (if hc_own_platform ctx = ''Windows''
      then (if hc_firewall_rule_state ctx = ''user_scope_unmanaged''
            then [windows_non_admin_firewall_hint (hc_local_port ctx) (hc_listener_port_mode ctx)]
            else when_hint (hc_firewall_rule_state ctx = ''unknown'')
              ''Windows firewall rule state is unknown. If peers cannot reach this device, allow DashDrop through Windows Defender Firewall or add an inbound UDP rule for the active listener port.'')
      else [])"

subsection \<open>The report\<close>

text \<open>What the report reads beside the state: the environment, the clock, the database, the interfaces and the mDNS tasks.\<close>

record diag_env =
  dg_os :: os
  dg_vars :: "string \<Rightarrow> string option"
  dg_debug :: bool
  dg_now :: nat
  dg_db :: bool
  dg_interfaces :: "interface list option"
  dg_browser :: browser_status
  dg_mdns_set :: bool
  dg_last_search_started :: "string option"
  dg_power :: power_profile
  dg_network :: network_state

record diagnostics =
  di_runtime :: runtime_status
  di_power_profile :: power_profile
  di_beacon_interval_secs :: u64
  di_own_fingerprint :: string
  di_own_platform :: string
  di_mdns_daemon_initialized :: bool
  di_mdns_service_fullname :: "string option"
  di_local_instance_name :: "string option"
  di_network_interfaces :: "interface_row list"
  di_runtime_event_replay :: replay_report
  di_link_capabilities :: link_capabilities
  di_browser_status :: browser_status
  di_session_index_count :: nat
  di_quick_hints :: "string list"
  di_devices :: "device_row list"

definition counter :: "string \<Rightarrow> (string \<times> u64) list \<Rightarrow> u64" where
  "counter key counts = (case map_of counts key of Some n \<Rightarrow> n | None \<Rightarrow> 0)"

definition hint_context_of :: "diag_env \<Rightarrow> service_state \<Rightarrow> hint_context" where
  "hint_context_of env s =
     (let ds = discovery (sv_app s); devs = map snd (devices ds); events = event_counts ds; failures = Discovery.failure_counts ds in
      \<lparr>hc_own_platform = platform_current (dg_os env),
       hc_mdns_daemon_initialized = (dg_mdns_set env \<and> pi_mdns_service_fullname (sv_process s) \<noteq> None),
       hc_browser_active = bs_active (dg_browser env), hc_browser_restart_count = bs_restart_count (dg_browser env),
       hc_search_started_events = counter ''search_started'' events, hc_resolved_events = counter ''service_resolved'' events,
       hc_reachable_devices = length (filter (\<lambda>d. dv_reachability d = Reachable) devs),
       hc_listener_mode = nw_listener_mode (dg_network env), hc_listener_port_mode = pi_listener_port_mode (sv_process s),
       hc_firewall_rule_state = pi_firewall_rule_state (sv_process s), hc_local_port = pi_local_port (sv_process s),
       hc_ipv6_only_candidates = length (filter (\<lambda>d. case best_addrs d of
         Some as \<Rightarrow> as \<noteq> [] \<and> list_all (\<lambda>a. \<not> is_ipv4 a) as | None \<Rightarrow> False) devs),
       hc_resolved_no_usable_addrs = counter ''resolved_no_usable_addrs'' failures,
       hc_scope_less_link_local_peers = length (filter (\<lambda>d. list_ex (\<lambda>(_, x). list_ex scope_less_link_local (ss_addrs x)) (dv_sessions d)) devs),
       hc_stale_session_pruned = counter ''stale_session_pruned'' events, hc_beacon_sent = counter ''beacon_sent'' events,
       hc_beacon_received = counter ''beacon_received'' events, hc_device_rows_empty = (devs = []),
       hc_self_filtered = counter ''resolved_self_filtered'' events,
       hc_resolved_missing_fp_txt = counter ''resolved_missing_fp_txt'' failures\<rparr>)"

definition build_discovery_diagnostics :: "diag_env \<Rightarrow> service_state \<Rightarrow> service_state \<times> diagnostics" where
  "build_discovery_diagnostics env s =
     (let (ble1, observed) = ble_assist_observations_snapshot (dg_now env) (sv_ble s);
          (feed1, replay) = runtime_event_replay (dg_db env) (dg_now env) (sv_feed s);
          own = platform_current (dg_os env);
          fullname = pi_mdns_service_fullname (sv_process s)
      in (s\<lparr>sv_ble := ble1, sv_feed := feed1\<rparr>,
          \<lparr>di_runtime = runtime_status_of (sv_process s) (sv_app s), di_power_profile = dg_power env,
           di_beacon_interval_secs = beacon_interval_secs_for_profile (dg_power env),
           di_own_fingerprint = id_fingerprint (sv_identity s), di_own_platform = own, di_mdns_daemon_initialized = dg_mdns_set env,
           di_mdns_service_fullname = fullname,
           di_local_instance_name = map_option (takeWhile (\<lambda>c. c \<noteq> CHR ''.'')) fullname,
           di_network_interfaces = collect_network_interfaces (dg_interfaces env), di_runtime_event_replay = replay,
           di_link_capabilities =
             (build_link_capabilities (dg_vars env) (dg_debug env) own (ble_runtime (sv_ble s)))\<lparr>lc_recent_capsules := observed\<rparr>,
           di_browser_status = dg_browser env, di_session_index_count = length (session_index (discovery (sv_app s))),
           di_quick_hints = build_discovery_quick_hints (hint_context_of env s) @
             when_hint (dg_power env = LowPower)
               ''Low-power mode is active, so discovery latency is intentionally relaxed to reduce energy use; beacon-based peer appearance may take longer than on AC.'',
           di_devices = map (discovery_device_row \<circ> snd) (devices (discovery (sv_app s)))\<rparr>))"


section \<open>Facts\<close>

text \<open>The report and the checkpoints agree on the state of a consumer.\<close>

lemma recovery_state_hint:
  "recovery_state (fs_generation st) n m p c = checkpoint_recovery_hint st (c_generation c) (c_seq c) n m p"
  by (simp add: recovery_state_def checkpoint_recovery_hint_def)

lemma refreshed_hint:
  assumes "snd (refresh_checkpoints now read_at st) = cs" and "c \<in> set cs"
  shows "recovery_hint c = Some (recovery_state (fs_generation st) (fs_seq st) (memory_oldest_seq st) (persisted_oldest_seq st) c)"
  using assms by (auto simp: refresh_checkpoints_def Let_def recovery_state_hint enrich_checkpoint_def split: prod.splits)

lemma same_log_oldest:
  "same_log st st' \<Longrightarrow> memory_oldest_seq st' = memory_oldest_seq st \<and> persisted_oldest_seq st' = persisted_oldest_seq st \<and>
     fs_generation st' = fs_generation st \<and> fs_seq st' = fs_seq st"
  by (simp add: same_log_def memory_oldest_seq_def persisted_oldest_seq_def)

lemma listed_hint:
  assumes "feed_holds H d st" and "runtime_event_checkpoints True now st = (st1, Ok cs)" and "c \<in> set cs"
  shows "recovery_hint c = Some (recovery_state (fs_generation st) (fs_seq st) (memory_oldest_seq st) (persisted_oldest_seq st) c)"
proof -
  let ?p = "fst (prune_stale_checkpoints now st)"
  have "snd (refresh_checkpoints now None ?p) = cs" using assms(2) by (auto simp: runtime_event_checkpoints_def split: prod.splits)
  from refreshed_hint [OF this assms(3)] same_log_oldest [OF prune_stale_same_log(1) [OF assms(1), of now]] show ?thesis by simp
qed

text \<open>The rows of the report, and the state it leaves.\<close>

lemma replay_rows:
  assumes "runtime_event_checkpoints True now st = (st1, Ok cs)" and "row \<in> set (rp_checkpoints (snd (runtime_event_replay True now st)))"
  shows "\<exists>c \<in> set cs. rw_generation row = c_generation c \<and> rw_seq row = c_seq c \<and> rw_recovery_hint row = recovery_hint c \<and>
     rw_recovery_state row = recovery_state (fs_generation st) (fs_seq st) (memory_oldest_seq st) (persisted_oldest_seq st) c \<and>
     rw_lag_events row = (if c_generation c = fs_generation st then fs_seq st - c_seq c else fs_seq st)"
  using assms
  by (auto simp: runtime_event_replay_def Let_def runtime_event_checkpoint_diagnostics_def sat_sub_eq split: prod.splits)

text \<open>Every checkpoint that has not expired has a row.\<close>

lemma replay_has_row:
  assumes "feed_holds H d st" and "c \<in> set (checkpoints_tbl (fs_journal st))"
    and "sat_sub now RUNTIME_EVENT_CHECKPOINT_TTL_MS < updated_at_unix_ms c"
  shows "\<exists>row \<in> set (rp_checkpoints (snd (runtime_event_replay True now st))). rw_generation row = c_generation c \<and> rw_seq row = c_seq c"
proof -
  let ?p = "fst (prune_stale_checkpoints now st)"
  obtain st1 cs where r: "refresh_checkpoints now None ?p = (st1, cs)" by fastforce
  note holds = feed_holds_same_log [OF assms(1) prune_stale_same_log(1) [OF assms(1), of now]]
  have "c \<in> set (checkpoints_tbl (fs_journal ?p))" using prune_stale_same_log(2) [OF assms(1), of now] assms(2,3) by simp
  then have "c \<in> set (snd (list_checkpoints (fst (load_runtime_event_journal_stats (fs_journal ?p)))))"
    unfolding load_simps(2) [OF feed_holds_stores [OF holds]]
    by (simp add: list_checkpoints_def Let_def stores_ensure [OF feed_holds_stores [OF holds]])
  then obtain c' where "c' \<in> set cs" "c_generation c' = c_generation c" "c_seq c' = c_seq c"
    using r by (fastforce simp: refresh_checkpoints_def Let_def enrich_checkpoint_def split: prod.splits)
  moreover have "runtime_event_checkpoints True now st = (st1, Ok cs)" using r by (simp add: runtime_event_checkpoints_def)
  ultimately show ?thesis
    by (auto simp: runtime_event_replay_def Let_def runtime_event_checkpoint_diagnostics_def split: prod.splits)
qed

lemma saved_checkpoint_kept:
  assumes "feed_holds H d st" and "trim raw \<noteq> []" and "trim g \<noteq> []" and "0 < now"
  shows "\<exists>c \<in> set (checkpoints_tbl (fs_journal (fst (save_runtime_event_checkpoint True now raw g s st)))).
     c_generation c = trim g \<and> c_seq c = min s (fs_seq st) \<and> updated_at_unix_ms c = now"
proof -
  obtain stats previous st1 c where c: "c = enrich_checkpoint st (Some stats) None (new_checkpoint now (trim raw) (trim g) (min s (fs_seq st)) previous)"
    and s: "same_log st st1" "fs_journal st1 = save_checkpoint (fs_journal st) c"
      "fst (save_runtime_event_checkpoint True now raw g s st) = fst (prune_stale_checkpoints now st1)"
    using save_runtime_checkpoint_journal [OF assms(1-3), of now s] unfolding Let_def by blast
  have f: "c_generation c = trim g" "c_seq c = min s (fs_seq st)" "updated_at_unix_ms c = now"
    by (simp_all add: c new_checkpoint_def enrich_checkpoint_def)
  have "c \<in> set (checkpoints_tbl (fs_journal st1))" unfolding s(2)
    by (auto simp: save_checkpoint_def Let_def stores_ensure [OF feed_holds_stores [OF assms(1)]] list_ex_iff image_iff)
  then have "c \<in> set (checkpoints_tbl (fs_journal (fst (prune_stale_checkpoints now st1))))"
    unfolding prune_stale_same_log(2) [OF feed_holds_same_log [OF assms(1) s(1)]] using f(3) assms(4)
    by (simp add: sat_sub_eq RUNTIME_EVENT_CHECKPOINT_TTL_MS_def)
  then show ?thesis unfolding s(3) using f by blast
qed

lemma replay_same_log:
  assumes "feed_holds H d st"
  shows "same_log st (fst (runtime_event_replay True now st))"
proof -
  obtain st1 r where r: "runtime_event_checkpoints True now st = (st1, r)" by fastforce
  have same: "same_log st st1" using list_checkpoints_same_log [OF assms, of now] r by simp
  from load_simps(2) [OF feed_holds_stores [OF feed_holds_same_log [OF assms same]]]
  have "fst (load_runtime_event_journal_stats (fs_journal st1)) = fs_journal st1" .
  then show ?thesis using r same
    by (auto simp: runtime_event_replay_def Let_def split: prod.splits)
qed

text \<open>Which state a cursor is in, in terms of the history.\<close>

lemma recovery_state_holds:
  assumes "feed_holds H d st" and "c_generation c = fs_generation st" and "0 < c_seq c" and "c_seq c \<le> length H"
  shows "recovery_state (fs_generation st) (fs_seq st) (memory_oldest_seq st) (persisted_oldest_seq st) c =
    (if c_seq c < d then ''resync_required'' else if c_seq c = length H then ''up_to_date''
     else if c_seq c < length H - 1024 then ''persisted_catch_up'' else ''hot_window'')"
proof -
  have "d \<le> length H - 10000" by (rule journal.holds_window [OF feed_holds_stores [OF assms(1)]])
  moreover have "H \<noteq> []" "fs_seq st = length H" using assms by (auto simp: feed_holds_def)
  ultimately show ?thesis
    using assms(2-4) feed_memory_oldest [OF assms(1)] feed_persisted_oldest [OF assms(1)] by (auto simp: recovery_state_def sat_sub_eq)
qed

section \<open>Properties\<close>

text \<open>
  C15: The diagnostics predict what a consumer meets.  Take any sequence of requests served with the database
  answering, and a row of the report for a consumer of the current generation whose cursor is not 0 and lies
  in the history.  With the next poll from that cursor, for which the database answers: when the limit is not 0
  it demands a resynchronisation exactly when the report says \<^verbatim>\<open>resync_required\<close>; with limit 0 it also demands one
  when the report says \<^verbatim>\<open>persisted_catch_up\<close>.  The hint stored with the checkpoint says the same as the report,
  and a poll that demands nothing delivers as many events as the report counts as the lag, up to its limit.
\<close>

theorem report_predicts_poll:
  assumes "st = run_ops ops (open_feed (new_journal g))"
    and "row \<in> set (rp_checkpoints (snd (runtime_event_replay True t st)))"
    and "rw_generation row = g" and "0 < rw_seq row" and "rw_seq row \<le> fs_seq st"
  shows "let snap = snd (runtime_events_since True now (rw_seq row) limit (fst (runtime_event_replay True t st)))
         in (snap_resync_required snap \<longleftrightarrow>
               rw_recovery_state row = ''resync_required'' \<or> limit = 0 \<and> rw_recovery_state row = ''persisted_catch_up'') \<and>
            rw_recovery_hint row = Some (rw_recovery_state row) \<and>
            (\<not> snap_resync_required snap \<longrightarrow> length (snap_events snap) = min limit (rw_lag_events row))"
proof -
  obtain d where h: "feed_holds (recorded ops 0) d st" and gen: "fs_generation st = g" using fresh_run_holds assms(1) by blast
  note h1 = feed_holds_same_log [OF h replay_same_log [OF h, of t]]
  have n: "fs_seq st = length (recorded ops 0)" using h by (simp add: feed_holds_def)
  obtain st1 cs where "refresh_checkpoints t None (fst (prune_stale_checkpoints t st)) = (st1, cs)" by fastforce
  then have cs: "runtime_event_checkpoints True t st = (st1, Ok cs)" by (simp add: runtime_event_checkpoints_def)
  obtain c where c: "c \<in> set cs" "rw_generation row = c_generation c" "rw_seq row = c_seq c" "rw_recovery_hint row = recovery_hint c"
    "rw_recovery_state row = recovery_state (fs_generation st) (fs_seq st) (memory_oldest_seq st) (persisted_oldest_seq st) c"
    "rw_lag_events row = (if c_generation c = fs_generation st then fs_seq st - c_seq c else fs_seq st)"
    using replay_rows [OF cs assms(2)] by blast
  have state: "rw_recovery_state row = (if c_seq c < d then ''resync_required'' else if c_seq c = length (recorded ops 0) then ''up_to_date''
     else if c_seq c < length (recorded ops 0) - 1024 then ''persisted_catch_up'' else ''hot_window'')"
    using recovery_state_holds [OF h, of c] c assms(3-5) gen n by simp
  have "d \<le> length (recorded ops 0) - 10000" by (rule journal.holds_window [OF feed_holds_stores [OF h]])
  then have states: "rw_recovery_state row = ''resync_required'' \<longleftrightarrow> c_seq c < d"
    "rw_recovery_state row = ''persisted_catch_up'' \<longleftrightarrow> d \<le> c_seq c \<and> c_seq c < length (recorded ops 0) - 1024"
    unfolding state by auto
  note poll = replay_after_cursor(1,2) [OF h1 assms(4), where now = now and limit = limit]
  show ?thesis using poll listed_hint [OF h cs c(1)] c assms(3,5) gen n unfolding Let_def states by (auto simp: min.commute)
qed

theorem report_predicts_poll_witness:
  "\<exists>row. row \<in> set (rp_checkpoints (snd (runtime_event_replay True 20
       (run_ops [Record 5 ''x'' ''{}'', SaveCheckpoint 10 ''ui'' ''g'' 1] (open_feed (new_journal ''g'')))))) \<and> rw_seq row = 1 \<and>
     (snap_resync_required (snd (runtime_events_since True 30 1 10 (fst (runtime_event_replay True 20
        (run_ops [Record 5 ''x'' ''{}'', SaveCheckpoint 10 ''ui'' ''g'' 1] (open_feed (new_journal ''g''))))))) \<longleftrightarrow>
      rw_recovery_state row = ''resync_required'')"
proof -
  let ?ops = "[Record 5 ''x'' ''{}'', SaveCheckpoint 10 ''ui'' ''g'' 1]" and ?j = "open_feed (new_journal ''g'')"
  let ?st = "run_ops ?ops ?j" and ?before = "run_ops [Record 5 ''x'' ''{}''] ?j"
  obtain d where h: "feed_holds (recorded ?ops 0) d ?st" using fresh_run_holds by blast
  obtain d0 where h0: "feed_holds (recorded [Record 5 ''x'' ''{}''] 0) d0 ?before" using fresh_run_holds by blast
  have t: "trim ''ui'' = ''ui''" "trim ''g'' = ''g''" by code_simp+
  have n: "fs_seq ?st = 1" "fs_seq ?before = 1" using h h0 by (simp_all add: feed_holds_def)
  have "?st = fst (save_runtime_event_checkpoint True 10 ''ui'' ''g'' 1 ?before)" by simp
  then obtain c where c: "c \<in> set (checkpoints_tbl (fs_journal ?st))" "c_generation c = ''g''" "c_seq c = 1" "updated_at_unix_ms c = 10"
    using saved_checkpoint_kept [OF h0, of "''ui''" "''g''" 10 1] t n(2) by auto
  from replay_has_row [OF h c(1), of 20] c(2-4)
  obtain row where row: "row \<in> set (rp_checkpoints (snd (runtime_event_replay True 20 ?st)))" "rw_generation row = ''g''" "rw_seq row = 1"
    by (auto simp: sat_sub_eq RUNTIME_EVENT_CHECKPOINT_TTL_MS_def)
  have "0 < rw_seq row" "rw_seq row \<le> fs_seq ?st" unfolding row(3) n(1) by simp_all
  from report_predicts_poll [OF refl row(1,2) this, of 30 10, unfolded Let_def row(3)] have
    "snap_resync_required (snd (runtime_events_since True 30 1 10 (fst (runtime_event_replay True 20 ?st)))) \<longleftrightarrow>
       rw_recovery_state row = ''resync_required''" by simp
  with row(1,3) show ?thesis by blast
qed


end
