(* ===== verification/DeviceIdentity.thy ===== *)
theory DeviceIdentity
  imports Pairing Trimming
begin

text \<open>
  The identity of the device, from \<^verbatim>\<open>crypto/identity.rs\<close> and \<^verbatim>\<open>crypto/secret_store.rs\<close> (the flavour of Linux and
  Windows): a certificate in the configuration directory and a private key in the key ring of the system, or in a file
  when there is no key ring.  Generating a pair, SHA-256 and base64 are parameters; so is the outcome of every call of the
  operating system.  A call that fails leaves the disk as it was.
\<close>

section \<open>Definitions\<close>

text \<open>What is kept: the key file with its permission bits, the certificate, and the entry of the key ring.\<close>

record key_disk =
  kd_key :: "(bytes \<times> nat) option"
  kd_cert :: "bytes option"
  kd_store :: "string option"

text \<open>One start: which calls fail, and with which text.\<close>

record identity_env =
  iv_create_dir :: "string option"
  iv_probe_open :: "string option"
  iv_probe_get :: "string option"
  iv_open :: "string option"
  iv_get :: "string option"
  iv_set :: "string option"
  iv_read_cert :: "string option"
  iv_read_key :: "string option"
  iv_write_key :: "string option"
  iv_write_cert :: "string option"
  iv_remove :: bool
  iv_chmod :: bool
  iv_default_mode :: nat
  iv_generate :: "string + bytes \<times> bytes"
  iv_b64e :: "bytes \<Rightarrow> string"
  iv_b64d :: "string \<Rightarrow> bytes option"
  iv_sha256 :: "bytes \<Rightarrow> bytes"
  iv_hostname :: "string option"
  iv_computername :: "string option"
  iv_hostname_output :: "string option"

subsection \<open>The key ring\<close>

definition load_private_key :: "identity_env \<Rightarrow> key_disk \<Rightarrow> string + bytes option" where
  "load_private_key env st =
     (case iv_open env of
        Some e \<Rightarrow> Err (''open keyring entry failed: '' @ e)
      | None \<Rightarrow>
          (case iv_get env of
             Some e \<Rightarrow> Err (''read keyring entry failed: '' @ e)
           | None \<Rightarrow>
               (case kd_store st of
                  None \<Rightarrow> Ok None
                | Some encoded \<Rightarrow>
                    (case iv_b64d env encoded of
                       None \<Rightarrow> Err ''decode keyring payload failed''
                     | Some k \<Rightarrow> Ok (Some k)))))"

definition save_private_key :: "identity_env \<Rightarrow> bytes \<Rightarrow> key_disk \<Rightarrow> key_disk \<times> (string + unit)" where
  "save_private_key env k st =
     (case iv_open env of
        Some e \<Rightarrow> (st, Err (''open keyring entry failed: '' @ e))
      | None \<Rightarrow>
          (case iv_set env of
             Some e \<Rightarrow> (st, Err (''write keyring entry failed: '' @ e))
           | None \<Rightarrow> (st\<lparr>kd_store := Some (iv_b64e env k)\<rparr>, Ok ())))"

definition secure_store_available :: "identity_env \<Rightarrow> bool" where
  "secure_store_available env \<longleftrightarrow> iv_probe_open env = None \<and> iv_probe_get env = None"

subsection \<open>Files\<close>

definition in_context :: "string \<Rightarrow> string \<Rightarrow> string" where
  "in_context what e = what @ '': '' @ e"

definition read_key :: "identity_env \<Rightarrow> string \<Rightarrow> key_disk \<Rightarrow> string + bytes" where
  "read_key env what st =
     (case (kd_key st, iv_read_key env) of
        (None, _) \<Rightarrow> Err (in_context what ''No such file or directory'')
      | (_, Some e) \<Rightarrow> Err (in_context what e)
      | (Some (k, _), None) \<Rightarrow> Ok k)"

text \<open>Writing keeps the permissions of a file that is there.\<close>

definition write_key :: "identity_env \<Rightarrow> string \<Rightarrow> bytes \<Rightarrow> key_disk \<Rightarrow> key_disk \<times> (string + unit)" where
  "write_key env what k st =
     (case iv_write_key env of
        Some e \<Rightarrow> (st, Err (in_context what e))
      | None \<Rightarrow> (st\<lparr>kd_key := Some (k, case kd_key st of Some (_, m) \<Rightarrow> m | None \<Rightarrow> iv_default_mode env)\<rparr>, Ok ()))"

definition write_cert :: "identity_env \<Rightarrow> string \<Rightarrow> bytes \<Rightarrow> key_disk \<Rightarrow> key_disk \<times> (string + unit)" where
  "write_cert env what c st =
     (case iv_write_cert env of
        Some e \<Rightarrow> (st, Err (in_context what e))
      | None \<Rightarrow> (st\<lparr>kd_cert := Some c\<rparr>, Ok ()))"

definition remove_key :: "identity_env \<Rightarrow> key_disk \<Rightarrow> key_disk" where
  "remove_key env st = (if iv_remove env then st\<lparr>kd_key := None\<rparr> else st)"

definition restrict_key :: "identity_env \<Rightarrow> key_disk \<Rightarrow> key_disk" where
  "restrict_key env st =
     (if iv_chmod env then (case kd_key st of Some (k, _) \<Rightarrow> st\<lparr>kd_key := Some (k, 0x180)\<rparr> | None \<Rightarrow> st) else st)"

subsection \<open>Loading and creating\<close>

text \<open>
  The pair that a branch found or made; the last component says whether the key ring holds the key and the end of the
  function is reached, so that a key file is removed.
\<close>

type_synonym key_result = "key_disk \<times> (string + bytes \<times> bytes \<times> bool)"

text \<open>A certificate without a key anywhere: a new pair.\<close>

definition regenerate_secure :: "identity_env \<Rightarrow> key_disk \<Rightarrow> key_result" where
  "regenerate_secure env st =
     (case iv_generate env of
        Inl e \<Rightarrow> (st, Err e)
      | Inr (k, c) \<Rightarrow>
          (case (case save_private_key env k st of
                   (st1, Inr _) \<Rightarrow> (st1, Ok ())
                 | (st1, Inl _) \<Rightarrow> write_key env ''write regenerated identity key fallback'' k st1) of
             (st2, Inl e) \<Rightarrow> (st2, Err e)
           | (st2, Inr _) \<Rightarrow>
               (case write_cert env ''write regenerated identity cert'' c st2 of
                  (st3, Inl e) \<Rightarrow> (st3, Err e) | (st3, Inr _) \<Rightarrow> (st3, Ok (k, c, False)))))"

definition regenerate_local :: "identity_env \<Rightarrow> key_disk \<Rightarrow> key_result" where
  "regenerate_local env st =
     (case iv_generate env of
        Inl e \<Rightarrow> (st, Err e)
      | Inr (k, c) \<Rightarrow>
          (case write_key env ''write regenerated identity key fallback'' k st of
             (st1, Inl e) \<Rightarrow> (st1, Err e)
           | (st1, Inr _) \<Rightarrow>
               (case write_cert env ''write regenerated identity cert'' c st1 of
                  (st2, Inl e) \<Rightarrow> (st2, Err e) | (st2, Inr _) \<Rightarrow> (st2, Ok (k, c, False)))))"

text \<open>The key ring has no entry: an old key file is moved there.\<close>

definition migrate_key :: "identity_env \<Rightarrow> bytes \<Rightarrow> key_disk \<Rightarrow> key_result" where
  "migrate_key env c st =
     (case read_key env ''read legacy identity key'' st of
        Inl e \<Rightarrow> (st, Err e)
      | Inr k \<Rightarrow>
          (case save_private_key env k st of
             (st1, Inl _) \<Rightarrow> (st1, Ok (k, c, False))
           | (st1, Inr _) \<Rightarrow> (remove_key env st1, Ok (k, c, True))))"

definition load_existing :: "identity_env \<Rightarrow> bytes \<Rightarrow> key_disk \<Rightarrow> key_result" where
  "load_existing env c st =
     (if secure_store_available env
      then (case load_private_key env st of
              Inr (Some k) \<Rightarrow> (st, Ok (k, c, True))
            | Inr None \<Rightarrow> (if kd_key st \<noteq> None then migrate_key env c st else regenerate_secure env st)
            | Inl _ \<Rightarrow>
                (if kd_key st \<noteq> None
                 then (st, map_sum id (\<lambda>k. (k, c, False)) (read_key env ''read identity key fallback'' st))
                 else regenerate_local env st))
      else (st, map_sum id (\<lambda>k. (k, c, False)) (read_key env ''read identity key'' st)))"

definition create_identity :: "identity_env \<Rightarrow> key_disk \<Rightarrow> key_result" where
  "create_identity env st =
     (case iv_generate env of
        Inl e \<Rightarrow> (st, Err e)
      | Inr (k, c) \<Rightarrow>
          (case (if secure_store_available env
                 then (case save_private_key env k st of
                         (st1, Inr _) \<Rightarrow> (st1, Ok True)
                       | (st1, Inl _) \<Rightarrow> (case write_key env ''write identity key fallback'' k st1 of
                            (st2, r) \<Rightarrow> (st2, map_sum id (\<lambda>_. False) r)))
                 else (case write_key env ''write identity key'' k st of
                         (st1, Inl e) \<Rightarrow> (st1, Err e) | (st1, Inr _) \<Rightarrow> (restrict_key env st1, Ok False))) of
             (st2, Inl e) \<Rightarrow> (st2, Err e)
           | (st2, Inr secure) \<Rightarrow>
               (case write_cert env ''write identity cert'' c st2 of
                  (st3, Inl e) \<Rightarrow> (st3, Err e) | (st3, Inr _) \<Rightarrow> (st3, Ok (k, c, secure)))))"

definition compute_fingerprint :: "identity_env \<Rightarrow> bytes \<Rightarrow> string" where
  "compute_fingerprint env c = iv_b64e env (iv_sha256 env c)"

definition get_hostname :: "identity_env \<Rightarrow> string" where
  "get_hostname env =
     (case iv_hostname env of
        Some h \<Rightarrow> h
      | None \<Rightarrow>
          (case iv_computername env of
             Some h \<Rightarrow> h
           | None \<Rightarrow> (case iv_hostname_output env of Some out \<Rightarrow> trim out | None \<Rightarrow> ''DashDrop-Device'')))"

definition from_parts :: "identity_env \<Rightarrow> bytes \<Rightarrow> bytes \<Rightarrow> identity \<times> string" where
  "from_parts env k c = (\<lparr>id_fingerprint = compute_fingerprint env c, id_cert_der = c, id_key_der = k\<rparr>, get_hostname env)"

definition load_or_create :: "identity_env \<Rightarrow> key_disk \<Rightarrow> key_disk \<times> (string + identity \<times> string)" where
  "load_or_create env st =
     (case iv_create_dir env of
        Some e \<Rightarrow> (st, Err (in_context ''create config dir'' e))
      | None \<Rightarrow>
          (case (case kd_cert st of
                   Some c \<Rightarrow> (case iv_read_cert env of
                      Some e \<Rightarrow> (st, Err (in_context ''read identity cert'' e))
                    | None \<Rightarrow> load_existing env c st)
                 | None \<Rightarrow> create_identity env st) of
             (st1, Inl e) \<Rightarrow> (st1, Err e)
           | (st1, Inr (k, c, secure)) \<Rightarrow>
               ((if secure \<and> kd_key st1 \<noteq> None then remove_key env st1 else st1), Ok (from_parts env k c))))"

section \<open>What a start relies on\<close>

text \<open>Base64 decodes what it encoded, and two starts use the same functions.\<close>

definition base64_ok :: "identity_env \<Rightarrow> bool" where
  "base64_ok env \<longleftrightarrow> (\<forall>k. iv_b64d env (iv_b64e env k) = Some k)"

definition same_library :: "identity_env \<Rightarrow> identity_env \<Rightarrow> bool" where
  "same_library a b \<longleftrightarrow> iv_b64e a = iv_b64e b \<and> iv_b64d a = iv_b64d b \<and> iv_sha256 a = iv_sha256 b"

text \<open>No call fails; the key ring may be there or not.\<close>

definition works :: "identity_env \<Rightarrow> bool" where
  "works env \<longleftrightarrow> iv_create_dir env = None \<and> iv_read_cert env = None \<and> iv_read_key env = None \<and> iv_write_key env = None \<and>
     iv_write_cert env = None \<and> iv_remove env \<and> iv_chmod env \<and> (\<exists>k c. iv_generate env = Ok (k, c)) \<and>
     (secure_store_available env \<longrightarrow> iv_open env = None \<and> iv_get env = None \<and> iv_set env = None)"

text \<open>The disk holds one key: a key ring entry without a certificate, or with another key than the file, does not occur.\<close>

definition one_key :: "identity_env \<Rightarrow> key_disk \<Rightarrow> bool" where
  "one_key env st \<longleftrightarrow> (kd_cert st = None \<longrightarrow> kd_store st = None) \<and>
     (\<forall>e. kd_store st = Some e \<longrightarrow> (\<exists>k. iv_b64d env e = Some k \<and> (\<forall>k' m. kd_key st = Some (k', m) \<longrightarrow> k' = k)))"

text \<open>Concrete starts: with a key ring or without, and one whose key ring answers the probe but not the request.\<close>

definition sample_start :: "bool \<Rightarrow> bytes \<times> bytes \<Rightarrow> identity_env" where
  "sample_start ring pair = \<lparr>iv_create_dir = None, iv_probe_open = (if ring then None else Some ''none''), iv_probe_get = None, iv_open = None,
     iv_get = None, iv_set = None, iv_read_cert = None, iv_read_key = None, iv_write_key = None, iv_write_cert = None, iv_remove = True,
     iv_chmod = True, iv_default_mode = 0x1B4, iv_generate = Ok pair, iv_b64e = map (\<lambda>b. char_of (unat b)),
     iv_b64d = (\<lambda>s. Some (map (\<lambda>c. of_nat (of_char c :: nat)) s)), iv_sha256 = id, iv_hostname = Some ''pc'', iv_computername = None,
     iv_hostname_output = None\<rparr>"

definition no_identity :: key_disk where
  "no_identity = \<lparr>kd_key = None, kd_cert = None, kd_store = None\<rparr>"

text \<open>The disk after a start that succeeded: the certificate, and the key in the key ring or else in the file.\<close>

definition settled :: "identity_env \<Rightarrow> bytes \<Rightarrow> bytes \<Rightarrow> key_disk \<Rightarrow> bool" where
  "settled env k c st \<longleftrightarrow> kd_cert st = Some c \<and> one_key env st \<and>
     ((\<exists>e. kd_store st = Some e \<and> iv_b64d env e = Some k) \<or> (kd_store st = None \<and> (\<exists>m. kd_key st = Some (k, m))))"

section \<open>Facts\<close>

lemmas key_ops = load_private_key_def save_private_key_def read_key_def write_key_def write_cert_def remove_key_def restrict_key_def

lemma create_settled:
  assumes "works env" and "base64_ok env" and "one_key env st" and "kd_cert st = None" and "iv_generate env = Ok (k, c)"
  shows "\<exists>st1. load_or_create env st = (st1, Ok (from_parts env k c)) \<and> settled env k c st1 \<and> (secure_store_available env \<longrightarrow> kd_key st1 = None)"
  using assms
  by (cases "kd_key st")
    (auto simp: works_def base64_ok_def one_key_def settled_def load_or_create_def create_identity_def key_ops split: option.splits)

lemma load_settled:
  assumes "works env" and "base64_ok env" and "settled env k c st" and "secure_store_available env \<or> kd_key st \<noteq> None"
  shows "\<exists>st1. load_or_create env st = (st1, Ok (from_parts env k c)) \<and> settled env k c st1 \<and> (secure_store_available env \<longrightarrow> kd_key st1 = None)"
  using assms
  by (auto simp: works_def base64_ok_def one_key_def settled_def load_or_create_def load_existing_def migrate_key_def key_ops
      split: option.splits)

lemma regenerate_settled:
  assumes "works env" and "base64_ok env" and "kd_cert st = Some c0" and "kd_store st = None" and "kd_key st = None"
    and "secure_store_available env" and "iv_generate env = Ok (k, c)"
  shows "\<exists>st1. load_or_create env st = (st1, Ok (from_parts env k c)) \<and> settled env k c st1 \<and> kd_key st1 = None"
  using assms
  by (auto simp: works_def base64_ok_def one_key_def settled_def load_or_create_def load_existing_def regenerate_secure_def key_ops
      split: option.splits)

lemma start_settles:
  assumes "works env" and "base64_ok env" and "one_key env st" and "load_or_create env st = (st1, Ok r)"
  shows "\<exists>k c. r = from_parts env k c \<and> settled env k c st1 \<and> (secure_store_available env \<longrightarrow> kd_key st1 = None)"
proof -
  obtain k c where g: "iv_generate env = Ok (k, c)" using assms(1) by (auto simp: works_def)
  show ?thesis
  proof (cases "kd_cert st")
    case None
    from create_settled [OF assms(1-3) this g] assms(4) show ?thesis by auto
  next
    case (Some c0)
    consider e k0 where "kd_store st = Some e" "iv_b64d env e = Some k0" "secure_store_available env"
      | k0 m where "kd_store st = None" "kd_key st = Some (k0, m)"
      | e k0 m where "kd_store st = Some e" "iv_b64d env e = Some k0" "kd_key st = Some (k0, m)"
      | "kd_key st = None" "kd_store st = None" "secure_store_available env"
      | "kd_key st = None" "\<not> secure_store_available env"
      using assms(3) by (cases "kd_store st"; cases "kd_key st") (auto simp: one_key_def)
    then show ?thesis
    proof cases
      case 1
      then have "settled env k0 c0 st" using Some assms(3) by (simp add: settled_def)
      from load_settled [OF assms(1,2) this] 1 assms(4) show ?thesis by auto
    next
      case 2
      then have "settled env k0 c0 st" using Some assms(3) by (simp add: settled_def)
      from load_settled [OF assms(1,2) this] 2 assms(4) show ?thesis by auto
    next
      case 3
      then have "settled env k0 c0 st" using Some assms(3) by (simp add: settled_def)
      from load_settled [OF assms(1,2) this] 3 assms(4) show ?thesis by auto
    next
      case 4
      from regenerate_settled [OF assms(1,2) Some 4(2,1,3) g] assms(4) show ?thesis by auto
    next
      case 5
      then have "load_or_create env st = (st, Err (in_context ''read identity key'' ''No such file or directory''))"
        using Some assms(1) by (simp add: works_def load_or_create_def load_existing_def key_ops)
      then show ?thesis using assms(4) by simp
    qed
  qed
qed

lemma library_cong:
  assumes "same_library a b"
  shows "base64_ok b = base64_ok a" "one_key b st = one_key a st" "settled b k c st = settled a k c st"
    "fst (from_parts b k c) = fst (from_parts a k c)"
  using assms by (simp_all add: same_library_def base64_ok_def one_key_def settled_def from_parts_def compute_fingerprint_def)

lemma byte_char: "of_nat (unat (b :: u8) mod 256) = b"
proof -
  have "unat b < 256" using unsigned_less [of b] by simp
  then show ?thesis by simp
qed

lemma sample_start_ok: "works (sample_start ring p)" "base64_ok (sample_start ring p)" "secure_store_available (sample_start True p)"
  by (cases p, simp add: works_def sample_start_def) (simp_all add: base64_ok_def secure_store_available_def sample_start_def comp_def byte_char)

section \<open>Properties\<close>

text \<open>
  C27: The identity survives restarts.  When the calls of the system work, whether or not there is a key ring, a start
  leaves no second key behind, and none in a file when there is a key ring; the next start returns the same
  certificate, key and fingerprint, also when the key ring appeared in between.  The one exception is a key that is in the key ring while
  that is gone: then the start fails and changes nothing.
\<close>

theorem identity_stable:
  assumes "works env1" and "works env2" and "base64_ok env1" and "same_library env1 env2" and "one_key env1 st"
    and "load_or_create env1 st = (st1, Ok (idn, nm))"
  shows "one_key env1 st1 \<and> (secure_store_available env1 \<longrightarrow> kd_key st1 = None) \<and>
     (secure_store_available env2 \<or> kd_key st1 \<noteq> None \<longrightarrow>
        (\<exists>st2. load_or_create env2 st1 = (st2, Ok (idn, get_hostname env2)) \<and> one_key env1 st2)) \<and>
     (\<not> secure_store_available env2 \<and> kd_key st1 = None \<longrightarrow> (\<exists>e. load_or_create env2 st1 = (st1, Err e)))"
proof -
  obtain k c where r: "(idn, nm) = from_parts env1 k c" and s: "settled env1 k c st1" and plain: "secure_store_available env1 \<longrightarrow> kd_key st1 = None"
    using start_settles [OF assms(1,3,5,6)] by blast
  note lib = library_cong [OF assms(4)]
  have "fst (from_parts env2 k c) = idn" using lib(4) [of k c] arg_cong [OF r, of fst] by simp
  then have same: "from_parts env2 k c = (idn, get_hostname env2)" by (simp add: from_parts_def)
  have again: "\<exists>st2. load_or_create env2 st1 = (st2, Ok (idn, get_hostname env2)) \<and> one_key env1 st2"
    if held: "secure_store_available env2 \<or> kd_key st1 \<noteq> None"
  proof -
    obtain st2 where "load_or_create env2 st1 = (st2, Ok (idn, get_hostname env2))" "settled env1 k c st2"
      using load_settled [OF assms(2) iffD2 [OF lib(1) assms(3)] iffD2 [OF lib(3) s] held] lib(3) same by auto
    then show ?thesis by (auto simp: settled_def)
  qed
  have locked: "\<exists>e. load_or_create env2 st1 = (st1, Err e)" if "\<not> secure_store_available env2" "kd_key st1 = None"
    using that s assms(2) by (auto simp: settled_def works_def load_or_create_def load_existing_def key_ops)
  have "one_key env1 st1" using s by (simp add: settled_def)
  then show ?thesis using plain again locked by blast
qed

theorem identity_stable_witness:
  "\<exists>idn st1 st2. load_or_create (sample_start False ([1], [2])) no_identity = (st1, Ok (idn, ''pc'')) \<and>
     load_or_create (sample_start True ([3], [4])) st1 = (st2, Ok (idn, ''pc''))"
proof -
  let ?a = "sample_start False ([1], [2])" and ?b = "sample_start True ([3], [4])"
  note w = sample_start_ok(1) [of False "([1], [2])"] sample_start_ok(1) [of True "([3], [4])"] sample_start_ok(2) [of False "([1], [2])"]
  have v: "same_library ?a ?b" "one_key ?a no_identity" "get_hostname ?b = ''pc''"
    by (simp_all add: same_library_def one_key_def no_identity_def sample_start_def get_hostname_def)
  obtain st1 idn where 1: "load_or_create ?a no_identity = (st1, Ok (idn, ''pc''))"
    using create_settled [OF w(1,3) v(2), of "[1]" "[2]"] by (fastforce simp: no_identity_def sample_start_def from_parts_def get_hostname_def)
  from identity_stable [OF w v(1,2) 1] v(3) sample_start_ok(3) [of "([3], [4])"] 1 show ?thesis by auto
qed

text \<open>
  C39: A key ring that fails once costs the identity.  The device has its key in the key ring; at one start the key ring answers
  the probe and fails to return the entry, and the start makes a new pair in the files.  When the key ring works again, the
  next start returns the new certificate with the old key, and deletes the only copy of the key that belongs to it.
\<close>

theorem key_ring_outage_breaks_identity:
  assumes "works up" and "secure_store_available up" and "base64_ok up" and "same_library up outage"
    and "works (outage\<lparr>iv_get := None\<rparr>)" and "secure_store_available outage" and "iv_get outage = Some err"
    and "iv_generate outage = Ok (k2, c2)" and "kd_cert st = Some c1" and "kd_store st = Some (iv_b64e up k1)" and "kd_key st = None"
  shows "\<exists>st1 st2. load_or_create outage st = (st1, Ok (from_parts outage k2 c2)) \<and>
     load_or_create up st1 = (st2, Ok (from_parts up k1 c2)) \<and>
     kd_key st2 = None \<and> kd_cert st2 = Some c2 \<and> kd_store st2 = Some (iv_b64e up k1)"
  using assms
  by (auto simp: works_def base64_ok_def secure_store_available_def load_or_create_def load_existing_def regenerate_local_def key_ops)


theorem key_ring_outage_breaks_identity_witness:
  "\<exists>st1 st2. load_or_create ((sample_start True ([3], [4]))\<lparr>iv_get := Some ''locked''\<rparr>)
       \<lparr>kd_key = None, kd_cert = Some [2], kd_store = Some (iv_b64e (sample_start True ([1], [2])) [1])\<rparr> =
       (st1, Ok (from_parts ((sample_start True ([3], [4]))\<lparr>iv_get := Some ''locked''\<rparr>) [3] [4])) \<and>
     load_or_create (sample_start True ([1], [2])) st1 = (st2, Ok (from_parts (sample_start True ([1], [2])) [1] [4])) \<and>
     kd_key st2 = None"
proof -
  let ?up = "sample_start True ([1], [2])" and ?out = "(sample_start True ([3], [4]))\<lparr>iv_get := Some ''locked''\<rparr>"
  let ?st = "\<lparr>kd_key = None, kd_cert = Some [2], kd_store = Some (iv_b64e ?up [1])\<rparr>"
  have "same_library ?up ?out" "works (?out\<lparr>iv_get := None\<rparr>)" "secure_store_available ?out" "iv_generate ?out = Ok ([3], [4])" "iv_get ?out = Some ''locked''"
    by (simp_all add: same_library_def sample_start_def works_def secure_store_available_def)
  from key_ring_outage_breaks_identity [OF sample_start_ok(1) sample_start_ok(3) sample_start_ok(2) this(1,2,3,5,4), of ?st "[2]" "[1]"]
  show ?thesis by auto
qed

end
