(* ===== verification/TransferEvents.thy ===== *)
theory TransferEvents
  imports AppState TextData
begin

text \<open>
  The events that the transport sends to the user interface, from \<^verbatim>\<open>transport/events.rs\<close>: the name and the JSON payload of
  each.  The other theories log these events as values of \<open>ui_event\<close>; here is what they look like from outside.  The
  batch of a transfer is read without waiting for the lock of the transfer table: \<open>free\<close> says whether the lock was free.
  The derived serialisation of file lists is an argument.
\<close>

section \<open>Definitions\<close>

type_synonym host_event = "string \<times> json"

definition transfer_batch_id :: "bool \<Rightarrow> app_state \<Rightarrow> string \<Rightarrow> string option" where
  "transfer_batch_id free st tid = (if free then Option.bind (map_of (transfers st) tid) batch_id else None)"

text \<open>Assigning a key of an object.\<close>

definition set_key :: "string \<Rightarrow> json \<Rightarrow> json \<Rightarrow> json" where
  "set_key k v p = (case p of JObj kvs \<Rightarrow> JObj (AList.update k v kvs) | _ \<Rightarrow> p)"

definition with_optional :: "string \<Rightarrow> string option \<Rightarrow> json \<Rightarrow> json" where
  "with_optional k v p = (case v of Some x \<Rightarrow> set_key k (JStr x) p | None \<Rightarrow> p)"

definition with_optional_batch_id :: "json \<Rightarrow> string option \<Rightarrow> json" where
  "with_optional_batch_id p b = with_optional ''batch_id'' b p"

definition json_u64 :: "u64 \<Rightarrow> json" where "json_u64 n = JNum (int n)"

definition emit_transfer_started ::
    "bool \<Rightarrow> app_state \<Rightarrow> string \<Rightarrow> string \<Rightarrow> string \<Rightarrow> json \<Rightarrow> u64 \<Rightarrow> u64 \<Rightarrow> host_event" where
  "emit_transfer_started free st tid peer_fp nm its whole rv =
     (''transfer_started'', with_optional_batch_id
        (JObj [(''transfer_id'', JStr tid), (''peer_fp'', JStr peer_fp), (''peer_name'', JStr nm), (''items'', its),
               (''total_size'', json_u64 whole), (''revision'', json_u64 rv)]) (transfer_batch_id free st tid))"

definition emit_transfer_incoming ::
    "bool \<Rightarrow> app_state \<Rightarrow> string \<Rightarrow> string \<Rightarrow> string \<Rightarrow> string \<Rightarrow> bool \<Rightarrow> json \<Rightarrow> u64 \<Rightarrow> u64 \<Rightarrow> host_event" where
  "emit_transfer_incoming free st tid nid sender sender_fp trust its whole rv =
     (''transfer_incoming'', with_optional_batch_id
        (JObj [(''transfer_id'', JStr tid), (''notification_id'', JStr nid), (''sender_name'', JStr sender), (''sender_fp'', JStr sender_fp),
               (''trusted'', JBool trust), (''items'', its), (''total_size'', json_u64 whole), (''revision'', json_u64 rv)])
        (transfer_batch_id free st tid))"

definition emit_transfer_accepted :: "bool \<Rightarrow> app_state \<Rightarrow> string \<Rightarrow> u64 \<Rightarrow> host_event" where
  "emit_transfer_accepted free st tid rv =
     (''transfer_accepted'', with_optional_batch_id (JObj [(''transfer_id'', JStr tid), (''revision'', json_u64 rv)])
        (transfer_batch_id free st tid))"

definition emit_transfer_progress :: "bool \<Rightarrow> app_state \<Rightarrow> string \<Rightarrow> u64 \<Rightarrow> u64 \<Rightarrow> u64 \<Rightarrow> host_event" where
  "emit_transfer_progress free st tid bytes whole rv =
     (''transfer_progress'', with_optional_batch_id
        (JObj [(''transfer_id'', JStr tid), (''bytes_transferred'', json_u64 bytes), (''total_bytes'', json_u64 whole),
               (''revision'', json_u64 rv)]) (transfer_batch_id free st tid))"

definition emit_transfer_complete :: "bool \<Rightarrow> app_state \<Rightarrow> string \<Rightarrow> u64 \<Rightarrow> host_event" where
  "emit_transfer_complete free st tid rv =
     (''transfer_complete'', with_optional_batch_id (JObj [(''transfer_id'', JStr tid), (''revision'', json_u64 rv)])
        (transfer_batch_id free st tid))"

definition emit_transfer_partial ::
    "bool \<Rightarrow> app_state \<Rightarrow> string \<Rightarrow> nat \<Rightarrow> json \<Rightarrow> string option \<Rightarrow> u64 \<Rightarrow> host_event" where
  "emit_transfer_partial free st tid succeeded failures cause rv =
     (''transfer_partial'', with_optional ''terminal_cause'' cause (with_optional_batch_id
        (JObj [(''transfer_id'', JStr tid), (''succeeded_count'', json_u64 succeeded), (''failed'', failures), (''revision'', json_u64 rv)])
        (transfer_batch_id free st tid)))"

fun terminal_event_name :: "transfer_status \<Rightarrow> string option" where
  "terminal_event_name StRejected = Some ''transfer_rejected''"
| "terminal_event_name CancelledBySender = Some ''transfer_cancelled_by_sender''"
| "terminal_event_name CancelledByReceiver = Some ''transfer_cancelled_by_receiver''"
| "terminal_event_name StFailed = Some ''transfer_failed''"
| "terminal_event_name _ = None"

definition emit_transfer_terminal ::
    "bool \<Rightarrow> app_state \<Rightarrow> string \<Rightarrow> transfer_status \<Rightarrow> string \<Rightarrow> string \<Rightarrow> u64 \<Rightarrow> string option \<Rightarrow> host_event option" where
  "emit_transfer_terminal free st tid s reason cause rv ph =
     (case terminal_event_name s of
        None \<Rightarrow> None
      | Some event \<Rightarrow>
          Some (event, with_optional ''phase'' ph (with_optional_batch_id
            (JObj [(''transfer_id'', JStr tid), (''reason_code'', JStr reason), (''terminal_cause'', JStr cause), (''revision'', json_u64 rv)])
            (transfer_batch_id free st tid))))"

definition emit_transfer_error_with_detail ::
    "bool \<Rightarrow> app_state \<Rightarrow> string option \<Rightarrow> string \<Rightarrow> string \<Rightarrow> string \<Rightarrow> u64 \<Rightarrow> string option \<Rightarrow> host_event" where
  "emit_transfer_error_with_detail free st tid reason cause ph rv detail =
     (''transfer_error'', with_optional ''detail'' detail (with_optional_batch_id
        (JObj [(''transfer_id'', case tid of Some t \<Rightarrow> JStr t | None \<Rightarrow> JNull), (''reason_code'', JStr reason), (''terminal_cause'', JStr cause),
               (''phase'', JStr ph), (''revision'', json_u64 rv)])
        (Option.bind tid (transfer_batch_id free st))))"

definition emit_transfer_error :: "bool \<Rightarrow> app_state \<Rightarrow> string option \<Rightarrow> string \<Rightarrow> string \<Rightarrow> string \<Rightarrow> u64 \<Rightarrow> host_event" where
  "emit_transfer_error free st tid reason cause ph rv = emit_transfer_error_with_detail free st tid reason cause ph rv None"

text \<open>Reading a key of a payload.\<close>

definition key_of :: "host_event \<Rightarrow> string \<Rightarrow> json option" where
  "key_of ev k = (case snd ev of JObj kvs \<Rightarrow> map_of kvs k | _ \<Rightarrow> None)"

text \<open>The event that reports the end of a transfer, by its status.\<close>

definition end_event ::
    "bool \<Rightarrow> app_state \<Rightarrow> string \<Rightarrow> transfer_status \<Rightarrow> string \<Rightarrow> string \<Rightarrow> nat \<Rightarrow> json \<Rightarrow> u64 \<Rightarrow> host_event option" where
  "end_event free st tid s reason cause succeeded failures rv =
     (if s = Completed then Some (emit_transfer_complete free st tid rv)
      else if s = PartialCompleted then Some (emit_transfer_partial free st tid succeeded failures (Some cause) rv)
      else emit_transfer_terminal free st tid s reason cause rv None)"

text \<open>The status, from the name of the event.\<close>

definition status_of_event :: "string \<Rightarrow> transfer_status" where
  "status_of_event e =
     (if e = ''transfer_complete'' then Completed else if e = ''transfer_partial'' then PartialCompleted
      else if e = ''transfer_rejected'' then StRejected else if e = ''transfer_cancelled_by_sender'' then CancelledBySender
      else if e = ''transfer_cancelled_by_receiver'' then CancelledByReceiver else StFailed)"

section \<open>Facts\<close>

lemma key_with_optional:
  "key_of (e, with_optional k v (JObj kvs)) q = (if q = k \<and> v \<noteq> None then map_option JStr v else map_of kvs q)"
  by (auto simp: key_of_def with_optional_def set_key_def update_conv' split: option.split)

lemma key_one:
  "key_of (e, with_optional_batch_id (JObj kvs) b) q = (if q = ''batch_id'' \<and> b \<noteq> None then map_option JStr b else map_of kvs q)"
  by (simp add: with_optional_batch_id_def key_with_optional)

lemma key_two:
  "key_of (e, with_optional k v (with_optional_batch_id (JObj kvs) b)) q =
     (if q = k \<and> v \<noteq> None then map_option JStr v else if q = ''batch_id'' \<and> b \<noteq> None then map_option JStr b else map_of kvs q)"
proof -
  obtain kvs' where k: "with_optional_batch_id (JObj kvs) b = JObj kvs'"
    by (cases b) (auto simp: with_optional_batch_id_def with_optional_def set_key_def)
  have m: "map_of kvs' q = (if q = ''batch_id'' \<and> b \<noteq> None then map_option JStr b else map_of kvs q)"
    using key_one [of e kvs b q] unfolding k by (simp add: key_of_def)
  show ?thesis unfolding k key_with_optional m by (rule refl)
qed

lemmas event_defs = end_event_def emit_transfer_complete_def emit_transfer_partial_def emit_transfer_terminal_def

lemma end_event_name: "end_event free st tid s reason cause n failures rv = Some ev \<Longrightarrow> status_of_event (fst ev) = s"
  by (cases s) (auto simp: event_defs status_of_event_def)

section \<open>Properties\<close>

text \<open>
  The end of a transfer has one event: there is an event exactly for the terminal statuses, different statuses have different
  names, and its payload carries the transfer, the revision, and, while the lock of the table is free, the batch exactly when
  the transfer belongs to one.
\<close>

theorem end_event_complete:
  "(end_event True st tid s reason cause n failures rv \<noteq> None \<longleftrightarrow> is_terminal s) \<and>
   (\<forall>ev. end_event True st tid s reason cause n failures rv = Some ev \<longrightarrow>
      key_of ev ''transfer_id'' = Some (JStr tid) \<and> key_of ev ''revision'' = Some (json_u64 rv) \<and>
      key_of ev ''batch_id'' = map_option JStr (Option.bind (map_of (transfers st) tid) batch_id) \<and>
      (\<forall>s' ev'. end_event True st tid s' reason cause n failures rv = Some ev' \<and> fst ev' = fst ev \<longrightarrow> s' = s))"
proof -
  have "end_event True st tid s reason cause n failures rv \<noteq> None \<longleftrightarrow> is_terminal s" by (cases s) (simp_all add: event_defs)
  moreover have "key_of ev ''transfer_id'' = Some (JStr tid) \<and> key_of ev ''revision'' = Some (json_u64 rv) \<and>
      key_of ev ''batch_id'' = map_option JStr (Option.bind (map_of (transfers st) tid) batch_id)"
    if "end_event True st tid s reason cause n failures rv = Some ev" for ev
    using that by (cases s) (simp_all add: event_defs key_one key_two transfer_batch_id_def, (clarsimp simp: key_one key_two)+)
  moreover have "s' = s" if "end_event True st tid s reason cause n failures rv = Some ev"
      "end_event True st tid s' reason cause n failures rv = Some ev'" "fst ev' = fst ev" for ev s' ev'
    using that end_event_name [of True st tid] by metis
  ultimately show ?thesis by blast
qed

theorem end_event_complete_witness:
  "\<exists>ev. end_event True sample_app ''t'' StFailed ''r'' ''c'' 0 JNull 3 = Some ev \<and> key_of ev ''revision'' = Some (json_u64 3)"
proof -
  obtain ev where "end_event True sample_app ''t'' StFailed ''r'' ''c'' 0 JNull 3 = Some ev" by (simp add: event_defs)
  then show ?thesis using end_event_complete [of sample_app "''t''" StFailed "''r''" "''c''" 0 JNull 3] by blast
qed

text \<open>
  While another task holds the lock of the transfer table, the event of a transfer that belongs to a batch does not say so.
\<close>

theorem batch_lost_under_contention:
  assumes "map_of (transfers st) tid = Some t" and "batch_id t = Some b"
    and "end_event free st tid s reason cause n failures rv = Some ev"
  shows "key_of ev ''batch_id'' = (if free then Some (JStr b) else None)"
  using assms by (cases s; cases free) (simp_all add: event_defs transfer_batch_id_def, (clarsimp simp: key_one key_two)+)

end
