(* ===== verification/BleHelper.thy ===== *)
theory BleHelper
  imports BleAssist ExternalShare
begin

text \<open>
  The side of \<^verbatim>\<open>ble.rs\<close> that faces the helper process of the two platform bridges: where the files are that the two
  processes exchange, which helper is started with which arguments, the advertisement request that is written for the
  helper and the snapshot that is read from it.  Environment variables, existing files, calls of the system and the JSON
  codecs are arguments; an error text is that of \<^verbatim>\<open>anyhow\<close> in its alternate form, contexts first.
\<close>

section \<open>Data\<close>

record helper_env =
  he_var :: "string \<Rightarrow> string option"
  he_exists :: "string \<Rightarrow> bool"
  he_resource_dir :: "string option"
  he_manifest_dir :: string
  he_arch :: string
  he_is_dev :: bool
  he_parent :: "string \<Rightarrow> string option"
  he_create_dir_all :: "string \<Rightarrow> string option"
  he_spawn :: "string \<Rightarrow> string list \<Rightarrow> string option"

text \<open>
  \<open>he_parent\<close> is \<^verbatim>\<open>Path::parent\<close> of the platform; \<open>he_create_dir_all\<close> and \<open>he_spawn\<close> are the errors of creating a directory and of
  starting a program.
\<close>

record bridge_spawn_spec =
  sp_program :: string
  sp_args :: "string list"
  sp_bridge_mode :: string

definition MACOS_BLE_BRIDGE_FILE_NAME :: string where "MACOS_BLE_BRIDGE_FILE_NAME = ''ble-assist-bridge.json''"
definition MACOS_BLE_ADVERTISEMENT_FILE_NAME :: string where "MACOS_BLE_ADVERTISEMENT_FILE_NAME = ''ble-assist-advertisement.json''"
definition MACOS_BLE_BRIDGE_SOURCE_FILE_NAME :: string where "MACOS_BLE_BRIDGE_SOURCE_FILE_NAME = ''BleAssistBridge.swift''"
definition MACOS_BLE_BRIDGE_BINARY_NAME :: string where "MACOS_BLE_BRIDGE_BINARY_NAME = ''dashdrop-ble-bridge''"
definition WINDOWS_BLE_BRIDGE_FILE_NAME :: string where "WINDOWS_BLE_BRIDGE_FILE_NAME = ''ble-assist-bridge-win.json''"
definition WINDOWS_BLE_ADVERTISEMENT_FILE_NAME :: string where
  "WINDOWS_BLE_ADVERTISEMENT_FILE_NAME = ''ble-assist-advertisement-win.json''"
definition WINDOWS_BLE_BRIDGE_SOURCE_FILE_NAME :: string where "WINDOWS_BLE_BRIDGE_SOURCE_FILE_NAME = ''BleAssistBridge.ps1''"
definition WINDOWS_BLE_BRIDGE_BINARY_NAME :: string where "WINDOWS_BLE_BRIDGE_BINARY_NAME = ''dashdrop-ble-bridge.exe''"

text \<open>
  \<^verbatim>\<open>Path::join\<close> on Windows with a plain name: there is no separator after an empty path, a separator or a drive alone.
\<close>

definition windows_join :: "string \<Rightarrow> string \<Rightarrow> string" where
  "windows_join a b =
     (if a = [] \<or> last a \<in> {slash, backslash} \<or> (length a = 2 \<and> ascii_upper (hd a) \<in> set ''ABCDEFGHIJKLMNOPQRSTUVWXYZ'' \<and> last a = CHR '':'') then a @ b
      else a @ backslash # b)"

section \<open>Variables of the environment\<close>

definition trimmed_var :: "helper_env \<Rightarrow> string \<Rightarrow> string option" where
  "trimmed_var env v =
     (case he_var env v of None \<Rightarrow> None | Some x \<Rightarrow> (let t = trim x in if t = '''' then None else Some t))"

definition macos_bridge_file_path_from_env :: "helper_env \<Rightarrow> string option" where
  "macos_bridge_file_path_from_env env = trimmed_var env ''DASHDROP_BLE_MACOS_BRIDGE_FILE''"

definition resolve_macos_bridge_file_path :: "helper_env \<Rightarrow> string \<Rightarrow> string" where
  "resolve_macos_bridge_file_path env config_dir =
     (case macos_bridge_file_path_from_env env of Some p \<Rightarrow> p | None \<Rightarrow> path_join config_dir MACOS_BLE_BRIDGE_FILE_NAME)"

definition resolve_macos_advertisement_file_path :: "string \<Rightarrow> string" where
  "resolve_macos_advertisement_file_path config_dir = path_join config_dir MACOS_BLE_ADVERTISEMENT_FILE_NAME"

definition macos_bridge_binary_from_env :: "helper_env \<Rightarrow> string option" where
  "macos_bridge_binary_from_env env = trimmed_var env ''DASHDROP_BLE_MACOS_BRIDGE_BINARY''"

definition macos_bridge_source_from_env :: "helper_env \<Rightarrow> string option" where
  "macos_bridge_source_from_env env = trimmed_var env ''DASHDROP_BLE_MACOS_BRIDGE_SOURCE''"

definition windows_bridge_file_path_from_env :: "helper_env \<Rightarrow> string option" where
  "windows_bridge_file_path_from_env env = trimmed_var env ''DASHDROP_BLE_WINDOWS_BRIDGE_FILE''"

definition resolve_windows_bridge_file_path :: "helper_env \<Rightarrow> string \<Rightarrow> string" where
  "resolve_windows_bridge_file_path env config_dir =
     (case windows_bridge_file_path_from_env env of Some p \<Rightarrow> p | None \<Rightarrow> windows_join config_dir WINDOWS_BLE_BRIDGE_FILE_NAME)"

definition resolve_windows_advertisement_file_path :: "string \<Rightarrow> string" where
  "resolve_windows_advertisement_file_path config_dir = windows_join config_dir WINDOWS_BLE_ADVERTISEMENT_FILE_NAME"

definition windows_bridge_binary_from_env :: "helper_env \<Rightarrow> string option" where
  "windows_bridge_binary_from_env env = trimmed_var env ''DASHDROP_BLE_WINDOWS_BRIDGE_BINARY''"

definition windows_bridge_source_from_env :: "helper_env \<Rightarrow> string option" where
  "windows_bridge_source_from_env env = trimmed_var env ''DASHDROP_BLE_WINDOWS_BRIDGE_SOURCE''"

definition spawn_disabled :: "helper_env \<Rightarrow> string \<Rightarrow> bool" where
  "spawn_disabled env v =
     (case he_var env v of None \<Rightarrow> False | Some x \<Rightarrow> to_ascii_lowercase (trim x) \<in> {''1'', ''true'', ''yes'', ''on''})"

section \<open>Finding the helper\<close>

definition resolve_macos_bridge_source_path :: "helper_env \<Rightarrow> string option" where
  "resolve_macos_bridge_source_path env =
     (let candidate = (case macos_bridge_source_from_env env of Some p \<Rightarrow> p
            | None \<Rightarrow> path_join (path_join (he_manifest_dir env) ''macos'') MACOS_BLE_BRIDGE_SOURCE_FILE_NAME)
      in if he_exists env candidate then Some candidate else None)"

definition resolve_windows_bridge_source_path :: "helper_env \<Rightarrow> string option" where
  "resolve_windows_bridge_source_path env =
     (let candidate = (case windows_bridge_source_from_env env of Some p \<Rightarrow> p
            | None \<Rightarrow> windows_join (windows_join (he_manifest_dir env) ''windows'') WINDOWS_BLE_BRIDGE_SOURCE_FILE_NAME)
      in if he_exists env candidate then Some candidate else None)"

text \<open>The places both platforms look at, in their order.\<close>

definition binary_candidates :: "(string \<Rightarrow> string \<Rightarrow> string) \<Rightarrow> helper_env \<Rightarrow> string list \<Rightarrow> string list" where
  "binary_candidates join env names =
     (case he_resource_dir env of None \<Rightarrow> []
      | Some d \<Rightarrow> concat (map (\<lambda>n. [join d n, join (join d ''binaries'') n]) names)) @
     concat (map (\<lambda>n. [join (join (he_manifest_dir env) ''binaries'') n,
                       join (join (join (he_manifest_dir env) ''target'') ''debug'') n,
                       join (join (join (he_manifest_dir env) ''target'') ''release'') n]) names)"

definition resolve_macos_bridge_binary_path :: "helper_env \<Rightarrow> string option" where
  "resolve_macos_bridge_binary_path env =
     (case macos_bridge_binary_from_env env of
        Some p \<Rightarrow> if he_exists env p then Some p else
          find (he_exists env) (binary_candidates path_join env
            [MACOS_BLE_BRIDGE_BINARY_NAME, MACOS_BLE_BRIDGE_BINARY_NAME @ ''-'' @ he_arch env @ ''-apple-darwin''])
      | None \<Rightarrow>
          find (he_exists env) (binary_candidates path_join env
            [MACOS_BLE_BRIDGE_BINARY_NAME, MACOS_BLE_BRIDGE_BINARY_NAME @ ''-'' @ he_arch env @ ''-apple-darwin'']))"

definition windows_binary_names :: "helper_env \<Rightarrow> string list" where
  "windows_binary_names env =
     WINDOWS_BLE_BRIDGE_BINARY_NAME #
     (case (case he_var env ''TAURI_ENV_TARGET_TRIPLE'' of Some t \<Rightarrow> Some t | None \<Rightarrow> he_var env ''TARGET'') of
        Some t \<Rightarrow> [''dashdrop-ble-bridge-'' @ t @ ''.exe''] | None \<Rightarrow> [])"

definition resolve_windows_bridge_binary_path :: "helper_env \<Rightarrow> string option" where
  "resolve_windows_bridge_binary_path env =
     (case windows_bridge_binary_from_env env of
        Some p \<Rightarrow> if he_exists env p then Some p else find (he_exists env) (binary_candidates windows_join env (windows_binary_names env))
      | None \<Rightarrow> find (he_exists env) (binary_candidates windows_join env (windows_binary_names env)))"

section \<open>Starting the helper\<close>

definition build_macos_bridge_spawn_spec :: "helper_env \<Rightarrow> string \<Rightarrow> string \<Rightarrow> bridge_spawn_spec option" where
  "build_macos_bridge_spawn_spec env bfile afile =
     (if spawn_disabled env ''DASHDROP_BLE_MACOS_BRIDGE_DISABLE_SPAWN'' then None
      else case resolve_macos_bridge_binary_path env of
        Some p \<Rightarrow> Some \<lparr>sp_program = p, sp_args = [''--snapshot-file'', bfile, ''--advertisement-file'', afile],
                        sp_bridge_mode = ''core_bluetooth_helper''\<rparr>
      | None \<Rightarrow>
          (if he_is_dev env
           then map_option (\<lambda>src. \<lparr>sp_program = ''xcrun'',
                  sp_args = [''swift'', src, ''--snapshot-file'', bfile, ''--advertisement-file'', afile],
                  sp_bridge_mode = ''core_bluetooth_swift_source''\<rparr>) (resolve_macos_bridge_source_path env)
           else None))"

definition build_windows_bridge_spawn_spec :: "helper_env \<Rightarrow> string \<Rightarrow> string \<Rightarrow> bridge_spawn_spec option" where
  "build_windows_bridge_spawn_spec env bfile afile =
     (if spawn_disabled env ''DASHDROP_BLE_WINDOWS_BRIDGE_DISABLE_SPAWN'' then None
      else case resolve_windows_bridge_binary_path env of
        Some p \<Rightarrow> Some \<lparr>sp_program = p, sp_args = [''--snapshot-file'', bfile, ''--advertisement-file'', afile],
                        sp_bridge_mode = ''winrt_native_helper''\<rparr>
      | None \<Rightarrow>
          (if he_is_dev env
           then map_option (\<lambda>src. \<lparr>sp_program = ''powershell.exe'',
                  sp_args = [''-NoProfile'', ''-ExecutionPolicy'', ''Bypass'', ''-File'', src, ''-SnapshotFile'', bfile,
                             ''-AdvertisementFile'', afile],
                  sp_bridge_mode = ''powershell_scaffold_source''\<rparr>) (resolve_windows_bridge_source_path env)
           else None))"

definition start_helper :: "helper_env \<Rightarrow> string \<Rightarrow> string \<Rightarrow> string \<Rightarrow> bridge_spawn_spec \<Rightarrow> string + string option" where
  "start_helper env dir_text spawn_text bfile spec =
     (case Option.bind (he_parent env bfile) (\<lambda>d. map_option (Pair d) (he_create_dir_all env d)) of
        Some (d, e) \<Rightarrow> Err (dir_text @ d @ '': '' @ e)
      | None \<Rightarrow>
          (case he_spawn env (sp_program spec) (sp_args spec) of
             Some e \<Rightarrow> Err (spawn_text @ sp_program spec @ '': '' @ e)
           | None \<Rightarrow> Ok (Some (sp_bridge_mode spec))))"

definition spawn_macos_bridge_helper :: "helper_env \<Rightarrow> string \<Rightarrow> string \<Rightarrow> string + string option" where
  "spawn_macos_bridge_helper env bfile afile =
     (case build_macos_bridge_spawn_spec env bfile afile of
        None \<Rightarrow> Ok None
      | Some spec \<Rightarrow> start_helper env ''create BLE bridge directory '' ''spawn macOS BLE bridge helper '' bfile spec)"

definition spawn_windows_bridge_helper :: "helper_env \<Rightarrow> string \<Rightarrow> string \<Rightarrow> string + string option" where
  "spawn_windows_bridge_helper env bfile afile =
     (case build_windows_bridge_spawn_spec env bfile afile of
        None \<Rightarrow> Ok None
      | Some spec \<Rightarrow> start_helper env ''create Windows BLE bridge directory '' ''spawn Windows BLE bridge helper '' bfile spec)"

section \<open>The files of the two processes\<close>

type_synonym bridge_files = "string \<Rightarrow> string option"

text \<open>The errors of the calls on a file, and the codecs of \<^verbatim>\<open>serde_json\<close> for the two documents.\<close>

record bridge_io =
  io_create_parent :: "string \<Rightarrow> (string \<times> string) option"
  io_read :: "string \<Rightarrow> string option"
  io_write :: "string \<Rightarrow> string option"
  io_rename :: "string \<Rightarrow> string option"

record bridge_codec =
  cx_ser_request :: "u64 \<times> ble_capsule \<Rightarrow> string + string"
  cx_de_request :: "string \<Rightarrow> (u64 \<times> ble_capsule) option"
  cx_ser_snapshot :: "bridge_snapshot \<Rightarrow> string + string"
  cx_de_snapshot :: "string \<Rightarrow> string + bridge_snapshot"

text \<open>
  The two platforms differ in a word of the error texts, which is the first argument.  The clock is read by the
  building of the capsule and again for the request.
\<close>

definition write_advertisement_request ::
    "string \<Rightarrow> bridge_io \<Rightarrow> bridge_codec \<Rightarrow> ble_lib \<Rightarrow> identity \<Rightarrow> u64 \<Rightarrow> u64 \<Rightarrow> string \<Rightarrow> bridge_files \<Rightarrow>
     bridge_files \<times> (string + ble_capsule)" where
  "write_advertisement_request w io cx L idn built_at updated_at path fs =
     (case build_ble_assist_capsule L idn built_at of
        Inl e \<Rightarrow> (fs, Err (ble_error_text e))
      | Inr c \<Rightarrow>
          (case io_create_parent io path of
             Some (d, e) \<Rightarrow> (fs, Err (''create '' @ w @ ''BLE advertisement directory '' @ d @ '': '' @ e))
           | None \<Rightarrow>
               (case cx_ser_request cx (updated_at, c) of
                  Inl e \<Rightarrow> (fs, Err (''serialize '' @ w @ ''BLE advertisement request: '' @ e))
                | Inr raw \<Rightarrow>
                    (case io_write io path of
                       Some e \<Rightarrow> (fs, Err (''write '' @ w @ ''BLE advertisement request '' @ path @ '': '' @ e))
                     | None \<Rightarrow> (fs(path \<mapsto> raw), Ok c)))))"

definition read_bridge_snapshot ::
    "string \<Rightarrow> bridge_io \<Rightarrow> bridge_codec \<Rightarrow> string \<Rightarrow> bridge_files \<Rightarrow> string + (bridge_snapshot \<times> string) option" where
  "read_bridge_snapshot w io cx path fs =
     (case fs path of
        None \<Rightarrow> Ok None
      | Some raw \<Rightarrow>
          (case io_read io path of
             Some e \<Rightarrow> Err (''read '' @ w @ ''BLE bridge file '' @ path @ '': '' @ e)
           | None \<Rightarrow>
               (if trim raw = '''' then Ok None
                else case cx_de_snapshot cx raw of
                  Inl e \<Rightarrow> Err (''decode '' @ w @ ''BLE bridge snapshot JSON: '' @ e)
                | Inr snap \<Rightarrow> Ok (Some (snap, raw)))))"

definition write_macos_advertisement_request where "write_macos_advertisement_request = write_advertisement_request ''''"
definition write_windows_advertisement_request where "write_windows_advertisement_request = write_advertisement_request ''Windows ''"
definition read_macos_bridge_snapshot where "read_macos_bridge_snapshot = read_bridge_snapshot ''''"
definition read_windows_bridge_snapshot where "read_windows_bridge_snapshot = read_bridge_snapshot ''Windows ''"

text \<open>\<^verbatim>\<open>probe_macos_bluetooth\<close>: the outcome of running the profiler is its error, or its exit status and its output.\<close>

definition probe_macos_bluetooth :: "(string \<Rightarrow> string) \<Rightarrow> string + bool \<times> string \<times> string \<Rightarrow> string + bluetooth_probe" where
  "probe_macos_bluetooth utf8_error output =
     (case output of
        Inl e \<Rightarrow> Err (''run system_profiler SPBluetoothDataType: '' @ e)
      | Inr (success, code, stdout) \<Rightarrow>
          (if \<not> success then Err (''system_profiler exited with status '' @ code)
           else if \<not> utf8_valid (byte_vals stdout) then Err (''decode system_profiler output: '' @ utf8_error stdout)
           else Ok (parse_macos_system_profiler_output stdout)))"

text \<open>
  One pass of the loop of the Windows bridge over the files: the request is written when the pass refreshes it, and the snapshot is
  read afterwards.
\<close>

definition windows_bridge_pass ::
    "bridge_io \<Rightarrow> bridge_codec \<Rightarrow> ble_lib \<Rightarrow> identity \<Rightarrow> string \<Rightarrow> string \<Rightarrow> u64 \<Rightarrow> u64 \<times> u64 \<Rightarrow> (nat \<Rightarrow> u64 \<times> u64) \<Rightarrow>
     bridge_files \<Rightarrow> bridge_loop \<times> ble_state \<Rightarrow> bridge_files \<times> bridge_loop \<times> ble_state" where
  "windows_bridge_pass io cx L idn bfile afile now write_times ts fs s =
     (let due = \<not> sat_sub now (lp_last_refresh_started_at (fst s)) < BLE_ADVERTISEMENT_REFRESH_INTERVAL_SECS * 1000;
          (fs1, r) = (if due then write_windows_advertisement_request io cx L idn (fst write_times) (snd write_times) afile fs else (fs, Err ''''))
      in (fs1, bridge_pass L windows_bridge bfile afile
            \<lparr>in_now = now, in_advertise = Ok r, in_probe = Err '''', in_read = Ok (read_windows_bridge_snapshot io cx bfile fs1), in_times = ts\<rparr> s))"


end
