(* ===== verification/BleRadio.thy ===== *)
theory BleRadio
  imports BleHelper "HOL-Library.List_Lexorder" "HOL-Library.Char_ord"
begin

text \<open>
  The Bluetooth helper of Windows, \<^verbatim>\<open>bin/dashdrop-ble-bridge.rs\<close>: the compact form of a capsule on the air, what an
  advertisement that is received does, and one pass of the loop that publishes the request of the application and writes the
  snapshot for it.  The calls of the publisher are a log; whether the calls of the system work is an argument.
  The second part composes it with \<^verbatim>\<open>ble.rs\<close>: a capsule travels from one application over both helpers to another.
\<close>

unbundle bit_operations_syntax

section \<open>The compact form\<close>

definition COMPANY_ID :: nat where "COMPANY_ID = 0xFFFF"
definition ROLLING_BYTES :: nat where "ROLLING_BYTES = 7"
definition INTEGRITY_BYTES :: nat where "INTEGRITY_BYTES = 7"

text \<open>\<^verbatim>\<open>to_le_bytes\<close> and \<^verbatim>\<open>from_le_bytes\<close> for any width.\<close>

fun le_bytes :: "nat \<Rightarrow> nat \<Rightarrow> bytes" where
  "le_bytes 0 n = []"
| "le_bytes (Suc k) n = word_of_nat (n mod 256) # le_bytes k (n div 256)"

fun of_le_bytes :: "bytes \<Rightarrow> nat" where
  "of_le_bytes [] = 0"
| "of_le_bytes (b # bs) = unat b + 256 * of_le_bytes bs"

definition capsule_flags :: "ble_capsule \<Rightarrow> u8" where
  "capsule_flags c = (if cap_qr_fallback_available c then 1 else 0) OR (if cap_short_code_fallback_available c then 2 else 0)"

definition compact_encode :: "ble_lib \<Rightarrow> ble_capsule \<Rightarrow> bytes option" where
  "compact_encode L c =
     (case b64url_decode (bl_pairing L) (cap_rolling_identifier c) of
        None \<Rightarrow> None
      | Some rolling \<Rightarrow>
          (case b64url_decode (bl_pairing L) (cap_integrity_tag c) of
             None \<Rightarrow> None
           | Some integrity \<Rightarrow>
               (if length rolling < ROLLING_BYTES \<or> length integrity < INTEGRITY_BYTES then None
                else Some (word_of_nat (cap_version c) # capsule_flags c #
                  le_bytes 4 (cap_issued_at_unix_ms c div 1000 mod 2 ^ 32) @
                  le_bytes 2 (sat_sub (cap_expires_at_unix_ms c) (cap_issued_at_unix_ms c) div 1000 mod 2 ^ 16) @
                  take ROLLING_BYTES rolling @ take INTEGRITY_BYTES integrity))))"

definition compact_decode :: "ble_lib \<Rightarrow> nat \<Rightarrow> bytes \<Rightarrow> ble_capsule option" where
  "compact_decode L company_id d =
     (if company_id \<noteq> COMPANY_ID \<or> length d < 1 + 1 + 4 + 2 + 7 + 7 then None
      else
        (let flags = d ! 1;
             issued_at = of_le_bytes (take 4 (drop 2 d)) * 1000;
             ttl_secs = of_le_bytes (take 2 (drop 6 d))
         in Some \<lparr>cap_version = unat (d ! 0), cap_issued_at_unix_ms = issued_at, cap_expires_at_unix_ms = issued_at + ttl_secs * 1000,
               cap_rolling_identifier = b64url_encode (bl_pairing L) (take 7 (drop 8 d)),
               cap_integrity_tag = b64url_encode (bl_pairing L) (take 7 (drop 15 d)),
               cap_transport_hint = ''ble_manufacturer_data'', cap_qr_fallback_available = (flags AND 1 \<noteq> 0),
               cap_short_code_fallback_available = (flags AND 2 \<noteq> 0), cap_rotation_window_ms = 30000\<rparr>))"

section \<open>The helper process\<close>

fun parse_flag :: "string \<Rightarrow> string list \<Rightarrow> string option" where
  "parse_flag flag [] = None"
| "parse_flag flag (a # as) = (if a = flag then (case as of [] \<Rightarrow> None | x # _ \<Rightarrow> Some x) else parse_flag flag as)"

datatype publisher_call = PublisherStop | PublisherStart bytes

datatype publisher_status = PubStarted | PubWaiting | PubStopped | PubAborted | PubUnknown

record helper_state =
  hs_discovered :: "(string \<times> ble_capsule) list"
  hs_last_payload :: "bytes option"
  hs_rolling_id :: "string option"
  hs_calls :: "publisher_call list"

definition new_helper :: helper_state where
  "new_helper = \<lparr>hs_discovered = [], hs_last_payload = None, hs_rolling_id = None, hs_calls = []\<rparr>"

text \<open>The handler of a received advertisement, for one item of manufacturer data.\<close>

definition advertisement_received :: "ble_lib \<Rightarrow> nat \<times> bytes \<Rightarrow> helper_state \<Rightarrow> helper_state" where
  "advertisement_received L item hs =
     (case compact_decode L (fst item) (snd item) of
        None \<Rightarrow> hs
      | Some c \<Rightarrow> hs\<lparr>hs_discovered := AList.update (cap_rolling_identifier c) c (hs_discovered hs)\<rparr>)"

text \<open>\<^verbatim>\<open>Path::with_extension\<close> on a path of Windows with a file name.\<close>

definition with_extension_tmp :: "string \<Rightarrow> string" where
  "with_extension_tmp p =
     (let name_rev = takeWhile (\<lambda>c. c \<noteq> slash \<and> c \<noteq> backslash) (rev p); dir = take (length p - length name_rev) p
      in dir @ fst (rsplit_at_dot (rev name_rev)) @ ''.tmp'')"

definition atomic_write_json ::
    "bridge_io \<Rightarrow> ('a \<Rightarrow> string + string) \<Rightarrow> string \<Rightarrow> 'a \<Rightarrow> bridge_files \<Rightarrow> bridge_files \<times> (string + unit)" where
  "atomic_write_json io ser path v fs =
     (case io_create_parent io path of
        Some (d, e) \<Rightarrow> (fs, Err (''create parent dir: '' @ e))
      | None \<Rightarrow>
          (case ser v of
             Inl e \<Rightarrow> (fs, Err (''serialize: '' @ e))
           | Inr raw \<Rightarrow>
               (let tmp = with_extension_tmp path in
                case io_write io tmp of
                  Some e \<Rightarrow> (fs, Err (''write: '' @ e))
                | None \<Rightarrow>
                    (case io_rename io path of
                       Some e \<Rightarrow> (fs(tmp \<mapsto> raw), Err (''replace: '' @ e))
                     | None \<Rightarrow> (fs(tmp := None, path \<mapsto> raw), Ok ())))))"

text \<open>
  What a pass meets: the clock at the two places that read it, whether the calls that the source unwraps work, the state the
  publisher reports, and the errors of the files.
\<close>

record helper_input =
  hi_prune_now :: u64
  hi_check_now :: u64
  hi_winrt_ok :: bool
  hi_status :: publisher_status
  hi_io :: bridge_io

definition retain_discovered :: "u64 \<Rightarrow> (string \<times> ble_capsule) list \<Rightarrow> (string \<times> ble_capsule) list" where
  "retain_discovered now m = filter (\<lambda>(k, c). cap_expires_at_unix_ms c > now) m"

definition publisher_stopped :: "helper_state \<Rightarrow> helper_state" where
  "publisher_stopped hs = hs\<lparr>hs_calls := hs_calls hs @ [PublisherStop], hs_last_payload := None, hs_rolling_id := None\<rparr>"

definition publish_request ::
    "ble_lib \<Rightarrow> helper_input \<Rightarrow> (u64 \<times> ble_capsule) option \<Rightarrow> helper_state \<Rightarrow> (helper_state \<times> string) run" where
  "publish_request L i req hs =
     (case req of
        None \<Rightarrow> Returns (publisher_stopped hs, ''idle'')
      | Some (_, c) \<Rightarrow>
          (if cap_expires_at_unix_ms c > hi_check_now i
           then (case compact_encode L c of
                   None \<Rightarrow> Returns (hs, ''encode_failed'')
                 | Some payload \<Rightarrow>
                     (if hs_last_payload hs = Some payload then Returns (hs, ''advertising_capsule'')
                      else if \<not> hi_winrt_ok i then Panics
                      else Returns (hs\<lparr>hs_calls := hs_calls hs @ [PublisherStop, PublisherStart payload],
                             hs_last_payload := Some payload, hs_rolling_id := Some (cap_rolling_identifier c)\<rparr>, ''advertising_capsule'')))
           else Returns (publisher_stopped hs, ''expired'')))"

fun status_str :: "publisher_status \<Rightarrow> string" where
  "status_str PubStarted = ''started''"
| "status_str PubWaiting = ''waiting''"
| "status_str PubStopped = ''stopped''"
| "status_str PubAborted = ''aborted''"
| "status_str PubUnknown = ''unknown''"

definition helper_pass ::
    "ble_lib \<Rightarrow> bridge_codec \<Rightarrow> string \<Rightarrow> string \<Rightarrow> helper_input \<Rightarrow> bridge_files \<times> helper_state \<Rightarrow> (bridge_files \<times> helper_state) run" where
  "helper_pass L cx snapshot_path advertisement_path i s =
     (let (fs, hs) = s;
          m = retain_discovered (hi_prune_now i) (hs_discovered hs);
          capsules = sort_key cap_rolling_identifier (map snd m);
          raw = (case fs advertisement_path of
                   Some r \<Rightarrow> (if io_read (hi_io i) advertisement_path = None then r else '''') | None \<Rightarrow> '''')
      in case publish_request L i (cx_de_request cx raw) (hs\<lparr>hs_discovered := m\<rparr>) of
           Panics \<Rightarrow> Panics
         | Returns (hs1, advertiser) \<Rightarrow>
             Returns (fst (atomic_write_json (hi_io i) (cx_ser_snapshot cx) snapshot_path
               \<lparr>bs_permission_state = Some ''granted'', bs_scanner_state = Some ''scanning'',
                bs_advertiser_state = Some (advertiser @ '':'' @ status_str (hi_status i)),
                bs_advertised_rolling_identifier = hs_rolling_id hs1, bs_capsules = capsules\<rparr> fs), hs1))"

text \<open>The arguments are read once; a missing one ends the process before the first pass.\<close>

definition helper_paths :: "string list \<Rightarrow> string + string \<times> string" where
  "helper_paths args =
     (case parse_flag ''--snapshot-file'' args of
        None \<Rightarrow> Err ''missing --snapshot-file''
      | Some s \<Rightarrow> (case parse_flag ''--advertisement-file'' args of None \<Rightarrow> Err ''missing --advertisement-file'' | Some a \<Rightarrow> Ok (s, a)))"

text \<open>What the publisher sends after a log of calls.\<close>

definition on_air :: "publisher_call list \<Rightarrow> bytes option" where
  "on_air calls = (if calls = [] then None else case last calls of PublisherStop \<Rightarrow> None | PublisherStart p \<Rightarrow> Some p)"

text \<open>A stretch of the life of a helper: advertisements that arrive, and passes of its loop.\<close>

datatype helper_event = Received nat bytes | Pass helper_input

fun helper_event_step ::
    "ble_lib \<Rightarrow> bridge_codec \<Rightarrow> string \<Rightarrow> string \<Rightarrow> helper_event \<Rightarrow> (bridge_files \<times> helper_state) run \<Rightarrow> (bridge_files \<times> helper_state) run" where
  "helper_event_step L cx sp ap ev Panics = Panics"
| "helper_event_step L cx sp ap (Received k d) (Returns s) = Returns (fst s, advertisement_received L (k, d) (snd s))"
| "helper_event_step L cx sp ap (Pass i) (Returns s) = helper_pass L cx sp ap i s"

text \<open>
  The invariant of the helper: the publisher sends what the helper remembers, the identifier it reports is remembered
  exactly with a payload, and the capsules it received are kept under their identifiers, once.
\<close>

definition helper_ok :: "helper_state \<Rightarrow> bool" where
  "helper_ok hs \<longleftrightarrow> on_air (hs_calls hs) = hs_last_payload hs \<and> (hs_rolling_id hs = None \<longleftrightarrow> hs_last_payload hs = None) \<and>
     distinct (map fst (hs_discovered hs)) \<and> list_all (\<lambda>(k, c). cap_rolling_identifier c = k) (hs_discovered hs)"

text \<open>
  What the theorems ask of the libraries: the codecs read back what they wrote and write no blank text, a hash has
  32 bytes, and bytes have an encoding that is not empty.
\<close>

definition radio_lib_ok :: "ble_lib \<Rightarrow> bridge_codec \<Rightarrow> bool" where
  "radio_lib_ok L cx \<longleftrightarrow> pairing_lib_ok (bl_pairing L) \<and> (\<forall>b. length (sha256 L b) = 32) \<and>
     (\<forall>b. b \<noteq> [] \<longrightarrow> b64url_encode (bl_pairing L) b \<noteq> '''') \<and>
     (\<forall>r raw. cx_ser_request cx r = Ok raw \<longrightarrow> cx_de_request cx raw = Some r) \<and>
     (\<forall>s raw. cx_ser_snapshot cx s = Ok raw \<longrightarrow> cx_de_snapshot cx raw = Ok s \<and> trim raw \<noteq> '''')"

text \<open>Concrete arguments: calls that work, one pass two seconds after the epoch, and codecs that know one request and one snapshot.\<close>

definition working_io :: bridge_io where
  "working_io = \<lparr>io_create_parent = (\<lambda>_. None), io_read = (\<lambda>_. None), io_write = (\<lambda>_. None), io_rename = (\<lambda>_. None)\<rparr>"

definition sample_pass :: helper_input where
  "sample_pass = \<lparr>hi_prune_now = 2000, hi_check_now = 2000, hi_winrt_ok = True, hi_status = PubStarted, hi_io = working_io\<rparr>"

definition sample_snapshot :: "ble_capsule list \<Rightarrow> bridge_snapshot" where
  "sample_snapshot cs = \<lparr>bs_permission_state = Some ''granted'', bs_scanner_state = Some ''scanning'', bs_advertiser_state = Some ''idle:started'',
     bs_advertised_rolling_identifier = None, bs_capsules = cs\<rparr>"

definition sample_codec :: "ble_capsule \<Rightarrow> bridge_snapshot \<Rightarrow> bridge_codec" where
  "sample_codec c snap = \<lparr>cx_ser_request = (\<lambda>r. if r = (1000, c) then Ok ''R'' else Err ''''),
     cx_de_request = (\<lambda>raw. if raw = ''R'' then Some (1000, c) else None),
     cx_ser_snapshot = (\<lambda>s. if s = snap then Ok ''S'' else Err ''''),
     cx_de_snapshot = (\<lambda>raw. if raw = ''S'' then Ok snap else Err '''')\<rparr>"

definition quiet_ble :: ble_state where
  "quiet_ble = \<lparr>ble_observations = [],
     ble_runtime = \<lparr>br_provider_name = ''noop'', br_scanner_state = ''idle'', br_advertiser_state = ''idle'', br_permission_state = None,
       br_bridge_mode = None, br_bridge_file_path = None, br_advertisement_file_path = None, br_last_started_at_unix_ms = None,
       br_last_error = None, br_last_capsule_ingested_at_unix_ms = None, br_last_observation_prune_at_unix_ms = None,
       br_last_bridge_snapshot_at_unix_ms = None, br_last_advertisement_request_at_unix_ms = None,
       br_advertised_rolling_identifier = None\<rparr>, ble_events = []\<rparr>"

section \<open>Facts\<close>

lemma le_bytes_length [simp]: "length (le_bytes k n) = k"
  by (induction k arbitrary: n) auto

lemma unat_byte: "unat (word_of_nat (n mod 256) :: u8) = n mod 256"
  by (simp add: unat_of_nat)

lemma le_bytes_roundtrip: "of_le_bytes (le_bytes k n) = n mod 256 ^ k"
proof (induction k arbitrary: n)
  case (Suc k)
  have "n mod 256 ^ Suc k = n mod 256 + 256 * (n div 256 mod 256 ^ k)" by (simp add: mod_mult2_eq)
  then show ?case using Suc by (simp add: unat_byte)
qed simp

lemma flags_read:
  "capsule_flags c AND 1 \<noteq> 0 \<longleftrightarrow> cap_qr_fallback_available c"
  "capsule_flags c AND 2 \<noteq> 0 \<longleftrightarrow> cap_short_code_fallback_available c"
  by (simp_all add: capsule_flags_def)

lemma encoded_payload:
  assumes "compact_encode L c = Some p"
  obtains rolling integrity where "b64url_decode (bl_pairing L) (cap_rolling_identifier c) = Some rolling"
    "b64url_decode (bl_pairing L) (cap_integrity_tag c) = Some integrity" "7 \<le> length rolling" "7 \<le> length integrity"
    "p = word_of_nat (cap_version c) # capsule_flags c #
      le_bytes 4 (cap_issued_at_unix_ms c div 1000 mod 2 ^ 32) @
      le_bytes 2 (sat_sub (cap_expires_at_unix_ms c) (cap_issued_at_unix_ms c) div 1000 mod 2 ^ 16) @ take 7 rolling @ take 7 integrity"
  using assms by (auto simp: compact_encode_def ROLLING_BYTES_def INTEGRITY_BYTES_def not_less split: option.splits if_splits)

lemma payload_fields:
  assumes "length a = 4" "length b = 2" "7 \<le> length r" "7 \<le> length t"
    and "d = v # f # a @ b @ take 7 r @ take 7 t"
  shows "length d = 22" "d ! 0 = v" "d ! 1 = f" "take 4 (drop 2 d) = a" "take 2 (drop 6 d) = b" "take 7 (drop 8 d) = take 7 r"
    "take 7 (drop 15 d) = take 7 t"
  using assms by (simp_all add: numeral_eq_Suc)

lemma whole_secs: "n < 2 ^ 32 * 1000 \<Longrightarrow> n div 1000 mod 2 ^ 32 = n div (1000 :: nat)"
  by (simp add: less_mult_imp_div_less)

lemma lifetime_secs: "n < 2 ^ 16 * 1000 \<Longrightarrow> n div 1000 mod 2 ^ 16 = n div (1000 :: nat)"
  by (simp add: less_mult_imp_div_less)

lemma decode_encoded:
  assumes "compact_encode L c = Some p" and "cap_version c < 256" and "cap_issued_at_unix_ms c < 2 ^ 32 * 1000"
    and "cap_issued_at_unix_ms c \<le> cap_expires_at_unix_ms c" and "cap_expires_at_unix_ms c < cap_issued_at_unix_ms c + 2 ^ 16 * 1000"
  shows "\<exists>rolling integrity. b64url_decode (bl_pairing L) (cap_rolling_identifier c) = Some rolling \<and>
     b64url_decode (bl_pairing L) (cap_integrity_tag c) = Some integrity \<and> 7 \<le> length rolling \<and> 7 \<le> length integrity \<and> length p = 22 \<and>
     compact_decode L COMPANY_ID p = Some \<lparr>cap_version = cap_version c, cap_issued_at_unix_ms = cap_issued_at_unix_ms c div 1000 * 1000,
       cap_expires_at_unix_ms = cap_issued_at_unix_ms c div 1000 * 1000 + (cap_expires_at_unix_ms c - cap_issued_at_unix_ms c) div 1000 * 1000,
       cap_rolling_identifier = b64url_encode (bl_pairing L) (take 7 rolling), cap_integrity_tag = b64url_encode (bl_pairing L) (take 7 integrity),
       cap_transport_hint = ''ble_manufacturer_data'', cap_qr_fallback_available = cap_qr_fallback_available c,
       cap_short_code_fallback_available = cap_short_code_fallback_available c, cap_rotation_window_ms = 30000\<rparr>"
proof -
  from assms(1) obtain rolling integrity where r: "b64url_decode (bl_pairing L) (cap_rolling_identifier c) = Some rolling"
    and t: "b64url_decode (bl_pairing L) (cap_integrity_tag c) = Some integrity" and len: "7 \<le> length rolling" "7 \<le> length integrity"
    and p: "p = word_of_nat (cap_version c) # capsule_flags c # le_bytes 4 (cap_issued_at_unix_ms c div 1000) @
      le_bytes 2 ((cap_expires_at_unix_ms c - cap_issued_at_unix_ms c) div 1000) @ take 7 rolling @ take 7 integrity"
    using assms(3-5) by (elim encoded_payload) (auto simp: whole_secs lifetime_secs sat_sub_def)
  note f = payload_fields [OF le_bytes_length le_bytes_length len refl, of "word_of_nat (cap_version c)" "capsule_flags c"
      "cap_issued_at_unix_ms c div 1000" "(cap_expires_at_unix_ms c - cap_issued_at_unix_ms c) div 1000", folded p]
  have s: "of_le_bytes (le_bytes 4 (cap_issued_at_unix_ms c div 1000)) = cap_issued_at_unix_ms c div 1000"
    "of_le_bytes (le_bytes 2 ((cap_expires_at_unix_ms c - cap_issued_at_unix_ms c) div 1000)) =
       (cap_expires_at_unix_ms c - cap_issued_at_unix_ms c) div 1000"
    "unat (word_of_nat (cap_version c) :: u8) = cap_version c"
    using assms(2,3,5) by (auto simp: le_bytes_roundtrip unat_of_nat less_mult_imp_div_less)
  have "compact_decode L COMPANY_ID p = Some \<lparr>cap_version = cap_version c, cap_issued_at_unix_ms = cap_issued_at_unix_ms c div 1000 * 1000,
       cap_expires_at_unix_ms = cap_issued_at_unix_ms c div 1000 * 1000 + (cap_expires_at_unix_ms c - cap_issued_at_unix_ms c) div 1000 * 1000,
       cap_rolling_identifier = b64url_encode (bl_pairing L) (take 7 rolling), cap_integrity_tag = b64url_encode (bl_pairing L) (take 7 integrity),
       cap_transport_hint = ''ble_manufacturer_data'', cap_qr_fallback_available = cap_qr_fallback_available c,
       cap_short_code_fallback_available = cap_short_code_fallback_available c, cap_rotation_window_ms = 30000\<rparr>"
    unfolding compact_decode_def Let_def f s flags_read by simp
  with r t len f(1) show ?thesis by blast
qed

lemma built_capsule:
  assumes "build_ble_assist_capsule L idn now = Ok c"
  obtains h key msg where "cap_rolling_identifier c = b64url_encode (bl_pairing L) (take 12 (sha256 L h))"
    "cap_integrity_tag c = b64url_encode (bl_pairing L) (take 12 (sign_with (bl_pairing L) key msg))"
    "cap_version c = 1" "cap_issued_at_unix_ms c = now" "cap_expires_at_unix_ms c = sat_add now BLE_ASSIST_CAPSULE_TTL_MS"
  using assms by (auto simp: build_ble_assist_capsule_def capsule_body_def rolling_identifier_def Let_def split: if_splits option.splits)

lemma built_capsule_encodes:
  assumes "build_ble_assist_capsule L idn now = Ok c" and "radio_lib_ok L cx"
  shows "\<exists>p. compact_encode L c = Some p"
proof -
  from assms(1) obtain h key msg where c: "cap_rolling_identifier c = b64url_encode (bl_pairing L) (take 12 (sha256 L h))"
    "cap_integrity_tag c = b64url_encode (bl_pairing L) (take 12 (sign_with (bl_pairing L) key msg))" by (elim built_capsule)
  have "length (sha256 L h) = 32" "length (sign_with (bl_pairing L) key msg) = 64"
    "b64url_decode (bl_pairing L) (b64url_encode (bl_pairing L) b) = Some b" for b
    using assms(2) by (simp_all add: radio_lib_ok_def pairing_lib_ok_def)
  then show ?thesis by (simp add: compact_encode_def c ROLLING_BYTES_def INTEGRITY_BYTES_def)
qed


lemma update_entries: "list_all P xs \<Longrightarrow> P (k, v) \<Longrightarrow> list_all P (AList.update k v xs)"
  by (induction xs) auto

lemma received_ok: "helper_ok hs \<Longrightarrow> helper_ok (advertisement_received L item hs)"
  by (auto simp: helper_ok_def advertisement_received_def distinct_update intro: update_entries split: option.split)

lemma retained_ok: "helper_ok hs \<Longrightarrow> helper_ok (hs\<lparr>hs_discovered := retain_discovered now (hs_discovered hs)\<rparr>)"
  by (auto simp: helper_ok_def retain_discovered_def list_all_iff distinct_map inj_on_def)

lemma published_ok: "helper_ok hs \<Longrightarrow> publish_request L i req hs = Returns (hs', adv) \<Longrightarrow> helper_ok hs'"
  by (auto simp: publish_request_def helper_ok_def publisher_stopped_def on_air_def split: option.splits prod.splits if_splits)

lemma pass_returned:
  assumes "helper_pass L cx sp ap i (fs, hs) = Returns (fs', hs')"
  obtains adv raw where "raw = (case fs ap of Some r \<Rightarrow> (if io_read (hi_io i) ap = None then r else '''') | None \<Rightarrow> '''')"
    "publish_request L i (cx_de_request cx raw) (hs\<lparr>hs_discovered := retain_discovered (hi_prune_now i) (hs_discovered hs)\<rparr>) = Returns (hs', adv)"
    "fs' = fst (atomic_write_json (hi_io i) (cx_ser_snapshot cx) sp
       \<lparr>bs_permission_state = Some ''granted'', bs_scanner_state = Some ''scanning'',
        bs_advertiser_state = Some (adv @ '':'' @ status_str (hi_status i)), bs_advertised_rolling_identifier = hs_rolling_id hs',
        bs_capsules = sort_key cap_rolling_identifier (map snd (retain_discovered (hi_prune_now i) (hs_discovered hs)))\<rparr> fs)"
  using assms unfolding helper_pass_def Let_def by (auto split: run.splits prod.splits)

lemma pass_ok: "helper_ok (snd s) \<Longrightarrow> helper_pass L cx sp ap i s = Returns s' \<Longrightarrow> helper_ok (snd s')"
  by (cases s; cases s') (auto elim!: pass_returned intro: published_ok retained_ok)

lemma helper_run_ok:
  "helper_ok (snd s) \<Longrightarrow> fold (helper_event_step L cx sp ap) evs (Returns s) = Returns s' \<Longrightarrow> helper_ok (snd s')"
proof (induction evs arbitrary: s)
  case (Cons ev evs)
  have panic: "fold (helper_event_step L cx sp ap) evs Panics = Panics" by (induction evs) auto
  then obtain s1 where s1: "helper_event_step L cx sp ap ev (Returns s) = Returns s1"
    using Cons.prems(2) by (cases "helper_event_step L cx sp ap ev (Returns s)") auto
  have "helper_ok (snd s1)" using s1 Cons.prems(1) by (cases ev) (auto simp: received_ok intro: pass_ok)
  then show ?case using Cons s1 by simp
qed simp

text \<open>The table of observations keeps an entry while capsules of other devices are recorded before it expires.\<close>

lemma record_keeps:
  assumes "map_of (ble_observations st) k = Some ob" and "now < ob_expires_at_unix_ms ob" and "cap_rolling_identifier c \<noteq> k"
    and "distinct (map fst (ble_observations st))"
  shows "map_of (ble_observations (record_ble_assist_observation now c st)) k = Some ob"
proof -
  have "map_of (retain_unexpired now (ble_observations st)) k = Some ob"
    using assms(1,2,4) by (auto simp: retain_unexpired_def map_of_eq_Some_iff distinct_map_filter)
  then show ?thesis using assms(3) by (simp add: record_ble_assist_observation_def Let_def update_conv)
qed

lemma record_distinct:
  "distinct (map fst (ble_observations st)) \<Longrightarrow> distinct (map fst (ble_observations (record_ble_assist_observation now c st)))"
  by (simp add: record_ble_assist_observation_def Let_def distinct_update retain_unexpired_def distinct_map_filter)

lemma ingest_keeps:
  assumes "map_of (ble_observations st) k = Some ob" and "\<forall>j. snd (ts j) < ob_expires_at_unix_ms ob"
    and "k \<notin> set (map cap_rolling_identifier cs)" and "distinct (map fst (ble_observations st))"
  shows "map_of (ble_observations (ingest_capsules bk ts n cs st)) k = Some ob"
  using assms by (induction cs arbitrary: n st) (auto simp: record_keeps record_distinct simp del: map_of_eq_Some_iff split: sum.split)

lemma record_finds:
  "\<exists>ob. map_of (ble_observations (record_ble_assist_observation now c st)) (cap_rolling_identifier c) = Some ob \<and>
     ob_expires_at_unix_ms ob = cap_expires_at_unix_ms c \<and> ob_last_seen_at_unix_ms ob = now \<and> ob_integrity_tag ob = cap_integrity_tag c"
  by (simp add: record_ble_assist_observation_def Let_def update_conv)

lemma ingest_records:
  assumes "c \<in> set cs" and "distinct (map cap_rolling_identifier cs)" and "\<And>now. now < cap_expires_at_unix_ms c \<Longrightarrow> validate_ble_assist_capsule now c = Ok ()"
    and "\<forall>j. fst (ts j) < cap_expires_at_unix_ms c \<and> snd (ts j) < cap_expires_at_unix_ms c" and "distinct (map fst (ble_observations st))"
  shows "\<exists>ob. map_of (ble_observations (ingest_capsules bk ts n cs st)) (cap_rolling_identifier c) = Some ob \<and>
     ob_expires_at_unix_ms ob = cap_expires_at_unix_ms c \<and> ob_integrity_tag ob = cap_integrity_tag c"
  using assms
proof (induction cs arbitrary: n st)
  case (Cons c1 cs)
  show ?case
  proof (cases "c1 = c")
    case True
    from record_finds [of "snd (ts n)" c st] obtain ob
      where ob: "map_of (ble_observations (record_ble_assist_observation (snd (ts n)) c st)) (cap_rolling_identifier c) = Some ob"
        "ob_expires_at_unix_ms ob = cap_expires_at_unix_ms c" "ob_integrity_tag ob = cap_integrity_tag c" by blast
    have "map_of (ble_observations (ingest_capsules bk ts (n + 1) cs (record_ble_assist_observation (snd (ts n)) c st)))
        (cap_rolling_identifier c) = Some ob"
      by (rule ingest_keeps) (use ob Cons.prems True in \<open>auto simp: record_distinct\<close>)
    then show ?thesis using ob Cons.prems(3,4) True by simp
  next
    case False
    let ?st = "case validate_ble_assist_capsule (fst (ts n)) c1 of
        Inl e \<Rightarrow> ble_system_error (bk_provider bk) (bk_code bk @ ''BRIDGE_INVALID_CAPSULE'')
                   (bk_label bk @ '' BLE bridge provided invalid capsule '' @ cap_rolling_identifier c1 @ '': '' @ ble_error_text e) st
      | Inr _ \<Rightarrow> record_ble_assist_observation (snd (ts n)) c1 st"
    have "distinct (map fst (ble_observations ?st))" using Cons.prems(5) by (simp add: record_distinct split: sum.split)
    then show ?thesis using Cons False by simp
  qed
qed simp


lemma request_published:
  assumes "radio_lib_ok L cx" and "write_windows_advertisement_request io cx L idn t t' ap fs = (fs1, Ok c)" and "helper_ok hs"
    and "io_read (hi_io i) ap = None" and "hi_check_now i < cap_expires_at_unix_ms c" and "helper_pass L cx sp ap i (fs1, hs) = Returns (fs2, hs1)"
  shows "build_ble_assist_capsule L idn t = Ok c \<and> on_air (hs_calls hs1) = compact_encode L c \<and> compact_encode L c \<noteq> None"
proof -
  from assms(2) obtain raw where built: "build_ble_assist_capsule L idn t = Ok c" and ser: "cx_ser_request cx (t', c) = Ok raw" and fs1: "fs1 = fs(ap \<mapsto> raw)"
    by (auto simp: write_windows_advertisement_request_def write_advertisement_request_def split: sum.splits option.splits prod.splits)
  from built_capsule_encodes [OF built assms(1)] obtain p where p: "compact_encode L c = Some p" by blast
  have de: "cx_de_request cx raw = Some (t', c)" using assms(1) ser by (simp add: radio_lib_ok_def)
  let ?h = "hs\<lparr>hs_discovered := retain_discovered (hi_prune_now i) (hs_discovered hs)\<rparr>"
  from assms(6) obtain adv where pub: "publish_request L i (Some (t', c)) ?h = Returns (hs1, adv)"
    by (rule pass_returned) (use fs1 assms(4) de in simp)
  have "helper_ok hs1" using published_ok [OF retained_ok [OF assms(3)] pub] .
  moreover have "hs_last_payload hs1 = Some p" using pub assms(5) p by (auto simp: publish_request_def split: if_splits)
  ultimately show ?thesis using built p by (simp add: helper_ok_def)
qed

lemma distinct_sort_keys: "distinct (map f (sort_key f xs)) = distinct (map f xs)"
  by (simp add: distinct_map)

lemma pass_snapshot:
  assumes "helper_pass L cx sp ap i (fs, hs) = Returns (fs', hs')"
  shows "\<exists>snap. bs_capsules snap = sort_key cap_rolling_identifier (map snd (retain_discovered (hi_prune_now i) (hs_discovered hs))) \<and>
     fs' = fst (atomic_write_json (hi_io i) (cx_ser_snapshot cx) sp snap fs)"
  using assms by (elim pass_returned) (rule exI, rule conjI [rotated], assumption, simp)

lemma received_listed:
  assumes "helper_ok hs" and "compact_decode L COMPANY_ID p = Some c" and "now < cap_expires_at_unix_ms c"
  defines "cs \<equiv> sort_key cap_rolling_identifier (map snd (retain_discovered now (hs_discovered (advertisement_received L (COMPANY_ID, p) hs))))"
  shows "c \<in> set cs \<and> distinct (map cap_rolling_identifier cs)"
proof -
  let ?hs = "advertisement_received L (COMPANY_ID, p) hs"
  let ?m = "retain_discovered now (hs_discovered ?hs)"
  have ok: "helper_ok (?hs\<lparr>hs_discovered := ?m\<rparr>)" by (intro retained_ok received_ok assms(1))
  then have "map cap_rolling_identifier (map snd ?m) = map fst ?m" by (auto simp: helper_ok_def list_all_iff)
  moreover have "distinct (map fst ?m)" using ok by (simp add: helper_ok_def)
  ultimately have "distinct (map cap_rolling_identifier (map snd ?m))" by metis
  then have "distinct (map cap_rolling_identifier cs)" unfolding cs_def by (simp only: distinct_sort_keys)
  moreover have "map_of (hs_discovered ?hs) (cap_rolling_identifier c) = Some c"
    using assms(2) by (simp add: advertisement_received_def update_conv)
  then have "(cap_rolling_identifier c, c) \<in> set ?m" using assms(3) map_of_SomeD unfolding retain_discovered_def by fastforce
  then have "c \<in> set cs" unfolding cs_def by force
  ultimately show ?thesis by blast
qed

lemma written_snapshot:
  assumes "fst (atomic_write_json io ser path v fs) path = Some raw" and "fs path \<noteq> Some raw"
  shows "ser v = Ok raw"
  using assms by (auto simp: atomic_write_json_def Let_def split: if_splits sum.splits option.splits)

lemma pass_applies_snapshot:
  assumes "fs bfile = Some raw" and "io_read io bfile = None" and "trim raw \<noteq> ''''" and "cx_de_snapshot cx raw = Ok snap" and "afile \<noteq> bfile"
    and "lp_last_snapshot_hash (fst s) \<noteq> Some (b64url_encode (bl_pairing L) (sha256 L (str_bytes raw)))"
  shows "\<exists>st. ble_observations st = ble_observations (snd s) \<and>
     ble_observations (snd (snd (windows_bridge_pass io cx L idn bfile afile now wt ts fs s))) =
       ble_observations (ingest_capsules windows_bridge ts 0 (bs_capsules snap) st)"
proof -
  have kept: "fst (write_windows_advertisement_request io cx L idn a b afile fs) bfile = Some raw" for a b
    using assms(1,5) by (auto simp: write_windows_advertisement_request_def write_advertisement_request_def split: sum.split option.split)
  let ?w = "if \<not> sat_sub now (lp_last_refresh_started_at (fst s)) < BLE_ADVERTISEMENT_REFRESH_INTERVAL_SECS * 1000
      then write_windows_advertisement_request io cx L idn (fst wt) (snd wt) afile fs else (fs, Err '''')"
  let ?i = "\<lparr>in_now = now, in_advertise = Ok (snd ?w), in_probe = Err '''', in_read = Ok (Ok (Some (snap, raw))), in_times = ts\<rparr>"
  have "read_windows_bridge_snapshot io cx bfile (fst ?w) = Ok (Some (snap, raw))"
    using assms(1-4) kept by (simp add: read_windows_bridge_snapshot_def read_bridge_snapshot_def)
  then have p: "snd (windows_bridge_pass io cx L idn bfile afile now wt ts fs s) = bridge_pass L windows_bridge bfile afile ?i s"
    unfolding windows_bridge_pass_def Let_def case_prod_beta by simp
  let ?s2 = "probe_pass windows_bridge ?i (advertise_pass windows_bridge afile ?i s)"
  have k: "ble_observations (snd ?s2) = ble_observations (snd s)" "lp_last_snapshot_hash (fst ?s2) = lp_last_snapshot_hash (fst s)"
    by (simp_all add: probe_pass_def advertise_pass_def case_prod_beta split: sum.split)
  have "ble_observations (snd (bridge_pass L windows_bridge bfile afile ?i s)) =
      ble_observations (ingest_capsules windows_bridge ts 0 (bs_capsules snap) (snd ?s2))"
    using assms(6) k(2) unfolding bridge_pass_def snapshot_pass_def case_prod_beta by (simp add: Let_def apply_snapshot_def)
  then show ?thesis using k(1) p by metis
qed


section \<open>Properties\<close>

text \<open>
  The helper is started with the files the application uses: when the application starts the native helper, the helper reads the
  snapshot file and the advertisement file of the application from its arguments.
\<close>

theorem helper_finds_its_files:
  assumes "build_windows_bridge_spawn_spec env bfile afile = Some spec" and "sp_bridge_mode spec = ''winrt_native_helper''"
    and "bfile \<noteq> ''--advertisement-file''"
  shows "helper_paths (sp_args spec) = Ok (bfile, afile)"
  using assms
  by (auto simp: build_windows_bridge_spawn_spec_def helper_paths_def split: if_splits option.splits)

theorem helper_finds_its_files_witness:
  "\<exists>spec. build_windows_bridge_spawn_spec \<lparr>he_var = (\<lambda>_. None), he_exists = (\<lambda>p. p = ''r'' @ backslash # ''dashdrop-ble-bridge.exe''),
       he_resource_dir = Some ''r'', he_manifest_dir = ''m'', he_arch = ''x'', he_is_dev = False, he_parent = (\<lambda>_. None),
       he_create_dir_all = (\<lambda>_. None), he_spawn = (\<lambda>_ _. None)\<rparr> ''s'' ''a'' = Some spec \<and> helper_paths (sp_args spec) = Ok (''s'', ''a'')"
proof -
  let ?env = "\<lparr>he_var = (\<lambda>_. None), he_exists = (\<lambda>p. p = ''r'' @ backslash # ''dashdrop-ble-bridge.exe''),
       he_resource_dir = Some ''r'', he_manifest_dir = ''m'', he_arch = ''x'', he_is_dev = False, he_parent = (\<lambda>_. None),
       he_create_dir_all = (\<lambda>_. None), he_spawn = (\<lambda>_ _. None)\<rparr>"
  have "resolve_windows_bridge_binary_path ?env = Some (''r'' @ backslash # ''dashdrop-ble-bridge.exe'')" by code_simp
  then obtain spec where spec: "build_windows_bridge_spawn_spec ?env ''s'' ''a'' = Some spec" "sp_bridge_mode spec = ''winrt_native_helper''"
    by (simp add: build_windows_bridge_spawn_spec_def spawn_disabled_def)
  then have "helper_paths (sp_args spec) = Ok (''s'', ''a'')" by (rule helper_finds_its_files) simp
  then show ?thesis using spec(1) by blast
qed

text \<open>
  What the helper reports is what it sends, in any order of received advertisements and passes: the publisher sends the payload the
  helper remembers, an identifier is reported exactly while a payload is sent, and the received capsules are kept once.
\<close>

theorem helper_reports_what_it_sends:
  assumes "fold (helper_event_step L cx sp ap) evs (Returns (fs, new_helper)) = Returns (fs', hs)"
  shows "on_air (hs_calls hs) = hs_last_payload hs \<and> (hs_rolling_id hs = None \<longleftrightarrow> on_air (hs_calls hs) = None) \<and>
     distinct (map fst (hs_discovered hs)) \<and> list_all (\<lambda>(k, c). cap_rolling_identifier c = k) (hs_discovered hs)"
proof -
  have "helper_ok new_helper" by (simp add: helper_ok_def new_helper_def on_air_def)
  then have "helper_ok hs" using helper_run_ok [of "(fs, new_helper)"] assms by fastforce
  then show ?thesis by (simp add: helper_ok_def)
qed

theorem helper_reports_what_it_sends_witness:
  "\<exists>hs. fold (helper_event_step toy_ble_lib (sample_codec sample_capsule (sample_snapshot [])) ''s'' ''a'') [Received 7 [], Pass sample_pass]
       (Returns (Map.empty, new_helper)) = Returns (Map.empty(''s'' \<mapsto> ''S''), hs) \<and> on_air (hs_calls hs) = None \<and> hs_rolling_id hs = None"
proof -
  obtain hs where hs: "fold (helper_event_step toy_ble_lib (sample_codec sample_capsule (sample_snapshot [])) ''s'' ''a'') [Received 7 [], Pass sample_pass]
       (Returns (Map.empty, new_helper)) = Returns (Map.empty(''s'' \<mapsto> ''S''), hs)" "hs_rolling_id hs = None"
    by (simp add: helper_pass_def new_helper_def advertisement_received_def compact_decode_def COMPANY_ID_def retain_discovered_def sample_codec_def
        publish_request_def publisher_stopped_def atomic_write_json_def sample_pass_def working_io_def sample_snapshot_def with_extension_tmp_def
        rsplit_at_dot_def Let_def fun_eq_iff)
  from helper_reports_what_it_sends [OF hs(1)] hs show ?thesis by auto
qed

text \<open>
  A capsule survives the air up to the resolution of its clock: a receiver decodes 22 bytes to a capsule with the version and the fallback
  flags that were sent, issued less than a second earlier, and that expires not later and less than two seconds
  earlier; the identifier and the tag are cut to seven bytes.
\<close>

theorem compact_roundtrip:
  assumes "compact_encode L c = Some p" and "cap_version c < 256" and "cap_issued_at_unix_ms c < 2 ^ 32 * 1000"
    and "cap_issued_at_unix_ms c \<le> cap_expires_at_unix_ms c" and "cap_expires_at_unix_ms c < cap_issued_at_unix_ms c + 2 ^ 16 * 1000"
  shows "length p = 22 \<and> (\<exists>c' rolling. compact_decode L COMPANY_ID p = Some c' \<and>
     cap_version c' = cap_version c \<and> cap_qr_fallback_available c' = cap_qr_fallback_available c \<and>
     cap_short_code_fallback_available c' = cap_short_code_fallback_available c \<and>
     b64url_decode (bl_pairing L) (cap_rolling_identifier c) = Some rolling \<and>
     cap_rolling_identifier c' = b64url_encode (bl_pairing L) (take 7 rolling) \<and>
     cap_issued_at_unix_ms c' \<le> cap_issued_at_unix_ms c \<and> cap_issued_at_unix_ms c < cap_issued_at_unix_ms c' + 1000 \<and>
     cap_expires_at_unix_ms c' \<le> cap_expires_at_unix_ms c \<and> cap_expires_at_unix_ms c < cap_expires_at_unix_ms c' + 2000)"
proof -
  have d: "n div 1000 * 1000 \<le> n" "n < n div 1000 * 1000 + 1000" for n :: nat by (simp_all add: dividend_less_div_times)
  have "a div 1000 * 1000 + (b - a) div 1000 * 1000 \<le> b \<and> b < a div 1000 * 1000 + (b - a) div 1000 * 1000 + 2000" if "a \<le> b" for a b :: nat
    using d [of a] d [of "b - a"] that by linarith
  from this [OF assms(4)] d [of "cap_issued_at_unix_ms c"] decode_encoded [OF assms] show ?thesis by auto
qed


theorem compact_roundtrip_witness:
  "\<exists>p c'. compact_encode toy_ble_lib (sample_capsule\<lparr>cap_rolling_identifier := nib_encode [1, 2, 3, 4, 5, 6, 7, 8],
       cap_integrity_tag := nib_encode [1, 2, 3, 4, 5, 6, 7]\<rparr>) = Some p \<and> compact_decode toy_ble_lib COMPANY_ID p = Some c' \<and>
     cap_rolling_identifier c' = nib_encode [1, 2, 3, 4, 5, 6, 7] \<and> cap_expires_at_unix_ms c' \<le> 20"
proof -
  let ?c = "sample_capsule\<lparr>cap_rolling_identifier := nib_encode [1, 2, 3, 4, 5, 6, 7, 8], cap_integrity_tag := nib_encode [1, 2, 3, 4, 5, 6, 7]\<rparr>"
  have L: "bl_pairing toy_ble_lib = toy_lib" by (simp add: toy_ble_lib_def)
  have b: "b64url_decode toy_lib (nib_encode bs) = Some bs" for bs
    using toy_lib_ok by (simp add: pairing_lib_ok_def toy_lib_def)
  then obtain p where p: "compact_encode toy_ble_lib ?c = Some p" by (simp add: compact_encode_def L ROLLING_BYTES_def INTEGRITY_BYTES_def)
  from compact_roundtrip [OF p] b show ?thesis using p by (auto simp: sample_capsule_def L toy_lib_def)
qed

text \<open>
  C31: A capsule reaches the application of a peer.  One application writes its advertisement request and its helper makes a pass before the
  capsule expires: then the helper sends a payload.  The helper of a peer receives it and makes a pass, and the application of
  the peer reads the new snapshot, all before two minutes have passed since the second in which the capsule was issued:
  then the table of that application has an observation under the first seven bytes of the identifier, which expires at that moment.
\<close>

theorem capsule_reaches_peer:
  assumes lib: "radio_lib_ok L cx" and t: "t < 2 ^ 32 * 1000"
    and sent: "write_windows_advertisement_request ioA cx L idnA t t' apA fsA = (fsA1, Ok c)"
    and A: "helper_ok hA" "io_read (hi_io iA) apA = None" "hi_check_now iA < cap_expires_at_unix_ms c"
      "helper_pass L cx spA apA iA (fsA1, hA) = Returns (fsA2, hA1)" "p = the (on_air (hs_calls hA1))"
    and d: "d = t div 1000 * 1000 + 120000"
    and B: "helper_ok hB" "hi_prune_now iB < d"
      "helper_pass L cx spB apB iB (fsB, advertisement_received L (COMPANY_ID, p) hB) = Returns (fsB1, hB1)"
    and app: "fsB1 spB = Some raw" "fsB spB \<noteq> Some raw" "io_read ioB spB = None" "afB \<noteq> spB" "distinct (map fst (ble_observations (snd s)))"
      "\<forall>j. fst (ts j) < d \<and> snd (ts j) < d"
      "lp_last_snapshot_hash (fst s) \<noteq> Some (b64url_encode (bl_pairing L) (sha256 L (str_bytes raw)))"
  shows "on_air (hs_calls hA1) = Some p \<and> (\<exists>rolling ob. b64url_decode (bl_pairing L) (cap_rolling_identifier c) = Some rolling \<and>
     map_of (ble_observations (snd (snd (windows_bridge_pass ioB cx L idnB spB afB now wt ts fsB1 s))))
       (b64url_encode (bl_pairing L) (take 7 rolling)) = Some ob \<and> ob_expires_at_unix_ms ob = d)"
proof -
  from request_published [OF lib sent A(1-4)] A(5) have built: "build_ble_assist_capsule L idnA t = Ok c"
    and p: "compact_encode L c = Some p" "on_air (hs_calls hA1) = Some p" by auto
  have "sat_add t BLE_ASSIST_CAPSULE_TTL_MS = t + 120000"
    using t by (simp add: sat_add_exact BLE_ASSIST_CAPSULE_TTL_MS_def U64_MAX_def)
  then have c: "cap_version c = 1" "cap_issued_at_unix_ms c = t" "cap_expires_at_unix_ms c = t + 120000"
    using built by (auto elim!: built_capsule)
  from decode_encoded [OF p(1)] c t obtain rolling integrity c'
    where r: "b64url_decode (bl_pairing L) (cap_rolling_identifier c) = Some rolling" "7 \<le> length rolling" "7 \<le> length integrity"
      and c': "compact_decode L COMPANY_ID p = Some c'" "cap_version c' = 1" "cap_issued_at_unix_ms c' = t div 1000 * 1000"
        "cap_expires_at_unix_ms c' = d" "cap_rolling_identifier c' = b64url_encode (bl_pairing L) (take 7 rolling)"
        "cap_integrity_tag c' = b64url_encode (bl_pairing L) (take 7 integrity)"
    using d by auto
  have "take 7 rolling \<noteq> []" "take 7 integrity \<noteq> []" using r(2,3) by auto
  then have valid: "validate_ble_assist_capsule now c' = Ok ()" if "now < cap_expires_at_unix_ms c'" for now
    using that lib c' d by (simp add: validated_capsule radio_lib_ok_def pairing_lib_ok_def)
  let ?cs = "sort_key cap_rolling_identifier (map snd (retain_discovered (hi_prune_now iB) (hs_discovered (advertisement_received L (COMPANY_ID, p) hB))))"
  have listed: "c' \<in> set ?cs \<and> distinct (map cap_rolling_identifier ?cs)" using received_listed [OF B(1) c'(1)] B(2) c'(4) by simp
  from pass_snapshot [OF B(3)] obtain snap where snap: "bs_capsules snap = ?cs" "fsB1 = fst (atomic_write_json (hi_io iB) (cx_ser_snapshot cx) spB snap fsB)"
    by blast
  then have "cx_ser_snapshot cx snap = Ok raw" using app(1,2) written_snapshot by metis
  then have "trim raw \<noteq> ''''" "cx_de_snapshot cx raw = Ok snap" using lib by (simp_all add: radio_lib_ok_def)
  from pass_applies_snapshot [where fs = fsB1 and bfile = spB and L = L and idn = idnB and now = now and wt = wt and ts = ts, OF app(1,3) this app(4,7)] obtain st
    where "ble_observations st = ble_observations (snd s)"
      "ble_observations (snd (snd (windows_bridge_pass ioB cx L idnB spB afB now wt ts fsB1 s))) =
         ble_observations (ingest_capsules windows_bridge ts 0 ?cs st)" by (auto simp: snap)
  then show ?thesis
    using ingest_records [of c' ?cs ts st windows_bridge 0] listed valid app(5,6) c'(4,5) r(1) p(2) by auto
qed


theorem capsule_reaches_peer_witness:
  "\<exists>c c' hA p fsB hB ob. build_ble_assist_capsule toy_ble_lib sample_identity 1000 = Ok c \<and>
     (\<exists>fs. helper_pass toy_ble_lib (sample_codec c (sample_snapshot [c'])) ''s'' ''a'' sample_pass ([''a'' \<mapsto> ''R''], new_helper) = Returns (fs, hA)) \<and>
     on_air (hs_calls hA) = Some p \<and>
     helper_pass toy_ble_lib (sample_codec c (sample_snapshot [c'])) ''s'' ''b'' sample_pass
       (Map.empty, advertisement_received toy_ble_lib (COMPANY_ID, p) new_helper) = Returns (fsB, hB) \<and>
     ob \<in> snd ` set (ble_observations (snd (snd (windows_bridge_pass working_io (sample_codec c (sample_snapshot [c'])) toy_ble_lib sample_identity
       ''s'' ''b'' 3000 (3000, 3000) (\<lambda>_. (3000, 3000)) fsB (start_loop, quiet_ble))))) \<and> ob_expires_at_unix_ms ob = 121000"
proof -
  have "normalize_fingerprint (id_fingerprint sample_identity) = ''ABC''" by code_simp
  then obtain c where built: "build_ble_assist_capsule toy_ble_lib sample_identity 1000 = Ok c"
    by (simp add: build_ble_assist_capsule_def toy_ble_lib_def toy_lib_def Let_def)
  have "trim ''S'' = ''S''" by code_simp
  then have lib: "radio_lib_ok toy_ble_lib (sample_codec a b)" for a b
    using toy_lib_ok by (auto simp: radio_lib_ok_def toy_ble_lib_def toy_lib_def nib_encode_def sample_codec_def neq_Nil_conv split: if_splits)
  from built_capsule_encodes [OF built lib] obtain p where p: "compact_encode toy_ble_lib c = Some p" by blast
  have e: "cap_version c = 1" "cap_issued_at_unix_ms c = 1000" "cap_expires_at_unix_ms c = 121000"
    using built by (auto elim!: built_capsule simp: sat_add_def BLE_ASSIST_CAPSULE_TTL_MS_def U64_MAX_def)
  with decode_encoded [OF p] obtain c' where c': "compact_decode toy_ble_lib COMPANY_ID p = Some c'" "cap_expires_at_unix_ms c' = 121000" by auto
  let ?cx = "sample_codec c (sample_snapshot [c'])"
  have w: "write_windows_advertisement_request working_io ?cx toy_ble_lib sample_identity 1000 1000 ''a'' Map.empty = ([''a'' \<mapsto> ''R''], Ok c)"
    by (simp add: write_windows_advertisement_request_def write_advertisement_request_def built working_io_def sample_codec_def)
  have ok: "helper_ok new_helper" by (simp add: helper_ok_def new_helper_def on_air_def)
  obtain fsA hA where A: "helper_pass toy_ble_lib ?cx ''s'' ''a'' sample_pass ([''a'' \<mapsto> ''R''], new_helper) = Returns (fsA, hA)"
      "on_air (hs_calls hA) = Some p"
    by (simp add: helper_pass_def new_helper_def sample_pass_def working_io_def sample_codec_def publish_request_def e p on_air_def Let_def)
  obtain hB where B: "helper_pass toy_ble_lib ?cx ''s'' ''b'' sample_pass (Map.empty, advertisement_received toy_ble_lib (COMPANY_ID, p) new_helper) =
      Returns (Map.empty(''s.tmp'' := None, ''s'' \<mapsto> ''S''), hB)"
    by (simp add: helper_pass_def new_helper_def sample_pass_def working_io_def sample_codec_def publish_request_def publisher_stopped_def
        advertisement_received_def c' retain_discovered_def atomic_write_json_def sample_snapshot_def with_extension_tmp_def rsplit_at_dot_def Let_def)
  let ?fsB = "Map.empty(''s.tmp'' := None, ''s'' \<mapsto> ''S'') :: bridge_files"
  have a: "(1000 :: nat) < 2 ^ 32 * 1000" "io_read (hi_io sample_pass) ''a'' = None" "hi_check_now sample_pass < cap_expires_at_unix_ms c"
    "p = the (on_air (hs_calls hA))" "(121000 :: nat) = 1000 div 1000 * 1000 + 120000" "hi_prune_now sample_pass < 121000"
    using A(2) e by (simp_all add: sample_pass_def working_io_def)
  have b: "?fsB ''s'' = Some ''S''" "Map.empty ''s'' \<noteq> Some ''S''" "io_read working_io ''s'' = None" "''b'' \<noteq> ''s''"
    "distinct (map fst (ble_observations (snd (start_loop, quiet_ble))))" "\<forall>j :: nat. fst ((\<lambda>_. (3000, 3000)) j) < (121000 :: nat) \<and> snd ((\<lambda>_. (3000, 3000)) j) < (121000 :: nat)"
    "lp_last_snapshot_hash (fst (start_loop, quiet_ble)) \<noteq> Some h" for h
    by (simp_all add: working_io_def quiet_ble_def start_loop_def)
  from capsule_reaches_peer [OF lib a(1) w ok a(2,3) A(1) a(4,5) ok a(6) B b, of sample_identity 3000 "(3000, 3000)"]
  obtain k ob where "map_of (ble_observations (snd (snd (windows_bridge_pass working_io ?cx toy_ble_lib sample_identity
       ''s'' ''b'' 3000 (3000, 3000) (\<lambda>_. (3000, 3000)) ?fsB (start_loop, quiet_ble))))) k = Some ob" "ob_expires_at_unix_ms ob = 121000"
    by blast
  then have "ob \<in> snd ` set (ble_observations (snd (snd (windows_bridge_pass working_io ?cx toy_ble_lib sample_identity
       ''s'' ''b'' 3000 (3000, 3000) (\<lambda>_. (3000, 3000)) ?fsB (start_loop, quiet_ble)))))" "ob_expires_at_unix_ms ob = 121000"
    by (force dest: map_of_SomeD)+
  then show ?thesis using built A B by blast
qed


end
