(* ===== verification/SoftAp.thy ===== *)
theory SoftAp
  imports Discovery ExternalShare
begin

text \<open>
  The soft access points: the providers of \<^verbatim>\<open>discovery/mod.rs\<close>, \<^verbatim>\<open>discovery/linux_softap.rs\<close> and
  \<^verbatim>\<open>discovery/windows_softap.rs\<close>, and the task of \<^verbatim>\<open>discovery/p2p_scheduler.rs\<close> that opens one for a trusted peer which is
  offline.  Programs that are run are a log of their arguments, with the outcome of each an argument; instants of the monotonic clock
  are integers of milliseconds.
\<close>

section \<open>Providers\<close>

record hotspot_credentials =
  hc_ssid :: string
  hc_password :: "string option"

datatype soft_ap_provider = LinuxAp | WindowsAp | NoAp

text \<open>
  \<open>sa_commands\<close> are the calls of the command line tools, program first; \<open>sa_publisher\<close> tells whether the Wi-Fi Direct publisher is kept.
\<close>

record soft_ap =
  sa_commands :: "string list list"
  sa_publisher :: bool

text \<open>
  The outcome of a command is the error of running it, or whether it succeeded and its status; \<open>sx_publisher\<close> is the first error of
  creating and starting the publisher, \<open>sx_stop\<close> that of stopping it.
\<close>

record soft_ap_env =
  sx_run :: "string list \<Rightarrow> string + bool \<times> string"
  sx_password :: string
  sx_publisher :: "string option"
  sx_stop :: "string option"

definition run_command :: "soft_ap_env \<Rightarrow> string list \<Rightarrow> soft_ap \<Rightarrow> soft_ap \<times> (string + bool \<times> string)" where
  "run_command E args ap = (ap\<lparr>sa_commands := sa_commands ap @ [args]\<rparr>, sx_run E args)"

definition linux_start_hotspot :: "soft_ap_env \<Rightarrow> string \<Rightarrow> soft_ap \<Rightarrow> soft_ap \<times> (string + string \<times> string)" where
  "linux_start_hotspot E sfx ap =
     (let ssid = ''DashDrop-'' @ sfx; password = sx_password E;
          (ap1, r) = run_command E [''nmcli'', ''device'', ''wifi'', ''hotspot'', ''ssid'', ssid, ''password'', password] ap
      in (ap1, case r of
            Inl e \<Rightarrow> Err (''Failed to execute nmcli: '' @ e)
          | Inr (True, _) \<Rightarrow> Ok (ssid, password)
          | Inr (False, st) \<Rightarrow> Err (''nmcli hotspot creation failed with status: '' @ st)))"

definition linux_stop_hotspot :: "soft_ap_env \<Rightarrow> soft_ap \<Rightarrow> soft_ap \<times> (string + unit)" where
  "linux_stop_hotspot E ap = (fst (run_command E [''nmcli'', ''connection'', ''down'', ''Hotspot''] ap), Ok ())"

definition linux_join_wifi :: "soft_ap_env \<Rightarrow> string \<Rightarrow> string option \<Rightarrow> soft_ap \<Rightarrow> soft_ap \<times> (string + unit)" where
  "linux_join_wifi E ssid password ap =
     (let (ap1, r) = run_command E ([''nmcli'', ''device'', ''wifi'', ''connect'', ssid] @
             (case password of Some p \<Rightarrow> [''password'', p] | None \<Rightarrow> [])) ap
      in (ap1, case r of
            Inl e \<Rightarrow> Err (''Failed to execute nmcli connect: '' @ e)
          | Inr (True, _) \<Rightarrow> Ok ()
          | Inr (False, st) \<Rightarrow> Err (''nmcli wifi connect failed with status: '' @ st)))"

definition start_p2p_group :: "soft_ap_env \<Rightarrow> soft_ap \<Rightarrow> soft_ap \<times> (string + unit)" where
  "start_p2p_group E ap =
     (if sa_publisher ap then (ap, Ok ())
      else case sx_publisher E of Some e \<Rightarrow> (ap, Err e) | None \<Rightarrow> (ap\<lparr>sa_publisher := True\<rparr>, Ok ()))"

definition stop_p2p_group :: "soft_ap_env \<Rightarrow> soft_ap \<Rightarrow> soft_ap \<times> (string + unit)" where
  "stop_p2p_group E ap =
     (if sa_publisher ap
      then (ap\<lparr>sa_publisher := False\<rparr>, case sx_stop E of Some e \<Rightarrow> Err (''Failed to stop WFD publisher: '' @ e) | None \<Rightarrow> Ok ())
      else (ap, Ok ()))"

definition windows_join_wifi :: "soft_ap_env \<Rightarrow> string \<Rightarrow> string option \<Rightarrow> soft_ap \<Rightarrow> soft_ap \<times> (string + unit)" where
  "windows_join_wifi E ssid password ap =
     (let (ap1, r) = run_command E [''netsh'', ''wlan'', ''connect'', ''name='' @ ssid] ap
      in (ap1, case r of
            Inl e \<Rightarrow> Err (''Failed to execute netsh: '' @ e)
          | Inr (True, _) \<Rightarrow> Ok ()
          | Inr (False, st) \<Rightarrow> Err ''netsh wlan connect failed''))"

fun start_hotspot :: "soft_ap_env \<Rightarrow> soft_ap_provider \<Rightarrow> string \<Rightarrow> soft_ap \<Rightarrow> soft_ap \<times> (string + hotspot_credentials)" where
  "start_hotspot E LinuxAp sfx ap =
     (case linux_start_hotspot E sfx ap of
        (ap1, Inl e) \<Rightarrow> (ap1, Err e)
      | (ap1, Inr (ssid, password)) \<Rightarrow> (ap1, Ok \<lparr>hc_ssid = ssid, hc_password = Some password\<rparr>))"
| "start_hotspot E WindowsAp sfx ap =
     (case start_p2p_group E ap of
        (ap1, Inl e) \<Rightarrow> (ap1, Err e)
      | (ap1, Inr _) \<Rightarrow> (ap1, Ok \<lparr>hc_ssid = ''DashDrop-'' @ sfx, hc_password = None\<rparr>))"
| "start_hotspot E NoAp sfx ap = (ap, Err ''SoftAP not supported on this platform'')"

fun join_hotspot :: "soft_ap_env \<Rightarrow> soft_ap_provider \<Rightarrow> string \<Rightarrow> string option \<Rightarrow> soft_ap \<Rightarrow> soft_ap \<times> (string + unit)" where
  "join_hotspot E LinuxAp ssid password ap = linux_join_wifi E ssid password ap"
| "join_hotspot E WindowsAp ssid password ap = windows_join_wifi E ssid password ap"
| "join_hotspot E NoAp ssid password ap = (ap, Err ''WiFi joining not supported on this platform'')"

fun stop_hotspot :: "soft_ap_env \<Rightarrow> soft_ap_provider \<Rightarrow> soft_ap \<Rightarrow> soft_ap \<times> (string + unit)" where
  "stop_hotspot E LinuxAp ap = linux_stop_hotspot E ap"
| "stop_hotspot E WindowsAp ap = stop_p2p_group E ap"
| "stop_hotspot E NoAp ap = (ap, Ok ())"

section \<open>The scheduler\<close>

text \<open>The state of the task, with the instants at which a hotspot was started, latest first.\<close>

record scheduler =
  sd_last_trigger :: int
  sd_ap :: soft_ap
  sd_starts :: "int list"

text \<open>
  What a pass meets: the wall clock in seconds, the instant at which the devices are looked at, at which a start ended and at which the
  time of the last start is looked at again, the device table and the system.
\<close>

record scheduler_input =
  sq_now_secs :: u64
  sq_checked :: int
  sq_started :: int
  sq_later :: int
  sq_devices :: "device_info list"
  sq_env :: soft_ap_env

definition wants_hotspot :: "u64 \<Rightarrow> int \<Rightarrow> device_info \<Rightarrow> bool" where
  "wants_hotspot now_secs elapsed d \<longleftrightarrow>
     dv_trusted d \<and> dv_reachability d = Offline \<and> dv_last_seen d > 0 \<and> sat_sub now_secs (dv_last_seen d) < 60 \<and> elapsed > 120000"

definition scheduler_pass :: "soft_ap_provider \<Rightarrow> string \<Rightarrow> scheduler_input \<Rightarrow> scheduler run \<Rightarrow> scheduler run" where
  "scheduler_pass provider fp i r =
     (case r of
        Panics \<Rightarrow> Panics
      | Returns s \<Rightarrow>
          (if list_ex (wants_hotspot (sq_now_secs i) (sq_checked i - sd_last_trigger s)) (sq_devices i)
           then (if length fp < 4 \<or> \<not> is_char_boundary fp 4 then Panics
                 else case start_hotspot (sq_env i) provider (take 4 fp) (sd_ap s) of
                   (ap, Inr _) \<Rightarrow> Returns (s\<lparr>sd_ap := ap, sd_last_trigger := sq_started i, sd_starts := sq_started i # sd_starts s\<rparr>)
                 | (ap, Inl _) \<Rightarrow> Returns (s\<lparr>sd_ap := ap\<rparr>))
           else if sq_later i - sd_last_trigger s > 300000
           then Returns (s\<lparr>sd_ap := fst (stop_hotspot (sq_env i) provider (sd_ap s))\<rparr>)
           else Returns s))"

text \<open>The first instant is five minutes before the start; where instants cannot be negative this may panic.\<close>

definition start_scheduler :: "bool \<Rightarrow> int \<Rightarrow> scheduler run" where
  "start_scheduler unsigned_instants t0 =
     (if unsigned_instants \<and> t0 < 300000 then Panics
      else Returns \<lparr>sd_last_trigger = t0 - 300000, sd_ap = \<lparr>sa_commands = [], sa_publisher = False\<rparr>, sd_starts = []\<rparr>)"

text \<open>Instants do not run backwards.\<close>

definition in_order :: "scheduler_input \<Rightarrow> bool" where
  "in_order i \<longleftrightarrow> sq_checked i \<le> sq_started i"

definition starts_spaced :: "scheduler \<Rightarrow> bool" where
  "starts_spaced s \<longleftrightarrow> successively (\<lambda>b a. a + 120000 < b) (sd_starts s) \<and> (sd_starts s \<noteq> [] \<longrightarrow> hd (sd_starts s) = sd_last_trigger s)"

text \<open>A trusted peer that was seen ten seconds ago and is offline, looked at every ten seconds from the instant \<open>t\<close> on.\<close>

definition lost_peer :: device_info where
  "lost_peer = (new_device ''f'' ''n'' UnknownPlatform True)\<lparr>dv_reachability := Offline, dv_last_seen := 5\<rparr>"

definition sample_input :: "int \<Rightarrow> scheduler_input" where
  "sample_input t = \<lparr>sq_now_secs = 15, sq_checked = t, sq_started = t + 1, sq_later = t + 1, sq_devices = [lost_peer],
     sq_env = \<lparr>sx_run = (\<lambda>_. Inl []), sx_password = [], sx_publisher = None, sx_stop = None\<rparr>\<rparr>"

section \<open>Facts\<close>

lemma pass_spaced:
  assumes "starts_spaced s" and "in_order i" and "scheduler_pass provider fp i (Returns s) = Returns s'"
  shows "starts_spaced s'"
  using assms
  by (cases "sd_starts s") (auto simp: scheduler_pass_def starts_spaced_def in_order_def wants_hotspot_def list_ex_iff split: if_splits prod.splits sum.splits)

lemma run_spaced:
  "starts_spaced s \<Longrightarrow> list_all in_order is \<Longrightarrow> fold (scheduler_pass provider fp) is (Returns s) = Returns s' \<Longrightarrow> starts_spaced s'"
proof (induction "is" arbitrary: s)
  case (Cons i "is")
  have "fold (scheduler_pass provider fp) is Panics = Panics" by (induction "is") (simp_all add: scheduler_pass_def)
  then obtain s1 where "scheduler_pass provider fp i (Returns s) = Returns s1"
    using Cons.prems(3) by (cases "scheduler_pass provider fp i (Returns s)") auto
  with Cons show ?case using pass_spaced [of s i provider fp s1] by simp
qed simp

section \<open>Properties\<close>

text \<open>
  Hotspots are started at most once in two minutes, whatever devices come and go: the instants of successful starts lie more than
  two minutes apart.
\<close>

theorem hotspots_spaced:
  assumes "start_scheduler u t0 = Returns s0" and "list_all in_order is"
    and "fold (scheduler_pass provider fp) is (Returns s0) = Returns s"
  shows "successively (\<lambda>b a. a + 120000 < b) (sd_starts s)"
proof -
  have "starts_spaced s0" using assms(1) by (auto simp: start_scheduler_def starts_spaced_def split: if_splits)
  then show ?thesis using run_spaced [OF _ assms(2,3)] by (simp add: starts_spaced_def)
qed

theorem hotspots_spaced_witness:
  "\<exists>s. fold (scheduler_pass WindowsAp ''abcd'') [sample_input 0, sample_input 10000, sample_input 130000] (start_scheduler False 0) = Returns s \<and>
     sd_starts s = [130001, 1] \<and> successively (\<lambda>b a. a + 120000 < b) (sd_starts s)"
proof -
  let ?is = "[sample_input 0, sample_input 10000, sample_input 130000]"
  obtain s0 where s0: "start_scheduler False 0 = Returns s0" by (simp add: start_scheduler_def)
  have o: "list_all in_order ?is" by (simp add: in_order_def sample_input_def)
  obtain s where "fold (scheduler_pass WindowsAp ''abcd'') ?is (Returns s0) = Returns s" "sd_starts s = [130001, 1]"
    unfolding s0 [symmetric]
    by (simp add: start_scheduler_def scheduler_pass_def sample_input_def lost_peer_def new_device_def wants_hotspot_def sat_sub_def
        is_char_boundary_def start_p2p_group_def)
  then show ?thesis using hotspots_spaced [OF s0 o] s0 by auto
qed

end
