(* ===== verification/Spec2Isabelle.thy ===== *)
theory Spec2Isabelle
  imports EndToEnd RunningNode Startup Tray Autostart Diagnostics DeviceIdentity TransferEvents BleRadio SoftAp
begin

text \<open>
  A verification of DashDrop, a peer-to-peer file transfer application written in Rust (\<^verbatim>\<open>src-tauri/src\<close>; all file
  names below are relative to it).

  \<^bold>\<open>The program.\<close>  A node finds its peers with mDNS, UDP beacons and Bluetooth capsules, connects to them over QUIC with
  certificates it pins by fingerprint, and sends files after the receiving side has accepted an offer.  Its state is one
  \<^verbatim>\<open>AppState\<close>, shared by the tasks of the process, with a SQLite database beside it.  The same runtime runs in one of two places:
  inside the desktop application, or in a daemon to which the application forwards the commands of its user interface over a
  local socket.  A second launch hands its arguments to the running application over another socket.

  The parts, from the network inwards: \<^verbatim>\<open>discovery/\<close> fills the device table; \<^verbatim>\<open>transport/\<close> listens, shakes hands, receives and sends,
  reports progress to the worker of \<^verbatim>\<open>persistence_progress.rs\<close> and to the user interface; \<^verbatim>\<open>state.rs\<close> and \<^verbatim>\<open>db.rs\<close> keep
  transfers, trust, tokens and the event feed; \<^verbatim>\<open>core_service.rs\<close> serves the commands; \<^verbatim>\<open>local_ipc.rs\<close> and \<^verbatim>\<open>daemon/\<close> carry
  them over the socket; \<^verbatim>\<open>commands.rs\<close> decides for each command of the user interface whether it is served here or there;
  \<^verbatim>\<open>lib.rs\<close> and \<^verbatim>\<open>runtime/\<close> start all of this.

  \<^bold>\<open>Conventions.\<close>  Definitions keep the names of the source.  Structs are records, enums are datatypes, and every operation is an
  executable function that takes the state and returns the new state with its result; a \<^verbatim>\<open>Result\<close> is a sum type with the error
  on the left, a panic is the value \<open>Panics\<close>.  A \<^verbatim>\<open>u64\<close> is a natural number with saturation, wrap-around and casts written out
  (\<^verbatim>\<open>Prelude\<close>), a \<^verbatim>\<open>str\<close> is the list of its bytes, a \<^verbatim>\<open>HashMap\<close> is an association list with distinct keys where its order
  can be observed and a map otherwise.  Clocks, random identifiers, the answers of the operating system and of libraries are
  arguments; each fallible call has an argument that makes it fail, so that every error branch of the source is a branch of
  the model.  A task that runs for ever is a fold over the sequence of its inputs, and the order of these inputs is
  universally quantified.

  \<^bold>\<open>Shared foundations.\<close>
  \<^item> \<^verbatim>\<open>Prelude\<close>: integers, bytes, strings and association lists, with the collections of rewrite and introduction rules.
  \<^item> \<^verbatim>\<open>TextData\<close>, \<^verbatim>\<open>Trimming\<close>: UTF-8, trimming, JSON values and percent-encoding as the code uses them.
  \<^item> \<^verbatim>\<open>Paths\<close>, \<^verbatim>\<open>FileSystem\<close>: the components of \<^verbatim>\<open>std::path\<close>, and a file system as a map with injected faults.

  \<^bold>\<open>Transport.\<close>
  \<^item> \<^verbatim>\<open>Protocol\<close> (\<^verbatim>\<open>transport/protocol.rs\<close>): messages, error codes, framing.  Frames are read back, readers are bounded; the length
    check of the writer wraps at \<open>2 ^ 32\<close>.
  \<^item> \<^verbatim>\<open>PathValidation\<close> (\<^verbatim>\<open>transport/path_validation.rs\<close>): which relative paths are accepted, that they stay below
    the root, and which of them the protocol document would refuse.
  \<^item> \<^verbatim>\<open>RateLimit\<close>, \<^verbatim>\<open>Handshake\<close> (\<^verbatim>\<open>transport/server.rs\<close>, \<^verbatim>\<open>transport/handshake.rs\<close>): limits over every minute while the
    counters do not wrap, the life of an
    incoming connection, no acceptance without consent, freezing of a peer whose certificate changed.
  \<^item> \<^verbatim>\<open>Receiver\<close>, \<^verbatim>\<open>Sender\<close>, \<^verbatim>\<open>EndToEnd\<close> (\<^verbatim>\<open>transport/receiver.rs\<close>, \<^verbatim>\<open>transport/sender.rs\<close>): reception is confined, never overwrites and
    checks the hash; a file is sent completely; success means acknowledged; the two ends composed deliver a file, and a resumed
    transfer is refused.
  \<^item> \<^verbatim>\<open>TransferEvents\<close> (\<^verbatim>\<open>transport/events.rs\<close>): the payloads the user interface receives.

  \<^bold>\<open>State and persistence.\<close>
  \<^item> \<^verbatim>\<open>Transfers\<close>, \<^verbatim>\<open>AppState\<close>, \<^verbatim>\<open>AccessTokens\<close>, \<^verbatim>\<open>Trust\<close>, \<^verbatim>\<open>Views\<close> (\<^verbatim>\<open>state.rs\<close>, \<^verbatim>\<open>dto.rs\<close>): the tables in memory and their views.
  \<^item> \<^verbatim>\<open>History\<close>, \<^verbatim>\<open>AuditLog\<close>, \<^verbatim>\<open>TrustStore\<close> (\<^verbatim>\<open>db.rs\<close>): the tables of the database; history never rolls back
    while its queries are answered.
  \<^item> \<^verbatim>\<open>ProgressPersistence\<close> (\<^verbatim>\<open>persistence_progress.rs\<close>): the worker that coalesces progress loses nothing at shutdown.
  \<^item> \<^verbatim>\<open>EventJournal\<close>, \<^verbatim>\<open>EventFeed\<close> (\<^verbatim>\<open>db.rs\<close>, \<^verbatim>\<open>state.rs\<close>): replay returns exactly the events after the cursor, as an abstract list of
    events would; an active consumer is not cut off by compaction; a restart is invisible.  All of this for runs in which the
    database takes every append.

  \<^bold>\<open>Commands and the control plane.\<close>
  \<^item> \<^verbatim>\<open>TransferControl\<close>, \<^verbatim>\<open>TrustService\<close>, \<^verbatim>\<open>CoreService\<close> (\<^verbatim>\<open>core_service.rs\<close>): every command over the state of all components,
    and the durability of the trust commands.
  \<^item> \<^verbatim>\<open>Pairing\<close>, \<^verbatim>\<open>PairingLinks\<close> (\<^verbatim>\<open>pairing.rs\<close>), \<^verbatim>\<open>ExternalShare\<close> (\<^verbatim>\<open>runtime/bootstrap.rs\<close>): what comes in from links and arguments.
  \<^item> \<^verbatim>\<open>LocalIpc\<close>, \<^verbatim>\<open>IpcServer\<close>, \<^verbatim>\<open>IpcSockets\<close>, \<^verbatim>\<open>DaemonClient\<close> (\<^verbatim>\<open>local_ipc.rs\<close>, \<^verbatim>\<open>daemon/\<close>): commands survive the wire, a request needs a
    token, every request is answered; who owns the socket.
  \<^item> \<^verbatim>\<open>ControlPlane\<close>, \<^verbatim>\<open>Diagnostics\<close> (\<^verbatim>\<open>commands.rs\<close>): a command served here is the dispatch of its protocol command, and
    one that is forwarded is the same dispatch at the daemon, in the daemon's own environment; forwarding ends; the diagnostics predict what a consumer meets.

  \<^bold>\<open>Discovery and the process.\<close>
  \<^item> \<^verbatim>\<open>Discovery\<close>, \<^verbatim>\<open>BrowserTask\<close>, \<^verbatim>\<open>Announce\<close>, \<^verbatim>\<open>SoftAp\<close> (\<^verbatim>\<open>discovery/\<close>, \<^verbatim>\<open>transport/server.rs\<close>): the invariant of the device
    table, silent devices are lost, an announced node is found, the status of the browser after each pass.
  \<^item> \<^verbatim>\<open>BleAssist\<close>, \<^verbatim>\<open>BleHelper\<close>, \<^verbatim>\<open>BleRadio\<close> (\<^verbatim>\<open>ble.rs\<close>, \<^verbatim>\<open>bin/dashdrop-ble-bridge.rs\<close>): capsules and their observations, the helper process and
    its files, and a capsule that travels from one application over two helpers to another.
  \<^item> \<^verbatim>\<open>DeviceIdentity\<close> (\<^verbatim>\<open>crypto/\<close>): the identity survives restarts, and the one outage after which it does not.
  \<^item> \<^verbatim>\<open>Startup\<close>, \<^verbatim>\<open>HeadlessDaemon\<close>, \<^verbatim>\<open>Tray\<close>, \<^verbatim>\<open>Autostart\<close> (\<^verbatim>\<open>lib.rs\<close>, \<^verbatim>\<open>runtime/\<close>): start-up chooses one control plane, a second launch beside
    an instance that serves the activation endpoint is handed over, an idle daemon ends and a busy one does not.
  \<^item> \<^verbatim>\<open>Footprint\<close>, \<^verbatim>\<open>RunningNode\<close>: the running node as a transition system whose events are the inputs of all tasks and
    the commands of the user interface in process, in any order and each one as a whole, with its invariant and the theorem
    that trust is never gained from the network.

  \<^bold>\<open>Interfaces.\<close>  Three contracts are locales, interpreted on the definitions of the model: \<open>event_store\<close> (what the event feed
  relies on in the journal: an append is found by every later read, in order), \<open>versioned_store\<close> (a table that takes a
  snapshot only when it is not older, by which the progress worker and the commands share the history) and \<open>window_limiter\<close> (a
  counter over fixed windows that counts exactly while it has room, of which the program has three).

  \<^bold>\<open>Termination and bounds.\<close>  No model of code uses fuel (the reader of XML text by which \<^verbatim>\<open>Autostart\<close> states what a
  desktop reads has the length of the text as its fuel).  Loops over a stream or a file (\<open>send_chunks\<close>, \<open>read_upto\<close>,
  \<open>handle_connection\<close>) and the retry of a forwarded command (\<open>attempt\<close>) are total functions with a measure.  The idle monitor of
  the daemon need not return and is a \<open>partial_function\<close> into options; that it does return for an abandoned daemon is proved.
  The properties use the limits of the source as they are (frame sizes, window lengths, retention, retry counts).

  \<^bold>\<open>What the hypotheses say.\<close>  Codecs (CBOR, JSON, base64) invert their encoders where a round trip is claimed; a signature made by
  a key verifies under it; identifiers the program draws at random are new.  Every property with hypotheses has a witness that
  instantiates them.  Flaws of the program that the model shows are theorems as well, stated as what the code does.

  \<^bold>\<open>Not modelled.\<close>  Cryptographic primitives, TLS configurations and the certificate call-backs of rustls
  (\<^verbatim>\<open>crypto/cert_verifier.rs\<close>), dialling with quinn (\<^verbatim>\<open>transport/client.rs\<close>, \<^verbatim>\<open>transport/probe.rs\<close>) and the execution of SQL are third-party
  code: their outcomes are arguments.  The creation of the database schema is such a call.  The flavours of Windows
  (named pipes, security identifiers, registry keys, firewall rules) are calls of operating-system interfaces.  The Bluetooth helper of
  Linux (\<^verbatim>\<open>bin/dashdrop-ble-bridge-linux.rs\<close>) is a scaffold that writes a constant text, and that of macOS is Swift.  Drawing of windows and menus is Tauri; the user interface is not Rust.  Tasks that the
  source runs concurrently on one transfer (several files at a time) are taken in offer order; interleavings between
  transfers, commands and the network are those of \<^verbatim>\<open>RunningNode\<close>, where an operation is one step: the moment between
  two locks that one operation takes (devices and session index in \<^verbatim>\<open>discovery/browser.rs\<close>, sequence number and feed in
  \<^verbatim>\<open>record_runtime_event\<close>) is not a state, and a send that a command spawns runs to its end within the command.  The
  file system of a reception has no symbolic links.
\<close>

end
